(* ===== verification/Go_Prelude.thy ===== *)
theory Go_Prelude
  imports Main "HOL-Library.Word" "HOL-Library.Char_ord" "HOL-Library.List_Lexorder"
    "HOL-Library.Multiset" "HOL-Library.Sublist"
begin

text \<open>
  The part of Go and of its standard library that the modelled packages use, and the facts
  the component theories share.

  \<^item> A Go \<open>string\<close> or \<open>[]byte\<close> is a HOL \<open>string\<close>: a list of bytes, since \<open>char\<close> is an
    8-bit value. \<open><\<close> on strings is Go's bytewise comparison (Char_ord, List_Lexorder).
  \<^item> \<open>strings.TrimSpace\<close> is modelled on the bytes, with the UTF-8 encodings of all Unicode
    white-space runes. \<open>strings.ToLower\<close> and \<open>strings.EqualFold\<close> are modelled on ASCII; what
    they do on a string with a byte above 127 depends on the Unicode tables and is an
    argument (\<open>ul\<close>, \<open>uf\<close>) of the definitions that use them.
  \<^item> A \<open>uuid.UUID\<close> is a 128-bit word and \<open>uuid.Nil\<close> is 0. The text form of a UUID is written by
    the package github.com/google/uuid and is an argument (\<open>ustr\<close>) where it matters.
  \<^item> An \<open>error\<close> is a value of the type below and a fallible function returns a sum.
  \<^item> \<open>sort.SliceStable\<close>, \<open>slices.SortStableFunc\<close> and \<open>sort.Slice\<close> are insertion sort, which is
    what the library runs on short slices; the locale \<open>weak_order\<close> shows that for a comparison
    that is a strict weak order the result is the stable sorted permutation, hence the same
    for every stable algorithm.
\<close>

named_theorems go_simps \<open>rewrite rules for the Go library model\<close>

section \<open>Types\<close>

type_synonym uuid = "128 word"
type_synonym timestamp = int
type_synonym duration = int

abbreviation uuid_Nil :: uuid where "uuid_Nil \<equiv> 0"

text \<open>
  The sentinel errors of internal/apierrors and internal/validation, with the message that \<open>NewBadRequest\<close>,
  \<open>NewConflict\<close> and \<open>NewForbidden\<close> wrap; \<open>Errorf\<close> is a plain \<open>fmt.Errorf\<close>; \<open>Panic\<close> is a
  run-time panic, which no caller in the modelled code recovers from.
\<close>

datatype error =
    Errorf string
  | ErrNotFound
  | ErrAlreadyExists string
  | ErrConflict string
  | ErrBadRequest string
  | ErrForbidden string
  | ErrValidationFailed string
  | Panic string

type_synonym 'a result = "error + 'a"

definition bindR :: "'a result \<Rightarrow> ('a \<Rightarrow> 'b result) \<Rightarrow> 'b result" where
  "bindR m f = (case m of Inl e \<Rightarrow> Inl e | Inr x \<Rightarrow> f x)"

lemma bindR_simps [simp]: "bindR (Inl e) f = Inl e" "bindR (Inr x) f = f x"
  by (simp_all add: bindR_def)

lemma bindR_eq_Inr: "bindR m f = Inr y \<longleftrightarrow> (\<exists>x. m = Inr x \<and> f x = Inr y)"
  by (cases m) auto

lemma bindR_eq_Inl: "bindR m f = Inl e \<longleftrightarrow> m = Inl e \<or> (\<exists>x. m = Inr x \<and> f x = Inl e)"
  by (cases m) auto

lemma bindR_assoc: "bindR (bindR m f) g = bindR m (\<lambda>x. bindR (f x) g)"
  by (cases m) auto

fun mapR :: "('a \<Rightarrow> 'b result) \<Rightarrow> 'a list \<Rightarrow> 'b list result" where
  "mapR f [] = Inr []"
| "mapR f (x # xs) = bindR (f x) (\<lambda>y. bindR (mapR f xs) (\<lambda>ys. Inr (y # ys)))"

text \<open>A Go \<open>int\<close> is 64 bits wide: \<open>wrap64\<close> is the value an \<open>int\<close> expression has after wrap-around.\<close>

definition wrap64 :: "int \<Rightarrow> int" where
  "wrap64 x = (x + 2 ^ 63) mod 2 ^ 64 - 2 ^ 63"

lemma wrap64_id: "- (2 ^ 63) \<le> x \<Longrightarrow> x < 2 ^ 63 \<Longrightarrow> wrap64 x = x"
  by (simp add: wrap64_def)

section \<open>Strings\<close>

text \<open>The UTF-8 encodings of the runes for which \<open>unicode.IsSpace\<close> holds.\<close>

definition spaceRunes :: "string list" where
  "spaceRunes =
     [[CHR 0x09], [CHR 0x0A], [CHR 0x0B], [CHR 0x0C], [CHR 0x0D], [CHR 0x20],
      [CHR 0xC2, CHR 0x85], [CHR 0xC2, CHR 0xA0], [CHR 0xE1, CHR 0x9A, CHR 0x80],
      [CHR 0xE2, CHR 0x80, CHR 0x80], [CHR 0xE2, CHR 0x80, CHR 0x81],
      [CHR 0xE2, CHR 0x80, CHR 0x82], [CHR 0xE2, CHR 0x80, CHR 0x83],
      [CHR 0xE2, CHR 0x80, CHR 0x84], [CHR 0xE2, CHR 0x80, CHR 0x85],
      [CHR 0xE2, CHR 0x80, CHR 0x86], [CHR 0xE2, CHR 0x80, CHR 0x87],
      [CHR 0xE2, CHR 0x80, CHR 0x88], [CHR 0xE2, CHR 0x80, CHR 0x89],
      [CHR 0xE2, CHR 0x80, CHR 0x8A], [CHR 0xE2, CHR 0x80, CHR 0xA8],
      [CHR 0xE2, CHR 0x80, CHR 0xA9], [CHR 0xE2, CHR 0x80, CHR 0xAF],
      [CHR 0xE2, CHR 0x81, CHR 0x9F], [CHR 0xE3, CHR 0x80, CHR 0x80]]"

fun startsWith :: "string \<Rightarrow> string \<Rightarrow> bool" where
  "startsWith [] s = True"
| "startsWith (c # cs) [] = False"
| "startsWith (c # cs) (d # ds) = (c = d \<and> startsWith cs ds)"

lemma startsWith_prefix: "startsWith r s \<longleftrightarrow> prefix r s"
  by (induction r s rule: startsWith.induct) auto

text \<open>Drops the runes \<open>rs\<close> from the front of a string as long as one of them is there.\<close>

function trimFront :: "string list \<Rightarrow> string \<Rightarrow> string" where
  "trimFront rs s =
     (case find (\<lambda>r. startsWith r s) rs of
        None \<Rightarrow> s
      | Some r \<Rightarrow> if r = [] then s else trimFront rs (drop (length r) s))"
  by pat_completeness auto
termination
  by (relation "measure (\<lambda>(rs, s). length s)")
     (auto simp: find_Some_iff startsWith_prefix prefix_def)

declare trimFront.simps [simp del]

definition TrimSpace :: "string \<Rightarrow> string" where
  "TrimSpace s = rev (trimFront (map rev spaceRunes) (rev (trimFront spaceRunes s)))"

definition noFront :: "string list \<Rightarrow> string \<Rightarrow> bool" where
  "noFront rs s \<longleftrightarrow> (\<forall>r \<in> set rs. \<not> startsWith r s)"

lemma trimFront_id: "noFront rs s \<Longrightarrow> trimFront rs s = s"
  by (subst trimFront.simps) (auto simp: noFront_def find_Some_iff split: option.split)

lemma noFront_trimFront: "[] \<notin> set rs \<Longrightarrow> noFront rs (trimFront rs s)"
proof (induction rs s rule: trimFront.induct)
  case (1 rs s)
  show ?case
  proof (cases "find (\<lambda>r. startsWith r s) rs")
    case None
    then have "noFront rs s" by (auto simp: noFront_def find_None_iff)
    then show ?thesis by (simp add: trimFront_id)
  next
    case (Some r)
    then have "r \<noteq> []" using 1(2) by (auto simp: find_Some_iff dest: nth_mem)
    with Some 1 show ?thesis by (auto simp: trimFront.simps [of rs s])
  qed
qed

lemma suffix_trimFront: "suffix (trimFront rs s) s"
proof (induction rs s rule: trimFront.induct)
  case (1 rs s)
  then show ?case
    by (auto simp: trimFront.simps [of rs s] split: option.split
        intro: suffix_order.trans suffix_drop)
qed

lemma prefix_TrimSpace: "prefix (TrimSpace s) (trimFront spaceRunes s)"
  using suffix_trimFront [of "map rev spaceRunes" "rev (trimFront spaceRunes s)"]
  by (simp add: TrimSpace_def suffix_to_prefix)

lemma noFront_prefix: "noFront rs s \<Longrightarrow> prefix t s \<Longrightarrow> noFront rs t"
  by (auto simp: noFront_def startsWith_prefix dest: prefix_order.trans)

lemma Nil_notin_spaceRunes: "[] \<notin> set spaceRunes" "[] \<notin> set (map rev spaceRunes)"
  by (simp_all add: spaceRunes_def)

lemma TrimSpace_noFront: "noFront spaceRunes (TrimSpace s)"
  using noFront_prefix [OF noFront_trimFront [OF Nil_notin_spaceRunes(1)] prefix_TrimSpace] .

lemma TrimSpace_idem [simp, go_simps]: "TrimSpace (TrimSpace s) = TrimSpace s"
proof -
  have "trimFront spaceRunes (TrimSpace s) = TrimSpace s"
    by (rule trimFront_id [OF TrimSpace_noFront])
  moreover have "trimFront (map rev spaceRunes) (rev (TrimSpace s)) = rev (TrimSpace s)"
    unfolding TrimSpace_def rev_rev_ident
    by (rule trimFront_id [OF noFront_trimFront [OF Nil_notin_spaceRunes(2)]])
  ultimately show ?thesis by (simp add: TrimSpace_def [of "TrimSpace s"])
qed

lemma TrimSpace_Nil [simp, go_simps]: "TrimSpace [] = []"
  by (simp add: TrimSpace_def trimFront.simps spaceRunes_def)

text \<open>White space is never graphic ASCII.\<close>

definition graphic :: "char \<Rightarrow> bool" where
  "graphic c \<longleftrightarrow> 32 < (of_char c :: nat) \<and> (of_char c :: nat) < 127"

lemma graphic_noFront:
  "graphic c \<Longrightarrow> noFront spaceRunes (c # s)" "graphic c \<Longrightarrow> noFront (map rev spaceRunes) (c # s)"
  by (auto simp: noFront_def spaceRunes_def graphic_def)

lemma TrimSpace_graphic:
  assumes "s \<noteq> []" "graphic (hd s)" "graphic (last s)"
  shows "TrimSpace s = s"
proof -
  obtain c cs where s: "s = c # cs" using assms(1) by (cases s) auto
  have "trimFront spaceRunes s = s" using assms(2) graphic_noFront(1) by (intro trimFront_id) (simp add: s)
  moreover obtain d ds where r: "rev s = d # ds" using assms(1) by (cases "rev s") auto
  then have "d = last s" using assms(1) by (metis hd_rev list.sel(1))
  then have "trimFront (map rev spaceRunes) (rev s) = rev s"
    using assms(3) graphic_noFront(2) by (intro trimFront_id) (simp add: r)
  ultimately show ?thesis by (simp add: TrimSpace_def)
qed

definition isASCII :: "string \<Rightarrow> bool" where
  "isASCII s = list_all (\<lambda>c. of_char c < (128::nat)) s"

definition lowerASCII :: "char \<Rightarrow> char" where
  "lowerASCII c =
     (if 65 \<le> (of_char c :: nat) \<and> (of_char c :: nat) \<le> 90 then char_of (of_char c + 32 :: nat) else c)"

definition ToLower :: "(string \<Rightarrow> string) \<Rightarrow> string \<Rightarrow> string" where
  "ToLower ul s = (if isASCII s then map lowerASCII s else ul s)"

definition EqualFold :: "(string \<Rightarrow> string \<Rightarrow> bool) \<Rightarrow> string \<Rightarrow> string \<Rightarrow> bool" where
  "EqualFold uf s t =
     (if isASCII s \<and> isASCII t then map lowerASCII s = map lowerASCII t else uf s t)"

definition TrimSuffixDot :: "string \<Rightarrow> string" where
  "TrimSuffixDot s = (if s \<noteq> [] \<and> last s = CHR ''.'' then butlast s else s)"

fun Join :: "string list \<Rightarrow> string \<Rightarrow> string" where
  "Join [] sep = []"
| "Join [x] sep = x"
| "Join (x # y # ys) sep = x @ sep @ Join (y # ys) sep"

text \<open>The decimal digits of a natural number, as \<open>%d\<close> prints them.\<close>

fun itoa :: "nat \<Rightarrow> string" where
  "itoa n = (if n < 10 then [char_of (48 + n)] else itoa (n div 10) @ [char_of (48 + n mod 10)])"

declare itoa.simps [simp del]

lemma of_char_digit: "d < 10 \<Longrightarrow> (of_char (char_of (48 + d) :: char) :: nat) = 48 + d"
  by (simp add: of_char_of)

lemma itoa_digits: "c \<in> set (itoa n) \<Longrightarrow> 48 \<le> (of_char c :: nat) \<and> (of_char c :: nat) \<le> 57"
proof (induction n rule: itoa.induct)
  case (1 n)
  show ?case
  proof (cases "n < 10")
    case True
    with 1(2) show ?thesis by (simp add: itoa.simps [of n] of_char_digit)
  next
    case False
    have "n mod 10 < 10" by simp
    with False 1 of_char_digit [of "n mod 10"] show ?thesis by (auto simp: itoa.simps [of n])
  qed
qed

lemma colon_notin_itoa: "CHR '':'' \<notin> set (itoa n)"
  using itoa_digits [of "CHR '':''" n] by auto

fun digitsValue :: "nat \<Rightarrow> string \<Rightarrow> nat" where
  "digitsValue acc [] = acc"
| "digitsValue acc (c # cs) = digitsValue (10 * acc + (of_char c - 48)) cs"

lemma digitsValue_append: "digitsValue acc (s @ t) = digitsValue (digitsValue acc s) t"
  by (induction acc s rule: digitsValue.induct) auto

lemma digitsValue_itoa: "digitsValue 0 (itoa n) = n"
proof (induction n rule: itoa.induct)
  case (1 n)
  show ?case
  proof (cases "n < 10")
    case True
    then show ?thesis by (simp add: itoa.simps [of n] of_char_digit)
  next
    case False
    have "n mod 10 < 10" by simp
    with False 1 of_char_digit [of "n mod 10"] show ?thesis
      by (simp add: itoa.simps [of n] digitsValue_append)
  qed
qed

lemma itoa_inj: "itoa m = itoa n \<Longrightarrow> m = n"
  by (metis digitsValue_itoa)

text \<open>\<open>strings.TrimPrefix\<close>, and \<open>%q\<close>: printable ASCII is quoted here, other text by \<open>uq\<close>.\<close>

definition TrimPrefix :: "string \<Rightarrow> string \<Rightarrow> string" where
  "TrimPrefix s p = (if startsWith p s then drop (length p) s else s)"

fun quoteBody :: "string \<Rightarrow> string" where
  "quoteBody [] = []"
| "quoteBody (c # cs) = (if c = CHR ''\"'' \<or> c = CHR 0x5C then CHR 0x5C # c # quoteBody cs else c # quoteBody cs)"

definition Quote :: "(string \<Rightarrow> string) \<Rightarrow> string \<Rightarrow> string" where
  "Quote uq s =
     (if list_all (\<lambda>c. 32 \<le> (of_char c :: nat) \<and> (of_char c :: nat) < 127) s
      then CHR ''\"'' # quoteBody s @ ''\"'' else uq s)"

definition errorString :: "error \<Rightarrow> string" where
  "errorString e =
     (case e of
        Errorf m \<Rightarrow> m
      | ErrNotFound \<Rightarrow> ''not found''
      | ErrAlreadyExists m \<Rightarrow> m @ '': already exists''
      | ErrConflict m \<Rightarrow> ''conflict: '' @ m
      | ErrBadRequest m \<Rightarrow> ''bad request: '' @ m
      | ErrForbidden m \<Rightarrow> ''forbidden: '' @ m
      | ErrValidationFailed m \<Rightarrow> ''validation failed: '' @ m
      | Panic m \<Rightarrow> m)"

text \<open>Two strings without the separator in front of it are equal when the joined strings are.\<close>

lemma append_sep_eq:
  assumes "a @ c # s = b @ c # t" "c \<notin> set a" "c \<notin> set b"
  shows "a = b \<and> s = t"
  using assms by (induction a arbitrary: b) (auto simp: Cons_eq_append_conv append_eq_Cons_conv)

section \<open>Stable sorting\<close>

text \<open>
  The insertion sort of the Go library: the element at index \<open>i\<close> moves left while it is less
  than its left neighbour. \<open>insertLeft\<close> works on the reversed prefix, whose head is that
  neighbour.
\<close>

fun insertLeft :: "('a \<Rightarrow> 'a \<Rightarrow> bool) \<Rightarrow> 'a \<Rightarrow> 'a list \<Rightarrow> 'a list" where
  "insertLeft lt x [] = [x]"
| "insertLeft lt x (y # ys) = (if lt x y then y # insertLeft lt x ys else x # y # ys)"

definition SortStable :: "('a \<Rightarrow> 'a \<Rightarrow> bool) \<Rightarrow> 'a list \<Rightarrow> 'a list" where
  "SortStable lt xs = rev (fold (insertLeft lt) xs [])"

lemma mset_insertLeft: "mset (insertLeft lt x ys) = add_mset x (mset ys)"
  by (induction ys) auto

lemma mset_fold_insertLeft: "mset (fold (insertLeft lt) xs ys) = mset xs + mset ys"
  by (induction xs arbitrary: ys) (auto simp: mset_insertLeft)

lemma mset_SortStable [simp]: "mset (SortStable lt xs) = mset xs"
  by (simp add: SortStable_def mset_fold_insertLeft)

lemma set_SortStable [simp]: "set (SortStable lt xs) = set xs"
  by (metis mset_SortStable set_mset_mset)

lemma length_SortStable [simp]: "length (SortStable lt xs) = length xs"
  by (metis mset_SortStable size_mset)

lemma SortStable_Nil [simp]: "SortStable lt [] = []"
  by (simp add: SortStable_def)

lemma SortStable_eq_Nil [simp]: "SortStable lt xs = [] \<longleftrightarrow> xs = []"
  by (metis length_0_conv length_SortStable)

lemma distinct_map_SortStable [simp]: "distinct (map f (SortStable lt xs)) = distinct (map f xs)"
  by (metis mset_SortStable mset_map mset_eq_imp_distinct_iff)

lemma insertLeft_cong:
  "\<forall>y \<in> set ys. f x y = g x y \<Longrightarrow> insertLeft f x ys = insertLeft g x ys"
  by (induction ys) auto

lemma set_insertLeft [simp]: "set (insertLeft lt x ys) = insert x (set ys)"
  by (metis mset_insertLeft set_mset_add_mset_insert set_mset_mset)

lemma fold_insertLeft_cong:
  assumes "\<forall>x \<in> A. \<forall>y \<in> A. f x y = g x y" "set xs \<subseteq> A" "set ys \<subseteq> A"
  shows "fold (insertLeft f) xs ys = fold (insertLeft g) xs ys"
  using assms(2,3)
proof (induction xs arbitrary: ys)
  case Nil
  then show ?case by simp
next
  case (Cons x xs)
  have "insertLeft f x ys = insertLeft g x ys"
    by (rule insertLeft_cong) (use Cons.prems assms(1) in auto)
  moreover have "set (insertLeft g x ys) \<subseteq> A" using Cons.prems by simp
  ultimately show ?case using Cons.IH [of "insertLeft g x ys"] Cons.prems by simp
qed

lemma SortStable_cong:
  "\<forall>x \<in> set xs. \<forall>y \<in> set xs. f x y = g x y \<Longrightarrow> SortStable f xs = SortStable g xs"
  using fold_insertLeft_cong [of "set xs" f g xs "[]"] by (simp add: SortStable_def)

lemma find_conv_filter: "find P xs = (case filter P xs of [] \<Rightarrow> None | x # _ \<Rightarrow> Some x)"
  by (induction xs) auto

locale weak_order =
  fixes lt :: "'a \<Rightarrow> 'a \<Rightarrow> bool"
  assumes less_asym: "lt a b \<Longrightarrow> \<not> lt b a"
    and less_negtrans: "\<not> lt a b \<Longrightarrow> \<not> lt b c \<Longrightarrow> \<not> lt a c"
begin

definition sortedG :: "'a list \<Rightarrow> bool" where
  "sortedG xs = sorted_wrt (\<lambda>a b. \<not> lt b a) xs"

definition equivG :: "'a \<Rightarrow> 'a \<Rightarrow> bool" where
  "equivG a b \<longleftrightarrow> \<not> lt a b \<and> \<not> lt b a"

lemma sorted_insertLeft:
  "sorted_wrt (\<lambda>a b. \<not> lt a b) ys \<Longrightarrow> sorted_wrt (\<lambda>a b. \<not> lt a b) (insertLeft lt x ys)"
proof (induction ys)
  case Nil
  then show ?case by simp
next
  case (Cons y ys)
  show ?case
  proof (cases "lt x y")
    case True
    with Cons show ?thesis by (auto dest: less_asym)
  next
    case False
    with Cons.prems show ?thesis by (auto dest: less_negtrans [of x y])
  qed
qed

lemma sorted_SortStable: "sortedG (SortStable lt xs)"
proof -
  have "sorted_wrt (\<lambda>a b. \<not> lt a b) (fold (insertLeft lt) xs ys)"
    if "sorted_wrt (\<lambda>a b. \<not> lt a b) ys" for ys
    using that by (induction xs arbitrary: ys) (auto intro: sorted_insertLeft)
  then show ?thesis by (simp add: sortedG_def SortStable_def sorted_wrt_rev)
qed

lemma filter_insertLeft:
  assumes "sorted_wrt (\<lambda>a b. \<not> lt a b) ys"
  shows "filter (equivG k) (insertLeft lt x ys) = (if equivG k x then [x] else []) @ filter (equivG k) ys"
  using assms
proof (induction ys)
  case Nil
  then show ?case by simp
next
  case (Cons y ys)
  show ?case
  proof (cases "lt x y")
    case True
    then have "\<not> (equivG k x \<and> equivG k y)"
      using less_negtrans [of x k y] by (auto simp: equivG_def)
    with True Cons show ?thesis by auto
  next
    case False
    then show ?thesis by auto
  qed
qed

text \<open>Elements that compare equal keep their order.\<close>

lemma stable_SortStable: "filter (equivG k) (SortStable lt xs) = filter (equivG k) xs"
proof -
  have "filter (equivG k) (fold (insertLeft lt) xs ys) = rev (filter (equivG k) xs) @ filter (equivG k) ys"
    if "sorted_wrt (\<lambda>a b. \<not> lt a b) ys" for ys
    using that
  proof (induction xs arbitrary: ys)
    case Nil
    then show ?case by simp
  next
    case (Cons x xs)
    show ?case
      using Cons.IH [OF sorted_insertLeft [OF Cons.prems, of x]] filter_insertLeft [OF Cons.prems, of k x]
      by auto
  qed
  from this [of "[]"] show ?thesis by (simp add: SortStable_def flip: rev_filter)
qed

lemma hd_SortStable_least:
  assumes "y \<in> set xs"
  shows "\<not> lt y (hd (SortStable lt xs))"
proof -
  obtain z zs where z: "SortStable lt xs = z # zs"
    using assms by (cases "SortStable lt xs") auto
  have "y = z \<or> y \<in> set zs"
    using assms set_SortStable [of lt xs] z by auto
  then show ?thesis
    using sorted_SortStable [of xs] z less_asym [of z z] by (auto simp: sortedG_def)
qed

text \<open>The head of the result is the first of the least elements of the input.\<close>

lemma find_least_eq_hd:
  assumes "xs \<noteq> []"
  shows "find (\<lambda>x. \<forall>y \<in> set xs. \<not> lt y x) xs = Some (hd (SortStable lt xs))"
proof -
  let ?h = "hd (SortStable lt xs)" and ?P = "\<lambda>x. \<forall>y \<in> set xs. \<not> lt y x"
  have h: "?h \<in> set xs" using assms
    by (metis SortStable_eq_Nil hd_in_set set_SortStable)
  have "filter (equivG ?h) xs = filter ?P xs"
  proof (rule filter_cong)
    fix x assume "x \<in> set xs"
    then show "equivG ?h x = ?P x"
      using hd_SortStable_least [of _ xs] h less_negtrans
      unfolding equivG_def by blast
  qed simp
  then have eq: "filter ?P xs = filter (equivG ?h) (SortStable lt xs)"
    by (simp add: stable_SortStable)
  have "equivG ?h ?h" using less_asym by (auto simp: equivG_def)
  with assms have "hd (filter (equivG ?h) (SortStable lt xs)) = ?h"
    by (cases "SortStable lt xs") auto
  moreover have "filter ?P xs \<noteq> []"
    using h hd_SortStable_least [of _ xs] by (auto simp: filter_empty_conv)
  ultimately show ?thesis
    using eq by (auto simp: find_conv_filter split: list.split)
qed

text \<open>Where equivalent elements are equal the result depends on the multiset of the input only.\<close>

lemma sortedG_unique:
  assumes "sortedG xs" "sortedG ys" "mset xs = mset ys"
    and "\<And>x y. x \<in> set xs \<Longrightarrow> y \<in> set xs \<Longrightarrow> equivG x y \<Longrightarrow> x = y"
  shows "xs = ys"
  using assms
proof (induction xs arbitrary: ys)
  case Nil
  then show ?case by simp
next
  case (Cons x xs)
  obtain y ys' where ys: "ys = y # ys'" using Cons.prems(3) by (cases ys) auto
  have y: "y \<in> set (x # xs)" using Cons.prems(3) ys by (metis list.set_intros(1) mset_eq_setD)
  have "x \<in> set ys" using Cons.prems(3) by (metis list.set_intros(1) mset_eq_setD)
  then have "\<not> lt x y \<or> x = y" using Cons.prems(2) ys by (auto simp: sortedG_def)
  moreover have "\<not> lt y x \<or> x = y" using Cons.prems(1) y by (auto simp: sortedG_def)
  ultimately have "x = y" using Cons.prems(4) [of x y] y by (auto simp: equivG_def)
  moreover have "xs = ys'"
  proof (rule Cons.IH)
    show "sortedG xs" "sortedG ys'" using Cons.prems(1,2) ys by (simp_all add: sortedG_def)
    show "mset xs = mset ys'" using Cons.prems(3) ys \<open>x = y\<close> by simp
  qed (use Cons.prems(4) in auto)
  ultimately show ?case using ys by simp
qed

lemma SortStable_mset_cong:
  assumes "mset xs = mset ys"
    and "\<And>x y. x \<in> set xs \<Longrightarrow> y \<in> set xs \<Longrightarrow> equivG x y \<Longrightarrow> x = y"
  shows "SortStable lt xs = SortStable lt ys"
  by (rule sortedG_unique [OF sorted_SortStable sorted_SortStable]) (use assms in auto)

end

section \<open>Lists\<close>

lemma length_filter_list_update:
  "i < length xs \<Longrightarrow> P y = P (xs ! i) \<Longrightarrow> length (filter P (xs[i := y])) = length (filter P xs)"
  by (induction xs arbitrary: i) (auto split: nat.splits)

lemma length_filter_update:
  assumes "i < length xs"
  shows "int (length (filter P (xs[i := y]))) =
     int (length (filter P xs)) + (if P y then 1 else 0) - (if P (xs ! i) then 1 else 0)"
proof -
  have "filter P xs = filter P (take i xs @ xs ! i # drop (Suc i) xs)"
    using assms id_take_nth_drop by metis
  then show ?thesis using assms by (simp add: upd_conv_take_nth_drop)
qed

lemma length_filter_indices:
  assumes "distinct is" "\<forall>i \<in> set is. i < n"
  shows "length (filter (\<lambda>i. i \<in> set is) [0..<n]) = length is"
proof -
  have "set (filter (\<lambda>i. i \<in> set is) [0..<n]) = set is" using assms(2) by auto
  then show ?thesis using assms(1) distinct_card [of "filter (\<lambda>i. i \<in> set is) [0..<n]"]
    by (simp add: distinct_card)
qed

section \<open>Maps\<close>

text \<open>\<open>m[k]\<close> of a Go map: the zero value of the element type where the key is absent.\<close>

definition mapGet :: "'v \<Rightarrow> ('k \<rightharpoonup> 'v) \<Rightarrow> 'k \<Rightarrow> 'v" where
  "mapGet z m k = (case m k of None \<Rightarrow> z | Some v \<Rightarrow> v)"

lemma mapGet_upd [simp, go_simps]: "mapGet z (m(k \<mapsto> v)) k' = (if k' = k then v else mapGet z m k')"
  by (simp add: mapGet_def)

lemma mapGet_del [simp, go_simps]: "mapGet z (m(k := None)) k' = (if k' = k then z else mapGet z m k')"
  by (simp add: mapGet_def)

lemma mapGet_empty [simp, go_simps]: "mapGet z Map.empty k = z"
  by (simp add: mapGet_def)

section \<open>State machines\<close>

text \<open>
  A component that is driven by its callers: \<open>step s e\<close> is the state after the call \<open>e\<close> (a call that
  returns an error leaves the state as the code leaves it) and \<open>ok s e\<close> is what the caller must
  respect. An invariant of one step is an invariant of every run.
\<close>

locale driven_machine =
  fixes step :: "'s \<Rightarrow> 'e \<Rightarrow> 's"
    and ok :: "'s \<Rightarrow> 'e \<Rightarrow> bool"
    and inv :: "'s \<Rightarrow> bool"
  assumes inv_step: "inv s \<Longrightarrow> ok s e \<Longrightarrow> inv (step s e)"
begin

fun admissible :: "'s \<Rightarrow> 'e list \<Rightarrow> bool" where
  "admissible s [] = True"
| "admissible s (e # es) = (ok s e \<and> admissible (step s e) es)"

lemma inv_run: "inv s \<Longrightarrow> admissible s es \<Longrightarrow> inv (foldl step s es)"
  by (induction es arbitrary: s) (auto intro: inv_step)

lemma admissibleI: "(\<And>s e. e \<in> set es \<Longrightarrow> ok s e) \<Longrightarrow> admissible s es"
  by (induction es arbitrary: s) auto

lemma inv_run_static: "inv s \<Longrightarrow> (\<And>s e. e \<in> set es \<Longrightarrow> ok s e) \<Longrightarrow> inv (foldl step s es)"
  by (rule inv_run) (auto intro: admissibleI)

end

end
