(* ===== verification/Rolling.thy ===== *)
theory Rolling
  imports Go_Prelude
begin

text \<open>
  Rolling deployments, internal/deployments/rolling.go: the target states, the configuration and
  its validation, the rollout state with \<open>NewRollingState\<close>, \<open>StartNextWindow\<close> and
  \<open>TransitionTarget\<close>, and the phase computation. \<open>int\<close> fields are unbounded integers: the only
  products are a target count with a percentage that validation keeps at most 100.
\<close>

section \<open>States, actions, configuration\<close>

datatype RollingTargetState =
    RollingTargetPending | RollingTargetInProgress | RollingTargetSucceeded
  | RollingTargetFailed | RollingTargetSkipped | RollingTargetOther string

fun targetStateIsValid :: "RollingTargetState \<Rightarrow> bool" where
  "targetStateIsValid (RollingTargetOther _) = False"
| "targetStateIsValid _ = True"

definition targetStateIsTerminal :: "RollingTargetState \<Rightarrow> bool" where
  "targetStateIsTerminal s =
     (s = RollingTargetSucceeded \<or> s = RollingTargetFailed \<or> s = RollingTargetSkipped)"

datatype RollingPhase =
    RollingPhasePending | RollingPhaseInProgress | RollingPhasePaused
  | RollingPhaseAborted | RollingPhaseCompleted

text \<open>The unset action is \<open>RollingFailureActionOther []\<close>, the empty Go string.\<close>

datatype RollingFailureAction =
    RollingFailureActionPause | RollingFailureActionAbort | RollingFailureActionOther string

record RollingFailureThreshold =
  MaxFailedTargets :: int
  MaxFailurePercentage :: int
  Action :: RollingFailureAction

record RollingConfig =
  WindowSize :: int
  MaximumUnavailable :: int
  PauseBetweenWindows :: duration
  FailureThreshold :: RollingFailureThreshold

definition actionIsValid :: "RollingFailureAction \<Rightarrow> bool" where
  "actionIsValid a = (a = RollingFailureActionPause \<or> a = RollingFailureActionAbort)"

definition actionPhase :: "RollingFailureAction \<Rightarrow> RollingPhase" where
  "actionPhase a = (if a = RollingFailureActionAbort then RollingPhaseAborted else RollingPhasePaused)"

definition thresholdEnabled :: "RollingFailureThreshold \<Rightarrow> bool" where
  "thresholdEnabled t = (MaxFailedTargets t > 0 \<or> MaxFailurePercentage t > 0)"

definition thresholdAction :: "RollingFailureThreshold \<Rightarrow> RollingFailureAction" where
  "thresholdAction t =
     (if Action t = RollingFailureActionOther [] then RollingFailureActionPause else Action t)"

definition thresholdValidate :: "RollingFailureThreshold \<Rightarrow> unit result" where
  "thresholdValidate t =
     (if MaxFailedTargets t < 0 then Inl (Errorf ''max failed targets must not be negative'')
      else if MaxFailurePercentage t < 0 \<or> MaxFailurePercentage t > 100
        then Inl (Errorf ''max failure percentage must be between 0 and 100'')
      else if thresholdEnabled t \<and> \<not> actionIsValid (thresholdAction t)
        then Inl (Errorf ''failure threshold action must be PAUSE or ABORT'')
      else Inr ())"

definition configValidate :: "RollingConfig \<Rightarrow> unit result" where
  "configValidate c =
     (if WindowSize c \<le> 0 then Inl (Errorf ''window size must be greater than zero'')
      else if MaximumUnavailable c < 0 then Inl (Errorf ''maximum unavailable must not be negative'')
      else if PauseBetweenWindows c < 0 then Inl (Errorf ''pause between windows must not be negative'')
      else thresholdValidate (FailureThreshold c))"

record RollingTarget =
  rtDeploymentPlanTargetID :: uuid
  rtDeploymentTargetID :: uuid
  rtSortOrder :: int
  rtState :: RollingTargetState
  rtWindowNumber :: int
  rtFailureReason :: string

record RollingState =
  rsConfig :: RollingConfig
  rsPhase :: RollingPhase
  rsCurrentWindow :: int
  rsTargets :: "RollingTarget list"

section \<open>Operations\<close>

definition rollingLess :: "(uuid \<Rightarrow> string) \<Rightarrow> RollingTarget \<Rightarrow> RollingTarget \<Rightarrow> bool" where
  "rollingLess ustr a b =
     (if rtSortOrder a \<noteq> rtSortOrder b then rtSortOrder a < rtSortOrder b
      else ustr (rtDeploymentPlanTargetID a) < ustr (rtDeploymentPlanTargetID b))"

definition resetTarget :: "RollingTarget \<Rightarrow> RollingTarget" where
  "resetTarget t =
     t\<lparr>rtState := RollingTargetPending, rtWindowNumber := 0, rtFailureReason := []\<rparr>"

text \<open>The loop of \<open>NewRollingState\<close> over the targets, with the set of IDs seen so far.\<close>

fun normalizeTargets :: "uuid list \<Rightarrow> RollingTarget list \<Rightarrow> RollingTarget list result" where
  "normalizeTargets seen [] = Inr []"
| "normalizeTargets seen (t # ts) =
     (if rtDeploymentPlanTargetID t = uuid_Nil
        then Inl (Errorf ''deployment plan target ID is required'')
      else if rtDeploymentTargetID t = uuid_Nil
        then Inl (Errorf ''deployment target ID is required'')
      else if rtDeploymentPlanTargetID t \<in> set seen
        then Inl (Errorf ''deployment plan target IDs must be unique'')
      else bindR (normalizeTargets (rtDeploymentPlanTargetID t # seen) ts)
             (\<lambda>ns. Inr (resetTarget t # ns)))"

definition NewRollingState ::
    "(uuid \<Rightarrow> string) \<Rightarrow> RollingConfig \<Rightarrow> RollingTarget list \<Rightarrow> RollingState result" where
  "NewRollingState ustr config targets =
     bindR (configValidate config) (\<lambda>_.
       if targets = [] then Inl (Errorf ''at least one rolling target is required'')
       else bindR (normalizeTargets [] targets) (\<lambda>normalized.
         Inr \<lparr>rsConfig = config, rsPhase = RollingPhasePending, rsCurrentWindow = 0,
              rsTargets = SortStable (rollingLess ustr) normalized\<rparr>))"

definition effectiveWindowSize :: "RollingState \<Rightarrow> int" where
  "effectiveWindowSize s =
     (let c = rsConfig s in
      if MaximumUnavailable c > 0 \<and> MaximumUnavailable c < WindowSize c
      then MaximumUnavailable c else WindowSize c)"

definition currentWindowTerminal :: "RollingState \<Rightarrow> bool" where
  "currentWindowTerminal s =
     (rsCurrentWindow s = 0 \<or>
      list_all (\<lambda>t. \<not> (rtWindowNumber t = rsCurrentWindow s \<and> \<not> targetStateIsTerminal (rtState t)))
        (rsTargets s))"

definition pendingTargetIndexes :: "RollingState \<Rightarrow> nat list" where
  "pendingTargetIndexes s =
     filter (\<lambda>i. rtState (rsTargets s ! i) = RollingTargetPending) [0..<length (rsTargets s)]"

text \<open>The loop that marks the chosen targets: the started targets and the updated slice.\<close>

fun startTargets ::
    "int \<Rightarrow> nat list \<Rightarrow> RollingTarget list \<Rightarrow> RollingTarget list \<times> RollingTarget list" where
  "startTargets w [] ts = ([], ts)"
| "startTargets w (i # is) ts =
     (let t = (ts ! i)\<lparr>rtState := RollingTargetInProgress, rtWindowNumber := w\<rparr>;
          (started, ts') = startTargets w is (ts[i := t])
      in (t # started, ts'))"

definition StartNextWindow :: "RollingState \<Rightarrow> (RollingTarget list \<times> RollingState) result" where
  "StartNextWindow s =
     (if rsPhase s = RollingPhasePaused \<or> rsPhase s = RollingPhaseAborted
         \<or> rsPhase s = RollingPhaseCompleted then Inr ([], s)
      else if \<not> currentWindowTerminal s then Inr ([], s)
      else let pending = pendingTargetIndexes s in
        if pending = [] then Inr ([], s\<lparr>rsPhase := RollingPhaseCompleted\<rparr>)
        else let limit = min (effectiveWindowSize s) (int (length pending)) in
          if limit < 0 then Inl (Panic ''makeslice: cap out of range'')
          else let w = rsCurrentWindow s + 1;
                   (started, ts) = startTargets w (take (nat limit) pending) (rsTargets s)
               in Inr (started, s\<lparr>rsCurrentWindow := w, rsTargets := ts,
                                 rsPhase := RollingPhaseInProgress\<rparr>))"

fun targetIndex :: "uuid \<Rightarrow> RollingTarget list \<Rightarrow> nat option" where
  "targetIndex x [] = None"
| "targetIndex x (t # ts) =
     (if rtDeploymentPlanTargetID t = x then Some 0 else map_option Suc (targetIndex x ts))"

definition failedCount :: "RollingTarget list \<Rightarrow> int" where
  "failedCount ts = int (length (filter (\<lambda>t. rtState t = RollingTargetFailed) ts))"

definition failureThresholdPhase :: "RollingState \<Rightarrow> RollingPhase option" where
  "failureThresholdPhase s =
     (let th = FailureThreshold (rsConfig s); failed = failedCount (rsTargets s) in
      if \<not> thresholdEnabled th then None
      else if MaxFailedTargets th > 0 \<and> failed \<ge> MaxFailedTargets th
        then Some (actionPhase (thresholdAction th))
      else if MaxFailurePercentage th > 0
           \<and> failed * 100 \<ge> MaxFailurePercentage th * int (length (rsTargets s))
        then Some (actionPhase (thresholdAction th))
      else None)"

definition allTargetsTerminal :: "RollingState \<Rightarrow> bool" where
  "allTargetsTerminal s = list_all (\<lambda>t. targetStateIsTerminal (rtState t)) (rsTargets s)"

definition updatePhase :: "RollingState \<Rightarrow> RollingState" where
  "updatePhase s =
     (case failureThresholdPhase s of
        Some p \<Rightarrow> s\<lparr>rsPhase := p\<rparr>
      | None \<Rightarrow>
          if allTargetsTerminal s then s\<lparr>rsPhase := RollingPhaseCompleted\<rparr>
          else if currentWindowTerminal s then s\<lparr>rsPhase := RollingPhasePending\<rparr>
          else s\<lparr>rsPhase := RollingPhaseInProgress\<rparr>)"

definition transitioned :: "RollingTargetState \<Rightarrow> string \<Rightarrow> RollingTarget \<Rightarrow> RollingTarget" where
  "transitioned st reason t =
     t\<lparr>rtState := st, rtFailureReason := (if st = RollingTargetFailed then reason else [])\<rparr>"

definition TransitionTarget ::
    "uuid \<Rightarrow> RollingTargetState \<Rightarrow> string \<Rightarrow> RollingState \<Rightarrow> RollingState result" where
  "TransitionTarget x st reason s =
     (if \<not> targetStateIsValid st then Inl (Errorf ''invalid rolling target state'')
      else case targetIndex x (rsTargets s) of
        None \<Rightarrow> Inl (Errorf ''rolling target not found'')
      | Some i \<Rightarrow>
          Inr (updatePhase (s\<lparr>rsTargets := (rsTargets s)[i := transitioned st reason (rsTargets s ! i)]\<rparr>)))"

section \<open>Lemmas on the helpers\<close>

interpretation rolling_order: weak_order "rollingLess ustr" for ustr
  by unfold_locales (auto simp: rollingLess_def split: if_splits)

lemma resetTarget_simps [simp]:
  "rtDeploymentPlanTargetID (resetTarget t) = rtDeploymentPlanTargetID t"
  "rtState (resetTarget t) = RollingTargetPending" "rtWindowNumber (resetTarget t) = 0"
  by (simp_all add: resetTarget_def)

lemma normalizeTargets_Inr:
  "normalizeTargets seen ts = Inr ns \<Longrightarrow>
     ns = map resetTarget ts \<and> distinct (map rtDeploymentPlanTargetID ts)
     \<and> rtDeploymentPlanTargetID ` set ts \<inter> set seen = {}"
proof (induction seen ts arbitrary: ns rule: normalizeTargets.induct)
  case (1 seen)
  then show ?case by simp
next
  case (2 seen t ts)
  from "2.prems" obtain ns' where
      ns': "normalizeTargets (rtDeploymentPlanTargetID t # seen) ts = Inr ns'"
    and ns: "ns = resetTarget t # ns'"
    and ok: "rtDeploymentPlanTargetID t \<noteq> uuid_Nil" "rtDeploymentTargetID t \<noteq> uuid_Nil"
      "rtDeploymentPlanTargetID t \<notin> set seen"
    by (auto simp: bindR_eq_Inr split: if_splits)
  from "2.IH" [OF ok ns'] ns ok(3) show ?case by auto
qed

lemma configValidate_Inr:
  "configValidate c = Inr u \<longleftrightarrow>
     0 < WindowSize c \<and> 0 \<le> MaximumUnavailable c \<and> 0 \<le> PauseBetweenWindows c
     \<and> thresholdValidate (FailureThreshold c) = Inr ()"
  by (auto simp: configValidate_def)

lemma effectiveWindowSize_cong [simp]:
  "effectiveWindowSize (s\<lparr>rsTargets := ts\<rparr>) = effectiveWindowSize s"
  "effectiveWindowSize (s\<lparr>rsPhase := p\<rparr>) = effectiveWindowSize s"
  "effectiveWindowSize (s\<lparr>rsCurrentWindow := w\<rparr>) = effectiveWindowSize s"
  by (simp_all add: effectiveWindowSize_def)

lemma effectiveWindowSize_pos: "0 < WindowSize (rsConfig s) \<Longrightarrow> 0 < effectiveWindowSize s"
  by (auto simp: effectiveWindowSize_def Let_def)

lemma effectiveWindowSize_le:
  "effectiveWindowSize s \<le> WindowSize (rsConfig s)"
  "0 < MaximumUnavailable (rsConfig s) \<Longrightarrow> effectiveWindowSize s \<le> MaximumUnavailable (rsConfig s)"
  by (auto simp: effectiveWindowSize_def Let_def)

lemma pendingTargetIndexes_props:
  "distinct (pendingTargetIndexes s)"
  "i \<in> set (pendingTargetIndexes s) \<longleftrightarrow>
     i < length (rsTargets s) \<and> rtState (rsTargets s ! i) = RollingTargetPending"
  by (auto simp: pendingTargetIndexes_def)

definition startOne :: "int \<Rightarrow> RollingTarget \<Rightarrow> RollingTarget" where
  "startOne w t = t\<lparr>rtState := RollingTargetInProgress, rtWindowNumber := w\<rparr>"

lemma startTargets_spec:
  assumes "distinct is" "\<forall>i \<in> set is. i < length ts"
  shows "startTargets w is ts =
     (map (\<lambda>i. startOne w (ts ! i)) is,
      map (\<lambda>i. if i \<in> set is then startOne w (ts ! i) else ts ! i) [0..<length ts])"
  using assms
proof (induction w "is" ts rule: startTargets.induct)
  case (1 w ts)
  then show ?case by (simp add: map_nth)
next
  case (2 w i "is" ts)
  let ?t = "startOne w (ts ! i)"
  have IH: "startTargets w is (ts[i := ?t]) =
     (map (\<lambda>j. startOne w (ts[i := ?t] ! j)) is,
      map (\<lambda>j. if j \<in> set is then startOne w (ts[i := ?t] ! j) else ts[i := ?t] ! j) [0..<length ts])"
    using 2 by (simp add: startOne_def)
  have "map (\<lambda>j. startOne w (ts[i := ?t] ! j)) is = map (\<lambda>j. startOne w (ts ! j)) is"
    using 2(2) by (auto intro!: arg_cong [of _ _ "startOne w"] nth_list_update_neq)
  moreover have "map (\<lambda>j. if j \<in> set is then startOne w (ts[i := ?t] ! j) else ts[i := ?t] ! j) [0..<length ts]
     = map (\<lambda>j. if j \<in> set (i # is) then startOne w (ts ! j) else ts ! j) [0..<length ts]"
    using 2(2,3) by (auto simp: nth_list_update)
  ultimately show ?case using IH by (simp add: startOne_def Let_def)
qed

lemma targetIndex_Some:
  "targetIndex x ts = Some i \<Longrightarrow> i < length ts \<and> rtDeploymentPlanTargetID (ts ! i) = x"
  by (induction x ts arbitrary: i rule: targetIndex.induct) (auto split: if_splits)

lemma targetIndex_None: "targetIndex x ts = None \<longleftrightarrow> x \<notin> rtDeploymentPlanTargetID ` set ts"
  by (induction x ts rule: targetIndex.induct) auto

lemma updatePhase_simps [simp]:
  "rsTargets (updatePhase s) = rsTargets s" "rsConfig (updatePhase s) = rsConfig s"
  "rsCurrentWindow (updatePhase s) = rsCurrentWindow s"
  "effectiveWindowSize (updatePhase s) = effectiveWindowSize s"
  by (auto simp: updatePhase_def split: option.split)

section \<open>The driven machine and its invariant\<close>

datatype rollingOp = OpStart | OpTransition uuid RollingTargetState string

text \<open>One call on the rollout; a call that fails leaves the state alone.\<close>

fun rollingStep :: "RollingState \<Rightarrow> rollingOp \<Rightarrow> RollingState" where
  "rollingStep s OpStart = (case StartNextWindow s of Inl _ \<Rightarrow> s | Inr (_, s') \<Rightarrow> s')"
| "rollingStep s (OpTransition x st reason) =
     (case TransitionTarget x st reason s of Inl _ \<Rightarrow> s | Inr s' \<Rightarrow> s')"

text \<open>A caller that only reports outcomes: every transition is to a terminal state.\<close>

fun reportsOutcome :: "rollingOp \<Rightarrow> bool" where
  "reportsOutcome OpStart = True"
| "reportsOutcome (OpTransition x st reason) = targetStateIsTerminal st"

definition inProgress :: "RollingState \<Rightarrow> RollingTarget list" where
  "inProgress s = filter (\<lambda>t. rtState t = RollingTargetInProgress) (rsTargets s)"

definition inWindow :: "int \<Rightarrow> RollingTarget list \<Rightarrow> RollingTarget list" where
  "inWindow w ts = filter (\<lambda>t. rtWindowNumber t = w) ts"

definition targetInv :: "int \<Rightarrow> RollingTarget \<Rightarrow> bool" where
  "targetInv w t \<longleftrightarrow> rtWindowNumber t \<le> w
     \<and> (rtState t = RollingTargetInProgress \<longrightarrow> rtWindowNumber t = w \<and> 0 < w)"

definition rollingInv :: "RollingState \<Rightarrow> bool" where
  "rollingInv s \<longleftrightarrow> 0 < WindowSize (rsConfig s) \<and> 0 \<le> rsCurrentWindow s
     \<and> (\<forall>t \<in> set (rsTargets s). targetInv (rsCurrentWindow s) t)
     \<and> (0 < rsCurrentWindow s \<longrightarrow>
          int (length (inWindow (rsCurrentWindow s) (rsTargets s))) \<le> effectiveWindowSize s)"

lemma length_inWindow_started:
  assumes "distinct is" "\<forall>i \<in> set is. i < length ts" "\<forall>t \<in> set ts. rtWindowNumber t < w"
  shows "length (inWindow w (map (\<lambda>i. if i \<in> set is then startOne w (ts ! i) else ts ! i)
           [0..<length ts])) = length is"
proof -
  have "filter ((\<lambda>t. rtWindowNumber t = w) \<circ> (\<lambda>i. if i \<in> set is then startOne w (ts ! i) else ts ! i))
          [0..<length ts] = filter (\<lambda>i. i \<in> set is) [0..<length ts]"
    using assms(3) by (intro filter_cong) (auto simp: startOne_def dest: nth_mem)
  then show ?thesis
    by (simp add: inWindow_def filter_map length_filter_indices [OF assms(1,2)])
qed

text \<open>What a successful \<open>StartNextWindow\<close> did: nothing, completion, or a new window.\<close>

lemma StartNextWindow_cases:
  assumes "StartNextWindow s = Inr (started, s')"
  obtains (idle) "started = []" "s' = s"
  | (complete) "started = []" "s' = s\<lparr>rsPhase := RollingPhaseCompleted\<rparr>"
      "pendingTargetIndexes s = []" "currentWindowTerminal s"
  | (window) n "is" where "currentWindowTerminal s"
      "rsPhase s = RollingPhasePending \<or> rsPhase s = RollingPhaseInProgress"
      "pendingTargetIndexes s \<noteq> []"
      "int n = min (effectiveWindowSize s) (int (length (pendingTargetIndexes s)))"
      "is = take n (pendingTargetIndexes s)"
      "started = map (\<lambda>i. startOne (rsCurrentWindow s + 1) (rsTargets s ! i)) is"
      "s' = s\<lparr>rsCurrentWindow := rsCurrentWindow s + 1,
              rsTargets := map (\<lambda>i. if i \<in> set is then startOne (rsCurrentWindow s + 1) (rsTargets s ! i)
                else rsTargets s ! i) [0..<length (rsTargets s)],
              rsPhase := RollingPhaseInProgress\<rparr>"
proof -
  let ?p = "pendingTargetIndexes s" and ?w = "rsCurrentWindow s + 1"
  let ?limit = "min (effectiveWindowSize s) (int (length ?p))"
  show thesis
  proof (cases "rsPhase s = RollingPhasePaused \<or> rsPhase s = RollingPhaseAborted
         \<or> rsPhase s = RollingPhaseCompleted \<or> \<not> currentWindowTerminal s")
    case True
    with assms have "started = [] \<and> s' = s" by (simp add: StartNextWindow_def split: if_splits)
    then show thesis using idle by blast
  next
    case False
    then have ph: "rsPhase s = RollingPhasePending \<or> rsPhase s = RollingPhaseInProgress"
      and t: "currentWindowTerminal s" by (cases "rsPhase s"; simp)+
    show thesis
    proof (cases "?p = []")
      case True
      with False assms show thesis using complete by (auto simp: StartNextWindow_def)
    next
      case ne: False
      have spec: "startTargets ?w (take (nat ?limit) ?p) (rsTargets s) =
        (map (\<lambda>i. startOne ?w (rsTargets s ! i)) (take (nat ?limit) ?p),
         map (\<lambda>i. if i \<in> set (take (nat ?limit) ?p) then startOne ?w (rsTargets s ! i)
           else rsTargets s ! i) [0..<length (rsTargets s)])"
        by (rule startTargets_spec)
           (auto simp: pendingTargetIndexes_props dest!: in_set_takeD)
      have "\<not> ?limit < 0"
        using False ne assms by (intro notI) (simp add: StartNextWindow_def min_less_iff_disj)
      then have "int (nat ?limit) = ?limit" by simp
      moreover from False ne assms spec \<open>\<not> ?limit < 0\<close> have
        "started = map (\<lambda>i. startOne ?w (rsTargets s ! i)) (take (nat ?limit) ?p)"
        "s' = s\<lparr>rsCurrentWindow := ?w,
              rsTargets := map (\<lambda>i. if i \<in> set (take (nat ?limit) ?p) then startOne ?w (rsTargets s ! i)
                else rsTargets s ! i) [0..<length (rsTargets s)],
              rsPhase := RollingPhaseInProgress\<rparr>"
        by (auto simp: StartNextWindow_def Let_def)
      ultimately show thesis using window [OF t ph ne _ refl] by blast
    qed
  qed
qed

lemma currentWindowTerminal_noProgress:
  assumes "\<forall>t \<in> set (rsTargets s). targetInv (rsCurrentWindow s) t" "currentWindowTerminal s"
  shows "\<forall>t \<in> set (rsTargets s). rtState t \<noteq> RollingTargetInProgress"
  using assms
  by (fastforce simp: currentWindowTerminal_def targetInv_def targetStateIsTerminal_def list_all_iff)

lemma rollingInv_start:
  assumes "rollingInv s" "StartNextWindow s = Inr (started, s')"
  shows "rollingInv s'"
  using assms(2)
proof (cases rule: StartNextWindow_cases)
  case idle
  with assms(1) show ?thesis by simp
next
  case complete
  with assms(1) show ?thesis by (simp add: rollingInv_def)
next
  case (window n "is")
  let ?w = "rsCurrentWindow s + 1"
  have inv: "\<forall>t \<in> set (rsTargets s). targetInv (rsCurrentWindow s) t" "0 \<le> rsCurrentWindow s"
    using assms(1) by (auto simp: rollingInv_def)
  have ix: "distinct is" "\<forall>i \<in> set is. i < length (rsTargets s)"
    using window(5) by (auto simp: pendingTargetIndexes_props dest!: in_set_takeD)
  have np: "\<forall>t \<in> set (rsTargets s). rtState t \<noteq> RollingTargetInProgress"
    by (rule currentWindowTerminal_noProgress [OF inv(1) window(1)])
  have "int (length (inWindow ?w (rsTargets s'))) = int (length is)"
    using length_inWindow_started [OF ix, of ?w] inv window(7) by (auto simp: targetInv_def)
  also have "\<dots> \<le> effectiveWindowSize s'" using window(4,5,7) by simp
  finally have "int (length (inWindow ?w (rsTargets s'))) \<le> effectiveWindowSize s'" .
  moreover have "targetInv ?w t" if "t \<in> set (rsTargets s')" for t
  proof -
    from that window(7) obtain i where i: "i < length (rsTargets s)"
        "t = (if i \<in> set is then startOne ?w (rsTargets s ! i) else rsTargets s ! i)"
      by auto
    then obtain u where u: "u \<in> set (rsTargets s)" "t = u \<or> t = startOne ?w u"
      using nth_mem [OF i(1)] by metis
    with inv np have "targetInv (rsCurrentWindow s) u" "rtState u \<noteq> RollingTargetInProgress"
      by auto
    with u(2) inv(2) show ?thesis by (auto simp: targetInv_def startOne_def)
  qed
  ultimately show ?thesis using assms(1) unfolding window(7) rollingInv_def by simp
qed

lemma inWindow_update:
  "i < length ts \<Longrightarrow> rtWindowNumber t = rtWindowNumber (ts ! i) \<Longrightarrow>
     length (inWindow w (ts[i := t])) = length (inWindow w ts)"
  by (simp add: inWindow_def length_filter_list_update)

lemma rollingInv_transition:
  assumes "rollingInv s" "TransitionTarget x st reason s = Inr s'" "targetStateIsTerminal st"
  shows "rollingInv s'"
proof -
  obtain i where i: "targetIndex x (rsTargets s) = Some i"
    and s': "s' = updatePhase (s\<lparr>rsTargets := (rsTargets s)[i := transitioned st reason (rsTargets s ! i)]\<rparr>)"
    using assms(2) by (auto simp: TransitionTarget_def split: if_splits option.splits)
  have lt: "i < length (rsTargets s)" using targetIndex_Some [OF i] by simp
  have "targetInv (rsCurrentWindow s) (transitioned st reason (rsTargets s ! i))"
    using assms(1,3) lt by (auto simp: rollingInv_def targetInv_def transitioned_def targetStateIsTerminal_def)
  then have "\<forall>t \<in> set (rsTargets s'). targetInv (rsCurrentWindow s) t"
    using assms(1) s' by (auto simp: rollingInv_def dest!: set_update_subset_insert [THEN subsetD])
  moreover have "length (inWindow w (rsTargets s')) = length (inWindow w (rsTargets s))" for w
    using s' lt by (simp add: inWindow_update transitioned_def)
  ultimately show ?thesis using assms(1) s' by (simp add: rollingInv_def)
qed

interpretation rolling: driven_machine rollingStep "\<lambda>s e. reportsOutcome e" rollingInv
proof unfold_locales
  fix s e
  assume "rollingInv s" "reportsOutcome e"
  then show "rollingInv (rollingStep s e)"
    by (cases e) (auto split: sum.split intro: rollingInv_start rollingInv_transition)
qed

lemma rollingInv_new:
  assumes "NewRollingState ustr config targets = Inr s"
  shows "rollingInv s"
proof -
  have s: "configValidate config = Inr ()"
    "s = \<lparr>rsConfig = config, rsPhase = RollingPhasePending, rsCurrentWindow = 0,
          rsTargets = SortStable (rollingLess ustr) (map resetTarget targets)\<rparr>"
    using assms normalizeTargets_Inr [of "[]" targets]
    by (auto simp: NewRollingState_def bindR_eq_Inr split: if_splits)
  then show ?thesis by (auto simp: rollingInv_def configValidate_Inr targetInv_def)
qed

section \<open>Safety of the windows\<close>

lemma rollingStep_config [simp]: "rsConfig (rollingStep s e) = rsConfig s"
  by (cases e)
     (auto simp: TransitionTarget_def split: sum.split option.split if_splits
       elim!: StartNextWindow_cases)

lemma rollingRun_config [simp]: "rsConfig (foldl rollingStep s es) = rsConfig s"
  by (induction es arbitrary: s) auto

lemma inProgress_le_inWindow:
  assumes "rollingInv s"
  shows "int (length (inProgress s)) \<le> effectiveWindowSize s"
proof (cases "inProgress s")
  case Nil
  with assms effectiveWindowSize_pos [of s] show ?thesis by (simp add: rollingInv_def)
next
  case (Cons t ts)
  then have t: "t \<in> set (rsTargets s)" "rtState t = RollingTargetInProgress"
    by (auto simp: inProgress_def filter_eq_Cons_iff)
  have "inProgress s = filter (\<lambda>t. rtState t = RollingTargetInProgress) (inWindow (rsCurrentWindow s) (rsTargets s))"
    using assms by (auto simp: inProgress_def inWindow_def rollingInv_def targetInv_def intro: filter_cong)
  then have "length (inProgress s) \<le> length (inWindow (rsCurrentWindow s) (rsTargets s))"
    by (metis length_filter_le)
  moreover have "0 < rsCurrentWindow s" using assms t by (auto simp: rollingInv_def targetInv_def)
  ultimately show ?thesis using assms by (simp add: rollingInv_def)
qed

lemma rollingInv_reachable:
  "NewRollingState ustr config targets = Inr s0 \<Longrightarrow> \<forall>e \<in> set es. reportsOutcome e \<Longrightarrow>
     rollingInv (foldl rollingStep s0 es)"
  by (rule rolling.inv_run_static) (auto intro: rollingInv_new)

lemma NewRollingState_config: "NewRollingState ustr config targets = Inr s0 \<Longrightarrow> rsConfig s0 = config"
  by (auto simp: NewRollingState_def bindR_eq_Inr split: if_splits)

text \<open>C35: at every moment of a rollout whose callers only report outcomes, at most
  \<open>effectiveWindowSize\<close> targets are in progress, and that is at most the configured window size
  and, when it is set, at most the configured maximum of unavailable targets.\<close>

theorem rolling_bounded_unavailability:
  assumes "NewRollingState ustr config targets = Inr s0" "\<forall>e \<in> set es. reportsOutcome e"
  shows "int (length (inProgress (foldl rollingStep s0 es))) \<le> WindowSize config
     \<and> (0 < MaximumUnavailable config \<longrightarrow>
          int (length (inProgress (foldl rollingStep s0 es))) \<le> MaximumUnavailable config)"
  using inProgress_le_inWindow [OF rollingInv_reachable [OF assms]]
    effectiveWindowSize_le [of "foldl rollingStep s0 es"] NewRollingState_config [OF assms(1)]
  by auto

text \<open>A new window starts only when nothing is in progress, from pending targets, and afterwards
  exactly the returned targets are in progress.\<close>

lemma filter_started:
  assumes "\<forall>t \<in> set ts. rtState t \<noteq> RollingTargetInProgress"
  shows "filter (\<lambda>t. rtState t = RollingTargetInProgress)
      (map (\<lambda>i. if i \<in> set is then startOne w (ts ! i) else ts ! i) [0..<length ts])
    = map (\<lambda>i. startOne w (ts ! i)) (filter (\<lambda>i. i \<in> set is) [0..<length ts])"
proof -
  have "filter ((\<lambda>t. rtState t = RollingTargetInProgress) \<circ>
          (\<lambda>i. if i \<in> set is then startOne w (ts ! i) else ts ! i)) [0..<length ts]
      = filter (\<lambda>i. i \<in> set is) [0..<length ts]"
    using assms by (intro filter_cong) (auto simp: startOne_def dest: nth_mem)
  then show ?thesis by (simp add: filter_map)
qed

lemma StartNextWindow_exclusive:
  assumes "rollingInv s" "StartNextWindow s = Inr (started, s')" "started \<noteq> []"
  shows "inProgress s = [] \<and> set (inProgress s') = set started"
  using assms(2)
proof (cases rule: StartNextWindow_cases)
  case (window n "is")
  have np: "\<forall>t \<in> set (rsTargets s). rtState t \<noteq> RollingTargetInProgress"
    using currentWindowTerminal_noProgress [OF _ window(1)] assms(1) by (simp add: rollingInv_def)
  have "\<forall>i \<in> set is. i < length (rsTargets s)"
    using window(5) by (auto simp: pendingTargetIndexes_props dest!: in_set_takeD)
  then have "set (filter (\<lambda>i. i \<in> set is) [0..<length (rsTargets s)]) = set is" by auto
  then show ?thesis
    using filter_started [OF np] np window(6,7) by (simp add: inProgress_def del: set_filter)
qed (use assms(3) in auto)

text \<open>In a rollout whose callers only report outcomes, a window starts only when no target
  is in progress any more, and right afterwards exactly the targets it returned are.\<close>

theorem rolling_windows_do_not_overlap:
  assumes "NewRollingState ustr config targets = Inr s0" "\<forall>e \<in> set es. reportsOutcome e"
    and "s = foldl rollingStep s0 es" "StartNextWindow s = Inr (started, s')" "started \<noteq> []"
  shows "inProgress s = [] \<and> set (inProgress s') = set started"
  by (rule StartNextWindow_exclusive [OF _ assms(4,5)])
     (simp add: assms(3) rollingInv_reachable [OF assms(1,2)])

section \<open>Failure threshold\<close>


section \<open>Progress\<close>

text \<open>One round of a healthy rollout: start a window and report each started target as succeeded.\<close>

definition markSucceeded :: "RollingState \<Rightarrow> uuid \<Rightarrow> RollingState" where
  "markSucceeded s x = rollingStep s (OpTransition x RollingTargetSucceeded [])"

definition rolloutRound :: "RollingState \<Rightarrow> RollingState" where
  "rolloutRound s =
     (case StartNextWindow s of
        Inl _ \<Rightarrow> s
      | Inr (started, s') \<Rightarrow> foldl markSucceeded s' (map rtDeploymentPlanTargetID started))"

definition healthy :: "RollingState \<Rightarrow> bool" where
  "healthy s \<longleftrightarrow> 0 < WindowSize (rsConfig s) \<and> thresholdValidate (FailureThreshold (rsConfig s)) = Inr ()
     \<and> 0 \<le> rsCurrentWindow s \<and> rsTargets s \<noteq> []
     \<and> distinct (map rtDeploymentPlanTargetID (rsTargets s))
     \<and> (\<forall>t \<in> set (rsTargets s).
          rtState t \<in> {RollingTargetPending, RollingTargetInProgress, RollingTargetSucceeded}
          \<and> (rtState t = RollingTargetPending \<longrightarrow> rtWindowNumber t = 0)
          \<and> (rtState t = RollingTargetInProgress \<longrightarrow> rtWindowNumber t = rsCurrentWindow s \<and> 0 < rsCurrentWindow s))"

definition pendingCount :: "RollingState \<Rightarrow> nat" where
  "pendingCount s = length (filter (\<lambda>t. rtState t = RollingTargetPending) (rsTargets s))"

definition healthyPhase :: "RollingState \<Rightarrow> RollingPhase" where
  "healthyPhase s =
     (if inProgress s \<noteq> [] then RollingPhaseInProgress
      else if pendingCount s = 0 then RollingPhaseCompleted else RollingPhasePending)"

lemma healthy_terminal:
  assumes "healthy s"
  shows "allTargetsTerminal s \<longleftrightarrow> inProgress s = [] \<and> pendingCount s = 0"
    and "currentWindowTerminal s \<longleftrightarrow> inProgress s = []"
  using assms
  by (fastforce simp: healthy_def allTargetsTerminal_def currentWindowTerminal_def inProgress_def
      pendingCount_def list_all_iff filter_empty_conv targetStateIsTerminal_def)+

lemma healthy_threshold: "healthy s \<Longrightarrow> failureThresholdPhase s = None"
proof -
  assume h: "healthy s"
  then have "filter (\<lambda>t. rtState t = RollingTargetFailed) (rsTargets s) = []"
    by (auto simp: healthy_def filter_empty_conv)
  then have "failedCount (rsTargets s) = 0" unfolding failedCount_def by (simp del: filter_empty_conv)
  moreover have "0 < int (length (rsTargets s))" using h by (simp add: healthy_def)
  ultimately show ?thesis
    by (auto simp: failureThresholdPhase_def Let_def mult_le_0_iff)
qed

lemma healthy_updatePhase: "healthy s \<Longrightarrow> rsPhase (updatePhase s) = healthyPhase s"
  by (auto simp: updatePhase_def healthyPhase_def healthy_threshold healthy_terminal)

lemma filter_update_distinct:
  assumes "i < length ts" "distinct (map f ts)" "P (ts ! i)" "\<not> P t"
  shows "f ` set (filter P (ts[i := t])) = f ` set (filter P ts) - {f (ts ! i)}"
  using assms
proof (induction ts arbitrary: i)
  case Nil
  then show ?case by simp
next
  case (Cons u ts)
  show ?case
  proof (cases i)
    case 0
    with Cons.prems show ?thesis by auto (metis image_eqI)
  next
    case (Suc j)
    with Cons.prems have "f ` set (filter P (ts[j := t])) = f ` set (filter P ts) - {f (ts ! j)}"
      by (intro Cons.IH) auto
    with Suc Cons.prems show ?thesis by auto
  qed
qed

abbreviation progressIDs :: "RollingState \<Rightarrow> uuid set" where
  "progressIDs s \<equiv> rtDeploymentPlanTargetID ` set (inProgress s)"

lemma markSucceeded_spec:
  assumes "healthy s" "x \<in> progressIDs s"
  shows "healthy (markSucceeded s x)" "pendingCount (markSucceeded s x) = pendingCount s"
    "progressIDs (markSucceeded s x) = progressIDs s - {x}"
    "rsPhase (markSucceeded s x) = healthyPhase (markSucceeded s x)"
proof -
  obtain i where i: "targetIndex x (rsTargets s) = Some i"
    using assms(2) targetIndex_None [of x "rsTargets s"] by (auto simp: inProgress_def)
  note ix = targetIndex_Some [OF i]
  let ?t = "transitioned RollingTargetSucceeded [] (rsTargets s ! i)"
  let ?s = "s\<lparr>rsTargets := (rsTargets s)[i := ?t]\<rparr>"
  have eq: "markSucceeded s x = updatePhase ?s"
    by (simp add: markSucceeded_def TransitionTarget_def i)
  have st: "rtState (rsTargets s ! i) = RollingTargetInProgress"
  proof -
    obtain u where u: "u \<in> set (rsTargets s)" "rtState u = RollingTargetInProgress"
      "rtDeploymentPlanTargetID u = x"
      using assms(2) by (auto simp: inProgress_def)
    moreover have "inj_on rtDeploymentPlanTargetID (set (rsTargets s))"
      using assms(1) by (simp add: healthy_def distinct_map)
    ultimately have "rsTargets s ! i = u" using ix by (auto dest: inj_onD)
    with u show ?thesis by simp
  qed
  have t: "rtState ?t = RollingTargetSucceeded" "rtDeploymentPlanTargetID ?t = x"
    using ix by (simp_all add: transitioned_def)
  have ids: "map rtDeploymentPlanTargetID (rsTargets ?s) = map rtDeploymentPlanTargetID (rsTargets s)"
    using ix t(2) by (simp add: map_update) (metis list_update_id map_update)
  have h: "healthy ?s"
    using assms(1) ids t(1) ix
    by (auto simp: healthy_def dest!: set_update_subset_insert [THEN subsetD])
  have same: "inProgress (updatePhase s') = inProgress s'" "pendingCount (updatePhase s') = pendingCount s'"
    "healthyPhase (updatePhase s') = healthyPhase s'" "healthy (updatePhase s') = healthy s'" for s'
    by (simp_all add: inProgress_def pendingCount_def healthyPhase_def healthy_def)
  show "healthy (markSucceeded s x)" using h by (simp add: eq same)
  show "pendingCount (markSucceeded s x) = pendingCount s"
    using ix t(1) st unfolding eq same by (simp add: pendingCount_def length_filter_list_update)
  show "progressIDs (markSucceeded s x) = progressIDs s - {x}"
    using filter_update_distinct [of i "rsTargets s" rtDeploymentPlanTargetID
        "\<lambda>t. rtState t = RollingTargetInProgress" ?t] ix t(1) st assms(1)
    unfolding eq same by (simp add: inProgress_def healthy_def)
  show "rsPhase (markSucceeded s x) = healthyPhase (markSucceeded s x)"
    using healthy_updatePhase [OF h] by (simp add: eq same)
qed

lemma markSucceeded_all:
  assumes "healthy s" "progressIDs s = set xs" "distinct xs" "rsPhase s = healthyPhase s"
  shows "let s' = foldl markSucceeded s xs in healthy s' \<and> pendingCount s' = pendingCount s
     \<and> inProgress s' = [] \<and> rsPhase s' = healthyPhase s'"
  using assms
proof (induction xs arbitrary: s)
  case Nil
  then show ?case by (simp add: Let_def)
next
  case (Cons x xs)
  have "x \<in> progressIDs s" using Cons.prems(2) by simp
  note m = markSucceeded_spec [OF Cons.prems(1) this]
  have "progressIDs (markSucceeded s x) = set xs"
    using m(3) Cons.prems(2,3) by auto
  with Cons.IH [OF m(1) this] Cons.prems(3) m(2,4) show ?case by (simp add: Let_def)
qed

lemma length_pendingTargetIndexes: "length (pendingTargetIndexes s) = pendingCount s"
proof -
  have "filter (\<lambda>t. rtState t = RollingTargetPending) (map ((!) (rsTargets s)) [0..<length (rsTargets s)])
    = map ((!) (rsTargets s)) (pendingTargetIndexes s)"
    by (simp add: filter_map comp_def pendingTargetIndexes_def)
  then show ?thesis unfolding pendingCount_def map_nth by simp
qed

lemma filter_pending_started:
  assumes "distinct is" "\<forall>i \<in> set is. i < length ts \<and> rtState (ts ! i) = RollingTargetPending"
  shows "length (filter (\<lambda>t. rtState t = RollingTargetPending)
      (map (\<lambda>i. if i \<in> set is then startOne w (ts ! i) else ts ! i) [0..<length ts])) + length is
    = length (filter (\<lambda>t. rtState t = RollingTargetPending) ts)"
proof -
  let ?P = "\<lambda>i. rtState (ts ! i) = RollingTargetPending"
  let ?F = "filter ?P [0..<length ts]"
  have 1: "filter ((\<lambda>t. rtState t = RollingTargetPending) \<circ>
          (\<lambda>i. if i \<in> set is then startOne w (ts ! i) else ts ! i)) [0..<length ts]
      = filter (\<lambda>i. i \<notin> set is) ?F"
    by (auto simp: startOne_def intro!: filter_cong split: if_splits)
  have "filter (\<lambda>i. i \<in> set is) ?F = filter (\<lambda>i. i \<in> set is) [0..<length ts]"
    using assms(2) by (auto intro!: filter_cong)
  then have 2: "length (filter (\<lambda>i. i \<in> set is) ?F) = length is"
    using length_filter_indices [of "is" "length ts"] assms by simp
  have "filter (\<lambda>t. rtState t = RollingTargetPending) (map ((!) ts) [0..<length ts]) = map ((!) ts) ?F"
    by (simp add: filter_map comp_def)
  then have 3: "length (filter (\<lambda>t. rtState t = RollingTargetPending) ts) = length ?F"
    unfolding map_nth by simp
  show ?thesis
    unfolding filter_map length_map 1 3
    using sum_length_filter_compl [of "\<lambda>i. i \<in> set is" ?F] unfolding 2 by linarith
qed

lemma healthy_window:
  assumes "healthy s" "inProgress s = []" "rsPhase s = RollingPhasePending" "pendingCount s \<noteq> 0"
  obtains started s' where "StartNextWindow s = Inr (started, s')" "healthy s'"
    "progressIDs s' = set (map rtDeploymentPlanTargetID started)"
    "distinct (map rtDeploymentPlanTargetID started)" "rsPhase s' = healthyPhase s'"
    "int (pendingCount s') = max 0 (int (pendingCount s) - effectiveWindowSize s)"
proof -
  have cw: "currentWindowTerminal s" using healthy_terminal(2) [OF assms(1)] assms(2) by simp
  have pi: "pendingTargetIndexes s \<noteq> []"
    using assms(4) by (metis length_pendingTargetIndexes list.size(3))
  have e: "0 < effectiveWindowSize s" using assms(1) by (simp add: healthy_def effectiveWindowSize_pos)
  have "\<not> min (effectiveWindowSize s) (int (length (pendingTargetIndexes s))) < 0" using e by simp
  then have "\<exists>started s'. StartNextWindow s = Inr (started, s') \<and> rsPhase s' = RollingPhaseInProgress"
    using assms(3) cw pi by (simp add: StartNextWindow_def Let_def split: prod.split)
  then obtain started s' where r: "StartNextWindow s = Inr (started, s')"
    and ph: "rsPhase s' = RollingPhaseInProgress" by blast
  show thesis
    using r
  proof (cases rule: StartNextWindow_cases)
    case idle
    with ph assms(3) show thesis by simp
  next
    case complete
    with pi show thesis by simp
  next
    case (window n "is")
    let ?w = "rsCurrentWindow s + 1"
    have ix: "distinct is" "\<forall>i \<in> set is. i < length (rsTargets s) \<and> rtState (rsTargets s ! i) = RollingTargetPending"
      using window(5) by (auto simp: pendingTargetIndexes_props dest!: in_set_takeD)
    have np: "\<forall>t \<in> set (rsTargets s). rtState t \<noteq> RollingTargetInProgress"
      using assms(2) by (simp add: inProgress_def filter_empty_conv)
    have ids: "map rtDeploymentPlanTargetID (rsTargets s') = map rtDeploymentPlanTargetID (rsTargets s)"
      using window(7) by (auto simp: startOne_def intro!: nth_equalityI)
    have h: "healthy s'"
      unfolding healthy_def ids using assms(1) np window(7)
      by (auto simp: healthy_def startOne_def dest: nth_mem)
    have "set (inProgress s') = set started"
    proof -
      have "set (filter (\<lambda>i. i \<in> set is) [0..<length (rsTargets s)]) = set is" using ix(2) by auto
      then show ?thesis
        using filter_started [OF np] window(6,7) by (simp add: inProgress_def del: set_filter)
    qed
    then have p: "progressIDs s' = set (map rtDeploymentPlanTargetID started)" by simp
    have d: "distinct (map rtDeploymentPlanTargetID started)"
    proof -
      have "map rtDeploymentPlanTargetID started = map ((!) (map rtDeploymentPlanTargetID (rsTargets s))) is"
        using window(6) ix(2) by (simp add: startOne_def)
      moreover have "inj_on ((!) (map rtDeploymentPlanTargetID (rsTargets s))) (set is)"
        using assms(1) ix(2) by (intro inj_on_nth) (auto simp: healthy_def)
      ultimately show ?thesis using ix(1) by (simp add: distinct_map)
    qed
    have len: "int (length is) = min (effectiveWindowSize s) (int (pendingCount s))"
      using window(4,5) by (simp add: length_pendingTargetIndexes)
    have "pendingCount s' + length is = pendingCount s"
      using filter_pending_started [OF ix] window(7) by (simp add: pendingCount_def)
    then have c: "int (pendingCount s') = max 0 (int (pendingCount s) - effectiveWindowSize s)"
      using len by auto
    have "started \<noteq> []" using len e assms(4) window(6) by auto
    then have "rsPhase s' = healthyPhase s'"
      using p window(7) by (auto simp: healthyPhase_def)
    with that [OF r h p d _ c] show thesis by blast
  qed
qed

definition between :: "RollingState \<Rightarrow> bool" where
  "between s \<longleftrightarrow> healthy s \<and> inProgress s = [] \<and> rsPhase s = healthyPhase s"

lemma rolloutRound_between:
  assumes "between s"
  shows "between (rolloutRound s)" "effectiveWindowSize (rolloutRound s) = effectiveWindowSize s"
    "int (pendingCount (rolloutRound s)) = max 0 (int (pendingCount s) - effectiveWindowSize s)"
proof -
  have conf: "rsConfig (foldl markSucceeded s xs) = rsConfig s" for s xs
    by (induction xs arbitrary: s) (simp_all add: markSucceeded_def del: rollingStep.simps)
  have "between (rolloutRound s) \<and> effectiveWindowSize (rolloutRound s) = effectiveWindowSize s
      \<and> int (pendingCount (rolloutRound s)) = max 0 (int (pendingCount s) - effectiveWindowSize s)"
  proof (cases "pendingCount s = 0")
    case True
    then have "rsPhase s = RollingPhaseCompleted" using assms by (simp add: between_def healthyPhase_def)
    then have "rolloutRound s = s" by (simp add: rolloutRound_def StartNextWindow_def)
    moreover have "0 < effectiveWindowSize s"
      using assms by (simp add: between_def healthy_def effectiveWindowSize_pos)
    ultimately show ?thesis using assms True by simp
  next
    case False
    have b: "healthy s" "inProgress s = []" "rsPhase s = RollingPhasePending"
      using assms False by (simp_all add: between_def healthyPhase_def)
    obtain started s' where r: "StartNextWindow s = Inr (started, s')" "healthy s'"
        "progressIDs s' = set (map rtDeploymentPlanTargetID started)"
        "distinct (map rtDeploymentPlanTargetID started)" "rsPhase s' = healthyPhase s'"
        "int (pendingCount s') = max 0 (int (pendingCount s) - effectiveWindowSize s)"
      by (rule healthy_window [OF b False])
    have "rsConfig s' = rsConfig s" using rollingStep_config [of s OpStart] r(1) by simp
    with markSucceeded_all [OF r(2,3,4,5)] r(1,6) conf show ?thesis
      by (simp add: rolloutRound_def between_def effectiveWindowSize_def Let_def)
  qed
  then show "between (rolloutRound s)" "effectiveWindowSize (rolloutRound s) = effectiveWindowSize s"
    "int (pendingCount (rolloutRound s)) = max 0 (int (pendingCount s) - effectiveWindowSize s)"
    by simp_all
qed

lemma rolloutRounds_between:
  "between s \<Longrightarrow> between ((rolloutRound ^^ k) s)
     \<and> effectiveWindowSize ((rolloutRound ^^ k) s) = effectiveWindowSize s
     \<and> int (pendingCount ((rolloutRound ^^ k) s))
         = max 0 (int (pendingCount s) - int k * effectiveWindowSize s)"
proof (induction k)
  case 0
  then show ?case by simp
next
  case (Suc k)
  then have IH: "between ((rolloutRound ^^ k) s)"
    "effectiveWindowSize ((rolloutRound ^^ k) s) = effectiveWindowSize s"
    "int (pendingCount ((rolloutRound ^^ k) s))
       = max 0 (int (pendingCount s) - int k * effectiveWindowSize s)" by simp_all
  have "0 < effectiveWindowSize s"
    using Suc.prems by (simp add: between_def healthy_def effectiveWindowSize_pos)
  then show ?case using rolloutRound_between [OF IH(1)] IH by (auto simp: algebra_simps max_def)
qed

text \<open>C37: a rollout of \<open>n\<close> targets whose targets all succeed is complete, with every target
  succeeded, after \<open>k\<close> windows as soon as \<open>k\<close> times the effective window size is at least \<open>n\<close>.\<close>

theorem rolling_completes:
  assumes "NewRollingState ustr config targets = Inr s0"
    and "int (length targets) \<le> int k * effectiveWindowSize s0"
  shows "rsPhase ((rolloutRound ^^ k) s0) = RollingPhaseCompleted
     \<and> (\<forall>t \<in> set (rsTargets ((rolloutRound ^^ k) s0)). rtState t = RollingTargetSucceeded)"
proof -
  let ?s = "(rolloutRound ^^ k) s0"
  obtain ns where n: "configValidate config = Inr ()" "targets \<noteq> []" "normalizeTargets [] targets = Inr ns"
    "s0 = \<lparr>rsConfig = config, rsPhase = RollingPhasePending, rsCurrentWindow = 0,
           rsTargets = SortStable (rollingLess ustr) ns\<rparr>"
    using assms(1) by (auto simp: NewRollingState_def bindR_eq_Inr split: if_splits)
  note ns = normalizeTargets_Inr [OF n(3)]
  have dist: "distinct (map rtDeploymentPlanTargetID ns)" using ns by (simp add: comp_def)
  have h: "healthy s0"
    using n ns dist by (auto simp: healthy_def configValidate_Inr)
  have ip: "inProgress s0 = []" using n(4) ns by (auto simp: inProgress_def filter_empty_conv)
  have "filter (\<lambda>t. rtState t = RollingTargetPending) (rsTargets s0) = rsTargets s0"
    using n(4) ns by (auto intro: filter_True)
  then have pc: "pendingCount s0 = length targets" using n(4) ns by (simp add: pendingCount_def)
  have "between s0" using h ip pc n(2,4) by (simp add: between_def healthyPhase_def)
  from rolloutRounds_between [OF this, of k] assms(2) pc
  have b: "between ?s" "pendingCount ?s = 0" by simp_all
  then show ?thesis
    by (auto simp: between_def healthy_def healthyPhase_def pendingCount_def inProgress_def filter_empty_conv)
qed

section \<open>Witnesses\<close>

definition demoConfig :: RollingConfig where
  "demoConfig = \<lparr>WindowSize = 3, MaximumUnavailable = 2, PauseBetweenWindows = 0,
     FailureThreshold = \<lparr>MaxFailedTargets = 1, MaxFailurePercentage = 0,
                        Action = RollingFailureActionAbort\<rparr>\<rparr>"

definition demoTarget :: "uuid \<Rightarrow> int \<Rightarrow> RollingTarget" where
  "demoTarget x n = \<lparr>rtDeploymentPlanTargetID = x, rtDeploymentTargetID = 7, rtSortOrder = n,
     rtState = RollingTargetPending, rtWindowNumber = 0, rtFailureReason = []\<rparr>"

definition demoState :: RollingState where
  "demoState = \<lparr>rsConfig = demoConfig, rsPhase = RollingPhasePending, rsCurrentWindow = 0,
     rsTargets = [demoTarget 2 1, demoTarget 1 5, demoTarget 3 9]\<rparr>"

lemmas demo_defs = demoConfig_def demoTarget_def demoState_def

lemma demoState_new:
  "NewRollingState (\<lambda>_. []) demoConfig [demoTarget 1 5, demoTarget 2 1, demoTarget 3 9] = Inr demoState"
  by (simp add: NewRollingState_def demo_defs configValidate_def thresholdValidate_def thresholdEnabled_def
      actionIsValid_def thresholdAction_def SortStable_def rollingLess_def resetTarget_def)

lemma demoState_window:
  "StartNextWindow demoState =
     Inr ([startOne 1 (demoTarget 2 1), startOne 1 (demoTarget 1 5)],
          demoState\<lparr>rsCurrentWindow := 1, rsPhase := RollingPhaseInProgress,
            rsTargets := [startOne 1 (demoTarget 2 1), startOne 1 (demoTarget 1 5), demoTarget 3 9]\<rparr>)"
  by (simp add: StartNextWindow_def demo_defs currentWindowTerminal_def pendingTargetIndexes_def
      effectiveWindowSize_def startOne_def upt_rec Let_def numeral_eq_Suc)

theorem rolling_bounded_unavailability_witness:
  "int (length (inProgress (foldl rollingStep demoState
     [OpStart, OpTransition 2 RollingTargetSucceeded [], OpStart]))) \<le> 2"
  using rolling_bounded_unavailability [OF demoState_new,
      of "[OpStart, OpTransition 2 RollingTargetSucceeded [], OpStart]"]
  by (simp add: targetStateIsTerminal_def demoConfig_def)

theorem rolling_windows_do_not_overlap_witness:
  "inProgress demoState = [] \<and> set (inProgress (rollingStep demoState OpStart))
     = {startOne 1 (demoTarget 2 1), startOne 1 (demoTarget 1 5)}"
  using rolling_windows_do_not_overlap [OF demoState_new, of "[]", OF _ _ demoState_window]
  by (simp add: demoState_window)


theorem rolling_completes_witness:
  "rsPhase ((rolloutRound ^^ 2) demoState) = RollingPhaseCompleted"
  using rolling_completes [OF demoState_new, of 2]
  by (simp add: demo_defs effectiveWindowSize_def)

end
