(* ===== verification/Traffic_Provider.thy ===== *)
theory Traffic_Provider
  imports Go_Prelude
begin

text \<open>
  The traffic-provider contract, internal/traffic/provider/provider.go: the request data that a
  deployment strategy hands to a provider, the provider registry, and the construction of the
  webhook provider. Parameter values in the requests of this code are strings. \<open>url.Parse\<close> is
  the argument \<open>parse\<close> (scheme and host, or an error); the HTTP client and the HTTP exchange
  (\<open>invoke\<close>) are not modelled.
\<close>

datatype Operation =
  OperationPrepare | OperationShift | OperationVerify | OperationRollback | OperationCleanup

fun operationName :: "Operation \<Rightarrow> string" where
  "operationName OperationPrepare = ''prepare''"
| "operationName OperationShift = ''shift''"
| "operationName OperationVerify = ''verify''"
| "operationName OperationRollback = ''rollback''"
| "operationName OperationCleanup = ''cleanup''"

record RolloutContext =
  rcOrganizationID :: uuid
  rcDeploymentPlanID :: uuid
  rcRolloutID :: uuid
  rcStrategy :: string
  rcWindowNumber :: int
  rcIdempotencyKey :: string
  rcProviderMetadata :: "(string \<times> string) list"
  rcRequestedAt :: timestamp
  rcCorrelationID :: string
  rcActorUserAccountID :: uuid

record ProviderTarget =
  ptDeploymentPlanTargetID :: uuid
  ptDeploymentTargetID :: uuid
  ptName :: string
  ptWeight :: int
  ptState :: string
  ptMetadata :: "(string \<times> string) list"

text \<open>\<open>PrepareRequest\<close>, \<open>ShiftRequest\<close>, \<open>VerifyRequest\<close>, \<open>RollbackRequest\<close> and
  \<open>CleanupRequest\<close> have the same three fields.\<close>

record ProviderRequest =
  prRolloutContext :: RolloutContext
  prTargets :: "ProviderTarget list"
  prParameters :: "(string \<times> string) list"

record ProviderCapability =
  pcType :: string
  pcOperations :: "Operation list"
  pcMetadata :: "(string \<times> string) list"

definition Supports :: "ProviderCapability \<Rightarrow> Operation \<Rightarrow> bool" where
  "Supports c operation = List.member (pcOperations c) operation"

section \<open>The webhook provider\<close>

record WebhookProviderConfig =
  wpURL :: string
  wpHeaders :: "(string \<times> string) list"
  wpAllowInsecureHTTP :: bool

record WebhookTrafficProvider =
  wtScheme :: string
  wtHost :: string
  wtHeaders :: "(string \<times> string) list"

definition NewWebhookTrafficProvider ::
    "(string \<Rightarrow> (string \<times> string) result) \<Rightarrow> WebhookProviderConfig \<Rightarrow> WebhookTrafficProvider result" where
  "NewWebhookTrafficProvider parse config =
     (case parse (TrimSpace (wpURL config)) of
        Inl _ \<Rightarrow> Inl (Errorf ''traffic provider webhook URL is invalid'')
      | Inr (scheme, host) \<Rightarrow>
          if scheme = [] \<or> host = [] then Inl (Errorf ''traffic provider webhook URL is required'')
          else if scheme \<noteq> ''https'' \<and> \<not> (wpAllowInsecureHTTP config \<and> scheme = ''http'')
            then Inl (Errorf ''traffic provider webhook URL must use https'')
          else Inr \<lparr>wtScheme = scheme, wtHost = host, wtHeaders = wpHeaders config\<rparr>)"

definition Capability :: "WebhookTrafficProvider \<Rightarrow> ProviderCapability" where
  "Capability p = \<lparr>pcType = ''webhook'',
     pcOperations = [OperationPrepare, OperationShift, OperationVerify, OperationRollback, OperationCleanup],
     pcMetadata = [(''transport'', ''webhook'')]\<rparr>"

section \<open>The registry\<close>

text \<open>A registry maps a normalised type to a factory; \<open>None\<close> as a registry is the nil pointer,
  \<open>None\<close> as a factory the nil function.\<close>

type_synonym 'f Registry = "string \<rightharpoonup> 'f"

definition NewRegistry :: "'f Registry" where
  "NewRegistry = Map.empty"

definition normalizeProviderType :: "(string \<Rightarrow> string) \<Rightarrow> string \<Rightarrow> string" where
  "normalizeProviderType ul providerType = ToLower ul (TrimSpace providerType)"

definition Register ::
    "(string \<Rightarrow> string) \<Rightarrow> string \<Rightarrow> 'f option \<Rightarrow> 'f Registry option \<Rightarrow> 'f Registry result" where
  "Register ul providerType factory r =
     (case r of None \<Rightarrow> Inl (Errorf ''traffic provider registry is nil'')
      | Some m \<Rightarrow>
     (case factory of None \<Rightarrow> Inl (Errorf ''traffic provider factory is required'')
      | Some f \<Rightarrow>
         let t = normalizeProviderType ul providerType in
         if t = [] then Inl (Errorf ''traffic provider type is required'')
         else if m t \<noteq> None then Inl (Errorf ''traffic provider is already registered'')
         else Inr (m(t \<mapsto> f))))"

text \<open>\<open>Build\<close> up to the call of the factory: the factory that is called.\<close>

definition BuildFactory ::
    "(string \<Rightarrow> string) \<Rightarrow> string \<Rightarrow> 'f Registry option \<Rightarrow> 'f result" where
  "BuildFactory ul providerType r =
     (case r of None \<Rightarrow> Inl (Errorf ''traffic provider registry is nil'')
      | Some m \<Rightarrow>
     (case m (normalizeProviderType ul providerType) of
        None \<Rightarrow> Inl (Errorf ''unknown traffic provider'')
      | Some f \<Rightarrow> Inr f))"

text \<open>A registered factory is found under every spelling of its type and is never replaced.\<close>

lemma Build_after_Register:
  assumes "Register ul t (Some f) (Some m) = Inr m'"
  shows "BuildFactory ul t' (Some m') =
     (if normalizeProviderType ul t' = normalizeProviderType ul t then Inr f
      else BuildFactory ul t' (Some m))"
  using assms by (auto simp: Register_def BuildFactory_def Let_def split: if_splits)

lemma Register_twice:
  "Register ul t (Some f) (Some m) = Inr m' \<Longrightarrow> normalizeProviderType ul t' = normalizeProviderType ul t \<Longrightarrow>
     \<exists>e. Register ul t' (Some g) (Some m') = Inl e"
  by (auto simp: Register_def Let_def split: if_splits)

text \<open>A webhook provider that was constructed uses https, unless the configuration allows plain
  http and then it may also use http; its host is never empty.\<close>

lemma webhook_provider_secure:
  assumes "NewWebhookTrafficProvider parse config = Inr p"
  shows "wtHost p \<noteq> [] \<and> (wtScheme p = ''https'' \<or> wpAllowInsecureHTTP config \<and> wtScheme p = ''http'')"
  using assms by (auto simp: NewWebhookTrafficProvider_def split: sum.splits if_splits)

end
