(* ===== verification/Blue_Green.thy ===== *)
theory Blue_Green
  imports Traffic_Provider
begin

text \<open>
  Blue-green deployments, internal/deployments/bluegreen/bluegreen.go: the slots, the health
  checks, and the lifecycle from CREATE to COMPLETED or ROLLBACK with its two provider requests.
  A method on \<open>*Lifecycle\<close> takes the lifecycle and returns the updated one, or an error. \<open>ustr\<close> is
  the text form of a UUID, \<open>uf\<close> is \<open>strings.EqualFold\<close> outside ASCII.
\<close>

datatype SlotState =
    SlotStateActive | SlotStateInactive | SlotStateDeploying | SlotStateReady | SlotStateShifting
  | SlotStateRetained | SlotStateScaledDown | SlotStateDestroyed | SlotStateRolledBack
  | SlotStateOther string

fun slotStateName :: "SlotState \<Rightarrow> string" where
  "slotStateName SlotStateActive = ''ACTIVE''"
| "slotStateName SlotStateInactive = ''INACTIVE''"
| "slotStateName SlotStateDeploying = ''DEPLOYING''"
| "slotStateName SlotStateReady = ''READY''"
| "slotStateName SlotStateShifting = ''SHIFTING''"
| "slotStateName SlotStateRetained = ''RETAINED''"
| "slotStateName SlotStateScaledDown = ''SCALED_DOWN''"
| "slotStateName SlotStateDestroyed = ''DESTROYED''"
| "slotStateName SlotStateRolledBack = ''ROLLED_BACK''"
| "slotStateName (SlotStateOther s) = s"

datatype Phase =
    PhaseCreate | PhaseDeploy | PhaseVerify | PhaseShift | PhaseObserve | PhasePromote
  | PhaseCleanup | PhaseRollback | PhaseCompleted

datatype RetentionPolicy =
    RetentionPolicyKeep | RetentionPolicyScaleDown | RetentionPolicyDestroy | RetentionPolicyOther string

fun retentionIsValid :: "RetentionPolicy \<Rightarrow> bool" where
  "retentionIsValid (RetentionPolicyOther _) = False"
| "retentionIsValid _ = True"

datatype HealthStatus =
    HealthStatusPending | HealthStatusPassed | HealthStatusFailed | HealthStatusOther string

fun healthStatusIsValid :: "HealthStatus \<Rightarrow> bool" where
  "healthStatusIsValid (HealthStatusOther _) = False"
| "healthStatusIsValid _ = True"

record Slot =
  slName :: string
  slState :: SlotState
  slDeploymentPlanTargetID :: uuid
  slDeploymentTargetID :: uuid
  slDeploymentRevisionID :: uuid
  slApplicationVersionID :: uuid
  slProviderTargetID :: string
  slMetadata :: "(string \<times> string) list"

definition zeroSlot :: Slot where
  "zeroSlot = \<lparr>slName = [], slState = SlotStateOther [], slDeploymentPlanTargetID = 0,
     slDeploymentTargetID = 0, slDeploymentRevisionID = 0, slApplicationVersionID = 0,
     slProviderTargetID = [], slMetadata = []\<rparr>"

record HealthCheck =
  hcName :: string
  hcStatus :: HealthStatus
  hcMessage :: string
  hcCheckedAt :: timestamp

record BGConfig =
  cfRolloutID :: uuid
  cfDeploymentPlanID :: uuid
  cfStrategy :: string
  cfActiveSlot :: Slot
  cfInactiveSlot :: Slot
  cfRetentionPolicy :: RetentionPolicy

record BGLifecycle =
  bgRolloutID :: uuid
  bgDeploymentPlanID :: uuid
  bgStrategy :: string
  bgPhase :: Phase
  bgActiveSlot :: Slot
  bgInactiveSlot :: Slot
  bgPreviousActiveSlot :: Slot
  bgRetentionPolicy :: RetentionPolicy
  bgHealthChecks :: "HealthCheck list"
  bgObservations :: "HealthCheck list"
  bgRollbackReason :: string

section \<open>Operations\<close>

definition normalizeSlot :: "Slot \<Rightarrow> Slot result" where
  "normalizeSlot slot =
     (let slot = slot\<lparr>slName := TrimSpace (slName slot)\<rparr> in
      if slName slot = [] then Inl (Errorf ''name is required'')
      else if slDeploymentTargetID slot = uuid_Nil then Inl (Errorf ''deployment target ID is required'')
      else Inr (if slProviderTargetID slot = [] then slot\<lparr>slProviderTargetID := slName slot\<rparr> else slot))"

definition NewLifecycle :: "(string \<Rightarrow> string \<Rightarrow> bool) \<Rightarrow> BGConfig \<Rightarrow> BGLifecycle result" where
  "NewLifecycle uf config =
     (if cfRolloutID config = uuid_Nil then Inl (Errorf ''rollout ID is required'')
      else case normalizeSlot (cfActiveSlot config) of
        Inl e \<Rightarrow> Inl (Errorf ''active slot is invalid'')
      | Inr activeSlot \<Rightarrow>
     (case normalizeSlot (cfInactiveSlot config) of
        Inl e \<Rightarrow> Inl (Errorf ''inactive slot is invalid'')
      | Inr inactiveSlot \<Rightarrow>
        if EqualFold uf (slName activeSlot) (slName inactiveSlot)
          then Inl (Errorf ''active and inactive slots must be different'')
        else if \<not> retentionIsValid (cfRetentionPolicy config)
          then Inl (Errorf ''retention policy is invalid'')
        else let strategy = TrimSpace (cfStrategy config) in
          Inr \<lparr>bgRolloutID = cfRolloutID config, bgDeploymentPlanID = cfDeploymentPlanID config,
               bgStrategy = (if strategy = [] then ''blue-green'' else strategy),
               bgPhase = PhaseCreate,
               bgActiveSlot = activeSlot\<lparr>slState := SlotStateActive\<rparr>,
               bgInactiveSlot = inactiveSlot\<lparr>slState := SlotStateInactive\<rparr>,
               bgPreviousActiveSlot = zeroSlot, bgRetentionPolicy = cfRetentionPolicy config,
               bgHealthChecks = [], bgObservations = [], bgRollbackReason = []\<rparr>))"

definition StartDeployInactive :: "BGLifecycle \<Rightarrow> BGLifecycle result" where
  "StartDeployInactive l =
     (if bgPhase l \<noteq> PhaseCreate
        then Inl (Errorf ''inactive slot deployment can start only from CREATE phase'')
      else Inr (l\<lparr>bgPhase := PhaseDeploy, bgInactiveSlot := (bgInactiveSlot l)\<lparr>slState := SlotStateDeploying\<rparr>\<rparr>))"

definition MarkInactiveDeployed :: "BGLifecycle \<Rightarrow> BGLifecycle result" where
  "MarkInactiveDeployed l =
     (if bgPhase l \<noteq> PhaseDeploy
        then Inl (Errorf ''inactive slot can be marked deployed only from DEPLOY phase'')
      else Inr (l\<lparr>bgPhase := PhaseVerify, bgInactiveSlot := (bgInactiveSlot l)\<lparr>slState := SlotStateReady\<rparr>\<rparr>))"

definition normalizeHealthCheck :: "HealthCheck \<Rightarrow> HealthCheck result" where
  "normalizeHealthCheck check =
     (let check = check\<lparr>hcName := TrimSpace (hcName check)\<rparr> in
      if hcName check = [] then Inl (Errorf ''health check name is required'')
      else if \<not> healthStatusIsValid (hcStatus check) then Inl (Errorf ''health check status is invalid'')
      else Inr check)"

fun upsertHealthCheck ::
    "(string \<Rightarrow> string \<Rightarrow> bool) \<Rightarrow> HealthCheck list \<Rightarrow> HealthCheck \<Rightarrow> HealthCheck list" where
  "upsertHealthCheck uf [] check = [check]"
| "upsertHealthCheck uf (existing # checks) check =
     (if EqualFold uf (hcName existing) (hcName check) then check # checks
      else existing # upsertHealthCheck uf checks check)"

definition allChecksPassed :: "HealthCheck list \<Rightarrow> bool" where
  "allChecksPassed checks =
     (checks \<noteq> [] \<and> list_all (\<lambda>c. hcStatus c = HealthStatusPassed) checks)"

definition RecordHealthCheck ::
    "(string \<Rightarrow> string \<Rightarrow> bool) \<Rightarrow> HealthCheck \<Rightarrow> BGLifecycle \<Rightarrow> BGLifecycle result" where
  "RecordHealthCheck uf check l =
     (if bgPhase l \<noteq> PhaseVerify
        then Inl (Errorf ''health checks can be recorded only during VERIFY phase'')
      else bindR (normalizeHealthCheck check) (\<lambda>normalized.
        Inr (l\<lparr>bgHealthChecks := upsertHealthCheck uf (bgHealthChecks l) normalized\<rparr>)))"

definition ReadyForTrafficShift :: "BGLifecycle \<Rightarrow> bool" where
  "ReadyForTrafficShift l = allChecksPassed (bgHealthChecks l)"

definition rolloutContext :: "(uuid \<Rightarrow> string) \<Rightarrow> string \<Rightarrow> BGLifecycle \<Rightarrow> RolloutContext" where
  "rolloutContext ustr keyPrefix l =
     \<lparr>rcOrganizationID = 0, rcDeploymentPlanID = bgDeploymentPlanID l, rcRolloutID = bgRolloutID l,
      rcStrategy = bgStrategy l, rcWindowNumber = 0, rcIdempotencyKey = keyPrefix @ ustr (bgRolloutID l),
      rcProviderMetadata = [(''activeSlot'', slName (bgActiveSlot l)),
                            (''inactiveSlot'', slName (bgInactiveSlot l))],
      rcRequestedAt = 0, rcCorrelationID = [], rcActorUserAccountID = 0\<rparr>"

definition slotProviderTarget :: "Slot \<Rightarrow> ProviderTarget" where
  "slotProviderTarget slot =
     \<lparr>ptDeploymentPlanTargetID = slDeploymentPlanTargetID slot,
      ptDeploymentTargetID = slDeploymentTargetID slot, ptName = slName slot, ptWeight = 0,
      ptState = slotStateName (slState slot),
      ptMetadata = [(''providerTargetId'', slProviderTargetID slot), (''slot'', slName slot)]\<rparr>"

definition providerTargets :: "BGLifecycle \<Rightarrow> ProviderTarget list" where
  "providerTargets l = [slotProviderTarget (bgActiveSlot l), slotProviderTarget (bgInactiveSlot l)]"

definition PlanTrafficShift ::
    "(uuid \<Rightarrow> string) \<Rightarrow> BGLifecycle \<Rightarrow> (ProviderRequest \<times> BGLifecycle) result" where
  "PlanTrafficShift ustr l =
     (if \<not> ReadyForTrafficShift l then Inl (Errorf ''health checks are not passing'')
      else let l = l\<lparr>bgPreviousActiveSlot := bgActiveSlot l, bgPhase := PhaseShift,
                     bgInactiveSlot := (bgInactiveSlot l)\<lparr>slState := SlotStateShifting\<rparr>\<rparr> in
        Inr (\<lparr>prRolloutContext = rolloutContext ustr ''blue-green-shift-'' l,
              prTargets = providerTargets l,
              prParameters = [(''operation'', operationName OperationShift),
                              (''activeSlot'', slName (bgActiveSlot l)),
                              (''inactiveSlot'', slName (bgInactiveSlot l))]\<rparr>, l))"

definition MarkTrafficShifted :: "BGLifecycle \<Rightarrow> BGLifecycle result" where
  "MarkTrafficShifted l =
     (if bgPhase l \<noteq> PhaseShift then Inl (Errorf ''traffic can be marked shifted only from SHIFT phase'')
      else Inr (l\<lparr>bgPhase := PhaseObserve\<rparr>))"

definition RecordObservation ::
    "(string \<Rightarrow> string \<Rightarrow> bool) \<Rightarrow> HealthCheck \<Rightarrow> BGLifecycle \<Rightarrow> BGLifecycle result" where
  "RecordObservation uf check l =
     (if bgPhase l \<noteq> PhaseObserve
        then Inl (Errorf ''observations can be recorded only during OBSERVE phase'')
      else bindR (normalizeHealthCheck check) (\<lambda>normalized.
        Inr (l\<lparr>bgObservations := upsertHealthCheck uf (bgObservations l) normalized\<rparr>)))"

definition retainedSlotState :: "BGLifecycle \<Rightarrow> SlotState" where
  "retainedSlotState l =
     (case bgRetentionPolicy l of
        RetentionPolicyScaleDown \<Rightarrow> SlotStateScaledDown
      | RetentionPolicyDestroy \<Rightarrow> SlotStateDestroyed
      | _ \<Rightarrow> SlotStateRetained)"

definition Promote :: "BGLifecycle \<Rightarrow> BGLifecycle result" where
  "Promote l =
     (if bgPhase l \<noteq> PhaseObserve
        then Inl (Errorf ''blue-green deployment can be promoted only from OBSERVE phase'')
      else if \<not> allChecksPassed (bgObservations l) then Inl (Errorf ''observation checks are not passing'')
      else let l = l\<lparr>bgPhase := PhasePromote\<rparr>;
               l = l\<lparr>bgPreviousActiveSlot := (bgActiveSlot l)\<lparr>slState := retainedSlotState l\<rparr>\<rparr>;
               l = l\<lparr>bgActiveSlot := (bgInactiveSlot l)\<lparr>slState := SlotStateActive\<rparr>\<rparr>
           in Inr (l\<lparr>bgInactiveSlot := zeroSlot, bgPhase := PhaseCompleted\<rparr>))"

definition PlanRollback ::
    "(uuid \<Rightarrow> string) \<Rightarrow> string \<Rightarrow> BGLifecycle \<Rightarrow> (ProviderRequest \<times> BGLifecycle) result" where
  "PlanRollback ustr reason l =
     (if bgPhase l \<noteq> PhaseShift \<and> bgPhase l \<noteq> PhaseObserve
        then Inl (Errorf ''rollback can be planned only from SHIFT or OBSERVE phase'')
      else let reason = TrimSpace reason;
               reason = (if reason = [] then ''rollback requested'' else reason);
               l = l\<lparr>bgPhase := PhaseRollback, bgRollbackReason := reason\<rparr>;
               l = (if slName (bgPreviousActiveSlot l) \<noteq> []
                    then l\<lparr>bgActiveSlot := bgPreviousActiveSlot l\<rparr> else l);
               l = l\<lparr>bgActiveSlot := (bgActiveSlot l)\<lparr>slState := SlotStateActive\<rparr>,
                     bgInactiveSlot := (bgInactiveSlot l)\<lparr>slState := SlotStateRolledBack\<rparr>\<rparr>
           in Inr (\<lparr>prRolloutContext = rolloutContext ustr ''blue-green-rollback-'' l,
                    prTargets = providerTargets l,
                    prParameters = [(''operation'', operationName OperationRollback),
                                    (''activeSlot'', slName (bgActiveSlot l)),
                                    (''inactiveSlot'', slName (bgInactiveSlot l)),
                                    (''reason'', reason)]\<rparr>, l))"

section \<open>The driven machine and its invariant\<close>

datatype bgOp =
    BgStartDeploy | BgMarkDeployed | BgHealth HealthCheck | BgPlanShift | BgMarkShifted
  | BgObserve HealthCheck | BgPromote | BgRollback string

fun bgCall ::
    "(string \<Rightarrow> string \<Rightarrow> bool) \<Rightarrow> (uuid \<Rightarrow> string) \<Rightarrow> BGLifecycle \<Rightarrow> bgOp \<Rightarrow> BGLifecycle result" where
  "bgCall uf ustr l BgStartDeploy = StartDeployInactive l"
| "bgCall uf ustr l BgMarkDeployed = MarkInactiveDeployed l"
| "bgCall uf ustr l (BgHealth c) = RecordHealthCheck uf c l"
| "bgCall uf ustr l BgPlanShift = bindR (PlanTrafficShift ustr l) (\<lambda>r. Inr (snd r))"
| "bgCall uf ustr l BgMarkShifted = MarkTrafficShifted l"
| "bgCall uf ustr l (BgObserve c) = RecordObservation uf c l"
| "bgCall uf ustr l BgPromote = Promote l"
| "bgCall uf ustr l (BgRollback reason) = bindR (PlanRollback ustr reason l) (\<lambda>r. Inr (snd r))"

definition bgStep ::
    "(string \<Rightarrow> string \<Rightarrow> bool) \<Rightarrow> (uuid \<Rightarrow> string) \<Rightarrow> BGLifecycle \<Rightarrow> bgOp \<Rightarrow> BGLifecycle" where
  "bgStep uf ustr l e = (case bgCall uf ustr l e of Inl _ \<Rightarrow> l | Inr l' \<Rightarrow> l')"

lemmas bg_ops =
  StartDeployInactive_def MarkInactiveDeployed_def RecordHealthCheck_def PlanTrafficShift_def
  MarkTrafficShifted_def RecordObservation_def Promote_def PlanRollback_def ReadyForTrafficShift_def

definition beforeShift :: "Phase \<Rightarrow> bool" where
  "beforeShift p \<longleftrightarrow> p = PhaseCreate \<or> p = PhaseDeploy \<or> p = PhaseVerify"

definition bgInv :: "BGLifecycle \<Rightarrow> bool" where
  "bgInv l \<longleftrightarrow> slState (bgActiveSlot l) = SlotStateActive
     \<and> (\<not> beforeShift (bgPhase l) \<longrightarrow> allChecksPassed (bgHealthChecks l))
     \<and> (bgPhase l = PhaseCreate \<or> bgPhase l = PhaseDeploy \<longrightarrow> bgHealthChecks l = [])
     \<and> (bgPhase l = PhaseShift \<or> bgPhase l = PhaseObserve \<longrightarrow> bgPreviousActiveSlot l = bgActiveSlot l)
     \<and> (bgPhase l = PhaseCompleted \<longrightarrow>
          allChecksPassed (bgObservations l) \<and> bgInactiveSlot l = zeroSlot)"

lemma beforeShift_simps [simp]:
  "beforeShift PhaseCreate" "beforeShift PhaseDeploy" "beforeShift PhaseVerify"
  "\<not> beforeShift PhaseShift" "\<not> beforeShift PhaseObserve" "\<not> beforeShift PhaseRollback"
  "\<not> beforeShift PhaseCompleted"
  by (simp_all add: beforeShift_def)

lemma slot_state_self: "slState s = st \<Longrightarrow> s\<lparr>slState := st\<rparr> = s"
  by (cases s) simp

lemma bgInv_rollback:
  assumes "bgInv l" "PlanRollback ustr reason l = Inr (r, l')"
  shows "bgInv l'"
proof -
  have ph: "bgPhase l = PhaseShift \<or> bgPhase l = PhaseObserve"
    using assms(2) by (auto simp: PlanRollback_def split: if_splits)
  then have "allChecksPassed (bgHealthChecks l)" "bgPreviousActiveSlot l = bgActiveSlot l"
    "slState (bgActiveSlot l) = SlotStateActive"
    using assms(1) by (auto simp: bgInv_def)
  moreover have "bgActiveSlot l' = (bgActiveSlot l)\<lparr>slState := SlotStateActive\<rparr>"
    "bgHealthChecks l' = bgHealthChecks l" "bgPhase l' = PhaseRollback"
    using assms(2) ph calculation(2) by (simp_all add: PlanRollback_def Let_def split: if_splits, clarsimp+)
  ultimately show ?thesis by (simp add: bgInv_def)
qed

lemma bgInv_call:
  assumes "bgInv l" "bgCall uf ustr l e = Inr l'"
  shows "bgInv l'"
proof (cases e)
  case (BgRollback reason)
  with assms show ?thesis by (auto simp: bindR_eq_Inr intro: bgInv_rollback)
next
  case (BgHealth c)
  with assms show ?thesis
    by (clarsimp simp: bgInv_def RecordHealthCheck_def bindR_eq_Inr split: if_splits)
next
  case (BgObserve c)
  with assms show ?thesis
    by (clarsimp simp: bgInv_def RecordObservation_def bindR_eq_Inr split: if_splits)
qed (use assms in \<open>clarsimp simp: bgInv_def bg_ops Let_def bindR_def split: if_splits\<close>)+

interpretation blue_green: driven_machine "bgStep uf ustr" "\<lambda>_ _. True" bgInv for uf ustr
  by unfold_locales (auto simp: bgStep_def split: sum.split intro: bgInv_call)

lemma bgInv_new: "NewLifecycle uf config = Inr l \<Longrightarrow> bgInv l"
  by (auto simp: NewLifecycle_def bgInv_def beforeShift_def Let_def split: if_splits sum.splits)

lemma bgInv_reachable: "NewLifecycle uf config = Inr l \<Longrightarrow> bgInv (foldl (bgStep uf ustr) l es)"
  by (rule blue_green.inv_run_static) (auto intro: bgInv_new)

definition passing :: "HealthCheck \<Rightarrow> bool" where
  "passing c \<longleftrightarrow> TrimSpace (hcName c) \<noteq> [] \<and> hcStatus c = HealthStatusPassed"

section \<open>An example\<close>

definition exampleSlot :: "string \<Rightarrow> uuid \<Rightarrow> Slot" where
  "exampleSlot name target = zeroSlot\<lparr>slName := name, slDeploymentTargetID := target\<rparr>"

definition exampleBG :: BGConfig where
  "exampleBG = \<lparr>cfRolloutID = 1, cfDeploymentPlanID = 2, cfStrategy = [],
     cfActiveSlot = exampleSlot ''blue'' 3, cfInactiveSlot = exampleSlot ''green'' 4,
     cfRetentionPolicy = RetentionPolicyDestroy\<rparr>"

definition exampleLifecycle :: BGLifecycle where
  "exampleLifecycle = (case NewLifecycle (\<lambda>_ _. False) exampleBG of Inr l \<Rightarrow> l)"

definition exampleCheck :: HealthCheck where
  "exampleCheck = \<lparr>hcName = ''ready'', hcStatus = HealthStatusPassed, hcMessage = [], hcCheckedAt = 7\<rparr>"

definition exampleRollout :: "bgOp list" where
  "exampleRollout = [BgStartDeploy, BgMarkDeployed, BgHealth exampleCheck, BgPlanShift, BgMarkShifted,
     BgObserve exampleCheck]"

abbreviation exampleRun :: "bgOp list \<Rightarrow> BGLifecycle" where
  "exampleRun es \<equiv> foldl (bgStep (\<lambda>_ _. False) (\<lambda>_. [])) exampleLifecycle es"

lemma exampleLifecycle_new: "NewLifecycle (\<lambda>_ _. False) exampleBG = Inr exampleLifecycle"
  by code_simp

lemma example_phase: "bgPhase (exampleRun exampleRollout) = PhaseObserve"
  by code_simp

lemma example_completed: "bgPhase (exampleRun (exampleRollout @ [BgPromote])) = PhaseCompleted"
  by code_simp

lemma example_switch:
  "bgActiveSlot (bgStep (\<lambda>_ _. False) (\<lambda>_. []) (exampleRun exampleRollout) BgPromote)
     \<noteq> bgActiveSlot (exampleRun exampleRollout)"
  by code_simp

lemma example_passing: "list_all passing [exampleCheck]"
  by code_simp

section \<open>Safety\<close>

text \<open>C38: whatever calls are made on a lifecycle, once its phase has moved past VERIFY there is at
  least one health check and all of them have passed, and the serving slot is marked ACTIVE.\<close>

theorem blue_green_shift_needs_health:
  assumes "NewLifecycle uf config = Inr l0" "l = foldl (bgStep uf ustr) l0 es"
  shows "slState (bgActiveSlot l) = SlotStateActive
     \<and> (bgPhase l \<in> {PhaseShift, PhaseObserve, PhaseRollback, PhaseCompleted} \<longrightarrow>
          allChecksPassed (bgHealthChecks l))"
  using bgInv_reachable [OF assms(1), of ustr es] assms(2) by (auto simp: bgInv_def beforeShift_def)

theorem blue_green_shift_needs_health_witness:
  "slState (bgActiveSlot (exampleRun exampleRollout)) = SlotStateActive
     \<and> allChecksPassed (bgHealthChecks (exampleRun exampleRollout))"
  using blue_green_shift_needs_health [OF exampleLifecycle_new refl, of "\<lambda>_. []" exampleRollout]
    example_phase by simp

text \<open>The serving slot changes only when a lifecycle in OBSERVE is promoted with passing
  health checks and observations, and it then becomes the slot the traffic was shifted to; in
  particular a rollback keeps the slot that served before the shift.\<close>

theorem blue_green_only_promote_switches:
  assumes "NewLifecycle uf config = Inr l0" "l = foldl (bgStep uf ustr) l0 es"
    and "bgActiveSlot (bgStep uf ustr l e) \<noteq> bgActiveSlot l"
  shows "e = BgPromote \<and> bgPhase l = PhaseObserve \<and> allChecksPassed (bgHealthChecks l)
     \<and> allChecksPassed (bgObservations l)
     \<and> bgActiveSlot (bgStep uf ustr l e) = (bgInactiveSlot l)\<lparr>slState := SlotStateActive\<rparr>"
proof -
  have inv: "bgInv l" using bgInv_reachable [OF assms(1)] assms(2) by simp
  then have act: "(bgActiveSlot l)\<lparr>slState := SlotStateActive\<rparr> = bgActiveSlot l"
    by (cases "bgActiveSlot l") (simp add: bgInv_def)
  show ?thesis
    using assms(3) inv act
    by (cases e)
       (auto simp: bgStep_def bg_ops bgInv_def beforeShift_def bindR_def Let_def
         split: if_splits sum.splits)
qed

theorem blue_green_only_promote_switches_witness:
  "allChecksPassed (bgObservations (exampleRun exampleRollout))"
  using blue_green_only_promote_switches [OF exampleLifecycle_new refl example_switch] by simp

section \<open>The complete rollout\<close>

lemma upsert_allPassed:
  "list_all (\<lambda>c. hcStatus c = HealthStatusPassed) cs \<Longrightarrow> hcStatus c = HealthStatusPassed \<Longrightarrow>
     allChecksPassed (upsertHealthCheck uf cs c)"
  by (induction uf cs c rule: upsertHealthCheck.induct) (auto simp: allChecksPassed_def)

lemma normalize_passing:
  "passing c \<Longrightarrow> normalizeHealthCheck c = Inr (c\<lparr>hcName := TrimSpace (hcName c)\<rparr>)"
  by (simp add: passing_def normalizeHealthCheck_def Let_def)

lemma run_health:
  assumes "bgPhase l = PhaseVerify" "list_all passing hs" "hs \<noteq> [] \<or> bgHealthChecks l \<noteq> []"
    "list_all (\<lambda>c. hcStatus c = HealthStatusPassed) (bgHealthChecks l)"
  shows "\<exists>cs. foldl (bgStep uf ustr) l (map BgHealth hs) = l\<lparr>bgHealthChecks := cs\<rparr> \<and> allChecksPassed cs"
  using assms
proof (induction hs arbitrary: l)
  case Nil
  then show ?case by (intro exI [of _ "bgHealthChecks l"]) (simp add: allChecksPassed_def)
next
  case (Cons h hs)
  let ?l = "l\<lparr>bgHealthChecks := upsertHealthCheck uf (bgHealthChecks l) (h\<lparr>hcName := TrimSpace (hcName h)\<rparr>)\<rparr>"
  have st: "bgStep uf ustr l (BgHealth h) = ?l"
    using Cons.prems by (simp add: bgStep_def RecordHealthCheck_def normalize_passing)
  have p: "allChecksPassed (bgHealthChecks ?l)"
    using Cons.prems by (auto intro!: upsert_allPassed simp: passing_def)
  then have q: "bgHealthChecks ?l \<noteq> []" "list_all (\<lambda>c. hcStatus c = HealthStatusPassed) (bgHealthChecks ?l)"
    by (simp_all add: allChecksPassed_def)
  from Cons.prems have "bgPhase ?l = PhaseVerify" "list_all passing hs" by simp_all
  from Cons.IH [OF this disjI2 [OF q(1)] q(2)] show ?case
    by (simp only: list.map foldl_Cons st) simp
qed

lemma run_observations:
  assumes "bgPhase l = PhaseObserve" "list_all passing hs" "hs \<noteq> [] \<or> bgObservations l \<noteq> []"
    "list_all (\<lambda>c. hcStatus c = HealthStatusPassed) (bgObservations l)"
  shows "\<exists>cs. foldl (bgStep uf ustr) l (map BgObserve hs) = l\<lparr>bgObservations := cs\<rparr> \<and> allChecksPassed cs"
  using assms
proof (induction hs arbitrary: l)
  case Nil
  then show ?case by (intro exI [of _ "bgObservations l"]) (simp add: allChecksPassed_def)
next
  case (Cons h hs)
  let ?l = "l\<lparr>bgObservations := upsertHealthCheck uf (bgObservations l) (h\<lparr>hcName := TrimSpace (hcName h)\<rparr>)\<rparr>"
  have st: "bgStep uf ustr l (BgObserve h) = ?l"
    using Cons.prems by (simp add: bgStep_def RecordObservation_def normalize_passing)
  have p: "allChecksPassed (bgObservations ?l)"
    using Cons.prems by (auto intro!: upsert_allPassed simp: passing_def)
  then have q: "bgObservations ?l \<noteq> []" "list_all (\<lambda>c. hcStatus c = HealthStatusPassed) (bgObservations ?l)"
    by (simp_all add: allChecksPassed_def)
  from Cons.prems have "bgPhase ?l = PhaseObserve" "list_all passing hs" by simp_all
  from Cons.IH [OF this disjI2 [OF q(1)] q(2)] show ?case
    by (simp only: list.map foldl_Cons st) simp
qed

definition fullRollout :: "HealthCheck list \<Rightarrow> HealthCheck list \<Rightarrow> bgOp list" where
  "fullRollout hs os = [BgStartDeploy, BgMarkDeployed] @ map BgHealth hs
     @ [BgPlanShift, BgMarkShifted] @ map BgObserve os @ [BgPromote]"

text \<open>C39: deploying, recording passing health checks, shifting, recording passing observations and
  promoting completes the lifecycle: the inactive slot serves, the old one is kept as the
  previous slot in the state its retention policy asks for, and no slot is left inactive.\<close>

theorem blue_green_full_rollout:
  assumes "NewLifecycle uf config = Inr l0"
    and "hs \<noteq> []" "list_all passing hs" "os \<noteq> []" "list_all passing os"
  shows "let l = foldl (bgStep uf ustr) l0 (fullRollout hs os) in
     bgPhase l = PhaseCompleted
     \<and> bgActiveSlot l = (bgInactiveSlot l0)\<lparr>slState := SlotStateActive\<rparr>
     \<and> bgPreviousActiveSlot l = (bgActiveSlot l0)\<lparr>slState := retainedSlotState l0\<rparr>
     \<and> bgInactiveSlot l = zeroSlot"
proof -
  have new: "bgPhase l0 = PhaseCreate" "bgHealthChecks l0 = []" "bgObservations l0 = []"
    using assms(1) by (auto simp: NewLifecycle_def Let_def split: if_splits sum.splits)
  let ?v = "l0\<lparr>bgPhase := PhaseVerify, bgInactiveSlot := (bgInactiveSlot l0)\<lparr>slState := SlotStateReady\<rparr>\<rparr>"
  have v: "foldl (bgStep uf ustr) l0 [BgStartDeploy, BgMarkDeployed] = ?v"
    using new by (simp add: bgStep_def bg_ops)
  obtain cs where cs: "foldl (bgStep uf ustr) ?v (map BgHealth hs) = ?v\<lparr>bgHealthChecks := cs\<rparr>" "allChecksPassed cs"
    using run_health [of ?v hs uf ustr] new assms(2,3) by auto
  let ?o = "?v\<lparr>bgHealthChecks := cs, bgPreviousActiveSlot := bgActiveSlot l0, bgPhase := PhaseObserve,
      bgInactiveSlot := (bgInactiveSlot l0)\<lparr>slState := SlotStateShifting\<rparr>\<rparr>"
  have o: "foldl (bgStep uf ustr) (?v\<lparr>bgHealthChecks := cs\<rparr>) [BgPlanShift, BgMarkShifted] = ?o"
    using cs(2) by (simp add: bgStep_def bg_ops Let_def)
  obtain ds where ds: "foldl (bgStep uf ustr) ?o (map BgObserve os) = ?o\<lparr>bgObservations := ds\<rparr>" "allChecksPassed ds"
    using run_observations [of ?o os uf ustr] new assms(4,5) by auto
  have "foldl (bgStep uf ustr) l0 (fullRollout hs os) = bgStep uf ustr (?o\<lparr>bgObservations := ds\<rparr>) BgPromote"
    unfolding fullRollout_def foldl_append v cs(1) o ds(1) by simp
  then show ?thesis
    using ds(2) by (simp add: bgStep_def Promote_def Let_def retainedSlotState_def)
qed

theorem blue_green_full_rollout_witness:
  "bgActiveSlot (exampleRun (fullRollout [exampleCheck] [exampleCheck]))
     = (bgInactiveSlot exampleLifecycle)\<lparr>slState := SlotStateActive\<rparr>"
  using blue_green_full_rollout [OF exampleLifecycle_new _ example_passing _ example_passing,
      of "\<lambda>_. []"] by (simp add: Let_def)

text \<open>C40: \<open>PlanTrafficShift\<close> does not look at the phase. On a completed lifecycle it succeeds, and
  marking the traffic shifted and promoting again then makes a slot without a name serve.\<close>

theorem blue_green_completed_can_lose_active_slot:
  assumes "NewLifecycle uf config = Inr l0" "l = foldl (bgStep uf ustr) l0 es"
    and "bgPhase l = PhaseCompleted"
  shows "let l' = foldl (bgStep uf ustr) l [BgPlanShift, BgMarkShifted, BgPromote] in
     bgPhase l' = PhaseCompleted \<and> slName (bgActiveSlot l') = []
     \<and> slDeploymentTargetID (bgActiveSlot l') = uuid_Nil"
proof -
  have "bgInv l" using bgInv_reachable [OF assms(1)] assms(2) by simp
  then have "allChecksPassed (bgHealthChecks l)" "allChecksPassed (bgObservations l)"
    "bgInactiveSlot l = zeroSlot"
    using assms(3) by (auto simp: bgInv_def beforeShift_def)
  then show ?thesis by (simp add: bgStep_def bg_ops Let_def zeroSlot_def)
qed

theorem blue_green_completed_can_lose_active_slot_witness:
  "slName (bgActiveSlot (foldl (bgStep (\<lambda>_ _. False) (\<lambda>_. []))
     (exampleRun (exampleRollout @ [BgPromote])) [BgPlanShift, BgMarkShifted, BgPromote])) = []"
  using blue_green_completed_can_lose_active_slot [OF exampleLifecycle_new refl example_completed]
  by (simp only: Let_def)

end
