(* ===== verification/Webhook_Policy.thy ===== *)
theory Webhook_Policy
  imports Go_Prelude
begin

text \<open>
  The webhook policy engine of the agent, internal/policy: the fixed-window rate limiter
  (rate_limiter.go), the circuit-breaker registry (circuit_breaker.go) and the engine that
  combines them with the concurrency and endpoint-failure limits (webhook_policy_engine.go).
  The engine's mutex makes every call atomic, so a run is a sequence of calls. A Go map is a
  HOL map; the argument \<open>ul\<close> is \<open>strings.ToLower\<close> outside ASCII and \<open>ustr\<close> the text form of a
  UUID. Every limiter reads the clock itself; the readings are arguments. The input field
  \<open>FailureRate\<close>, a float that the engine never reads, is left out.
\<close>

definition normalizePolicyToken :: "(string \<Rightarrow> string) \<Rightarrow> string \<Rightarrow> string" where
  "normalizePolicyToken ul s = TrimSuffixDot (ToLower ul (TrimSpace s))"

section \<open>The rate limiter\<close>

record rateWindow =
  rwUnixSecond :: int
  rwCount :: int

definition zeroWindow :: rateWindow where
  "zeroWindow = \<lparr>rwUnixSecond = 0, rwCount = 0\<rparr>"

record fixedWindowRateLimiter =
  rlLimit :: int
  rlHits :: "string \<rightharpoonup> rateWindow"

definition newFixedWindowRateLimiter :: "int \<Rightarrow> fixedWindowRateLimiter" where
  "newFixedWindowRateLimiter limit = \<lparr>rlLimit = limit, rlHits = Map.empty\<rparr>"

definition rateAllow :: "fixedWindowRateLimiter \<Rightarrow> int \<Rightarrow> string \<Rightarrow> bool \<times> fixedWindowRateLimiter" where
  "rateAllow l now key =
     (if rlLimit l \<le> 0 \<or> key = [] then (True, l)
      else let window = mapGet zeroWindow (rlHits l) key;
               window = (if rwUnixSecond window \<noteq> now then \<lparr>rwUnixSecond = now, rwCount = 0\<rparr> else window)
           in if rwCount window \<ge> rlLimit l then (False, l\<lparr>rlHits := (rlHits l)(key \<mapsto> window)\<rparr>)
              else (True, l\<lparr>rlHits := (rlHits l)(key \<mapsto> window\<lparr>rwCount := rwCount window + 1\<rparr>)\<rparr>))"

text \<open>
  What a client of a limiter relies on: \<open>budget l k t\<close> bounds the calls that the limiter \<open>l\<close> can
  still grant to the key \<open>k\<close> in the second \<open>t\<close>. Every grant uses up one, no call adds to the
  budget of the current second, and it never exceeds the capacity.
\<close>

locale limiter =
  fixes allow :: "'l \<Rightarrow> int \<Rightarrow> 'k \<Rightarrow> bool \<times> 'l"
    and wf :: "'l \<Rightarrow> bool"
    and limited :: "'l \<Rightarrow> 'k \<Rightarrow> bool"
    and cap :: "'l \<Rightarrow> int"
    and budget :: "'l \<Rightarrow> 'k \<Rightarrow> int \<Rightarrow> int"
  assumes wf_allow: "wf l \<Longrightarrow> wf (snd (allow l t k))"
    and cap_allow: "cap (snd (allow l t k)) = cap l"
    and limited_allow: "limited (snd (allow l t k)) j = limited l j"
    and budget_cap: "wf l \<Longrightarrow> limited l k \<Longrightarrow> budget l k t \<le> cap l"
    and budget_nonneg: "0 \<le> budget l k t"
    and budget_grant: "wf l \<Longrightarrow> limited l k \<Longrightarrow> fst (allow l t k) \<Longrightarrow> budget (snd (allow l t k)) k t + 1 \<le> budget l k t"
    and budget_mono: "budget (snd (allow l t j)) k t \<le> budget l k t"
begin

text \<open>The grants of the key \<open>k\<close> in second \<open>t\<close> recorded in a log.\<close>

definition grants :: "(int \<times> 'k) list \<Rightarrow> 'k \<Rightarrow> int \<Rightarrow> int" where
  "grants log k t = int (length (filter (\<lambda>e. e = (t, k)) log))"

lemma grants_simps [simp]:
  "grants [] k t = 0"
  "grants (e # log) k t = grants log k t + (if e = (t, k) then 1 else 0)"
  by (simp_all add: grants_def)

lemma grants_later: "\<forall>e \<in> set log. fst e \<le> clock \<Longrightarrow> clock < t \<Longrightarrow> grants log k t = 0"
  by (induction log) auto

definition within :: "'l \<Rightarrow> int \<Rightarrow> (int \<times> 'k) list \<Rightarrow> bool" where
  "within l clock log \<longleftrightarrow> wf l \<and>
     (\<forall>e \<in> set log. fst e \<le> clock)
     \<and> (\<forall>k. limited l k \<longrightarrow> (\<forall>t. grants log k t \<le> cap l)
          \<and> grants log k clock + budget l k clock \<le> cap l)"

lemma within_clock:
  assumes "within l clock log" "clock \<le> t"
  shows "within l t log"
proof (cases "clock = t")
  case True
  with assms show ?thesis by simp
next
  case False
  with assms have "grants log k t = 0" for k
    by (intro grants_later [of _ clock]) (auto simp: within_def)
  with assms budget_cap show ?thesis by (fastforce simp: within_def)
qed

lemma within_allow:
  assumes "within l clock log" "clock \<le> t"
  shows "within (snd (allow l t j)) t log"
    and "fst (allow l t j) \<Longrightarrow> within (snd (allow l t j)) t ((t, j) # log)"
proof -
  note w = within_clock [OF assms]
  have wf: "wf l" using w by (simp add: within_def)
  have b: "grants log k t + budget l k t \<le> cap l" if "limited l k" for k
    using w that by (simp add: within_def)
  show "within (snd (allow l t j)) t log"
    unfolding within_def
  proof (intro conjI allI impI)
    fix k assume "limited (snd (allow l t j)) k"
    then have k: "limited l k" by (simp add: limited_allow)
    show "grants log k t + budget (snd (allow l t j)) k t \<le> cap (snd (allow l t j))"
      using b [OF k] budget_mono [of l t j k] by (simp add: cap_allow)
    show "grants log k t' \<le> cap (snd (allow l t j))" for t'
      using w k by (simp add: within_def cap_allow)
  qed (use w in \<open>simp_all add: within_def wf_allow\<close>)
  assume g: "fst (allow l t j)"
  show "within (snd (allow l t j)) t ((t, j) # log)"
    unfolding within_def
  proof (intro conjI allI impI)
    fix k assume "limited (snd (allow l t j)) k"
    then have k: "limited l k" by (simp add: limited_allow)
    show c: "grants ((t, j) # log) k t + budget (snd (allow l t j)) k t \<le> cap (snd (allow l t j))"
      using b [OF k] budget_mono [of l t j k] budget_grant [OF wf k, of t] g by (auto simp: cap_allow)
    show "grants ((t, j) # log) k t' \<le> cap (snd (allow l t j))" for t'
      using w k c budget_nonneg [of "snd (allow l t j)" k t] by (cases "t' = t") (auto simp: within_def cap_allow)
  qed (use w in \<open>simp_all add: within_def wf_allow\<close>)
qed

lemma within_bound: "within l clock log \<Longrightarrow> limited l k \<Longrightarrow> grants log k t \<le> cap l"
  by (simp add: within_def)

end

definition rateLimited :: "fixedWindowRateLimiter \<Rightarrow> string \<Rightarrow> bool" where
  "rateLimited l key \<longleftrightarrow> rlLimit l > 0 \<and> key \<noteq> []"

definition rateWf :: "fixedWindowRateLimiter \<Rightarrow> bool" where
  "rateWf l \<longleftrightarrow> (\<forall>key. 0 \<le> rwCount (mapGet zeroWindow (rlHits l) key))"

definition rateBudget :: "fixedWindowRateLimiter \<Rightarrow> string \<Rightarrow> int \<Rightarrow> int" where
  "rateBudget l key t =
     (let w = mapGet zeroWindow (rlHits l) key in
      if rwUnixSecond w = t then max 0 (min (rlLimit l) (rlLimit l - rwCount w)) else max 0 (rlLimit l))"

lemma rateWfD: "rateWf l \<Longrightarrow> 0 \<le> rwCount (mapGet zeroWindow (rlHits l) key)"
  by (simp add: rateWf_def)

lemma rateWf_allow: "rateWf l \<Longrightarrow> rateWf (snd (rateAllow l t key))"
  by (auto simp: rateWf_def rateAllow_def Let_def)

lemma rateBudget_grant:
  assumes "rateWf l" "rateLimited l k" "fst (rateAllow l t k)"
  shows "rateBudget (snd (rateAllow l t k)) k t + 1 \<le> rateBudget l k t"
  using assms(2,3) rateWfD [OF assms(1), of k]
  by (auto simp: rateAllow_def rateLimited_def rateBudget_def Let_def min_def split: if_splits)

interpretation rate: limiter rateAllow rateWf rateLimited rlLimit rateBudget
  by unfold_locales
     (erule rateWf_allow | erule (2) rateBudget_grant |
      (auto simp: rateAllow_def rateLimited_def rateBudget_def Let_def min_def) [])+

section \<open>The circuit breakers\<close>

datatype circuitState = circuitClosed | circuitOpen | circuitHalfOpen

record circuitBreakerRegistry =
  cbStates :: "string \<rightharpoonup> circuitState"
  cbHalfOpenProbes :: "string \<rightharpoonup> int"
  cbHalfOpenLimit :: int

fun setCircuits ::
    "(string \<Rightarrow> string) \<Rightarrow> circuitState \<Rightarrow> string list \<Rightarrow> (string \<rightharpoonup> circuitState) \<Rightarrow> (string \<rightharpoonup> circuitState)" where
  "setCircuits ul c [] states = states"
| "setCircuits ul c (host # hosts) states =
     (let normalized = normalizePolicyToken ul host in
      setCircuits ul c hosts (if normalized \<noteq> [] then states(normalized \<mapsto> c) else states))"

definition newCircuitBreakerRegistry ::
    "(string \<Rightarrow> string) \<Rightarrow> string list \<Rightarrow> string list \<Rightarrow> int \<Rightarrow> circuitBreakerRegistry" where
  "newCircuitBreakerRegistry ul openHosts halfOpenHosts halfOpenLimit =
     \<lparr>cbStates = setCircuits ul circuitHalfOpen halfOpenHosts
        (setCircuits ul circuitOpen openHosts Map.empty),
      cbHalfOpenProbes = Map.empty,
      cbHalfOpenLimit = (if halfOpenLimit \<le> 0 then 1 else halfOpenLimit)\<rparr>"

definition circuitAllow ::
    "(string \<Rightarrow> string) \<Rightarrow> circuitBreakerRegistry \<Rightarrow> string \<Rightarrow> (bool \<times> string) \<times> circuitBreakerRegistry" where
  "circuitAllow ul r host =
     (let host = normalizePolicyToken ul host in
      case mapGet circuitClosed (cbStates r) host of
        circuitOpen \<Rightarrow> ((False, ''circuit breaker open''), r)
      | circuitHalfOpen \<Rightarrow>
          if mapGet 0 (cbHalfOpenProbes r) host \<ge> cbHalfOpenLimit r
            then ((False, ''circuit breaker half-open probe limit exceeded''), r)
          else ((True, []), r\<lparr>cbHalfOpenProbes :=
                  (cbHalfOpenProbes r)(host \<mapsto> mapGet 0 (cbHalfOpenProbes r) host + 1)\<rparr>)
      | circuitClosed \<Rightarrow> ((True, []), r))"

lemma setCircuits_get:
  "setCircuits ul c hosts states h =
     (if h \<noteq> [] \<and> (\<exists>x \<in> set hosts. normalizePolicyToken ul x = h) then Some c else states h)"
  by (induction ul c hosts states rule: setCircuits.induct) (auto simp: Let_def)

section \<open>The engine\<close>

record WebhookPolicyConfig =
  pcTenantRequestsPerSecond :: int
  pcAgentRequestsPerSecond :: int
  pcAgentConcurrentExecutions :: int
  pcCorridorRequestsPerSecond :: "(string \<times> int) list"
  pcOpenCircuitHosts :: "string list"
  pcHalfOpenCircuitHosts :: "string list"
  pcHalfOpenProbeLimit :: int
  pcMaxRetryAttempts :: int
  pcEndpointFailureLimit :: int

record WebhookPolicyInput =
  piTenantID :: uuid
  piAgentID :: uuid
  piCorridor :: string
  piHost :: string
  piRetryMax :: int
  piReplay :: bool
  piPriority :: string

record WebhookPolicyDecision =
  pdAllowed :: bool
  pdReason :: string

record WebhookPolicyResult =
  poStatusCode :: int
  poErr :: "error option"
  poReplay :: bool

text \<open>A \<open>WebhookPolicyRelease\<close> is the no-op or the closure that \<open>EvaluateWebhookPolicy\<close> returns,
  with the variables it captures; whether its \<open>sync.Once\<close> is done is a state of its holder.\<close>

datatype WebhookPolicyRelease =
  noopWebhookPolicyRelease | onceRelease WebhookPolicyInput bool

record WebhookPolicyEngine =
  peTenantLimiter :: fixedWindowRateLimiter
  peAgentLimiter :: fixedWindowRateLimiter
  peCorridorLimiter :: "string \<rightharpoonup> fixedWindowRateLimiter"
  peCircuits :: circuitBreakerRegistry
  peAgentConcurrent :: "string \<rightharpoonup> int"
  peHostFailures :: "string \<rightharpoonup> int"
  peConfig :: WebhookPolicyConfig

fun corridorLimiters ::
    "(string \<Rightarrow> string) \<Rightarrow> (string \<times> int) list \<Rightarrow> (string \<rightharpoonup> fixedWindowRateLimiter) \<Rightarrow>
     (string \<rightharpoonup> fixedWindowRateLimiter)" where
  "corridorLimiters ul [] m = m"
| "corridorLimiters ul ((corridor, limit) # cs) m =
     (let normalized = normalizePolicyToken ul corridor in
      corridorLimiters ul cs
        (if normalized \<noteq> [] then m(normalized \<mapsto> newFixedWindowRateLimiter limit) else m))"

definition NewWebhookPolicyEngine ::
    "(string \<Rightarrow> string) \<Rightarrow> WebhookPolicyConfig \<Rightarrow> WebhookPolicyEngine" where
  "NewWebhookPolicyEngine ul config =
     \<lparr>peTenantLimiter = newFixedWindowRateLimiter (pcTenantRequestsPerSecond config),
      peAgentLimiter = newFixedWindowRateLimiter (pcAgentRequestsPerSecond config),
      peCorridorLimiter = corridorLimiters ul (pcCorridorRequestsPerSecond config) Map.empty,
      peCircuits = newCircuitBreakerRegistry ul (pcOpenCircuitHosts config)
        (pcHalfOpenCircuitHosts config) (pcHalfOpenProbeLimit config),
      peAgentConcurrent = Map.empty, peHostFailures = Map.empty, peConfig = config\<rparr>"

definition denyWebhookPolicy :: "string \<Rightarrow> WebhookPolicyDecision" where
  "denyWebhookPolicy reason = \<lparr>pdAllowed = False, pdReason = reason\<rparr>"

text \<open>The clock readings (Unix seconds) of the tenant, the agent and the corridor limiter.\<close>

record clockReadings =
  ckTenant :: int
  ckAgent :: int
  ckCorridor :: int

definition corridorAllow ::
    "WebhookPolicyEngine \<Rightarrow> int \<Rightarrow> string \<Rightarrow> bool \<times> WebhookPolicyEngine" where
  "corridorAllow e now corridor =
     (case peCorridorLimiter e corridor of
        None \<Rightarrow> (True, e)
      | Some lim \<Rightarrow>
          let (ok, lim) = rateAllow lim now corridor in
          (ok, e\<lparr>peCorridorLimiter := (peCorridorLimiter e)(corridor \<mapsto> lim)\<rparr>))"

definition acquireAgentSlot ::
    "string \<Rightarrow> WebhookPolicyEngine \<Rightarrow> (bool option \<times> WebhookPolicyEngine)" where
  "acquireAgentSlot agentKey e =
     (if pcAgentConcurrentExecutions (peConfig e) > 0 \<and> agentKey \<noteq> []
      then if mapGet 0 (peAgentConcurrent e) agentKey \<ge> pcAgentConcurrentExecutions (peConfig e)
           then (None, e)
           else (Some True, e\<lparr>peAgentConcurrent :=
                  (peAgentConcurrent e)(agentKey \<mapsto> mapGet 0 (peAgentConcurrent e) agentKey + 1)\<rparr>)
      else (Some False, e))"

text \<open>\<open>EvaluateWebhookPolicy\<close> on an engine, after the test for a nil engine and for a context
  that is already done.\<close>

definition evaluateLocked ::
    "(string \<Rightarrow> string) \<Rightarrow> (uuid \<Rightarrow> string) \<Rightarrow> clockReadings \<Rightarrow> WebhookPolicyInput \<Rightarrow>
     WebhookPolicyEngine \<Rightarrow> (WebhookPolicyDecision \<times> WebhookPolicyRelease) \<times> WebhookPolicyEngine" where
  "evaluateLocked ul ustr ck input e =
     (let deny = (\<lambda>reason e. ((denyWebhookPolicy reason, noopWebhookPolicyRelease), e));
          host = normalizePolicyToken ul (piHost input);
          ((allowed, reason), circuits) = circuitAllow ul (peCircuits e) host;
          e = e\<lparr>peCircuits := circuits\<rparr>
      in if \<not> allowed then deny reason e
      else if pcMaxRetryAttempts (peConfig e) > 0 \<and> piRetryMax input > pcMaxRetryAttempts (peConfig e)
        then deny ''retry storm detected'' e
      else if pcEndpointFailureLimit (peConfig e) > 0 \<and> host \<noteq> []
          \<and> mapGet 0 (peHostFailures e) host \<ge> pcEndpointFailureLimit (peConfig e)
        then deny ''endpoint failure threshold exceeded'' e
      else let (ok, l) = rateAllow (peTenantLimiter e) (ckTenant ck) (ustr (piTenantID input));
               e = e\<lparr>peTenantLimiter := l\<rparr>
      in if \<not> ok then deny ''tenant rate limit exceeded'' e
      else let (ok, l) = rateAllow (peAgentLimiter e) (ckAgent ck) (ustr (piAgentID input));
               e = e\<lparr>peAgentLimiter := l\<rparr>
      in if \<not> ok then deny ''agent rate limit exceeded'' e
      else let (ok, e) = corridorAllow e (ckCorridor ck) (normalizePolicyToken ul (piCorridor input))
      in if \<not> ok then deny ''corridor rate limit exceeded'' e
      else case acquireAgentSlot (ustr (piAgentID input)) e of
             (None, e) \<Rightarrow> deny ''agent concurrency limit exceeded'' e
           | (Some acquired, e) \<Rightarrow>
               ((\<lparr>pdAllowed = True, pdReason = []\<rparr>, onceRelease input acquired), e))"

definition EvaluateWebhookPolicy ::
    "(string \<Rightarrow> string) \<Rightarrow> (uuid \<Rightarrow> string) \<Rightarrow> error option \<Rightarrow> clockReadings \<Rightarrow> WebhookPolicyInput \<Rightarrow>
     WebhookPolicyEngine option \<Rightarrow>
     (WebhookPolicyDecision \<times> WebhookPolicyRelease) result \<times> WebhookPolicyEngine option" where
  "EvaluateWebhookPolicy ul ustr ctxErr ck input engine =
     (case engine of
        None \<Rightarrow> (Inr (\<lparr>pdAllowed = True, pdReason = []\<rparr>, noopWebhookPolicyRelease), None)
      | Some e \<Rightarrow>
     (case ctxErr of
        Some err \<Rightarrow> (Inl err, Some e)
      | None \<Rightarrow> let (r, e') = evaluateLocked ul ustr ck input e in (Inr r, Some e')))"

definition recordResult ::
    "(string \<Rightarrow> string) \<Rightarrow> (uuid \<Rightarrow> string) \<Rightarrow> WebhookPolicyInput \<Rightarrow> WebhookPolicyResult \<Rightarrow> bool \<Rightarrow>
     WebhookPolicyEngine \<Rightarrow> WebhookPolicyEngine" where
  "recordResult ul ustr input res releaseAgentSlot e =
     (let agentKey = ustr (piAgentID input);
          n = mapGet 0 (peAgentConcurrent e) agentKey;
          e = (if releaseAgentSlot \<and> n > 0
               then e\<lparr>peAgentConcurrent := (peAgentConcurrent e)(agentKey \<mapsto> n - 1)\<rparr> else e);
          host = normalizePolicyToken ul (piHost input)
      in if host = [] \<or> poReplay res then e
      else if poErr res \<noteq> None \<or> poStatusCode res \<ge> 500
        then e\<lparr>peHostFailures := (peHostFailures e)(host \<mapsto> mapGet 0 (peHostFailures e) host + 1)\<rparr>
      else if poStatusCode res > 0 \<and> poStatusCode res < 500
        then e\<lparr>peHostFailures := (peHostFailures e)(host := None)\<rparr>
      else e)"

definition FormatWebhookPolicyDenial :: "string \<Rightarrow> error" where
  "FormatWebhookPolicyDenial reason =
     Errorf (''webhook policy denied: '' @ (if reason = [] then ''denied'' else reason))"

section \<open>What one evaluation changes\<close>

abbreviation policyHost :: "(string \<Rightarrow> string) \<Rightarrow> WebhookPolicyInput \<Rightarrow> string" where
  "policyHost ul i \<equiv> normalizePolicyToken ul (piHost i)"

abbreviation policyCorridor :: "(string \<Rightarrow> string) \<Rightarrow> WebhookPolicyInput \<Rightarrow> string" where
  "policyCorridor ul i \<equiv> normalizePolicyToken ul (piCorridor i)"

text \<open>The circuit registry normalises the host that the engine has normalised a second time.\<close>

abbreviation circuitHost :: "(string \<Rightarrow> string) \<Rightarrow> WebhookPolicyInput \<Rightarrow> string" where
  "circuitHost ul i \<equiv> normalizePolicyToken ul (policyHost ul i)"

text \<open>The engine after the circuit breaker, the tenant, the agent and the corridor limiter have been
  asked.\<close>

definition askedCircuit :: "(string \<Rightarrow> string) \<Rightarrow> WebhookPolicyInput \<Rightarrow> WebhookPolicyEngine \<Rightarrow> WebhookPolicyEngine" where
  "askedCircuit ul i e = e\<lparr>peCircuits := snd (circuitAllow ul (peCircuits e) (policyHost ul i))\<rparr>"

definition askedTenant :: "int \<Rightarrow> string \<Rightarrow> WebhookPolicyEngine \<Rightarrow> WebhookPolicyEngine" where
  "askedTenant now key e = e\<lparr>peTenantLimiter := snd (rateAllow (peTenantLimiter e) now key)\<rparr>"

definition askedAgent :: "int \<Rightarrow> string \<Rightarrow> WebhookPolicyEngine \<Rightarrow> WebhookPolicyEngine" where
  "askedAgent now key e = e\<lparr>peAgentLimiter := snd (rateAllow (peAgentLimiter e) now key)\<rparr>"

lemma asked_simps [simp]:
  "peConfig (askedCircuit ul i e) = peConfig e" "peConfig (askedTenant t k e) = peConfig e"
  "peConfig (askedAgent t k e) = peConfig e"
  "peHostFailures (askedCircuit ul i e) = peHostFailures e"
  "peTenantLimiter (askedCircuit ul i e) = peTenantLimiter e"
  "peAgentLimiter (askedCircuit ul i e) = peAgentLimiter e"
  "peAgentLimiter (askedTenant t k e) = peAgentLimiter e"
  by (simp_all add: askedCircuit_def askedTenant_def askedAgent_def)

lemma evaluateLocked_eq:
  assumes "e0 = askedCircuit ul i e"
    and "e1 = askedTenant (ckTenant ck) (ustr (piTenantID i)) e0"
    and "e2 = askedAgent (ckAgent ck) (ustr (piAgentID i)) e1"
    and "e3 = snd (corridorAllow e2 (ckCorridor ck) (policyCorridor ul i))"
  shows "evaluateLocked ul ustr ck i e =
     (let deny = (\<lambda>reason e. ((denyWebhookPolicy reason, noopWebhookPolicyRelease), e)) in
      if \<not> fst (fst (circuitAllow ul (peCircuits e) (policyHost ul i)))
        then deny (snd (fst (circuitAllow ul (peCircuits e) (policyHost ul i)))) e0
      else if pcMaxRetryAttempts (peConfig e) > 0 \<and> piRetryMax i > pcMaxRetryAttempts (peConfig e)
        then deny ''retry storm detected'' e0
      else if pcEndpointFailureLimit (peConfig e) > 0 \<and> policyHost ul i \<noteq> []
          \<and> mapGet 0 (peHostFailures e) (policyHost ul i) \<ge> pcEndpointFailureLimit (peConfig e)
        then deny ''endpoint failure threshold exceeded'' e0
      else if \<not> fst (rateAllow (peTenantLimiter e) (ckTenant ck) (ustr (piTenantID i)))
        then deny ''tenant rate limit exceeded'' e1
      else if \<not> fst (rateAllow (peAgentLimiter e) (ckAgent ck) (ustr (piAgentID i)))
        then deny ''agent rate limit exceeded'' e2
      else if \<not> fst (corridorAllow e2 (ckCorridor ck) (policyCorridor ul i))
        then deny ''corridor rate limit exceeded'' e3
      else case acquireAgentSlot (ustr (piAgentID i)) e3 of
             (None, e4) \<Rightarrow> deny ''agent concurrency limit exceeded'' e4
           | (Some acquired, e4) \<Rightarrow>
               ((\<lparr>pdAllowed = True, pdReason = []\<rparr>, onceRelease i acquired), e4))"
  unfolding evaluateLocked_def Let_def split_beta assms askedCircuit_def askedTenant_def askedAgent_def
  by (simp split del: if_split cong: if_cong add: split_beta)

lemma acquire_None: "acquireAgentSlot k x = (None, y) \<Longrightarrow> y = x"
  by (simp add: acquireAgentSlot_def split: if_splits)

lemma evaluateLocked_cases:
  assumes "evaluateLocked ul ustr ck i e = ((d, r), e')"
    and e0: "e0 = askedCircuit ul i e"
    and e1: "e1 = askedTenant (ckTenant ck) (ustr (piTenantID i)) e0"
    and e2: "e2 = askedAgent (ckAgent ck) (ustr (piAgentID i)) e1"
    and e3: "e3 = snd (corridorAllow e2 (ckCorridor ck) (policyCorridor ul i))"
  obtains (denied) "\<not> pdAllowed d" "r = noopWebhookPolicyRelease" "e' \<in> {e0, e1, e2, e3}"
  | (allowed) acquired where "pdAllowed d" "r = onceRelease i acquired"
      "fst (fst (circuitAllow ul (peCircuits e) (policyHost ul i)))"
      "fst (rateAllow (peTenantLimiter e) (ckTenant ck) (ustr (piTenantID i)))"
      "fst (rateAllow (peAgentLimiter e) (ckAgent ck) (ustr (piAgentID i)))"
      "fst (corridorAllow e2 (ckCorridor ck) (policyCorridor ul i))"
      "acquireAgentSlot (ustr (piAgentID i)) e3 = (Some acquired, e')"
      "\<not> (pcMaxRetryAttempts (peConfig e) > 0 \<and> piRetryMax i > pcMaxRetryAttempts (peConfig e))"
      "\<not> (pcEndpointFailureLimit (peConfig e) > 0 \<and> policyHost ul i \<noteq> []
         \<and> mapGet 0 (peHostFailures e) (policyHost ul i) \<ge> pcEndpointFailureLimit (peConfig e))"
  using assms(1) unfolding evaluateLocked_eq [OF e0 e1 e2 e3] Let_def
  by (auto simp: denyWebhookPolicy_def split: if_split_asm option.split_asm prod.split_asm
      dest: acquire_None intro: denied allowed)

section \<open>Runs of the engine\<close>

text \<open>
  The agent calls the engine and, later and in any order, the release functions it got. The
  world is the engine and every release function it returned, with the state of its
  \<open>sync.Once\<close>; \<open>pwLog\<close> records the evaluations that were allowed and \<open>pwClock\<close> the last clock
  readings, which no definition of the engine looks at.
\<close>

record policyWorld =
  pwEngine :: WebhookPolicyEngine
  pwReleases :: "(WebhookPolicyRelease \<times> bool) list"
  pwLog :: "(clockReadings \<times> WebhookPolicyInput) list"
  pwClock :: clockReadings

datatype policyEvent =
  PolicyEvaluate clockReadings WebhookPolicyInput | PolicyRelease nat WebhookPolicyResult

definition callRelease ::
    "(string \<Rightarrow> string) \<Rightarrow> (uuid \<Rightarrow> string) \<Rightarrow> WebhookPolicyRelease \<times> bool \<Rightarrow> WebhookPolicyResult \<Rightarrow>
     WebhookPolicyEngine \<Rightarrow> WebhookPolicyEngine" where
  "callRelease ul ustr r res e =
     (case fst r of
        noopWebhookPolicyRelease \<Rightarrow> e
      | onceRelease input acquired \<Rightarrow> if snd r then e else recordResult ul ustr input res acquired e)"

lemma callRelease_static [simp]:
  "peConfig (callRelease ul ustr r res e) = peConfig e"
  "peTenantLimiter (callRelease ul ustr r res e) = peTenantLimiter e"
  "peAgentLimiter (callRelease ul ustr r res e) = peAgentLimiter e"
  "peCorridorLimiter (callRelease ul ustr r res e) = peCorridorLimiter e"
  "peCircuits (callRelease ul ustr r res e) = peCircuits e"
  by (simp_all add: callRelease_def recordResult_def Let_def split: WebhookPolicyRelease.split)

fun policyStep ::
    "(string \<Rightarrow> string) \<Rightarrow> (uuid \<Rightarrow> string) \<Rightarrow> policyWorld \<Rightarrow> policyEvent \<Rightarrow> policyWorld" where
  "policyStep ul ustr w (PolicyEvaluate ck i) =
     (let ((d, r), e) = evaluateLocked ul ustr ck i (pwEngine w) in
      \<lparr>pwEngine = e, pwReleases = pwReleases w @ [(r, False)],
       pwLog = (if pdAllowed d then (ck, i) # pwLog w else pwLog w), pwClock = ck\<rparr>)"
| "policyStep ul ustr w (PolicyRelease n res) =
     (if n < length (pwReleases w)
      then w\<lparr>pwEngine := callRelease ul ustr (pwReleases w ! n) res (pwEngine w),
             pwReleases := (pwReleases w)[n := (fst (pwReleases w ! n), True)]\<rparr>
      else w)"

definition newPolicyWorld :: "(string \<Rightarrow> string) \<Rightarrow> WebhookPolicyConfig \<Rightarrow> clockReadings \<Rightarrow> policyWorld" where
  "newPolicyWorld ul config ck =
     \<lparr>pwEngine = NewWebhookPolicyEngine ul config, pwReleases = [], pwLog = [], pwClock = ck\<rparr>"

text \<open>The clock of a limiter does not go back.\<close>

fun clockForward :: "policyWorld \<Rightarrow> policyEvent \<Rightarrow> bool" where
  "clockForward w (PolicyEvaluate ck i) =
     (ckTenant (pwClock w) \<le> ckTenant ck \<and> ckAgent (pwClock w) \<le> ckAgent ck
      \<and> ckCorridor (pwClock w) \<le> ckCorridor ck)"
| "clockForward w (PolicyRelease n res) = True"

section \<open>The static part\<close>

definition staticInv :: "(string \<Rightarrow> string) \<Rightarrow> WebhookPolicyConfig \<Rightarrow> WebhookPolicyEngine \<Rightarrow> bool" where
  "staticInv ul config e \<longleftrightarrow> (let n = NewWebhookPolicyEngine ul config in
     peConfig e = config
     \<and> rlLimit (peTenantLimiter e) = pcTenantRequestsPerSecond config
     \<and> rlLimit (peAgentLimiter e) = pcAgentRequestsPerSecond config
     \<and> (\<forall>c. map_option rlLimit (peCorridorLimiter e c) = map_option rlLimit (peCorridorLimiter n c))
     \<and> cbStates (peCircuits e) = cbStates (peCircuits n)
     \<and> cbHalfOpenLimit (peCircuits e) = cbHalfOpenLimit (peCircuits n))"

lemma staticInv_new: "staticInv ul config (NewWebhookPolicyEngine ul config)"
  by (simp add: staticInv_def Let_def NewWebhookPolicyEngine_def newFixedWindowRateLimiter_def)

lemma circuitAllow_static [simp]:
  "cbStates (snd (circuitAllow ul r h)) = cbStates r"
  "cbHalfOpenLimit (snd (circuitAllow ul r h)) = cbHalfOpenLimit r"
  by (simp_all add: circuitAllow_def Let_def split: circuitState.split)

lemma staticInv_asked:
  "staticInv ul config e \<Longrightarrow> staticInv ul config (askedCircuit ul i e)"
  "staticInv ul config e \<Longrightarrow> staticInv ul config (askedTenant t k e)"
  "staticInv ul config e \<Longrightarrow> staticInv ul config (askedAgent t k e)"
  "staticInv ul config e \<Longrightarrow> staticInv ul config (snd (corridorAllow e t k))"
  "staticInv ul config e \<Longrightarrow> staticInv ul config (snd (acquireAgentSlot k e))"
proof -
  assume e: "staticInv ul config e"
  show "staticInv ul config (askedCircuit ul i e)" "staticInv ul config (askedTenant t k e)"
    "staticInv ul config (askedAgent t k e)" "staticInv ul config (snd (acquireAgentSlot k e))"
    using e by (simp_all add: staticInv_def Let_def askedCircuit_def askedTenant_def askedAgent_def
        acquireAgentSlot_def rate.cap_allow)
  have "map_option rlLimit (Some (snd (rateAllow l t k))) = map_option rlLimit (Some l)" for l
    by (simp add: rate.cap_allow)
  then show "staticInv ul config (snd (corridorAllow e t k))"
    using e by (auto simp: staticInv_def Let_def corridorAllow_def split: option.split prod.split)
      (metis option.simps(9) rate.cap_allow snd_conv)
qed

section \<open>Rates\<close>

definition tenantLog :: "(uuid \<Rightarrow> string) \<Rightarrow> (clockReadings \<times> WebhookPolicyInput) list \<Rightarrow> (int \<times> string) list" where
  "tenantLog ustr log = map (\<lambda>(ck, i). (ckTenant ck, ustr (piTenantID i))) log"

definition agentLog :: "(uuid \<Rightarrow> string) \<Rightarrow> (clockReadings \<times> WebhookPolicyInput) list \<Rightarrow> (int \<times> string) list" where
  "agentLog ustr log = map (\<lambda>(ck, i). (ckAgent ck, ustr (piAgentID i))) log"

definition corridorLog ::
    "(string \<Rightarrow> string) \<Rightarrow> string \<Rightarrow> (clockReadings \<times> WebhookPolicyInput) list \<Rightarrow> (int \<times> string) list" where
  "corridorLog ul c log = map (\<lambda>(ck, i). (ckCorridor ck, c)) (filter (\<lambda>(ck, i). policyCorridor ul i = c) log)"

lemma logs_Nil [simp]: "tenantLog ustr [] = []" "agentLog ustr [] = []" "corridorLog ul c [] = []"
  by (simp_all add: tenantLog_def agentLog_def corridorLog_def)

lemma logs_Cons [simp]:
  "tenantLog ustr ((ck, i) # log) = (ckTenant ck, ustr (piTenantID i)) # tenantLog ustr log"
  "agentLog ustr ((ck, i) # log) = (ckAgent ck, ustr (piAgentID i)) # agentLog ustr log"
  "corridorLog ul c ((ck, i) # log) =
     (if policyCorridor ul i = c then [(ckCorridor ck, c)] else []) @ corridorLog ul c log"
  by (simp_all add: tenantLog_def agentLog_def corridorLog_def)

definition rateInv ::
    "(string \<Rightarrow> string) \<Rightarrow> (uuid \<Rightarrow> string) \<Rightarrow> WebhookPolicyEngine \<Rightarrow> clockReadings \<Rightarrow>
     (clockReadings \<times> WebhookPolicyInput) list \<Rightarrow> bool" where
  "rateInv ul ustr e ck log \<longleftrightarrow>
     rate.within (peTenantLimiter e) (ckTenant ck) (tenantLog ustr log)
     \<and> rate.within (peAgentLimiter e) (ckAgent ck) (agentLog ustr log)
     \<and> (\<forall>c l. peCorridorLimiter e c = Some l \<longrightarrow> rate.within l (ckCorridor ck) (corridorLog ul c log))"

lemma rate_new: "rate.within (newFixedWindowRateLimiter n) t []"
  by (auto simp: rate.within_def newFixedWindowRateLimiter_def rateWf_def rateLimited_def rateBudget_def
      zeroWindow_def)

lemma corridorLimiters_new:
  "corridorLimiters ul cs m c = Some l \<Longrightarrow> (\<exists>n. l = newFixedWindowRateLimiter n) \<or> m c = Some l"
  by (induction ul cs m rule: corridorLimiters.induct) (fastforce simp: Let_def split: if_splits)+

lemma rateInv_new: "rateInv ul ustr (NewWebhookPolicyEngine ul config) ck []"
  by (auto simp: rateInv_def NewWebhookPolicyEngine_def intro!: rate_new dest!: corridorLimiters_new)

lemma rateInv_clock:
  assumes "rateInv ul ustr e ck log"
    and "ckTenant ck \<le> ckTenant ck'" "ckAgent ck \<le> ckAgent ck'" "ckCorridor ck \<le> ckCorridor ck'"
  shows "rateInv ul ustr e ck' log"
  using assms by (auto simp: rateInv_def intro: rate.within_clock)

lemma rateInv_asked:
  assumes "rateInv ul ustr e ck log"
  shows "rateInv ul ustr (askedCircuit ul i e) ck log"
    and "rateInv ul ustr (askedTenant (ckTenant ck) k e) ck log"
    and "rateInv ul ustr (askedAgent (ckAgent ck) k e) ck log"
    and "rateInv ul ustr (snd (corridorAllow e (ckCorridor ck) k)) ck log"
    and "rateInv ul ustr (snd (acquireAgentSlot k e)) ck log"
  using assms
  by (auto simp: rateInv_def askedCircuit_def askedTenant_def askedAgent_def corridorAllow_def
      acquireAgentSlot_def split_beta intro: rate.within_allow(1) split: option.splits if_splits)

lemma rateInv_evaluate:
  assumes inv: "rateInv ul ustr e clk log"
    and ck: "ckTenant clk \<le> ckTenant ck" "ckAgent clk \<le> ckAgent ck" "ckCorridor clk \<le> ckCorridor ck"
    and ev: "evaluateLocked ul ustr ck i e = ((d, r), e')"
  shows "rateInv ul ustr e' ck (if pdAllowed d then (ck, i) # log else log)"
proof -
  note inv' = rateInv_clock [OF inv ck]
  let ?e0 = "askedCircuit ul i e"
  let ?e1 = "askedTenant (ckTenant ck) (ustr (piTenantID i)) ?e0"
  let ?e2 = "askedAgent (ckAgent ck) (ustr (piAgentID i)) ?e1"
  let ?e3 = "snd (corridorAllow ?e2 (ckCorridor ck) (policyCorridor ul i))"
  show ?thesis
    using ev refl refl refl refl
  proof (cases rule: evaluateLocked_cases)
    case denied
    then show ?thesis using inv' by (auto intro!: rateInv_asked)
  next
    case (allowed acquired)
    have "peTenantLimiter ?e3 = snd (rateAllow (peTenantLimiter e) (ckTenant ck) (ustr (piTenantID i)))"
      "peAgentLimiter ?e3 = snd (rateAllow (peAgentLimiter e) (ckAgent ck) (ustr (piAgentID i)))"
      by (auto simp: askedCircuit_def askedTenant_def askedAgent_def corridorAllow_def split: option.split prod.split)
    then have ta: "rate.within (peTenantLimiter ?e3) (ckTenant ck) (tenantLog ustr ((ck, i) # log))"
      "rate.within (peAgentLimiter ?e3) (ckAgent ck) (agentLog ustr ((ck, i) # log))"
      using inv' allowed(4,5) by (auto simp: rateInv_def intro: rate.within_allow(2))
    have same: "peCorridorLimiter ?e2 = peCorridorLimiter e"
      by (simp add: askedCircuit_def askedTenant_def askedAgent_def)
    have "rate.within l (ckCorridor ck) (corridorLog ul c ((ck, i) # log))"
      if "peCorridorLimiter ?e3 c = Some l" for c l
      using that inv' allowed(6) same
      by (auto simp: rateInv_def corridorAllow_def split_beta split: option.splits if_splits
          intro: rate.within_allow(2))
    with ta have "rateInv ul ustr ?e3 ck ((ck, i) # log)" by (simp add: rateInv_def)
    then have "rateInv ul ustr (snd (acquireAgentSlot (ustr (piAgentID i)) ?e3)) ck ((ck, i) # log)"
      by (rule rateInv_asked)
    with allowed(1,7) show ?thesis by simp
  qed
qed

lemma rateInv_release: "rateInv ul ustr e ck log \<Longrightarrow> rateInv ul ustr (callRelease ul ustr r res e) ck log"
  by (simp add: rateInv_def)

section \<open>Concurrency\<close>

definition holdsSlot :: "(uuid \<Rightarrow> string) \<Rightarrow> string \<Rightarrow> WebhookPolicyRelease \<times> bool \<Rightarrow> bool" where
  "holdsSlot ustr key r =
     (case fst r of
        noopWebhookPolicyRelease \<Rightarrow> False
      | onceRelease input acquired \<Rightarrow> acquired \<and> \<not> snd r \<and> ustr (piAgentID input) = key)"

text \<open>The executions of an agent that were allowed and have not been released.\<close>

definition outstanding :: "(uuid \<Rightarrow> string) \<Rightarrow> string \<Rightarrow> (WebhookPolicyRelease \<times> bool) list \<Rightarrow> int" where
  "outstanding ustr key rs = int (length (filter (holdsSlot ustr key) rs))"

definition slotInv ::
    "(uuid \<Rightarrow> string) \<Rightarrow> WebhookPolicyEngine \<Rightarrow> (WebhookPolicyRelease \<times> bool) list \<Rightarrow> bool" where
  "slotInv ustr e rs \<longleftrightarrow>
     (\<forall>key. mapGet 0 (peAgentConcurrent e) key = outstanding ustr key rs)
     \<and> (pcAgentConcurrentExecutions (peConfig e) > 0 \<longrightarrow>
          (\<forall>key. key \<noteq> [] \<longrightarrow> outstanding ustr key rs \<le> pcAgentConcurrentExecutions (peConfig e)))"

lemma slotInv_new: "slotInv ustr (NewWebhookPolicyEngine ul config) []"
  by (simp add: slotInv_def outstanding_def NewWebhookPolicyEngine_def)

lemma asked_slots [simp]:
  "peAgentConcurrent (askedCircuit ul i e) = peAgentConcurrent e"
  "peAgentConcurrent (askedTenant t k e) = peAgentConcurrent e"
  "peAgentConcurrent (askedAgent t k e) = peAgentConcurrent e"
  "peAgentConcurrent (snd (corridorAllow e t k)) = peAgentConcurrent e"
  "peConfig (snd (corridorAllow e t k)) = peConfig e"
  "peHostFailures (snd (corridorAllow e t k)) = peHostFailures e"
  "peHostFailures (askedTenant t k e) = peHostFailures e"
  "peHostFailures (askedAgent t k e) = peHostFailures e"
  "peHostFailures (snd (acquireAgentSlot k e)) = peHostFailures e"
  "peConfig (snd (acquireAgentSlot k e)) = peConfig e"
  by (simp_all add: askedCircuit_def askedTenant_def askedAgent_def corridorAllow_def acquireAgentSlot_def
      split: option.split prod.split)

lemma outstanding_snoc:
  "outstanding ustr key (rs @ [r]) = outstanding ustr key rs + (if holdsSlot ustr key r then 1 else 0)"
  by (simp add: outstanding_def)

lemma slotInv_evaluate:
  assumes inv: "slotInv ustr e rs" and ev: "evaluateLocked ul ustr ck i e = ((d, r), e')"
  shows "slotInv ustr e' (rs @ [(r, False)])"
  using ev refl refl refl refl
proof (cases rule: evaluateLocked_cases)
  case denied
  then show ?thesis using inv by (auto simp: slotInv_def outstanding_snoc holdsSlot_def)
next
  case (allowed acquired)
  from allowed(7) show ?thesis
    using inv allowed(2)
    by (auto simp: slotInv_def outstanding_snoc holdsSlot_def acquireAgentSlot_def split: if_splits)
qed

lemma holdsSlot_done [simp]: "\<not> holdsSlot ustr key (r, True)"
  by (simp add: holdsSlot_def split: WebhookPolicyRelease.split)

lemma release_slots:
  "mapGet 0 (peAgentConcurrent (callRelease ul ustr r res e)) key =
     (let n = mapGet 0 (peAgentConcurrent e) key in
      if holdsSlot ustr key r \<and> n > 0 then n - 1 else n)"
  by (auto simp: callRelease_def recordResult_def holdsSlot_def Let_def split: WebhookPolicyRelease.split)

lemma slotInv_release:
  assumes inv: "slotInv ustr e rs" and n: "n < length rs"
  shows "slotInv ustr (callRelease ul ustr (rs ! n) res e) (rs[n := (fst (rs ! n), True)])"
proof -
  have out: "outstanding ustr key (rs[n := (fst (rs ! n), True)]) =
      outstanding ustr key rs - (if holdsSlot ustr key (rs ! n) then 1 else 0)" for key
    using length_filter_update [OF n] by (simp add: outstanding_def)
  moreover have "holdsSlot ustr key (rs ! n) \<Longrightarrow> outstanding ustr key rs > 0" for key
    using n by (auto simp: outstanding_def filter_empty_conv)
  ultimately show ?thesis
    using inv by (auto simp: slotInv_def release_slots Let_def)
qed

section \<open>Circuits\<close>

definition circuitInv ::
    "(string \<Rightarrow> string) \<Rightarrow> WebhookPolicyEngine \<Rightarrow> (clockReadings \<times> WebhookPolicyInput) list \<Rightarrow> bool" where
  "circuitInv ul e log \<longleftrightarrow> (\<forall>h. let n = int (length (filter (\<lambda>(ck, i). circuitHost ul i = h) log)) in
     case mapGet circuitClosed (cbStates (peCircuits e)) h of
       circuitOpen \<Rightarrow> n = 0
     | circuitHalfOpen \<Rightarrow> n \<le> mapGet 0 (cbHalfOpenProbes (peCircuits e)) h
         \<and> mapGet 0 (cbHalfOpenProbes (peCircuits e)) h \<le> cbHalfOpenLimit (peCircuits e)
     | circuitClosed \<Rightarrow> True)"

lemma circuitInv_new: "circuitInv ul (NewWebhookPolicyEngine ul config) []"
  by (simp add: circuitInv_def NewWebhookPolicyEngine_def newCircuitBreakerRegistry_def Let_def
      split: circuitState.split)

lemma circuitInv_cong: "peCircuits e' = peCircuits e \<Longrightarrow> circuitInv ul e' log = circuitInv ul e log"
  unfolding circuitInv_def by (simp only:)

lemma circuitInv_asked:
  assumes "circuitInv ul e log"
  shows "circuitInv ul (askedCircuit ul i e) log"
    and "fst (fst (circuitAllow ul (peCircuits e) (policyHost ul i))) \<Longrightarrow>
      circuitInv ul (askedCircuit ul i e) ((ck, i) # log)"
  using assms
  by (auto simp: circuitInv_def askedCircuit_def circuitAllow_def Let_def split: circuitState.splits if_splits)

lemma asked_circuits [simp]:
  "peCircuits (askedTenant t k e) = peCircuits e" "peCircuits (askedAgent t k e) = peCircuits e"
  "peCircuits (snd (corridorAllow e t k)) = peCircuits e"
  "peCircuits (snd (acquireAgentSlot k e)) = peCircuits e"
  by (simp_all add: askedTenant_def askedAgent_def corridorAllow_def acquireAgentSlot_def
      split: option.split prod.split)

lemma circuitInv_evaluate:
  assumes inv: "circuitInv ul e log" and ev: "evaluateLocked ul ustr ck i e = ((d, r), e')"
  shows "circuitInv ul e' (if pdAllowed d then (ck, i) # log else log)"
  using ev refl refl refl refl
proof (cases rule: evaluateLocked_cases)
  case denied
  then have "peCircuits e' = peCircuits (askedCircuit ul i e)" by auto
  from circuitInv_cong [OF this] show ?thesis using circuitInv_asked(1) [OF inv, of i] denied(1) by simp
next
  case (allowed acquired)
  then have "peCircuits e' = peCircuits (askedCircuit ul i e)"
    by (metis asked_circuits snd_conv)
  from circuitInv_cong [OF this] show ?thesis
    using circuitInv_asked(2) [OF inv allowed(3), of ck] allowed(1) by simp
qed

section \<open>The invariant of a run\<close>

definition policyInv ::
    "(string \<Rightarrow> string) \<Rightarrow> (uuid \<Rightarrow> string) \<Rightarrow> WebhookPolicyConfig \<Rightarrow> policyWorld \<Rightarrow> bool" where
  "policyInv ul ustr config w \<longleftrightarrow> staticInv ul config (pwEngine w)
     \<and> rateInv ul ustr (pwEngine w) (pwClock w) (pwLog w)
     \<and> slotInv ustr (pwEngine w) (pwReleases w) \<and> circuitInv ul (pwEngine w) (pwLog w)"

lemma policyInv_new: "policyInv ul ustr config (newPolicyWorld ul config ck)"
  by (simp add: policyInv_def newPolicyWorld_def staticInv_new rateInv_new slotInv_new circuitInv_new)

lemma staticInv_evaluate:
  assumes inv: "staticInv ul config e" and ev: "evaluateLocked ul ustr ck i e = ((d, r), e')"
  shows "staticInv ul config e'"
  using ev refl refl refl refl
proof (cases rule: evaluateLocked_cases)
  case denied
  then show ?thesis using inv by (auto intro!: staticInv_asked)
next
  case (allowed acquired)
  then have "e' = snd (acquireAgentSlot (ustr (piAgentID i)) (snd (corridorAllow
      (askedAgent (ckAgent ck) (ustr (piAgentID i)) (askedTenant (ckTenant ck) (ustr (piTenantID i))
        (askedCircuit ul i e))) (ckCorridor ck) (policyCorridor ul i))))" by simp
  then show ?thesis using inv by (auto intro!: staticInv_asked)
qed

definition policyInvNoClock ::
    "(string \<Rightarrow> string) \<Rightarrow> (uuid \<Rightarrow> string) \<Rightarrow> WebhookPolicyConfig \<Rightarrow> policyWorld \<Rightarrow> bool" where
  "policyInvNoClock ul ustr config w \<longleftrightarrow> staticInv ul config (pwEngine w)
     \<and> slotInv ustr (pwEngine w) (pwReleases w) \<and> circuitInv ul (pwEngine w) (pwLog w)"

lemma policyInvNoClock_step:
  assumes inv: "policyInvNoClock ul ustr config w"
  shows "policyInvNoClock ul ustr config (policyStep ul ustr w e)"
proof (cases e)
  case (PolicyEvaluate ck i)
  obtain d r e' where ev: "evaluateLocked ul ustr ck i (pwEngine w) = ((d, r), e')"
    by (cases "evaluateLocked ul ustr ck i (pwEngine w)") auto
  then show ?thesis
    using inv PolicyEvaluate staticInv_evaluate [OF _ ev, of config] slotInv_evaluate [OF _ ev]
      circuitInv_evaluate [OF _ ev]
    by (simp add: policyInvNoClock_def split del: if_split)
next
  case (PolicyRelease n res)
  then show ?thesis
    using inv slotInv_release
    by (auto simp: policyInvNoClock_def staticInv_def Let_def circuitInv_cong [OF callRelease_static(5)])
qed

interpretation slots: driven_machine "policyStep ul ustr" "\<lambda>_ _. True" "policyInvNoClock ul ustr config"
  for ul ustr config
  by unfold_locales (rule policyInvNoClock_step)

interpretation policy: driven_machine "policyStep ul ustr" clockForward "policyInv ul ustr config"
  for ul ustr config
proof unfold_locales
  fix w e
  assume inv: "policyInv ul ustr config w" and ok: "clockForward w e"
  then have base: "policyInvNoClock ul ustr config (policyStep ul ustr w e)"
    by (intro policyInvNoClock_step) (simp add: policyInv_def policyInvNoClock_def)
  have "rateInv ul ustr (pwEngine (policyStep ul ustr w e)) (pwClock (policyStep ul ustr w e))
      (pwLog (policyStep ul ustr w e))"
  proof (cases e)
    case (PolicyEvaluate ck i)
    obtain d r e' where ev: "evaluateLocked ul ustr ck i (pwEngine w) = ((d, r), e')"
      by (cases "evaluateLocked ul ustr ck i (pwEngine w)") auto
    have "rateInv ul ustr e' ck (if pdAllowed d then (ck, i) # pwLog w else pwLog w)"
      using inv ok PolicyEvaluate
      by (intro rateInv_evaluate [OF _ _ _ _ ev]) (auto simp: policyInv_def)
    then show ?thesis using ev PolicyEvaluate by (simp split del: if_split)
  next
    case (PolicyRelease n res)
    then show ?thesis using inv rateInv_release by (simp add: policyInv_def)
  qed
  with base show "policyInv ul ustr config (policyStep ul ustr w e)"
    by (simp add: policyInv_def policyInvNoClock_def)
qed

fun clockMonotone :: "clockReadings \<Rightarrow> policyEvent list \<Rightarrow> bool" where
  "clockMonotone ck [] = True"
| "clockMonotone ck (PolicyEvaluate ck' i # es) =
     (ckTenant ck \<le> ckTenant ck' \<and> ckAgent ck \<le> ckAgent ck' \<and> ckCorridor ck \<le> ckCorridor ck'
      \<and> clockMonotone ck' es)"
| "clockMonotone ck (PolicyRelease n res # es) = clockMonotone ck es"

lemma clockMonotone_admissible:
  "clockMonotone (pwClock w) es \<Longrightarrow> policy.admissible ul ustr w es"
proof (induction es arbitrary: w)
  case (Cons e es)
  then show ?case by (cases e) (auto split: prod.splits)
qed simp

lemma policyInv_reachable:
  "clockMonotone ck es \<Longrightarrow>
     policyInv ul ustr config (foldl (policyStep ul ustr) (newPolicyWorld ul config ck) es)"
  by (rule policy.inv_run [OF policyInv_new clockMonotone_admissible]) (simp add: newPolicyWorld_def)

lemma policyInvNoClock_reachable:
  "policyInvNoClock ul ustr config (foldl (policyStep ul ustr) (newPolicyWorld ul config ck) es)"
  by (rule slots.inv_run_static) (use policyInv_new [of ul ustr config ck] in \<open>auto simp: policyInv_def policyInvNoClock_def\<close>)

section \<open>What the engine guarantees\<close>

lemma rate_bound:
  assumes "rate.within l clock log" "rlLimit l = n" "n > 0" "k \<noteq> []"
  shows "int (length (filter (\<lambda>e. e = (t, k)) log)) \<le> n"
  using rate.within_bound [OF assms(1), of k t] assms(2-4) by (simp add: rateLimited_def rate.grants_def)

text \<open>C31: while no limiter's clock goes back, in every second at most the configured number of
  evaluations is allowed for a tenant, for an agent and for a corridor, whatever is evaluated
  and released in between.\<close>

theorem policy_rate_limits:
  assumes "clockMonotone ck es"
    and "w = foldl (policyStep ul ustr) (newPolicyWorld ul config ck) es"
    and "key \<noteq> []"
  shows "(pcTenantRequestsPerSecond config > 0 \<longrightarrow>
       int (length (filter (\<lambda>(ck, i). ckTenant ck = t \<and> ustr (piTenantID i) = key) (pwLog w)))
         \<le> pcTenantRequestsPerSecond config)
     \<and> (pcAgentRequestsPerSecond config > 0 \<longrightarrow>
       int (length (filter (\<lambda>(ck, i). ckAgent ck = t \<and> ustr (piAgentID i) = key) (pwLog w)))
         \<le> pcAgentRequestsPerSecond config)
     \<and> (\<forall>l. corridorLimiters ul (pcCorridorRequestsPerSecond config) Map.empty key = Some l \<and> rlLimit l > 0 \<longrightarrow>
       int (length (filter (\<lambda>(ck, i). ckCorridor ck = t \<and> policyCorridor ul i = key) (pwLog w)))
         \<le> rlLimit l)"
proof -
  have inv: "rateInv ul ustr (pwEngine w) (pwClock w) (pwLog w)" "staticInv ul config (pwEngine w)"
    using policyInv_reachable [OF assms(1), of ul ustr config] assms(2) by (simp_all add: policyInv_def)
  have len: "length (filter P (map f xs)) = length (filter (P \<circ> f) xs)" for P f and xs :: "'a list"
    by (simp add: filter_map)
  have "pcTenantRequestsPerSecond config > 0 \<longrightarrow>
      int (length (filter (\<lambda>e. e = (t, key)) (tenantLog ustr (pwLog w)))) \<le> pcTenantRequestsPerSecond config"
    "pcAgentRequestsPerSecond config > 0 \<longrightarrow>
      int (length (filter (\<lambda>e. e = (t, key)) (agentLog ustr (pwLog w)))) \<le> pcAgentRequestsPerSecond config"
    using inv rate_bound assms(3) by (auto simp: rateInv_def staticInv_def Let_def)
  moreover have "int (length (filter (\<lambda>e. e = (t, key)) (corridorLog ul key (pwLog w)))) \<le> rlLimit l"
    if l: "corridorLimiters ul (pcCorridorRequestsPerSecond config) Map.empty key = Some l" "rlLimit l > 0" for l
  proof -
    have "map_option rlLimit (peCorridorLimiter (pwEngine w) key) = Some (rlLimit l)"
      using inv(2) l(1) by (simp add: staticInv_def Let_def NewWebhookPolicyEngine_def)
    then obtain l' where "peCorridorLimiter (pwEngine w) key = Some l'" "rlLimit l' = rlLimit l" by auto
    moreover from this have "rate.within l' (ckCorridor (pwClock w)) (corridorLog ul key (pwLog w))"
      using inv(1) by (simp add: rateInv_def)
    ultimately show ?thesis
      using l(2) assms(3) rate_bound [of l' "ckCorridor (pwClock w)" "corridorLog ul key (pwLog w)" "rlLimit l" key t]
      by simp
  qed
  ultimately show ?thesis
    by (simp add: tenantLog_def agentLog_def corridorLog_def filter_map comp_def case_prod_unfold conj_commute)
qed

definition exampleCk :: "int \<Rightarrow> clockReadings" where
  "exampleCk t = \<lparr>ckTenant = t, ckAgent = t, ckCorridor = t\<rparr>"

definition exampleInput :: WebhookPolicyInput where
  "exampleInput = \<lparr>piTenantID = 1, piAgentID = 2, piCorridor = ''eu'', piHost = ''h'', piRetryMax = 0,
     piReplay = False, piPriority = []\<rparr>"

definition examplePolicy :: WebhookPolicyConfig where
  "examplePolicy = \<lparr>pcTenantRequestsPerSecond = 1, pcAgentRequestsPerSecond = 2,
     pcAgentConcurrentExecutions = 1, pcCorridorRequestsPerSecond = [(''EU'', 2)],
     pcOpenCircuitHosts = [''down''], pcHalfOpenCircuitHosts = [''h''], pcHalfOpenProbeLimit = 1,
     pcMaxRetryAttempts = 3, pcEndpointFailureLimit = 1\<rparr>"

definition exampleUuid :: "uuid \<Rightarrow> string" where
  "exampleUuid u = replicate (Suc (unat u)) (CHR ''x'')"

definition exampleEvents :: "policyEvent list" where
  "exampleEvents = [PolicyEvaluate (exampleCk 5) exampleInput, PolicyEvaluate (exampleCk 5) exampleInput]"

abbreviation examplePolicyRun :: "policyEvent list \<Rightarrow> policyWorld" where
  "examplePolicyRun es \<equiv>
     foldl (policyStep id exampleUuid) (newPolicyWorld id examplePolicy (exampleCk 5)) es"

theorem policy_rate_limits_witness:
  "int (length (filter (\<lambda>(ck, i). ckTenant ck = 5 \<and> exampleUuid (piTenantID i) = ''xx'')
     (pwLog (examplePolicyRun exampleEvents)))) \<le> 1"
proof -
  have "clockMonotone (exampleCk 5) exampleEvents" by code_simp
  from policy_rate_limits [OF this refl, where key = "''xx''" and ul = id and ustr = exampleUuid
      and config = examplePolicy and t = 5] show ?thesis
    by (simp add: examplePolicy_def)
qed

text \<open>C32: the executions of an agent that were allowed and not yet released never exceed the
  configured concurrency, in every order of evaluations and releases, and the counter that the
  engine keeps is exactly their number.\<close>

theorem policy_concurrency_limit:
  assumes "w = foldl (policyStep ul ustr) (newPolicyWorld ul config ck) es"
  shows "mapGet 0 (peAgentConcurrent (pwEngine w)) key = outstanding ustr key (pwReleases w)
     \<and> (pcAgentConcurrentExecutions config > 0 \<and> key \<noteq> [] \<longrightarrow>
          outstanding ustr key (pwReleases w) \<le> pcAgentConcurrentExecutions config)"
  using policyInvNoClock_reachable [of ul ustr config ck es] assms
  by (auto simp: policyInvNoClock_def slotInv_def staticInv_def Let_def)

theorem policy_concurrency_limit_witness:
  "outstanding exampleUuid ''xxx'' (pwReleases (examplePolicyRun exampleEvents)) \<le> 1"
  using policy_concurrency_limit [of "examplePolicyRun exampleEvents" id exampleUuid examplePolicy
      "exampleCk 5" exampleEvents "''xxx''"] by (simp add: examplePolicy_def)



section \<open>The endpoint failure limit\<close>

definition idleHost ::
    "(string \<Rightarrow> string) \<Rightarrow> string \<Rightarrow> (WebhookPolicyRelease \<times> bool) list \<Rightarrow> bool" where
  "idleHost ul h rs = list_all (\<lambda>r. snd r \<or> (case fst r of noopWebhookPolicyRelease \<Rightarrow> True
     | onceRelease i _ \<Rightarrow> policyHost ul i \<noteq> h)) rs"

definition tripped :: "(string \<Rightarrow> string) \<Rightarrow> string \<Rightarrow> policyWorld \<Rightarrow> bool" where
  "tripped ul h w \<longleftrightarrow> h \<noteq> [] \<and> pcEndpointFailureLimit (peConfig (pwEngine w)) > 0
     \<and> mapGet 0 (peHostFailures (pwEngine w)) h \<ge> pcEndpointFailureLimit (peConfig (pwEngine w))
     \<and> idleHost ul h (pwReleases w)"

lemma idleHost_simps [simp]:
  "idleHost ul h (rs @ [r]) = (idleHost ul h rs \<and> idleHost ul h [r])"
  "idleHost ul h [(noopWebhookPolicyRelease, b)]"
  "idleHost ul h [(onceRelease i a, False)] = (policyHost ul i \<noteq> h)"
  by (simp_all add: idleHost_def)

lemma tripped_release:
  assumes "tripped ul h w"
  shows "tripped ul h (policyStep ul ustr w (PolicyRelease n res))"
proof (cases "n < length (pwReleases w)")
  case True
  then have r: "snd (pwReleases w ! n) \<or> (case fst (pwReleases w ! n) of noopWebhookPolicyRelease \<Rightarrow> True
     | onceRelease i _ \<Rightarrow> policyHost ul i \<noteq> h)"
    using assms by (simp add: tripped_def idleHost_def list_all_length)
  have "idleHost ul h ((pwReleases w)[n := (fst (pwReleases w ! n), True)])"
    using assms by (auto simp: tripped_def idleHost_def list_all_iff dest!: set_update_subset_insert [THEN subsetD])
  moreover have "mapGet 0 (peHostFailures (callRelease ul ustr (pwReleases w ! n) res (pwEngine w))) h =
      mapGet 0 (peHostFailures (pwEngine w)) h"
    using r by (auto simp: callRelease_def recordResult_def Let_def split: WebhookPolicyRelease.splits)
  ultimately show ?thesis using assms True by (simp add: tripped_def)
qed (use assms in simp)

lemma tripped_evaluate:
  assumes "tripped ul h w"
  shows "tripped ul h (policyStep ul ustr w (PolicyEvaluate ck i))
     \<and> filter (\<lambda>(ck, i). policyHost ul i = h) (pwLog (policyStep ul ustr w (PolicyEvaluate ck i)))
         = filter (\<lambda>(ck, i). policyHost ul i = h) (pwLog w)"
proof -
  obtain d r e' where ev: "evaluateLocked ul ustr ck i (pwEngine w) = ((d, r), e')"
    by (cases "evaluateLocked ul ustr ck i (pwEngine w)") auto
  show ?thesis
    using ev refl refl refl refl
  proof (cases rule: evaluateLocked_cases)
    case denied
    then show ?thesis using ev assms by (auto simp: tripped_def)
  next
    case (allowed acquired)
    then have "policyHost ul i \<noteq> h" using assms by (auto simp: tripped_def)
    moreover have "peConfig e' = peConfig (pwEngine w) \<and> peHostFailures e' = peHostFailures (pwEngine w)"
      using arg_cong [OF allowed(7), of "\<lambda>p. peConfig (snd p)"]
        arg_cong [OF allowed(7), of "\<lambda>p. peHostFailures (snd p)"] by simp
    ultimately show ?thesis using ev assms allowed(2) by (auto simp: tripped_def)
  qed
qed

text \<open>C34: the endpoint failure limit has no way back. Once a host has reached it and no allowed
  execution for the host is waiting to be released, no evaluation for the host is ever allowed
  again, however much time passes and whatever else is evaluated or released.\<close>

theorem policy_failure_limit_latches:
  assumes "tripped ul h w"
  shows "tripped ul h (foldl (policyStep ul ustr) w es)
     \<and> filter (\<lambda>(ck, i). policyHost ul i = h) (pwLog (foldl (policyStep ul ustr) w es))
         = filter (\<lambda>(ck, i). policyHost ul i = h) (pwLog w)"
  using assms
proof (induction es arbitrary: w)
  case (Cons e es)
  have "filter (\<lambda>(ck, i). policyHost ul i = h) (pwLog (policyStep ul ustr w e))
      = filter (\<lambda>(ck, i). policyHost ul i = h) (pwLog w)"
    using tripped_evaluate [OF Cons.prems, of ustr] by (cases e) (auto simp del: policyStep.simps(1))
  moreover have "tripped ul h (policyStep ul ustr w e)"
    using tripped_evaluate [OF Cons.prems, of ustr] tripped_release [OF Cons.prems, of ustr]
    by (cases e) (auto simp del: policyStep.simps)
  ultimately show ?case using Cons.IH [of "policyStep ul ustr w e"] by simp
qed simp

theorem policy_failure_limit_latches_witness:
  "tripped id ''h'' (foldl (policyStep id exampleUuid)
     (examplePolicyRun [PolicyEvaluate (exampleCk 5) exampleInput,
        PolicyRelease 0 \<lparr>poStatusCode = 503, poErr = None, poReplay = False\<rparr>]) exampleEvents)"
proof -
  have "tripped id ''h'' (examplePolicyRun [PolicyEvaluate (exampleCk 5) exampleInput,
        PolicyRelease 0 \<lparr>poStatusCode = 503, poErr = None, poReplay = False\<rparr>])"
    by code_simp
  from policy_failure_limit_latches [OF this] show ?thesis by blast
qed

end
