(* ===== verification/Task_Types.thy ===== *)
theory Task_Types
  imports Go_Prelude
begin

text \<open>
  The data of the task queue: internal/types/task_queue.go, internal/types/task_leases.go and
  internal/types/step_events.go. An enumeration over a Go string has its constants and a
  constructor \<open>...Other\<close> for every other string, the empty one included. A nullable column or
  pointer is an option. \<open>platform\<close> collects what the code takes from outside the repository:
  the text form of a UUID, SHA-256, base64, the string order of the database's collation,
  Unicode case folding and random identifiers.
\<close>

record platform =
  pfUuidString :: "uuid \<Rightarrow> string"
  pfSha256 :: "string \<Rightarrow> string"
  pfBase64 :: "string \<Rightarrow> string"
  pfCollate :: "string \<Rightarrow> string \<Rightarrow> bool"
  pfLower :: "string \<Rightarrow> string"
  pfRandomUuid :: "nat \<Rightarrow> uuid"

section \<open>Statuses and policies\<close>

datatype TaskStatus =
    TaskStatusQueued
  | TaskStatusRunning
  | TaskStatusSucceeded
  | TaskStatusFailed
  | TaskStatusCanceled
  | TaskStatusOther string

fun taskStatusName :: "TaskStatus \<Rightarrow> string" where
  "taskStatusName TaskStatusQueued = ''QUEUED''"
| "taskStatusName TaskStatusRunning = ''RUNNING''"
| "taskStatusName TaskStatusSucceeded = ''SUCCEEDED''"
| "taskStatusName TaskStatusFailed = ''FAILED''"
| "taskStatusName TaskStatusCanceled = ''CANCELED''"
| "taskStatusName (TaskStatusOther s) = s"

fun taskStatusIsValid :: "TaskStatus \<Rightarrow> bool" where
  "taskStatusIsValid (TaskStatusOther _) = False"
| "taskStatusIsValid _ = True"

datatype TaskType =
    TaskTypeDeployment
  | TaskTypeRunbook
  | TaskTypeOther string

fun taskTypeName :: "TaskType \<Rightarrow> string" where
  "taskTypeName TaskTypeDeployment = ''deployment''"
| "taskTypeName TaskTypeRunbook = ''runbook''"
| "taskTypeName (TaskTypeOther s) = s"

fun taskTypeIsValid :: "TaskType \<Rightarrow> bool" where
  "taskTypeIsValid (TaskTypeOther _) = False"
| "taskTypeIsValid _ = True"

datatype TaskConcurrencyPolicy =
    TaskConcurrencyPolicyQueue
  | TaskConcurrencyPolicyCancelOlder
  | TaskConcurrencyPolicyRejectNew
  | TaskConcurrencyPolicyAllowParallel
  | TaskConcurrencyPolicyOther string

fun concurrencyPolicyName :: "TaskConcurrencyPolicy \<Rightarrow> string" where
  "concurrencyPolicyName TaskConcurrencyPolicyQueue = ''QUEUE''"
| "concurrencyPolicyName TaskConcurrencyPolicyCancelOlder = ''CANCEL_OLDER''"
| "concurrencyPolicyName TaskConcurrencyPolicyRejectNew = ''REJECT_NEW''"
| "concurrencyPolicyName TaskConcurrencyPolicyAllowParallel = ''ALLOW_PARALLEL''"
| "concurrencyPolicyName (TaskConcurrencyPolicyOther s) = s"

fun concurrencyPolicyIsValid :: "TaskConcurrencyPolicy \<Rightarrow> bool" where
  "concurrencyPolicyIsValid (TaskConcurrencyPolicyOther _) = False"
| "concurrencyPolicyIsValid _ = True"

datatype TaskLockResourceType =
    TaskLockResourceDeploymentTarget
  | TaskLockResourceTargetComponent
  | TaskLockResourceTenantEnvironment
  | TaskLockResourceApplicationEnvironment
  | TaskLockResourceCustom
  | TaskLockResourceTypeOther string

fun lockResourceTypeName :: "TaskLockResourceType \<Rightarrow> string" where
  "lockResourceTypeName TaskLockResourceDeploymentTarget = ''deployment_target''"
| "lockResourceTypeName TaskLockResourceTargetComponent = ''target_component''"
| "lockResourceTypeName TaskLockResourceTenantEnvironment = ''tenant_environment''"
| "lockResourceTypeName TaskLockResourceApplicationEnvironment = ''application_environment''"
| "lockResourceTypeName TaskLockResourceCustom = ''custom''"
| "lockResourceTypeName (TaskLockResourceTypeOther s) = s"

fun lockResourceTypeIsValid :: "TaskLockResourceType \<Rightarrow> bool" where
  "lockResourceTypeIsValid (TaskLockResourceTypeOther _) = False"
| "lockResourceTypeIsValid _ = True"

datatype StepRunStatus =
    StepRunStatusPending
  | StepRunStatusRunning
  | StepRunStatusSucceeded
  | StepRunStatusFailed
  | StepRunStatusSkipped
  | StepRunStatusOther string

fun stepRunStatusName :: "StepRunStatus \<Rightarrow> string" where
  "stepRunStatusName StepRunStatusPending = ''PENDING''"
| "stepRunStatusName StepRunStatusRunning = ''RUNNING''"
| "stepRunStatusName StepRunStatusSucceeded = ''SUCCEEDED''"
| "stepRunStatusName StepRunStatusFailed = ''FAILED''"
| "stepRunStatusName StepRunStatusSkipped = ''SKIPPED''"
| "stepRunStatusName (StepRunStatusOther s) = s"

fun stepRunStatusIsValid :: "StepRunStatus \<Rightarrow> bool" where
  "stepRunStatusIsValid (StepRunStatusOther _) = False"
| "stepRunStatusIsValid _ = True"

datatype TaskExecutorType =
    TaskExecutorTypeAgent
  | TaskExecutorTypeHub
  | TaskExecutorTypeOther string

fun executorTypeName :: "TaskExecutorType \<Rightarrow> string" where
  "executorTypeName TaskExecutorTypeAgent = ''AGENT''"
| "executorTypeName TaskExecutorTypeHub = ''HUB''"
| "executorTypeName (TaskExecutorTypeOther s) = s"

fun executorTypeIsValid :: "TaskExecutorType \<Rightarrow> bool" where
  "executorTypeIsValid (TaskExecutorTypeOther _) = False"
| "executorTypeIsValid _ = True"

datatype StepRunEventType =
    StepRunEventTypeStarted
  | StepRunEventTypeProgress
  | StepRunEventTypeLog
  | StepRunEventTypeOutput
  | StepRunEventTypeSucceeded
  | StepRunEventTypeFailed
  | StepRunEventTypeOther string

fun eventTypeName :: "StepRunEventType \<Rightarrow> string" where
  "eventTypeName StepRunEventTypeStarted = ''STARTED''"
| "eventTypeName StepRunEventTypeProgress = ''PROGRESS''"
| "eventTypeName StepRunEventTypeLog = ''LOG''"
| "eventTypeName StepRunEventTypeOutput = ''OUTPUT''"
| "eventTypeName StepRunEventTypeSucceeded = ''SUCCEEDED''"
| "eventTypeName StepRunEventTypeFailed = ''FAILED''"
| "eventTypeName (StepRunEventTypeOther s) = s"

fun eventTypeIsValid :: "StepRunEventType \<Rightarrow> bool" where
  "eventTypeIsValid (StepRunEventTypeOther _) = False"
| "eventTypeIsValid _ = True"

datatype StepRunLogStream =
    StepRunLogStreamStdout
  | StepRunLogStreamStderr
  | StepRunLogStreamSystem
  | StepRunLogStreamOther string

fun logStreamName :: "StepRunLogStream \<Rightarrow> string" where
  "logStreamName StepRunLogStreamStdout = ''stdout''"
| "logStreamName StepRunLogStreamStderr = ''stderr''"
| "logStreamName StepRunLogStreamSystem = ''system''"
| "logStreamName (StepRunLogStreamOther s) = s"

fun logStreamIsValid :: "StepRunLogStream \<Rightarrow> bool" where
  "logStreamIsValid (StepRunLogStreamOther _) = False"
| "logStreamIsValid _ = True"

datatype StepRunLogSeverity =
    StepRunLogSeverityDebug
  | StepRunLogSeverityInfo
  | StepRunLogSeverityWarn
  | StepRunLogSeverityError
  | StepRunLogSeverityOther string

fun logSeverityName :: "StepRunLogSeverity \<Rightarrow> string" where
  "logSeverityName StepRunLogSeverityDebug = ''debug''"
| "logSeverityName StepRunLogSeverityInfo = ''info''"
| "logSeverityName StepRunLogSeverityWarn = ''warn''"
| "logSeverityName StepRunLogSeverityError = ''error''"
| "logSeverityName (StepRunLogSeverityOther s) = s"

fun logSeverityIsValid :: "StepRunLogSeverity \<Rightarrow> bool" where
  "logSeverityIsValid (StepRunLogSeverityOther _) = False"
| "logSeverityIsValid _ = True"

definition taskStatusIsTerminal :: "TaskStatus \<Rightarrow> bool" where
  "taskStatusIsTerminal s = (s = TaskStatusSucceeded \<or> s = TaskStatusFailed \<or> s = TaskStatusCanceled)"

definition stepRunStatusIsTerminal :: "StepRunStatus \<Rightarrow> bool" where
  "stepRunStatusIsTerminal s =
     (s = StepRunStatusSucceeded \<or> s = StepRunStatusFailed \<or> s = StepRunStatusSkipped)"

definition ExecutionLocation :: "TaskExecutorType \<Rightarrow> string" where
  "ExecutionLocation t = (if t = TaskExecutorTypeHub then ''hub'' else ''target'')"

text \<open>The texts of the constants are pairwise different.\<close>

lemma lockResourceTypeName_inj:
  "lockResourceTypeIsValid a \<Longrightarrow> lockResourceTypeIsValid b \<Longrightarrow>
     lockResourceTypeName a = lockResourceTypeName b \<longleftrightarrow> a = b"
  by (cases a; cases b) simp_all

section \<open>JSON values\<close>

text \<open>
  A value decoded from JSON: \<open>any\<close> in the code. Numbers stay text. An object is an association
  list; the order of the list is the order in which Go iterates over the map.
\<close>

datatype json =
  JNull | JBool bool | JNumber string | JString string | JArray "json list" | JObject "(string \<times> json) list"

type_synonym object = "(string \<times> json) list"

section \<open>Requests\<close>

record TaskLockResourceRequest =
  lrResourceType :: TaskLockResourceType
  lrResourceKey :: string
  lrConcurrencyPolicy :: TaskConcurrencyPolicy

record CreateTasksForDeploymentPlanRequest =
  crOrganizationID :: uuid
  crDeploymentPlanID :: uuid
  crActorUserAccountID :: uuid
  crConcurrencyPolicy :: TaskConcurrencyPolicy
  crAdditionalResources :: "TaskLockResourceRequest list"

record TransitionTaskStateRequest =
  trOrganizationID :: uuid
  trTaskID :: uuid
  trStatus :: TaskStatus

record TransitionStepRunStateRequest =
  srqOrganizationID :: uuid
  srqStepRunID :: uuid
  srqStatus :: StepRunStatus

record LeaseAgentTaskRequest =
  laOrganizationID :: uuid
  laAgentID :: uuid

record HeartbeatAgentTaskLeaseRequest =
  haOrganizationID :: uuid
  haAgentID :: uuid
  haTaskID :: uuid
  haLeaseToken :: string

record HeartbeatHubTaskLeaseRequest =
  hhOrganizationID :: uuid
  hhDeploymentTargetID :: uuid
  hhTaskID :: uuid
  hhLeaseToken :: string

record RecordStepRunLogChunkRequest =
  rlOccurredAt :: "timestamp option"
  rlStream :: StepRunLogStream
  rlSeverity :: StepRunLogSeverity
  rlBody :: string

record RecordStepRunOutputRequest =
  roName :: string
  roValue :: json
  roSensitive :: bool

record RecordAgentStepRunEventRequest =
  reOrganizationID :: uuid
  reAgentID :: uuid
  reStepRunID :: uuid
  reLeaseToken :: string
  reSequence :: int
  reType :: StepRunEventType
  reOccurredAt :: "timestamp option"
  reMessage :: string
  reProgressPercent :: "int option"
  reDetails :: "object option"
  reLogs :: "RecordStepRunLogChunkRequest list"
  reOutputs :: "RecordStepRunOutputRequest list"

record RecordHubStepRunEventRequest =
  rhOrganizationID :: uuid
  rhDeploymentTargetID :: uuid
  rhStepRunID :: uuid
  rhLeaseToken :: string
  rhSequence :: int
  rhType :: StepRunEventType
  rhOccurredAt :: "timestamp option"
  rhMessage :: string
  rhProgressPercent :: "int option"
  rhDetails :: "object option"
  rhLogs :: "RecordStepRunLogChunkRequest list"
  rhOutputs :: "RecordStepRunOutputRequest list"

section \<open>Rows\<close>

record TaskResourceLock =
  tlkID :: uuid
  tlkCreatedAt :: timestamp
  tlkUpdatedAt :: timestamp
  tlkAcquiredAt :: "timestamp option"
  tlkReleasedAt :: "timestamp option"
  tlkOrganizationID :: uuid
  tlkTaskID :: uuid
  tlkResourceType :: TaskLockResourceType
  tlkResourceKey :: string
  tlkConcurrencyPolicy :: TaskConcurrencyPolicy

record StepRun =
  srID :: uuid
  srCreatedAt :: timestamp
  srUpdatedAt :: timestamp
  srStartedAt :: "timestamp option"
  srCompletedAt :: "timestamp option"
  srOrganizationID :: uuid
  srTaskID :: uuid
  srDeploymentPlanID :: uuid
  srDeploymentPlanStepID :: uuid
  srStepKey :: string
  srName :: string
  srActionType :: string
  srStatus :: StepRunStatus
  srSortOrder :: int
  srSkippedReason :: string

text \<open>In a row of the table \<open>Task\<close> the fields \<open>tkLocks\<close> and \<open>tkStepRuns\<close> are empty; \<open>hydrateTask\<close>
  fills them.\<close>

record Task =
  tkID :: uuid
  tkCreatedAt :: timestamp
  tkUpdatedAt :: timestamp
  tkQueuedAt :: timestamp
  tkStartedAt :: "timestamp option"
  tkCompletedAt :: "timestamp option"
  tkOrganizationID :: uuid
  tkTaskType :: TaskType
  tkDeploymentPlanID :: uuid
  tkDeploymentPlanTargetID :: uuid
  tkDeploymentTargetID :: uuid
  tkApplicationID :: uuid
  tkReleaseBundleID :: uuid
  tkChannelID :: uuid
  tkEnvironmentID :: uuid
  tkActorUserAccountID :: "uuid option"
  tkStatus :: TaskStatus
  tkQueueOrder :: int
  tkLocks :: "TaskResourceLock list"
  tkStepRuns :: "StepRun list"

record TaskLeaseStep =
  lsStepRunID :: uuid
  lsStepKey :: string
  lsName :: string
  lsActionType :: string
  lsActionVersion :: string
  lsInputBindings :: object
  lsSecretReferences :: "string list"
  lsIdempotencyKey :: string
  lsSortOrder :: int

text \<open>A row of the table \<open>TaskLease\<close>, and the \<open>types.TaskLease\<close> that is returned: the row, the
  token, the checksum of the plan, the task and the steps.\<close>

record TaskLeaseRow =
  tlID :: uuid
  tlCreatedAt :: timestamp
  tlUpdatedAt :: timestamp
  tlOrganizationID :: uuid
  tlTaskID :: uuid
  tlAgentID :: uuid
  tlExecutorType :: TaskExecutorType
  tlLeaseTokenHash :: string
  tlLeasedAt :: timestamp
  tlExpiresAt :: timestamp
  tlHeartbeatAt :: timestamp
  tlAttempt :: int
  tlReleasedAt :: "timestamp option"

record TaskLease = TaskLeaseRow +
  tlLeaseToken :: string
  tlPlanChecksum :: string
  tlTask :: Task
  tlSteps :: "TaskLeaseStep list"

record StepRunLogChunk =
  lcID :: uuid
  lcCreatedAt :: timestamp
  lcOccurredAt :: timestamp
  lcEventID :: uuid
  lcOrganizationID :: uuid
  lcTaskID :: uuid
  lcStepRunID :: uuid
  lcTaskLeaseID :: uuid
  lcAgentID :: uuid
  lcChunkIndex :: nat
  lcStream :: StepRunLogStream
  lcSeverity :: StepRunLogSeverity
  lcBody :: string
  lcRedacted :: bool

record StepRunOutput =
  outID :: uuid
  outCreatedAt :: timestamp
  outUpdatedAt :: timestamp
  outEventID :: uuid
  outOrganizationID :: uuid
  outTaskID :: uuid
  outStepRunID :: uuid
  outTaskLeaseID :: uuid
  outAgentID :: uuid
  outName :: string
  outValue :: "json option"
  outSensitive :: bool
  outRedacted :: bool

record StepRunEvent =
  evID :: uuid
  evCreatedAt :: timestamp
  evOccurredAt :: timestamp
  evOrganizationID :: uuid
  evTaskID :: uuid
  evStepRunID :: uuid
  evTaskLeaseID :: uuid
  evAgentID :: uuid
  evSequence :: int
  evType :: StepRunEventType
  evMessage :: string
  evProgressPercent :: "int option"
  evDetails :: object
  evRedacted :: bool
  evLogs :: "StepRunLogChunk list"
  evOutputs :: "StepRunOutput list"

section \<open>Limits\<close>

definition MaxStepRunEventMessageLength :: nat where "MaxStepRunEventMessageLength = 2048"
definition MaxStepRunEventDetailsBytes :: nat where "MaxStepRunEventDetailsBytes = 16384"
definition MaxStepRunLogChunkBodyLength :: nat where "MaxStepRunLogChunkBodyLength = 8192"
definition MaxStepRunOutputNameLength :: nat where "MaxStepRunOutputNameLength = 128"
definition MaxStepRunOutputValueBytes :: nat where "MaxStepRunOutputValueBytes = 16384"
definition MaxStepRunEventLogChunkCount :: nat where "MaxStepRunEventLogChunkCount = 16"
definition MaxStepRunEventOutputItemCount :: nat where "MaxStepRunEventOutputItemCount = 32"

text \<open>The regular expression \<open>^[A-Za-z_][A-Za-z0-9_.-]*$\<close>.\<close>

definition isLetter :: "char \<Rightarrow> bool" where
  "isLetter c = (CHR ''A'' \<le> c \<and> c \<le> CHR ''Z'' \<or> CHR ''a'' \<le> c \<and> c \<le> CHR ''z'')"

definition isDigit :: "char \<Rightarrow> bool" where
  "isDigit c = (CHR ''0'' \<le> c \<and> c \<le> CHR ''9'')"

fun IsValidStepRunOutputName :: "string \<Rightarrow> bool" where
  "IsValidStepRunOutputName [] = False"
| "IsValidStepRunOutputName (c # cs) =
     ((isLetter c \<or> c = CHR ''_'')
      \<and> list_all (\<lambda>d. isLetter d \<or> isDigit d \<or> d = CHR ''_'' \<or> d = CHR ''.'' \<or> d = CHR ''-'') cs)"

end
