(* ===== verification/Task_Db.thy ===== *)
theory Task_Db
  imports Task_Types
begin

text \<open>
  The database as the task queue sees it: the tables that internal/db/task_queue.go,
  internal/db/task_leases.go and internal/db/step_events.go read and write, transactions over
  them, and the queries that several operations share (internal/db/task_queue.go, tx.go).

  \<^item> A table is a list of rows in insertion order. Constraints of internal/migrations/sql that an
    insert can violate are checked there, with the error that \<open>mapTaskWriteError\<close> makes of it.
  \<^item> \<open>now\<close> is the time of the transaction. A random identifier comes from \<open>pfRandomUuid\<close>, indexed by
    a counter in the state; it may collide and the insert then fails on the primary key.
  \<^item> A transaction \<open>'a tx\<close> maps a database to an error or a result and the new database. \<open>RunTx\<close>
    keeps the old database when the function returned an error. Transactions run one after
    another: the code takes row locks (\<open>FOR UPDATE\<close>) and advisory locks before it decides, and
    these have no effect of their own on the tables. Failures of the connection are not modelled.
\<close>

section \<open>Tables\<close>

datatype DeploymentPlanStatus =
    DeploymentPlanStatusDraft | DeploymentPlanStatusValidating | DeploymentPlanStatusBlocked
  | DeploymentPlanStatusReady | DeploymentPlanStatusExpired | DeploymentPlanStatusExecuted

datatype ReleaseBundleStatus =
    ReleaseBundleStatusDraft | ReleaseBundleStatusValidating | ReleaseBundleStatusPublished
  | ReleaseBundleStatusBlocked | ReleaseBundleStatusArchived

text \<open>Only the columns that the task queue reads.\<close>

record DeploymentPlan =
  dpID :: uuid
  dpOrganizationID :: uuid
  dpApplicationID :: uuid
  dpReleaseBundleID :: uuid
  dpChannelID :: uuid
  dpEnvironmentID :: uuid
  dpStatus :: DeploymentPlanStatus
  dpCanonicalChecksum :: string

record DeploymentPlanTarget =
  dptID :: uuid
  dptDeploymentPlanID :: uuid
  dptOrganizationID :: uuid
  dptDeploymentTargetID :: uuid
  dptCustomerOrganizationID :: "uuid option"
  dptSortOrder :: int

record DeploymentPlanTargetComponent =
  dptcID :: uuid
  dptcDeploymentPlanID :: uuid
  dptcDeploymentPlanTargetID :: uuid
  dptcOrganizationID :: uuid
  dptcDeploymentTargetID :: uuid
  dptcComponent :: string
  dptcSortOrder :: int

record DeploymentPlanStep =
  dpsID :: uuid
  dpsDeploymentPlanID :: uuid
  dpsOrganizationID :: uuid
  dpsStepKey :: string
  dpsName :: string
  dpsActionType :: string
  dpsExecutionLocation :: string
  dpsInputBindings :: "object option"
  dpsSortOrder :: int
  dpsDependencies :: "string list"
  dpsIncluded :: bool
  dpsExcludedReason :: string

record ReleaseBundle =
  rbID :: uuid
  rbOrganizationID :: uuid
  rbStatus :: ReleaseBundleStatus

record Secret =
  secOrganizationID :: uuid
  secCustomerOrganizationID :: "uuid option"
  secKey :: string
  secValue :: string

text \<open>A row of \<open>StepRunEvent\<close>: the event without its logs and outputs, and the payload hash.\<close>

record StepRunEventRow =
  erEvent :: StepRunEvent
  erPayloadHash :: string

record database =
  dbTasks :: "Task list"
  dbLocks :: "TaskResourceLock list"
  dbStepRuns :: "StepRun list"
  dbLeases :: "TaskLeaseRow list"
  dbEvents :: "StepRunEventRow list"
  dbLogChunks :: "StepRunLogChunk list"
  dbOutputs :: "StepRunOutput list"
  dbPlans :: "DeploymentPlan list"
  dbPlanTargets :: "DeploymentPlanTarget list"
  dbPlanTargetComponents :: "DeploymentPlanTargetComponent list"
  dbPlanSteps :: "DeploymentPlanStep list"
  dbBundles :: "ReleaseBundle list"
  dbSecrets :: "Secret list"
  dbTaskQueueOrder :: int
  dbRandom :: nat

section \<open>Transactions\<close>

type_synonym 'a tx = "database \<Rightarrow> error + 'a \<times> database"

definition returnT :: "'a \<Rightarrow> 'a tx" where
  "returnT x db = Inr (x, db)"

definition failT :: "error \<Rightarrow> 'a tx" where
  "failT e db = Inl e"

definition bindT :: "'a tx \<Rightarrow> ('a \<Rightarrow> 'b tx) \<Rightarrow> 'b tx" where
  "bindT m f db = (case m db of Inl e \<Rightarrow> Inl e | Inr (x, db') \<Rightarrow> f x db')"

definition queryT :: "(database \<Rightarrow> 'a) \<Rightarrow> 'a tx" where
  "queryT q db = Inr (q db, db)"

definition execT :: "(database \<Rightarrow> database) \<Rightarrow> unit tx" where
  "execT f db = Inr ((), f db)"

definition liftT :: "'a result \<Rightarrow> 'a tx" where
  "liftT r db = (case r of Inl e \<Rightarrow> Inl e | Inr x \<Rightarrow> Inr (x, db))"

definition RunTx :: "'a tx \<Rightarrow> database \<Rightarrow> 'a result \<times> database" where
  "RunTx m db = (case m db of Inl e \<Rightarrow> (Inl e, db) | Inr (x, db') \<Rightarrow> (Inr x, db'))"

lemma tx_simps [simp]:
  "returnT x db = Inr (x, db)" "failT e db = Inl e" "queryT q db = Inr (q db, db)"
  "execT f db = Inr ((), f db)"
  by (simp_all add: returnT_def failT_def queryT_def execT_def)

lemma liftT_simps [simp]: "liftT (Inl e) db = Inl e" "liftT (Inr x) db = Inr (x, db)"
  by (simp_all add: liftT_def)

lemma bindT_Inr:
  "bindT m f db = Inr (y, db2) \<longleftrightarrow> (\<exists>x db1. m db = Inr (x, db1) \<and> f x db1 = Inr (y, db2))"
  by (auto simp: bindT_def split: sum.splits)

lemma bindT_Inl:
  "bindT m f db = Inl e \<longleftrightarrow> m db = Inl e \<or> (\<exists>x db1. m db = Inr (x, db1) \<and> f x db1 = Inl e)"
  by (auto simp: bindT_def split: sum.splits)

lemma liftT_Inr: "liftT r db = Inr (x, db') \<longleftrightarrow> r = Inr x \<and> db' = db"
  by (cases r) auto

lemma fail_if_Inr: "(if b then failT e else m) db = Inr y \<longleftrightarrow> \<not> b \<and> m db = Inr y"
  by simp

lemma bindT_simps [simp]:
  "bindT (returnT x) f1 db = f1 x db" "bindT (queryT q) f2 db = f2 (q db) db"
  "bindT (execT g) f3 db = f3 () (g db)" "bindT (failT e) f4 db = Inl e"
  by (simp_all add: bindT_def)

text \<open>\<open>m\<close> either fails or takes every database with \<open>P\<close> to one with \<open>P\<close>.\<close>

definition keeps :: "(database \<Rightarrow> bool) \<Rightarrow> 'a tx \<Rightarrow> bool" where
  "keeps P m \<longleftrightarrow> (\<forall>db x db'. P db \<longrightarrow> m db = Inr (x, db') \<longrightarrow> P db')"

lemma keepsD: "keeps P m \<Longrightarrow> P db \<Longrightarrow> m db = Inr (x, db') \<Longrightarrow> P db'"
  unfolding keeps_def by blast

lemma keeps_bind: "keeps P m \<Longrightarrow> (\<And>x. keeps P (f x)) \<Longrightarrow> keeps P (bindT m f)"
  unfolding keeps_def bindT_Inr by blast

lemma keeps_pure [simp]:
  "keeps P (returnT x)" "keeps P (failT e)" "keeps P (queryT q)" "keeps P (liftT r)"
  by (auto simp: keeps_def liftT_Inr)

lemma RunTx_keeps: "keeps P m \<Longrightarrow> P db \<Longrightarrow> P (snd (RunTx m db))"
  by (auto simp: RunTx_def keeps_def split: sum.split)

text \<open>A Hoare triple: from a database with \<open>A\<close>, \<open>m\<close> fails or ends with \<open>B\<close> of its result and database.\<close>

definition triple :: "(database \<Rightarrow> bool) \<Rightarrow> 'a tx \<Rightarrow> ('a \<Rightarrow> database \<Rightarrow> bool) \<Rightarrow> bool" where
  "triple A m B \<longleftrightarrow> (\<forall>db x db'. A db \<longrightarrow> m db = Inr (x, db') \<longrightarrow> B x db')"

lemma tripleD: "triple A m B \<Longrightarrow> A db \<Longrightarrow> m db = Inr (x, db') \<Longrightarrow> B x db'"
  unfolding triple_def by blast

lemma triple_bind: "triple A m B \<Longrightarrow> (\<And>x. triple (B x) (f x) C) \<Longrightarrow> triple A (bindT m f) C"
  unfolding triple_def bindT_Inr by blast

lemma triple_weaken:
  "triple A m B \<Longrightarrow> (\<And>db. A' db \<Longrightarrow> A db) \<Longrightarrow> (\<And>x db. B x db \<Longrightarrow> B' x db) \<Longrightarrow> triple A' m B'"
  unfolding triple_def by blast

lemma triple_conj:
  "triple A m B \<Longrightarrow> triple A' m B' \<Longrightarrow> triple (\<lambda>db. A db \<and> A' db) m (\<lambda>x db. B x db \<and> B' x db)"
  unfolding triple_def by blast

lemma triple_return: "(\<And>db. A db \<Longrightarrow> B x db) \<Longrightarrow> triple A (returnT x) B"
  by (simp add: triple_def)

lemma triple_query: "(\<And>db. A db \<Longrightarrow> B (q db) db) \<Longrightarrow> triple A (queryT q) B"
  by (simp add: triple_def)

lemma triple_exec: "(\<And>db. A db \<Longrightarrow> B () (f db)) \<Longrightarrow> triple A (execT f) B"
  by (simp add: triple_def)

lemma triple_lift: "(\<And>db x. A db \<Longrightarrow> r = Inr x \<Longrightarrow> B x db) \<Longrightarrow> triple A (liftT r) B"
  by (auto simp: triple_def liftT_Inr)

lemma triple_fail [simp]: "triple A (failT e) B"
  by (simp add: triple_def)

lemma triple_if: "(b \<Longrightarrow> triple A m B) \<Longrightarrow> (\<not> b \<Longrightarrow> triple A n B) \<Longrightarrow> triple A (if b then m else n) B"
  by simp

lemma triple_keeps: "keeps P m \<longleftrightarrow> triple P m (\<lambda>_. P)"
  by (auto simp: triple_def keeps_def)

text \<open>A query that reads and changes nothing.\<close>

lemma triple_read: "(\<And>db x db'. m db = Inr (x, db') \<Longrightarrow> db' = db) \<Longrightarrow> triple A m (\<lambda>_. A)"
  unfolding triple_def by blast

lemma RunTx_triple:
  "triple A m B \<Longrightarrow> A db \<Longrightarrow> (\<And>x db'. B x db' \<Longrightarrow> C db') \<Longrightarrow> C db \<Longrightarrow> C (snd (RunTx m db))"
  by (auto simp: RunTx_def triple_def split: sum.split)

text \<open>\<open>UPDATE ... SET f WHERE P\<close>.\<close>

definition updateWhere :: "('a \<Rightarrow> bool) \<Rightarrow> ('a \<Rightarrow> 'a) \<Rightarrow> 'a list \<Rightarrow> 'a list" where
  "updateWhere P f xs = map (\<lambda>x. if P x then f x else x) xs"

lemma set_updateWhere: "set (updateWhere P f xs) = (\<lambda>x. if P x then f x else x) ` set xs"
  by (simp add: updateWhere_def)

lemma updateWhere_iff:
  "y \<in> set (updateWhere P f xs) \<longleftrightarrow> (\<exists>x \<in> set xs. y = (if P x then f x else x))"
  by (simp only: set_updateWhere image_iff)

lemma map_updateWhere: "(\<And>x. g (f x) = g x) \<Longrightarrow> map g (updateWhere P f xs) = map g xs"
  by (simp add: updateWhere_def)

definition randomUuid :: "platform \<Rightarrow> uuid tx" where
  "randomUuid P db = Inr (pfRandomUuid P (dbRandom db), db\<lparr>dbRandom := dbRandom db + 1\<rparr>)"

definition coalesce :: "'a option \<Rightarrow> 'a \<Rightarrow> 'a option" where
  "coalesce x y = (case x of None \<Rightarrow> Some y | Some v \<Rightarrow> Some v)"

lemma coalesce_simps [simp]: "coalesce x y \<noteq> None" "coalesce (Some v) y = Some v" "coalesce None y = Some y"
  by (auto simp: coalesce_def split: option.split)

section \<open>SQL functions and orders\<close>

text \<open>\<open>lower(trim(s))\<close>: SQL's \<open>trim\<close> removes spaces only.\<close>

definition sqlTrim :: "string \<Rightarrow> string" where
  "sqlTrim s = rev (dropWhile (\<lambda>c. c = CHR '' '') (rev (dropWhile (\<lambda>c. c = CHR '' '') s)))"

definition sqlLowerTrim :: "platform \<Rightarrow> string \<Rightarrow> string" where
  "sqlLowerTrim P s = ToLower (pfLower P) (sqlTrim s)"

text \<open>\<open>ORDER BY queue_order, id\<close>; UUIDs compare bytewise, which is the unsigned order.\<close>

definition taskLess :: "Task \<Rightarrow> Task \<Rightarrow> bool" where
  "taskLess a b =
     (tkQueueOrder a < tkQueueOrder b \<or> tkQueueOrder a = tkQueueOrder b \<and> tkID a < tkID b)"

text \<open>\<open>ORDER BY resource_type, resource_key\<close>, then \<open>task_id, id\<close> where the query has it.\<close>

definition lockLess :: "platform \<Rightarrow> TaskResourceLock \<Rightarrow> TaskResourceLock \<Rightarrow> bool" where
  "lockLess P a b =
     (let ta = lockResourceTypeName (tlkResourceType a); tb = lockResourceTypeName (tlkResourceType b);
          ka = tlkResourceKey a; kb = tlkResourceKey b in
      if ta \<noteq> tb then pfCollate P ta tb
      else if ka \<noteq> kb then pfCollate P ka kb
      else if tlkTaskID a \<noteq> tlkTaskID b then tlkTaskID a < tlkTaskID b
      else tlkID a < tlkID b)"

definition stepRunLess :: "platform \<Rightarrow> StepRun \<Rightarrow> StepRun \<Rightarrow> bool" where
  "stepRunLess P a b =
     (srSortOrder a < srSortOrder b
      \<or> srSortOrder a = srSortOrder b \<and> srStepKey a \<noteq> srStepKey b \<and> pfCollate P (srStepKey a) (srStepKey b))"

section \<open>Queries\<close>

definition getTaskResourceLocksByTaskID :: "platform \<Rightarrow> uuid \<Rightarrow> uuid \<Rightarrow> database \<Rightarrow> TaskResourceLock list" where
  "getTaskResourceLocksByTaskID P taskID orgID db =
     SortStable (lockLess P)
       (filter (\<lambda>l. tlkTaskID l = taskID \<and> tlkOrganizationID l = orgID) (dbLocks db))"

definition getTaskResourceLocksByTaskIDs :: "platform \<Rightarrow> uuid list \<Rightarrow> database \<Rightarrow> TaskResourceLock list" where
  "getTaskResourceLocksByTaskIDs P ids db =
     SortStable (lockLess P) (filter (\<lambda>l. tlkTaskID l \<in> set ids) (dbLocks db))"

definition getStepRunsByTaskID :: "platform \<Rightarrow> uuid \<Rightarrow> uuid \<Rightarrow> database \<Rightarrow> StepRun list" where
  "getStepRunsByTaskID P taskID orgID db =
     SortStable (stepRunLess P)
       (filter (\<lambda>r. srTaskID r = taskID \<and> srOrganizationID r = orgID) (dbStepRuns db))"

definition hydrateTask :: "platform \<Rightarrow> database \<Rightarrow> Task \<Rightarrow> Task" where
  "hydrateTask P db t =
     t\<lparr>tkLocks := getTaskResourceLocksByTaskID P (tkID t) (tkOrganizationID t) db,
       tkStepRuns := getStepRunsByTaskID P (tkID t) (tkOrganizationID t) db\<rparr>"

text \<open>\<open>CollectExactlyOneRow\<close> of a query by primary key.\<close>

definition findTask :: "uuid \<Rightarrow> uuid \<Rightarrow> database \<Rightarrow> Task option" where
  "findTask taskID orgID db = find (\<lambda>t. tkID t = taskID \<and> tkOrganizationID t = orgID) (dbTasks db)"

definition getTask :: "platform \<Rightarrow> uuid \<Rightarrow> uuid \<Rightarrow> Task tx" where
  "getTask P taskID orgID db =
     (case findTask taskID orgID db of
        None \<Rightarrow> Inl ErrNotFound
      | Some t \<Rightarrow> Inr (hydrateTask P db t, db))"

definition getTasksByDeploymentPlanID :: "platform \<Rightarrow> uuid \<Rightarrow> uuid \<Rightarrow> database \<Rightarrow> Task list" where
  "getTasksByDeploymentPlanID P planID orgID db =
     map (hydrateTask P db) (SortStable taskLess
       (filter (\<lambda>t. tkDeploymentPlanID t = planID \<and> tkOrganizationID t = orgID) (dbTasks db)))"

definition GetTasksByOrganizationID :: "platform \<Rightarrow> uuid \<Rightarrow> database \<Rightarrow> Task list" where
  "GetTasksByOrganizationID P orgID db =
     map (hydrateTask P db) (SortStable taskLess (filter (\<lambda>t. tkOrganizationID t = orgID) (dbTasks db)))"

definition findStepRun :: "uuid \<Rightarrow> uuid \<Rightarrow> database \<Rightarrow> StepRun option" where
  "findStepRun stepID orgID db =
     find (\<lambda>r. srID r = stepID \<and> srOrganizationID r = orgID) (dbStepRuns db)"

definition getStepRun :: "uuid \<Rightarrow> uuid \<Rightarrow> StepRun tx" where
  "getStepRun stepID orgID db =
     (case findStepRun stepID orgID db of None \<Rightarrow> Inl ErrNotFound | Some r \<Rightarrow> Inr (r, db))"

definition getTaskStatusForUpdate :: "uuid \<Rightarrow> uuid \<Rightarrow> TaskStatus tx" where
  "getTaskStatusForUpdate taskID orgID db =
     (case findTask taskID orgID db of None \<Rightarrow> Inl ErrNotFound | Some t \<Rightarrow> Inr (tkStatus t, db))"

definition getStepRunStatusForUpdate :: "uuid \<Rightarrow> uuid \<Rightarrow> StepRunStatus tx" where
  "getStepRunStatusForUpdate stepID orgID db =
     (case findStepRun stepID orgID db of None \<Rightarrow> Inl ErrNotFound | Some r \<Rightarrow> Inr (srStatus r, db))"

text \<open>The step runs of a task joined with their plan steps.\<close>

definition planStepOf :: "database \<Rightarrow> StepRun \<Rightarrow> DeploymentPlanStep option" where
  "planStepOf db r =
     find (\<lambda>s. dpsID s = srDeploymentPlanStepID r \<and> dpsDeploymentPlanID s = srDeploymentPlanID r
             \<and> dpsOrganizationID s = srOrganizationID r) (dbPlanSteps db)"

lemma keeps_getters [simp]:
  "keeps P (getTask pf t o1)" "keeps P (getTaskStatusForUpdate t o1)" "keeps P (getStepRun s o1)"
  "keeps P (getStepRunStatusForUpdate s o1)"
  by (auto simp: keeps_def getTask_def getTaskStatusForUpdate_def getStepRun_def
      getStepRunStatusForUpdate_def split: option.splits)

end
