(* ===== verification/Task_Queue.thy ===== *)
theory Task_Queue
  imports Task_Db
begin

text \<open>
  The task queue, internal/db/task_queue.go: creating the tasks of a deployment plan with their
  resource locks and step runs, the concurrency policies, the acquisition and release of
  resource locks, and the state transitions of tasks and step runs. The evaluation of the
  preflight checks (db/deployment_preflight.go) is the argument \<open>preflight\<close> of
  \<open>CreateTasksForDeploymentPlan\<close>; its own tables, metrics and tracing are left out. A function
  that takes only locks of the database is a function of the keys it locks.
\<close>

section \<open>Validation\<close>

fun validateAdditionalResources ::
    "(TaskLockResourceType \<times> string) list \<Rightarrow> TaskLockResourceRequest list \<Rightarrow> unit result" where
  "validateAdditionalResources seen [] = Inr ()"
| "validateAdditionalResources seen (resource # rest) =
     (let key = TrimSpace (lrResourceKey resource) in
      if \<not> lockResourceTypeIsValid (lrResourceType resource)
        then Inl (ErrBadRequest ''additionalResources.resourceType is invalid'')
      else if key = [] then Inl (ErrBadRequest ''additionalResources.resourceKey is required'')
      else if lrConcurrencyPolicy resource \<noteq> TaskConcurrencyPolicyOther []
           \<and> \<not> concurrencyPolicyIsValid (lrConcurrencyPolicy resource)
        then Inl (ErrBadRequest ''additionalResources.concurrencyPolicy is invalid'')
      else if (lrResourceType resource, key) \<in> set seen
        then Inl (ErrBadRequest ''additionalResources contains duplicate resource'')
      else validateAdditionalResources ((lrResourceType resource, key) # seen) rest)"

definition validateCreateTasksForDeploymentPlanRequest ::
    "CreateTasksForDeploymentPlanRequest \<Rightarrow> unit result" where
  "validateCreateTasksForDeploymentPlanRequest request =
     (if crOrganizationID request = uuid_Nil then Inl (ErrBadRequest ''organizationId is required'')
      else if crDeploymentPlanID request = uuid_Nil then Inl (ErrBadRequest ''deploymentPlanId is required'')
      else if crConcurrencyPolicy request \<noteq> TaskConcurrencyPolicyOther []
           \<and> \<not> concurrencyPolicyIsValid (crConcurrencyPolicy request)
        then Inl (ErrBadRequest ''concurrencyPolicy is invalid'')
      else validateAdditionalResources [] (crAdditionalResources request))"

definition normalizeTaskLockResourceRequests ::
    "CreateTasksForDeploymentPlanRequest \<Rightarrow> TaskConcurrencyPolicy \<times> TaskLockResourceRequest list" where
  "normalizeTaskLockResourceRequests request =
     (let defaultPolicy = (if crConcurrencyPolicy request = TaskConcurrencyPolicyOther []
                           then TaskConcurrencyPolicyQueue else crConcurrencyPolicy request)
      in (defaultPolicy,
          map (\<lambda>resource. \<lparr>lrResourceType = lrResourceType resource,
                 lrResourceKey = TrimSpace (lrResourceKey resource),
                 lrConcurrencyPolicy =
                   (if lrConcurrencyPolicy resource = TaskConcurrencyPolicyOther []
                    then defaultPolicy else lrConcurrencyPolicy resource)\<rparr>)
            (crAdditionalResources request)))"

definition validateTransitionTaskStateRequest :: "TransitionTaskStateRequest \<Rightarrow> unit result" where
  "validateTransitionTaskStateRequest request =
     (if trOrganizationID request = uuid_Nil then Inl (ErrBadRequest ''organizationId is required'')
      else if trTaskID request = uuid_Nil then Inl (ErrBadRequest ''taskId is required'')
      else if trStatus request = TaskStatusOther [] then Inl (ErrBadRequest ''status is required'')
      else if \<not> taskStatusIsValid (trStatus request) then Inl (ErrBadRequest ''status is invalid'')
      else Inr ())"

definition validateTransitionStepRunStateRequest :: "TransitionStepRunStateRequest \<Rightarrow> unit result" where
  "validateTransitionStepRunStateRequest request =
     (if srqOrganizationID request = uuid_Nil then Inl (ErrBadRequest ''organizationId is required'')
      else if srqStepRunID request = uuid_Nil then Inl (ErrBadRequest ''stepRunId is required'')
      else if srqStatus request = StepRunStatusOther [] then Inl (ErrBadRequest ''status is required'')
      else if \<not> stepRunStatusIsValid (srqStatus request) then Inl (ErrBadRequest ''status is invalid'')
      else Inr ())"

definition isAllowedTaskTransition :: "TaskStatus \<Rightarrow> TaskStatus \<Rightarrow> bool" where
  "isAllowedTaskTransition from_status to_status =
     (case from_status of
        TaskStatusQueued \<Rightarrow> to_status = TaskStatusRunning
      | TaskStatusRunning \<Rightarrow> to_status = TaskStatusSucceeded \<or> to_status = TaskStatusFailed
      | _ \<Rightarrow> False)"

definition isAllowedStepRunTransition :: "StepRunStatus \<Rightarrow> StepRunStatus \<Rightarrow> bool" where
  "isAllowedStepRunTransition from_status to_status =
     (case from_status of
        StepRunStatusPending \<Rightarrow> to_status = StepRunStatusRunning \<or> to_status = StepRunStatusSkipped
      | StepRunStatusRunning \<Rightarrow> to_status = StepRunStatusSucceeded \<or> to_status = StepRunStatusFailed
      | _ \<Rightarrow> False)"

section \<open>Lock groups\<close>

record taskResourceLockGroup =
  lgOrganizationID :: uuid
  lgResourceType :: TaskLockResourceType
  lgResourceKey :: string

definition taskResourceLockGroupKey :: "platform \<Rightarrow> taskResourceLockGroup \<Rightarrow> string" where
  "taskResourceLockGroupKey P g =
     (let resourceType = lockResourceTypeName (lgResourceType g) in
      pfUuidString P (lgOrganizationID g) @ '':'' @ itoa (length resourceType) @ '':'' @ resourceType
        @ '':'' @ itoa (length (lgResourceKey g)) @ '':'' @ lgResourceKey g)"

fun firstGroups ::
    "platform \<Rightarrow> string list \<Rightarrow> taskResourceLockGroup list \<Rightarrow> taskResourceLockGroup list" where
  "firstGroups P seen [] = []"
| "firstGroups P seen (g # gs) =
     (let key = taskResourceLockGroupKey P g in
      if key \<in> set seen then firstGroups P seen gs else g # firstGroups P (key # seen) gs)"

definition distinctTaskResourceLockGroups ::
    "platform \<Rightarrow> taskResourceLockGroup list \<Rightarrow> taskResourceLockGroup list" where
  "distinctTaskResourceLockGroups P groups =
     SortStable (\<lambda>a b. taskResourceLockGroupKey P a < taskResourceLockGroupKey P b)
       (firstGroups P [] groups)"

definition taskResourceLockGroupsFromLocks ::
    "platform \<Rightarrow> TaskResourceLock list \<Rightarrow> taskResourceLockGroup list" where
  "taskResourceLockGroupsFromLocks P locks =
     distinctTaskResourceLockGroups P
       (map (\<lambda>l. \<lparr>lgOrganizationID = tlkOrganizationID l, lgResourceType = tlkResourceType l,
                  lgResourceKey = tlkResourceKey l\<rparr>) locks)"

text \<open>The keys that \<open>lockTaskResourceAdvisoryGroups\<close> locks, in the order it locks them.\<close>

definition lockTaskResourceAdvisoryGroups :: "platform \<Rightarrow> taskResourceLockGroup list \<Rightarrow> string list" where
  "lockTaskResourceAdvisoryGroups P groups =
     map (taskResourceLockGroupKey P) (distinctTaskResourceLockGroups P groups)"

fun distinctLocksFrom ::
    "(TaskLockResourceType \<times> string) list \<Rightarrow> TaskResourceLock list \<Rightarrow> TaskResourceLock list" where
  "distinctLocksFrom seen [] = []"
| "distinctLocksFrom seen (l # ls) =
     (let key = (tlkResourceType l, tlkResourceKey l) in
      if key \<in> set seen then distinctLocksFrom seen ls else l # distinctLocksFrom (key # seen) ls)"

definition distinctTaskResourceLocks :: "TaskResourceLock list \<Rightarrow> TaskResourceLock list" where
  "distinctTaskResourceLocks locks = distinctLocksFrom [] locks"

definition getDeploymentPlanTaskResourceLockGroups ::
    "platform \<Rightarrow> uuid \<Rightarrow> uuid \<Rightarrow> TaskLockResourceRequest list \<Rightarrow> database \<Rightarrow> taskResourceLockGroup list" where
  "getDeploymentPlanTaskResourceLockGroups P planID orgID additionalResources db =
     distinctTaskResourceLockGroups P
       (map (\<lambda>t. \<lparr>lgOrganizationID = orgID, lgResourceType = TaskLockResourceDeploymentTarget,
                  lgResourceKey = pfUuidString P (dptDeploymentTargetID t)\<rparr>)
          (filter (\<lambda>t. dptDeploymentPlanID t = planID \<and> dptOrganizationID t = orgID) (dbPlanTargets db))
        @ map (\<lambda>c. \<lparr>lgOrganizationID = orgID, lgResourceType = TaskLockResourceTargetComponent,
                    lgResourceKey = pfUuidString P (dptcDeploymentTargetID c) @ '':'' @ dptcComponent c\<rparr>)
          (filter (\<lambda>c. dptcDeploymentPlanID c = planID \<and> dptcOrganizationID c = orgID)
             (dbPlanTargetComponents db))
        @ map (\<lambda>r. \<lparr>lgOrganizationID = orgID, lgResourceType = lrResourceType r,
                    lgResourceKey = lrResourceKey r\<rparr>) additionalResources)"

section \<open>Inserting\<close>

text \<open>\<open>insertTasksForDeploymentPlan\<close>: one task per target of the plan, in the order of the targets.\<close>

definition newTask :: "timestamp \<Rightarrow> DeploymentPlan \<Rightarrow> uuid option \<Rightarrow> DeploymentPlanTarget \<Rightarrow> uuid \<Rightarrow> int \<Rightarrow> Task" where
  "newTask now dp actor dpt newID order =
     \<lparr>tkID = newID, tkCreatedAt = now, tkUpdatedAt = now, tkQueuedAt = now, tkStartedAt = None,
      tkCompletedAt = None, tkOrganizationID = dpOrganizationID dp, tkTaskType = TaskTypeDeployment,
      tkDeploymentPlanID = dpID dp, tkDeploymentPlanTargetID = dptID dpt,
      tkDeploymentTargetID = dptDeploymentTargetID dpt, tkApplicationID = dpApplicationID dp,
      tkReleaseBundleID = dpReleaseBundleID dp, tkChannelID = dpChannelID dp,
      tkEnvironmentID = dpEnvironmentID dp, tkActorUserAccountID = actor,
      tkStatus = TaskStatusQueued, tkQueueOrder = order, tkLocks = [], tkStepRuns = []\<rparr>"

fun insertTaskRows ::
    "platform \<Rightarrow> timestamp \<Rightarrow> DeploymentPlan \<Rightarrow> uuid option \<Rightarrow> DeploymentPlanTarget list \<Rightarrow> Task list tx" where
  "insertTaskRows P now dp actor [] = returnT []"
| "insertTaskRows P now dp actor (dpt # dpts) =
     bindT (randomUuid P) (\<lambda>newID.
     bindT (queryT dbTaskQueueOrder) (\<lambda>order.
     bindT (execT (\<lambda>db. db\<lparr>dbTaskQueueOrder := order + 1\<rparr>)) (\<lambda>_.
     bindT (queryT dbTasks) (\<lambda>tasks.
       if \<exists>t \<in> set tasks. tkDeploymentPlanID t = dpID dp \<and> tkDeploymentPlanTargetID t = dptID dpt
         then insertTaskRows P now dp actor dpts
       else if newID \<in> tkID ` set tasks then failT (ErrConflict ''could not insert Task'')
       else let task = newTask now dp actor dpt newID order in
         bindT (execT (\<lambda>db. db\<lparr>dbTasks := dbTasks db @ [task]\<rparr>)) (\<lambda>_.
         bindT (insertTaskRows P now dp actor dpts) (\<lambda>rest. returnT (task # rest)))))))"

definition planTargetLess :: "DeploymentPlanTarget \<Rightarrow> DeploymentPlanTarget \<Rightarrow> bool" where
  "planTargetLess a b =
     (dptSortOrder a < dptSortOrder b
      \<or> dptSortOrder a = dptSortOrder b \<and> dptDeploymentTargetID a < dptDeploymentTargetID b)"

definition insertTasksForDeploymentPlan ::
    "platform \<Rightarrow> timestamp \<Rightarrow> DeploymentPlan \<Rightarrow> uuid option \<Rightarrow> Task list tx" where
  "insertTasksForDeploymentPlan P now dp actor =
     bindT (queryT (\<lambda>db. SortStable planTargetLess
        (filter (\<lambda>t. dptDeploymentPlanID t = dpID dp \<and> dptOrganizationID t = dpOrganizationID dp)
           (dbPlanTargets db)))) (\<lambda>targets. insertTaskRows P now dp actor targets)"

definition newLock :: "Task \<Rightarrow> TaskLockResourceType \<Rightarrow> string \<Rightarrow> TaskConcurrencyPolicy \<Rightarrow> TaskResourceLock" where
  "newLock task resourceType resourceKey policy =
     \<lparr>tlkID = uuid_Nil, tlkCreatedAt = 0, tlkUpdatedAt = 0, tlkAcquiredAt = None, tlkReleasedAt = None,
      tlkOrganizationID = tkOrganizationID task, tlkTaskID = tkID task, tlkResourceType = resourceType,
      tlkResourceKey = resourceKey, tlkConcurrencyPolicy = policy\<rparr>"

definition locksForTask ::
    "platform \<Rightarrow> DeploymentPlanTargetComponent list \<Rightarrow> TaskConcurrencyPolicy \<Rightarrow>
     TaskLockResourceRequest list \<Rightarrow> Task \<Rightarrow> TaskResourceLock list" where
  "locksForTask P targetComponents defaultPolicy additionalResources task =
     newLock task TaskLockResourceDeploymentTarget (pfUuidString P (tkDeploymentTargetID task)) defaultPolicy
     # map (\<lambda>c. newLock task TaskLockResourceTargetComponent
              (pfUuidString P (tkDeploymentTargetID task) @ '':'' @ dptcComponent c) defaultPolicy)
         (filter (\<lambda>c. dptcDeploymentPlanTargetID c = tkDeploymentPlanTargetID task) targetComponents)
     @ map (\<lambda>r. newLock task (lrResourceType r) (lrResourceKey r) (lrConcurrencyPolicy r)) additionalResources"

text \<open>\<open>CopyFrom\<close>: a row gets its identifier and times; a key that is taken fails the copy.\<close>

fun copyLocks :: "platform \<Rightarrow> timestamp \<Rightarrow> TaskResourceLock list \<Rightarrow> unit tx" where
  "copyLocks P now [] = returnT ()"
| "copyLocks P now (l # ls) =
     bindT (randomUuid P) (\<lambda>newID.
     bindT (queryT dbLocks) (\<lambda>locks.
       if newID \<in> tlkID ` set locks
          \<or> (tlkTaskID l, tlkResourceType l, tlkResourceKey l)
              \<in> (\<lambda>k. (tlkTaskID k, tlkResourceType k, tlkResourceKey k)) ` set locks
         then failT (ErrConflict ''could not insert resource locks Task'')
       else bindT (execT (\<lambda>db. db\<lparr>dbLocks := dbLocks db
                @ [l\<lparr>tlkID := newID, tlkCreatedAt := now, tlkUpdatedAt := now\<rparr>]\<rparr>)) (\<lambda>_.
            copyLocks P now ls)))"

definition insertTaskResourceLocksForTasks ::
    "platform \<Rightarrow> timestamp \<Rightarrow> Task list \<Rightarrow> DeploymentPlanTargetComponent list \<Rightarrow> TaskConcurrencyPolicy \<Rightarrow>
     TaskLockResourceRequest list \<Rightarrow> unit tx" where
  "insertTaskResourceLocksForTasks P now tasks targetComponents defaultPolicy additionalResources =
     copyLocks P now
       (concat (map (locksForTask P targetComponents defaultPolicy additionalResources) tasks))"

definition newStepRun :: "timestamp \<Rightarrow> Task \<Rightarrow> DeploymentPlanStep \<Rightarrow> uuid \<Rightarrow> StepRun" where
  "newStepRun now t dps newID =
     \<lparr>srID = newID, srCreatedAt = now, srUpdatedAt = now, srStartedAt = None,
      srCompletedAt = (if dpsIncluded dps then None else Some now),
      srOrganizationID = tkOrganizationID t, srTaskID = tkID t,
      srDeploymentPlanID = tkDeploymentPlanID t, srDeploymentPlanStepID = dpsID dps,
      srStepKey = dpsStepKey dps, srName = dpsName dps, srActionType = dpsActionType dps,
      srStatus = (if dpsIncluded dps then StepRunStatusPending else StepRunStatusSkipped),
      srSortOrder = dpsSortOrder dps,
      srSkippedReason = (if dpsIncluded dps then [] else dpsExcludedReason dps)\<rparr>"

fun insertStepRunRows :: "platform \<Rightarrow> timestamp \<Rightarrow> (Task \<times> DeploymentPlanStep) list \<Rightarrow> unit tx" where
  "insertStepRunRows P now [] = returnT ()"
| "insertStepRunRows P now ((t, dps) # rest) =
     bindT (randomUuid P) (\<lambda>newID.
     bindT (queryT dbStepRuns) (\<lambda>runs.
       if \<exists>r \<in> set runs. srTaskID r = tkID t \<and> srDeploymentPlanStepID r = dpsID dps
         then insertStepRunRows P now rest
       else if newID \<in> srID ` set runs then failT (ErrConflict ''could not insert step runs Task'')
       else bindT (execT (\<lambda>db. db\<lparr>dbStepRuns := dbStepRuns db @ [newStepRun now t dps newID]\<rparr>)) (\<lambda>_.
            insertStepRunRows P now rest)))"

definition taskStepLess :: "platform \<Rightarrow> Task \<times> DeploymentPlanStep \<Rightarrow> Task \<times> DeploymentPlanStep \<Rightarrow> bool" where
  "taskStepLess P a b =
     (let (t, s) = a; (u, r) = b in
      if tkQueueOrder t \<noteq> tkQueueOrder u then tkQueueOrder t < tkQueueOrder u
      else if dpsSortOrder s \<noteq> dpsSortOrder r then dpsSortOrder s < dpsSortOrder r
      else dpsStepKey s \<noteq> dpsStepKey r \<and> pfCollate P (dpsStepKey s) (dpsStepKey r))"

definition insertStepRunsForTasks :: "platform \<Rightarrow> timestamp \<Rightarrow> Task list \<Rightarrow> unit tx" where
  "insertStepRunsForTasks P now tasks =
     (if tasks = [] then returnT ()
      else bindT (queryT (\<lambda>db. SortStable (taskStepLess P)
        [(t, dps). t \<leftarrow> filter (\<lambda>t. tkID t \<in> tkID ` set tasks) (dbTasks db),
                   dps \<leftarrow> filter (\<lambda>dps. dpsDeploymentPlanID dps = tkDeploymentPlanID t
                                      \<and> dpsOrganizationID dps = tkOrganizationID t) (dbPlanSteps db)]))
        (\<lambda>rows. insertStepRunRows P now rows))"

definition markDeploymentPlanExecuted :: "uuid \<Rightarrow> uuid \<Rightarrow> unit tx" where
  "markDeploymentPlanExecuted planID orgID =
     (let hit = (\<lambda>dp. dpID dp = planID \<and> dpOrganizationID dp = orgID \<and> dpStatus dp = DeploymentPlanStatusReady) in
      bindT (queryT (\<lambda>db. length (filter hit (dbPlans db)))) (\<lambda>affected.
      bindT (execT (\<lambda>db. db\<lparr>dbPlans :=
          updateWhere hit (\<lambda>dp. dp\<lparr>dpStatus := DeploymentPlanStatusExecuted\<rparr>) (dbPlans db)\<rparr>)) (\<lambda>_.
        if affected \<noteq> 1
          then failT (ErrConflict ''deployment plan must be READY before tasks can be created'')
        else returnT ())))"

section \<open>Policies and locks\<close>

definition lockTask :: "database \<Rightarrow> TaskResourceLock \<Rightarrow> Task option" where
  "lockTask db l = findTask (tlkTaskID l) (tlkOrganizationID l) db"

definition sameResource :: "TaskResourceLock \<Rightarrow> TaskResourceLock \<Rightarrow> bool" where
  "sameResource l k \<longleftrightarrow> tlkOrganizationID l = tlkOrganizationID k
     \<and> tlkResourceType l = tlkResourceType k \<and> tlkResourceKey l = tlkResourceKey k"

definition hasActiveTaskResourceConflict :: "TaskResourceLock \<Rightarrow> uuid \<Rightarrow> database \<Rightarrow> bool" where
  "hasActiveTaskResourceConflict lock taskID db =
     list_ex (\<lambda>trl. sameResource trl lock \<and> tlkTaskID trl \<noteq> taskID
        \<and> tlkAcquiredAt trl \<noteq> None \<and> tlkReleasedAt trl = None
        \<and> (case lockTask db trl of None \<Rightarrow> False | Some t \<Rightarrow> tkStatus t = TaskStatusRunning)) (dbLocks db)"

definition hasNonTerminalTaskResourceConflict :: "TaskResourceLock \<Rightarrow> uuid list \<Rightarrow> database \<Rightarrow> bool" where
  "hasNonTerminalTaskResourceConflict lock ids db =
     list_ex (\<lambda>trl. sameResource trl lock \<and> tlkTaskID trl \<notin> set ids \<and> tlkReleasedAt trl = None
        \<and> (case lockTask db trl of None \<Rightarrow> False
           | Some t \<Rightarrow> tkStatus t = TaskStatusQueued \<or> tkStatus t = TaskStatusRunning)) (dbLocks db)"

text \<open>The tasks of \<open>older_tasks\<close> with the given status; the second statement of
  \<open>cancelOlderQueuedTasksForResource\<close> does not ask that the lock is unreleased.\<close>

definition olderTasks ::
    "TaskResourceLock \<Rightarrow> uuid list \<Rightarrow> TaskStatus \<Rightarrow> bool \<Rightarrow> database \<Rightarrow> uuid list" where
  "olderTasks lock ids status unreleasedOnly db =
     map tlkTaskID (filter (\<lambda>trl. sameResource trl lock \<and> tlkTaskID trl \<notin> set ids
        \<and> (unreleasedOnly \<longrightarrow> tlkReleasedAt trl = None)
        \<and> (case lockTask db trl of None \<Rightarrow> False | Some t \<Rightarrow> tkStatus t = status)) (dbLocks db))"

definition cancelOlderQueuedTasksForResource ::
    "timestamp \<Rightarrow> TaskResourceLock \<Rightarrow> uuid list \<Rightarrow> unit tx" where
  "cancelOlderQueuedTasksForResource now lock ids =
     bindT (queryT (olderTasks lock ids TaskStatusQueued True)) (\<lambda>older.
     bindT (execT (\<lambda>db. db\<lparr>dbTasks :=
         updateWhere (\<lambda>t. tkID t \<in> set older \<and> tkOrganizationID t = tlkOrganizationID lock)
           (\<lambda>t. t\<lparr>tkStatus := TaskStatusCanceled, tkUpdatedAt := now,
                  tkCompletedAt := coalesce (tkCompletedAt t) now\<rparr>) (dbTasks db)\<rparr>)) (\<lambda>_.
     bindT (queryT (olderTasks lock ids TaskStatusCanceled False)) (\<lambda>older.
     execT (\<lambda>db. db\<lparr>dbLocks :=
         updateWhere (\<lambda>l. tlkTaskID l \<in> set older \<and> tlkOrganizationID l = tlkOrganizationID lock
                        \<and> tlkReleasedAt l = None)
           (\<lambda>l. l\<lparr>tlkReleasedAt := coalesce (tlkReleasedAt l) now, tlkUpdatedAt := now\<rparr>) (dbLocks db)\<rparr>))))"

fun applyPolicies :: "timestamp \<Rightarrow> uuid list \<Rightarrow> TaskResourceLock list \<Rightarrow> unit tx" where
  "applyPolicies now ids [] = returnT ()"
| "applyPolicies now ids (lock # locks) =
     (case tlkConcurrencyPolicy lock of
        TaskConcurrencyPolicyRejectNew \<Rightarrow>
          bindT (queryT (hasNonTerminalTaskResourceConflict lock ids)) (\<lambda>exists.
            if exists
              then failT (ErrConflict ''task resource lock conflicts with an existing queued or running task'')
            else applyPolicies now ids locks)
      | TaskConcurrencyPolicyCancelOlder \<Rightarrow>
          bindT (cancelOlderQueuedTasksForResource now lock ids) (\<lambda>_. applyPolicies now ids locks)
      | _ \<Rightarrow> applyPolicies now ids locks)"

definition applyTaskConcurrencyPolicies :: "platform \<Rightarrow> timestamp \<Rightarrow> Task list \<Rightarrow> unit tx" where
  "applyTaskConcurrencyPolicies P now tasks =
     (if tasks = [] then returnT ()
      else let ids = map tkID tasks in
        bindT (queryT (getTaskResourceLocksByTaskIDs P ids)) (\<lambda>locks.
          applyPolicies now ids (distinctTaskResourceLocks locks)))"

text \<open>The check of every lock of a task before any of them is acquired.\<close>

fun checkLocks :: "uuid \<Rightarrow> TaskResourceLock list \<Rightarrow> unit tx" where
  "checkLocks taskID [] = returnT ()"
| "checkLocks taskID (lock # locks) =
     (if tlkConcurrencyPolicy lock = TaskConcurrencyPolicyAllowParallel then checkLocks taskID locks
      else bindT (queryT (hasActiveTaskResourceConflict lock taskID)) (\<lambda>exists.
        if exists then failT (ErrConflict ''task resource lock is held by another running task'')
        else checkLocks taskID locks))"

definition acquireTaskResourceLocks :: "platform \<Rightarrow> timestamp \<Rightarrow> uuid \<Rightarrow> uuid \<Rightarrow> unit tx" where
  "acquireTaskResourceLocks P now taskID orgID =
     bindT (queryT (getTaskResourceLocksByTaskID P taskID orgID)) (\<lambda>locks.
     bindT (checkLocks taskID locks) (\<lambda>_.
       if locks = [] then returnT ()
       else execT (\<lambda>db. db\<lparr>dbLocks :=
         updateWhere (\<lambda>l. tlkTaskID l = taskID \<and> tlkOrganizationID l = orgID \<and> tlkReleasedAt l = None)
           (\<lambda>l. l\<lparr>tlkAcquiredAt := coalesce (tlkAcquiredAt l) now, tlkUpdatedAt := now\<rparr>) (dbLocks db)\<rparr>)))"

definition releaseTaskResourceLocks :: "timestamp \<Rightarrow> uuid \<Rightarrow> uuid \<Rightarrow> unit tx" where
  "releaseTaskResourceLocks now taskID orgID =
     execT (\<lambda>db. db\<lparr>dbLocks :=
       updateWhere (\<lambda>l. tlkTaskID l = taskID \<and> tlkOrganizationID l = orgID \<and> tlkReleasedAt l = None)
         (\<lambda>l. l\<lparr>tlkReleasedAt := coalesce (tlkReleasedAt l) now, tlkUpdatedAt := now\<rparr>) (dbLocks db)\<rparr>)"

definition releaseActiveTaskLeasesForTask :: "timestamp \<Rightarrow> uuid \<Rightarrow> uuid \<Rightarrow> unit tx" where
  "releaseActiveTaskLeasesForTask now taskID orgID =
     execT (\<lambda>db. db\<lparr>dbLeases :=
       updateWhere (\<lambda>l. tlTaskID l = taskID \<and> tlOrganizationID l = orgID \<and> tlReleasedAt l = None)
         (\<lambda>l. l\<lparr>tlReleasedAt := coalesce (tlReleasedAt l) now, tlUpdatedAt := now\<rparr>) (dbLeases db)\<rparr>)"

section \<open>Status updates\<close>

definition setTaskStatus :: "timestamp \<Rightarrow> TaskStatus \<Rightarrow> Task \<Rightarrow> Task" where
  "setTaskStatus now status t =
     t\<lparr>tkStatus := status, tkUpdatedAt := now,
       tkStartedAt := (if status = TaskStatusRunning \<and> tkStartedAt t = None then Some now else tkStartedAt t),
       tkCompletedAt := (if status = TaskStatusSucceeded \<or> status = TaskStatusFailed \<or> status = TaskStatusCanceled
                         then Some now else tkCompletedAt t)\<rparr>"

definition updateTaskStatus :: "timestamp \<Rightarrow> uuid \<Rightarrow> uuid \<Rightarrow> TaskStatus \<Rightarrow> unit tx" where
  "updateTaskStatus now taskID orgID status =
     bindT (execT (\<lambda>db. db\<lparr>dbTasks :=
         updateWhere (\<lambda>t. tkID t = taskID \<and> tkOrganizationID t = orgID) (setTaskStatus now status) (dbTasks db)\<rparr>)) (\<lambda>_.
       if taskStatusIsTerminal status
         then bindT (releaseActiveTaskLeasesForTask now taskID orgID) (\<lambda>_. releaseTaskResourceLocks now taskID orgID)
       else returnT ())"

definition setStepRunStatus :: "timestamp \<Rightarrow> StepRunStatus \<Rightarrow> StepRun \<Rightarrow> StepRun" where
  "setStepRunStatus now status r =
     r\<lparr>srStatus := status, srUpdatedAt := now,
       srStartedAt := (if status = StepRunStatusRunning \<and> srStartedAt r = None then Some now else srStartedAt r),
       srCompletedAt := (if status = StepRunStatusSucceeded \<or> status = StepRunStatusFailed \<or> status = StepRunStatusSkipped
                         then Some now else srCompletedAt r)\<rparr>"

definition updateStepRunStatus :: "timestamp \<Rightarrow> uuid \<Rightarrow> uuid \<Rightarrow> StepRunStatus \<Rightarrow> unit tx" where
  "updateStepRunStatus now stepID orgID status =
     execT (\<lambda>db. db\<lparr>dbStepRuns :=
       updateWhere (\<lambda>r. srID r = stepID \<and> srOrganizationID r = orgID) (setStepRunStatus now status) (dbStepRuns db)\<rparr>)"

section \<open>The exported operations\<close>

type_synonym preflightCheck = "DeploymentPlan \<Rightarrow> uuid \<Rightarrow> database \<Rightarrow> (bool \<times> string) result"

definition uuidOrNil :: "uuid \<Rightarrow> uuid option" where
  "uuidOrNil u = (if u = uuid_Nil then None else Some u)"

definition getDeploymentPlan :: "uuid \<Rightarrow> uuid \<Rightarrow> DeploymentPlan tx" where
  "getDeploymentPlan planID orgID db =
     (case find (\<lambda>dp. dpID dp = planID \<and> dpOrganizationID dp = orgID) (dbPlans db) of
        None \<Rightarrow> Inl ErrNotFound | Some dp \<Rightarrow> Inr (dp, db))"

text \<open>The function that \<open>CreateTasksForDeploymentPlan\<close> runs in its transaction: the tasks, or the
  message of a failed preflight. Both looks for existing tasks are the same query here, since
  nothing comes between them.\<close>

definition createTasksTx ::
    "platform \<Rightarrow> preflightCheck \<Rightarrow> timestamp \<Rightarrow> CreateTasksForDeploymentPlanRequest \<Rightarrow> (string + Task list) tx" where
  "createTasksTx P preflight now request =
     (let (defaultPolicy, lockResources) = normalizeTaskLockResourceRequests request;
          planID = crDeploymentPlanID request; orgID = crOrganizationID request in
      bindT (getDeploymentPlan planID orgID) (\<lambda>plan.
      bindT (queryT (getTasksByDeploymentPlanID P planID orgID)) (\<lambda>existing.
        if existing \<noteq> [] then returnT (Inr existing)
        else if dpStatus plan \<noteq> DeploymentPlanStatusReady
          then failT (ErrConflict ''deployment plan must be READY before tasks can be created'')
        else bindT (queryT (preflight plan (crActorUserAccountID request))) (\<lambda>outcome.
        bindT (liftT outcome) (\<lambda>(passed, message).
          if \<not> passed then returnT (Inl message)
          else
        bindT (insertTasksForDeploymentPlan P now plan (uuidOrNil (crActorUserAccountID request))) (\<lambda>created.
        bindT (queryT (\<lambda>db. filter (\<lambda>c. dptcDeploymentPlanID c = planID \<and> dptcOrganizationID c = orgID)
                 (dbPlanTargetComponents db))) (\<lambda>components.
        bindT (insertTaskResourceLocksForTasks P now created components defaultPolicy lockResources) (\<lambda>_.
        bindT (applyTaskConcurrencyPolicies P now created) (\<lambda>_.
        bindT (insertStepRunsForTasks P now created) (\<lambda>_.
        bindT (markDeploymentPlanExecuted planID orgID) (\<lambda>_.
        bindT (queryT (getTasksByDeploymentPlanID P planID orgID)) (\<lambda>tasks.
          returnT (Inr tasks)))))))))))))"

definition CreateTasksForDeploymentPlan ::
    "platform \<Rightarrow> preflightCheck \<Rightarrow> timestamp \<Rightarrow> CreateTasksForDeploymentPlanRequest \<Rightarrow> database \<Rightarrow>
     Task list result \<times> database" where
  "CreateTasksForDeploymentPlan P preflight now request db =
     (case validateCreateTasksForDeploymentPlanRequest request of
        Inl e \<Rightarrow> (Inl e, db)
      | Inr _ \<Rightarrow>
          (case RunTx (createTasksTx P preflight now request) db of
             (Inl e, db') \<Rightarrow> (Inl e, db')
           | (Inr (Inl message), db') \<Rightarrow> (Inl (ErrConflict message), db')
           | (Inr (Inr tasks), db') \<Rightarrow> (Inr tasks, db')))"

definition transitionTaskTx :: "platform \<Rightarrow> timestamp \<Rightarrow> TransitionTaskStateRequest \<Rightarrow> Task tx" where
  "transitionTaskTx P now request =
     (let taskID = trTaskID request; orgID = trOrganizationID request in
      bindT (getTaskStatusForUpdate taskID orgID) (\<lambda>current.
        if \<not> isAllowedTaskTransition current (trStatus request)
          then failT (ErrConflict ''cannot transition task'')
        else bindT (if trStatus request = TaskStatusRunning
                    then acquireTaskResourceLocks P now taskID orgID else returnT ()) (\<lambda>_.
             bindT (updateTaskStatus now taskID orgID (trStatus request)) (\<lambda>_.
             getTask P taskID orgID))))"

definition TransitionTaskState ::
    "platform \<Rightarrow> timestamp \<Rightarrow> TransitionTaskStateRequest \<Rightarrow> database \<Rightarrow> Task result \<times> database" where
  "TransitionTaskState P now request db =
     (case validateTransitionTaskStateRequest request of
        Inl e \<Rightarrow> (Inl e, db)
      | Inr _ \<Rightarrow> RunTx (transitionTaskTx P now request) db)"

definition transitionStepRunTx :: "timestamp \<Rightarrow> TransitionStepRunStateRequest \<Rightarrow> StepRun tx" where
  "transitionStepRunTx now request =
     (let stepID = srqStepRunID request; orgID = srqOrganizationID request in
      bindT (getStepRunStatusForUpdate stepID orgID) (\<lambda>current.
        if \<not> isAllowedStepRunTransition current (srqStatus request)
          then failT (ErrConflict ''cannot transition step run'')
        else bindT (updateStepRunStatus now stepID orgID (srqStatus request)) (\<lambda>_.
             getStepRun stepID orgID)))"

definition TransitionStepRunState ::
    "timestamp \<Rightarrow> TransitionStepRunStateRequest \<Rightarrow> database \<Rightarrow> StepRun result \<times> database" where
  "TransitionStepRunState now request db =
     (case validateTransitionStepRunStateRequest request of
        Inl e \<Rightarrow> (Inl e, db)
      | Inr _ \<Rightarrow> RunTx (transitionStepRunTx now request) db)"

end
