(* ===== verification/Lease_Steps.thy ===== *)
theory Lease_Steps
  imports Task_Types
begin

text \<open>
  Which steps a task lease hands out: \<open>readyTaskLeaseStepCandidates\<close> of
  internal/db/task_leases.go. The candidates are the step runs of a task with their plan steps,
  in sort order. The Go maps \<open>satisfied\<close> and \<open>selected\<close>, whose values are only ever \<open>true\<close>, are
  lists of keys. The unbounded \<open>for\<close> loop is shown to end; what it returns is characterised by
  the least set of step keys closed under the dependency rule.
\<close>

record taskLeaseStepCandidate =
  scStepRunID :: uuid
  scStepKey :: string
  scName :: string
  scActionType :: string
  scInputBindings :: "object option"
  scSortOrder :: int
  scStatus :: StepRunStatus
  scExecutionLocation :: string
  scIncluded :: bool
  scDependencies :: "string list"

definition taskLeaseDependencyStatusSatisfied :: "StepRunStatus \<Rightarrow> bool" where
  "taskLeaseDependencyStatusSatisfied status =
     (status = StepRunStatusSucceeded \<or> status = StepRunStatusSkipped)"

fun taskLeaseDependenciesSatisfied :: "string list \<Rightarrow> string list \<Rightarrow> bool" where
  "taskLeaseDependenciesSatisfied [] satisfied = True"
| "taskLeaseDependenciesSatisfied (d # ds) satisfied =
     (if d \<notin> set satisfied then False else taskLeaseDependenciesSatisfied ds satisfied)"

fun initiallySatisfied :: "taskLeaseStepCandidate list \<Rightarrow> string list" where
  "initiallySatisfied [] = []"
| "initiallySatisfied (c # cs) =
     (if taskLeaseDependencyStatusSatisfied (scStatus c) then [scStepKey c] else [])
       @ initiallySatisfied cs"

definition eligibleCandidate :: "string \<Rightarrow> taskLeaseStepCandidate \<Rightarrow> bool" where
  "eligibleCandidate loc c =
     (scIncluded c \<and> scExecutionLocation c = loc \<and> scStatus c = StepRunStatusPending)"

text \<open>The state of the loop: \<open>ready\<close>, \<open>selected\<close>, \<open>satisfied\<close> and \<open>progressed\<close>.\<close>

record readyState =
  rdReady :: "taskLeaseStepCandidate list"
  rdSelected :: "string list"
  rdSatisfied :: "string list"
  rdProgressed :: bool

definition considerCandidate :: "string \<Rightarrow> taskLeaseStepCandidate \<Rightarrow> readyState \<Rightarrow> readyState" where
  "considerCandidate loc c st =
     (if scStepKey c \<in> set (rdSelected st) \<or> \<not> eligibleCandidate loc c
         \<or> \<not> taskLeaseDependenciesSatisfied (scDependencies c) (rdSatisfied st)
      then st
      else \<lparr>rdReady = rdReady st @ [c], rdSelected = scStepKey c # rdSelected st,
            rdSatisfied = scStepKey c # rdSatisfied st, rdProgressed = True\<rparr>)"

definition readyPass :: "taskLeaseStepCandidate list \<Rightarrow> string \<Rightarrow> readyState \<Rightarrow> readyState" where
  "readyPass cs loc st = fold (considerCandidate loc) cs (st\<lparr>rdProgressed := False\<rparr>)"

lemma considerCandidate_selected:
  "set (rdSelected st) \<subseteq> set (rdSelected (considerCandidate loc c st))"
  by (auto simp: considerCandidate_def)

lemma fold_considerCandidate_grows:
  "set (rdSelected st) \<subseteq> set (rdSelected (fold (considerCandidate loc) cs st))"
proof (induction cs arbitrary: st)
  case (Cons c cs)
  then show ?case using considerCandidate_selected [of st loc c] by fastforce
qed simp

lemma fold_considerCandidate_progress:
  "rdProgressed (fold (considerCandidate loc) cs st) \<Longrightarrow> \<not> rdProgressed st \<Longrightarrow>
     \<exists>c \<in> set cs. scStepKey c \<notin> set (rdSelected st)
       \<and> scStepKey c \<in> set (rdSelected (fold (considerCandidate loc) cs st))"
proof (induction cs arbitrary: st)
  case (Cons c cs)
  show ?case
  proof (cases "considerCandidate loc c st = st")
    case True
    with Cons show ?thesis by auto
  next
    case False
    then have "scStepKey c \<notin> set (rdSelected st)" "scStepKey c \<in> set (rdSelected (considerCandidate loc c st))"
      by (auto simp: considerCandidate_def split: if_splits)
    then show ?thesis
      using fold_considerCandidate_grows [of "considerCandidate loc c st" loc cs] by auto
  qed
qed simp

function readyLoop :: "taskLeaseStepCandidate list \<Rightarrow> string \<Rightarrow> readyState \<Rightarrow> readyState" where
  "readyLoop cs loc st =
     (let st' = readyPass cs loc st in
      if \<not> rdProgressed st' then st' else readyLoop cs loc st')"
  by pat_completeness auto
termination
proof (relation "measure (\<lambda>(cs, loc, st). card (scStepKey ` set cs - set (rdSelected st)))", simp)
  fix cs loc st st'
  assume st': "st' = readyPass cs loc st" and "\<not> \<not> rdProgressed st'"
  then obtain c where c: "c \<in> set cs" "scStepKey c \<notin> set (rdSelected st)" "scStepKey c \<in> set (rdSelected st')"
    using fold_considerCandidate_progress [of loc cs "st\<lparr>rdProgressed := False\<rparr>"]
    by (auto simp: readyPass_def)
  moreover have "set (rdSelected st) \<subseteq> set (rdSelected st')"
    using fold_considerCandidate_grows [of "st\<lparr>rdProgressed := False\<rparr>" loc cs] by (simp add: st' readyPass_def)
  ultimately have "scStepKey ` set cs - set (rdSelected st') \<subset> scStepKey ` set cs - set (rdSelected st)" by blast
  then show "((cs, loc, st'), cs, loc, st) \<in> measure (\<lambda>(cs, loc, st). card (scStepKey ` set cs - set (rdSelected st)))"
    by (simp add: psubset_card_mono)
qed

declare readyLoop.simps [simp del]

definition readyTaskLeaseStepCandidates ::
    "taskLeaseStepCandidate list \<Rightarrow> string \<Rightarrow> taskLeaseStepCandidate list" where
  "readyTaskLeaseStepCandidates candidates executionLocation =
     rdReady (readyLoop candidates executionLocation
       \<lparr>rdReady = [], rdSelected = [], rdSatisfied = initiallySatisfied candidates, rdProgressed = False\<rparr>)"

section \<open>The specification\<close>

text \<open>A key is reachable when its step is done or skipped, or can be run at the location once
  reachable steps have run.\<close>

inductive reachableKey :: "taskLeaseStepCandidate list \<Rightarrow> string \<Rightarrow> string \<Rightarrow> bool"
  for cs loc where
  finished: "c \<in> set cs \<Longrightarrow> taskLeaseDependencyStatusSatisfied (scStatus c) \<Longrightarrow> reachableKey cs loc (scStepKey c)"
| runnable: "c \<in> set cs \<Longrightarrow> eligibleCandidate loc c \<Longrightarrow> \<forall>d \<in> set (scDependencies c). reachableKey cs loc d \<Longrightarrow>
     reachableKey cs loc (scStepKey c)"

inductive_cases reachableKeyE: "reachableKey cs loc k"

lemma dependenciesSatisfied_iff:
  "taskLeaseDependenciesSatisfied ds satisfied \<longleftrightarrow> set ds \<subseteq> set satisfied"
  by (induction ds satisfied rule: taskLeaseDependenciesSatisfied.induct) auto

lemma initiallySatisfied_set:
  "set (initiallySatisfied cs) = {scStepKey c | c. c \<in> set cs \<and> taskLeaseDependencyStatusSatisfied (scStatus c)}"
  by (induction cs) auto

text \<open>The dependencies of every step in the list are done, or are earlier in the list.\<close>

definition dependencyOrdered ::
    "taskLeaseStepCandidate list \<Rightarrow> taskLeaseStepCandidate list \<Rightarrow> bool" where
  "dependencyOrdered cs rs \<longleftrightarrow> (\<forall>i < length rs.
     set (scDependencies (rs ! i)) \<subseteq> set (initiallySatisfied cs) \<union> scStepKey ` set (take i rs))"

definition readyInv :: "taskLeaseStepCandidate list \<Rightarrow> string \<Rightarrow> readyState \<Rightarrow> bool" where
  "readyInv cs loc st \<longleftrightarrow>
     set (rdSelected st) = scStepKey ` set (rdReady st) \<and> distinct (map scStepKey (rdReady st))
     \<and> set (rdSatisfied st) = set (initiallySatisfied cs) \<union> scStepKey ` set (rdReady st)
     \<and> (\<forall>c \<in> set (rdReady st). c \<in> set cs \<and> eligibleCandidate loc c)
     \<and> dependencyOrdered cs (rdReady st)"

lemma dependencyOrdered_snoc:
  "dependencyOrdered cs (rs @ [c]) \<longleftrightarrow> dependencyOrdered cs rs
     \<and> set (scDependencies c) \<subseteq> set (initiallySatisfied cs) \<union> scStepKey ` set rs"
  by (auto simp: dependencyOrdered_def nth_append less_Suc_eq)

lemma readyInv_consider:
  "readyInv cs loc st \<Longrightarrow> c \<in> set cs \<Longrightarrow> readyInv cs loc (considerCandidate loc c st)"
  by (auto simp: readyInv_def considerCandidate_def dependenciesSatisfied_iff dependencyOrdered_snoc)

lemma readyInv_fold:
  "readyInv cs loc st \<Longrightarrow> set xs \<subseteq> set cs \<Longrightarrow> readyInv cs loc (fold (considerCandidate loc) xs st)"
  by (induction xs arbitrary: st) (auto intro: readyInv_consider)

lemma readyInv_pass: "readyInv cs loc st \<Longrightarrow> readyInv cs loc (readyPass cs loc st)"
  unfolding readyPass_def by (rule readyInv_fold) (auto simp: readyInv_def)

lemma readyInv_loop: "readyInv cs loc st \<Longrightarrow> readyInv cs loc (readyLoop cs loc st)"
proof (induction cs loc st rule: readyLoop.induct)
  case (1 cs loc st)
  then show ?case
    by (subst readyLoop.simps) (auto simp: Let_def intro: readyInv_pass)
qed

text \<open>A pass that made no progress has looked at every candidate in vain.\<close>

lemma fold_no_progress:
  "\<not> rdProgressed (fold (considerCandidate loc) xs st) \<Longrightarrow>
     fold (considerCandidate loc) xs st = st \<and> (\<forall>c \<in> set xs. considerCandidate loc c st = st)"
proof (induction xs arbitrary: st)
  case (Cons c xs)
  show ?case
  proof (cases "considerCandidate loc c st = st")
    case True
    with Cons show ?thesis by auto
  next
    case False
    then have "rdProgressed (considerCandidate loc c st)" by (auto simp: considerCandidate_def split: if_splits)
    moreover have "rdProgressed s \<Longrightarrow> rdProgressed (fold (considerCandidate loc) ys s)" for ys s
      by (induction ys arbitrary: s) (auto simp: considerCandidate_def)
    ultimately show ?thesis using Cons.prems by simp
  qed
qed simp

lemma readyLoop_stuck:
  assumes "c \<in> set cs"
  shows "considerCandidate loc c (readyLoop cs loc st) = readyLoop cs loc st"
  using assms
proof (induction cs loc st rule: readyLoop.induct)
  case (1 cs loc st)
  let ?p = "readyPass cs loc st"
  show ?case
  proof (cases "rdProgressed ?p")
    case True
    with 1 show ?thesis by (simp add: readyLoop.simps [of cs loc st] Let_def)
  next
    case False
    then have "considerCandidate loc c ?p = ?p"
      using fold_no_progress [of loc cs "st\<lparr>rdProgressed := False\<rparr>"] 1(2) by (auto simp: readyPass_def)
    with False show ?thesis by (simp add: readyLoop.simps [of cs loc st] Let_def)
  qed
qed

lemma reachable_satisfied:
  assumes "readyInv cs loc st" "\<forall>c \<in> set cs. considerCandidate loc c st = st" "reachableKey cs loc k"
  shows "k \<in> set (rdSatisfied st)"
  using assms(3)
proof (induction rule: reachableKey.induct)
  case (finished c)
  then show ?case using assms(1) by (auto simp: readyInv_def initiallySatisfied_set)
next
  case (runnable c)
  then have "considerCandidate loc c st = st" using assms(2) by blast
  moreover have "taskLeaseDependenciesSatisfied (scDependencies c) (rdSatisfied st)"
    using runnable by (auto simp: dependenciesSatisfied_iff)
  ultimately have "scStepKey c \<in> set (rdSelected st)"
    using runnable(2) by (cases st) (auto simp: considerCandidate_def split: if_splits)
  then show ?case using assms(1) by (auto simp: readyInv_def)
qed

lemma satisfied_reachable:
  assumes "readyInv cs loc st" "k \<in> set (rdSatisfied st)"
  shows "reachableKey cs loc k"
proof -
  have init: "k \<in> set (initiallySatisfied cs) \<Longrightarrow> reachableKey cs loc k" for k
    by (auto simp: initiallySatisfied_set intro: reachableKey.finished)
  have "i < length (rdReady st) \<Longrightarrow> reachableKey cs loc (scStepKey (rdReady st ! i))" for i
  proof (induction i rule: less_induct)
    case (less i)
    let ?c = "rdReady st ! i"
    have "?c \<in> set cs" "eligibleCandidate loc ?c"
      using assms(1) less(2) nth_mem by (fastforce simp: readyInv_def)+
    moreover have "reachableKey cs loc d" if "d \<in> set (scDependencies ?c)" for d
    proof -
      have "d \<in> set (initiallySatisfied cs) \<union> scStepKey ` set (take i (rdReady st))"
        using assms(1) less(2) that by (auto simp: readyInv_def dependencyOrdered_def)
      then show ?thesis using init less by (auto simp: in_set_conv_nth)
    qed
    ultimately show ?case by (auto intro: reachableKey.runnable)
  qed
  then show ?thesis using assms init by (auto simp: readyInv_def in_set_conv_nth)
qed

lemma readyInv_result:
  assumes "st = readyLoop cs loc
       \<lparr>rdReady = [], rdSelected = [], rdSatisfied = initiallySatisfied cs, rdProgressed = False\<rparr>"
  shows "readyInv cs loc st" "\<forall>c \<in> set cs. considerCandidate loc c st = st"
    "rdReady st = readyTaskLeaseStepCandidates cs loc"
proof -
  have "readyInv cs loc \<lparr>rdReady = [], rdSelected = [], rdSatisfied = initiallySatisfied cs, rdProgressed = False\<rparr>"
    by (simp add: readyInv_def dependencyOrdered_def)
  then show "readyInv cs loc st" using assms readyInv_loop by simp
  show "\<forall>c \<in> set cs. considerCandidate loc c st = st" using assms readyLoop_stuck by simp
  show "rdReady st = readyTaskLeaseStepCandidates cs loc" by (simp add: assms readyTaskLeaseStepCandidates_def)
qed

section \<open>What a lease hands out\<close>

text \<open>C12: the steps a lease hands out have distinct keys, are pending steps of the task that belong
  to the executor's location, come after all their dependencies that are not yet done, and are
  all the steps that this executor can run: a key is handed out exactly if one of its steps can
  run here and every dependency is done or can be run here before it.\<close>

theorem lease_steps_ordered_and_complete:
  fixes cs :: "taskLeaseStepCandidate list"
  shows "let rs = readyTaskLeaseStepCandidates cs loc in
     distinct (map scStepKey rs)
     \<and> (\<forall>i < length rs. rs ! i \<in> set cs \<and> scIncluded (rs ! i) \<and> scExecutionLocation (rs ! i) = loc
          \<and> scStatus (rs ! i) = StepRunStatusPending
          \<and> (\<forall>d \<in> set (scDependencies (rs ! i)).
               (\<exists>c \<in> set cs. scStepKey c = d \<and> taskLeaseDependencyStatusSatisfied (scStatus c))
               \<or> d \<in> set (map scStepKey (take i rs))))
     \<and> (\<forall>k. k \<in> set (map scStepKey rs) \<longleftrightarrow>
          (\<exists>c \<in> set cs. scStepKey c = k \<and> eligibleCandidate loc c
             \<and> (\<forall>d \<in> set (scDependencies c). reachableKey cs loc d)))"
proof -
  define st where "st = readyLoop cs loc
       \<lparr>rdReady = [], rdSelected = [], rdSatisfied = initiallySatisfied cs, rdProgressed = False\<rparr>"
  note r = readyInv_result [OF st_def]
  have "k \<in> scStepKey ` set (rdReady st) \<longleftrightarrow> (\<exists>c \<in> set cs. scStepKey c = k \<and> eligibleCandidate loc c
      \<and> (\<forall>d \<in> set (scDependencies c). reachableKey cs loc d))" (is "?l \<longleftrightarrow> ?r") for k
  proof
    assume ?l
    then obtain i where i: "i < length (rdReady st)" "k = scStepKey (rdReady st ! i)"
      by (auto simp: in_set_conv_nth)
    have "d \<in> set (rdSatisfied st)" if "d \<in> set (scDependencies (rdReady st ! i))" for d
      using r(1) i(1) that by (fastforce simp: readyInv_def dependencyOrdered_def dest: in_set_takeD)
    then show ?r using r(1) i satisfied_reachable [OF r(1)] by (auto simp: readyInv_def)
  next
    assume ?r
    then obtain c where c: "c \<in> set cs" "scStepKey c = k" "eligibleCandidate loc c"
      "\<forall>d \<in> set (scDependencies c). reachableKey cs loc d" by blast
    then have "taskLeaseDependenciesSatisfied (scDependencies c) (rdSatisfied st)"
      using reachable_satisfied [OF r(1,2)] by (auto simp: dependenciesSatisfied_iff)
    moreover have "considerCandidate loc c st = st" using r(2) c(1) by blast
    ultimately have "k \<in> set (rdSelected st)"
      using c by (cases st) (auto simp: considerCandidate_def split: if_splits)
    then show ?l using r(1) by (simp add: readyInv_def)
  qed
  moreover have "(\<exists>c \<in> set cs. scStepKey c = d \<and> taskLeaseDependencyStatusSatisfied (scStatus c))
      \<or> d \<in> set (map scStepKey (take i (rdReady st)))"
    if "i < length (rdReady st)" "d \<in> set (scDependencies (rdReady st ! i))" for i d
  proof -
    have "d \<in> set (initiallySatisfied cs) \<union> scStepKey ` set (take i (rdReady st))"
      using r(1) that by (auto simp: readyInv_def dependencyOrdered_def)
    then show ?thesis by (auto simp: initiallySatisfied_set)
  qed
  moreover have "distinct (map scStepKey (rdReady st))"
    "\<forall>c \<in> set (rdReady st). c \<in> set cs \<and> eligibleCandidate loc c"
    using r(1) by (auto simp: readyInv_def)
  ultimately show ?thesis
    unfolding r(3) [symmetric] Let_def by (auto simp: eligibleCandidate_def)
qed

theorem lease_steps_ordered_and_complete_witness:
  "distinct (map scStepKey (readyTaskLeaseStepCandidates
     [\<lparr>scStepRunID = 1, scStepKey = ''b'', scName = [], scActionType = [], scInputBindings = None,
       scSortOrder = 0, scStatus = StepRunStatusPending, scExecutionLocation = ''hub'',
       scIncluded = True, scDependencies = [''a'']\<rparr>] ''hub''))"
  using lease_steps_ordered_and_complete [of "[\<lparr>scStepRunID = 1, scStepKey = ''b'', scName = [],
     scActionType = [], scInputBindings = None, scSortOrder = 0, scStatus = StepRunStatusPending,
     scExecutionLocation = ''hub'', scIncluded = True, scDependencies = [''a'']\<rparr>]" "''hub''"]
  unfolding Let_def by (rule conjunct1)

end
