(* ===== verification/Secret_Bindings.thy ===== *)
theory Secret_Bindings
  imports Task_Types
begin

text \<open>
  How a task lease turns the secret references in a step's input bindings into values
  (\<open>resolveTaskLeaseStepSecrets\<close> of internal/db/task_leases.go), and which secret values the
  recording of step events redacts (\<open>getStepRunSecretValuesForRedaction\<close> of
  internal/db/step_events.go). \<open>sec\<close> is \<open>getTaskLeaseSecretValue\<close> for the task at hand. The
  code updates the maps in place; here each function returns the updated bindings. The two
  sides are written separately in the code; the property below ties them together.
\<close>

section \<open>Dynamic values\<close>

definition objGet :: "object \<Rightarrow> string \<Rightarrow> json option" where
  "objGet m k = map_of m k"

fun objSet :: "object \<Rightarrow> string \<Rightarrow> json \<Rightarrow> object" where
  "objSet [] k v = [(k, v)]"
| "objSet ((k', v') # m) k v = (if k' = k then (k, v) # m else (k', v') # objSet m k v)"

definition objDelete :: "object \<Rightarrow> string \<Rightarrow> object" where
  "objDelete m k = filter (\<lambda>(k', _). k' \<noteq> k) m"

lemma objGet_objSet [simp]: "objGet (objSet m k v) k' = (if k' = k then Some v else objGet m k')"
  by (induction m k v rule: objSet.induct) (auto simp: objGet_def)

lemma objGet_objDelete [simp]: "objGet (objDelete m k) k' = (if k' = k then None else objGet m k')"
  by (induction m) (auto simp: objGet_def objDelete_def)

definition mapStringAny :: "json option \<Rightarrow> object option" where
  "mapStringAny v = (case v of Some (JObject m) \<Rightarrow> Some m | _ \<Rightarrow> None)"

definition stringValue :: "json option \<Rightarrow> string option" where
  "stringValue v = (case v of Some (JString s) \<Rightarrow> Some s | _ \<Rightarrow> None)"

fun stringElements :: "json list \<Rightarrow> string list option" where
  "stringElements [] = Some []"
| "stringElements (v # vs) =
     (case stringValue (Some v) of
        None \<Rightarrow> None
      | Some s \<Rightarrow> map_option (Cons s) (stringElements vs))"

definition stringSliceValue :: "json option \<Rightarrow> string list option" where
  "stringSliceValue v = (case v of Some (JArray vs) \<Rightarrow> stringElements vs | _ \<Rightarrow> None)"

definition sortStrings :: "string list \<Rightarrow> string list" where
  "sortStrings xs = SortStable (<) xs"

lemma set_sortStrings [simp]: "set (sortStrings xs) = set xs"
  by (simp add: sortStrings_def)

type_synonym secretLookup = "string \<Rightarrow> string result"

section \<open>Resolving\<close>

fun resolveRegistryAuth :: "secretLookup \<Rightarrow> object \<Rightarrow> (object \<times> string list) result" where
  "resolveRegistryAuth sec [] = Inr ([], [])"
| "resolveRegistryAuth sec ((registry, rawAuth) # rest) =
     (case mapStringAny (Some rawAuth) of
        None \<Rightarrow> bindR (resolveRegistryAuth sec rest) (\<lambda>(m, refs). Inr ((registry, rawAuth) # m, refs))
      | Some auth \<Rightarrow>
          if objGet auth ''password'' \<noteq> None
            then Inl (ErrBadRequest ''compose registryAuth password must use passwordSecretRef'')
          else case stringValue (objGet auth ''passwordSecretRef'') of
            None \<Rightarrow> Inl (ErrBadRequest ''compose registryAuth passwordSecretRef is required'')
          | Some reference \<Rightarrow>
              if TrimSpace reference = []
                then Inl (ErrBadRequest ''compose registryAuth passwordSecretRef is required'')
              else bindR (sec (TrimSpace reference)) (\<lambda>value.
                let auth = objDelete (objSet auth ''password'' (JString value)) ''passwordSecretRef'' in
                bindR (resolveRegistryAuth sec rest) (\<lambda>(m, refs).
                  Inr ((registry, JObject auth) # m, (''secret:'' @ TrimSpace reference) # refs))))"

definition resolveComposeRegistryAuthSecrets ::
    "secretLookup \<Rightarrow> object \<Rightarrow> (object \<times> string list) result" where
  "resolveComposeRegistryAuthSecrets sec inputBindings =
     (case mapStringAny (objGet inputBindings ''applicationVersion'') of
        None \<Rightarrow> Inr (inputBindings, [])
      | Some applicationVersion \<Rightarrow>
     (case mapStringAny (objGet applicationVersion ''registryAuth'') of
        None \<Rightarrow> Inr (inputBindings, [])
      | Some registryAuth \<Rightarrow>
          bindR (resolveRegistryAuth sec registryAuth) (\<lambda>(m, refs).
            Inr (objSet inputBindings ''applicationVersion''
                   (JObject (objSet applicationVersion ''registryAuth'' (JObject m))),
                 sortStrings refs))))"

text \<open>
  The loop that \<open>resolveOCIJobSecretEnvironment\<close>, \<open>resolveFileRenderSecretVariables\<close> and
  \<open>resolveWebhookSecrets\<close> run over their map of names to references, with the three messages
  that differ; \<open>plain\<close> is the map the names must not be in and \<open>resolved\<close> the map built so far.
\<close>

fun resolveNamedSecrets ::
    "string \<times> string \<times> string \<Rightarrow> secretLookup \<Rightarrow> object \<Rightarrow> object \<Rightarrow> object \<Rightarrow>
     (object \<times> string list) result" where
  "resolveNamedSecrets msgs sec plain [] resolved = Inr (resolved, [])"
| "resolveNamedSecrets msgs sec plain ((rawName, rawReference) # rest) resolved =
     (let name = TrimSpace rawName; (nameMsg, conflictMsg, valueMsg) = msgs in
      if name = [] then Inl (ErrBadRequest nameMsg)
      else if objGet plain name \<noteq> None then Inl (ErrBadRequest conflictMsg)
      else case stringValue (Some rawReference) of
        None \<Rightarrow> Inl (ErrBadRequest valueMsg)
      | Some reference \<Rightarrow>
          if TrimSpace reference = [] then Inl (ErrBadRequest valueMsg)
          else bindR (sec (TrimSpace reference)) (\<lambda>value.
            bindR (resolveNamedSecrets msgs sec plain rest (objSet resolved name (JString value)))
              (\<lambda>(m, refs). Inr (m, (''secret:'' @ TrimSpace reference) # refs))))"

definition resolveOCIJobSecretEnvironment ::
    "secretLookup \<Rightarrow> object \<Rightarrow> (object \<times> string list) result" where
  "resolveOCIJobSecretEnvironment sec inputBindings =
     (case mapStringAny (objGet inputBindings ''secretEnvironment'') of
        None \<Rightarrow>
          if objGet inputBindings ''secretEnvironment'' \<noteq> None
            then Inl (ErrBadRequest ''oci job secretEnvironment must be an object'')
          else Inr (inputBindings, [])
      | Some secretEnvironment \<Rightarrow>
          if mapStringAny (objGet inputBindings ''environment'') = None
             \<and> objGet inputBindings ''environment'' \<noteq> None
            then Inl (ErrBadRequest ''oci job environment must be an object'')
          else let environment = (case mapStringAny (objGet inputBindings ''environment'') of
                                    None \<Rightarrow> [] | Some m \<Rightarrow> m) in
            bindR (resolveNamedSecrets
                (''oci job secretEnvironment name is required'',
                 ''oci job environment conflicts with secretEnvironment'',
                 ''oci job secretEnvironment value must be a secret reference'')
                sec environment secretEnvironment []) (\<lambda>(m, refs).
              Inr (objSet (objSet inputBindings ''environment'' (JObject environment))
                     ''secretEnvironment'' (JObject m), sortStrings refs)))"

definition resolveFileRenderSecretVariables ::
    "secretLookup \<Rightarrow> object \<Rightarrow> (object \<times> string list) result" where
  "resolveFileRenderSecretVariables sec inputBindings =
     (case mapStringAny (objGet inputBindings ''secretVariables'') of
        None \<Rightarrow>
          if objGet inputBindings ''secretVariables'' \<noteq> None
            then Inl (ErrBadRequest ''file render secretVariables must be an object'')
          else Inr (inputBindings, [])
      | Some secretVariables \<Rightarrow>
          if mapStringAny (objGet inputBindings ''variables'') = None
             \<and> objGet inputBindings ''variables'' \<noteq> None
            then Inl (ErrBadRequest ''file render variables must be an object'')
          else let variables = (case mapStringAny (objGet inputBindings ''variables'') of
                                  None \<Rightarrow> [] | Some m \<Rightarrow> m) in
            bindR (resolveNamedSecrets
                (''file render secretVariables name is required'',
                 ''file render variables conflicts with secretVariables'',
                 ''file render secretVariables value must be a secret reference'')
                sec variables secretVariables []) (\<lambda>(m, refs).
              Inr (objSet (objSet inputBindings ''variables'' (JObject variables))
                     ''secretVariables'' (JObject m), sortStrings refs)))"

fun resolveSigningSecrets ::
    "secretLookup \<Rightarrow> string list \<Rightarrow> string list \<Rightarrow> (json list \<times> string list) result" where
  "resolveSigningSecrets sec seen [] = Inr ([], [])"
| "resolveSigningSecrets sec seen (rawReference # rest) =
     (let reference = TrimSpace rawReference in
      if reference = [] then Inl (ErrBadRequest ''webhook signingSecrets must be secret references'')
      else if reference \<in> set seen
        then Inl (ErrBadRequest ''webhook signingSecrets contains duplicate secret reference'')
      else bindR (sec reference) (\<lambda>value.
        bindR (resolveSigningSecrets sec (reference # seen) rest) (\<lambda>(vs, refs).
          Inr (JString value # vs, (''secret:'' @ reference) # refs))))"

text \<open>The middle part of \<open>resolveWebhookSecrets\<close>: the bindings with the signing secrets resolved,
  and their references.\<close>

definition resolveWebhookSigning ::
    "secretLookup \<Rightarrow> object \<Rightarrow> (object \<times> string list) result" where
  "resolveWebhookSigning sec inputBindings =
     (let signingReference = stringValue (objGet inputBindings ''signingSecret'');
          raw = objGet inputBindings ''signingSecrets'';
          signingReferences = (case stringSliceValue raw of None \<Rightarrow> [] | Some rs \<Rightarrow> rs);
          signingText = (case signingReference of None \<Rightarrow> [] | Some r \<Rightarrow> r)
      in if raw \<noteq> None \<and> stringSliceValue raw = None
        then Inl (ErrBadRequest ''webhook signingSecrets must be secret references'')
      else if TrimSpace signingText \<noteq> [] \<and> signingReferences \<noteq> []
        then Inl (ErrBadRequest ''webhook signingSecret and signingSecrets cannot both be set'')
      else if signingReference = None \<and> signingReferences = []
        then Inl (ErrBadRequest ''webhook signingSecret or signingSecrets must be a secret reference'')
      else if signingReferences \<noteq> []
        then bindR (resolveSigningSecrets sec [] signingReferences) (\<lambda>(vs, refs).
               Inr (objDelete (objSet inputBindings ''signingSecrets'' (JArray vs)) ''signingSecret'', refs))
      else if TrimSpace signingText = []
        then Inl (ErrBadRequest ''webhook signingSecret must be a secret reference'')
      else bindR (sec (TrimSpace signingText)) (\<lambda>value.
             Inr (objSet inputBindings ''signingSecret'' (JString value),
                  [''secret:'' @ TrimSpace signingText])))"

definition resolveWebhookSecrets ::
    "secretLookup \<Rightarrow> object \<Rightarrow> (object \<times> string list) result" where
  "resolveWebhookSecrets sec inputBindings =
     (if mapStringAny (objGet inputBindings ''headers'') = None \<and> objGet inputBindings ''headers'' \<noteq> None
        then Inl (ErrBadRequest ''webhook headers must be an object'')
      else if mapStringAny (objGet inputBindings ''secretHeaders'') = None
           \<and> objGet inputBindings ''secretHeaders'' \<noteq> None
        then Inl (ErrBadRequest ''webhook secretHeaders must be an object'')
      else let headers = (case mapStringAny (objGet inputBindings ''headers'') of None \<Rightarrow> [] | Some m \<Rightarrow> m);
               secretHeaders = (case mapStringAny (objGet inputBindings ''secretHeaders'') of
                                  None \<Rightarrow> [] | Some m \<Rightarrow> m)
      in bindR (resolveWebhookSigning sec inputBindings) (\<lambda>(b, signingRefs).
         bindR (resolveNamedSecrets
             (''webhook secretHeaders name is required'',
              ''webhook headers conflicts with secretHeaders'',
              ''webhook secretHeaders value must be a secret reference'')
             sec headers secretHeaders []) (\<lambda>(m, refs).
           Inr (objSet (objSet b ''headers'' (JObject headers)) ''secretHeaders'' (JObject m),
                sortStrings (signingRefs @ refs)))))"

definition resolveTaskLeaseStepSecrets ::
    "secretLookup \<Rightarrow> string \<Rightarrow> object \<Rightarrow> (object \<times> string list) result" where
  "resolveTaskLeaseStepSecrets sec actionType inputBindings =
     (if actionType = ''distr.compose.deploy'' then resolveComposeRegistryAuthSecrets sec inputBindings
      else if actionType = ''distr.oci.job'' then resolveOCIJobSecretEnvironment sec inputBindings
      else if actionType = ''distr.file.render'' then resolveFileRenderSecretVariables sec inputBindings
      else if actionType = ''distr.webhook'' then resolveWebhookSecrets sec inputBindings
      else Inr (inputBindings, []))"

section \<open>Values to redact\<close>

fun composeValuesForRedaction :: "secretLookup \<Rightarrow> object \<Rightarrow> string list result" where
  "composeValuesForRedaction sec [] = Inr []"
| "composeValuesForRedaction sec ((registry, rawAuth) # rest) =
     (case mapStringAny (Some rawAuth) of
        None \<Rightarrow> composeValuesForRedaction sec rest
      | Some auth \<Rightarrow>
          let plain = (case stringValue (objGet auth ''password'') of
                         Some v \<Rightarrow> if v \<noteq> [] then [v] else [] | None \<Rightarrow> []) in
          case stringValue (objGet auth ''passwordSecretRef'') of
            None \<Rightarrow> bindR (composeValuesForRedaction sec rest) (\<lambda>vs. Inr (plain @ vs))
          | Some reference \<Rightarrow>
              if TrimSpace reference = []
                then bindR (composeValuesForRedaction sec rest) (\<lambda>vs. Inr (plain @ vs))
              else bindR (sec (TrimSpace reference)) (\<lambda>value.
                bindR (composeValuesForRedaction sec rest) (\<lambda>vs.
                  Inr (plain @ (if value \<noteq> [] then [value] else []) @ vs))))"

definition getComposeRegistrySecretValuesForRedaction ::
    "secretLookup \<Rightarrow> object \<Rightarrow> string list result" where
  "getComposeRegistrySecretValuesForRedaction sec inputBindings =
     (case mapStringAny (objGet inputBindings ''applicationVersion'') of
        None \<Rightarrow> Inr []
      | Some applicationVersion \<Rightarrow>
     (case mapStringAny (objGet applicationVersion ''registryAuth'') of
        None \<Rightarrow> Inr []
      | Some registryAuth \<Rightarrow> composeValuesForRedaction sec registryAuth))"

text \<open>The loop over a map of references; \<open>add\<close> says what is collected for a value.\<close>

fun referencedValues :: "(string \<Rightarrow> string list) \<Rightarrow> secretLookup \<Rightarrow> json list \<Rightarrow> string list result" where
  "referencedValues add sec [] = Inr []"
| "referencedValues add sec (rawReference # rest) =
     (case stringValue (Some rawReference) of
        None \<Rightarrow> referencedValues add sec rest
      | Some reference \<Rightarrow>
          if TrimSpace reference = [] then referencedValues add sec rest
          else bindR (sec (TrimSpace reference)) (\<lambda>value.
            bindR (referencedValues add sec rest) (\<lambda>vs.
              Inr ((if value \<noteq> [] then add value else []) @ vs))))"

definition getOCIJobSecretValuesForRedaction :: "secretLookup \<Rightarrow> object \<Rightarrow> string list result" where
  "getOCIJobSecretValuesForRedaction sec inputBindings =
     (case mapStringAny (objGet inputBindings ''secretEnvironment'') of
        None \<Rightarrow> Inr []
      | Some secretEnvironment \<Rightarrow> referencedValues (\<lambda>v. [v]) sec (map snd secretEnvironment))"

definition getFileRenderSecretValuesForRedaction :: "secretLookup \<Rightarrow> object \<Rightarrow> string list result" where
  "getFileRenderSecretValuesForRedaction sec inputBindings =
     (case mapStringAny (objGet inputBindings ''secretVariables'') of
        None \<Rightarrow> Inr []
      | Some secretVariables \<Rightarrow> referencedValues (\<lambda>v. [v]) sec (map snd secretVariables))"

definition appendStepRunSecretRedactionValue :: "string \<Rightarrow> string list" where
  "appendStepRunSecretRedactionValue value =
     value # (if TrimSpace value \<noteq> [] \<and> TrimSpace value \<noteq> value then [TrimSpace value] else [])"

definition getWebhookSecretValuesForRedaction :: "secretLookup \<Rightarrow> object \<Rightarrow> string list result" where
  "getWebhookSecretValuesForRedaction sec inputBindings =
     (let signingReferences = (case stringSliceValue (objGet inputBindings ''signingSecrets'') of
                                 None \<Rightarrow> [] | Some rs \<Rightarrow> map JString rs);
          signing = (case objGet inputBindings ''signingSecret'' of None \<Rightarrow> [] | Some v \<Rightarrow> [v]);
          headers = (case mapStringAny (objGet inputBindings ''secretHeaders'') of
                       None \<Rightarrow> [] | Some m \<Rightarrow> map snd m)
      in referencedValues appendStepRunSecretRedactionValue sec (signingReferences @ signing @ headers))"

definition secretValuesForRedaction :: "secretLookup \<Rightarrow> string \<Rightarrow> object \<Rightarrow> string list result" where
  "secretValuesForRedaction sec actionType inputBindings =
     (if actionType = ''distr.compose.deploy'' then getComposeRegistrySecretValuesForRedaction sec inputBindings
      else if actionType = ''distr.oci.job'' then getOCIJobSecretValuesForRedaction sec inputBindings
      else if actionType = ''distr.file.render'' then getFileRenderSecretValuesForRedaction sec inputBindings
      else if actionType = ''distr.webhook'' then getWebhookSecretValuesForRedaction sec inputBindings
      else Inr [])"

section \<open>What is leased is redacted\<close>

text \<open>The secret values that the resolved bindings of an action carry.\<close>

definition stringsOf :: "json option \<Rightarrow> string list" where
  "stringsOf v = (case stringValue v of None \<Rightarrow> [] | Some s \<Rightarrow> [s])"

definition valuesOf :: "json option \<Rightarrow> string list" where
  "valuesOf v = (case mapStringAny v of None \<Rightarrow> [] | Some m \<Rightarrow> concat (map (\<lambda>(k, x). stringsOf (Some x)) m))"

definition passwordsOf :: "object \<Rightarrow> string list" where
  "passwordsOf m = concat (map (\<lambda>(k, x). case mapStringAny (Some x) of
     None \<Rightarrow> [] | Some auth \<Rightarrow> stringsOf (objGet auth ''password'')) m)"

definition leasedSecrets :: "string \<Rightarrow> object \<Rightarrow> string list" where
  "leasedSecrets actionType b =
     (if actionType = ''distr.compose.deploy'' then
        (case mapStringAny (objGet b ''applicationVersion'') of None \<Rightarrow> [] | Some applicationVersion \<Rightarrow>
          (case mapStringAny (objGet applicationVersion ''registryAuth'') of None \<Rightarrow> []
           | Some registryAuth \<Rightarrow> passwordsOf registryAuth))
      else if actionType = ''distr.oci.job'' then valuesOf (objGet b ''secretEnvironment'')
      else if actionType = ''distr.file.render'' then valuesOf (objGet b ''secretVariables'')
      else if actionType = ''distr.webhook'' then
        stringsOf (objGet b ''signingSecret'')
        @ (case objGet b ''signingSecrets'' of Some (JArray vs) \<Rightarrow> concat (map (\<lambda>x. stringsOf (Some x)) vs) | _ \<Rightarrow> [])
        @ valuesOf (objGet b ''secretHeaders'')
      else [])"

lemma mapStringAny_Some: "mapStringAny v = Some m \<longleftrightarrow> v = Some (JObject m)"
  by (auto simp: mapStringAny_def split: option.splits json.splits)

lemma stringValue_Some: "stringValue v = Some s \<longleftrightarrow> v = Some (JString s)"
  by (auto simp: stringValue_def split: option.splits json.splits)

lemma json_views [simp]:
  "mapStringAny (Some (JObject m)) = Some m" "stringValue (Some (JString s)) = Some s"
  "stringsOf (Some (JString s)) = [s]" "mapStringAny None = None" "stringValue None = None"
  by (simp_all add: mapStringAny_def stringValue_def stringsOf_def)

lemma set_objSet: "set (objSet m k v) \<subseteq> insert (k, v) (set m)"
  by (induction m k v rule: objSet.induct) auto

text \<open>\<open>v\<close> is empty or among the values to redact.\<close>

abbreviation covered :: "string list \<Rightarrow> string \<Rightarrow> bool" where
  "covered vs v \<equiv> v = [] \<or> v \<in> set vs"

lemma passwordsOf_Cons:
  "passwordsOf ((k, x) # m) =
     (case mapStringAny (Some x) of None \<Rightarrow> [] | Some auth \<Rightarrow> stringsOf (objGet auth ''password'')) @ passwordsOf m"
  by (simp add: passwordsOf_def)

lemma registryAuth_covered:
  "resolveRegistryAuth sec m = Inr (m', refs) \<Longrightarrow>
     \<exists>vs. composeValuesForRedaction sec m = Inr vs \<and> (\<forall>v \<in> set (passwordsOf m'). covered vs v)"
proof (induction sec m arbitrary: m' refs rule: resolveRegistryAuth.induct)
  case (1 sec)
  then show ?case by (simp add: passwordsOf_def)
next
  case (2 sec registry rawAuth rest)
  show ?case
  proof (cases "mapStringAny (Some rawAuth)")
    case None
    then obtain m1 where m1: "resolveRegistryAuth sec rest = Inr (m1, refs)" "m' = (registry, rawAuth) # m1"
      using "2.prems" by (auto simp: bindR_eq_Inr)
    from "2.IH"(1) [OF None m1(1)] None show ?thesis by (auto simp: m1(2) passwordsOf_Cons)
  next
    case (Some auth)
    with "2.prems" obtain reference val m1 refs1 where
        r: "objGet auth ''password'' = None" "stringValue (objGet auth ''passwordSecretRef'') = Some reference"
           "TrimSpace reference \<noteq> []" "sec (TrimSpace reference) = Inr val"
      and m1: "resolveRegistryAuth sec rest = Inr (m1, refs1)"
      and m': "m' = (registry, JObject (objDelete (objSet auth ''password'' (JString val)) ''passwordSecretRef'')) # m1"
      by (auto simp: bindR_eq_Inr Let_def split: if_splits option.splits)
    have "\<not> objGet auth ''password'' \<noteq> None" using r(1) by simp
    from "2.IH"(2) [OF Some this r(2) r(3) refl m1] Some r
    show ?thesis by (auto simp: m' passwordsOf_Cons)
  qed
qed

lemma namedSecrets_covered:
  assumes "\<And>v. v \<in> set (add v)"
  shows "resolveNamedSecrets msgs sec plain m resolved = Inr (m', refs) \<Longrightarrow>
     \<exists>vs. referencedValues add sec (map snd m) = Inr vs
       \<and> (\<forall>(k, x) \<in> set m'. (k, x) \<in> set resolved \<or> (\<exists>v. x = JString v \<and> covered vs v))"
proof (induction msgs sec plain m resolved arbitrary: m' refs rule: resolveNamedSecrets.induct)
  case (1 msgs sec plain resolved)
  then show ?case by auto
next
  case (2 msgs sec plain rawName rawReference rest resolved)
  obtain nm cm vm where msgs: "msgs = (nm, cm, vm)" by (cases msgs) auto
  from "2.prems" msgs obtain reference val refs1 where
      r: "TrimSpace rawName \<noteq> []" "objGet plain (TrimSpace rawName) = None"
         "stringValue (Some rawReference) = Some reference"
         "TrimSpace reference \<noteq> []" "sec (TrimSpace reference) = Inr val"
    and rest: "resolveNamedSecrets msgs sec plain rest (objSet resolved (TrimSpace rawName) (JString val)) = Inr (m', refs1)"
    by (auto simp: bindR_eq_Inr Let_def split: if_splits option.splits)
  have IH: "\<exists>vs. referencedValues add sec (map snd rest) = Inr vs
       \<and> (\<forall>(k, x) \<in> set m'. (k, x) \<in> set (objSet resolved (TrimSpace rawName) (JString val))
            \<or> (\<exists>v. x = JString v \<and> covered vs v))"
    using "2.IH" [OF refl refl msgs [symmetric] refl r(1) _ r(3) r(4) rest] r(2) by simp
  then obtain vs where vs: "referencedValues add sec (map snd rest) = Inr vs"
    "\<forall>(k, x) \<in> set m'. (k, x) \<in> set (objSet resolved (TrimSpace rawName) (JString val))
            \<or> (\<exists>v. x = JString v \<and> covered vs v)" by blast
  have "referencedValues add sec (map snd ((rawName, rawReference) # rest)) =
      Inr ((if val \<noteq> [] then add val else []) @ vs)"
    using r vs(1) by simp
  moreover have "\<forall>(k, x) \<in> set m'. (k, x) \<in> set resolved
      \<or> (\<exists>v. x = JString v \<and> covered ((if val \<noteq> [] then add val else []) @ vs) v)"
    using vs(2) set_objSet [of resolved "TrimSpace rawName" "JString val"] assms by fastforce
  ultimately show ?case by blast
qed

lemma signingSecrets_covered:
  assumes "\<And>v. v \<in> set (add v)"
  shows "resolveSigningSecrets sec seen rs = Inr (vs', refs) \<Longrightarrow>
     \<exists>vs. referencedValues add sec (map JString rs) = Inr vs
       \<and> (\<forall>x \<in> set vs'. \<exists>v. x = JString v \<and> covered vs v)"
proof (induction sec seen rs arbitrary: vs' refs rule: resolveSigningSecrets.induct)
  case (1 sec seen)
  then show ?case by simp
next
  case (2 sec seen rawReference rest)
  then obtain val vs1 refs1 where
      r: "TrimSpace rawReference \<noteq> []" "TrimSpace rawReference \<notin> set seen" "sec (TrimSpace rawReference) = Inr val"
    and rest: "resolveSigningSecrets sec (TrimSpace rawReference # seen) rest = Inr (vs1, refs1)"
    and vs': "vs' = JString val # vs1"
    by (auto simp: bindR_eq_Inr Let_def split: if_splits)
  from "2.IH" [OF refl r(1,2) rest] r assms show ?case by (auto simp: vs') fastforce+
qed

lemma referencedValues_append:
  "referencedValues add sec (xs @ ys) =
     bindR (referencedValues add sec xs) (\<lambda>us. bindR (referencedValues add sec ys) (\<lambda>vs. Inr (us @ vs)))"
proof (induction add sec xs rule: referencedValues.induct)
  case (1 add sec)
  then show ?case by (cases "referencedValues add sec ys") auto
next
  case (2 add sec raw rest)
  show ?case
  proof (cases "stringValue (Some raw)")
    case None
    with 2(1) show ?thesis by simp
  next
    case (Some r)
    with 2(2,3) show ?thesis by (cases "sec (TrimSpace r)") (auto simp: bindR_assoc)
  qed
qed

lemma valuesOf_covered:
  "\<forall>(k, x) \<in> set m. (k, x) \<in> set [] \<or> (\<exists>v. x = JString v \<and> covered vs v) \<Longrightarrow>
     \<forall>v \<in> set (valuesOf (Some (JObject m))). covered vs v"
  by (fastforce simp: valuesOf_def stringsOf_def split: option.splits)

definition coversSecrets :: "secretLookup \<Rightarrow> string \<Rightarrow> object \<Rightarrow> object \<Rightarrow> bool" where
  "coversSecrets sec actionType b b' \<longleftrightarrow> (\<exists>vs. secretValuesForRedaction sec actionType b = Inr vs
     \<and> (\<forall>v \<in> set (leasedSecrets actionType b'). v \<noteq> [] \<longrightarrow> v \<in> set vs))"

lemma compose_covered:
  assumes "resolveComposeRegistryAuthSecrets sec b = Inr (b', refs)"
  shows "coversSecrets sec ''distr.compose.deploy'' b b'"
proof (cases "mapStringAny (objGet b ''applicationVersion'')")
  case None
  with assms show ?thesis
    by (simp add: resolveComposeRegistryAuthSecrets_def coversSecrets_def secretValuesForRedaction_def
        getComposeRegistrySecretValuesForRedaction_def leasedSecrets_def)
next
  case (Some av)
  note av = Some
  show ?thesis
  proof (cases "mapStringAny (objGet av ''registryAuth'')")
    case None
    with assms av show ?thesis
      by (simp add: resolveComposeRegistryAuthSecrets_def coversSecrets_def secretValuesForRedaction_def
          getComposeRegistrySecretValuesForRedaction_def leasedSecrets_def)
  next
    case (Some ra)
    with assms av obtain m refs1 where m: "resolveRegistryAuth sec ra = Inr (m, refs1)"
      "b' = objSet b ''applicationVersion'' (JObject (objSet av ''registryAuth'' (JObject m)))"
      by (auto simp: resolveComposeRegistryAuthSecrets_def bindR_eq_Inr)
    from registryAuth_covered [OF m(1)] av Some show ?thesis
      by (auto simp: coversSecrets_def secretValuesForRedaction_def
          getComposeRegistrySecretValuesForRedaction_def leasedSecrets_def m(2))
  qed
qed

lemma oci_covered:
  assumes "resolveOCIJobSecretEnvironment sec b = Inr (b', refs)"
  shows "coversSecrets sec ''distr.oci.job'' b b'"
proof (cases "mapStringAny (objGet b ''secretEnvironment'')")
  case None
  with assms show ?thesis
    by (auto simp: resolveOCIJobSecretEnvironment_def coversSecrets_def secretValuesForRedaction_def
        getOCIJobSecretValuesForRedaction_def leasedSecrets_def valuesOf_def split: if_splits)
next
  case (Some se)
  with assms obtain msgs e m refs1 where m: "resolveNamedSecrets msgs sec e se [] = Inr (m, refs1)"
    "b' = objSet (objSet b ''environment'' (JObject e)) ''secretEnvironment'' (JObject m)"
    by (auto simp: resolveOCIJobSecretEnvironment_def bindR_eq_Inr Let_def split: if_splits)
  obtain vs where "referencedValues (\<lambda>v. [v]) sec (map snd se) = Inr vs"
    "\<forall>v \<in> set (valuesOf (Some (JObject m))). covered vs v"
    using namedSecrets_covered [OF _ m(1), of "\<lambda>v. [v]"] valuesOf_covered by fastforce
  with Some show ?thesis
    by (auto simp: coversSecrets_def secretValuesForRedaction_def
        getOCIJobSecretValuesForRedaction_def leasedSecrets_def m(2))
qed

lemma file_covered:
  assumes "resolveFileRenderSecretVariables sec b = Inr (b', refs)"
  shows "coversSecrets sec ''distr.file.render'' b b'"
proof (cases "mapStringAny (objGet b ''secretVariables'')")
  case None
  with assms show ?thesis
    by (auto simp: resolveFileRenderSecretVariables_def coversSecrets_def secretValuesForRedaction_def
        getFileRenderSecretValuesForRedaction_def leasedSecrets_def valuesOf_def split: if_splits)
next
  case (Some se)
  with assms obtain msgs e m refs1 where m: "resolveNamedSecrets msgs sec e se [] = Inr (m, refs1)"
    "b' = objSet (objSet b ''variables'' (JObject e)) ''secretVariables'' (JObject m)"
    by (auto simp: resolveFileRenderSecretVariables_def bindR_eq_Inr Let_def split: if_splits)
  obtain vs where "referencedValues (\<lambda>v. [v]) sec (map snd se) = Inr vs"
    "\<forall>v \<in> set (valuesOf (Some (JObject m))). covered vs v"
    using namedSecrets_covered [OF _ m(1), of "\<lambda>v. [v]"] valuesOf_covered by fastforce
  with Some show ?thesis
    by (auto simp: coversSecrets_def secretValuesForRedaction_def
        getFileRenderSecretValuesForRedaction_def leasedSecrets_def m(2))
qed

abbreviation redactAdd :: "string \<Rightarrow> string list" where
  "redactAdd \<equiv> appendStepRunSecretRedactionValue"

lemma redactAdd_self: "v \<in> set (redactAdd v)"
  by (simp add: appendStepRunSecretRedactionValue_def)

abbreviation signingStrings :: "object \<Rightarrow> string list" where
  "signingStrings b \<equiv> stringsOf (objGet b ''signingSecret'')
     @ (case objGet b ''signingSecrets'' of Some (JArray vs) \<Rightarrow> concat (map (\<lambda>x. stringsOf (Some x)) vs) | _ \<Rightarrow> [])"

abbreviation signingRefs :: "object \<Rightarrow> json list" where
  "signingRefs b \<equiv> (case stringSliceValue (objGet b ''signingSecrets'') of None \<Rightarrow> [] | Some rs \<Rightarrow> map JString rs)
     @ (case objGet b ''signingSecret'' of None \<Rightarrow> [] | Some v \<Rightarrow> [v])"

lemma stringElements_map: "stringElements vs = Some rs \<Longrightarrow> vs = map JString rs"
  by (induction vs arbitrary: rs) (auto simp: stringValue_Some split: option.splits)

lemma stringSliceValue_Some: "stringSliceValue v = Some rs \<Longrightarrow> v = Some (JArray (map JString rs))"
  by (auto simp: stringSliceValue_def dest: stringElements_map split: option.splits json.splits)

lemma signing_covered:
  assumes "resolveWebhookSigning sec b = Inr (b', refs)"
  shows "\<exists>vs. referencedValues redactAdd sec (signingRefs b) = Inr vs \<and> (\<forall>v \<in> set (signingStrings b'). covered vs v)"
proof (cases "stringSliceValue (objGet b ''signingSecrets'') \<in> {None, Some []}")
  case True
  then have sl: "(case stringSliceValue (objGet b ''signingSecrets'') of None \<Rightarrow> [] | Some rs \<Rightarrow> rs) = []" by auto
  with assms obtain r val where r: "stringValue (objGet b ''signingSecret'') = Some r" "TrimSpace r \<noteq> []"
    "sec (TrimSpace r) = Inr val" "b' = objSet b ''signingSecret'' (JString val)"
    "objGet b ''signingSecrets'' = None \<or> stringSliceValue (objGet b ''signingSecrets'') \<noteq> None"
    by (auto simp: resolveWebhookSigning_def bindR_eq_Inr Let_def split: if_splits option.splits)
  have "objGet b ''signingSecrets'' = None \<or> objGet b ''signingSecrets'' = Some (JArray [])"
    using True r(5) stringSliceValue_Some [of "objGet b ''signingSecrets''" "[]"] by auto
  moreover have "referencedValues redactAdd sec (signingRefs b) = Inr (if val \<noteq> [] then redactAdd val else [])"
    using True r(1-3) by (auto simp: stringValue_Some)
  ultimately show ?thesis using redactAdd_self [of val] by (auto simp: r(4))
next
  case False
  then obtain rs where rs: "stringSliceValue (objGet b ''signingSecrets'') = Some rs" "rs \<noteq> []" by auto
  with assms obtain vs1 where v: "resolveSigningSecrets sec [] rs = Inr (vs1, refs)"
    "b' = objDelete (objSet b ''signingSecrets'' (JArray vs1)) ''signingSecret''"
    "TrimSpace (case stringValue (objGet b ''signingSecret'') of None \<Rightarrow> [] | Some r \<Rightarrow> r) = []"
    by (auto simp: resolveWebhookSigning_def bindR_eq_Inr Let_def split: if_splits)
  obtain vs where vs: "referencedValues redactAdd sec (map JString rs) = Inr vs"
    "\<forall>x \<in> set vs1. \<exists>v. x = JString v \<and> covered vs v"
    using signingSecrets_covered [OF redactAdd_self v(1)] by blast
  have "referencedValues redactAdd sec (case objGet b ''signingSecret'' of None \<Rightarrow> [] | Some v \<Rightarrow> [v]) = Inr []"
    using v(3) by (auto split: option.splits)
  then have "referencedValues redactAdd sec (signingRefs b) = Inr vs"
    using vs(1) rs by (simp add: referencedValues_append)
  moreover have "\<forall>v \<in> set (signingStrings b'). covered vs v"
    using vs(2) by (fastforce simp: v(2) stringsOf_def)
  ultimately show ?thesis by blast
qed

lemma webhook_covered:
  assumes "resolveWebhookSecrets sec b = Inr (b', refs)"
  shows "coversSecrets sec ''distr.webhook'' b b'"
proof -
  let ?sh = "case mapStringAny (objGet b ''secretHeaders'') of None \<Rightarrow> [] | Some m \<Rightarrow> m"
  from assms obtain msgs h b1 refs1 m refs2 where
      b1: "resolveWebhookSigning sec b = Inr (b1, refs1)"
    and m: "resolveNamedSecrets msgs sec h ?sh [] = Inr (m, refs2)"
    and b': "b' = objSet (objSet b1 ''headers'' (JObject h)) ''secretHeaders'' (JObject m)"
    by (auto simp: resolveWebhookSecrets_def bindR_eq_Inr Let_def split: if_splits)
  obtain us where us: "referencedValues redactAdd sec (signingRefs b) = Inr us"
    "\<forall>v \<in> set (signingStrings b1). covered us v" using signing_covered [OF b1] by blast
  obtain vs where vs: "referencedValues redactAdd sec (map snd ?sh) = Inr vs"
    "\<forall>v \<in> set (valuesOf (Some (JObject m))). covered vs v"
    using namedSecrets_covered [OF redactAdd_self m] valuesOf_covered by fastforce
  have "(case mapStringAny (objGet b ''secretHeaders'') of None \<Rightarrow> [] | Some m \<Rightarrow> map snd m) = map snd ?sh"
    by (simp split: option.split)
  moreover have "referencedValues redactAdd sec (signingRefs b @ map snd ?sh) = Inr (us @ vs)"
    by (subst referencedValues_append) (simp only: us(1) vs(1) bindR_simps)
  ultimately have "getWebhookSecretValuesForRedaction sec b = Inr (us @ vs)"
    unfolding getWebhookSecretValuesForRedaction_def Let_def append_assoc by simp
  moreover have "\<forall>v \<in> set (leasedSecrets ''distr.webhook'' b'). covered (us @ vs) v"
    using us(2) vs(2) by (auto simp: leasedSecrets_def b')
  ultimately show ?thesis by (auto simp: coversSecrets_def secretValuesForRedaction_def)
qed


definition exampleBindings :: object where
  "exampleBindings = [(''signingSecret'', JString '' sign ''),
     (''secretHeaders'', JObject [(''X-Token'', JString ''tok'')])]"

definition exampleSecrets :: secretLookup where
  "exampleSecrets k = (if k = ''sign'' then Inr ''s3cret'' else if k = ''tok'' then Inr ''t0ken'' else Inl ErrNotFound)"


end
