(* ===== verification/Task_Leases.thy ===== *)
theory Task_Leases
  imports Task_Queue Lease_Steps Secret_Bindings
begin

text \<open>
  Task leases, internal/db/task_leases.go: the search for the next task of an agent or of the
  hub, leasing it (with the acquisition of its resource locks, the release of expired leases
  and the reset of interrupted steps), heartbeats, and the release of a lease when its batch of
  steps is complete. \<open>FOR UPDATE SKIP LOCKED\<close> skips the tasks that a concurrent transaction has
  locked; the argument \<open>skipped\<close> says which these are. SHA-256 and base64 are \<open>pfSha256\<close> and
  \<open>pfBase64\<close> of the platform, the random bytes of a token the argument \<open>bytes\<close>.
\<close>

section \<open>Tokens and keys\<close>

definition taskLeaseDuration :: duration where
  "taskLeaseDuration = 2 * 60 * 1000000000"

definition hashTaskLeaseToken :: "platform \<Rightarrow> string \<Rightarrow> string" where
  "hashTaskLeaseToken P token = ''sha256:'' @ pfSha256 P token"

definition newTaskLeaseToken :: "platform \<Rightarrow> string \<Rightarrow> string \<times> string" where
  "newTaskLeaseToken P bytes = (let token = pfBase64 P bytes in (token, hashTaskLeaseToken P token))"

definition taskLeaseStepIdempotencyKey :: "platform \<Rightarrow> Task \<Rightarrow> string \<Rightarrow> string" where
  "taskLeaseStepIdempotencyKey P task stepKey =
     ''sha256:'' @ pfSha256 P
       (pfUuidString P (tkReleaseBundleID task) @ [CHR 0x00] @ pfUuidString P (tkDeploymentPlanID task)
        @ [CHR 0x00] @ pfUuidString P (tkDeploymentTargetID task) @ [CHR 0x00]
        @ pfUuidString P (tkID task) @ [CHR 0x00] @ stepKey)"

section \<open>Validation\<close>

definition validateLeaseAgentTaskRequest :: "LeaseAgentTaskRequest \<Rightarrow> unit result" where
  "validateLeaseAgentTaskRequest request =
     (if laOrganizationID request = uuid_Nil then Inl (ErrBadRequest ''organizationId is required'')
      else if laAgentID request = uuid_Nil then Inl (ErrBadRequest ''agentId is required'')
      else Inr ())"

definition validateHeartbeatAgentTaskLeaseRequest :: "HeartbeatAgentTaskLeaseRequest \<Rightarrow> unit result" where
  "validateHeartbeatAgentTaskLeaseRequest request =
     (if haOrganizationID request = uuid_Nil then Inl (ErrBadRequest ''organizationId is required'')
      else if haAgentID request = uuid_Nil then Inl (ErrBadRequest ''agentId is required'')
      else if haTaskID request = uuid_Nil then Inl (ErrBadRequest ''taskId is required'')
      else if haLeaseToken request = [] then Inl (ErrBadRequest ''leaseToken is required'')
      else Inr ())"

section \<open>Candidates\<close>

record taskLeaseCandidate =
  tcTaskID :: uuid
  tcOrganizationID :: uuid
  tcDeploymentTargetID :: uuid
  tcStatus :: TaskStatus

text \<open>The conditions that both candidate queries share. \<open>leaseless\<close>: the left join with the unreleased
  leases has a row whose lease is missing or has expired.\<close>

definition leaseless :: "timestamp \<Rightarrow> database \<Rightarrow> Task \<Rightarrow> bool" where
  "leaseless now db t =
     (let active = filter (\<lambda>l. tlTaskID l = tkID t \<and> tlOrganizationID l = tkOrganizationID t
                              \<and> tlReleasedAt l = None) (dbLeases db) in
      active = [] \<or> list_ex (\<lambda>l. tlExpiresAt l \<le> now) active)"

definition bundlePublished :: "database \<Rightarrow> Task \<Rightarrow> bool" where
  "bundlePublished db t =
     list_ex (\<lambda>rb. rbID rb = tkReleaseBundleID t \<and> rbOrganizationID rb = tkOrganizationID t
               \<and> rbStatus rb = ReleaseBundleStatusPublished) (dbBundles db)"

definition dependencyRunsSatisfied :: "database \<Rightarrow> StepRun \<Rightarrow> string list \<Rightarrow> bool" where
  "dependencyRunsSatisfied db sr deps =
     list_all (\<lambda>key.
       let runs = filter (\<lambda>r. srTaskID r = srTaskID sr \<and> srOrganizationID r = srOrganizationID sr
                            \<and> srStepKey r = key) (dbStepRuns db) in
       runs \<noteq> [] \<and> list_all (\<lambda>r. srStatus r = StepRunStatusSucceeded \<or> srStatus r = StepRunStatusSkipped) runs) deps"

definition hasRunnableStep :: "platform \<Rightarrow> database \<Rightarrow> string \<Rightarrow> Task \<Rightarrow> bool" where
  "hasRunnableStep P db loc t =
     list_ex (\<lambda>sr. srTaskID sr = tkID t \<and> srOrganizationID sr = tkOrganizationID t
        \<and> (srStatus sr = StepRunStatusPending \<or> srStatus sr = StepRunStatusRunning)
        \<and> (case planStepOf db sr of None \<Rightarrow> False
           | Some dps \<Rightarrow> dpsIncluded dps \<and> sqlLowerTrim P (dpsExecutionLocation dps) = loc
               \<and> dependencyRunsSatisfied db sr (dpsDependencies dps))) (dbStepRuns db)"

definition leaseCandidate :: "platform \<Rightarrow> timestamp \<Rightarrow> database \<Rightarrow> string \<Rightarrow> Task \<Rightarrow> bool" where
  "leaseCandidate P now db loc t =
     ((tkStatus t = TaskStatusQueued \<or> tkStatus t = TaskStatusRunning \<and> leaseless now db t)
      \<and> bundlePublished db t \<and> hasRunnableStep P db loc t)"

text \<open>\<open>ORDER BY t.queue_order, t.id LIMIT 1 FOR UPDATE OF t SKIP LOCKED\<close>.\<close>

definition firstCandidate ::
    "(Task \<Rightarrow> bool) \<Rightarrow> (uuid \<Rightarrow> bool) \<Rightarrow> database \<Rightarrow> taskLeaseCandidate result" where
  "firstCandidate wanted skipped db =
     (case SortStable taskLess (filter (\<lambda>t. wanted t \<and> \<not> skipped (tkID t)) (dbTasks db)) of
        [] \<Rightarrow> Inl ErrNotFound
      | t # _ \<Rightarrow> Inr \<lparr>tcTaskID = tkID t, tcOrganizationID = tkOrganizationID t,
                     tcDeploymentTargetID = tkDeploymentTargetID t, tcStatus = tkStatus t\<rparr>)"

definition getNextTaskLeaseCandidateForUpdate ::
    "platform \<Rightarrow> timestamp \<Rightarrow> (uuid \<Rightarrow> bool) \<Rightarrow> LeaseAgentTaskRequest \<Rightarrow> database \<Rightarrow> taskLeaseCandidate result" where
  "getNextTaskLeaseCandidateForUpdate P now skipped request db =
     firstCandidate (\<lambda>t. tkOrganizationID t = laOrganizationID request
        \<and> tkDeploymentTargetID t = laAgentID request \<and> leaseCandidate P now db ''target'' t) skipped db"

definition getNextHubTaskLeaseCandidateForUpdate ::
    "platform \<Rightarrow> timestamp \<Rightarrow> (uuid \<Rightarrow> bool) \<Rightarrow> database \<Rightarrow> taskLeaseCandidate result" where
  "getNextHubTaskLeaseCandidateForUpdate P now skipped db =
     firstCandidate (leaseCandidate P now db ''hub'') skipped db"

definition lockTaskReleaseBundlePublishedForLease :: "uuid \<Rightarrow> uuid \<Rightarrow> bool tx" where
  "lockTaskReleaseBundlePublishedForLease taskID orgID db =
     (case findTask taskID orgID db of None \<Rightarrow> Inl ErrNotFound
      | Some t \<Rightarrow>
     (case find (\<lambda>rb. rbID rb = tkReleaseBundleID t \<and> rbOrganizationID rb = tkOrganizationID t) (dbBundles db) of
        None \<Rightarrow> Inl ErrNotFound
      | Some rb \<Rightarrow> Inr (rbStatus rb = ReleaseBundleStatusPublished, db)))"

section \<open>Expired leases\<close>

fun nextAttemptAfter :: "int \<Rightarrow> int list \<Rightarrow> int" where
  "nextAttemptAfter next [] = next"
| "nextAttemptAfter next (a # as) = nextAttemptAfter (if a \<ge> next then a + 1 else next) as"

definition resetInterruptedStepRunsForTaskExecutor ::
    "platform \<Rightarrow> timestamp \<Rightarrow> uuid \<Rightarrow> uuid \<Rightarrow> TaskExecutorType \<Rightarrow> unit tx" where
  "resetInterruptedStepRunsForTaskExecutor P now taskID orgID executorType =
     execT (\<lambda>db. db\<lparr>dbStepRuns :=
       updateWhere (\<lambda>sr. srTaskID sr = taskID \<and> srOrganizationID sr = orgID
           \<and> srStatus sr = StepRunStatusRunning
           \<and> (case planStepOf db sr of None \<Rightarrow> False
              | Some dps \<Rightarrow> sqlLowerTrim P (dpsExecutionLocation dps) = ExecutionLocation executorType))
         (\<lambda>sr. sr\<lparr>srStatus := StepRunStatusPending, srUpdatedAt := now\<rparr>) (dbStepRuns db)\<rparr>)"

fun resetForExecutors :: "platform \<Rightarrow> timestamp \<Rightarrow> uuid \<Rightarrow> uuid \<Rightarrow> TaskExecutorType list \<Rightarrow> unit tx" where
  "resetForExecutors P now taskID orgID [] = returnT ()"
| "resetForExecutors P now taskID orgID (e # es) =
     (if \<not> executorTypeIsValid e
        then failT (Errorf ''could not reset interrupted StepRuns: invalid TaskLease executor type'')
      else bindT (resetInterruptedStepRunsForTaskExecutor P now taskID orgID e) (\<lambda>_.
        resetForExecutors P now taskID orgID es))"

definition releaseExpiredTaskLeasesAndNextAttempt :: "platform \<Rightarrow> timestamp \<Rightarrow> uuid \<Rightarrow> uuid \<Rightarrow> int tx" where
  "releaseExpiredTaskLeasesAndNextAttempt P now taskID orgID =
     (let ofTask = (\<lambda>l. tlTaskID l = taskID \<and> tlOrganizationID l = orgID);
          hit = (\<lambda>l. ofTask l \<and> tlReleasedAt l = None \<and> tlExpiresAt l \<le> now) in
      bindT (queryT (\<lambda>db. map tlAttempt (filter ofTask (dbLeases db)))) (\<lambda>attempts.
      bindT (queryT (\<lambda>db. map tlExecutorType (filter hit (dbLeases db)))) (\<lambda>executorTypes.
      bindT (execT (\<lambda>db. db\<lparr>dbLeases :=
          updateWhere hit (\<lambda>l. l\<lparr>tlReleasedAt := coalesce (tlReleasedAt l) now, tlUpdatedAt := now\<rparr>) (dbLeases db)\<rparr>)) (\<lambda>_.
      bindT (resetForExecutors P now taskID orgID executorTypes) (\<lambda>_.
        returnT (nextAttemptAfter 1 attempts))))))"

section \<open>Leasing\<close>

definition insertTaskLease ::
    "platform \<Rightarrow> timestamp \<Rightarrow> uuid \<Rightarrow> uuid \<Rightarrow> uuid \<Rightarrow> TaskExecutorType \<Rightarrow> string \<Rightarrow> int \<Rightarrow> uuid tx" where
  "insertTaskLease P now orgID deploymentTargetID taskID executorType tokenHash attempt =
     bindT (randomUuid P) (\<lambda>leaseID.
     bindT (queryT dbLeases) (\<lambda>leases.
       if attempt \<le> 0 then failT (ErrBadRequest ''could not insert lease Task'')
       else if leaseID \<in> tlID ` set leases
          \<or> (\<exists>l \<in> set leases. tlTaskID l = taskID \<and> tlReleasedAt l = None)
         then failT (ErrConflict ''could not insert lease Task'')
       else bindT (execT (\<lambda>db. db\<lparr>dbLeases := dbLeases db @
              [\<lparr>tlID = leaseID, tlCreatedAt = now, tlUpdatedAt = now, tlOrganizationID = orgID,
                tlTaskID = taskID, tlAgentID = deploymentTargetID, tlExecutorType = executorType,
                tlLeaseTokenHash = tokenHash, tlLeasedAt = now, tlExpiresAt = now + taskLeaseDuration,
                tlHeartbeatAt = now, tlAttempt = attempt, tlReleasedAt = None\<rparr>]\<rparr>)) (\<lambda>_.
            returnT leaseID)))"

definition stepCandidateOf :: "platform \<Rightarrow> StepRun \<Rightarrow> DeploymentPlanStep \<Rightarrow> taskLeaseStepCandidate" where
  "stepCandidateOf P sr dps =
     \<lparr>scStepRunID = srID sr, scStepKey = srStepKey sr, scName = srName sr, scActionType = srActionType sr,
      scInputBindings = dpsInputBindings dps, scSortOrder = srSortOrder sr, scStatus = srStatus sr,
      scExecutionLocation = sqlLowerTrim P (dpsExecutionLocation dps), scIncluded = dpsIncluded dps,
      scDependencies = dpsDependencies dps\<rparr>"

definition getTaskLeaseStepCandidates :: "platform \<Rightarrow> uuid \<Rightarrow> uuid \<Rightarrow> database \<Rightarrow> taskLeaseStepCandidate list" where
  "getTaskLeaseStepCandidates P taskID orgID db =
     concat (map (\<lambda>sr. case planStepOf db sr of None \<Rightarrow> [] | Some dps \<Rightarrow> [stepCandidateOf P sr dps])
       (getStepRunsByTaskID P taskID orgID db))"

definition getReadyTaskLeaseStepCandidates ::
    "platform \<Rightarrow> uuid \<Rightarrow> uuid \<Rightarrow> string \<Rightarrow> database \<Rightarrow> taskLeaseStepCandidate list" where
  "getReadyTaskLeaseStepCandidates P taskID orgID loc db =
     readyTaskLeaseStepCandidates (getTaskLeaseStepCandidates P taskID orgID db) loc"

text \<open>The query joins the secrets of the target's customer organization, or the organization's own.\<close>

definition getTaskLeaseSecretValue :: "database \<Rightarrow> Task \<Rightarrow> string \<Rightarrow> string result" where
  "getTaskLeaseSecretValue db task key =
     (case [secValue s. dpt \<leftarrow> dbPlanTargets db,
              dptID dpt = tkDeploymentPlanTargetID task \<and> dptOrganizationID dpt = tkOrganizationID task,
              s \<leftarrow> dbSecrets db,
              secOrganizationID s = dptOrganizationID dpt \<and> secKey s = key
                \<and> secCustomerOrganizationID s = dptCustomerOrganizationID dpt] of
        [] \<Rightarrow> Inl ErrNotFound
      | v # _ \<Rightarrow> Inr v)"

definition leaseStepOf ::
    "platform \<Rightarrow> database \<Rightarrow> Task \<Rightarrow> taskLeaseStepCandidate \<Rightarrow> TaskLeaseStep result" where
  "leaseStepOf P db task c =
     (let bindings = (case scInputBindings c of None \<Rightarrow> [] | Some b \<Rightarrow> b) in
      bindR (resolveTaskLeaseStepSecrets (getTaskLeaseSecretValue db task) (scActionType c) bindings)
        (\<lambda>(resolved, references).
          Inr \<lparr>lsStepRunID = scStepRunID c, lsStepKey = scStepKey c, lsName = scName c,
               lsActionType = scActionType c, lsActionVersion = ''1'', lsInputBindings = resolved,
               lsSecretReferences = references,
               lsIdempotencyKey = taskLeaseStepIdempotencyKey P task (scStepKey c),
               lsSortOrder = scSortOrder c\<rparr>))"

definition getTaskLeaseSteps :: "platform \<Rightarrow> Task \<Rightarrow> string \<Rightarrow> database \<Rightarrow> TaskLeaseStep list result" where
  "getTaskLeaseSteps P task loc db =
     mapR (leaseStepOf P db task)
       (getReadyTaskLeaseStepCandidates P (tkID task) (tkOrganizationID task) loc db)"

definition getTaskLease :: "platform \<Rightarrow> string \<Rightarrow> uuid \<Rightarrow> uuid \<Rightarrow> TaskLease tx" where
  "getTaskLease P token leaseID orgID =
     bindT (\<lambda>db. case find (\<lambda>l. tlID l = leaseID \<and> tlOrganizationID l = orgID) (dbLeases db) of
              None \<Rightarrow> Inl ErrNotFound | Some l \<Rightarrow> Inr (l, db)) (\<lambda>l.
     bindT (getTask P (tlTaskID l) (tlOrganizationID l)) (\<lambda>task.
     bindT (getDeploymentPlan (tkDeploymentPlanID task) (tkOrganizationID task)) (\<lambda>dp.
     bindT (\<lambda>db. liftT (getTaskLeaseSteps P task (ExecutionLocation (tlExecutorType l)) db) db) (\<lambda>steps.
       returnT (TaskLeaseRow.extend l
         \<lparr>tlLeaseToken = token, tlPlanChecksum = dpCanonicalChecksum dp, tlTask = task, tlSteps = steps\<rparr>)))))"

text \<open>An acquisition that fails on a conflict has changed nothing: the lease attempt ends without a
  lease and commits. Any other error aborts.\<close>

definition tryAcquire :: "unit tx \<Rightarrow> bool tx" where
  "tryAcquire m db =
     (case m db of
        Inr (_, db') \<Rightarrow> Inr (True, db')
      | Inl (ErrConflict _) \<Rightarrow> Inr (False, db)
      | Inl e \<Rightarrow> Inl e)"

definition grantLease ::
    "platform \<Rightarrow> timestamp \<Rightarrow> string \<Rightarrow> taskLeaseCandidate \<Rightarrow> TaskExecutorType \<Rightarrow> int \<Rightarrow> TaskLease option tx" where
  "grantLease P now bytes candidate executorType attempt =
     (let (token, tokenHash) = newTaskLeaseToken P bytes in
      bindT (insertTaskLease P now (tcOrganizationID candidate) (tcDeploymentTargetID candidate)
               (tcTaskID candidate) executorType tokenHash attempt) (\<lambda>leaseID.
      bindT (getTaskLease P token leaseID (tcOrganizationID candidate)) (\<lambda>lease.
        returnT (Some lease))))"

definition leaseTaskCandidate ::
    "platform \<Rightarrow> timestamp \<Rightarrow> string \<Rightarrow> taskLeaseCandidate \<Rightarrow> TaskExecutorType \<Rightarrow> TaskLease option tx" where
  "leaseTaskCandidate P now bytes candidate executorType =
     (let taskID = tcTaskID candidate; orgID = tcOrganizationID candidate in
      bindT (lockTaskReleaseBundlePublishedForLease taskID orgID) (\<lambda>published.
        if \<not> published then returnT None
        else
      bindT (if tcStatus candidate = TaskStatusRunning
             then releaseExpiredTaskLeasesAndNextAttempt P now taskID orgID else returnT 1) (\<lambda>attempt.
      bindT (queryT (getReadyTaskLeaseStepCandidates P taskID orgID (ExecutionLocation executorType))) (\<lambda>steps.
        if steps = [] then returnT None
        else if tcStatus candidate = TaskStatusQueued then
          bindT (tryAcquire (acquireTaskResourceLocks P now taskID orgID)) (\<lambda>acquired.
            if \<not> acquired then returnT None
            else
          bindT (updateTaskStatus now taskID orgID TaskStatusRunning) (\<lambda>_.
          bindT (releaseExpiredTaskLeasesAndNextAttempt P now taskID orgID) (\<lambda>attempt.
            grantLease P now bytes candidate executorType attempt)))
        else grantLease P now bytes candidate executorType attempt))))"

text \<open>The transaction of \<open>LeaseAgentTask\<close> and of \<open>LeaseHubTask\<close>: no candidate, no lease.\<close>

definition leaseNextTx ::
    "platform \<Rightarrow> timestamp \<Rightarrow> string \<Rightarrow> (database \<Rightarrow> taskLeaseCandidate result) \<Rightarrow> TaskExecutorType \<Rightarrow>
     TaskLease option tx" where
  "leaseNextTx P now bytes next executorType db =
     (case next db of
        Inl ErrNotFound \<Rightarrow> Inr (None, db)
      | Inl e \<Rightarrow> Inl e
      | Inr candidate \<Rightarrow> leaseTaskCandidate P now bytes candidate executorType db)"

definition LeaseAgentTask ::
    "platform \<Rightarrow> timestamp \<Rightarrow> string \<Rightarrow> (uuid \<Rightarrow> bool) \<Rightarrow> LeaseAgentTaskRequest \<Rightarrow> database \<Rightarrow>
     TaskLease option result \<times> database" where
  "LeaseAgentTask P now bytes skipped request db =
     (case validateLeaseAgentTaskRequest request of
        Inl e \<Rightarrow> (Inl e, db)
      | Inr _ \<Rightarrow> RunTx (leaseNextTx P now bytes
          (getNextTaskLeaseCandidateForUpdate P now skipped request) TaskExecutorTypeAgent) db)"

definition LeaseHubTask ::
    "platform \<Rightarrow> timestamp \<Rightarrow> string \<Rightarrow> (uuid \<Rightarrow> bool) \<Rightarrow> database \<Rightarrow> TaskLease option result \<times> database" where
  "LeaseHubTask P now bytes skipped db =
     RunTx (leaseNextTx P now bytes
       (getNextHubTaskLeaseCandidateForUpdate P now skipped) TaskExecutorTypeHub) db"

section \<open>Heartbeats\<close>

definition getActiveTaskLeaseIDForHeartbeat ::
    "platform \<Rightarrow> timestamp \<Rightarrow> uuid \<Rightarrow> uuid \<Rightarrow> uuid \<Rightarrow> string \<Rightarrow> TaskExecutorType \<Rightarrow> (uuid \<times> bool) tx" where
  "getActiveTaskLeaseIDForHeartbeat P now orgID deploymentTargetID taskID token executorType db =
     (case find (\<lambda>l. tlOrganizationID l = orgID \<and> tlAgentID l = deploymentTargetID \<and> tlTaskID l = taskID
                 \<and> tlExecutorType l = executorType \<and> tlLeaseTokenHash l = hashTaskLeaseToken P token
                 \<and> tlReleasedAt l = None) (dbLeases db) of
        None \<Rightarrow> Inl ErrNotFound
      | Some l \<Rightarrow> Inr ((tlID l, tlExpiresAt l \<le> now), db))"

definition updateTaskLeaseHeartbeat :: "timestamp \<Rightarrow> uuid \<Rightarrow> uuid \<Rightarrow> unit tx" where
  "updateTaskLeaseHeartbeat now leaseID orgID =
     execT (\<lambda>db. db\<lparr>dbLeases :=
       updateWhere (\<lambda>l. tlID l = leaseID \<and> tlOrganizationID l = orgID \<and> tlReleasedAt l = None)
         (\<lambda>l. l\<lparr>tlHeartbeatAt := now, tlExpiresAt := now + taskLeaseDuration, tlUpdatedAt := now\<rparr>) (dbLeases db)\<rparr>)"

definition heartbeatTaskLease ::
    "platform \<Rightarrow> timestamp \<Rightarrow> uuid \<Rightarrow> uuid \<Rightarrow> uuid \<Rightarrow> string \<Rightarrow> TaskExecutorType \<Rightarrow> TaskLease tx" where
  "heartbeatTaskLease P now orgID deploymentTargetID taskID token executorType =
     bindT (getTaskStatusForUpdate taskID orgID) (\<lambda>status.
       if status \<noteq> TaskStatusRunning then failT ErrNotFound
       else
     bindT (getActiveTaskLeaseIDForHeartbeat P now orgID deploymentTargetID taskID token executorType) (\<lambda>(leaseID, expired).
       if expired then failT (ErrConflict ''task lease has expired'')
       else
     bindT (updateTaskLeaseHeartbeat now leaseID orgID) (\<lambda>_.
       getTaskLease P token leaseID orgID)))"

definition HeartbeatAgentTaskLease ::
    "platform \<Rightarrow> timestamp \<Rightarrow> HeartbeatAgentTaskLeaseRequest \<Rightarrow> database \<Rightarrow> TaskLease result \<times> database" where
  "HeartbeatAgentTaskLease P now request db =
     (case validateHeartbeatAgentTaskLeaseRequest request of
        Inl e \<Rightarrow> (Inl e, db)
      | Inr _ \<Rightarrow> RunTx (heartbeatTaskLease P now (haOrganizationID request) (haAgentID request)
          (haTaskID request) (haLeaseToken request) TaskExecutorTypeAgent) db)"

definition HeartbeatHubTaskLease ::
    "platform \<Rightarrow> timestamp \<Rightarrow> HeartbeatHubTaskLeaseRequest \<Rightarrow> database \<Rightarrow> TaskLease result \<times> database" where
  "HeartbeatHubTaskLease P now request db =
     (if hhOrganizationID request = uuid_Nil then (Inl (ErrBadRequest ''organizationId is required''), db)
      else if hhDeploymentTargetID request = uuid_Nil
        then (Inl (ErrBadRequest ''deploymentTargetId is required''), db)
      else if hhTaskID request = uuid_Nil then (Inl (ErrBadRequest ''taskId is required''), db)
      else if TrimSpace (hhLeaseToken request) = [] then (Inl (ErrBadRequest ''leaseToken is required''), db)
      else RunTx (heartbeatTaskLease P now (hhOrganizationID request) (hhDeploymentTargetID request)
          (hhTaskID request) (TrimSpace (hhLeaseToken request)) TaskExecutorTypeHub) db)"

section \<open>The end of a batch\<close>

definition releaseTaskLeaseIfExecutorBatchComplete ::
    "platform \<Rightarrow> timestamp \<Rightarrow> uuid \<Rightarrow> uuid \<Rightarrow> uuid \<Rightarrow> string \<Rightarrow> unit tx" where
  "releaseTaskLeaseIfExecutorBatchComplete P now taskID orgID leaseID loc =
     execT (\<lambda>db. db\<lparr>dbLeases :=
       updateWhere (\<lambda>l. tlID l = leaseID \<and> tlTaskID l = taskID \<and> tlOrganizationID l = orgID
           \<and> tlReleasedAt l = None
           \<and> \<not> list_ex (\<lambda>sr. srTaskID sr = taskID \<and> srOrganizationID sr = orgID
                \<and> (srStatus sr = StepRunStatusPending \<or> srStatus sr = StepRunStatusRunning)
                \<and> (case planStepOf db sr of None \<Rightarrow> False
                   | Some dps \<Rightarrow> dpsIncluded dps \<and> sqlLowerTrim P (dpsExecutionLocation dps) = loc)) (dbStepRuns db))
         (\<lambda>l. l\<lparr>tlReleasedAt := coalesce (tlReleasedAt l) now, tlUpdatedAt := now\<rparr>) (dbLeases db)\<rparr>)"

end
