(* ===== verification/Step_Redaction.thy ===== *)
theory Step_Redaction
  imports Task_Types
begin

text \<open>
  Redaction of step events, internal/stepredaction/redaction.go: the three secret patterns, the
  secret-key pattern, the replacement of the known secret values, and the recursion over JSON
  values. The four regular expressions are written out as matchers on bytes. They are
  case-insensitive, and Go folds the Kelvin sign with k and the long s with s. No alternative
  of theirs needs backtracking: the classes that follow a repetition exclude what it repeats.
  A number is represented by the text the code formats it with.
\<close>

section \<open>The patterns\<close>

definition redactedValue :: string where
  "redactedValue = ''[REDACTED]''"

text \<open>\<open>\s\<close> of the regexp package.\<close>

definition isReSpace :: "char \<Rightarrow> bool" where
  "isReSpace c = (c \<in> {CHR 0x09, CHR 0x0A, CHR 0x0C, CHR 0x0D, CHR 0x20})"

definition isWord :: "char \<Rightarrow> bool" where
  "isWord c = (isLetter c \<or> isDigit c \<or> c = CHR ''_'')"

definition headWord :: "string \<Rightarrow> bool" where
  "headWord s = (s \<noteq> [] \<and> isWord (hd s))"

text \<open>\<open>\b\<close> between the byte before (if any) and the rest.\<close>

definition wordBoundary :: "char option \<Rightarrow> string \<Rightarrow> bool" where
  "wordBoundary prev s = ((case prev of None \<Rightarrow> False | Some c \<Rightarrow> isWord c) \<noteq> headWord s)"

text \<open>Matches a lower-case word case-insensitively; the matched text and the rest.\<close>

fun matchFold :: "string \<Rightarrow> string \<Rightarrow> (string \<times> string) option" where
  "matchFold [] s = Some ([], s)"
| "matchFold (p # ps) s =
     (if s \<noteq> [] \<and> lowerASCII (hd s) = p
        then map_option (\<lambda>(m, r). (hd s # m, r)) (matchFold ps (tl s))
      else if p = CHR ''k'' \<and> startsWith [CHR 0xE2, CHR 0x84, CHR 0xAA] s
        then map_option (\<lambda>(m, r). (take 3 s @ m, r)) (matchFold ps (drop 3 s))
      else if p = CHR ''s'' \<and> startsWith [CHR 0xC5, CHR 0xBF] s
        then map_option (\<lambda>(m, r). (take 2 s @ m, r)) (matchFold ps (drop 2 s))
      else None)"

definition spaces :: "string \<Rightarrow> string \<times> string" where
  "spaces s = (takeWhile isReSpace s, dropWhile isReSpace s)"

text \<open>\<open>[^\s,;]+\<close>: the rest after it.\<close>

definition isValueChar :: "char \<Rightarrow> bool" where
  "isValueChar c = (\<not> isReSpace c \<and> c \<noteq> CHR '','' \<and> c \<noteq> CHR '';'')"

definition valueRest :: "string \<Rightarrow> string option" where
  "valueRest s = (if s \<noteq> [] \<and> isValueChar (hd s) then Some (dropWhile isValueChar s) else None)"

text \<open>A matcher gets the byte before and the text; it returns what the replacement keeps (the
  groups 1 and 2) and the text after the match.\<close>

type_synonym matcher = "char option \<Rightarrow> string \<Rightarrow> (string \<times> string) option"

definition bearerPattern :: matcher where
  "bearerPattern prev s =
     (case matchFold ''authorization'' s of None \<Rightarrow> None | Some (m1, s1) \<Rightarrow>
      let (w1, s2) = spaces s1 in
      if s2 = [] \<or> hd s2 \<noteq> CHR '':'' then None
      else let (w2, s3) = spaces (tl s2) in
      case matchFold ''bearer'' s3 of None \<Rightarrow> None | Some (m2, s4) \<Rightarrow>
      let (w3, s5) = spaces s4 in
      if w3 = [] then None
      else case valueRest s5 of None \<Rightarrow> None
      | Some r \<Rightarrow> Some (m1 @ w1 @ '':'' @ w2 @ m2 @ w3, r))"

definition assignmentRest :: "string \<Rightarrow> (string \<times> string) option" where
  "assignmentRest s =
     (let (w1, s1) = spaces s in
      if s1 = [] \<or> (hd s1 \<noteq> CHR '':'' \<and> hd s1 \<noteq> CHR ''='') then None
      else let (w2, s2) = spaces (tl s1) in
      case valueRest s2 of None \<Rightarrow> None | Some r \<Rightarrow> Some (w1 @ [hd s1] @ w2, r))"

definition secretWords :: "string list" where
  "secretWords = [''password'', ''passwd'', ''secret'', ''token'', ''api_key'', ''api-key'', ''apikey'']"

fun firstWord :: "string list \<Rightarrow> string \<Rightarrow> (string \<times> string) option" where
  "firstWord [] s = None"
| "firstWord (w # ws) s =
     (case matchFold w s of
        Some (m, r) \<Rightarrow>
          if wordBoundary (Some (last m)) r then
            (case assignmentRest r of Some (a, r') \<Rightarrow> Some (m @ a, r') | None \<Rightarrow> firstWord ws s)
          else firstWord ws s
      | None \<Rightarrow> firstWord ws s)"

definition assignmentPattern :: matcher where
  "assignmentPattern prev s = (if wordBoundary prev s then firstWord secretWords s else None)"

definition isHex :: "char \<Rightarrow> bool" where
  "isHex c = (isDigit c \<or> CHR ''a'' \<le> lowerASCII c \<and> lowerASCII c \<le> CHR ''f'')"

definition sha256Pattern :: matcher where
  "sha256Pattern prev s =
     (if \<not> wordBoundary prev s then None
      else case matchFold ''sha256='' s of None \<Rightarrow> None | Some (m, r) \<Rightarrow>
        if length r \<ge> 64 \<and> list_all isHex (take 64 r) \<and> wordBoundary (Some (r ! 63)) (drop 64 r)
        then Some ([], drop 64 r) else None)"

text \<open>\<open>ReplaceAllString\<close> with \<open>${1}${2}[REDACTED]\<close>: leftmost matches, none of them empty.\<close>

function replaceMatches :: "matcher \<Rightarrow> char option \<Rightarrow> string \<Rightarrow> string" where
  "replaceMatches m prev [] = []"
| "replaceMatches m prev (c # cs) =
     (case m prev (c # cs) of
        Some (kept, r) \<Rightarrow>
          if length r < length (c # cs)
          then kept @ redactedValue @ replaceMatches m (Some ((c # cs) ! (length cs - length r))) r
          else c # replaceMatches m (Some c) cs
      | None \<Rightarrow> c # replaceMatches m (Some c) cs)"
  by pat_completeness auto
termination by (relation "measure (\<lambda>(m, prev, s). length s)") auto

definition secretPatterns :: "matcher list" where
  "secretPatterns = [bearerPattern, assignmentPattern, sha256Pattern]"

text \<open>\<open>secretKeyPattern.MatchString\<close>.\<close>

fun matchesSecretKey :: "string \<Rightarrow> bool" where
  "matchesSecretKey [] = False"
| "matchesSecretKey (c # cs) =
     (list_ex (\<lambda>w. matchFold w (c # cs) \<noteq> None) (secretWords @ [''authorization'']) \<or> matchesSecretKey cs)"

section \<open>Known values\<close>

text \<open>\<open>strings.ReplaceAll\<close> for a non-empty old text.\<close>

function ReplaceAll :: "string \<Rightarrow> string \<Rightarrow> string \<Rightarrow> string" where
  "ReplaceAll old new [] = []"
| "ReplaceAll old new (c # cs) =
     (if old \<noteq> [] \<and> startsWith old (c # cs) then new @ ReplaceAll old new (drop (length old) (c # cs))
      else c # ReplaceAll old new cs)"
  by pat_completeness auto
termination by (relation "measure (\<lambda>(old, new, s). length s)") auto

fun distinctNonEmpty :: "string list \<Rightarrow> string list \<Rightarrow> string list" where
  "distinctNonEmpty seen [] = []"
| "distinctNonEmpty seen (v # vs) =
     (if v = [] \<or> v \<in> set seen then distinctNonEmpty seen vs else v # distinctNonEmpty (v # seen) vs)"

definition normalizedSecretValues :: "string list \<Rightarrow> string list" where
  "normalizedSecretValues values =
     SortStable (\<lambda>a b. length a > length b) (distinctNonEmpty [] values)"

section \<open>Redaction\<close>

definition RedactStringWithValues :: "string \<Rightarrow> string list \<Rightarrow> string \<times> bool" where
  "RedactStringWithValues val secretValues =
     (let s0 = ReplaceAll [CHR 0x00] [] val;
          step1 = (\<lambda>p (s, changed). let next = replaceMatches p None s in (next, changed \<or> next \<noteq> s));
          step2 = (\<lambda>v (s, changed). let next = ReplaceAll v redactedValue s in (next, changed \<or> next \<noteq> s))
      in fold step2 (normalizedSecretValues secretValues) (fold step1 secretPatterns (s0, s0 \<noteq> val)))"

definition redactScalarStringWithValues :: "string \<Rightarrow> json \<Rightarrow> string list \<Rightarrow> json \<times> bool" where
  "redactScalarStringWithValues val original secretValues =
     (let (redacted, changed) = RedactStringWithValues val secretValues in
      if changed then (JString redacted, True) else (original, False))"

text \<open>The new map: a key that two old keys are redacted to keeps the later value.\<close>

fun setKey :: "object \<Rightarrow> string \<Rightarrow> json \<Rightarrow> object" where
  "setKey [] k v = [(k, v)]"
| "setKey ((k', v') # m) k v = (if k' = k then (k, v) # m else (k', v') # setKey m k v)"

fun RedactValueWithValues :: "string list \<Rightarrow> json \<Rightarrow> json \<times> bool"
  and redactMembers :: "string list \<Rightarrow> object \<Rightarrow> object \<Rightarrow> bool \<Rightarrow> object \<times> bool"
  and redactElements :: "string list \<Rightarrow> json list \<Rightarrow> json list \<times> bool" where
  "RedactValueWithValues secretValues (JObject m) =
     (let (r, changed) = redactMembers secretValues m [] False in (JObject r, changed))"
| "RedactValueWithValues secretValues (JArray vs) =
     (let (r, changed) = redactElements secretValues vs in (JArray r, changed))"
| "RedactValueWithValues secretValues (JString s) =
     (let (r, changed) = RedactStringWithValues s secretValues in (JString r, changed))"
| "RedactValueWithValues secretValues (JNumber n) = redactScalarStringWithValues n (JNumber n) secretValues"
| "RedactValueWithValues secretValues (JBool b) =
     redactScalarStringWithValues (if b then ''true'' else ''false'') (JBool b) secretValues"
| "RedactValueWithValues secretValues JNull = redactScalarStringWithValues ''null'' JNull secretValues"
| "redactMembers secretValues [] acc changed = (acc, changed)"
| "redactMembers secretValues ((key, child) # rest) acc changed =
     (let (redactedKey, keyChanged) = RedactStringWithValues key secretValues in
      if matchesSecretKey key
      then redactMembers secretValues rest (setKey acc redactedKey (JString redactedValue)) True
      else let (redacted, childChanged) = RedactValueWithValues secretValues child in
        redactMembers secretValues rest (setKey acc redactedKey redacted)
          (changed \<or> keyChanged \<or> childChanged))"
| "redactElements secretValues [] = ([], False)"
| "redactElements secretValues (v # vs) =
     (let (r, c) = RedactValueWithValues secretValues v; (rs, cs) = redactElements secretValues vs in
      (r # rs, c \<or> cs))"

section \<open>No known value survives\<close>

text \<open>A value that the replacement text cannot itself contain or complete.\<close>

definition redactable :: "string \<Rightarrow> bool" where
  "redactable v = (v \<noteq> [] \<and> CHR ''['' \<notin> set v \<and> CHR '']'' \<notin> set v \<and> \<not> sublist v ''REDACTED'')"

lemma sublist_sep:
  "sublist s (a @ c # b) \<Longrightarrow> c \<notin> set s \<Longrightarrow> sublist s a \<or> sublist s b"
proof (induction a)
  case Nil
  then show ?case by (cases s) (auto simp: sublist_Cons_right)
next
  case (Cons x a)
  then have "prefix s (x # a @ c # b) \<or> sublist s (a @ c # b)" by (simp add: sublist_Cons_right)
  then show ?case
  proof
    assume "prefix s (x # a @ c # b)"
    then have "prefix s ((x # a) @ c # b)" by simp
    then have "prefix s (x # a)"
      using Cons.prems(2) by (auto simp: prefix_append prefix_Cons)
    then show ?thesis by blast
  next
    assume "sublist s (a @ c # b)"
    then show ?thesis using Cons by (auto simp: sublist_Cons_right)
  qed
qed

lemma sublist_redacted:
  assumes "sublist v (redactedValue @ b)" "redactable v"
  shows "sublist v b"
proof -
  have nb: "CHR ''['' \<notin> set v" "CHR '']'' \<notin> set v" "\<not> sublist v ''REDACTED''" "v \<noteq> []"
    using assms(2) by (simp_all add: redactable_def)
  have "redactedValue @ b = [] @ CHR ''['' # (''REDACTED'' @ CHR '']'' # b)"
    by (simp add: redactedValue_def)
  then have "sublist v [] \<or> sublist v (''REDACTED'' @ CHR '']'' # b)"
    using sublist_sep [OF _ nb(1)] assms(1) by metis
  moreover have "\<not> sublist v []" using nb(4) by simp
  ultimately show ?thesis using sublist_sep [OF _ nb(2), of "''REDACTED''" b] nb(3) by blast
qed

lemma redactable_redactedValue: "redactable v \<Longrightarrow> \<not> sublist v redactedValue"
  using sublist_redacted [of v "[]"] by (auto simp: redactable_def)

lemma prefix_ReplaceAll:
  "prefix v (ReplaceAll old redactedValue s) \<Longrightarrow> CHR ''['' \<notin> set v \<Longrightarrow> prefix v s"
proof (induction old redactedValue s arbitrary: v rule: ReplaceAll.induct)
  case (1 old)
  then show ?case by simp
next
  case (2 old c cs)
  then show ?case
    by (cases v) (auto simp: redactedValue_def split: if_splits)
qed

lemma sublist_ReplaceAll:
  assumes "redactable v"
  shows "sublist v (ReplaceAll old redactedValue s) \<Longrightarrow> sublist v s"
proof (induction old redactedValue s rule: ReplaceAll.induct)
  case (1 old)
  then show ?case by simp
next
  case (2 old c cs)
  show ?case
  proof (cases "old \<noteq> [] \<and> startsWith old (c # cs)")
    case True
    with 2(3) have "sublist v (ReplaceAll old redactedValue (drop (length old) (c # cs)))"
      using sublist_redacted [OF _ assms] by (simp del: drop_Suc_Cons)
    with 2(1) True have "sublist v (drop (length old) (c # cs))" by (simp del: drop_Suc_Cons)
    moreover have "sublist (drop (length old) (c # cs)) (c # cs)"
      by (intro suffix_imp_sublist suffix_drop)
    ultimately show ?thesis by (rule sublist_order.order_trans)
  next
    case False
    with 2(3) have "prefix v (c # ReplaceAll old redactedValue cs) \<or> sublist v (ReplaceAll old redactedValue cs)"
      by (auto simp: sublist_Cons_right)
    then show ?thesis
    proof
      assume "prefix v (c # ReplaceAll old redactedValue cs)"
      then have "prefix v (c # cs)"
        using assms by (cases v) (auto simp: redactable_def dest: prefix_ReplaceAll)
      then show ?thesis by blast
    next
      assume "sublist v (ReplaceAll old redactedValue cs)"
      then show ?thesis using 2(2) False by (auto simp: sublist_Cons_right)
    qed
  qed
qed

lemma ReplaceAll_removes:
  "redactable v \<Longrightarrow> \<not> sublist v (ReplaceAll v redactedValue s)"
proof (induction v redactedValue s rule: ReplaceAll.induct)
  case (1 v)
  then show ?case by (auto simp: redactable_def)
next
  case (2 v c cs)
  show ?case
  proof (cases "v \<noteq> [] \<and> startsWith v (c # cs)")
    case True
    with 2(1,3) show ?thesis using sublist_redacted [of v] by (auto simp del: drop_Suc_Cons)
  next
    case False
    have "\<not> prefix v (c # ReplaceAll v redactedValue cs)"
    proof
      assume "prefix v (c # ReplaceAll v redactedValue cs)"
      then have "prefix v (c # cs)"
        using 2(3) by (cases v) (auto simp: redactable_def dest: prefix_ReplaceAll)
      with False 2(3) show False by (simp add: startsWith_prefix redactable_def)
    qed
    with 2(2,3) False show ?thesis by (auto simp: sublist_Cons_right)
  qed
qed

lemma set_distinctNonEmpty: "set (distinctNonEmpty seen vs) = set vs - {[]} - set seen"
  by (induction seen vs rule: distinctNonEmpty.induct) auto

lemma fold_fst:
  "fst (fold (\<lambda>v (s, changed). (f v s, changed \<or> f v s \<noteq> s)) vs p) = fold f vs (fst p)"
  by (induction vs arbitrary: p) (auto simp: split_beta)

lemma fold_ReplaceAll_keeps:
  "redactable v \<Longrightarrow> sublist v (fold (\<lambda>w s. ReplaceAll w redactedValue s) ws s) \<Longrightarrow> sublist v s"
  by (induction ws arbitrary: s) (auto dest: sublist_ReplaceAll)

lemma fold_ReplaceAll_removes:
  assumes "redactable v" "v \<in> set ws"
  shows "\<not> sublist v (fold (\<lambda>w s. ReplaceAll w redactedValue s) ws s)"
  using assms(2)
proof (induction ws arbitrary: s)
  case (Cons w ws)
  then show ?case
    using fold_ReplaceAll_keeps [OF assms(1), of ws "ReplaceAll w redactedValue s"]
      ReplaceAll_removes [OF assms(1)] by auto
qed simp

lemma RedactString_removes:
  assumes "v \<in> set secretValues" "redactable v"
  shows "\<not> sublist v (fst (RedactStringWithValues s secretValues))"
proof -
  have "v \<in> set (normalizedSecretValues secretValues)"
    using assms by (auto simp: normalizedSecretValues_def set_distinctNonEmpty redactable_def)
  moreover have "\<exists>s1. fst (RedactStringWithValues s secretValues) =
      fold (\<lambda>v s. ReplaceAll v redactedValue s) (normalizedSecretValues secretValues) s1"
    unfolding RedactStringWithValues_def Let_def fold_fst by (rule exI, rule refl)
  ultimately show ?thesis using fold_ReplaceAll_removes [OF assms(2)] by force
qed

text \<open>Every text in a JSON value: keys, strings, and the texts of the other scalars.\<close>

fun texts :: "json \<Rightarrow> string list" and memberTexts :: "object \<Rightarrow> string list"
  and elementTexts :: "json list \<Rightarrow> string list" where
  "texts (JObject m) = memberTexts m"
| "texts (JArray vs) = elementTexts vs"
| "texts (JString s) = [s]"
| "texts (JNumber n) = [n]"
| "texts (JBool b) = [if b then ''true'' else ''false'']"
| "texts JNull = [''null'']"
| "memberTexts [] = []"
| "memberTexts ((k, v) # m) = k # texts v @ memberTexts m"
| "elementTexts [] = []"
| "elementTexts (v # vs) = texts v @ elementTexts vs"

lemma memberTexts_setKey:
  "set (memberTexts (setKey m k v)) \<subseteq> insert k (set (texts v) \<union> set (memberTexts m))"
  by (induction m k v rule: setKey.induct) auto

text \<open>A string that was not changed does not contain a known value.\<close>

lemma RedactString_unchanged:
  assumes "RedactStringWithValues s secretValues = (r, False)"
  shows "r = s"
proof -
  have step: "snd (fold (\<lambda>v (s, changed). (f v s, changed \<or> f v s \<noteq> s)) vs p) = False \<Longrightarrow>
      fst (fold (\<lambda>v (s, changed). (f v s, changed \<or> f v s \<noteq> s)) vs p) = fst p \<and> \<not> snd p"
    for f :: "'a \<Rightarrow> string \<Rightarrow> string" and vs p
  proof (induction vs arbitrary: p)
    case (Cons v vs)
    obtain t b where p: "p = (t, b)" by fastforce
    show ?case using Cons.IH [of "(f v t, b \<or> f v t \<noteq> t)"] Cons.prems
      by (cases "f v t = t"; cases b; simp add: p)
  qed simp
  let ?p0 = "(ReplaceAll [CHR 0x00] [] s, ReplaceAll [CHR 0x00] [] s \<noteq> s)"
  let ?p1 = "fold (\<lambda>p (s, changed). (replaceMatches p None s, changed \<or> replaceMatches p None s \<noteq> s))
      secretPatterns ?p0"
  let ?p2 = "fold (\<lambda>v (s, changed). (ReplaceAll v redactedValue s, changed \<or> ReplaceAll v redactedValue s \<noteq> s))
      (normalizedSecretValues secretValues) ?p1"
  have p2: "?p2 = (r, False)" using assms by (simp add: RedactStringWithValues_def Let_def)
  then have "snd ?p2 = False" by simp
  from step [OF this] have 1: "fst ?p2 = fst ?p1 \<and> \<not> snd ?p1" .
  then have "snd ?p1 = False" by simp
  from step [OF this] have "fst ?p1 = fst ?p0 \<and> \<not> snd ?p0" .
  with 1 p2 show ?thesis by simp
qed

lemma RedactScalar_removes:
  assumes "v \<in> set secretValues" "redactable v" "texts original = [s]"
  shows "\<forall>t \<in> set (texts (fst (redactScalarStringWithValues s original secretValues))). \<not> sublist v t"
proof (cases "RedactStringWithValues s secretValues")
  case (Pair r c)
  have "\<not> sublist v r" using RedactString_removes [OF assms(1,2), of s] Pair by simp
  moreover have "\<not> c \<Longrightarrow> r = s" using RedactString_unchanged Pair by (cases c) auto
  ultimately show ?thesis using Pair assms(3) by (auto simp: redactScalarStringWithValues_def)
qed

lemma RedactValue_removes:
  assumes "v \<in> set secretValues" "redactable v"
  shows "\<forall>t \<in> set (texts (fst (RedactValueWithValues secretValues j))). \<not> sublist v t"
    and "\<forall>t \<in> set (memberTexts acc). \<not> sublist v t \<Longrightarrow>
      \<forall>t \<in> set (memberTexts (fst (redactMembers secretValues m acc changed))). \<not> sublist v t"
    and "\<forall>t \<in> set (elementTexts (fst (redactElements secretValues js))). \<not> sublist v t"
  using assms
proof (induction secretValues j and secretValues m acc changed and secretValues js
    rule: RedactValueWithValues_redactMembers_redactElements.induct)
  case (8 secretValues key child rest acc changed)
  obtain k kc where k: "RedactStringWithValues key secretValues = (k, kc)" by fastforce
  obtain r cc where r: "RedactValueWithValues secretValues child = (r, cc)" by fastforce
  have nk: "\<not> sublist v k" using RedactString_removes [OF 8(5,6), of key] k by simp
  show ?case
  proof (cases "matchesSecretKey key")
    case True
    have "\<forall>t \<in> set (memberTexts (setKey acc k (JString redactedValue))). \<not> sublist v t"
      using memberTexts_setKey [of acc k "JString redactedValue"] 8(4) nk redactable_redactedValue [OF 8(6)]
      by fastforce
    with 8(1) [OF k [symmetric] refl True] 8(5,6) k True show ?thesis by simp
  next
    case False
    have "\<forall>t \<in> set (texts r). \<not> sublist v t"
      using 8(2) [OF k [symmetric] refl False] 8(5,6) r by simp
    then have "\<forall>t \<in> set (memberTexts (setKey acc k r)). \<not> sublist v t"
      using memberTexts_setKey [of acc k r] 8(4) nk by fastforce
    with 8(3) [OF k [symmetric] refl False r [symmetric] refl] 8(5,6) k r False show ?thesis by simp
  qed
next
  case (4 secretValues n)
  then show ?case using RedactScalar_removes [of v secretValues "JNumber n" n] by simp
next
  case (5 secretValues b)
  then show ?case
    using RedactScalar_removes [of v secretValues "JBool b" "if b then ''true'' else ''false''"] by simp
next
  case (6 secretValues)
  then show ?case using RedactScalar_removes [of v secretValues JNull "''null''"] by simp
next
  case (10 secretValues j js)
  obtain r c where "RedactValueWithValues secretValues j = (r, c)" by fastforce
  with 10 show ?case by (auto simp: split_beta)
qed (auto simp: split_beta RedactString_removes)



end
