(* ===== verification/Step_Events.thy ===== *)
theory Step_Events
  imports Task_Leases Step_Redaction
begin

text \<open>
  Step events, internal/db/step_events.go: validation, redaction, the payload hash that makes a
  repeated event idempotent, the checks against the lease and the sequence, the state changes an
  event makes to its step and task, and what is stored. The JSON encoding is outside the model:
  \<open>eventCodec\<close> gives the SHA-256 of a canonical payload, the length of \<open>json.Marshal\<close> of a value
  and the length of its \<open>jsonb\<close> text, which the table's constraint looks at.
\<close>

section \<open>Canonical payloads\<close>

record canonicalLog =
  clOccurredAt :: "timestamp option"
  clStream :: StepRunLogStream
  clSeverity :: StepRunLogSeverity
  clBody :: string
  clRedacted :: bool

record canonicalOutput =
  coName :: string
  coValue :: "json option"
  coSensitive :: bool
  coRedacted :: bool

record canonicalPayload =
  cpSequence :: int
  cpType :: StepRunEventType
  cpOccurredAt :: "timestamp option"
  cpMessage :: string
  cpProgressPercent :: "int option"
  cpDetails :: json
  cpRedacted :: bool
  cpLogs :: "canonicalLog list"
  cpOutputs :: "canonicalOutput list"

record eventCodec =
  ecDigest :: "canonicalPayload \<Rightarrow> string"
  ecJsonLength :: "json \<Rightarrow> nat"
  ecJsonbLength :: "json \<Rightarrow> nat"

record preparedStepRunOutput =
  poOutput :: RecordStepRunOutputRequest
  poValueJSON :: "json option"
  poRedactedOutput :: bool

record preparedStepRunEventRequest =
  ppRequest :: RecordAgentStepRunEventRequest
  ppDetails :: json
  ppPayloadHash :: string
  ppRedacted :: bool
  ppLogs :: "(RecordStepRunLogChunkRequest \<times> bool) list"
  ppOutputs :: "preparedStepRunOutput list"

section \<open>Validation\<close>

fun validateEventLogs :: "RecordStepRunLogChunkRequest list \<Rightarrow> unit result" where
  "validateEventLogs [] = Inr ()"
| "validateEventLogs (log # logs) =
     (if \<not> logStreamIsValid (rlStream log) then Inl (ErrBadRequest ''logs.stream is invalid'')
      else if \<not> logSeverityIsValid (rlSeverity log) then Inl (ErrBadRequest ''logs.severity is invalid'')
      else if TrimSpace (rlBody log) = [] then Inl (ErrBadRequest ''logs.body is required'')
      else if length (rlBody log) > MaxStepRunLogChunkBodyLength then Inl (ErrBadRequest ''logs.body is too long'')
      else validateEventLogs logs)"

fun validateEventOutputs ::
    "string list \<Rightarrow> RecordStepRunOutputRequest list \<Rightarrow> RecordStepRunOutputRequest list result" where
  "validateEventOutputs seen [] = Inr []"
| "validateEventOutputs seen (out # outs) =
     (let name = TrimSpace (roName out) in
      if name = [] then Inl (ErrBadRequest ''outputs.name is required'')
      else if length name > MaxStepRunOutputNameLength then Inl (ErrBadRequest ''outputs.name is too long'')
      else if \<not> IsValidStepRunOutputName name then Inl (ErrBadRequest ''outputs.name is invalid'')
      else if name \<in> set seen then Inl (ErrBadRequest ''outputs contains duplicate name'')
      else bindR (validateEventOutputs (name # seen) outs) (\<lambda>rest. Inr (out\<lparr>roName := name\<rparr> # rest)))"

text \<open>The code trims the token, the message and the output names of the request in place.\<close>

definition validateRecordAgentStepRunEventRequest ::
    "RecordAgentStepRunEventRequest \<Rightarrow> RecordAgentStepRunEventRequest result" where
  "validateRecordAgentStepRunEventRequest request =
     (let request = request\<lparr>reLeaseToken := TrimSpace (reLeaseToken request),
                            reMessage := TrimSpace (reMessage request)\<rparr> in
      if reOrganizationID request = uuid_Nil then Inl (ErrBadRequest ''organizationId is required'')
      else if reAgentID request = uuid_Nil then Inl (ErrBadRequest ''agentId is required'')
      else if reStepRunID request = uuid_Nil then Inl (ErrBadRequest ''stepRunId is required'')
      else if reLeaseToken request = [] then Inl (ErrBadRequest ''leaseToken is required'')
      else if reSequence request \<le> 0 then Inl (ErrBadRequest ''sequence must be greater than 0'')
      else if \<not> eventTypeIsValid (reType request) then Inl (ErrBadRequest ''type is invalid'')
      else if length (reMessage request) > MaxStepRunEventMessageLength then Inl (ErrBadRequest ''message is too long'')
      else if (case reProgressPercent request of None \<Rightarrow> False | Some p \<Rightarrow> p < 0 \<or> p > 100)
        then Inl (ErrBadRequest ''progressPercent must be between 0 and 100'')
      else if length (reLogs request) > MaxStepRunEventLogChunkCount
        then Inl (ErrBadRequest ''logs contains too many entries'')
      else bindR (validateEventLogs (reLogs request)) (\<lambda>_.
        if length (reOutputs request) > MaxStepRunEventOutputItemCount
          then Inl (ErrBadRequest ''outputs contains too many entries'')
        else bindR (validateEventOutputs [] (reOutputs request)) (\<lambda>outs.
          Inr (request\<lparr>reOutputs := outs\<rparr>))))"

section \<open>Preparation\<close>

definition prepareLog :: "string list \<Rightarrow> RecordStepRunLogChunkRequest \<Rightarrow> RecordStepRunLogChunkRequest \<times> bool" where
  "prepareLog secretValues log =
     (let (body, redacted) = RedactStringWithValues (rlBody log) secretValues in
      (log\<lparr>rlBody := body\<rparr>, redacted))"

definition prepareOutput ::
    "eventCodec \<Rightarrow> string list \<Rightarrow> RecordStepRunOutputRequest \<Rightarrow> preparedStepRunOutput result" where
  "prepareOutput C secretValues out =
     (let out = out\<lparr>roName := TrimSpace (roName out)\<rparr> in
      if roSensitive out
        then Inr \<lparr>poOutput = out, poValueJSON = None, poRedactedOutput = True\<rparr>
      else let (val, redacted) = RedactValueWithValues secretValues (roValue out) in
        if ecJsonLength C val > MaxStepRunOutputValueBytes then Inl (ErrBadRequest ''output value is too large'')
        else Inr \<lparr>poOutput = out\<lparr>roValue := val\<rparr>, poValueJSON = Some val, poRedactedOutput = redacted\<rparr>)"

definition canonicalOutputs :: "preparedStepRunOutput list \<Rightarrow> canonicalOutput list" where
  "canonicalOutputs outs =
     SortStable (\<lambda>a b. coName a < coName b)
       (map (\<lambda>p. \<lparr>coName = roName (poOutput p), coValue = poValueJSON p,
                  coSensitive = roSensitive (poOutput p), coRedacted = poRedactedOutput p\<rparr>) outs)"

definition stepRunEventPayloadHash :: "eventCodec \<Rightarrow> preparedStepRunEventRequest \<Rightarrow> string" where
  "stepRunEventPayloadHash C p =
     (let r = ppRequest p in
      ''sha256:'' @ ecDigest C
        \<lparr>cpSequence = reSequence r, cpType = reType r, cpOccurredAt = reOccurredAt r, cpMessage = reMessage r,
         cpProgressPercent = reProgressPercent r, cpDetails = ppDetails p, cpRedacted = ppRedacted p,
         cpLogs = map (\<lambda>(l, red). \<lparr>clOccurredAt = rlOccurredAt l, clStream = rlStream l,
                        clSeverity = rlSeverity l, clBody = rlBody l, clRedacted = red\<rparr>) (ppLogs p),
         cpOutputs = canonicalOutputs (ppOutputs p)\<rparr>)"

definition prepareStepRunEventRequest ::
    "eventCodec \<Rightarrow> RecordAgentStepRunEventRequest \<Rightarrow> string list \<Rightarrow> preparedStepRunEventRequest result" where
  "prepareStepRunEventRequest C request secretValues =
     bindR (validateRecordAgentStepRunEventRequest request) (\<lambda>request.
       let (message, messageRedacted) = RedactStringWithValues (reMessage request) secretValues;
           (details, detailsRedacted) =
             (case reDetails request of
                None \<Rightarrow> (JObject [], False)
              | Some m \<Rightarrow> RedactValueWithValues secretValues (JObject m))
       in if ecJsonLength C details > MaxStepRunEventDetailsBytes then Inl (ErrBadRequest ''details is too large'')
       else let logs = map (prepareLog secretValues) (reLogs request) in
         bindR (mapR (prepareOutput C secretValues) (reOutputs request)) (\<lambda>outs.
           let p = \<lparr>ppRequest = request\<lparr>reMessage := message\<rparr>, ppDetails = details, ppPayloadHash = [],
                    ppRedacted = (messageRedacted \<or> detailsRedacted \<or> list_ex snd logs \<or> list_ex poRedactedOutput outs),
                    ppLogs = logs, ppOutputs = outs\<rparr>
           in Inr (p\<lparr>ppPayloadHash := stepRunEventPayloadHash C p\<rparr>)))"

section \<open>The event's target and lease\<close>

record stepRunEventTarget =
  etTaskID :: uuid
  etAgentID :: uuid
  etTaskStatus :: TaskStatus
  etStepStatus :: StepRunStatus

definition getStepRunEventTargetForUpdate :: "uuid \<Rightarrow> uuid \<Rightarrow> stepRunEventTarget tx" where
  "getStepRunEventTargetForUpdate orgID stepRunID db =
     (case findStepRun stepRunID orgID db of
        None \<Rightarrow> Inl ErrNotFound
      | Some sr \<Rightarrow>
     (case findTask (srTaskID sr) (srOrganizationID sr) db of
        None \<Rightarrow> Inl ErrNotFound
      | Some t \<Rightarrow> Inr (\<lparr>etTaskID = tkID t, etAgentID = tkDeploymentTargetID t,
                       etTaskStatus = tkStatus t, etStepStatus = srStatus sr\<rparr>, db)))"

record stepRunEventLease =
  elID :: uuid
  elExpired :: bool
  elReleased :: bool

definition getTaskLeaseForStepRunEvent ::
    "platform \<Rightarrow> timestamp \<Rightarrow> RecordAgentStepRunEventRequest \<Rightarrow> uuid \<Rightarrow> TaskExecutorType \<Rightarrow> stepRunEventLease tx" where
  "getTaskLeaseForStepRunEvent P now request taskID executorType db =
     (case find (\<lambda>l. tlOrganizationID l = reOrganizationID request \<and> tlAgentID l = reAgentID request
                 \<and> tlTaskID l = taskID \<and> tlExecutorType l = executorType
                 \<and> tlLeaseTokenHash l = hashTaskLeaseToken P (reLeaseToken request)) (dbLeases db) of
        None \<Rightarrow> Inl ErrNotFound
      | Some l \<Rightarrow> Inr (\<lparr>elID = tlID l, elExpired = (tlExpiresAt l \<le> now), elReleased = (tlReleasedAt l \<noteq> None)\<rparr>, db))"

definition getStepRunSecretValuesForRedaction :: "uuid \<Rightarrow> uuid \<Rightarrow> database \<Rightarrow> string list result" where
  "getStepRunSecretValuesForRedaction orgID stepRunID db =
     (case findStepRun stepRunID orgID db of
        None \<Rightarrow> Inl ErrNotFound
      | Some sr \<Rightarrow>
     (case findTask (srTaskID sr) (srOrganizationID sr) db of
        None \<Rightarrow> Inl ErrNotFound
      | Some t \<Rightarrow>
     (case planStepOf db sr of
        None \<Rightarrow> Inl ErrNotFound
      | Some dps \<Rightarrow>
          secretValuesForRedaction (getTaskLeaseSecretValue db t) (dpsActionType dps)
            (case dpsInputBindings dps of None \<Rightarrow> [] | Some b \<Rightarrow> b))))"

section \<open>Stored events\<close>

definition eventLogs :: "database \<Rightarrow> uuid \<Rightarrow> uuid \<Rightarrow> StepRunLogChunk list" where
  "eventLogs db eventID orgID =
     SortStable (\<lambda>a b. lcChunkIndex a < lcChunkIndex b \<or> lcChunkIndex a = lcChunkIndex b \<and> lcID a < lcID b)
       (filter (\<lambda>l. lcEventID l = eventID \<and> lcOrganizationID l = orgID) (dbLogChunks db))"

definition eventOutputs :: "platform \<Rightarrow> database \<Rightarrow> uuid \<Rightarrow> uuid \<Rightarrow> StepRunOutput list" where
  "eventOutputs P db eventID orgID =
     SortStable (\<lambda>a b. if outName a \<noteq> outName b then pfCollate P (outName a) (outName b) else outID a < outID b)
       (filter (\<lambda>o1. outEventID o1 = eventID \<and> outOrganizationID o1 = orgID) (dbOutputs db))"

definition hydrateEvent :: "platform \<Rightarrow> database \<Rightarrow> StepRunEvent \<Rightarrow> StepRunEvent" where
  "hydrateEvent P db e =
     e\<lparr>evLogs := eventLogs db (evID e) (evOrganizationID e),
       evOutputs := eventOutputs P db (evID e) (evOrganizationID e)\<rparr>"

definition getStepRunEvent :: "platform \<Rightarrow> uuid \<Rightarrow> uuid \<Rightarrow> StepRunEvent tx" where
  "getStepRunEvent P eventID orgID db =
     (case find (\<lambda>r. evID (erEvent r) = eventID \<and> evOrganizationID (erEvent r) = orgID) (dbEvents db) of
        None \<Rightarrow> Inl ErrNotFound
      | Some r \<Rightarrow> Inr (hydrateEvent P db (erEvent r), db))"

definition eventAt :: "uuid \<Rightarrow> uuid \<Rightarrow> uuid \<Rightarrow> StepRunEventRow \<Rightarrow> bool" where
  "eventAt orgID stepRunID leaseID r \<longleftrightarrow> evOrganizationID (erEvent r) = orgID
     \<and> evStepRunID (erEvent r) = stepRunID \<and> evTaskLeaseID (erEvent r) = leaseID"

definition getStepRunEventBySequence :: "uuid \<Rightarrow> uuid \<Rightarrow> uuid \<Rightarrow> int \<Rightarrow> database \<Rightarrow> StepRunEventRow option" where
  "getStepRunEventBySequence orgID stepRunID leaseID sequence db =
     find (\<lambda>r. eventAt orgID stepRunID leaseID r \<and> evSequence (erEvent r) = sequence) (dbEvents db)"

definition getMaxStepRunEventSequence :: "uuid \<Rightarrow> uuid \<Rightarrow> uuid \<Rightarrow> database \<Rightarrow> int" where
  "getMaxStepRunEventSequence orgID stepRunID leaseID db =
     (case map (\<lambda>r. evSequence (erEvent r)) (filter (eventAt orgID stepRunID leaseID) (dbEvents db)) of
        [] \<Rightarrow> 0 | s # ss \<Rightarrow> fold max ss s)"

section \<open>State changes\<close>

definition completeTaskIfStepRunsTerminal :: "timestamp \<Rightarrow> uuid \<Rightarrow> uuid \<Rightarrow> unit tx" where
  "completeTaskIfStepRunsTerminal now taskID orgID =
     bindT (queryT (\<lambda>db. filter (\<lambda>r. srTaskID r = taskID \<and> srOrganizationID r = orgID) (dbStepRuns db))) (\<lambda>runs.
       let incomplete = length (filter (\<lambda>r. srStatus r \<notin> {StepRunStatusSucceeded, StepRunStatusSkipped, StepRunStatusFailed}) runs);
           failed = length (filter (\<lambda>r. srStatus r = StepRunStatusFailed) runs)
       in if failed > 0 then updateTaskStatus now taskID orgID TaskStatusFailed
       else if incomplete = 0 then updateTaskStatus now taskID orgID TaskStatusSucceeded
       else returnT ())"

definition applyStepRunEventTransition ::
    "timestamp \<Rightarrow> stepRunEventTarget \<Rightarrow> RecordAgentStepRunEventRequest \<Rightarrow> unit tx" where
  "applyStepRunEventTransition now target request =
     (let step = reStepRunID request; orgID = reOrganizationID request in
      if etTaskStatus target \<noteq> TaskStatusRunning
        then failT (ErrConflict ''task must be RUNNING to record step events'')
      else case reType request of
        StepRunEventTypeStarted \<Rightarrow>
          if etStepStatus target \<noteq> StepRunStatusPending then failT (ErrConflict ''step run must be PENDING to start'')
          else updateStepRunStatus now step orgID StepRunStatusRunning
      | StepRunEventTypeProgress \<Rightarrow>
          if etStepStatus target \<noteq> StepRunStatusRunning
            then failT (ErrConflict ''step run must be RUNNING to record progress'') else returnT ()
      | StepRunEventTypeLog \<Rightarrow>
          if etStepStatus target \<noteq> StepRunStatusRunning
            then failT (ErrConflict ''step run must be RUNNING to record progress'') else returnT ()
      | StepRunEventTypeOutput \<Rightarrow>
          if etStepStatus target \<noteq> StepRunStatusRunning
            then failT (ErrConflict ''step run must be RUNNING to record progress'') else returnT ()
      | StepRunEventTypeSucceeded \<Rightarrow>
          if etStepStatus target \<noteq> StepRunStatusRunning then failT (ErrConflict ''step run must be RUNNING to succeed'')
          else bindT (updateStepRunStatus now step orgID StepRunStatusSucceeded) (\<lambda>_.
               completeTaskIfStepRunsTerminal now (etTaskID target) orgID)
      | StepRunEventTypeFailed \<Rightarrow>
          if etStepStatus target \<noteq> StepRunStatusRunning then failT (ErrConflict ''step run must be RUNNING to fail'')
          else bindT (updateStepRunStatus now step orgID StepRunStatusFailed) (\<lambda>_.
               updateTaskStatus now (etTaskID target) orgID TaskStatusFailed)
      | StepRunEventTypeOther _ \<Rightarrow> failT (ErrBadRequest ''type is invalid''))"

definition validateStepRunOutputNameLimit :: "uuid \<Rightarrow> uuid \<Rightarrow> preparedStepRunOutput list \<Rightarrow> unit tx" where
  "validateStepRunOutputNameLimit orgID stepRunID outs =
     (if outs = [] then returnT ()
      else bindT (queryT (\<lambda>db. map outName
             (filter (\<lambda>o1. outOrganizationID o1 = orgID \<and> outStepRunID o1 = stepRunID) (dbOutputs db)))) (\<lambda>existing.
        if length (remdups (map (\<lambda>p. roName (poOutput p)) outs @ existing)) > MaxStepRunEventOutputItemCount
          then failT (ErrConflict ''step run output name limit exceeded'')
        else returnT ()))"

section \<open>Inserting\<close>

text \<open>SQL's \<open>length\<close> counts characters: bytes that are not UTF-8 continuation bytes.\<close>

definition sqlLength :: "string \<Rightarrow> nat" where
  "sqlLength s = length (filter (\<lambda>c. \<not> (128 \<le> (of_char c :: nat) \<and> (of_char c :: nat) < 192)) s)"

definition insertStepRunEvent ::
    "platform \<Rightarrow> eventCodec \<Rightarrow> timestamp \<Rightarrow> preparedStepRunEventRequest \<Rightarrow> uuid \<Rightarrow> uuid \<Rightarrow> uuid tx" where
  "insertStepRunEvent P C now p taskID leaseID =
     (let r = ppRequest p in
      bindT (randomUuid P) (\<lambda>eventID.
      bindT (queryT dbEvents) (\<lambda>events.
        if sqlLength (reMessage r) > 2048 \<or> ecJsonbLength C (ppDetails p) > 16384
          then failT (ErrBadRequest ''could not insert event StepRunEvent'')
        else if eventID \<in> (\<lambda>e. evID (erEvent e)) ` set events
             \<or> (\<exists>e \<in> set events. evStepRunID (erEvent e) = reStepRunID r
                  \<and> evTaskLeaseID (erEvent e) = leaseID \<and> evSequence (erEvent e) = reSequence r)
          then failT (ErrConflict ''could not insert event StepRunEvent'')
        else bindT (execT (\<lambda>db. db\<lparr>dbEvents := dbEvents db @
               [\<lparr>erEvent = \<lparr>evID = eventID, evCreatedAt = now,
                   evOccurredAt = (case reOccurredAt r of None \<Rightarrow> now | Some t \<Rightarrow> t),
                   evOrganizationID = reOrganizationID r, evTaskID = taskID, evStepRunID = reStepRunID r,
                   evTaskLeaseID = leaseID, evAgentID = reAgentID r, evSequence = reSequence r,
                   evType = reType r, evMessage = reMessage r, evProgressPercent = reProgressPercent r,
                   evDetails = (case ppDetails p of JObject m \<Rightarrow> m | _ \<Rightarrow> []), evRedacted = ppRedacted p,
                   evLogs = [], evOutputs = []\<rparr>, erPayloadHash = ppPayloadHash p\<rparr>]\<rparr>)) (\<lambda>_.
             returnT eventID))))"

fun insertLogChunks ::
    "platform \<Rightarrow> timestamp \<Rightarrow> timestamp \<Rightarrow> uuid \<Rightarrow> uuid \<Rightarrow> uuid \<Rightarrow> RecordAgentStepRunEventRequest \<Rightarrow> nat \<Rightarrow>
     (RecordStepRunLogChunkRequest \<times> bool) list \<Rightarrow> unit tx" where
  "insertLogChunks P now occurred eventID taskID leaseID r i [] = returnT ()"
| "insertLogChunks P now occurred eventID taskID leaseID r i ((log, redacted) # logs) =
     bindT (randomUuid P) (\<lambda>chunkID.
     bindT (queryT dbLogChunks) (\<lambda>chunks.
       if sqlTrim (rlBody log) = [] \<or> length (rlBody log) > 8192
         then failT (ErrBadRequest ''could not insert log chunk StepRunEvent'')
       else if chunkID \<in> lcID ` set chunks
         then failT (ErrConflict ''could not insert log chunk StepRunEvent'')
       else bindT (execT (\<lambda>db. db\<lparr>dbLogChunks := dbLogChunks db @
              [\<lparr>lcID = chunkID, lcCreatedAt = now,
                lcOccurredAt = (case rlOccurredAt log of None \<Rightarrow> occurred | Some t \<Rightarrow> t),
                lcEventID = eventID, lcOrganizationID = reOrganizationID r, lcTaskID = taskID,
                lcStepRunID = reStepRunID r, lcTaskLeaseID = leaseID, lcAgentID = reAgentID r,
                lcChunkIndex = i, lcStream = rlStream log, lcSeverity = rlSeverity log,
                lcBody = rlBody log, lcRedacted = redacted\<rparr>]\<rparr>)) (\<lambda>_.
            insertLogChunks P now occurred eventID taskID leaseID r (i + 1) logs)))"

definition insertStepRunLogChunks ::
    "platform \<Rightarrow> timestamp \<Rightarrow> uuid \<Rightarrow> uuid \<Rightarrow> uuid \<Rightarrow> preparedStepRunEventRequest \<Rightarrow> unit tx" where
  "insertStepRunLogChunks P now eventID taskID leaseID p =
     insertLogChunks P now (case reOccurredAt (ppRequest p) of None \<Rightarrow> now | Some t \<Rightarrow> t)
       eventID taskID leaseID (ppRequest p) 0 (ppLogs p)"

fun insertOutputs ::
    "platform \<Rightarrow> timestamp \<Rightarrow> uuid \<Rightarrow> uuid \<Rightarrow> uuid \<Rightarrow> RecordAgentStepRunEventRequest \<Rightarrow>
     preparedStepRunOutput list \<Rightarrow> unit tx" where
  "insertOutputs P now eventID taskID leaseID r [] = returnT ()"
| "insertOutputs P now eventID taskID leaseID r (p # ps) =
     bindT (randomUuid P) (\<lambda>outputID.
     bindT (queryT dbOutputs) (\<lambda>outs.
       if outputID \<in> outID ` set outs
          \<or> (\<exists>o1 \<in> set outs. outEventID o1 = eventID \<and> outName o1 = roName (poOutput p))
         then failT (ErrConflict ''could not upsert output StepRunEvent'')
       else bindT (execT (\<lambda>db. db\<lparr>dbOutputs := dbOutputs db @
              [\<lparr>outID = outputID, outCreatedAt = now, outUpdatedAt = now, outEventID = eventID,
                outOrganizationID = reOrganizationID r, outTaskID = taskID, outStepRunID = reStepRunID r,
                outTaskLeaseID = leaseID, outAgentID = reAgentID r, outName = roName (poOutput p),
                outValue = poValueJSON p, outSensitive = roSensitive (poOutput p),
                outRedacted = poRedactedOutput p\<rparr>]\<rparr>)) (\<lambda>_.
            insertOutputs P now eventID taskID leaseID r ps)))"

definition insertStepRunOutputs ::
    "platform \<Rightarrow> timestamp \<Rightarrow> uuid \<Rightarrow> uuid \<Rightarrow> uuid \<Rightarrow> preparedStepRunEventRequest \<Rightarrow> unit tx" where
  "insertStepRunOutputs P now eventID taskID leaseID p =
     insertOutputs P now eventID taskID leaseID (ppRequest p) (ppOutputs p)"

section \<open>Recording an event\<close>

text \<open>What is stored and changed for an event that is new.\<close>

definition storeEvent ::
    "platform \<Rightarrow> eventCodec \<Rightarrow> timestamp \<Rightarrow> TaskExecutorType \<Rightarrow> stepRunEventTarget \<Rightarrow> uuid \<Rightarrow>
     preparedStepRunEventRequest \<Rightarrow> StepRunEvent tx" where
  "storeEvent P C now executorType target leaseID p =
     (let r = ppRequest p; orgID = reOrganizationID r; step = reStepRunID r in
      bindT (queryT (getMaxStepRunEventSequence orgID step leaseID)) (\<lambda>maxSequence.
        if reSequence r \<noteq> maxSequence + 1 then failT (ErrConflict ''step event sequence is out of order'')
        else
      bindT (validateStepRunOutputNameLimit orgID step (ppOutputs p)) (\<lambda>_.
      bindT (applyStepRunEventTransition now target r) (\<lambda>_.
      bindT (insertStepRunEvent P C now p (etTaskID target) leaseID) (\<lambda>eventID.
      bindT (insertStepRunLogChunks P now eventID (etTaskID target) leaseID p) (\<lambda>_.
      bindT (insertStepRunOutputs P now eventID (etTaskID target) leaseID p) (\<lambda>_.
      bindT (if reType r = StepRunEventTypeSucceeded
             then releaseTaskLeaseIfExecutorBatchComplete P now (etTaskID target) orgID leaseID
                    (ExecutionLocation executorType)
             else returnT ()) (\<lambda>_.
        getStepRunEvent P eventID orgID))))))))"

definition recordEventTx ::
    "platform \<Rightarrow> eventCodec \<Rightarrow> timestamp \<Rightarrow> TaskExecutorType \<Rightarrow> RecordAgentStepRunEventRequest \<Rightarrow> StepRunEvent tx" where
  "recordEventTx P C now executorType request =
     (let orgID = reOrganizationID request; step = reStepRunID request in
      bindT (getStepRunEventTargetForUpdate orgID step) (\<lambda>target.
        if etAgentID target \<noteq> reAgentID request then failT ErrNotFound
        else
      bindT (getTaskLeaseForStepRunEvent P now request (etTaskID target) executorType) (\<lambda>lease.
      bindT (\<lambda>db. liftT (getStepRunSecretValuesForRedaction orgID step db) db) (\<lambda>secretValues.
      bindT (liftT (prepareStepRunEventRequest C request secretValues)) (\<lambda>p.
      bindT (queryT (getStepRunEventBySequence orgID step (elID lease) (reSequence request))) (\<lambda>existing.
        case existing of
          Some row \<Rightarrow>
            if erPayloadHash row \<noteq> ppPayloadHash p
              then failT (ErrConflict ''step event sequence already recorded with different payload'')
            else getStepRunEvent P (evID (erEvent row)) orgID
        | None \<Rightarrow>
            if elReleased lease then failT (ErrConflict ''task lease has been released'')
            else if elExpired lease then failT (ErrConflict ''task lease has expired'')
            else storeEvent P C now executorType target (elID lease) p))))))"

definition recordStepRunEvent ::
    "platform \<Rightarrow> eventCodec \<Rightarrow> timestamp \<Rightarrow> RecordAgentStepRunEventRequest \<Rightarrow> TaskExecutorType \<Rightarrow> database \<Rightarrow>
     StepRunEvent result \<times> database" where
  "recordStepRunEvent P C now request executorType db =
     (case validateRecordAgentStepRunEventRequest request of
        Inl e \<Rightarrow> (Inl e, db)
      | Inr request \<Rightarrow>
          if \<not> executorTypeIsValid executorType then (Inl (ErrBadRequest ''executorType is invalid''), db)
          else RunTx (recordEventTx P C now executorType request) db)"

definition RecordAgentStepRunEvent ::
    "platform \<Rightarrow> eventCodec \<Rightarrow> timestamp \<Rightarrow> RecordAgentStepRunEventRequest \<Rightarrow> database \<Rightarrow>
     StepRunEvent result \<times> database" where
  "RecordAgentStepRunEvent P C now request db = recordStepRunEvent P C now request TaskExecutorTypeAgent db"

definition RecordHubStepRunEvent ::
    "platform \<Rightarrow> eventCodec \<Rightarrow> timestamp \<Rightarrow> RecordHubStepRunEventRequest \<Rightarrow> database \<Rightarrow>
     StepRunEvent result \<times> database" where
  "RecordHubStepRunEvent P C now request db =
     recordStepRunEvent P C now
       \<lparr>reOrganizationID = rhOrganizationID request, reAgentID = rhDeploymentTargetID request,
        reStepRunID = rhStepRunID request, reLeaseToken = rhLeaseToken request,
        reSequence = rhSequence request, reType = rhType request, reOccurredAt = rhOccurredAt request,
        reMessage = rhMessage request, reProgressPercent = rhProgressPercent request,
        reDetails = rhDetails request, reLogs = rhLogs request, reOutputs = rhOutputs request\<rparr>
       TaskExecutorTypeHub db"

section \<open>Timelines\<close>

definition sortKeyOf :: "database \<Rightarrow> StepRunEvent \<Rightarrow> (int \<times> int \<times> int \<times> uuid) option" where
  "sortKeyOf db e =
     (case (find (\<lambda>r. srID r = evStepRunID e \<and> srOrganizationID r = evOrganizationID e) (dbStepRuns db),
            find (\<lambda>l. tlID l = evTaskLeaseID e \<and> tlTaskID l = evTaskID e \<and> tlAgentID l = evAgentID e
                    \<and> tlOrganizationID l = evOrganizationID e) (dbLeases db)) of
        (Some r, Some l) \<Rightarrow> Some (srSortOrder r, tlAttempt l, evSequence e, evID e)
      | _ \<Rightarrow> None)"

definition keyLess :: "int \<times> int \<times> int \<times> uuid \<Rightarrow> int \<times> int \<times> int \<times> uuid \<Rightarrow> bool" where
  "keyLess a b =
     (let (s, t, u, i) = a; (s', t', u', i') = b in
      s < s' \<or> s = s' \<and> (t < t' \<or> t = t' \<and> (u < u' \<or> u = u' \<and> i < i')))"

definition timelineEvents :: "platform \<Rightarrow> database \<Rightarrow> (StepRunEvent \<Rightarrow> bool) \<Rightarrow> StepRunEvent list" where
  "timelineEvents P db wanted =
     map (\<lambda>(k, e). hydrateEvent P db e)
       (SortStable (\<lambda>a b. keyLess (fst a) (fst b))
         (concat (map (\<lambda>r. case sortKeyOf db (erEvent r) of None \<Rightarrow> [] | Some k \<Rightarrow> [(k, erEvent r)])
            (filter (\<lambda>r. wanted (erEvent r)) (dbEvents db)))))"

definition GetTaskTimeline :: "platform \<Rightarrow> uuid \<Rightarrow> uuid \<Rightarrow> database \<Rightarrow> StepRunEvent list result" where
  "GetTaskTimeline P taskID orgID db =
     (case findTask taskID orgID db of
        None \<Rightarrow> Inl ErrNotFound
      | Some t \<Rightarrow> Inr (timelineEvents P db (\<lambda>e. evTaskID e = taskID \<and> evOrganizationID e = orgID)))"

definition GetTaskTimelineForLease ::
    "platform \<Rightarrow> uuid \<Rightarrow> uuid \<Rightarrow> uuid \<Rightarrow> uuid \<Rightarrow> database \<Rightarrow> StepRunEvent list result" where
  "GetTaskTimelineForLease P taskID orgID leaseID agentID db =
     (if leaseID = uuid_Nil then Inl (ErrBadRequest ''taskLeaseId is required'')
      else if agentID = uuid_Nil then Inl (ErrBadRequest ''agentId is required'')
      else case findTask taskID orgID db of
        None \<Rightarrow> Inl ErrNotFound
      | Some t \<Rightarrow> Inr (timelineEvents P db (\<lambda>e. evTaskID e = taskID \<and> evOrganizationID e = orgID
                     \<and> evTaskLeaseID e = leaseID \<and> evAgentID e = agentID)))"

end
