(* ===== verification/Task_Invariants.thy ===== *)
theory Task_Invariants
  imports Step_Events
begin

text \<open>
  What the tables of the task queue satisfy in every state that the operations of
  internal/db/task_queue.go, task_leases.go and step_events.go reach, and what no operation ever
  changes again. Each transaction of the code is shown to preserve both, by Hoare triples over
  its statements; the machine of all operations is in \<open>Task_System\<close>.
\<close>

section \<open>The invariant\<close>

text \<open>A lock is held from its acquisition to its release.\<close>

definition lockHeld :: "TaskResourceLock \<Rightarrow> bool" where
  "lockHeld l = (tlkAcquiredAt l \<noteq> None \<and> tlkReleasedAt l = None)"

definition lockFits :: "TaskStatus \<Rightarrow> TaskResourceLock \<Rightarrow> bool" where
  "lockFits status l =
     (case status of
        TaskStatusQueued \<Rightarrow> tlkAcquiredAt l = None \<and> tlkReleasedAt l = None
      | TaskStatusRunning \<Rightarrow> lockHeld l
      | _ \<Rightarrow> tlkReleasedAt l \<noteq> None)"

definition leaseFits :: "TaskStatus \<Rightarrow> TaskLeaseRow \<Rightarrow> bool" where
  "leaseFits status l =
     (status \<noteq> TaskStatusQueued \<and> status \<noteq> TaskStatusCanceled
      \<and> (tlReleasedAt l = None \<longrightarrow> status = TaskStatusRunning))"

definition locksOwned :: "Task list \<Rightarrow> TaskResourceLock list \<Rightarrow> bool" where
  "locksOwned ts ls \<longleftrightarrow> (\<forall>l \<in> set ls. \<exists>t \<in> set ts.
     tkID t = tlkTaskID l \<and> tkOrganizationID t = tlkOrganizationID l \<and> lockFits (tkStatus t) l)"

definition leasesOwned :: "Task list \<Rightarrow> TaskLeaseRow list \<Rightarrow> bool" where
  "leasesOwned ts ls \<longleftrightarrow> (\<forall>l \<in> set ls. \<exists>t \<in> set ts.
     tkID t = tlTaskID l \<and> tkOrganizationID t = tlOrganizationID l \<and> leaseFits (tkStatus t) l)"

text \<open>Two tasks hold a lock of the same resource only if one of the locks allows it.\<close>

definition locksExclusive :: "TaskResourceLock list \<Rightarrow> bool" where
  "locksExclusive ls \<longleftrightarrow> (\<forall>l \<in> set ls. \<forall>k \<in> set ls.
     sameResource l k \<and> tlkTaskID l \<noteq> tlkTaskID k \<and> lockHeld l \<and> lockHeld k
       \<longrightarrow> tlkConcurrencyPolicy l = TaskConcurrencyPolicyAllowParallel
         \<or> tlkConcurrencyPolicy k = TaskConcurrencyPolicyAllowParallel)"

definition oneActiveLease :: "TaskLeaseRow list \<Rightarrow> bool" where
  "oneActiveLease ls \<longleftrightarrow> distinct (map tlTaskID (filter (\<lambda>l. tlReleasedAt l = None) ls))"

definition attemptsIncrease :: "TaskLeaseRow list \<Rightarrow> bool" where
  "attemptsIncrease ls \<longleftrightarrow>
     (\<forall>task. sorted_wrt (<) (0 # map tlAttempt (filter (\<lambda>l. tlTaskID l = task) ls)))"

definition queueInv :: "Task list \<Rightarrow> TaskResourceLock list \<Rightarrow> TaskLeaseRow list \<Rightarrow> bool" where
  "queueInv ts locks leases \<longleftrightarrow>
     distinct (map tkID ts) \<and> (\<forall>t \<in> set ts. taskStatusIsValid (tkStatus t))
     \<and> locksOwned ts locks \<and> locksExclusive locks
     \<and> leasesOwned ts leases \<and> oneActiveLease leases \<and> attemptsIncrease leases"

text \<open>The events of a step under one lease are numbered from 1 without a gap.\<close>

definition eventsInv :: "StepRunEventRow list \<Rightarrow> bool" where
  "eventsInv es \<longleftrightarrow> (\<forall>org step lease.
     map (\<lambda>r. evSequence (erEvent r)) (filter (eventAt org step lease) es)
       = map int [1..<Suc (length (filter (eventAt org step lease) es))])"

section \<open>What never changes again\<close>

definition laterStatus :: "TaskStatus \<Rightarrow> TaskStatus \<Rightarrow> bool" where
  "laterStatus s s' =
     (s' = s \<or> s = TaskStatusQueued
      \<or> s = TaskStatusRunning \<and> (s' = TaskStatusSucceeded \<or> s' = TaskStatusFailed))"

definition laterTask :: "Task \<Rightarrow> Task \<Rightarrow> bool" where
  "laterTask t t' \<longleftrightarrow>
     tkID t' = tkID t \<and> tkOrganizationID t' = tkOrganizationID t
     \<and> tkDeploymentPlanID t' = tkDeploymentPlanID t
     \<and> tkDeploymentPlanTargetID t' = tkDeploymentPlanTargetID t
     \<and> tkDeploymentTargetID t' = tkDeploymentTargetID t
     \<and> tkReleaseBundleID t' = tkReleaseBundleID t \<and> tkQueueOrder t' = tkQueueOrder t
     \<and> laterStatus (tkStatus t) (tkStatus t')
     \<and> (taskStatusIsTerminal (tkStatus t) \<longrightarrow> t' = t)"

definition laterDatabase :: "database \<Rightarrow> database \<Rightarrow> bool" where
  "laterDatabase db0 db \<longleftrightarrow>
     (\<forall>t \<in> set (dbTasks db0). \<exists>t' \<in> set (dbTasks db). laterTask t t')
     \<and> (\<forall>l \<in> set (dbLocks db0). tlkReleasedAt l \<noteq> None \<longrightarrow> l \<in> set (dbLocks db))
     \<and> (\<forall>l \<in> set (dbLeases db0). tlReleasedAt l \<noteq> None \<longrightarrow> l \<in> set (dbLeases db))
     \<and> set (dbEvents db0) \<subseteq> set (dbEvents db)
     \<and> set (dbLogChunks db0) \<subseteq> set (dbLogChunks db) \<and> set (dbOutputs db0) \<subseteq> set (dbOutputs db)"

definition good :: "database \<Rightarrow> database \<Rightarrow> bool" where
  "good db0 db \<longleftrightarrow>
     queueInv (dbTasks db) (dbLocks db) (dbLeases db) \<and> eventsInv (dbEvents db) \<and> laterDatabase db0 db"

lemma laterStatus_refl [simp]: "laterStatus s s"
  by (simp add: laterStatus_def)

lemma laterStatus_trans: "laterStatus a b \<Longrightarrow> laterStatus b c \<Longrightarrow> laterStatus a c"
  by (auto simp: laterStatus_def)

lemma laterTask_refl [simp]: "laterTask t t"
  by (simp add: laterTask_def)

lemma laterTask_trans: "laterTask a b \<Longrightarrow> laterTask b c \<Longrightarrow> laterTask a c"
  unfolding laterTask_def by (metis laterStatus_trans)

lemma laterDatabase_refl [simp]: "laterDatabase db db"
  unfolding laterDatabase_def using laterTask_refl by blast

lemma laterDatabase_cong:
  "dbTasks db' = dbTasks db \<Longrightarrow> dbLocks db' = dbLocks db \<Longrightarrow> dbLeases db' = dbLeases db
   \<Longrightarrow> dbEvents db' = dbEvents db \<Longrightarrow> dbLogChunks db' = dbLogChunks db \<Longrightarrow> dbOutputs db' = dbOutputs db
   \<Longrightarrow> laterDatabase db0 db' = laterDatabase db0 db"
  by (simp add: laterDatabase_def)

text \<open>The tables that no part of \<open>good\<close> speaks of.\<close>

lemma good_other [simp]:
  "good db0 (db\<lparr>dbStepRuns := a\<rparr>) = good db0 db" "good db0 (db\<lparr>dbPlans := b\<rparr>) = good db0 db"
  "good db0 (db\<lparr>dbPlanTargets := c\<rparr>) = good db0 db" "good db0 (db\<lparr>dbPlanTargetComponents := d\<rparr>) = good db0 db"
  "good db0 (db\<lparr>dbPlanSteps := e\<rparr>) = good db0 db" "good db0 (db\<lparr>dbBundles := f\<rparr>) = good db0 db"
  "good db0 (db\<lparr>dbSecrets := g\<rparr>) = good db0 db" "good db0 (db\<lparr>dbTaskQueueOrder := h\<rparr>) = good db0 db"
  "good db0 (db\<lparr>dbRandom := i\<rparr>) = good db0 db"
  by (simp_all add: good_def cong: laterDatabase_cong)

lemma laterDatabase_tasks:
  assumes "laterDatabase db0 db" "\<And>t. t \<in> set (dbTasks db) \<Longrightarrow> P t \<Longrightarrow> laterTask t (f t)"
  shows "laterDatabase db0 (db\<lparr>dbTasks := updateWhere P f (dbTasks db)\<rparr>)"
proof -
  have "\<exists>t' \<in> set (updateWhere P f (dbTasks db)). laterTask t t'"
    if later: "\<exists>t' \<in> set (dbTasks db). laterTask t t'" for t
  proof -
    obtain t1 where t1: "t1 \<in> set (dbTasks db)" "laterTask t t1" using later by blast
    have "laterTask t1 (if P t1 then f t1 else t1)" using assms(2) t1(1) by simp
    with t1 laterTask_trans show ?thesis unfolding set_updateWhere by blast
  qed
  with assms(1) show ?thesis by (simp add: laterDatabase_def)
qed

lemma updateWhere_keeps: "x \<in> set xs \<Longrightarrow> \<not> P x \<Longrightarrow> x \<in> set (updateWhere P f xs)"
  unfolding set_updateWhere by (metis (mono_tags, lifting) imageI)

lemma laterDatabase_locks:
  assumes "laterDatabase db0 db" "\<And>l. P l \<Longrightarrow> tlkReleasedAt l = None"
  shows "laterDatabase db0 (db\<lparr>dbLocks := updateWhere P f (dbLocks db)\<rparr>)"
  using assms unfolding laterDatabase_def
  by (auto intro!: updateWhere_keeps)

lemma laterDatabase_leases:
  assumes "laterDatabase db0 db" "\<And>l. P l \<Longrightarrow> tlReleasedAt l = None"
  shows "laterDatabase db0 (db\<lparr>dbLeases := updateWhere P f (dbLeases db)\<rparr>)"
  using assms unfolding laterDatabase_def
  by (auto intro!: updateWhere_keeps)

lemma laterDatabase_append [intro]:
  "laterDatabase db0 db \<Longrightarrow> laterDatabase db0 (db\<lparr>dbTasks := dbTasks db @ ts\<rparr>)"
  "laterDatabase db0 db \<Longrightarrow> laterDatabase db0 (db\<lparr>dbLocks := dbLocks db @ ls\<rparr>)"
  "laterDatabase db0 db \<Longrightarrow> laterDatabase db0 (db\<lparr>dbLeases := dbLeases db @ as\<rparr>)"
  "laterDatabase db0 db \<Longrightarrow> laterDatabase db0 (db\<lparr>dbEvents := dbEvents db @ es\<rparr>)"
  "laterDatabase db0 db \<Longrightarrow> laterDatabase db0 (db\<lparr>dbLogChunks := dbLogChunks db @ cs\<rparr>)"
  "laterDatabase db0 db \<Longrightarrow> laterDatabase db0 (db\<lparr>dbOutputs := dbOutputs db @ os\<rparr>)"
  unfolding laterDatabase_def by auto

section \<open>The writes\<close>

lemma distinct_tkID:
  "distinct (map tkID ts) \<Longrightarrow> t \<in> set ts \<Longrightarrow> u \<in> set ts \<Longrightarrow> tkID t = tkID u \<Longrightarrow> t = u"
  by (induction ts) (auto simp: image_iff)

text \<open>Under the invariant, the task of a lock or of a lease is the one with that identifier.\<close>

lemma locksOwnedD:
  "queueInv ts locks leases \<Longrightarrow> l \<in> set locks \<Longrightarrow> t \<in> set ts \<Longrightarrow> tkID t = tlkTaskID l
   \<Longrightarrow> tkOrganizationID t = tlkOrganizationID l \<and> lockFits (tkStatus t) l"
  unfolding queueInv_def locksOwned_def by (metis distinct_tkID)

lemma leasesOwnedD:
  "queueInv ts locks leases \<Longrightarrow> l \<in> set leases \<Longrightarrow> t \<in> set ts \<Longrightarrow> tkID t = tlTaskID l
   \<Longrightarrow> tkOrganizationID t = tlOrganizationID l \<and> leaseFits (tkStatus t) l"
  unfolding queueInv_def leasesOwned_def by (metis distinct_tkID)

lemma findTask_Some:
  assumes "findTask i org1 db = Some t"
  shows "t \<in> set (dbTasks db)" "tkID t = i" "tkOrganizationID t = org1"
  using assms by (auto simp: findTask_def find_Some_iff)

lemma findTask_unique:
  assumes "distinct (map tkID (dbTasks db))" "t \<in> set (dbTasks db)"
  shows "findTask (tkID t) (tkOrganizationID t) db = Some t"
proof -
  have "findTask (tkID t) (tkOrganizationID t) db \<noteq> None"
    using assms(2) by (auto simp: findTask_def find_None_iff)
  then obtain u where u: "findTask (tkID t) (tkOrganizationID t) db = Some u" by auto
  with findTask_Some [OF u] assms distinct_tkID show ?thesis by metis
qed

text \<open>A new task.\<close>

lemma queueInv_newTask:
  assumes "queueInv ts locks leases" "tkID t \<notin> tkID ` set ts" "tkStatus t = TaskStatusQueued"
  shows "queueInv (ts @ [t]) locks leases"
  using assms unfolding queueInv_def locksOwned_def leasesOwned_def by fastforce

text \<open>A new lock of a queued task.\<close>

lemma queueInv_newLock:
  assumes "queueInv ts locks leases" "t \<in> set ts" "tkStatus t = TaskStatusQueued"
    "tkID t = tlkTaskID l" "tkOrganizationID t = tlkOrganizationID l"
    "tlkAcquiredAt l = None" "tlkReleasedAt l = None"
  shows "queueInv ts (locks @ [l]) leases"
proof -
  have "locksOwned ts (locks @ [l])"
    using assms by (auto simp: queueInv_def locksOwned_def lockFits_def)
  moreover have "locksExclusive (locks @ [l])"
    using assms by (auto simp: queueInv_def locksExclusive_def lockHeld_def)
  ultimately show ?thesis using assms(1) by (simp add: queueInv_def)
qed

text \<open>A change of the task \<open>t\<close> and of its locks and leases.\<close>

abbreviation isTask :: "Task \<Rightarrow> Task \<Rightarrow> bool" where
  "isTask t u \<equiv> tkID u = tkID t \<and> tkOrganizationID u = tkOrganizationID t"

lemma updateWhere_task:
  assumes "distinct (map tkID ts)" "t \<in> set ts"
  shows "f t \<in> set (updateWhere (isTask t) f ts)"
    "u \<in> set ts \<Longrightarrow> tkID u \<noteq> tkID t \<Longrightarrow> u \<in> set (updateWhere (isTask t) f ts)"
    "u \<in> set (updateWhere (isTask t) f ts) \<Longrightarrow> u = f t \<or> u \<in> set ts \<and> tkID u \<noteq> tkID t"
proof -
  show "f t \<in> set (updateWhere (isTask t) f ts)"
    unfolding set_updateWhere using assms(2) by (auto simp: image_iff intro!: bexI [of _ t])
  show "u \<in> set (updateWhere (isTask t) f ts)" if "u \<in> set ts" "tkID u \<noteq> tkID t"
    using that by (simp add: updateWhere_keeps)
  show "u = f t \<or> u \<in> set ts \<and> tkID u \<noteq> tkID t" if u: "u \<in> set (updateWhere (isTask t) f ts)"
  proof -
    obtain v where v: "v \<in> set ts" "u = (if isTask t v then f v else v)"
      using u unfolding set_updateWhere by (auto simp: image_iff)
    show ?thesis
    proof (cases "tkID v = tkID t")
      case True
      then have "v = t" using distinct_tkID assms v(1) by blast
      then show ?thesis using v by simp
    next
      case False
      then show ?thesis using v by simp
    qed
  qed
qed

lemma locksOwned_change:
  assumes "queueInv ts locks leases" "t \<in> set ts" "isTask t (f t)"
    "\<And>l'. l' \<in> set locks' \<Longrightarrow> \<exists>l \<in> set locks. tlkTaskID l' = tlkTaskID l
        \<and> tlkOrganizationID l' = tlkOrganizationID l
        \<and> (if tlkTaskID l = tkID t then lockFits (tkStatus (f t)) l' else l' = l)"
  shows "locksOwned (updateWhere (isTask t) f ts) locks'"
  unfolding locksOwned_def
proof
  fix l' assume "l' \<in> set locks'"
  then obtain l where l: "l \<in> set locks" "tlkTaskID l' = tlkTaskID l"
      "tlkOrganizationID l' = tlkOrganizationID l"
      "if tlkTaskID l = tkID t then lockFits (tkStatus (f t)) l' else l' = l"
    using assms(4) by blast
  have d: "distinct (map tkID ts)" using assms(1) by (simp add: queueInv_def)
  show "\<exists>u \<in> set (updateWhere (isTask t) f ts). tkID u = tlkTaskID l'
     \<and> tkOrganizationID u = tlkOrganizationID l' \<and> lockFits (tkStatus u) l'"
  proof (cases "tlkTaskID l = tkID t")
    case True
    then have "tkOrganizationID t = tlkOrganizationID l"
      using locksOwnedD [OF assms(1) l(1) assms(2)] by simp
    with True l assms(3) show ?thesis
      by (intro bexI [OF _ updateWhere_task(1) [OF d assms(2)]]) simp
  next
    case False
    obtain u where u: "u \<in> set ts" "tkID u = tlkTaskID l" "tkOrganizationID u = tlkOrganizationID l"
        "lockFits (tkStatus u) l"
      using assms(1) l(1) unfolding queueInv_def locksOwned_def by blast
    with False l show ?thesis
      by (intro bexI [OF _ updateWhere_task(2) [OF d assms(2) u(1)]]) simp_all
  qed
qed

lemma leasesOwned_change:
  assumes "queueInv ts locks leases" "t \<in> set ts" "isTask t (f t)"
    "\<And>l'. l' \<in> set leases' \<Longrightarrow> \<exists>l \<in> set leases. tlTaskID l' = tlTaskID l
        \<and> tlOrganizationID l' = tlOrganizationID l
        \<and> (if tlTaskID l = tkID t then leaseFits (tkStatus (f t)) l' else l' = l)"
  shows "leasesOwned (updateWhere (isTask t) f ts) leases'"
  unfolding leasesOwned_def
proof
  fix l' assume "l' \<in> set leases'"
  then obtain l where l: "l \<in> set leases" "tlTaskID l' = tlTaskID l"
      "tlOrganizationID l' = tlOrganizationID l"
      "if tlTaskID l = tkID t then leaseFits (tkStatus (f t)) l' else l' = l"
    using assms(4) by blast
  have d: "distinct (map tkID ts)" using assms(1) by (simp add: queueInv_def)
  show "\<exists>u \<in> set (updateWhere (isTask t) f ts). tkID u = tlTaskID l'
     \<and> tkOrganizationID u = tlOrganizationID l' \<and> leaseFits (tkStatus u) l'"
  proof (cases "tlTaskID l = tkID t")
    case True
    then have "tkOrganizationID t = tlOrganizationID l"
      using leasesOwnedD [OF assms(1) l(1) assms(2)] by simp
    with True l assms(3) show ?thesis
      by (intro bexI [OF _ updateWhere_task(1) [OF d assms(2)]]) simp
  next
    case False
    obtain u where u: "u \<in> set ts" "tkID u = tlTaskID l" "tkOrganizationID u = tlOrganizationID l"
        "leaseFits (tkStatus u) l"
      using assms(1) l(1) unfolding queueInv_def leasesOwned_def by blast
    with False l show ?thesis
      by (intro bexI [OF _ updateWhere_task(2) [OF d assms(2) u(1)]]) simp_all
  qed
qed

lemma queueInv_tasks_change:
  assumes "queueInv ts locks leases" "t \<in> set ts" "isTask t (f t)" "taskStatusIsValid (tkStatus (f t))"
    "\<And>u. isTask u (f u)"
  shows "distinct (map tkID (updateWhere (isTask t) f ts))
     \<and> (\<forall>u \<in> set (updateWhere (isTask t) f ts). taskStatusIsValid (tkStatus u))"
proof -
  have "map tkID (updateWhere (isTask t) f ts) = map tkID ts"
    by (rule map_updateWhere) (use assms(5) in simp)
  moreover have d: "distinct (map tkID ts)" using assms(1) by (simp add: queueInv_def)
  moreover have "taskStatusIsValid (tkStatus u)" if "u \<in> set (updateWhere (isTask t) f ts)" for u
    using updateWhere_task(3) [OF d assms(2) that] assms(1,4) by (auto simp: queueInv_def)
  ultimately show ?thesis by simp
qed

text \<open>Releasing unreleased leases or renewing them keeps what is said of leases.\<close>

lemma leases_change:
  assumes "queueInv ts locks leases"
    "\<And>l. P l \<Longrightarrow> tlTaskID (f l) = tlTaskID l \<and> tlOrganizationID (f l) = tlOrganizationID l
        \<and> tlAttempt (f l) = tlAttempt l \<and> (tlReleasedAt l \<noteq> None \<longrightarrow> tlReleasedAt (f l) \<noteq> None)"
  shows "queueInv ts locks (updateWhere P f leases)"
proof -
  have "\<exists>t \<in> set ts. tkID t = tlTaskID l' \<and> tkOrganizationID t = tlOrganizationID l' \<and> leaseFits (tkStatus t) l'"
    if l': "l' \<in> set (updateWhere P f leases)" for l'
  proof -
    obtain l where l: "l \<in> set leases" "l' = (if P l then f l else l)"
      using l' unfolding set_updateWhere by (auto simp: image_iff)
    then obtain t where "t \<in> set ts" "tkID t = tlTaskID l" "tkOrganizationID t = tlOrganizationID l"
        "leaseFits (tkStatus t) l"
      using assms(1) unfolding queueInv_def leasesOwned_def by blast
    with l assms(2) [of l] show ?thesis by (intro bexI [of _ t]) (auto simp: leaseFits_def split: if_splits)
  qed
  then have "leasesOwned ts (updateWhere P f leases)"
    by (simp add: leasesOwned_def)
  moreover have "distinct (map tlTaskID (filter (\<lambda>l. tlReleasedAt l = None) (updateWhere P f ls)))
      \<and> set (map tlTaskID (filter (\<lambda>l. tlReleasedAt l = None) (updateWhere P f ls)))
          \<subseteq> set (map tlTaskID (filter (\<lambda>l. tlReleasedAt l = None) ls))"
    if "distinct (map tlTaskID (filter (\<lambda>l. tlReleasedAt l = None) ls))" for ls
    using that
  proof (induction ls)
    case (Cons l ls)
    then show ?case using assms(2) [of l] by (auto simp: updateWhere_def split: if_splits)
  qed (simp add: updateWhere_def)
  then have "oneActiveLease (updateWhere P f leases)"
    using assms(1) by (simp add: queueInv_def oneActiveLease_def)
  moreover have "map tlAttempt (filter (\<lambda>l. tlTaskID l = task) (updateWhere P f ls))
      = map tlAttempt (filter (\<lambda>l. tlTaskID l = task) ls)" for task ls
    using assms(2) by (induction ls) (auto simp: updateWhere_def)
  then have "attemptsIncrease (updateWhere P f leases)"
    using assms(1) by (simp add: queueInv_def attemptsIncrease_def)
  ultimately show ?thesis using assms(1) by (simp add: queueInv_def)
qed

text \<open>Changing locks without acquiring one.\<close>

lemma locksExclusive_change:
  assumes "locksExclusive locks"
    "\<And>l. P l \<Longrightarrow> sameResource l (f l) \<and> tlkTaskID (f l) = tlkTaskID l
        \<and> tlkConcurrencyPolicy (f l) = tlkConcurrencyPolicy l \<and> (lockHeld (f l) \<longrightarrow> lockHeld l)"
  shows "locksExclusive (updateWhere P f locks)"
proof -
  have img: "\<exists>l \<in> set locks. sameResource l l' \<and> tlkTaskID l' = tlkTaskID l
      \<and> tlkConcurrencyPolicy l' = tlkConcurrencyPolicy l \<and> (lockHeld l' \<longrightarrow> lockHeld l)"
    if "l' \<in> set (updateWhere P f locks)" for l'
    using that assms(2) unfolding set_updateWhere by (auto simp: sameResource_def)
  show ?thesis
    unfolding locksExclusive_def
  proof (intro ballI impI)
    fix l' k' assume a: "l' \<in> set (updateWhere P f locks)" "k' \<in> set (updateWhere P f locks)"
      "sameResource l' k' \<and> tlkTaskID l' \<noteq> tlkTaskID k' \<and> lockHeld l' \<and> lockHeld k'"
    obtain l k where l: "l \<in> set locks" "sameResource l l'" "tlkTaskID l' = tlkTaskID l"
        "tlkConcurrencyPolicy l' = tlkConcurrencyPolicy l" "lockHeld l"
      and k: "k \<in> set locks" "sameResource k k'" "tlkTaskID k' = tlkTaskID k"
        "tlkConcurrencyPolicy k' = tlkConcurrencyPolicy k" "lockHeld k"
      using img [OF a(1)] img [OF a(2)] a(3) by blast
    have "sameResource l k" using a(3) l(2) k(2) by (auto simp: sameResource_def)
    then show "tlkConcurrencyPolicy l' = TaskConcurrencyPolicyAllowParallel
        \<or> tlkConcurrencyPolicy k' = TaskConcurrencyPolicyAllowParallel"
      using assms(1) l k a(3) unfolding locksExclusive_def by metis
  qed
qed

text \<open>A task that ends releases its leases and its locks.\<close>

lemma good_finish:
  assumes g: "good db0 db" and t: "t \<in> set (dbTasks db)" "tkStatus t = TaskStatusRunning"
    and s: "status = TaskStatusSucceeded \<or> status = TaskStatusFailed"
    and m: "updateTaskStatus now (tkID t) (tkOrganizationID t) status db = Inr (x, db')"
  shows "good db0 db'"
proof -
  let ?f = "setTaskStatus now status"
  let ?P = "\<lambda>l. tlkTaskID l = tkID t \<and> tlkOrganizationID l = tkOrganizationID t \<and> tlkReleasedAt l = None"
  let ?r = "\<lambda>l. l\<lparr>tlkReleasedAt := coalesce (tlkReleasedAt l) now, tlkUpdatedAt := now\<rparr>"
  let ?Q = "\<lambda>l. tlTaskID l = tkID t \<and> tlOrganizationID l = tkOrganizationID t \<and> tlReleasedAt l = None"
  let ?q = "\<lambda>l. l\<lparr>tlReleasedAt := coalesce (tlReleasedAt l) now, tlUpdatedAt := now\<rparr>"
  define ts locks leases where d: "ts = updateWhere (isTask t) ?f (dbTasks db)"
    "locks = updateWhere ?P ?r (dbLocks db)" "leases = updateWhere ?Q ?q (dbLeases db)"
  have db': "db' = db\<lparr>dbTasks := ts, dbLeases := leases, dbLocks := locks\<rparr>"
    using m s by (auto simp: updateTaskStatus_def releaseActiveTaskLeasesForTask_def
        releaseTaskResourceLocks_def d taskStatusIsTerminal_def)
  have inv: "queueInv (dbTasks db) (dbLocks db) (dbLeases db)" using g by (simp add: good_def)
  have st: "isTask u (?f u)" "tkStatus (?f u) = status" for u by (simp_all add: setTaskStatus_def)
  have "locksOwned ts locks"
    unfolding d
  proof (rule locksOwned_change [where f = ?f, OF inv t(1) st(1)], goal_cases)
    case (1 l')
    then obtain l where l: "l \<in> set (dbLocks db)" "l' = (if ?P l then ?r l else l)"
      unfolding set_updateWhere by (auto simp: image_iff)
    then show ?case
      using locksOwnedD [OF inv l(1) t(1)] s st by (intro bexI [of _ l]) (auto simp: lockFits_def)
  qed
  moreover have "leasesOwned ts leases"
    unfolding d
  proof (rule leasesOwned_change [where f = ?f, OF inv t(1) st(1)], goal_cases)
    case (1 l')
    then obtain l where l: "l \<in> set (dbLeases db)" "l' = (if ?Q l then ?q l else l)"
      unfolding set_updateWhere by (auto simp: image_iff)
    then show ?case
      using leasesOwnedD [OF inv l(1) t(1)] s st by (intro bexI [of _ l]) (auto simp: leaseFits_def)
  qed
  moreover have "queueInv (dbTasks db) (dbLocks db) leases"
    unfolding d by (rule leases_change [OF inv]) simp
  moreover have "locksExclusive locks"
    unfolding d by (rule locksExclusive_change) (use inv in \<open>auto simp: queueInv_def sameResource_def lockHeld_def\<close>)
  moreover have "distinct (map tkID ts) \<and> (\<forall>u \<in> set ts. taskStatusIsValid (tkStatus u))"
    unfolding d using s st by (intro queueInv_tasks_change [OF inv t(1)]) auto
  ultimately have "queueInv ts locks leases" by (simp add: queueInv_def)
  moreover have "laterDatabase db0 db'"
  proof -
    have later: "laterDatabase db0 db" using g by (simp add: good_def)
    have "laterDatabase db0 (db\<lparr>dbTasks := ts\<rparr>)"
      unfolding d
    proof (rule laterDatabase_tasks [OF later])
      fix u assume "u \<in> set (dbTasks db)" "isTask t u"
      then have "u = t" using distinct_tkID inv t(1) unfolding queueInv_def by blast
      then show "laterTask u (setTaskStatus now status u)"
        using t(2) s by (auto simp: laterTask_def laterStatus_def taskStatusIsTerminal_def setTaskStatus_def)
    qed
    from laterDatabase_leases [OF this, of ?Q ?q]
    have "laterDatabase db0 (db\<lparr>dbTasks := ts, dbLeases := leases\<rparr>)" by (simp add: d)
    from laterDatabase_locks [OF this, of ?P ?r] show ?thesis by (simp add: d db')
  qed
  ultimately show ?thesis using g db' by (simp add: good_def)
qed

text \<open>A task that starts acquires its locks after it checked them.\<close>

lemma checkLocks_Inr:
  "checkLocks i ls db = Inr (x, db') \<Longrightarrow> db' = db \<and> (\<forall>l \<in> set ls.
     tlkConcurrencyPolicy l \<noteq> TaskConcurrencyPolicyAllowParallel \<longrightarrow> \<not> hasActiveTaskResourceConflict l i db)"
  by (induction ls) (auto split: if_splits)

lemma updateWhere_none: "(\<And>x. x \<in> set xs \<Longrightarrow> \<not> P x) \<Longrightarrow> updateWhere P f xs = xs"
  unfolding updateWhere_def by (rule map_idI) simp

lemma acquire_Inr:
  assumes "acquireTaskResourceLocks P now i o1 db = Inr (x, db')"
  shows "db' = db\<lparr>dbLocks := updateWhere
       (\<lambda>l. tlkTaskID l = i \<and> tlkOrganizationID l = o1 \<and> tlkReleasedAt l = None)
       (\<lambda>l. l\<lparr>tlkAcquiredAt := coalesce (tlkAcquiredAt l) now, tlkUpdatedAt := now\<rparr>) (dbLocks db)\<rparr>"
    "\<And>l. l \<in> set (dbLocks db) \<Longrightarrow> tlkTaskID l = i \<Longrightarrow> tlkOrganizationID l = o1
       \<Longrightarrow> tlkConcurrencyPolicy l \<noteq> TaskConcurrencyPolicyAllowParallel \<Longrightarrow> \<not> hasActiveTaskResourceConflict l i db"
proof -
  let ?mine = "getTaskResourceLocksByTaskID P i o1 db"
  obtain y db1 where c: "checkLocks i ?mine db = Inr (y, db1)"
    using assms by (auto simp: acquireTaskResourceLocks_def bindT_Inr)
  note c1 = checkLocks_Inr [OF c]
  have mine: "set ?mine = {l \<in> set (dbLocks db). tlkTaskID l = i \<and> tlkOrganizationID l = o1}"
    by (auto simp: getTaskResourceLocksByTaskID_def)
  then show "\<not> hasActiveTaskResourceConflict l i db"
    if "l \<in> set (dbLocks db)" "tlkTaskID l = i" "tlkOrganizationID l = o1"
      "tlkConcurrencyPolicy l \<noteq> TaskConcurrencyPolicyAllowParallel" for l
    using c1 that by blast
  show "db' = db\<lparr>dbLocks := updateWhere
       (\<lambda>l. tlkTaskID l = i \<and> tlkOrganizationID l = o1 \<and> tlkReleasedAt l = None)
       (\<lambda>l. l\<lparr>tlkAcquiredAt := coalesce (tlkAcquiredAt l) now, tlkUpdatedAt := now\<rparr>) (dbLocks db)\<rparr>"
  proof (cases "?mine = []")
    case True
    then have "updateWhere (\<lambda>l. tlkTaskID l = i \<and> tlkOrganizationID l = o1 \<and> tlkReleasedAt l = None)
       (\<lambda>l. l\<lparr>tlkAcquiredAt := coalesce (tlkAcquiredAt l) now, tlkUpdatedAt := now\<rparr>) (dbLocks db) = dbLocks db"
      using mine by (intro updateWhere_none) auto
    with True assms show ?thesis by (simp add: acquireTaskResourceLocks_def)
  next
    case False
    with assms c c1 show ?thesis by (simp add: acquireTaskResourceLocks_def bindT_def)
  qed
qed

text \<open>Under the invariant a lock of another task conflicts exactly if it is held.\<close>

lemma conflict_iff_held:
  assumes inv: "queueInv (dbTasks db) (dbLocks db) (dbLeases db)"
  shows "hasActiveTaskResourceConflict l i db \<longleftrightarrow>
     (\<exists>k \<in> set (dbLocks db). sameResource k l \<and> tlkTaskID k \<noteq> i \<and> lockHeld k)"
proof -
  have d: "distinct (map tkID (dbTasks db))" using inv by (simp add: queueInv_def)
  have "(case lockTask db k of None \<Rightarrow> False | Some t \<Rightarrow> tkStatus t = TaskStatusRunning)"
    if k: "k \<in> set (dbLocks db)" "lockHeld k" for k
  proof -
    obtain t where t: "t \<in> set (dbTasks db)" "tkID t = tlkTaskID k"
        "tkOrganizationID t = tlkOrganizationID k" "lockFits (tkStatus t) k"
      using inv k(1) unfolding queueInv_def locksOwned_def by blast
    have "lockTask db k = Some t"
      using findTask_unique [OF d t(1)] t by (simp add: lockTask_def)
    moreover have "tkStatus t = TaskStatusRunning"
      using t(4) k(2) by (auto simp: lockFits_def lockHeld_def split: TaskStatus.splits)
    ultimately show ?thesis by simp
  qed
  then show ?thesis
    by (auto simp: hasActiveTaskResourceConflict_def list_ex_iff lockHeld_def)
qed

lemma good_start:
  assumes g: "good db0 db" and t: "t \<in> set (dbTasks db)" "tkStatus t = TaskStatusQueued"
    and a: "acquireTaskResourceLocks P now (tkID t) (tkOrganizationID t) db = Inr (x, db1)"
    and m: "updateTaskStatus now (tkID t) (tkOrganizationID t) TaskStatusRunning db1 = Inr (y, db2)"
  shows "good db0 db2 \<and> setTaskStatus now TaskStatusRunning t \<in> set (dbTasks db2)"
proof -
  let ?f = "setTaskStatus now TaskStatusRunning"
  let ?P = "\<lambda>l. tlkTaskID l = tkID t \<and> tlkOrganizationID l = tkOrganizationID t \<and> tlkReleasedAt l = None"
  let ?r = "\<lambda>l. l\<lparr>tlkAcquiredAt := coalesce (tlkAcquiredAt l) now, tlkUpdatedAt := now\<rparr>"
  define ts locks where d: "ts = updateWhere (isTask t) ?f (dbTasks db)"
    "locks = updateWhere ?P ?r (dbLocks db)"
  have db2: "db2 = db\<lparr>dbLocks := locks, dbTasks := ts\<rparr>"
    using m acquire_Inr(1) [OF a] by (auto simp: updateTaskStatus_def d taskStatusIsTerminal_def)
  have inv: "queueInv (dbTasks db) (dbLocks db) (dbLeases db)" using g by (simp add: good_def)
  have free: "\<not> (sameResource k l \<and> tlkTaskID k \<noteq> tkID t \<and> lockHeld k)"
    if "l \<in> set (dbLocks db)" "tlkTaskID l = tkID t" "k \<in> set (dbLocks db)"
      "tlkConcurrencyPolicy l \<noteq> TaskConcurrencyPolicyAllowParallel" for l k
    using acquire_Inr(2) [OF a that(1,2) _ that(4)] locksOwnedD [OF inv that(1) t(1)] that
    by (simp add: conflict_iff_held [OF inv])
  have st: "isTask u (?f u)" "tkStatus (?f u) = TaskStatusRunning" for u by (simp_all add: setTaskStatus_def)
  have mine: "?P l" if "l \<in> set (dbLocks db)" "tlkTaskID l = tkID t" for l
    using locksOwnedD [OF inv that(1) t(1)] t(2) that by (simp add: lockFits_def)
  have img: "\<exists>l \<in> set (dbLocks db). sameResource l l' \<and> tlkTaskID l' = tlkTaskID l
      \<and> tlkConcurrencyPolicy l' = tlkConcurrencyPolicy l
      \<and> (if tlkTaskID l = tkID t then lockHeld l' else l' = l)" if l': "l' \<in> set locks" for l'
  proof -
    obtain l where "l \<in> set (dbLocks db)" "l' = (if ?P l then ?r l else l)"
      using l' unfolding d set_updateWhere by (auto simp: image_iff)
    then show ?thesis using mine [of l] by (intro bexI [of _ l]) (auto simp: sameResource_def lockHeld_def)
  qed
  have "locksOwned ts locks"
    unfolding d
  proof (rule locksOwned_change [where f = ?f, OF inv t(1) st(1)], goal_cases)
    case (1 l')
    then show ?case using img [unfolded d] st by (fastforce simp: lockFits_def sameResource_def)
  qed
  moreover have "leasesOwned ts (dbLeases db)"
    unfolding d
  proof (rule leasesOwned_change [where f = ?f, OF inv t(1) st(1)], goal_cases)
    case (1 l)
    then show ?case
      using leasesOwnedD [OF inv 1 t(1)] t st by (intro bexI [of _ l]) (auto simp: leaseFits_def)
  qed
  moreover have "locksExclusive locks"
    unfolding locksExclusive_def
  proof (intro ballI impI)
    fix l' k' assume h: "l' \<in> set locks" "k' \<in> set locks"
      "sameResource l' k' \<and> tlkTaskID l' \<noteq> tlkTaskID k' \<and> lockHeld l' \<and> lockHeld k'"
    obtain l k where l: "l \<in> set (dbLocks db)" "sameResource l l'" "tlkTaskID l' = tlkTaskID l"
        "tlkConcurrencyPolicy l' = tlkConcurrencyPolicy l" "if tlkTaskID l = tkID t then lockHeld l' else l' = l"
      and k: "k \<in> set (dbLocks db)" "sameResource k k'" "tlkTaskID k' = tlkTaskID k"
        "tlkConcurrencyPolicy k' = tlkConcurrencyPolicy k" "if tlkTaskID k = tkID t then lockHeld k' else k' = k"
      using img [OF h(1)] img [OF h(2)] by blast
    have sr: "sameResource l k" "sameResource k l" using h(3) l(2) k(2) by (auto simp: sameResource_def)
    consider "tlkTaskID l = tkID t" | "tlkTaskID k = tkID t" | "tlkTaskID l \<noteq> tkID t" "tlkTaskID k \<noteq> tkID t"
      by blast
    then show "tlkConcurrencyPolicy l' = TaskConcurrencyPolicyAllowParallel
        \<or> tlkConcurrencyPolicy k' = TaskConcurrencyPolicyAllowParallel"
    proof cases
      case 1
      then show ?thesis using free [OF l(1) 1 k(1)] h(3) l k sr by (auto split: if_splits)
    next
      case 2
      then show ?thesis using free [OF k(1) 2 l(1)] h(3) l k sr by (auto split: if_splits)
    next
      case 3
      then show ?thesis using inv h(3) l k sr unfolding queueInv_def locksExclusive_def by auto
    qed
  qed
  moreover have "distinct (map tkID ts) \<and> (\<forall>u \<in> set ts. taskStatusIsValid (tkStatus u))"
    unfolding d using st by (intro queueInv_tasks_change [OF inv t(1)]) auto
  ultimately have "queueInv ts locks (dbLeases db)" using inv by (simp add: queueInv_def)
  moreover have "laterDatabase db0 db2"
  proof -
    have later: "laterDatabase db0 db" using g by (simp add: good_def)
    have "laterDatabase db0 (db\<lparr>dbTasks := ts\<rparr>)"
      unfolding d
    proof (rule laterDatabase_tasks [OF later])
      fix u assume "u \<in> set (dbTasks db)" "isTask t u"
      then have "u = t" using distinct_tkID inv t(1) unfolding queueInv_def by blast
      then show "laterTask u (?f u)"
        using t(2) by (auto simp: laterTask_def laterStatus_def taskStatusIsTerminal_def setTaskStatus_def)
    qed
    from laterDatabase_locks [OF this, of ?P ?r] show ?thesis by (simp add: d db2 laterDatabase_def)
  qed
  moreover have "?f t \<in> set ts"
    unfolding d using inv t(1) updateWhere_task(1) by (auto simp: queueInv_def)
  ultimately show ?thesis using g db2 by (simp add: good_def)
qed

text \<open>\<open>CANCEL_OLDER\<close> cancels queued tasks and releases all their locks.\<close>

lemma olderTasks_iff:
  assumes "distinct (map tkID (dbTasks db))"
  shows "i \<in> set (olderTasks lock ids status un db) \<longleftrightarrow>
     (\<exists>l \<in> set (dbLocks db). \<exists>t \<in> set (dbTasks db). i = tlkTaskID l \<and> sameResource l lock
        \<and> tlkTaskID l \<notin> set ids \<and> (un \<longrightarrow> tlkReleasedAt l = None)
        \<and> tkID t = tlkTaskID l \<and> tkOrganizationID t = tlkOrganizationID l \<and> tkStatus t = status)"
proof -
  have eq: "(case lockTask db l of None \<Rightarrow> False | Some t \<Rightarrow> tkStatus t = status) \<longleftrightarrow>
      (\<exists>t \<in> set (dbTasks db). tkID t = tlkTaskID l \<and> tkOrganizationID t = tlkOrganizationID l \<and> tkStatus t = status)"
    for l
  proof (cases "lockTask db l")
    case None
    then show ?thesis using None [unfolded lockTask_def findTask_def find_None_iff] by (auto simp: None)
  next
    case (Some u)
    note u = findTask_Some [OF Some [unfolded lockTask_def]]
    have un: "t = u" if "t \<in> set (dbTasks db)" "tkID t = tlkTaskID l" for t
      using distinct_tkID [OF assms that(1) u(1)] that(2) u(2) by simp
    show ?thesis unfolding Some option.case by (rule iffI) (use u in blast, use un in blast)
  qed
  have "i \<in> set (olderTasks lock ids status un db) \<longleftrightarrow>
     (\<exists>l \<in> set (dbLocks db). i = tlkTaskID l \<and> sameResource l lock
        \<and> tlkTaskID l \<notin> set ids \<and> (un \<longrightarrow> tlkReleasedAt l = None)
        \<and> (case lockTask db l of None \<Rightarrow> False | Some t \<Rightarrow> tkStatus t = status))"
    unfolding olderTasks_def by auto
  then show ?thesis unfolding eq by (simp only: bex_simps)
qed

lemma good_cancelOlder:
  assumes g: "good db0 db"
    and m: "cancelOlderQueuedTasksForResource now lock ids db = Inr (x, db')"
  shows "good db0 db' \<and> (\<forall>t \<in> set (dbTasks db). tkID t \<in> set ids \<longrightarrow> t \<in> set (dbTasks db'))"
proof -
  let ?org = "tlkOrganizationID lock"
  let ?older = "olderTasks lock ids TaskStatusQueued True db"
  let ?A = "\<lambda>t. tkID t \<in> set ?older \<and> tkOrganizationID t = ?org"
  let ?f = "\<lambda>t. t\<lparr>tkStatus := TaskStatusCanceled, tkUpdatedAt := now, tkCompletedAt := coalesce (tkCompletedAt t) now\<rparr>"
  define ts where ts: "ts = updateWhere ?A ?f (dbTasks db)"
  let ?older2 = "olderTasks lock ids TaskStatusCanceled False (db\<lparr>dbTasks := ts\<rparr>)"
  let ?B = "\<lambda>l. tlkTaskID l \<in> set ?older2 \<and> tlkOrganizationID l = ?org \<and> tlkReleasedAt l = None"
  let ?r = "\<lambda>l. l\<lparr>tlkReleasedAt := coalesce (tlkReleasedAt l) now, tlkUpdatedAt := now\<rparr>"
  define locks where locks: "locks = updateWhere ?B ?r (dbLocks db)"
  have db': "db' = db\<lparr>dbTasks := ts, dbLocks := locks\<rparr>"
    using m by (auto simp: cancelOlderQueuedTasksForResource_def ts locks)
  have inv: "queueInv (dbTasks db) (dbLocks db) (dbLeases db)" using g by (simp add: good_def)
  have dist: "distinct (map tkID (dbTasks db))" using inv by (simp add: queueInv_def)
  have ids: "map tkID ts = map tkID (dbTasks db)" unfolding ts by (rule map_updateWhere) simp
  have ts_iff: "u \<in> set ts \<longleftrightarrow> (\<exists>t \<in> set (dbTasks db). u = (if ?A t then ?f t else t))" for u
    unfolding ts set_updateWhere by (auto simp: image_iff)
  have A: "tkStatus t = TaskStatusQueued \<and> tkID t \<notin> set ids" if t: "t \<in> set (dbTasks db)" "?A t" for t
  proof -
    obtain u where "u \<in> set (dbTasks db)" "tkID u = tkID t" "tkStatus u = TaskStatusQueued" "tkID t \<notin> set ids"
      using t(2) olderTasks_iff [OF dist] by fastforce
    then show ?thesis using distinct_tkID [OF dist _ t(1)] by metis
  qed
  have older2: "tkID t \<in> set ?older2" if t: "t \<in> set (dbTasks db)" "?A t" for t
  proof -
    obtain l u where l: "l \<in> set (dbLocks db)" "u \<in> set (dbTasks db)" "tkID t = tlkTaskID l"
        "sameResource l lock" "tlkTaskID l \<notin> set ids" "tkID u = tlkTaskID l"
        "tkOrganizationID u = tlkOrganizationID l"
      using t(2) olderTasks_iff [OF dist] by fastforce
    then have "u = t" using distinct_tkID [OF dist _ t(1)] by metis
    moreover have "?f t \<in> set ts" using ts_iff t by auto
    ultimately show ?thesis
      using l by (subst olderTasks_iff) (auto simp: ids dist intro!: bexI [of _ l] bexI [of _ "?f t"])
  qed
  have B: "?A t" if l: "l \<in> set (dbLocks db)" "?B l" "t \<in> set (dbTasks db)" "tkID t = tlkTaskID l" for l t
  proof (rule ccontr)
    assume nA: "\<not> ?A t"
    obtain u where u: "u \<in> set ts" "tkID u = tkID t" "tkStatus u = TaskStatusCanceled"
      using l(2,4) olderTasks_iff [of "db\<lparr>dbTasks := ts\<rparr>"] dist ids by fastforce
    then obtain v where v: "v \<in> set (dbTasks db)" "u = (if ?A v then ?f v else v)" using ts_iff by blast
    then have "tkID v = tkID t" using u(2) by (auto split: if_splits)
    then have "v = t" using distinct_tkID [OF dist v(1) l(3)] by blast
    then have "tkStatus t = TaskStatusCanceled" using v(2) nA u(3) by simp
    then show False
      using locksOwnedD [OF inv l(1) l(3) l(4)] l(2) by (simp add: lockFits_def)
  qed
  have "locksOwned ts locks"
    unfolding locksOwned_def
  proof
    fix l' assume "l' \<in> set locks"
    then obtain l where l: "l \<in> set (dbLocks db)" "l' = (if ?B l then ?r l else l)"
      unfolding locks set_updateWhere by (auto simp: image_iff)
    obtain t where t: "t \<in> set (dbTasks db)" "tkID t = tlkTaskID l" "tkOrganizationID t = tlkOrganizationID l"
        "lockFits (tkStatus t) l"
      using inv l(1) unfolding queueInv_def locksOwned_def by blast
    show "\<exists>u \<in> set ts. tkID u = tlkTaskID l' \<and> tkOrganizationID u = tlkOrganizationID l' \<and> lockFits (tkStatus u) l'"
    proof (cases "?A t")
      case True
      have "?f t \<in> set ts" using ts_iff t(1) True by auto
      moreover have "lockFits TaskStatusCanceled l'"
        using older2 [OF t(1) True] t True l(2) by (auto simp: lockFits_def)
      ultimately show ?thesis using t l(2) by (intro bexI [of _ "?f t"]) (auto split: if_splits)
    next
      case False
      then have "l' = l" using B [OF l(1) _ t(1,2)] l(2) by auto
      moreover have "t \<in> set ts" using ts_iff t(1) False by auto
      ultimately show ?thesis using t by blast
    qed
  qed
  moreover have "leasesOwned ts (dbLeases db)"
    unfolding leasesOwned_def
  proof
    fix l assume l: "l \<in> set (dbLeases db)"
    then obtain t where t: "t \<in> set (dbTasks db)" "tkID t = tlTaskID l" "tkOrganizationID t = tlOrganizationID l"
        "leaseFits (tkStatus t) l"
      using inv unfolding queueInv_def leasesOwned_def by blast
    then have "\<not> ?A t" using A [of t] by (auto simp: leaseFits_def)
    then have "t \<in> set ts" using ts_iff t(1) by auto
    with t show "\<exists>u \<in> set ts. tkID u = tlTaskID l \<and> tkOrganizationID u = tlOrganizationID l \<and> leaseFits (tkStatus u) l"
      by blast
  qed
  moreover have "locksExclusive locks"
    unfolding locks by (rule locksExclusive_change) (use inv in \<open>auto simp: queueInv_def sameResource_def lockHeld_def\<close>)
  moreover have "\<forall>u \<in> set ts. taskStatusIsValid (tkStatus u)"
    using ts_iff inv by (auto simp: queueInv_def)
  ultimately have "queueInv ts locks (dbLeases db)" using inv ids by (simp add: queueInv_def)
  moreover have "laterDatabase db0 db'"
  proof -
    have later: "laterDatabase db0 db" using g by (simp add: good_def)
    have "laterDatabase db0 (db\<lparr>dbTasks := ts\<rparr>)"
      unfolding ts using A
      by (intro laterDatabase_tasks [OF later]) (auto simp: laterTask_def laterStatus_def taskStatusIsTerminal_def)
    from laterDatabase_locks [OF this, of ?B ?r] show ?thesis by (simp add: db' locks)
  qed
  moreover have "t \<in> set ts" if "t \<in> set (dbTasks db)" "tkID t \<in> set ids" for t
    using ts_iff A that by auto
  ultimately show ?thesis using g db' by (simp add: good_def)
qed

text \<open>Leases: releasing or renewing, and granting a new one to a running task.\<close>

lemma good_leases:
  assumes "good db0 db" "\<And>l. P l \<Longrightarrow> tlReleasedAt l = None"
    "\<And>l. tlTaskID (f l) = tlTaskID l \<and> tlOrganizationID (f l) = tlOrganizationID l \<and> tlAttempt (f l) = tlAttempt l"
  shows "good db0 (db\<lparr>dbLeases := updateWhere P f (dbLeases db)\<rparr>)"
  using assms leases_change [of "dbTasks db" "dbLocks db" "dbLeases db" P f]
    laterDatabase_leases [of db0 db P f]
  by (simp add: good_def)

lemma nextAttemptAfter_greater:
  "n \<le> nextAttemptAfter n as \<and> (\<forall>a \<in> set as. a < nextAttemptAfter n as)"
proof (induction as arbitrary: n)
  case (Cons a as)
  show ?case using Cons.IH [of "if a \<ge> n then a + 1 else n"] by (auto split: if_splits)
qed simp

lemma queueInv_newLease:
  assumes inv: "queueInv ts locks leases" and t: "t \<in> set ts" "tkStatus t = TaskStatusRunning"
    "tkID t = tlTaskID l" "tkOrganizationID t = tlOrganizationID l"
    and attempt: "0 < tlAttempt l" "\<And>k. k \<in> set leases \<Longrightarrow> tlTaskID k = tlTaskID l \<Longrightarrow> tlAttempt k < tlAttempt l"
    and free: "\<And>k. k \<in> set leases \<Longrightarrow> tlTaskID k = tlTaskID l \<Longrightarrow> tlReleasedAt k \<noteq> None"
  shows "queueInv ts locks (leases @ [l])"
proof -
  have "leasesOwned ts (leases @ [l])"
    using inv t by (auto simp: queueInv_def leasesOwned_def leaseFits_def)
  moreover have "oneActiveLease (leases @ [l])"
    using inv free unfolding queueInv_def oneActiveLease_def by fastforce
  moreover have "attemptsIncrease (leases @ [l])"
    using inv attempt by (auto simp: queueInv_def attemptsIncrease_def sorted_wrt_append)
  ultimately show ?thesis using inv by (simp add: queueInv_def)
qed

text \<open>Events: a new event takes the next number of its step and lease.\<close>

lemma fold_max_upto: "fold max (map int [Suc 1..<Suc (Suc n)]) 1 = int (Suc n)"
  by (induction n) auto

lemma maxSequence_length:
  assumes "eventsInv (dbEvents db)"
  shows "getMaxStepRunEventSequence org step lease db = int (length (filter (eventAt org step lease) (dbEvents db)))"
proof -
  let ?es = "filter (eventAt org step lease) (dbEvents db)"
  have eq: "map (\<lambda>r. evSequence (erEvent r)) ?es = map int [1..<Suc (length ?es)]"
    using assms by (simp add: eventsInv_def)
  show ?thesis
  proof (cases "length ?es")
    case 0
    then show ?thesis by (simp add: getMaxStepRunEventSequence_def)
  next
    case (Suc n)
    have "[1..<Suc (Suc n)] = 1 # [Suc 1..<Suc (Suc n)]" by (simp add: upt_conv_Cons del: upt_Suc)
    then have "map (\<lambda>r. evSequence (erEvent r)) ?es = 1 # map int [Suc 1..<Suc (Suc n)]"
      using eq Suc by (simp del: upt_Suc)
    then show ?thesis using Suc fold_max_upto [of n]
      by (simp add: getMaxStepRunEventSequence_def del: upt_Suc)
  qed
qed

lemma eventsInv_append:
  assumes "eventsInv (dbEvents db)"
    "evSequence (erEvent r) = getMaxStepRunEventSequence (evOrganizationID (erEvent r))
       (evStepRunID (erEvent r)) (evTaskLeaseID (erEvent r)) db + 1"
  shows "eventsInv (dbEvents db @ [r])"
  unfolding eventsInv_def
proof (intro allI)
  fix org step lease
  show "map (\<lambda>r. evSequence (erEvent r)) (filter (eventAt org step lease) (dbEvents db @ [r]))
     = map int [1..<Suc (length (filter (eventAt org step lease) (dbEvents db @ [r])))]"
    using assms maxSequence_length [OF assms(1), of org step lease]
    by (auto simp: eventsInv_def eventAt_def)
qed

end
