(* ===== verification/Task_System.thy ===== *)
theory Task_System
  imports Task_Invariants
begin

text \<open>
  The machine of all operations of the task queue. Every transaction keeps \<open>good db0\<close>, the
  invariant together with what never changes again since \<open>db0\<close>; the machine's runs inherit it
  through the interpretation \<open>tasks\<close> of \<open>driven_machine\<close>.
\<close>

section \<open>Creating tasks\<close>

text \<open>The tasks \<open>ts\<close> are rows of the table, and queued.\<close>

definition queuedIn :: "Task set \<Rightarrow> database \<Rightarrow> bool" where
  "queuedIn T db \<longleftrightarrow> (\<forall>t \<in> T. t \<in> set (dbTasks db) \<and> tkStatus t = TaskStatusQueued)"

lemma good_newTask:
  assumes "good db0 db" "newID \<notin> tkID ` set (dbTasks db)"
  shows "good db0 (db\<lparr>dbTasks := dbTasks db @ [newTask now dp actor dpt newID order]\<rparr>)"
  using assms queueInv_newTask [of "dbTasks db" "dbLocks db" "dbLeases db" "newTask now dp actor dpt newID order"]
  by (auto simp: good_def newTask_def)

lemma insertTaskRows_good:
  "triple (\<lambda>db. good db0 db \<and> queuedIn T db) (insertTaskRows P now dp actor dpts)
     (\<lambda>ts db. good db0 db \<and> queuedIn (T \<union> set ts) db)"
proof (induction dpts arbitrary: T)
  case Nil
  show ?case by (simp add: triple_def)
next
  case (Cons dpt dpts)
  note skip = tripleD [OF Cons.IH [of T]]
  note new = tripleD [OF Cons.IH]
  show ?case
    unfolding triple_def
  proof (intro allI impI)
    fix db ts db'
    assume a: "good db0 db \<and> queuedIn T db" and m: "insertTaskRows P now dp actor (dpt # dpts) db = Inr (ts, db')"
    define newID order db1 where d: "newID = pfRandomUuid P (dbRandom db)" "order = dbTaskQueueOrder db"
      "db1 = db\<lparr>dbRandom := dbRandom db + 1, dbTaskQueueOrder := order + 1\<rparr>"
    let ?task = "newTask now dp actor dpt newID order"
    let ?taken = "\<exists>t \<in> set (dbTasks db). tkDeploymentPlanID t = dpID dp \<and> tkDeploymentPlanTargetID t = dptID dpt"
    have a1: "good db0 db1 \<and> queuedIn T db1" using a by (simp add: d queuedIn_def)
    consider "?taken" "insertTaskRows P now dp actor dpts db1 = Inr (ts, db')"
      | rest where "newID \<notin> tkID ` set (dbTasks db)" "ts = ?task # rest"
          "insertTaskRows P now dp actor dpts (db1\<lparr>dbTasks := dbTasks db1 @ [?task]\<rparr>) = Inr (rest, db')"
      using m by (cases ?taken) (auto simp: randomUuid_def bindT_def d Let_def split: if_splits sum.splits)
    then show "good db0 db' \<and> queuedIn (T \<union> set ts) db'"
    proof cases
      case 1
      then show ?thesis using skip [OF a1] by simp
    next
      case 2
      have "good db0 (db1\<lparr>dbTasks := dbTasks db1 @ [?task]\<rparr>)
         \<and> queuedIn (insert ?task T) (db1\<lparr>dbTasks := dbTasks db1 @ [?task]\<rparr>)"
        using a1 2(1) good_newTask [of db0 db1 newID] by (auto simp: queuedIn_def newTask_def d)
      from new [OF this 2(3)] show ?thesis using 2(2) by (simp add: insert_commute)
    qed
  qed
qed

definition lockOfQueued :: "database \<Rightarrow> TaskResourceLock \<Rightarrow> bool" where
  "lockOfQueued db l \<longleftrightarrow> tlkAcquiredAt l = None \<and> tlkReleasedAt l = None
     \<and> (\<exists>t \<in> set (dbTasks db). tkStatus t = TaskStatusQueued \<and> tkID t = tlkTaskID l
          \<and> tkOrganizationID t = tlkOrganizationID l)"

lemma copyLocks_good:
  "triple (\<lambda>db. good db0 db \<and> (\<forall>l \<in> set ls. lockOfQueued db l)) (copyLocks P now ls) (\<lambda>_. good db0)"
proof (induction ls)
  case Nil
  show ?case by (simp add: triple_def)
next
  case (Cons l ls)
  show ?case
    unfolding triple_def
  proof (intro allI impI)
    fix db x db'
    assume a: "good db0 db \<and> (\<forall>l \<in> set (l # ls). lockOfQueued db l)" and m: "copyLocks P now (l # ls) db = Inr (x, db')"
    let ?new = "l\<lparr>tlkID := pfRandomUuid P (dbRandom db), tlkCreatedAt := now, tlkUpdatedAt := now\<rparr>"
    let ?db1 = "db\<lparr>dbRandom := dbRandom db + 1, dbLocks := dbLocks db @ [?new]\<rparr>"
    have m': "copyLocks P now ls ?db1 = Inr (x, db')"
      using m by (auto simp: randomUuid_def bindT_def split: if_splits)
    obtain t where t: "t \<in> set (dbTasks db)" "tkStatus t = TaskStatusQueued" "tkID t = tlkTaskID ?new"
        "tkOrganizationID t = tlkOrganizationID ?new"
      using a by (auto simp: lockOfQueued_def)
    have "queueInv (dbTasks db) (dbLocks db @ [?new]) (dbLeases db)"
      using a by (intro queueInv_newLock [OF _ t]) (auto simp: good_def lockOfQueued_def)
    moreover have "laterDatabase db0 (db\<lparr>dbLocks := dbLocks db @ [?new]\<rparr>)"
      using a by (auto simp: good_def)
    ultimately have "good db0 (db\<lparr>dbLocks := dbLocks db @ [?new]\<rparr>)" using a by (simp add: good_def)
    then have "good db0 ?db1" by (simp add: good_def laterDatabase_def)
    with a show "good db0 db'" by (intro tripleD [OF Cons.IH _ m']) (auto simp: lockOfQueued_def)
  qed
qed

lemma locksForTask_queued:
  "queuedIn (set ts) db \<Longrightarrow> t \<in> set ts \<Longrightarrow> l \<in> set (locksForTask P cs policy rs t) \<Longrightarrow> lockOfQueued db l"
  by (auto simp: locksForTask_def newLock_def lockOfQueued_def queuedIn_def)

lemma applyPolicies_good: "triple (good db0) (applyPolicies now ids ls) (\<lambda>_. good db0)"
proof (induction ls)
  case Nil
  show ?case by (simp add: triple_def)
next
  case (Cons l ls)
  have "triple (good db0) (cancelOlderQueuedTasksForResource now l ids) (\<lambda>_. good db0)"
    using good_cancelOlder unfolding triple_def by blast
  note cancel = triple_bind [OF this Cons.IH]
  have reject: "triple (good db0) (bindT (queryT q) (\<lambda>b. if b then failT e else applyPolicies now ids ls)) (\<lambda>_. good db0)"
    for q e
    by (rule triple_bind [OF triple_query [where B = "\<lambda>_. good db0"] triple_if]) (simp_all add: Cons.IH)
  show ?case using Cons.IH cancel reject by (cases "tlkConcurrencyPolicy l") (simp_all del: bindT_simps)
qed

lemma insertStepRunRows_good: "triple (good db0) (insertStepRunRows P now rows) (\<lambda>_. good db0)"
proof (induction rows)
  case Nil
  show ?case by (simp add: triple_def)
next
  case (Cons row rows)
  obtain t dps where "row = (t, dps)" by fastforce
  then show ?case
    unfolding triple_def
    by (auto simp: randomUuid_def bindT_def split: if_splits dest!: tripleD [OF Cons.IH, rotated])
qed

text \<open>Statements that write only tables of which \<open>good\<close> does not speak.\<close>

lemma good_exec: "(\<And>db. good db0 (f db) = good db0 db) \<Longrightarrow> triple (good db0) (execT f) (\<lambda>_. good db0)"
  by (auto simp: triple_def)

lemma good_query [simp]: "triple A (queryT q) (\<lambda>_. A)"
  by (simp add: triple_def)

lemma insertStepRuns_good: "triple (good db0) (insertStepRunsForTasks P now ts) (\<lambda>_. good db0)"
  unfolding insertStepRunsForTasks_def
  by (intro triple_if triple_bind [OF good_query] insertStepRunRows_good) (auto simp: triple_def)

lemma markExecuted_good: "triple (good db0) (markDeploymentPlanExecuted planID orgID) (\<lambda>_. good db0)"
  unfolding markDeploymentPlanExecuted_def Let_def
  by (intro triple_bind [OF good_query] triple_bind [OF good_exec]) (auto simp: triple_def)

lemma applyTaskPolicies_good: "triple (good db0) (applyTaskConcurrencyPolicies P now ts) (\<lambda>_. good db0)"
  unfolding applyTaskConcurrencyPolicies_def Let_def
  by (intro triple_if triple_bind [OF good_query] applyPolicies_good) (auto simp: triple_def)

lemma insertTasks_good:
  "triple (good db0) (insertTasksForDeploymentPlan P now dp actor) (\<lambda>ts db. good db0 db \<and> queuedIn (set ts) db)"
  unfolding insertTasksForDeploymentPlan_def
  by (intro triple_bind [OF good_query] triple_weaken [OF insertTaskRows_good [where T = "{}"]])
    (auto simp: queuedIn_def)

lemma insertLocks_good:
  "triple (\<lambda>db. good db0 db \<and> queuedIn (set ts) db)
     (insertTaskResourceLocksForTasks P now ts cs policy rs) (\<lambda>_. good db0)"
  unfolding insertTaskResourceLocksForTasks_def
  by (rule triple_weaken [OF copyLocks_good]) (auto dest: locksForTask_queued)

lemma getDeploymentPlan_same: "getDeploymentPlan i o1 db = Inr (x, db') \<Longrightarrow> db' = db"
  by (simp add: getDeploymentPlan_def split: option.splits)

lemma createTasksTx_good: "triple (good db0) (createTasksTx P preflight now request) (\<lambda>_. good db0)"
proof -
  have lift: "triple A (liftT r) (\<lambda>_. A)" for A :: "database \<Rightarrow> bool" and r :: "(bool \<times> string) result"
    by (rule triple_lift)
  show ?thesis
    unfolding createTasksTx_def Let_def case_prod_unfold
    by (intro triple_bind [OF triple_read [OF getDeploymentPlan_same]] triple_bind [OF good_query] triple_if
        triple_bind [OF lift] triple_bind [OF insertTasks_good] triple_bind [OF insertLocks_good]
        triple_bind [OF applyTaskPolicies_good] triple_bind [OF insertStepRuns_good]
        triple_bind [OF markExecuted_good] triple_fail)
      (simp_all add: triple_return)
qed

section \<open>State transitions\<close>

text \<open>A row of a task with the given identifiers and status.\<close>

definition taskHas :: "uuid \<Rightarrow> uuid \<Rightarrow> TaskStatus \<Rightarrow> database \<Rightarrow> bool" where
  "taskHas taskID orgID status db \<longleftrightarrow>
     (\<exists>t \<in> set (dbTasks db). tkID t = taskID \<and> tkOrganizationID t = orgID \<and> tkStatus t = status)"

lemma findTask_has: "findTask i o1 db = Some t \<Longrightarrow> taskHas i o1 (tkStatus t) db"
  using findTask_Some [of i o1 db t] unfolding taskHas_def by blast

lemma getTaskStatus_has:
  "triple A (getTaskStatusForUpdate i o1) (\<lambda>status db. A db \<and> taskHas i o1 status db)"
  by (auto simp: triple_def getTaskStatusForUpdate_def findTask_has split: option.splits)

lemma getTask_same: "getTask P i o1 db = Inr (x, db') \<Longrightarrow> db' = db"
  by (simp add: getTask_def split: option.splits)

lemma finish_good:
  "status = TaskStatusSucceeded \<or> status = TaskStatusFailed \<Longrightarrow>
   triple (\<lambda>db. good db0 db \<and> taskHas i o1 TaskStatusRunning db) (updateTaskStatus now i o1 status) (\<lambda>_. good db0)"
  unfolding triple_def taskHas_def using good_finish by blast

lemma start_good:
  "triple (\<lambda>db. good db0 db \<and> taskHas i o1 TaskStatusQueued db)
     (bindT (acquireTaskResourceLocks P now i o1) (\<lambda>_. updateTaskStatus now i o1 TaskStatusRunning))
     (\<lambda>_ db. good db0 db \<and> taskHas i o1 TaskStatusRunning db)"
  unfolding triple_def
proof (intro allI impI)
  fix db x db'
  assume a: "good db0 db \<and> taskHas i o1 TaskStatusQueued db"
    and m: "bindT (acquireTaskResourceLocks P now i o1) (\<lambda>_. updateTaskStatus now i o1 TaskStatusRunning) db = Inr (x, db')"
  obtain t where t: "t \<in> set (dbTasks db)" "tkID t = i" "tkOrganizationID t = o1" "tkStatus t = TaskStatusQueued"
    using a by (auto simp: taskHas_def)
  obtain y db1 where "acquireTaskResourceLocks P now (tkID t) (tkOrganizationID t) db = Inr (y, db1)"
      "updateTaskStatus now (tkID t) (tkOrganizationID t) TaskStatusRunning db1 = Inr (x, db')"
    using m t by (auto simp: bindT_Inr)
  from good_start [OF conjunct1 [OF a] t(1,4) this]
  have g: "good db0 db'" "setTaskStatus now TaskStatusRunning t \<in> set (dbTasks db')" by auto
  moreover have "tkID (setTaskStatus now TaskStatusRunning t) = i"
    "tkOrganizationID (setTaskStatus now TaskStatusRunning t) = o1"
    "tkStatus (setTaskStatus now TaskStatusRunning t) = TaskStatusRunning"
    using t by (simp_all add: setTaskStatus_def)
  ultimately show "good db0 db' \<and> taskHas i o1 TaskStatusRunning db'"
    unfolding taskHas_def by blast
qed

lemma bindT_assoc: "bindT (bindT m f) g = bindT m (\<lambda>x. bindT (f x) g)"
  by (auto simp: bindT_def fun_eq_iff split: sum.splits)

lemma bindT_returnT: "bindT (returnT x) f = f x"
  by (simp add: fun_eq_iff)

lemma transitionTaskTx_good: "triple (good db0) (transitionTaskTx P now request) (\<lambda>_. good db0)"
proof -
  let ?i = "trTaskID request" and ?o = "trOrganizationID request" and ?s = "trStatus request"
  have get: "triple (good db0) (getTask P ?i ?o) (\<lambda>_. good db0)"
    by (rule triple_read [OF getTask_same])
  have run: "triple (\<lambda>db. good db0 db \<and> taskHas ?i ?o status db)
      (bindT (if ?s = TaskStatusRunning then acquireTaskResourceLocks P now ?i ?o else returnT ())
        (\<lambda>_. bindT (updateTaskStatus now ?i ?o ?s) (\<lambda>_. getTask P ?i ?o))) (\<lambda>_. good db0)"
    if "isAllowedTaskTransition status ?s" for status
  proof (cases "?s = TaskStatusRunning")
    case True
    with that have "status = TaskStatusQueued" by (auto simp: isAllowedTaskTransition_def split: TaskStatus.splits)
    with True show ?thesis
      using triple_bind [OF start_good triple_weaken [OF get]] by (simp add: bindT_assoc)
  next
    case False
    with that have "status = TaskStatusRunning" "?s = TaskStatusSucceeded \<or> ?s = TaskStatusFailed"
      by (auto simp: isAllowedTaskTransition_def split: TaskStatus.splits)
    with triple_bind [OF finish_good get] show ?thesis using False by (simp add: bindT_returnT)
  qed
  show ?thesis
    unfolding transitionTaskTx_def Let_def
    by (intro triple_bind [OF getTaskStatus_has] triple_if triple_fail run) simp
qed

lemma stepStatus_good: "triple (good db0) (updateStepRunStatus now s o1 status) (\<lambda>_. good db0)"
  unfolding updateStepRunStatus_def by (rule good_exec) simp

lemma transitionStepRunTx_good: "triple (good db0) (transitionStepRunTx now request) (\<lambda>_. good db0)"
proof -
  have get: "triple (good db0) (getStepRunStatusForUpdate s o1) (\<lambda>_. good db0)"
    "triple (good db0) (getStepRun s o1) (\<lambda>_. good db0)" for s o1
    by (rule triple_read; simp add: getStepRunStatusForUpdate_def getStepRun_def split: option.splits)+
  show ?thesis
    unfolding transitionStepRunTx_def Let_def
    by (intro triple_bind [OF get(1)] triple_if triple_fail triple_bind [OF stepStatus_good] get(2))
qed

section \<open>Leases\<close>

lemma resetForExecutors_keeps:
  assumes "\<And>db x. A (db\<lparr>dbStepRuns := x\<rparr>) = A db"
  shows "triple A (resetForExecutors P now i o1 es) (\<lambda>_. A)"
proof (induction es)
  case Nil
  show ?case by (simp add: triple_def)
next
  case (Cons e es)
  have "triple A (resetInterruptedStepRunsForTaskExecutor P now i o1 e) (\<lambda>_. A)"
    using assms by (simp add: triple_def resetInterruptedStepRunsForTaskExecutor_def)
  from triple_bind [OF this Cons.IH] show ?case by simp
qed

text \<open>The next attempt is positive and above all attempts of the task.\<close>

definition attemptFree :: "uuid \<Rightarrow> int \<Rightarrow> database \<Rightarrow> bool" where
  "attemptFree i n db \<longleftrightarrow> 0 < n \<and> (\<forall>l \<in> set (dbLeases db). tlTaskID l = i \<longrightarrow> tlAttempt l < n)"

lemma leaseOrganization:
  "queueInv ts locks leases \<Longrightarrow> t \<in> set ts \<Longrightarrow> l \<in> set leases \<Longrightarrow> tlTaskID l = tkID t
   \<Longrightarrow> tlOrganizationID l = tkOrganizationID t"
  using leasesOwnedD by fastforce

lemma nextAttempt_good:
  "triple (\<lambda>db. good db0 db \<and> taskHas i o1 status db) (releaseExpiredTaskLeasesAndNextAttempt P now i o1)
     (\<lambda>n db. (good db0 db \<and> taskHas i o1 status db) \<and> attemptFree i n db)"
  unfolding triple_def
proof (intro allI impI)
  fix db n db'
  assume a: "good db0 db \<and> taskHas i o1 status db"
    and m: "releaseExpiredTaskLeasesAndNextAttempt P now i o1 db = Inr (n, db')"
  let ?hit = "\<lambda>l. (tlTaskID l = i \<and> tlOrganizationID l = o1) \<and> tlReleasedAt l = None \<and> tlExpiresAt l \<le> now"
  let ?rel = "\<lambda>l. l\<lparr>tlReleasedAt := coalesce (tlReleasedAt l) now, tlUpdatedAt := now\<rparr>"
  let ?db1 = "db\<lparr>dbLeases := updateWhere ?hit ?rel (dbLeases db)\<rparr>"
  let ?attempts = "map tlAttempt (filter (\<lambda>l. tlTaskID l = i \<and> tlOrganizationID l = o1) (dbLeases db))"
  obtain y where n: "n = nextAttemptAfter 1 ?attempts"
    and r: "resetForExecutors P now i o1 (map tlExecutorType (filter ?hit (dbLeases db))) ?db1 = Inr (y, db')"
    using m by (auto simp: releaseExpiredTaskLeasesAndNextAttempt_def Let_def bindT_def split: sum.splits)
  let ?A = "\<lambda>db. (good db0 db \<and> taskHas i o1 status db) \<and> attemptFree i n db"
  have g1: "good db0 ?db1" using a by (intro good_leases) auto
  have below: "tlAttempt l < n" if l: "l \<in> set (dbLeases db)" "tlTaskID l = i" for l
  proof -
    obtain t where "t \<in> set (dbTasks db)" "tkID t = i" "tkOrganizationID t = o1"
      using a by (auto simp: taskHas_def)
    then have "tlAttempt l \<in> set ?attempts"
      using a l leaseOrganization [of _ _ _ t l] by (auto simp: good_def)
    then show ?thesis using nextAttemptAfter_greater [of 1 ?attempts] n by blast
  qed
  have "0 < n" using nextAttemptAfter_greater [of 1 ?attempts] unfolding n by linarith
  moreover have "tlAttempt k < n" if k: "k \<in> set (updateWhere ?hit ?rel (dbLeases db))" "tlTaskID k = i" for k
  proof -
    obtain l where l: "l \<in> set (dbLeases db)" "k = (if ?hit l then ?rel l else l)"
      using k(1) unfolding updateWhere_iff by blast
    then have "tlAttempt k = tlAttempt l" "tlTaskID k = tlTaskID l" by simp_all
    with below [OF l(1)] k(2) show ?thesis by simp
  qed
  ultimately have "attemptFree i n ?db1" by (simp add: attemptFree_def)
  moreover have "taskHas i o1 status ?db1" using a by (simp add: taskHas_def)
  ultimately have A: "?A ?db1" using g1 by simp
  have "triple ?A (resetForExecutors P now i o1 (map tlExecutorType (filter ?hit (dbLeases db)))) (\<lambda>_. ?A)"
    by (rule resetForExecutors_keeps) (simp add: taskHas_def attemptFree_def)
  from tripleD [OF this A r] show "?A db'" .
qed

text \<open>The row of a lease that is granted.\<close>

definition newLease ::
    "platform \<Rightarrow> timestamp \<Rightarrow> uuid \<Rightarrow> uuid \<Rightarrow> uuid \<Rightarrow> TaskExecutorType \<Rightarrow> string \<Rightarrow> int \<Rightarrow> database \<Rightarrow> TaskLeaseRow" where
  "newLease P now orgID target taskID executorType tokenHash attempt db =
     \<lparr>tlID = pfRandomUuid P (dbRandom db), tlCreatedAt = now, tlUpdatedAt = now, tlOrganizationID = orgID,
      tlTaskID = taskID, tlAgentID = target, tlExecutorType = executorType,
      tlLeaseTokenHash = tokenHash, tlLeasedAt = now, tlExpiresAt = now + taskLeaseDuration,
      tlHeartbeatAt = now, tlAttempt = attempt, tlReleasedAt = None\<rparr>"

lemma newLease_simps [simp]:
  "tlTaskID (newLease P now o1 target i ex hash n db) = i"
  "tlOrganizationID (newLease P now o1 target i ex hash n db) = o1"
  "tlAttempt (newLease P now o1 target i ex hash n db) = n"
  by (simp_all add: newLease_def)

lemma insertTaskLease_Inr:
  assumes "insertTaskLease P now o1 target i ex hash n db = Inr (x, db')"
  shows "tlTaskID (newLease P now o1 target i ex hash n db) = i
     \<and> tlOrganizationID (newLease P now o1 target i ex hash n db) = o1
     \<and> tlAttempt (newLease P now o1 target i ex hash n db) = n
     \<and> (\<forall>k \<in> set (dbLeases db). tlTaskID k = i \<longrightarrow> tlReleasedAt k \<noteq> None)
     \<and> db' = db\<lparr>dbRandom := dbRandom db + 1, dbLeases := dbLeases db @ [newLease P now o1 target i ex hash n db]\<rparr>"
  using assms
  by (auto simp: insertTaskLease_def randomUuid_def bindT_def newLease_def split: if_splits)

lemma insertTaskLease_good:
  "triple (\<lambda>db. (good db0 db \<and> taskHas i o1 TaskStatusRunning db) \<and> attemptFree i n db)
     (insertTaskLease P now o1 target i ex hash n) (\<lambda>_. good db0)"
  unfolding triple_def
proof (intro allI impI)
  fix db x db'
  assume a: "(good db0 db \<and> taskHas i o1 TaskStatusRunning db) \<and> attemptFree i n db"
    and m: "insertTaskLease P now o1 target i ex hash n db = Inr (x, db')"
  obtain l where l: "tlTaskID l = i" "tlOrganizationID l = o1" "tlAttempt l = n"
      "\<And>k. k \<in> set (dbLeases db) \<Longrightarrow> tlTaskID k = i \<Longrightarrow> tlReleasedAt k \<noteq> None"
      "db' = db\<lparr>dbRandom := dbRandom db + 1, dbLeases := dbLeases db @ [l]\<rparr>"
    using insertTaskLease_Inr [OF m] by metis
  obtain t where t: "t \<in> set (dbTasks db)" "tkID t = i" "tkOrganizationID t = o1" "tkStatus t = TaskStatusRunning"
    using a by (auto simp: taskHas_def)
  have "queueInv (dbTasks db) (dbLocks db) (dbLeases db @ [l])"
    using a l t by (intro queueInv_newLease [of _ _ _ t]) (auto simp: good_def attemptFree_def)
  moreover have "laterDatabase db0 (db\<lparr>dbLeases := dbLeases db @ [l]\<rparr>)"
    using a by (auto simp: good_def)
  ultimately have "good db0 (db\<lparr>dbLeases := dbLeases db @ [l]\<rparr>)" using a by (simp add: good_def)
  then show "good db0 db'" by (simp add: l(5) good_def laterDatabase_def)
qed

lemma getTaskLease_same: "getTaskLease P token leaseID o1 db = Inr (x, db') \<Longrightarrow> db' = db"
  by (auto simp: getTaskLease_def bindT_Inr liftT_Inr split: option.splits
      dest!: getTask_same getDeploymentPlan_same)

lemma grantLease_good:
  "triple (\<lambda>db. (good db0 db \<and> taskHas (tcTaskID c) (tcOrganizationID c) TaskStatusRunning db)
       \<and> attemptFree (tcTaskID c) n db)
     (grantLease P now bytes c ex n) (\<lambda>_. good db0)"
  unfolding grantLease_def case_prod_unfold Let_def
  by (intro triple_bind [OF insertTaskLease_good] triple_bind [OF triple_read [OF getTaskLease_same]] triple_return)

lemma tryAcquire_start:
  "triple (\<lambda>db. good db0 db \<and> taskHas i o1 TaskStatusQueued db)
     (tryAcquire (acquireTaskResourceLocks P now i o1))
     (\<lambda>acquired db. if acquired
        then (\<exists>db' x. (good db0 db' \<and> taskHas i o1 TaskStatusQueued db')
                \<and> acquireTaskResourceLocks P now i o1 db' = Inr (x, db))
        else good db0 db)"
  by (fastforce simp: triple_def tryAcquire_def split: sum.splits error.splits)

lemma updateTaskStatus_start:
  "triple (\<lambda>db. \<exists>db' x. (good db0 db' \<and> taskHas i o1 TaskStatusQueued db')
        \<and> acquireTaskResourceLocks P now i o1 db' = Inr (x, db))
     (updateTaskStatus now i o1 TaskStatusRunning) (\<lambda>_ db. good db0 db \<and> taskHas i o1 TaskStatusRunning db)"
  unfolding triple_def
proof (intro allI impI, elim exE conjE)
  fix db y db2 db' x
  assume "good db0 db'" "taskHas i o1 TaskStatusQueued db'"
    "updateTaskStatus now i o1 TaskStatusRunning db = Inr (y, db2)"
    "acquireTaskResourceLocks P now i o1 db' = Inr (x, db)"
  then show "good db0 db2 \<and> taskHas i o1 TaskStatusRunning db2"
    by (intro tripleD [OF start_good]) (auto simp: bindT_Inr)
qed

lemma leaseTaskCandidate_good:
  assumes "tcStatus c = TaskStatusQueued \<or> tcStatus c = TaskStatusRunning"
  shows "triple (\<lambda>db. good db0 db \<and> taskHas (tcTaskID c) (tcOrganizationID c) (tcStatus c) db)
     (leaseTaskCandidate P now bytes c ex) (\<lambda>_. good db0)"
proof -
  let ?i = "tcTaskID c" and ?o = "tcOrganizationID c"
  let ?A = "\<lambda>db. good db0 db \<and> taskHas ?i ?o (tcStatus c) db"
  let ?B = "\<lambda>n db. ?A db \<and> (tcStatus c = TaskStatusRunning \<longrightarrow> attemptFree ?i n db)"
  have published: "triple ?A (lockTaskReleaseBundlePublishedForLease ?i ?o) (\<lambda>_. ?A)"
    by (rule triple_read) (simp add: lockTaskReleaseBundlePublishedForLease_def split: option.splits)
  have attempt: "triple ?A (if tcStatus c = TaskStatusRunning
      then releaseExpiredTaskLeasesAndNextAttempt P now ?i ?o else returnT 1) ?B"
    by (intro triple_if triple_return triple_weaken [OF nextAttempt_good]) auto
  have none: "triple (?B n) (returnT None) (\<lambda>_. good db0)" "triple (good db0) (returnT None) (\<lambda>_. good db0)"
    "triple ?A (returnT None) (\<lambda>_. good db0)" for n
    by (simp_all add: triple_def)
  have queued: "triple (?B n) (bindT (tryAcquire (acquireTaskResourceLocks P now ?i ?o)) (\<lambda>acquired.
      if \<not> acquired then returnT None
      else bindT (updateTaskStatus now ?i ?o TaskStatusRunning) (\<lambda>_.
           bindT (releaseExpiredTaskLeasesAndNextAttempt P now ?i ?o) (\<lambda>attempt.
             grantLease P now bytes c ex attempt)))) (\<lambda>_. good db0)" if "tcStatus c = TaskStatusQueued" for n
  proof -
    let ?C = "\<lambda>acquired db. if acquired
        then (\<exists>db' x. (good db0 db' \<and> taskHas ?i ?o TaskStatusQueued db')
                \<and> acquireTaskResourceLocks P now ?i ?o db' = Inr (x, db))
        else good db0 db"
    have "triple (?B n) (tryAcquire (acquireTaskResourceLocks P now ?i ?o)) ?C"
      by (rule triple_weaken [OF tryAcquire_start]) (use that in auto)
    moreover have "triple (?C acquired)
        (if \<not> acquired then returnT None
         else bindT (updateTaskStatus now ?i ?o TaskStatusRunning) (\<lambda>_.
              bindT (releaseExpiredTaskLeasesAndNextAttempt P now ?i ?o) (\<lambda>attempt.
                grantLease P now bytes c ex attempt))) (\<lambda>_. good db0)" for acquired
      using none(2) triple_bind [OF updateTaskStatus_start triple_bind [OF nextAttempt_good grantLease_good]]
      by (cases acquired) simp_all
    ultimately show ?thesis by (rule triple_bind)
  qed
  have running: "triple (?B n) (grantLease P now bytes c ex n) (\<lambda>_. good db0)"
    if "tcStatus c \<noteq> TaskStatusQueued" for n
    using that assms by (intro triple_weaken [OF grantLease_good]) auto
  show ?thesis
    unfolding leaseTaskCandidate_def Let_def
    by (intro triple_bind [OF published] triple_bind [OF attempt] triple_bind [OF good_query] triple_if
        none(1,3) queued running)
qed

lemma firstCandidate_Inr:
  assumes "firstCandidate wanted skipped db = Inr c"
  obtains t where "t \<in> set (dbTasks db)" "wanted t" "\<not> skipped (tkID t)" "tcTaskID c = tkID t"
    "tcOrganizationID c = tkOrganizationID t" "tcDeploymentTargetID c = tkDeploymentTargetID t"
    "tcStatus c = tkStatus t"
proof -
  let ?ts = "SortStable taskLess (filter (\<lambda>t. wanted t \<and> \<not> skipped (tkID t)) (dbTasks db))"
  obtain t rest where ts: "?ts = t # rest"
    using assms by (cases ?ts) (auto simp: firstCandidate_def)
  have "t \<in> set ?ts" unfolding ts by simp
  then have "t \<in> set (dbTasks db) \<and> wanted t \<and> \<not> skipped (tkID t)" by (simp only: set_SortStable) simp
  moreover have "c = \<lparr>tcTaskID = tkID t, tcOrganizationID = tkOrganizationID t,
      tcDeploymentTargetID = tkDeploymentTargetID t, tcStatus = tkStatus t\<rparr>"
    using assms ts by (simp add: firstCandidate_def)
  ultimately show ?thesis by (intro that [of t]) simp_all
qed

lemma leaseNextTx_good:
  assumes "\<And>db c. next db = Inr c \<Longrightarrow> \<exists>t \<in> set (dbTasks db). tcTaskID c = tkID t
      \<and> tcOrganizationID c = tkOrganizationID t \<and> tcStatus c = tkStatus t
      \<and> (tkStatus t = TaskStatusQueued \<or> tkStatus t = TaskStatusRunning)"
  shows "triple (good db0) (leaseNextTx P now bytes next ex) (\<lambda>_. good db0)"
  unfolding triple_def
proof (intro allI impI)
  fix db x db' assume g: "good db0 db" and m: "leaseNextTx P now bytes next ex db = Inr (x, db')"
  show "good db0 db'"
  proof (cases "next db")
    case (Inl e)
    with g m show ?thesis by (cases e) (auto simp: leaseNextTx_def)
  next
    case (Inr c)
    then have m': "leaseTaskCandidate P now bytes c ex db = Inr (x, db')" using m by (simp add: leaseNextTx_def)
    obtain t where "t \<in> set (dbTasks db)" "tcTaskID c = tkID t" "tcOrganizationID c = tkOrganizationID t"
        "tcStatus c = tkStatus t" "tkStatus t = TaskStatusQueued \<or> tkStatus t = TaskStatusRunning"
      using assms [OF Inr] by blast
    then show ?thesis
      using g by (intro tripleD [OF leaseTaskCandidate_good _ m']) (auto simp: taskHas_def)
  qed
qed

lemma candidate_status:
  "leaseCandidate P now db loc t \<Longrightarrow> tkStatus t = TaskStatusQueued \<or> tkStatus t = TaskStatusRunning"
  by (auto simp: leaseCandidate_def)

lemma agentCandidate:
  "getNextTaskLeaseCandidateForUpdate P now skipped request db = Inr c \<Longrightarrow> \<exists>t \<in> set (dbTasks db). tcTaskID c = tkID t
      \<and> tcOrganizationID c = tkOrganizationID t \<and> tcStatus c = tkStatus t
      \<and> (tkStatus t = TaskStatusQueued \<or> tkStatus t = TaskStatusRunning)"
  unfolding getNextTaskLeaseCandidateForUpdate_def
  by (erule firstCandidate_Inr) (use candidate_status in blast)

lemma hubCandidate:
  "getNextHubTaskLeaseCandidateForUpdate P now skipped db = Inr c \<Longrightarrow> \<exists>t \<in> set (dbTasks db). tcTaskID c = tkID t
      \<and> tcOrganizationID c = tkOrganizationID t \<and> tcStatus c = tkStatus t
      \<and> (tkStatus t = TaskStatusQueued \<or> tkStatus t = TaskStatusRunning)"
  unfolding getNextHubTaskLeaseCandidateForUpdate_def
  by (erule firstCandidate_Inr) (use candidate_status in blast)

lemma leaseAgent_good:
  "triple (good db0) (leaseNextTx P now bytes (getNextTaskLeaseCandidateForUpdate P now skipped request) ex) (\<lambda>_. good db0)"
  by (rule leaseNextTx_good) (rule agentCandidate)

lemma leaseHub_good:
  "triple (good db0) (leaseNextTx P now bytes (getNextHubTaskLeaseCandidateForUpdate P now skipped) ex) (\<lambda>_. good db0)"
  by (rule leaseNextTx_good) (rule hubCandidate)

section \<open>Heartbeats\<close>

lemma heartbeat_good: "triple (good db0) (heartbeatTaskLease P now o1 target i token ex) (\<lambda>_. good db0)"
proof -
  have status: "triple (good db0) (getTaskStatusForUpdate i o1) (\<lambda>_. good db0)"
    by (rule triple_read) (simp add: getTaskStatusForUpdate_def split: option.splits)
  have active: "triple (good db0) (getActiveTaskLeaseIDForHeartbeat P now o1 target i token ex) (\<lambda>_. good db0)"
    by (rule triple_read) (simp add: getActiveTaskLeaseIDForHeartbeat_def split: option.splits)
  have beat: "triple (good db0) (updateTaskLeaseHeartbeat now leaseID o1) (\<lambda>_. good db0)" for leaseID
    unfolding updateTaskLeaseHeartbeat_def triple_def by (auto intro: good_leases)
  show ?thesis
    unfolding heartbeatTaskLease_def case_prod_unfold
    by (intro triple_bind [OF status] triple_if triple_fail triple_bind [OF active] triple_bind [OF beat]
        triple_read [OF getTaskLease_same])
qed

section \<open>Events\<close>

lemma validateRequest_fields:
  "validateRecordAgentStepRunEventRequest r = Inr r' \<Longrightarrow>
     reOrganizationID r' = reOrganizationID r \<and> reStepRunID r' = reStepRunID r
     \<and> reAgentID r' = reAgentID r \<and> reSequence r' = reSequence r \<and> reType r' = reType r"
  unfolding validateRecordAgentStepRunEventRequest_def Let_def
  by (auto simp: bindR_eq_Inr split: if_splits)

lemma prepareRequest_fields:
  "prepareStepRunEventRequest C r vs = Inr p \<Longrightarrow>
     reOrganizationID (ppRequest p) = reOrganizationID r \<and> reStepRunID (ppRequest p) = reStepRunID r
     \<and> reAgentID (ppRequest p) = reAgentID r \<and> reSequence (ppRequest p) = reSequence r
     \<and> reType (ppRequest p) = reType r"
  unfolding prepareStepRunEventRequest_def Let_def case_prod_unfold
  by (auto simp: bindR_eq_Inr split: if_splits dest!: validateRequest_fields)

lemma complete_good:
  "triple (\<lambda>db. good db0 db \<and> taskHas i o1 TaskStatusRunning db)
     (completeTaskIfStepRunsTerminal now i o1) (\<lambda>_. good db0)"
  unfolding completeTaskIfStepRunsTerminal_def Let_def
  by (intro triple_bind [OF good_query] triple_if finish_good triple_return) simp_all

lemma stepStatus_has:
  "triple (\<lambda>db. good db0 db \<and> taskHas i o1 status db) (updateStepRunStatus now s o2 st)
     (\<lambda>_ db. good db0 db \<and> taskHas i o1 status db)"
  by (simp add: triple_def updateStepRunStatus_def taskHas_def)

lemma applyEvent_good:
  "triple (\<lambda>db. good db0 db \<and> taskHas (etTaskID target) (reOrganizationID r) (etTaskStatus target) db)
     (applyStepRunEventTransition now target r) (\<lambda>_. good db0)"
proof (cases "etTaskStatus target = TaskStatusRunning")
  case True
  let ?A = "\<lambda>db. good db0 db \<and> taskHas (etTaskID target) (reOrganizationID r) TaskStatusRunning db"
  have start: "triple ?A (updateStepRunStatus now s o2 st) (\<lambda>_. good db0)" for s o2 st
    by (rule triple_weaken [OF stepStatus_has]) auto
  have ok: "triple ?A (returnT ()) (\<lambda>_. good db0)" by (rule triple_return) simp
  show ?thesis
    unfolding applyStepRunEventTransition_def Let_def True
    by (cases "reType r") (auto intro!: start ok [unfolded fun_eq_iff] triple_bind [OF stepStatus_has] complete_good finish_good
        simp del: tx_simps)
next
  case False
  then show ?thesis by (simp add: applyStepRunEventTransition_def)
qed

lemma events_unchanged:
  "triple (\<lambda>db. dbEvents db = es) (updateTaskStatus now i o1 st) (\<lambda>_ db. dbEvents db = es)"
  "triple (\<lambda>db. dbEvents db = es) (updateStepRunStatus now s o1 st') (\<lambda>_ db. dbEvents db = es)"
  by (auto simp: triple_def updateTaskStatus_def releaseActiveTaskLeasesForTask_def
      releaseTaskResourceLocks_def updateStepRunStatus_def split: if_splits)

lemma applyEvent_events:
  "triple (\<lambda>db. dbEvents db = es) (applyStepRunEventTransition now target r) (\<lambda>_ db. dbEvents db = es)"
proof -
  have complete: "triple (\<lambda>db. dbEvents db = es) (completeTaskIfStepRunsTerminal now i o1) (\<lambda>_ db. dbEvents db = es)" for i o1
    unfolding completeTaskIfStepRunsTerminal_def Let_def
    by (intro triple_bind [OF good_query] triple_if events_unchanged triple_return)
  have ok: "triple (\<lambda>db. dbEvents db = es) (returnT ()) (\<lambda>_ db. dbEvents db = es)" by (rule triple_return)
  show ?thesis
    unfolding applyStepRunEventTransition_def Let_def
    by (cases "reType r") (auto intro!: ok events_unchanged triple_bind [OF events_unchanged(2)] complete
        simp del: tx_simps)
qed

text \<open>The event row that \<open>insertStepRunEvent\<close> appends.\<close>

definition newEventRow ::
    "platform \<Rightarrow> timestamp \<Rightarrow> preparedStepRunEventRequest \<Rightarrow> uuid \<Rightarrow> uuid \<Rightarrow> database \<Rightarrow> StepRunEventRow" where
  "newEventRow P now p taskID leaseID db =
     (let r = ppRequest p in
      \<lparr>erEvent = \<lparr>evID = pfRandomUuid P (dbRandom db), evCreatedAt = now,
         evOccurredAt = (case reOccurredAt r of None \<Rightarrow> now | Some t \<Rightarrow> t),
         evOrganizationID = reOrganizationID r, evTaskID = taskID, evStepRunID = reStepRunID r,
         evTaskLeaseID = leaseID, evAgentID = reAgentID r, evSequence = reSequence r,
         evType = reType r, evMessage = reMessage r, evProgressPercent = reProgressPercent r,
         evDetails = (case ppDetails p of JObject m \<Rightarrow> m | _ \<Rightarrow> []), evRedacted = ppRedacted p,
         evLogs = [], evOutputs = []\<rparr>, erPayloadHash = ppPayloadHash p\<rparr>)"

lemma newEventRow_simps [simp]:
  "evSequence (erEvent (newEventRow P now p i leaseID db)) = reSequence (ppRequest p)"
  "evOrganizationID (erEvent (newEventRow P now p i leaseID db)) = reOrganizationID (ppRequest p)"
  "evStepRunID (erEvent (newEventRow P now p i leaseID db)) = reStepRunID (ppRequest p)"
  "evTaskLeaseID (erEvent (newEventRow P now p i leaseID db)) = leaseID"
  "evID (erEvent (newEventRow P now p i leaseID db)) = pfRandomUuid P (dbRandom db)"
  "erPayloadHash (newEventRow P now p i leaseID db) = ppPayloadHash p"
  by (simp_all add: newEventRow_def Let_def)

lemma insertEvent_Inr:
  assumes "insertStepRunEvent P C now p i leaseID db = Inr (x, db')"
  shows "x = pfRandomUuid P (dbRandom db) \<and> x \<notin> (\<lambda>e. evID (erEvent e)) ` set (dbEvents db)
     \<and> db' = db\<lparr>dbRandom := dbRandom db + 1, dbEvents := dbEvents db @ [newEventRow P now p i leaseID db]\<rparr>"
  using assms unfolding insertStepRunEvent_def Let_def newEventRow_def
  by (auto simp: randomUuid_def bindT_def split: if_splits)

lemma insertEvent_good:
  "triple (\<lambda>db. good db0 db \<and> reSequence (ppRequest p) = getMaxStepRunEventSequence
         (reOrganizationID (ppRequest p)) (reStepRunID (ppRequest p)) leaseID db + 1)
     (insertStepRunEvent P C now p i leaseID) (\<lambda>_. good db0)"
  unfolding triple_def
proof (intro allI impI)
  fix db x db'
  assume a: "good db0 db \<and> reSequence (ppRequest p) = getMaxStepRunEventSequence
         (reOrganizationID (ppRequest p)) (reStepRunID (ppRequest p)) leaseID db + 1"
    and m: "insertStepRunEvent P C now p i leaseID db = Inr (x, db')"
  define row where "row = newEventRow P now p i leaseID db"
  then have row: "evSequence (erEvent row) = reSequence (ppRequest p)"
     "evOrganizationID (erEvent row) = reOrganizationID (ppRequest p)"
     "evStepRunID (erEvent row) = reStepRunID (ppRequest p)" "evTaskLeaseID (erEvent row) = leaseID"
     "db' = db\<lparr>dbRandom := dbRandom db + 1, dbEvents := dbEvents db @ [row]\<rparr>"
    using insertEvent_Inr [OF m] by simp_all
  have "eventsInv (dbEvents db @ [row])"
    using a row by (intro eventsInv_append) (auto simp: good_def)
  moreover have "laterDatabase db0 (db\<lparr>dbEvents := dbEvents db @ [row]\<rparr>)"
    using a by (auto simp: good_def)
  ultimately have "good db0 (db\<lparr>dbEvents := dbEvents db @ [row]\<rparr>)" using a by (simp add: good_def)
  then show "good db0 db'" by (simp add: row(5) good_def laterDatabase_def)
qed

lemma good_append_other:
  "good db0 db \<Longrightarrow> good db0 (db\<lparr>dbRandom := n, dbLogChunks := dbLogChunks db @ cs\<rparr>)"
  "good db0 db \<Longrightarrow> good db0 (db\<lparr>dbRandom := n, dbOutputs := dbOutputs db @ os\<rparr>)"
  by (auto simp: good_def laterDatabase_def)

lemma insertLogChunks_good:
  "triple (good db0) (insertLogChunks P now occurred eventID i leaseID r n logs) (\<lambda>_. good db0)"
proof (induction logs arbitrary: n)
  case Nil
  show ?case by (simp add: triple_def)
next
  case (Cons a logs)
  obtain log red where "a = (log, red)" by fastforce
  then show ?case
    unfolding triple_def
    by (auto simp: randomUuid_def bindT_def split: if_splits
        intro: good_append_other(1) dest!: tripleD [OF Cons.IH, rotated])
qed

lemma insertOutputs_good:
  "triple (good db0) (insertOutputs P now eventID i leaseID r ps) (\<lambda>_. good db0)"
proof (induction ps)
  case Nil
  show ?case by (simp add: triple_def)
next
  case (Cons p ps)
  then show ?case
    unfolding triple_def
    by (auto simp: randomUuid_def bindT_def split: if_splits
        intro: good_append_other(2) dest!: tripleD [OF Cons.IH, rotated])
qed

lemma batchComplete_good:
  "triple (good db0) (releaseTaskLeaseIfExecutorBatchComplete P now i o1 leaseID loc) (\<lambda>_. good db0)"
  unfolding releaseTaskLeaseIfExecutorBatchComplete_def triple_def by (auto intro: good_leases)

lemma outputLimit_same: "validateStepRunOutputNameLimit o1 step outs db = Inr (x, db') \<Longrightarrow> db' = db"
  by (auto simp: validateStepRunOutputNameLimit_def split: if_splits)

lemma getStepRunEvent_same: "getStepRunEvent P e o1 db = Inr (x, db') \<Longrightarrow> db' = db"
  by (simp add: getStepRunEvent_def split: option.splits)

text \<open>The steps of \<open>storeEvent\<close> when it succeeds.\<close>

lemma storeEvent_steps:
  assumes "storeEvent P C now ex target leaseID p db = Inr (e, db')"
  obtains db1 db2 db3 db4 eventID u v w z where
    "reSequence (ppRequest p) =
       getMaxStepRunEventSequence (reOrganizationID (ppRequest p)) (reStepRunID (ppRequest p)) leaseID db + 1"
    "applyStepRunEventTransition now target (ppRequest p) db = Inr (u, db1)"
    "insertStepRunEvent P C now p (etTaskID target) leaseID db1 = Inr (eventID, db2)"
    "insertStepRunLogChunks P now eventID (etTaskID target) leaseID p db2 = Inr (v, db3)"
    "insertStepRunOutputs P now eventID (etTaskID target) leaseID p db3 = Inr (w, db4)"
    "(if reType (ppRequest p) = StepRunEventTypeSucceeded
      then releaseTaskLeaseIfExecutorBatchComplete P now (etTaskID target)
             (reOrganizationID (ppRequest p)) leaseID (ExecutionLocation ex)
      else returnT ()) db4 = Inr (z, db')"
    "getStepRunEvent P eventID (reOrganizationID (ppRequest p)) db' = Inr (e, db')"
proof -
  obtain db0 db1 db2 db3 db4 db5 eventID u v w z n where steps:
    "reSequence (ppRequest p) =
       getMaxStepRunEventSequence (reOrganizationID (ppRequest p)) (reStepRunID (ppRequest p)) leaseID db + 1"
    "validateStepRunOutputNameLimit (reOrganizationID (ppRequest p)) (reStepRunID (ppRequest p)) (ppOutputs p) db = Inr (n, db0)"
    "applyStepRunEventTransition now target (ppRequest p) db0 = Inr (u, db1)"
    "insertStepRunEvent P C now p (etTaskID target) leaseID db1 = Inr (eventID, db2)"
    "insertStepRunLogChunks P now eventID (etTaskID target) leaseID p db2 = Inr (v, db3)"
    "insertStepRunOutputs P now eventID (etTaskID target) leaseID p db3 = Inr (w, db4)"
    "(if reType (ppRequest p) = StepRunEventTypeSucceeded
      then releaseTaskLeaseIfExecutorBatchComplete P now (etTaskID target)
             (reOrganizationID (ppRequest p)) leaseID (ExecutionLocation ex)
      else returnT ()) db4 = Inr (z, db5)"
    "getStepRunEvent P eventID (reOrganizationID (ppRequest p)) db5 = Inr (e, db')"
    using assms unfolding storeEvent_def Let_def bindT_simps fail_if_Inr bindT_Inr by blast
  with outputLimit_same [OF steps(2)] getStepRunEvent_same [OF steps(8)] show ?thesis
    by (intro that) auto
qed

lemma storeEvent_good:
  "triple (\<lambda>db. good db0 db \<and> taskHas (etTaskID target) (reOrganizationID (ppRequest p)) (etTaskStatus target) db)
     (storeEvent P C now ex target leaseID p) (\<lambda>_. good db0)"
  unfolding triple_def
proof (intro allI impI)
  fix db e db'
  assume a: "good db0 db \<and> taskHas (etTaskID target) (reOrganizationID (ppRequest p)) (etTaskStatus target) db"
    and m: "storeEvent P C now ex target leaseID p db = Inr (e, db')"
  show "good db0 db'"
    using m
  proof (rule storeEvent_steps)
    fix db1 db2 db3 db4 eventID u v w z
    assume seq: "reSequence (ppRequest p) =
       getMaxStepRunEventSequence (reOrganizationID (ppRequest p)) (reStepRunID (ppRequest p)) leaseID db + 1"
      and ap: "applyStepRunEventTransition now target (ppRequest p) db = Inr (u, db1)"
      and ins: "insertStepRunEvent P C now p (etTaskID target) leaseID db1 = Inr (eventID, db2)"
      and logs: "insertStepRunLogChunks P now eventID (etTaskID target) leaseID p db2 = Inr (v, db3)"
      and outs: "insertStepRunOutputs P now eventID (etTaskID target) leaseID p db3 = Inr (w, db4)"
      and last: "(if reType (ppRequest p) = StepRunEventTypeSucceeded
         then releaseTaskLeaseIfExecutorBatchComplete P now (etTaskID target)
             (reOrganizationID (ppRequest p)) leaseID (ExecutionLocation ex)
         else returnT ()) db4 = Inr (z, db')"
    have "good db0 db1" using tripleD [OF applyEvent_good a ap] .
    moreover have "dbEvents db1 = dbEvents db" using tripleD [OF applyEvent_events refl ap] .
    ultimately have "good db0 db2"
      using seq by (intro tripleD [OF insertEvent_good _ ins]) (simp add: getMaxStepRunEventSequence_def)
    then have "good db0 db3"
      using logs unfolding insertStepRunLogChunks_def by (rule tripleD [OF insertLogChunks_good])
    then have g4: "good db0 db4"
      using outs unfolding insertStepRunOutputs_def by (rule tripleD [OF insertOutputs_good])
    have "triple (good db0) (if reType (ppRequest p) = StepRunEventTypeSucceeded
         then releaseTaskLeaseIfExecutorBatchComplete P now (etTaskID target)
             (reOrganizationID (ppRequest p)) leaseID (ExecutionLocation ex)
         else returnT ()) (\<lambda>_. good db0)"
      by (rule triple_if [OF batchComplete_good triple_return])
    from tripleD [OF this g4 last] show ?thesis .
  qed
qed

lemma findStepRun_Some:
  "findStepRun i o1 db = Some r \<Longrightarrow> r \<in> set (dbStepRuns db) \<and> srID r = i \<and> srOrganizationID r = o1"
  by (auto simp: findStepRun_def find_Some_iff)

lemma eventTarget_has:
  assumes "getStepRunEventTargetForUpdate o1 step db = Inr (target, db')"
  shows "db' = db \<and> taskHas (etTaskID target) o1 (etTaskStatus target) db"
proof (cases "findStepRun step o1 db")
  case None
  then show ?thesis using assms by (simp add: getStepRunEventTargetForUpdate_def)
next
  case (Some sr)
  show ?thesis
  proof (cases "findTask (srTaskID sr) (srOrganizationID sr) db")
    case None
    then show ?thesis using assms Some by (simp add: getStepRunEventTargetForUpdate_def)
  next
    case (Some t)
    have "db' = db" "etTaskID target = tkID t" "etTaskStatus target = tkStatus t"
      using assms \<open>findStepRun step o1 db = Some sr\<close> Some
      by (auto simp add: getStepRunEventTargetForUpdate_def)
    moreover have "taskHas (tkID t) o1 (tkStatus t) db"
      using findTask_has [OF Some] findTask_Some(2) [OF Some]
        findStepRun_Some [OF \<open>findStepRun step o1 db = Some sr\<close>] by simp
    ultimately show ?thesis by simp
  qed
qed

lemma eventLease_same: "getTaskLeaseForStepRunEvent P now r i ex db = Inr (x, db') \<Longrightarrow> db' = db"
  by (simp add: getTaskLeaseForStepRunEvent_def split: option.splits)

text \<open>A recorded event is new, and then stored, or was recorded before, and then nothing changes.\<close>

lemma recordEventTx_cases:
  assumes "recordEventTx P C now ex request db = Inr (e, db')"
  obtains (replay) target lease vs p row where
        "getStepRunEventTargetForUpdate (reOrganizationID request) (reStepRunID request) db = Inr (target, db)"
        "getTaskLeaseForStepRunEvent P now request (etTaskID target) ex db = Inr (lease, db)"
        "prepareStepRunEventRequest C request vs = Inr p"
        "getStepRunEventBySequence (reOrganizationID request) (reStepRunID request) (elID lease) (reSequence request) db = Some row"
        "erPayloadHash row = ppPayloadHash p" "db' = db"
        "getStepRunEvent P (evID (erEvent row)) (reOrganizationID request) db = Inr (e, db)"
        "getStepRunSecretValuesForRedaction (reOrganizationID request) (reStepRunID request) db = Inr vs"
  | (store) target lease vs p where
        "getStepRunEventTargetForUpdate (reOrganizationID request) (reStepRunID request) db = Inr (target, db)"
        "getTaskLeaseForStepRunEvent P now request (etTaskID target) ex db = Inr (lease, db)"
        "prepareStepRunEventRequest C request vs = Inr p"
        "getStepRunEventBySequence (reOrganizationID request) (reStepRunID request) (elID lease) (reSequence request) db = None"
        "\<not> elReleased lease" "\<not> elExpired lease"
        "storeEvent P C now ex target (elID lease) p db = Inr (e, db')"
        "getStepRunSecretValuesForRedaction (reOrganizationID request) (reStepRunID request) db = Inr vs"
        "etAgentID target = reAgentID request"
proof -
  obtain target lease vs p db1 db2 where t: "getStepRunEventTargetForUpdate (reOrganizationID request) (reStepRunID request) db = Inr (target, db1)"
    and l: "getTaskLeaseForStepRunEvent P now request (etTaskID target) ex db1 = Inr (lease, db2)"
    and a: "etAgentID target = reAgentID request"
    and s: "getStepRunSecretValuesForRedaction (reOrganizationID request) (reStepRunID request) db2 = Inr vs"
    and p: "prepareStepRunEventRequest C request vs = Inr p"
    and rest: "(case getStepRunEventBySequence (reOrganizationID request) (reStepRunID request) (elID lease) (reSequence request) db2 of
          Some row \<Rightarrow>
            if erPayloadHash row \<noteq> ppPayloadHash p
              then failT (ErrConflict ''step event sequence already recorded with different payload'')
            else getStepRunEvent P (evID (erEvent row)) (reOrganizationID request)
        | None \<Rightarrow>
            if elReleased lease then failT (ErrConflict ''task lease has been released'')
            else if elExpired lease then failT (ErrConflict ''task lease has expired'')
            else storeEvent P C now ex target (elID lease) p) db2 = Inr (e, db')"
    using assms unfolding recordEventTx_def Let_def bindT_simps fail_if_Inr bindT_Inr liftT_Inr by blast
  have same: "db1 = db" "db2 = db" using eventTarget_has [OF t] eventLease_same [OF l] by simp_all
  show ?thesis
  proof (cases "getStepRunEventBySequence (reOrganizationID request) (reStepRunID request) (elID lease) (reSequence request) db")
    case None
    then show ?thesis using store [of target lease vs p] t l p a s rest same by (auto split: if_splits)
  next
    case (Some row)
    with rest have "erPayloadHash row = ppPayloadHash p"
      "getStepRunEvent P (evID (erEvent row)) (reOrganizationID request) db = Inr (e, db')"
      by (simp_all add: same split: if_splits)
    then show ?thesis using replay [of target lease vs p row] t l p s Some same getStepRunEvent_same by metis
  qed
qed

lemma recordEventTx_good: "triple (good db0) (recordEventTx P C now ex request) (\<lambda>_. good db0)"
  unfolding triple_def
proof (intro allI impI)
  fix db e db' assume g: "good db0 db" and m: "recordEventTx P C now ex request db = Inr (e, db')"
  from m show "good db0 db'"
  proof (cases rule: recordEventTx_cases)
    case replay
    then show ?thesis using g by simp
  next
    case (store target lease vs p)
    then show ?thesis
      using g eventTarget_has [OF store(1)] prepareRequest_fields [OF store(3)]
      by (intro tripleD [OF storeEvent_good _ store(7)]) simp
  qed
qed


section \<open>The machine\<close>

text \<open>The calls of all operations that write, and writes of the tables that other components own.\<close>

datatype TaskCall =
    CreateTasks preflightCheck CreateTasksForDeploymentPlanRequest
  | TransitionTask TransitionTaskStateRequest
  | TransitionStep TransitionStepRunStateRequest
  | LeaseAgent string "uuid \<Rightarrow> bool" LeaseAgentTaskRequest
  | LeaseHub string "uuid \<Rightarrow> bool"
  | HeartbeatAgent HeartbeatAgentTaskLeaseRequest
  | HeartbeatHub HeartbeatHubTaskLeaseRequest
  | RecordAgent RecordAgentStepRunEventRequest
  | RecordHub RecordHubStepRunEventRequest
  | OtherWrites "DeploymentPlan list" "DeploymentPlanTarget list" "DeploymentPlanTargetComponent list"
      "DeploymentPlanStep list" "ReleaseBundle list" "Secret list"

fun taskStep :: "platform \<Rightarrow> eventCodec \<Rightarrow> database \<Rightarrow> timestamp \<times> TaskCall \<Rightarrow> database" where
  "taskStep P C db (now, CreateTasks preflight request) =
     snd (CreateTasksForDeploymentPlan P preflight now request db)"
| "taskStep P C db (now, TransitionTask request) = snd (TransitionTaskState P now request db)"
| "taskStep P C db (now, TransitionStep request) = snd (TransitionStepRunState now request db)"
| "taskStep P C db (now, LeaseAgent bytes skipped request) = snd (LeaseAgentTask P now bytes skipped request db)"
| "taskStep P C db (now, LeaseHub bytes skipped) = snd (LeaseHubTask P now bytes skipped db)"
| "taskStep P C db (now, HeartbeatAgent request) = snd (HeartbeatAgentTaskLease P now request db)"
| "taskStep P C db (now, HeartbeatHub request) = snd (HeartbeatHubTaskLease P now request db)"
| "taskStep P C db (now, RecordAgent request) = snd (RecordAgentStepRunEvent P C now request db)"
| "taskStep P C db (now, RecordHub request) = snd (RecordHubStepRunEvent P C now request db)"
| "taskStep P C db (now, OtherWrites plans targets components steps bundles secrets) =
     db\<lparr>dbPlans := plans, dbPlanTargets := targets, dbPlanTargetComponents := components,
        dbPlanSteps := steps, dbBundles := bundles, dbSecrets := secrets\<rparr>"

lemma RunTx_good: "triple (good db0) m (\<lambda>_. good db0) \<Longrightarrow> good db0 db \<Longrightarrow> good db0 (snd (RunTx m db))"
  by (rule RunTx_triple)

lemma recordStepRunEvent_good:
  "good db0 db \<Longrightarrow> good db0 (snd (recordStepRunEvent P C now request ex db))"
  unfolding recordStepRunEvent_def by (auto intro: RunTx_good [OF recordEventTx_good] split: sum.split)

lemma createTasks_good:
  "good db0 db \<Longrightarrow> good db0 (snd (CreateTasksForDeploymentPlan P preflight now request db))"
  using RunTx_good [OF createTasksTx_good, of db0 db P preflight now request]
  by (auto simp: CreateTasksForDeploymentPlan_def split: sum.split prod.split)

lemma taskStep_good: "good db0 db \<Longrightarrow> good db0 (taskStep P C db e)"
proof -
  assume g: "good db0 db"
  obtain now c where "e = (now, c)" by fastforce
  then show ?thesis
    using g
    by (cases c) (auto simp: TransitionTaskState_def TransitionStepRunState_def LeaseAgentTask_def LeaseHubTask_def
        HeartbeatAgentTaskLease_def HeartbeatHubTaskLease_def RecordAgentStepRunEvent_def RecordHubStepRunEvent_def
        intro!: createTasks_good recordStepRunEvent_good RunTx_good transitionTaskTx_good transitionStepRunTx_good
          leaseAgent_good leaseHub_good heartbeat_good split: sum.split)
qed

interpretation tasks: driven_machine "taskStep P C" "\<lambda>_ _. True" "good db0" for P C db0
  by unfold_locales (rule taskStep_good)

text \<open>A hub starts with empty tables of its own.\<close>

definition emptyQueue :: "database \<Rightarrow> bool" where
  "emptyQueue db \<longleftrightarrow> dbTasks db = [] \<and> dbLocks db = [] \<and> dbLeases db = [] \<and> dbEvents db = []"

definition runTasks :: "platform \<Rightarrow> eventCodec \<Rightarrow> (timestamp \<times> TaskCall) list \<Rightarrow> database \<Rightarrow> database" where
  "runTasks P C es db = foldl (taskStep P C) db es"

lemma emptyQueue_good: "emptyQueue db \<Longrightarrow> good db db"
  by (simp add: emptyQueue_def good_def queueInv_def locksOwned_def leasesOwned_def locksExclusive_def
      oneActiveLease_def attemptsIncrease_def eventsInv_def)

lemma runTasks_good: "good db0 db \<Longrightarrow> good db0 (runTasks P C es db)"
  unfolding runTasks_def by (rule tasks.inv_run_static) simp_all

lemma good_now: "good db0 db \<Longrightarrow> good db db"
  by (simp add: good_def)

text \<open>What a reachable database satisfies, and how it relates to the databases before it.\<close>

lemma reachable_inv:
  assumes "emptyQueue db"
  shows "queueInv (dbTasks (runTasks P C es db)) (dbLocks (runTasks P C es db)) (dbLeases (runTasks P C es db))"
    "eventsInv (dbEvents (runTasks P C es db))"
    "laterDatabase (runTasks P C es db) (runTasks P C (es @ fs) db)"
proof -
  have g: "good db (runTasks P C es db)" by (rule runTasks_good [OF emptyQueue_good [OF assms]])
  then show "queueInv (dbTasks (runTasks P C es db)) (dbLocks (runTasks P C es db)) (dbLeases (runTasks P C es db))"
    "eventsInv (dbEvents (runTasks P C es db))" by (simp_all add: good_def)
  have "good (runTasks P C es db) (runTasks P C fs (runTasks P C es db))"
    by (rule runTasks_good [OF good_now [OF g]])
  then show "laterDatabase (runTasks P C es db) (runTasks P C (es @ fs) db)"
    by (simp add: good_def runTasks_def)
qed

end
