(* ===== verification/Task_Properties.thy ===== *)
theory Task_Properties
  imports Task_System
begin

text \<open>
  The properties of the task queue: what holds in every state that a sequence of calls reaches, and
  what single operations promise. The example at the start is a plan of one target with two steps
  on which the properties' witnesses are evaluated.
\<close>

section \<open>An example\<close>

definition exPlatform :: platform where
  "exPlatform = \<lparr>pfUuidString = (\<lambda>u. itoa (unat u)), pfSha256 = (\<lambda>s. s), pfBase64 = (\<lambda>s. s),
     pfCollate = (\<lambda>a b. a < b), pfLower = (\<lambda>s. s), pfRandomUuid = (\<lambda>n. of_nat (100 + n))\<rparr>"

definition exCodec :: eventCodec where
  "exCodec = \<lparr>ecDigest = (\<lambda>p. itoa (nat (cpSequence p)) @ cpMessage p), ecJsonLength = (\<lambda>_. 2), ecJsonbLength = (\<lambda>_. 2)\<rparr>"

definition exStep :: "uuid \<Rightarrow> string \<Rightarrow> string list \<Rightarrow> int \<Rightarrow> DeploymentPlanStep" where
  "exStep i key deps order =
     \<lparr>dpsID = i, dpsDeploymentPlanID = 10, dpsOrganizationID = 1, dpsStepKey = key, dpsName = key,
      dpsActionType = ''distr.wait'', dpsExecutionLocation = ''target'', dpsInputBindings = None,
      dpsSortOrder = order, dpsDependencies = deps, dpsIncluded = True, dpsExcludedReason = []\<rparr>"

definition exDatabase :: database where
  "exDatabase =
     \<lparr>dbTasks = [], dbLocks = [], dbStepRuns = [], dbLeases = [], dbEvents = [], dbLogChunks = [], dbOutputs = [],
      dbPlans = [\<lparr>dpID = 10, dpOrganizationID = 1, dpApplicationID = 3, dpReleaseBundleID = 4, dpChannelID = 5,
         dpEnvironmentID = 6, dpStatus = DeploymentPlanStatusReady, dpCanonicalChecksum = ''c''\<rparr>],
      dbPlanTargets = [\<lparr>dptID = 20, dptDeploymentPlanID = 10, dptOrganizationID = 1, dptDeploymentTargetID = 30,
         dptCustomerOrganizationID = None, dptSortOrder = 0\<rparr>],
      dbPlanTargetComponents = [], dbPlanSteps = [exStep 40 ''a'' [] 0, exStep 41 ''b'' [''a''] 1],
      dbBundles = [\<lparr>rbID = 4, rbOrganizationID = 1, rbStatus = ReleaseBundleStatusPublished\<rparr>], dbSecrets = [],
      dbTaskQueueOrder = 1, dbRandom = 0\<rparr>"

definition exCreate :: TaskCall where
  "exCreate = CreateTasks (\<lambda>_ _ _. Inr (True, []))
     \<lparr>crOrganizationID = 1, crDeploymentPlanID = 10, crActorUserAccountID = 0,
      crConcurrencyPolicy = TaskConcurrencyPolicyQueue, crAdditionalResources = []\<rparr>"

definition exLease :: TaskCall where
  "exLease = LeaseAgent ''tok'' (\<lambda>_. False) \<lparr>laOrganizationID = 1, laAgentID = 30\<rparr>"

definition exRequest :: "uuid \<Rightarrow> int \<Rightarrow> StepRunEventType \<Rightarrow> RecordAgentStepRunEventRequest" where
  "exRequest step seq ty =
     \<lparr>reOrganizationID = 1, reAgentID = 30, reStepRunID = step, reLeaseToken = ''tok'', reSequence = seq, reType = ty,
      reOccurredAt = None, reMessage = ''ok'', reProgressPercent = None, reDetails = None, reLogs = [], reOutputs = []\<rparr>"

definition exLeased :: database where
  "exLeased = runTasks exPlatform exCodec [(0, exCreate), (5, exLease)] exDatabase"

definition exStarted :: database where
  "exStarted = runTasks exPlatform exCodec [(6, RecordAgent (exRequest 102 1 StepRunEventTypeStarted))] exLeased"

lemma exDatabase_empty: "emptyQueue exDatabase"
  by (simp add: emptyQueue_def exDatabase_def)

lemma exStarted_run:
  "exStarted = runTasks exPlatform exCodec ([(0, exCreate), (5, exLease)] @
     [(6, RecordAgent (exRequest 102 1 StepRunEventTypeStarted))]) exDatabase"
  by (simp add: exStarted_def exLeased_def runTasks_def)

lemma exLeased_state:
  "map (\<lambda>t. (tkID t, tkStatus t)) (dbTasks exLeased) = [(100, TaskStatusRunning)]"
  "map (\<lambda>l. (tlkTaskID l, tlkAcquiredAt l, tlkReleasedAt l)) (dbLocks exLeased) = [(100, Some 5, None)]"
  "map (\<lambda>l. (tlTaskID l, tlAttempt l, tlExpiresAt l, tlReleasedAt l)) (dbLeases exLeased)
     = [(100, 1, 120000000005, None)]"
  by code_simp+

section \<open>Reachable states\<close>

text \<open>C1: two tasks that run at the same time hold all their locks, and hold a lock of the same
  resource only if one of the two locks has the policy \<open>ALLOW_PARALLEL\<close>.\<close>

theorem task_locks_exclude_each_other:
  assumes "emptyQueue db0" and db: "db = runTasks P C es db0"
    and t: "t \<in> set (dbTasks db)" "tkStatus t = TaskStatusRunning" "l \<in> set (dbLocks db)" "tlkTaskID l = tkID t"
    and u: "u \<in> set (dbTasks db)" "tkStatus u = TaskStatusRunning" "k \<in> set (dbLocks db)" "tlkTaskID k = tkID u"
  shows "tlkAcquiredAt l \<noteq> None \<and> tlkReleasedAt l = None
     \<and> (tkID t \<noteq> tkID u \<and> sameResource l k \<longrightarrow>
          tlkConcurrencyPolicy l = TaskConcurrencyPolicyAllowParallel
          \<or> tlkConcurrencyPolicy k = TaskConcurrencyPolicyAllowParallel)"
proof -
  note inv = reachable_inv(1) [OF assms(1), of P C es, folded db]
  have "lockHeld l" "lockHeld k"
    using locksOwnedD [OF inv t(3,1) t(4) [symmetric]] locksOwnedD [OF inv u(3,1) u(4) [symmetric]] t(2) u(2)
    by (simp_all add: lockFits_def)
  then show ?thesis
    using inv t u unfolding queueInv_def locksExclusive_def lockHeld_def by auto
qed

theorem task_locks_exclude_each_other_witness:
  "\<exists>t l. t \<in> set (dbTasks exLeased) \<and> l \<in> set (dbLocks exLeased) \<and> tkStatus t = TaskStatusRunning
     \<and> tlkTaskID l = tkID t \<and> tlkAcquiredAt l \<noteq> None \<and> tlkReleasedAt l = None"
proof -
  obtain t where t: "t \<in> set (dbTasks exLeased)" "tkID t = 100" "tkStatus t = TaskStatusRunning"
    using exLeased_state(1) by (auto simp: map_eq_Cons_conv)
  obtain l where l: "l \<in> set (dbLocks exLeased)" "tlkTaskID l = 100"
    using exLeased_state(2) by (auto simp: map_eq_Cons_conv)
  have "tlkTaskID l = tkID t" using t l by simp
  with task_locks_exclude_each_other [OF exDatabase_empty exLeased_def t(1,3) l(1) this t(1,3) l(1) this]
  show ?thesis using t l by blast
qed

text \<open>C3: a task has at most one lease that is not released, only a running task has one, and the
  attempts of the task's leases increase in the order in which they were granted.\<close>

theorem task_leases_exclusive:
  assumes "emptyQueue db0" and db: "db = runTasks P C es db0"
  shows "length (filter (\<lambda>l. tlReleasedAt l = None \<and> tlTaskID l = i) (dbLeases db)) \<le> 1
     \<and> sorted_wrt (<) (map tlAttempt (filter (\<lambda>l. tlTaskID l = i) (dbLeases db)))
     \<and> (\<forall>l \<in> set (dbLeases db). tlReleasedAt l = None \<longrightarrow>
          (\<exists>t \<in> set (dbTasks db). tkID t = tlTaskID l \<and> tkOrganizationID t = tlOrganizationID l
             \<and> tkStatus t = TaskStatusRunning))"
proof (intro conjI)
  note inv = reachable_inv(1) [OF assms(1), of P C es, folded db]
  have "distinct (map tlTaskID ls) \<Longrightarrow> length (filter (\<lambda>l. tlTaskID l = i) ls) \<le> 1" for ls
    by (induction ls) (auto simp: filter_empty_conv image_iff)
  from this [of "filter (\<lambda>l. tlReleasedAt l = None) (dbLeases db)"]
  show "length (filter (\<lambda>l. tlReleasedAt l = None \<and> tlTaskID l = i) (dbLeases db)) \<le> 1"
    using inv by (simp add: queueInv_def oneActiveLease_def)
  show "sorted_wrt (<) (map tlAttempt (filter (\<lambda>l. tlTaskID l = i) (dbLeases db)))"
    using inv by (simp add: queueInv_def attemptsIncrease_def)
  show "\<forall>l \<in> set (dbLeases db). tlReleasedAt l = None \<longrightarrow>
      (\<exists>t \<in> set (dbTasks db). tkID t = tlTaskID l \<and> tkOrganizationID t = tlOrganizationID l
         \<and> tkStatus t = TaskStatusRunning)"
    using inv unfolding queueInv_def leasesOwned_def leaseFits_def by metis
qed

theorem task_leases_exclusive_witness:
  "length (filter (\<lambda>l. tlReleasedAt l = None \<and> tlTaskID l = 100) (dbLeases exLeased)) = 1"
proof -
  have "length (filter (\<lambda>l. tlReleasedAt l = None \<and> tlTaskID l = 100) (dbLeases exLeased)) \<noteq> 0"
    using exLeased_state(3) by (auto simp: map_eq_Cons_conv)
  moreover have "length (filter (\<lambda>l. tlReleasedAt l = None \<and> tlTaskID l = 100) (dbLeases exLeased)) \<le> 1"
    using task_leases_exclusive [OF exDatabase_empty exLeased_def] by blast
  ultimately show ?thesis by linarith
qed

text \<open>C4: a task never disappears and keeps its identity, its status only moves forward, and once it
  is terminal nothing changes it any more: neither the row, nor its locks, nor its leases, all of
  which are released.\<close>

theorem task_status_final:
  assumes "emptyQueue db0" and db: "db = runTasks P C es db0" and db': "db' = runTasks P C (es @ fs) db0"
    and t: "t \<in> set (dbTasks db)"
  shows "(\<exists>t' \<in> set (dbTasks db'). tkID t' = tkID t \<and> tkOrganizationID t' = tkOrganizationID t
            \<and> tkDeploymentPlanTargetID t' = tkDeploymentPlanTargetID t
            \<and> (tkStatus t' = tkStatus t \<or> tkStatus t = TaskStatusQueued
               \<or> tkStatus t = TaskStatusRunning \<and> tkStatus t' \<in> {TaskStatusSucceeded, TaskStatusFailed}))
     \<and> (taskStatusIsTerminal (tkStatus t) \<longrightarrow> t \<in> set (dbTasks db')
          \<and> (\<forall>l \<in> set (dbLocks db). tlkTaskID l = tkID t \<longrightarrow> tlkReleasedAt l \<noteq> None \<and> l \<in> set (dbLocks db'))
          \<and> (\<forall>l \<in> set (dbLeases db). tlTaskID l = tkID t \<longrightarrow> tlReleasedAt l \<noteq> None \<and> l \<in> set (dbLeases db')))"
proof -
  note inv = reachable_inv(1) [OF assms(1), of P C es, folded db]
  note later = reachable_inv(3) [OF assms(1), of P C es fs, folded db db']
  obtain t' where t': "t' \<in> set (dbTasks db')" "laterTask t t'"
    using later t unfolding laterDatabase_def by blast
  have "tlkReleasedAt l \<noteq> None" if "taskStatusIsTerminal (tkStatus t)" "l \<in> set (dbLocks db)" "tlkTaskID l = tkID t" for l
    using locksOwnedD [OF inv that(2) t that(3) [symmetric]] that(1)
    by (auto simp: lockFits_def taskStatusIsTerminal_def)
  moreover have "tlReleasedAt l \<noteq> None" if "taskStatusIsTerminal (tkStatus t)" "l \<in> set (dbLeases db)" "tlTaskID l = tkID t" for l
    using leasesOwnedD [OF inv that(2) t that(3) [symmetric]] that(1)
    by (auto simp: leaseFits_def taskStatusIsTerminal_def)
  moreover have "taskStatusIsTerminal (tkStatus t) \<Longrightarrow> t \<in> set (dbTasks db')"
    using t' by (auto simp: laterTask_def)
  ultimately show ?thesis
    using later t' unfolding laterDatabase_def laterTask_def laterStatus_def by auto
qed

theorem task_status_final_witness:
  "\<exists>t \<in> set (dbTasks exLeased). tkStatus t = TaskStatusRunning
     \<and> (\<exists>t' \<in> set (dbTasks exStarted). tkID t' = tkID t \<and> tkStatus t' \<in> {TaskStatusRunning, TaskStatusSucceeded, TaskStatusFailed})"
proof -
  obtain t where t: "t \<in> set (dbTasks exLeased)" "tkID t = 100" "tkStatus t = TaskStatusRunning"
    using exLeased_state(1) by (auto simp: map_eq_Cons_conv)
  from task_status_final [OF exDatabase_empty exLeased_def exStarted_run t(1)] t show ?thesis by fastforce
qed

text \<open>C8: the events of a step under one lease are numbered 1, 2, 3 and so on in the order in which
  they were recorded, and a recorded event, log chunk or output is never changed or lost.\<close>

theorem step_events_numbered:
  assumes "emptyQueue db0" and db: "db = runTasks P C es db0" and db': "db' = runTasks P C (es @ fs) db0"
  shows "map (\<lambda>r. evSequence (erEvent r)) (filter (eventAt orgID step lease) (dbEvents db))
       = map int [1..<Suc (length (filter (eventAt orgID step lease) (dbEvents db)))]
     \<and> set (dbEvents db) \<subseteq> set (dbEvents db') \<and> set (dbLogChunks db) \<subseteq> set (dbLogChunks db')
     \<and> set (dbOutputs db) \<subseteq> set (dbOutputs db')"
  using reachable_inv(2,3) [OF assms(1), of P C es] unfolding db db'
  by (simp add: eventsInv_def laterDatabase_def)

theorem step_events_numbered_witness:
  "map (\<lambda>r. evSequence (erEvent r)) (filter (eventAt 1 102 104) (dbEvents exStarted)) = [1]"
proof -
  have "length (filter (eventAt 1 102 104) (dbEvents exStarted)) = 1" by code_simp
  moreover have "exStarted = runTasks exPlatform exCodec (([(0, exCreate), (5, exLease)] @
     [(6, RecordAgent (exRequest 102 1 StepRunEventTypeStarted))]) @ []) exDatabase"
    by (simp only: exStarted_run append_Nil2)
  ultimately show ?thesis
    using step_events_numbered [OF exDatabase_empty exStarted_run, of exStarted "[]" 1 102 104] by simp
qed

end
