(* ===== verification/Task_Operations.thy ===== *)
theory Task_Operations
  imports Task_Properties
begin

text \<open>
  What single operations of the task queue promise: the keys and the order in which resources are
  locked, idempotent creation of tasks and recording of events, what a granted or renewed lease
  means, and when the hub gets no lease.
\<close>

section \<open>The order of advisory locks\<close>

interpretation lockKeys: weak_order "\<lambda>a b. taskResourceLockGroupKey P a < taskResourceLockGroupKey P b" for P
  by unfold_locales auto

lemma firstGroups_keys:
  "distinct (map (taskResourceLockGroupKey P) (firstGroups P seen gs))
   \<and> set (map (taskResourceLockGroupKey P) (firstGroups P seen gs)) = taskResourceLockGroupKey P ` set gs - set seen"
  by (induction P seen gs rule: firstGroups.induct) (auto simp: Let_def)

lemma advisory_keys:
  "set (lockTaskResourceAdvisoryGroups P gs) = taskResourceLockGroupKey P ` set gs"
  "distinct (lockTaskResourceAdvisoryGroups P gs)" "sorted (lockTaskResourceAdvisoryGroups P gs)"
proof -
  have "sorted_wrt (\<lambda>a b. \<not> taskResourceLockGroupKey P b < taskResourceLockGroupKey P a)
      (distinctTaskResourceLockGroups P gs)"
    using lockKeys.sorted_SortStable [of P "firstGroups P [] gs"]
    by (simp add: lockKeys.sortedG_def distinctTaskResourceLockGroups_def)
  then show "sorted (lockTaskResourceAdvisoryGroups P gs)"
    by (simp add: lockTaskResourceAdvisoryGroups_def sorted_map not_less)
  show "set (lockTaskResourceAdvisoryGroups P gs) = taskResourceLockGroupKey P ` set gs"
    "distinct (lockTaskResourceAdvisoryGroups P gs)"
    using firstGroups_keys [of P "[]" gs]
    by (simp_all add: lockTaskResourceAdvisoryGroups_def distinctTaskResourceLockGroups_def)
qed

text \<open>Two lists of locks with the same keys are taken in the same order, whoever asks.\<close>

lemma lockGroupKey_inj:
  assumes "inj (pfUuidString P)" "\<And>u. CHR '':'' \<notin> set (pfUuidString P u)"
    "lockResourceTypeIsValid (lgResourceType a)" "lockResourceTypeIsValid (lgResourceType b)"
    "taskResourceLockGroupKey P a = taskResourceLockGroupKey P b"
  shows "a = b"
proof -
  let ?ta = "lockResourceTypeName (lgResourceType a)" and ?tb = "lockResourceTypeName (lgResourceType b)"
  have e: "pfUuidString P (lgOrganizationID a) @ CHR '':'' # itoa (length ?ta) @ CHR '':'' # ?ta @ CHR '':''
        # itoa (length (lgResourceKey a)) @ CHR '':'' # lgResourceKey a
      = pfUuidString P (lgOrganizationID b) @ CHR '':'' # itoa (length ?tb) @ CHR '':'' # ?tb @ CHR '':''
        # itoa (length (lgResourceKey b)) @ CHR '':'' # lgResourceKey b"
    using assms(5) by (simp add: taskResourceLockGroupKey_def Let_def)
  have o: "pfUuidString P (lgOrganizationID a) = pfUuidString P (lgOrganizationID b)"
    and r1: "itoa (length ?ta) @ CHR '':'' # ?ta @ CHR '':'' # itoa (length (lgResourceKey a)) @ CHR '':'' # lgResourceKey a
      = itoa (length ?tb) @ CHR '':'' # ?tb @ CHR '':'' # itoa (length (lgResourceKey b)) @ CHR '':'' # lgResourceKey b"
    using append_sep_eq [OF e assms(2) assms(2)] by simp_all
  have l: "length ?ta = length ?tb"
    and r2: "?ta @ CHR '':'' # itoa (length (lgResourceKey a)) @ CHR '':'' # lgResourceKey a
      = ?tb @ CHR '':'' # itoa (length (lgResourceKey b)) @ CHR '':'' # lgResourceKey b"
    using append_sep_eq [OF r1 colon_notin_itoa colon_notin_itoa] itoa_inj by auto
  have t: "?ta = ?tb"
    and r3: "itoa (length (lgResourceKey a)) @ CHR '':'' # lgResourceKey a
      = itoa (length (lgResourceKey b)) @ CHR '':'' # lgResourceKey b"
    using r2 l by auto
  have "lgResourceKey a = lgResourceKey b"
    using append_sep_eq [OF r3 colon_notin_itoa colon_notin_itoa] by simp
  moreover have "lgResourceType a = lgResourceType b"
    using t assms(3,4) lockResourceTypeName_inj by blast
  moreover have "lgOrganizationID a = lgOrganizationID b"
    using o assms(1) by (simp add: inj_eq)
  ultimately show ?thesis by simp
qed


lemma exPlatform_uuid: "inj (pfUuidString exPlatform)" "CHR '':'' \<notin> set (pfUuidString exPlatform u)"
proof -
  show "inj (pfUuidString exPlatform)"
  proof (rule injI)
    fix x y assume "pfUuidString exPlatform x = pfUuidString exPlatform y"
    then have "itoa (unat x) = itoa (unat y)" by (simp add: exPlatform_def)
    then show "x = y" by (simp add: word_unat_eq_iff itoa_inj)
  qed
  show "CHR '':'' \<notin> set (pfUuidString exPlatform u)"
    by (simp add: exPlatform_def colon_notin_itoa)
qed


section \<open>Creating tasks twice\<close>

text \<open>The plans are not touched before the plan is marked as executed.\<close>

lemma plans_random: "triple (\<lambda>db. dbPlans db = ps) (randomUuid P) (\<lambda>_ db. dbPlans db = ps)"
  by (auto simp: triple_def randomUuid_def)

lemma plans_exec:
  "(\<And>db. dbPlans (f db) = dbPlans db) \<Longrightarrow> triple (\<lambda>db. dbPlans db = ps) (execT f) (\<lambda>_ db. dbPlans db = ps)"
  by (simp add: triple_def)

lemmas plans_rules = triple_bind [OF plans_random] triple_bind [OF good_query] triple_bind [OF plans_exec]
  triple_if triple_fail triple_return

lemma plans_insertTaskRows:
  "triple (\<lambda>db. dbPlans db = ps) (insertTaskRows P now dp actor dpts) (\<lambda>_ db. dbPlans db = ps)"
proof (induction dpts)
  case Nil
  show ?case by (simp only: insertTaskRows.simps) (rule triple_return)
next
  case (Cons dpt dpts)
  show ?case
    unfolding insertTaskRows.simps Let_def
    by (intro plans_rules Cons.IH triple_bind [OF Cons.IH]) simp_all
qed

lemma plans_copyLocks:
  "triple (\<lambda>db. dbPlans db = ps) (copyLocks P now ls) (\<lambda>_ db. dbPlans db = ps)"
proof (induction ls)
  case Nil
  show ?case by (simp only: copyLocks.simps) (rule triple_return)
next
  case (Cons l ls)
  show ?case unfolding copyLocks.simps by (intro plans_rules Cons.IH) simp_all
qed

lemma plans_cancelOlder:
  "triple (\<lambda>db. dbPlans db = ps) (cancelOlderQueuedTasksForResource now l ids) (\<lambda>_ db. dbPlans db = ps)"
  unfolding cancelOlderQueuedTasksForResource_def by (intro plans_rules plans_exec) simp_all

lemma plans_applyPolicies:
  "triple (\<lambda>db. dbPlans db = ps) (applyPolicies now ids ls) (\<lambda>_ db. dbPlans db = ps)"
proof (induction ls)
  case Nil
  show ?case by (simp only: applyPolicies.simps) (rule triple_return)
next
  case (Cons l ls)
  show ?case
    unfolding applyPolicies.simps
    by (cases "tlkConcurrencyPolicy l")
      (simp_all del: bindT_simps add: Cons.IH triple_bind [OF plans_cancelOlder Cons.IH]
        triple_bind [OF good_query triple_if [OF triple_fail Cons.IH]])
qed

lemma plans_insertStepRunRows:
  "triple (\<lambda>db. dbPlans db = ps) (insertStepRunRows P now rows) (\<lambda>_ db. dbPlans db = ps)"
proof (induction rows)
  case Nil
  show ?case by (simp only: insertStepRunRows.simps) (rule triple_return)
next
  case (Cons row rows)
  obtain t dps where "row = (t, dps)" by fastforce
  then show ?case
    by (simp only: insertStepRunRows.simps) (intro plans_rules Cons.IH; simp)
qed

definition hasPlan :: "uuid \<Rightarrow> uuid \<Rightarrow> DeploymentPlan list \<Rightarrow> bool" where
  "hasPlan planID orgID ps \<longleftrightarrow> (\<exists>dp \<in> set ps. dpID dp = planID \<and> dpOrganizationID dp = orgID)"

lemma getDeploymentPlan_has:
  "(\<exists>dp. getDeploymentPlan planID orgID db = Inr (dp, db)) \<longleftrightarrow> hasPlan planID orgID (dbPlans db)"
proof (cases "find (\<lambda>dp. dpID dp = planID \<and> dpOrganizationID dp = orgID) (dbPlans db)")
  case None
  then show ?thesis
    using None [unfolded find_None_iff] by (auto simp: getDeploymentPlan_def hasPlan_def)
next
  case (Some dp)
  then have "dp \<in> set (dbPlans db)" "dpID dp = planID" "dpOrganizationID dp = orgID"
    by (auto simp: find_Some_iff)
  with Some show ?thesis by (auto simp: getDeploymentPlan_def hasPlan_def)
qed

lemma hasPlan_update:
  "(\<And>dp. dpID (f dp) = dpID dp \<and> dpOrganizationID (f dp) = dpOrganizationID dp) \<Longrightarrow>
   hasPlan p o1 (updateWhere P f ps) = hasPlan p o1 ps"
proof -
  assume f: "\<And>dp. dpID (f dp) = dpID dp \<and> dpOrganizationID (f dp) = dpOrganizationID dp"
  have "hasPlan p o1 qs \<longleftrightarrow> (p, o1) \<in> set (map (\<lambda>dp. (dpID dp, dpOrganizationID dp)) qs)" for qs
    by (auto simp: hasPlan_def image_iff)
  then show ?thesis by (simp only: map_updateWhere f)
qed

lemma markExecuted_plan:
  "triple (\<lambda>db. hasPlan p o1 (dbPlans db)) (markDeploymentPlanExecuted p' o1') (\<lambda>_ db. hasPlan p o1 (dbPlans db))"
  unfolding markDeploymentPlanExecuted_def Let_def
  by (intro triple_bind [OF good_query] triple_if triple_fail triple_return
      triple_bind [OF triple_exec [where B = "\<lambda>_ db. hasPlan p o1 (dbPlans db)"]]) (simp_all add: hasPlan_update)

lemma plans_keep:
  "(\<And>ps. triple (\<lambda>db. dbPlans db = ps) m (\<lambda>_ db. dbPlans db = ps)) \<Longrightarrow>
   triple (\<lambda>db. Q (dbPlans db)) m (\<lambda>_ db. Q (dbPlans db))"
  unfolding triple_def by metis

lemma createTasksTx_result:
  fixes request
  defines "p \<equiv> crDeploymentPlanID request" and "o1 \<equiv> crOrganizationID request"
  shows "triple (\<lambda>_. True) (createTasksTx P preflight now request)
     (\<lambda>r db. \<forall>ts. r = Inr ts \<longrightarrow> getTasksByDeploymentPlanID P p o1 db = ts \<and> hasPlan p o1 (dbPlans db))"
proof -
  let ?A = "\<lambda>db. hasPlan p o1 (dbPlans db)"
  let ?C = "\<lambda>(r :: string + Task list) db. \<forall>ts. r = Inr ts \<longrightarrow> getTasksByDeploymentPlanID P p o1 db = ts \<and> ?A db"
  have plan: "triple (\<lambda>_. True) (getDeploymentPlan p o1) (\<lambda>_. ?A)"
    unfolding triple_def using getDeploymentPlan_has getDeploymentPlan_same by blast
  have look: "triple ?A (queryT (getTasksByDeploymentPlanID P p o1))
      (\<lambda>ts db. ?A db \<and> getTasksByDeploymentPlanID P p o1 db = ts)"
    by (rule triple_query) simp
  have found: "triple (\<lambda>db. ?A db \<and> getTasksByDeploymentPlanID P p o1 db = ts) (returnT (Inr ts)) ?C" for ts
    by (rule triple_return) simp
  have drop: "triple ?A m ?C \<Longrightarrow> triple (\<lambda>db. ?A db \<and> getTasksByDeploymentPlanID P p o1 db = ts) m ?C" for ts m
    by (erule triple_weaken) auto
  have failed: "triple ?A (returnT (Inl msg)) ?C" for msg
    by (rule triple_return) simp
  have lift: "triple ?A (liftT r) (\<lambda>_. ?A)" for r :: "(bool \<times> string) result"
    by (rule triple_lift)
  have tasks: "triple ?A (insertTasksForDeploymentPlan P now dp actor) (\<lambda>_. ?A)" for dp actor
    unfolding insertTasksForDeploymentPlan_def
    by (intro triple_bind [OF good_query] plans_keep [OF plans_insertTaskRows])
  have locks: "triple ?A (insertTaskResourceLocksForTasks P now ts cs policy rs) (\<lambda>_. ?A)" for ts cs policy rs
    unfolding insertTaskResourceLocksForTasks_def by (intro plans_keep [OF plans_copyLocks])
  have policies: "triple ?A (applyTaskConcurrencyPolicies P now ts) (\<lambda>_. ?A)" for ts
    unfolding applyTaskConcurrencyPolicies_def Let_def
    by (intro triple_if triple_return triple_bind [OF good_query] plans_keep [OF plans_applyPolicies])
  have runs: "triple ?A (insertStepRunsForTasks P now ts) (\<lambda>_. ?A)" for ts
    unfolding insertStepRunsForTasks_def
    by (intro triple_if triple_return triple_bind [OF good_query] plans_keep [OF plans_insertStepRunRows])
  show ?thesis
    unfolding createTasksTx_def Let_def case_prod_unfold p_def [symmetric] o1_def [symmetric]
    by (intro triple_bind [OF plan] triple_bind [OF look] triple_if found)
      (intro drop triple_if triple_fail triple_bind [OF good_query] triple_bind [OF lift] failed
        triple_bind [OF tasks] triple_bind [OF locks] triple_bind [OF policies] triple_bind [OF runs]
        triple_bind [OF markExecuted_plan] triple_bind [OF look] found)+
qed

text \<open>C9: creating the tasks of a plan again returns the tasks that were created, whatever the policy,
  the extra resources or the preflight would say now, and changes nothing.\<close>

theorem create_tasks_idempotent:
  assumes first: "CreateTasksForDeploymentPlan P preflight now request db = (Inr ts, db')" "ts \<noteq> []"
    and again: "validateCreateTasksForDeploymentPlanRequest request' = Inr ()"
      "crDeploymentPlanID request' = crDeploymentPlanID request" "crOrganizationID request' = crOrganizationID request"
  shows "CreateTasksForDeploymentPlan P preflight' now' request' db' = (Inr ts, db')"
proof -
  let ?p = "crDeploymentPlanID request" and ?o = "crOrganizationID request"
  have "createTasksTx P preflight now request db = Inr (Inr ts, db')"
    using first(1) by (auto simp: CreateTasksForDeploymentPlan_def RunTx_def split: sum.splits prod.splits)
  from tripleD [OF createTasksTx_result _ this]
  have "getTasksByDeploymentPlanID P ?p ?o db' = ts" "hasPlan ?p ?o (dbPlans db')" by auto
  moreover obtain dp where "getDeploymentPlan ?p ?o db' = Inr (dp, db')"
    using \<open>hasPlan ?p ?o (dbPlans db')\<close> getDeploymentPlan_has by blast
  ultimately have "createTasksTx P preflight' now' request' db' = Inr (Inr ts, db')"
    using first(2) again by (simp add: createTasksTx_def Let_def case_prod_unfold bindT_def)
  then show ?thesis using again(1) by (simp add: CreateTasksForDeploymentPlan_def RunTx_def)
qed

definition exCreateRequest :: CreateTasksForDeploymentPlanRequest where
  "exCreateRequest = \<lparr>crOrganizationID = 1, crDeploymentPlanID = 10, crActorUserAccountID = 0,
     crConcurrencyPolicy = TaskConcurrencyPolicyQueue, crAdditionalResources = []\<rparr>"

theorem create_tasks_idempotent_witness:
  "\<exists>ts db'. CreateTasksForDeploymentPlan exPlatform (\<lambda>_ _ _. Inr (True, [])) 0 exCreateRequest exDatabase = (Inr ts, db')
     \<and> ts \<noteq> []
     \<and> CreateTasksForDeploymentPlan exPlatform (\<lambda>_ _ _. Inr (False, ''no'')) 9 exCreateRequest db' = (Inr ts, db')"
proof -
  obtain r db' where c: "CreateTasksForDeploymentPlan exPlatform (\<lambda>_ _ _. Inr (True, [])) 0 exCreateRequest exDatabase = (r, db')"
    by fastforce
  have "case fst (CreateTasksForDeploymentPlan exPlatform (\<lambda>_ _ _. Inr (True, [])) 0 exCreateRequest exDatabase) of
      Inl _ \<Rightarrow> False | Inr ts \<Rightarrow> ts \<noteq> []"
    by code_simp
  with c obtain ts where ts: "r = Inr ts" "ts \<noteq> []" by (auto split: sum.splits)
  have v: "validateCreateTasksForDeploymentPlanRequest exCreateRequest = Inr ()" by code_simp
  from create_tasks_idempotent [OF c [unfolded ts(1)] ts(2) v refl refl] c ts show ?thesis by blast
qed

section \<open>Heartbeats\<close>

lemma heartbeat_Inr:
  assumes "heartbeatTaskLease P now o1 target i token ex db = Inr (lease, db')"
  obtains t l where "t \<in> set (dbTasks db)" "tkID t = i" "tkOrganizationID t = o1" "tkStatus t = TaskStatusRunning"
    "l \<in> set (dbLeases db)" "tlTaskID l = i" "tlOrganizationID l = o1" "tlAgentID l = target" "tlExecutorType l = ex"
    "tlLeaseTokenHash l = hashTaskLeaseToken P token" "tlReleasedAt l = None" "now < tlExpiresAt l"
    "db' = db\<lparr>dbLeases := updateWhere (\<lambda>k. tlID k = tlID l \<and> tlOrganizationID k = o1 \<and> tlReleasedAt k = None)
       (\<lambda>k. k\<lparr>tlHeartbeatAt := now, tlExpiresAt := now + taskLeaseDuration, tlUpdatedAt := now\<rparr>) (dbLeases db)\<rparr>"
proof -
  obtain status db1 leaseID expired db2 u db3 where s: "getTaskStatusForUpdate i o1 db = Inr (status, db1)"
    "status = TaskStatusRunning"
    "getActiveTaskLeaseIDForHeartbeat P now o1 target i token ex db1 = Inr ((leaseID, expired), db2)" "\<not> expired"
    "updateTaskLeaseHeartbeat now leaseID o1 db2 = Inr (u, db3)" "getTaskLease P token leaseID o1 db3 = Inr (lease, db')"
    using assms unfolding heartbeatTaskLease_def bindT_Inr fail_if_Inr by (auto simp: bindT_Inr fail_if_Inr split: if_splits)
  have "taskHas i o1 status db" "db1 = db"
    using s(1) by (auto simp: getTaskStatusForUpdate_def findTask_has split: option.splits)
  then obtain t where t: "t \<in> set (dbTasks db)" "tkID t = i" "tkOrganizationID t = o1" "tkStatus t = TaskStatusRunning"
    using s(2) by (auto simp: taskHas_def)
  let ?P = "\<lambda>l. tlOrganizationID l = o1 \<and> tlAgentID l = target \<and> tlTaskID l = i
      \<and> tlExecutorType l = ex \<and> tlLeaseTokenHash l = hashTaskLeaseToken P token \<and> tlReleasedAt l = None"
  obtain l where l: "find ?P (dbLeases db) = Some l" "leaseID = tlID l" "expired = (tlExpiresAt l \<le> now)" "db2 = db"
    using s(3) \<open>db1 = db\<close> by (auto simp: getActiveTaskLeaseIDForHeartbeat_def split: option.splits)
  then have "l \<in> set (dbLeases db)" "?P l" by (auto simp: find_Some_iff)
  moreover have "db' = db3" by (rule getTaskLease_same [OF s(6)])
  moreover have "db3 = db\<lparr>dbLeases := updateWhere (\<lambda>k. tlID k = tlID l \<and> tlOrganizationID k = o1 \<and> tlReleasedAt k = None)
       (\<lambda>k. k\<lparr>tlHeartbeatAt := now, tlExpiresAt := now + taskLeaseDuration, tlUpdatedAt := now\<rparr>) (dbLeases db)\<rparr>"
    using s(5) l by (simp add: updateTaskLeaseHeartbeat_def)
  ultimately show ?thesis using that [OF t] s(4) l by auto
qed

text \<open>What a heartbeat must have found: a running task with a lease of this executor and this token that
  is neither released nor expired. That lease is the only thing it changes: it now expires two
  minutes from the heartbeat.\<close>

definition renewsLease ::
    "platform \<Rightarrow> timestamp \<Rightarrow> uuid \<Rightarrow> uuid \<Rightarrow> uuid \<Rightarrow> string \<Rightarrow> TaskExecutorType \<Rightarrow> database \<Rightarrow> database \<Rightarrow> bool" where
  "renewsLease P now orgID target taskID token ex db db' \<longleftrightarrow>
     (\<exists>t \<in> set (dbTasks db). \<exists>l \<in> set (dbLeases db).
        tkID t = taskID \<and> tkOrganizationID t = orgID \<and> tkStatus t = TaskStatusRunning
        \<and> tlTaskID l = taskID \<and> tlOrganizationID l = orgID \<and> tlAgentID l = target \<and> tlExecutorType l = ex
        \<and> tlLeaseTokenHash l = hashTaskLeaseToken P token \<and> tlReleasedAt l = None \<and> now < tlExpiresAt l
        \<and> db' = db\<lparr>dbLeases := updateWhere (\<lambda>k. tlID k = tlID l \<and> tlOrganizationID k = orgID \<and> tlReleasedAt k = None)
            (\<lambda>k. k\<lparr>tlHeartbeatAt := now, tlExpiresAt := now + 120 * 1000000000, tlUpdatedAt := now\<rparr>) (dbLeases db)\<rparr>)"

lemma heartbeat_renews:
  "heartbeatTaskLease P now o1 target i token ex db = Inr (lease, db') \<Longrightarrow> renewsLease P now o1 target i token ex db db'"
  by (erule heartbeat_Inr) (auto simp: renewsLease_def taskLeaseDuration_def)


section \<open>A candidate whose locks are held\<close>

lemma leaseTaskCandidate_blocked:
  assumes "t \<in> set (dbTasks db)" "tcTaskID c = tkID t" "tcOrganizationID c = tkOrganizationID t"
    "bundlePublished db t" "distinct (map tkID (dbTasks db))" "tcStatus c = TaskStatusQueued"
    "acquireTaskResourceLocks P now (tcTaskID c) (tcOrganizationID c) db = Inl (ErrConflict msg)"
  shows "leaseTaskCandidate P now bytes c ex db = Inr (None, db)"
proof -
  have f: "findTask (tcTaskID c) (tcOrganizationID c) db = Some t"
    using findTask_unique [OF assms(5,1)] assms(2,3) by simp
  have "find (\<lambda>rb. rbID rb = tkReleaseBundleID t \<and> rbOrganizationID rb = tkOrganizationID t) (dbBundles db) \<noteq> None"
    using assms(4) by (auto simp: bundlePublished_def list_ex_iff find_None_iff)
  then obtain rb where "find (\<lambda>rb. rbID rb = tkReleaseBundleID t \<and> rbOrganizationID rb = tkOrganizationID t) (dbBundles db) = Some rb"
    by auto
  with f have "lockTaskReleaseBundlePublishedForLease (tcTaskID c) (tcOrganizationID c) db
      = Inr (rbStatus rb = ReleaseBundleStatusPublished, db)"
    by (simp add: lockTaskReleaseBundlePublishedForLease_def)
  then show ?thesis
    using assms(6,7) by (auto simp: leaseTaskCandidate_def Let_def bindT_def tryAcquire_def)
qed

text \<open>C14: when the first candidate of the queue is a queued task one of whose resources is held, the hub
  gets no lease and nothing changes, however many later tasks, of this or of any other
  organization, could run: the candidate query takes one row and the caller does not go on to the
  next.\<close>

theorem hub_blocked_by_first_candidate:
  assumes "emptyQueue db0" and db: "db = runTasks P C es db0"
    and first: "getNextHubTaskLeaseCandidateForUpdate P now skipped db = Inr c" "tcStatus c = TaskStatusQueued"
    and held: "l \<in> set (dbLocks db)" "tlkTaskID l = tcTaskID c"
      "tlkConcurrencyPolicy l \<noteq> TaskConcurrencyPolicyAllowParallel"
      "hasActiveTaskResourceConflict l (tcTaskID c) db"
  shows "LeaseHubTask P now bytes skipped db = (Inr None, db)"
proof -
  note inv = reachable_inv(1) [OF assms(1), of P C es, folded db]
  obtain t where t: "t \<in> set (dbTasks db)" "tcTaskID c = tkID t" "tcOrganizationID c = tkOrganizationID t"
      "leaseCandidate P now db ''hub'' t"
    using first(1) unfolding getNextHubTaskLeaseCandidateForUpdate_def by (rule firstCandidate_Inr) blast
  have o: "tlkOrganizationID l = tcOrganizationID c"
    using locksOwnedD [OF inv held(1) t(1)] held(2) t(2,3) by simp
  have "\<exists>msg. acquireTaskResourceLocks P now (tcTaskID c) (tcOrganizationID c) db = Inl (ErrConflict msg)"
  proof -
    have "\<exists>msg. checkLocks i ls db = Inl (ErrConflict msg)" if "l \<in> set ls" "hasActiveTaskResourceConflict l i db" for ls i
      using that held(3) by (induction ls) auto
    moreover have "l \<in> set (getTaskResourceLocksByTaskID P (tcTaskID c) (tcOrganizationID c) db)"
      using held o by (simp add: getTaskResourceLocksByTaskID_def)
    ultimately obtain msg where "checkLocks (tcTaskID c) (getTaskResourceLocksByTaskID P (tcTaskID c) (tcOrganizationID c) db) db
        = Inl (ErrConflict msg)"
      using held(4) by blast
    then show ?thesis by (simp add: acquireTaskResourceLocks_def bindT_def)
  qed
  then obtain msg where "acquireTaskResourceLocks P now (tcTaskID c) (tcOrganizationID c) db = Inl (ErrConflict msg)" ..
  moreover have "bundlePublished db t" using t(4) by (simp add: leaseCandidate_def)
  ultimately have "leaseTaskCandidate P now bytes c TaskExecutorTypeHub db = Inr (None, db)"
    using inv first(2) by (intro leaseTaskCandidate_blocked [OF t(1-3)]) (simp_all add: queueInv_def)
  then show ?thesis by (simp add: LeaseHubTask_def RunTx_def leaseNextTx_def first(1))
qed

text \<open>Three plans with one hub step each: the first two for the same target, the third of another
  organization. The first is running; the second heads the queue and blocks the third.\<close>

definition exHubPlan :: "uuid \<Rightarrow> uuid \<Rightarrow> DeploymentPlan" where
  "exHubPlan i orgID = \<lparr>dpID = i, dpOrganizationID = orgID, dpApplicationID = 3, dpReleaseBundleID = 4, dpChannelID = 5,
     dpEnvironmentID = 6, dpStatus = DeploymentPlanStatusReady, dpCanonicalChecksum = ''c''\<rparr>"

definition exHubTarget :: "uuid \<Rightarrow> uuid \<Rightarrow> uuid \<Rightarrow> uuid \<Rightarrow> DeploymentPlanTarget" where
  "exHubTarget i plan orgID target = \<lparr>dptID = i, dptDeploymentPlanID = plan, dptOrganizationID = orgID,
     dptDeploymentTargetID = target, dptCustomerOrganizationID = None, dptSortOrder = 0\<rparr>"

definition exHubStep :: "uuid \<Rightarrow> uuid \<Rightarrow> uuid \<Rightarrow> DeploymentPlanStep" where
  "exHubStep i plan orgID = (exStep i ''a'' [] 0)\<lparr>dpsDeploymentPlanID := plan, dpsOrganizationID := orgID,
     dpsExecutionLocation := ''hub''\<rparr>"

definition exHubStart :: database where
  "exHubStart = exDatabase\<lparr>dbPlans := [exHubPlan 10 1, exHubPlan 11 1, exHubPlan 12 2],
     dbPlanTargets := [exHubTarget 20 10 1 30, exHubTarget 21 11 1 30, exHubTarget 22 12 2 31],
     dbPlanSteps := [exHubStep 40 10 1, exHubStep 41 11 1, exHubStep 42 12 2],
     dbBundles := [\<lparr>rbID = 4, rbOrganizationID = 1, rbStatus = ReleaseBundleStatusPublished\<rparr>,
                   \<lparr>rbID = 4, rbOrganizationID = 2, rbStatus = ReleaseBundleStatusPublished\<rparr>]\<rparr>"

definition exHubCreate :: "uuid \<Rightarrow> uuid \<Rightarrow> TaskCall" where
  "exHubCreate plan orgID = CreateTasks (\<lambda>_ _ _. Inr (True, []))
     (exCreateRequest\<lparr>crOrganizationID := orgID, crDeploymentPlanID := plan\<rparr>)"

definition exHub :: database where
  "exHub = runTasks exPlatform exCodec
     [(0, exHubCreate 10 1), (1, exHubCreate 11 1), (2, exHubCreate 12 2), (5, LeaseHub ''tok'' (\<lambda>_. False))] exHubStart"

theorem hub_blocked_by_first_candidate_witness:
  "LeaseHubTask exPlatform 6 ''t2'' (\<lambda>_. False) exHub = (Inr None, exHub)
   \<and> (case fst (LeaseHubTask exPlatform 6 ''t2'' (\<lambda>i. i = 103) exHub) of
        Inr (Some lease) \<Rightarrow> tlTaskID lease = 106 \<and> tlOrganizationID lease = 2 | _ \<Rightarrow> False)"
proof
  let ?c = "\<lparr>tcTaskID = 103, tcOrganizationID = 1, tcDeploymentTargetID = 30, tcStatus = TaskStatusQueued\<rparr>"
  have start: "emptyQueue exHubStart" by (simp add: emptyQueue_def exHubStart_def exDatabase_def)
  have c: "getNextHubTaskLeaseCandidateForUpdate exPlatform 6 (\<lambda>_. False) exHub = Inr ?c" by code_simp
  have "list_ex (\<lambda>l. tlkTaskID l = 103 \<and> tlkConcurrencyPolicy l \<noteq> TaskConcurrencyPolicyAllowParallel
      \<and> hasActiveTaskResourceConflict l 103 exHub) (dbLocks exHub)" by code_simp
  then obtain l where l: "l \<in> set (dbLocks exHub)" "tlkTaskID l = 103"
      "tlkConcurrencyPolicy l \<noteq> TaskConcurrencyPolicyAllowParallel" "hasActiveTaskResourceConflict l 103 exHub"
    by (auto simp: list_ex_iff)
  show "LeaseHubTask exPlatform 6 ''t2'' (\<lambda>_. False) exHub = (Inr None, exHub)"
    by (rule hub_blocked_by_first_candidate [OF start exHub_def c _ l(1)]) (simp_all add: l)
  show "case fst (LeaseHubTask exPlatform 6 ''t2'' (\<lambda>i. i = 103) exHub) of
        Inr (Some lease) \<Rightarrow> tlTaskID lease = 106 \<and> tlOrganizationID lease = 2 | _ \<Rightarrow> False"
    by code_simp
qed

section \<open>Expired leases\<close>

text \<open>The interrupted steps of a task: running, at the location of an executor whose lease expired.\<close>

definition interrupted :: "platform \<Rightarrow> timestamp \<Rightarrow> uuid \<Rightarrow> uuid \<Rightarrow> database \<Rightarrow> StepRun \<Rightarrow> bool" where
  "interrupted P now taskID orgID db r \<longleftrightarrow>
     srTaskID r = taskID \<and> srOrganizationID r = orgID \<and> srStatus r = StepRunStatusRunning
     \<and> (\<exists>l \<in> set (dbLeases db). \<exists>dps. tlTaskID l = taskID \<and> tlOrganizationID l = orgID \<and> tlReleasedAt l = None
          \<and> tlExpiresAt l \<le> now \<and> planStepOf db r = Some dps
          \<and> sqlLowerTrim P (dpsExecutionLocation dps) = ExecutionLocation (tlExecutorType l))"

lemma updateWhere_twice:
  assumes "\<And>x. \<not> Q (f x)"
  shows "updateWhere Q f (updateWhere P f xs) = updateWhere (\<lambda>x. P x \<or> Q x) f xs"
  using assms by (simp add: updateWhere_def)

lemma resetForExecutors_Inr:
  assumes "resetForExecutors P now i o1 es db = Inr (x, db')"
  shows "db' = db\<lparr>dbStepRuns := updateWhere (\<lambda>r. srTaskID r = i \<and> srOrganizationID r = o1
       \<and> srStatus r = StepRunStatusRunning
       \<and> (\<exists>e \<in> set es. \<exists>dps. planStepOf db r = Some dps
            \<and> sqlLowerTrim P (dpsExecutionLocation dps) = ExecutionLocation e))
     (\<lambda>r. r\<lparr>srStatus := StepRunStatusPending, srUpdatedAt := now\<rparr>) (dbStepRuns db)\<rparr>"
  using assms
proof (induction es arbitrary: db)
  case Nil
  then show ?case by (simp add: updateWhere_def)
next
  case (Cons e es)
  let ?hit = "\<lambda>sr. srTaskID sr = i \<and> srOrganizationID sr = o1 \<and> srStatus sr = StepRunStatusRunning
      \<and> (case planStepOf db sr of None \<Rightarrow> False
         | Some dps \<Rightarrow> sqlLowerTrim P (dpsExecutionLocation dps) = ExecutionLocation e)"
  let ?reset = "\<lambda>r. r\<lparr>srStatus := StepRunStatusPending, srUpdatedAt := now\<rparr>"
  let ?db1 = "db\<lparr>dbStepRuns := updateWhere ?hit ?reset (dbStepRuns db)\<rparr>"
  have "resetForExecutors P now i o1 es ?db1 = Inr (x, db')"
    using Cons.prems by (auto simp: bindT_Inr resetInterruptedStepRunsForTaskExecutor_def split: if_splits)
  note step = Cons.IH [OF this]
  have same: "planStepOf ?db1 r = planStepOf db r" for r
    by (simp add: planStepOf_def)
  let ?P = "\<lambda>es r. srTaskID r = i \<and> srOrganizationID r = o1 \<and> srStatus r = StepRunStatusRunning
       \<and> (\<exists>e \<in> set es. \<exists>dps. planStepOf db r = Some dps
            \<and> sqlLowerTrim P (dpsExecutionLocation dps) = ExecutionLocation e)"
  have "updateWhere (?P es) ?reset (updateWhere ?hit ?reset (dbStepRuns db))
      = updateWhere (\<lambda>r. ?hit r \<or> ?P es r) ?reset (dbStepRuns db)"
    by (rule updateWhere_twice) simp
  also have "(\<lambda>r. ?hit r \<or> ?P es r) = ?P (e # es)"
    by (rule ext) (simp split: option.splits, blast)
  finally show ?case using step by (simp add: same)
qed

text \<open>C10: taking over a running task releases exactly its expired leases and puts exactly the
  interrupted steps of their executors back to pending; other tasks, steps of the other executor
  and steps that have ended stay as they are. The next attempt is above all earlier ones.\<close>

theorem expired_leases_reset_interrupted_steps:
  assumes "releaseExpiredTaskLeasesAndNextAttempt P now taskID orgID db = Inr (attempt, db')"
  shows "dbStepRuns db' = updateWhere (interrupted P now taskID orgID db)
         (\<lambda>r. r\<lparr>srStatus := StepRunStatusPending, srUpdatedAt := now\<rparr>) (dbStepRuns db)
     \<and> dbLeases db' = updateWhere (\<lambda>l. tlTaskID l = taskID \<and> tlOrganizationID l = orgID
           \<and> tlReleasedAt l = None \<and> tlExpiresAt l \<le> now)
         (\<lambda>l. l\<lparr>tlReleasedAt := Some now, tlUpdatedAt := now\<rparr>) (dbLeases db)
     \<and> dbTasks db' = dbTasks db \<and> dbLocks db' = dbLocks db
     \<and> (\<forall>l \<in> set (dbLeases db). tlTaskID l = taskID \<and> tlOrganizationID l = orgID \<longrightarrow> tlAttempt l < attempt)"
proof -
  let ?hit = "\<lambda>l. (tlTaskID l = taskID \<and> tlOrganizationID l = orgID) \<and> tlReleasedAt l = None \<and> tlExpiresAt l \<le> now"
  let ?rel = "\<lambda>l. l\<lparr>tlReleasedAt := coalesce (tlReleasedAt l) now, tlUpdatedAt := now\<rparr>"
  let ?db1 = "db\<lparr>dbLeases := updateWhere ?hit ?rel (dbLeases db)\<rparr>"
  let ?attempts = "map tlAttempt (filter (\<lambda>l. tlTaskID l = taskID \<and> tlOrganizationID l = orgID) (dbLeases db))"
  obtain y where n: "attempt = nextAttemptAfter 1 ?attempts"
    and r: "resetForExecutors P now taskID orgID (map tlExecutorType (filter ?hit (dbLeases db))) ?db1 = Inr (y, db')"
    using assms by (auto simp: releaseExpiredTaskLeasesAndNextAttempt_def Let_def bindT_def split: sum.splits)
  have same: "planStepOf ?db1 r = planStepOf db r" for r by (simp add: planStepOf_def)
  have "updateWhere ?hit ?rel (dbLeases db) = updateWhere (\<lambda>l. tlTaskID l = taskID \<and> tlOrganizationID l = orgID
           \<and> tlReleasedAt l = None \<and> tlExpiresAt l \<le> now)
         (\<lambda>l. l\<lparr>tlReleasedAt := Some now, tlUpdatedAt := now\<rparr>) (dbLeases db)"
    by (simp add: updateWhere_def)
  moreover have "(\<lambda>r. srTaskID r = taskID \<and> srOrganizationID r = orgID \<and> srStatus r = StepRunStatusRunning
       \<and> (\<exists>e \<in> set (map tlExecutorType (filter ?hit (dbLeases db))). \<exists>dps. planStepOf ?db1 r = Some dps
            \<and> sqlLowerTrim P (dpsExecutionLocation dps) = ExecutionLocation e)) = interrupted P now taskID orgID db"
    unfolding same by (auto simp: interrupted_def fun_eq_iff)
  moreover have "tlAttempt l < attempt" if "l \<in> set (dbLeases db)" "tlTaskID l = taskID" "tlOrganizationID l = orgID" for l
    using nextAttemptAfter_greater [of 1 ?attempts] that unfolding n by auto
  ultimately show ?thesis using resetForExecutors_Inr [OF r] by simp
qed

theorem expired_leases_reset_interrupted_steps_witness:
  "\<exists>db'. releaseExpiredTaskLeasesAndNextAttempt exPlatform 130000000000 100 1 exStarted = Inr (2, db')
     \<and> dbStepRuns db' = updateWhere (interrupted exPlatform 130000000000 100 1 exStarted)
         (\<lambda>r. r\<lparr>srStatus := StepRunStatusPending, srUpdatedAt := 130000000000\<rparr>) (dbStepRuns exStarted)
     \<and> map srStatus (dbStepRuns db') = [StepRunStatusPending, StepRunStatusPending]"
proof -
  let ?r = "releaseExpiredTaskLeasesAndNextAttempt exPlatform 130000000000 100 1 exStarted"
  have "case ?r of Inl _ \<Rightarrow> False | Inr (n, db') \<Rightarrow> n = 2
      \<and> map srStatus (dbStepRuns db') = [StepRunStatusPending, StepRunStatusPending]"
    by code_simp
  then obtain db' where r: "?r = Inr (2, db')" "map srStatus (dbStepRuns db') = [StepRunStatusPending, StepRunStatusPending]"
    by (auto split: sum.splits prod.splits)
  have "dbStepRuns db' = updateWhere (interrupted exPlatform 130000000000 100 1 exStarted)
         (\<lambda>r. r\<lparr>srStatus := StepRunStatusPending, srUpdatedAt := 130000000000\<rparr>) (dbStepRuns exStarted)"
    by (rule conjunct1 [OF expired_leases_reset_interrupted_steps [OF r(1)]])
  with r show ?thesis by (intro exI [of _ db'] conjI)
qed

end
