(* ===== verification/Event_Replay.thy ===== *)
theory Event_Replay
  imports Task_Operations
begin

text \<open>
  Agents deliver step events at least once: after a lost response the same request comes again.
  This theory shows that recording is idempotent. Storing an event changes status columns of
  steps, tasks and leases but no key: \<open>keyShape\<close> collects what the look-ups of a second request
  read, and every step of \<open>storeEvent\<close> keeps it. The second request therefore finds the stored row
  and answers from it (recordStepRunEvent of internal/db/step_events.go).
\<close>

definition stepKeys :: "StepRun \<Rightarrow> uuid \<times> uuid \<times> uuid \<times> uuid \<times> uuid" where
  "stepKeys r = (srID r, srOrganizationID r, srTaskID r, srDeploymentPlanID r, srDeploymentPlanStepID r)"

definition taskKeys :: "Task \<Rightarrow> uuid \<times> uuid \<times> uuid \<times> uuid" where
  "taskKeys t = (tkID t, tkOrganizationID t, tkDeploymentPlanTargetID t, tkDeploymentTargetID t)"

definition leaseKeys :: "TaskLeaseRow \<Rightarrow> uuid \<times> uuid \<times> uuid \<times> uuid \<times> TaskExecutorType \<times> string" where
  "leaseKeys l = (tlID l, tlOrganizationID l, tlAgentID l, tlTaskID l, tlExecutorType l, tlLeaseTokenHash l)"

definition sameKeys :: "database \<Rightarrow> database \<Rightarrow> bool" where
  "sameKeys db db' \<longleftrightarrow> map stepKeys (dbStepRuns db') = map stepKeys (dbStepRuns db)
     \<and> map taskKeys (dbTasks db') = map taskKeys (dbTasks db)
     \<and> map leaseKeys (dbLeases db') = map leaseKeys (dbLeases db)
     \<and> dbPlanSteps db' = dbPlanSteps db \<and> dbPlanTargets db' = dbPlanTargets db \<and> dbSecrets db' = dbSecrets db"

lemma sameKeys_refl [simp]: "sameKeys db db"
  by (simp add: sameKeys_def)

lemma sameKeys_trans: "sameKeys db1 db2 \<Longrightarrow> sameKeys db2 db3 \<Longrightarrow> sameKeys db1 db3"
  by (simp add: sameKeys_def)

section \<open>Look-ups\<close>

lemma find_map: "find P (map f xs) = map_option f (find (P \<circ> f) xs)"
  by (induction xs) auto

lemma find_same_keys:
  assumes "map f xs = map f ys" and "\<And>x. P x = Q (f x)"
  shows "map_option f (find P xs) = map_option f (find P ys)"
proof -
  have "P = Q \<circ> f" using assms(2) by (simp add: fun_eq_iff)
  then show ?thesis using assms(1) find_map [of Q f xs] find_map [of Q f ys] by simp
qed

lemma findStepRun_keys:
  assumes "sameKeys db db'"
  shows "map_option stepKeys (findStepRun i o1 db') = map_option stepKeys (findStepRun i o1 db)"
  unfolding findStepRun_def
  by (rule find_same_keys [where Q = "\<lambda>(a, b, _). a = i \<and> b = o1"])
    (use assms in \<open>simp_all add: sameKeys_def stepKeys_def\<close>)

lemma findTask_keys:
  assumes "sameKeys db db'"
  shows "map_option taskKeys (findTask i o1 db') = map_option taskKeys (findTask i o1 db)"
  unfolding findTask_def
  by (rule find_same_keys [where Q = "\<lambda>(a, b, _). a = i \<and> b = o1"])
    (use assms in \<open>simp_all add: sameKeys_def taskKeys_def\<close>)

lemma eventTarget_keys:
  assumes "sameKeys db db'" and "getStepRunEventTargetForUpdate o1 step db = Inr (target, db)"
  obtains target' where "getStepRunEventTargetForUpdate o1 step db' = Inr (target', db')"
    "etTaskID target' = etTaskID target" "etAgentID target' = etAgentID target"
proof -
  obtain sr t where sr: "findStepRun step o1 db = Some sr"
    and t: "findTask (srTaskID sr) (srOrganizationID sr) db = Some t"
    and target: "etTaskID target = tkID t" "etAgentID target = tkDeploymentTargetID t"
    using assms(2) unfolding getStepRunEventTargetForUpdate_def by (auto split: option.splits)
  obtain sr' where sr': "findStepRun step o1 db' = Some sr'" "stepKeys sr' = stepKeys sr"
    using findStepRun_keys [OF assms(1), of step o1] sr by auto
  obtain t' where t': "findTask (srTaskID sr) (srOrganizationID sr) db' = Some t'" "taskKeys t' = taskKeys t"
    using findTask_keys [OF assms(1), of "srTaskID sr" "srOrganizationID sr"] t by auto
  show thesis
    using sr' t' target
    by (intro that [of "\<lparr>etTaskID = tkID t', etAgentID = tkDeploymentTargetID t',
          etTaskStatus = tkStatus t', etStepStatus = srStatus sr'\<rparr>"])
      (simp_all add: getStepRunEventTargetForUpdate_def stepKeys_def taskKeys_def)
qed

lemma eventLease_keys:
  assumes "sameKeys db db'" and "getTaskLeaseForStepRunEvent P now request i ex db = Inr (lease, db)"
  obtains lease' where "getTaskLeaseForStepRunEvent P now' request i ex db' = Inr (lease', db')"
    "elID lease' = elID lease"
proof -
  let ?P = "\<lambda>l. tlOrganizationID l = reOrganizationID request \<and> tlAgentID l = reAgentID request
                 \<and> tlTaskID l = i \<and> tlExecutorType l = ex
                 \<and> tlLeaseTokenHash l = hashTaskLeaseToken P (reLeaseToken request)"
  obtain l where l: "find ?P (dbLeases db) = Some l" "elID lease = tlID l"
    using assms(2) unfolding getTaskLeaseForStepRunEvent_def by (auto split: option.splits)
  have "map_option leaseKeys (find ?P (dbLeases db')) = map_option leaseKeys (find ?P (dbLeases db))"
    by (rule find_same_keys [where Q = "\<lambda>(a, b, c, d, e, f). b = reOrganizationID request \<and> c = reAgentID request
                 \<and> d = i \<and> e = ex \<and> f = hashTaskLeaseToken P (reLeaseToken request)"])
      (use assms(1) in \<open>simp_all add: sameKeys_def leaseKeys_def\<close>)
  then obtain l' where l': "find ?P (dbLeases db') = Some l'" "leaseKeys l' = leaseKeys l"
    using l by auto
  show thesis
    using l l' by (intro that [of "\<lparr>elID = tlID l', elExpired = (tlExpiresAt l' \<le> now'),
        elReleased = (tlReleasedAt l' \<noteq> None)\<rparr>"])
      (simp_all add: getTaskLeaseForStepRunEvent_def leaseKeys_def)
qed

lemma getTaskLeaseSecretValue_keys:
  assumes "sameKeys db db'" and "taskKeys t' = taskKeys t"
  shows "getTaskLeaseSecretValue db' t' = getTaskLeaseSecretValue db t"
  using assms by (simp add: getTaskLeaseSecretValue_def sameKeys_def taskKeys_def fun_eq_iff cong: if_cong)

lemma secretValues_keys:
  assumes "sameKeys db db'" and "getStepRunSecretValuesForRedaction o1 step db = Inr vs"
  shows "getStepRunSecretValuesForRedaction o1 step db' = Inr vs"
proof -
  obtain sr where sr: "findStepRun step o1 db = Some sr"
    using assms(2) unfolding getStepRunSecretValuesForRedaction_def by (auto split: option.splits)
  obtain t where t: "findTask (srTaskID sr) (srOrganizationID sr) db = Some t"
    using assms(2) sr unfolding getStepRunSecretValuesForRedaction_def by (auto split: option.splits)
  obtain sr' where sr': "findStepRun step o1 db' = Some sr'" "stepKeys sr' = stepKeys sr"
    using findStepRun_keys [OF assms(1), of step o1] sr by auto
  obtain t' where t': "findTask (srTaskID sr) (srOrganizationID sr) db' = Some t'" "taskKeys t' = taskKeys t"
    using findTask_keys [OF assms(1), of "srTaskID sr" "srOrganizationID sr"] t by auto
  have "planStepOf db' sr' = planStepOf db sr"
    using sr'(2) assms(1) by (simp add: planStepOf_def stepKeys_def sameKeys_def)
  then show ?thesis
    using assms(2) sr t sr' t' getTaskLeaseSecretValue_keys [OF assms(1) t'(2)]
    by (auto simp: getStepRunSecretValuesForRedaction_def stepKeys_def split: option.splits)
qed

section \<open>Storing keeps the keys\<close>

lemma sameKeys_updates:
  "(\<And>r. stepKeys (f r) = stepKeys r) \<Longrightarrow> sameKeys db0 db \<Longrightarrow> sameKeys db0 (db\<lparr>dbStepRuns := updateWhere Q f (dbStepRuns db)\<rparr>)"
  "(\<And>t. taskKeys (g t) = taskKeys t) \<Longrightarrow> sameKeys db0 db \<Longrightarrow> sameKeys db0 (db\<lparr>dbTasks := updateWhere Q' g (dbTasks db)\<rparr>)"
  "(\<And>l. leaseKeys (h l) = leaseKeys l) \<Longrightarrow> sameKeys db0 db \<Longrightarrow> sameKeys db0 (db\<lparr>dbLeases := updateWhere Q'' h (dbLeases db)\<rparr>)"
  by (simp_all add: sameKeys_def map_updateWhere)

lemma sameKeys_others:
  "sameKeys db0 db \<Longrightarrow> sameKeys db0 (db\<lparr>dbLocks := ls\<rparr>)"
  "sameKeys db0 db \<Longrightarrow> sameKeys db0 (db\<lparr>dbRandom := n, dbLogChunks := cs\<rparr>)"
  "sameKeys db0 db \<Longrightarrow> sameKeys db0 (db\<lparr>dbRandom := n, dbOutputs := os\<rparr>)"
  "sameKeys db0 db \<Longrightarrow> sameKeys db0 (db\<lparr>dbRandom := n, dbEvents := es\<rparr>)"
  by (simp_all add: sameKeys_def)

lemma keys_updateStepRun: "triple (sameKeys db0) (updateStepRunStatus now i o1 s) (\<lambda>_. sameKeys db0)"
  by (auto simp: updateStepRunStatus_def triple_def setStepRunStatus_def stepKeys_def intro!: sameKeys_updates)

lemma keys_updateTask: "triple (sameKeys db0) (updateTaskStatus now i o1 s) (\<lambda>_. sameKeys db0)"
proof -
  have "triple (sameKeys db0) (releaseActiveTaskLeasesForTask now i o1) (\<lambda>_. sameKeys db0)"
    by (auto simp: releaseActiveTaskLeasesForTask_def triple_def leaseKeys_def intro!: sameKeys_updates)
  moreover have "triple (sameKeys db0) (releaseTaskResourceLocks now i o1) (\<lambda>_. sameKeys db0)"
    by (auto simp: releaseTaskResourceLocks_def triple_def intro!: sameKeys_others)
  ultimately show ?thesis
    unfolding updateTaskStatus_def
    by (intro triple_bind [OF triple_exec [where B = "\<lambda>_. sameKeys db0"]] triple_if triple_return
          sameKeys_updates triple_bind [where B = "\<lambda>_. sameKeys db0"])
      (auto simp: setTaskStatus_def taskKeys_def)
qed

lemma keys_applyEvent: "triple (sameKeys db0) (applyStepRunEventTransition now target r) (\<lambda>_. sameKeys db0)"
proof -
  have complete: "triple (sameKeys db0) (completeTaskIfStepRunsTerminal now i o1) (\<lambda>_. sameKeys db0)" for i o1
    unfolding completeTaskIfStepRunsTerminal_def Let_def
    by (intro triple_bind [OF good_query] triple_if keys_updateTask triple_return)
  have ok: "triple (sameKeys db0) (returnT ()) (\<lambda>_. sameKeys db0)" by (rule triple_return)
  show ?thesis
    unfolding applyStepRunEventTransition_def Let_def
    by (cases "reType r") (auto intro!: ok keys_updateTask keys_updateStepRun triple_bind [OF keys_updateStepRun]
        complete simp del: tx_simps)
qed

lemma keys_insertLogChunks:
  "triple (sameKeys db0) (insertLogChunks P now occurred eventID i leaseID r n logs) (\<lambda>_. sameKeys db0)"
proof (induction logs arbitrary: n)
  case Nil
  show ?case by (simp add: triple_def)
next
  case (Cons a logs)
  obtain log red where "a = (log, red)" by fastforce
  then show ?case
    unfolding triple_def
    by (auto simp: randomUuid_def bindT_def split: if_splits
        intro: sameKeys_others(2) dest!: tripleD [OF Cons.IH, rotated])
qed

lemma keys_insertOutputs:
  "triple (sameKeys db0) (insertOutputs P now eventID i leaseID r ps) (\<lambda>_. sameKeys db0)"
proof (induction ps)
  case Nil
  show ?case by (simp add: triple_def)
next
  case (Cons p ps)
  then show ?case
    unfolding triple_def
    by (auto simp: randomUuid_def bindT_def split: if_splits
        intro: sameKeys_others(3) dest!: tripleD [OF Cons.IH, rotated])
qed

lemma keys_batchComplete:
  "triple (sameKeys db0) (releaseTaskLeaseIfExecutorBatchComplete P now i o1 leaseID loc) (\<lambda>_. sameKeys db0)"
  unfolding releaseTaskLeaseIfExecutorBatchComplete_def triple_def
  by (auto simp: leaseKeys_def intro!: sameKeys_updates)

text \<open>The events after an insertion of log chunks and outputs and after a release are the ones before.\<close>

lemma events_insertLogChunks:
  "insertLogChunks P now occurred eventID i leaseID r n logs db = Inr (x, db') \<Longrightarrow> dbEvents db' = dbEvents db"
proof (induction logs arbitrary: n db x)
  case (Cons a logs)
  obtain log red where "a = (log, red)" by fastforce
  with Cons.prems show ?case
    by (auto simp: randomUuid_def bindT_def split: if_splits dest!: Cons.IH)
qed simp

lemma events_insertOutputs:
  "insertOutputs P now eventID i leaseID r ps db = Inr (x, db') \<Longrightarrow> dbEvents db' = dbEvents db"
proof (induction ps arbitrary: db x)
  case (Cons p ps)
  then show ?case
    by (auto simp: randomUuid_def bindT_def split: if_splits dest!: Cons.IH)
qed simp

text \<open>After storing, the keys are the ones before, and the new row is the only new event.\<close>

lemma storeEvent_stored:
  assumes "storeEvent P C now ex target leaseID p db = Inr (e, db')"
  obtains row where "sameKeys db db'" "dbEvents db' = dbEvents db @ [row]"
    "erPayloadHash row = ppPayloadHash p" "evSequence (erEvent row) = reSequence (ppRequest p)"
    "eventAt (reOrganizationID (ppRequest p)) (reStepRunID (ppRequest p)) leaseID row"
    "getStepRunEvent P (evID (erEvent row)) (reOrganizationID (ppRequest p)) db' = Inr (e, db')"
  using assms
proof (rule storeEvent_steps)
  fix db1 db2 db3 db4 eventID u v w z
  assume ap: "applyStepRunEventTransition now target (ppRequest p) db = Inr (u, db1)"
    and ins: "insertStepRunEvent P C now p (etTaskID target) leaseID db1 = Inr (eventID, db2)"
    and logs: "insertStepRunLogChunks P now eventID (etTaskID target) leaseID p db2 = Inr (v, db3)"
    and outs: "insertStepRunOutputs P now eventID (etTaskID target) leaseID p db3 = Inr (w, db4)"
    and last: "(if reType (ppRequest p) = StepRunEventTypeSucceeded
         then releaseTaskLeaseIfExecutorBatchComplete P now (etTaskID target)
             (reOrganizationID (ppRequest p)) leaseID (ExecutionLocation ex)
         else returnT ()) db4 = Inr (z, db')"
    and read: "getStepRunEvent P eventID (reOrganizationID (ppRequest p)) db' = Inr (e, db')"
  define row where "row = newEventRow P now p (etTaskID target) leaseID db1"
  note row = insertEvent_Inr [OF ins, folded row_def]
  have "sameKeys db db1" by (rule tripleD [OF keys_applyEvent _ ap]) simp
  then have "sameKeys db db2" using row by (simp add: sameKeys_others)
  then have "sameKeys db db3"
    using logs unfolding insertStepRunLogChunks_def by (rule tripleD [OF keys_insertLogChunks])
  then have k4: "sameKeys db db4"
    using outs unfolding insertStepRunOutputs_def by (rule tripleD [OF keys_insertOutputs])
  have "sameKeys db db'"
    using tripleD [OF triple_if [OF keys_batchComplete triple_return] k4 last] by simp
  moreover have "dbEvents db1 = dbEvents db" using tripleD [OF applyEvent_events refl ap] .
  moreover have "dbEvents db3 = dbEvents db2" "dbEvents db4 = dbEvents db3"
    using logs outs unfolding insertStepRunLogChunks_def insertStepRunOutputs_def
    by (auto dest: events_insertLogChunks events_insertOutputs)
  moreover have "dbEvents db' = dbEvents db4"
    using last by (auto simp: releaseTaskLeaseIfExecutorBatchComplete_def split: if_splits)
  ultimately have "sameKeys db db'" "dbEvents db' = dbEvents db @ [row]" using row by simp_all
  then show thesis using row read by (intro that [of row]) (simp_all add: row_def eventAt_def)
qed

section \<open>Recording twice\<close>

text \<open>A database in which the row of the request's event is the first at its place answers the
  request from it, whatever the time: no release or expiry of the lease is asked for.\<close>

lemma recordEventTx_replay:
  assumes "getStepRunEventTargetForUpdate (reOrganizationID request) (reStepRunID request) db = Inr (target, db)"
    and "etAgentID target = reAgentID request"
    and "getTaskLeaseForStepRunEvent P now request (etTaskID target) ex db = Inr (lease, db)"
    and "getStepRunSecretValuesForRedaction (reOrganizationID request) (reStepRunID request) db = Inr vs"
    and "prepareStepRunEventRequest C request vs = Inr p"
    and "getStepRunEventBySequence (reOrganizationID request) (reStepRunID request) (elID lease) (reSequence request) db = Some row"
    and "erPayloadHash row = ppPayloadHash p"
    and "getStepRunEvent P (evID (erEvent row)) (reOrganizationID request) db = Inr (e, db)"
  shows "recordEventTx P C now ex request db = Inr (e, db)"
  using assms by (simp add: recordEventTx_def Let_def bindT_def)

lemma recordEventTx_agent:
  "recordEventTx P C now ex request db = Inr (e, db')
   \<Longrightarrow> getStepRunEventTargetForUpdate (reOrganizationID request) (reStepRunID request) db = Inr (target, db)
   \<Longrightarrow> etAgentID target = reAgentID request"
  by (cases "etAgentID target = reAgentID request") (simp_all add: recordEventTx_def Let_def bindT_def)

lemma find_append: "find P (xs @ ys) = (case find P xs of None \<Rightarrow> find P ys | Some x \<Rightarrow> Some x)"
  by (induction xs) auto

lemma recordEventTx_twice:
  assumes "recordEventTx P C now ex request db = Inr (e, db')"
  shows "recordEventTx P C now' ex request db' = Inr (e, db')"
  using assms
proof (cases rule: recordEventTx_cases)
  case (replay target lease vs p row)
  from eventLease_keys [OF sameKeys_refl replay(2)]
  obtain lease' where "getTaskLeaseForStepRunEvent P now' request (etTaskID target) ex db = Inr (lease', db)"
    "elID lease' = elID lease" .
  with replay recordEventTx_agent [OF assms replay(1)] show ?thesis
    by (intro recordEventTx_replay [where lease = lease']) simp_all
next
  case (store target lease vs p)
  note same = prepareRequest_fields [OF store(3)]
  from storeEvent_stored [OF store(7)] same obtain row where keys: "sameKeys db db'"
    and row: "dbEvents db' = dbEvents db @ [row]" "erPayloadHash row = ppPayloadHash p"
      "evSequence (erEvent row) = reSequence request"
      "eventAt (reOrganizationID request) (reStepRunID request) (elID lease) row"
    and read: "getStepRunEvent P (evID (erEvent row)) (reOrganizationID request) db' = Inr (e, db')"
    by metis
  from eventTarget_keys [OF keys store(1)] obtain target' where
    target': "getStepRunEventTargetForUpdate (reOrganizationID request) (reStepRunID request) db' = Inr (target', db')"
      "etTaskID target' = etTaskID target" "etAgentID target' = etAgentID target" .
  from eventLease_keys [OF keys store(2)] obtain lease' where
    lease': "getTaskLeaseForStepRunEvent P now' request (etTaskID target) ex db' = Inr (lease', db')"
      "elID lease' = elID lease" .
  have "getStepRunEventBySequence (reOrganizationID request) (reStepRunID request) (elID lease') (reSequence request) db' = Some row"
    using store(4) row lease'(2) by (simp add: getStepRunEventBySequence_def find_append)
  then show ?thesis
    using target' lease' row(2) read store(3,9) secretValues_keys [OF keys store(8)]
    by (intro recordEventTx_replay [where target = target' and lease = lease']) simp_all
qed

lemma RunTx_Inr: "RunTx m db = (Inr x, db') \<longleftrightarrow> m db = Inr (x, db')"
  by (auto simp: RunTx_def split: sum.splits)



end
