(* ===== verification/Lease_Grants.thy ===== *)
theory Lease_Grants
  imports Event_Replay
begin

text \<open>
  What an executor may rely on when the hub hands it a lease (leaseTaskCandidate of
  internal/db/task_leases.go): nobody else has the task. Between the start of the transaction and
  the new lease the other leases change only by the release of expired ones, and the insertion
  fails on the partial unique index while an unreleased lease is left.
\<close>

text \<open>From \<open>ls\<close> to \<open>ls'\<close> nothing happened to the leases but the release of those expired at \<open>now\<close>.\<close>

definition onlyExpiredReleased :: "timestamp \<Rightarrow> TaskLeaseRow list \<Rightarrow> TaskLeaseRow list \<Rightarrow> bool" where
  "onlyExpiredReleased now ls ls' \<longleftrightarrow> list_all2 (\<lambda>a b. tlID b = tlID a \<and> tlTaskID b = tlTaskID a
     \<and> tlAttempt b = tlAttempt a \<and> (tlReleasedAt b = tlReleasedAt a \<or> tlExpiresAt a \<le> now)) ls ls'"

lemma onlyExpiredReleased_refl: "onlyExpiredReleased now ls ls"
  by (simp add: onlyExpiredReleased_def list.rel_refl)

lemma onlyExpiredReleased_updateWhere:
  "onlyExpiredReleased now ls (updateWhere (\<lambda>l. Q l \<and> tlReleasedAt l = None \<and> tlExpiresAt l \<le> now)
     (\<lambda>l. l\<lparr>tlReleasedAt := coalesce (tlReleasedAt l) now, tlUpdatedAt := now\<rparr>) ls)"
  unfolding onlyExpiredReleased_def updateWhere_def by (induction ls) auto

lemma onlyExpiredReleased_in:
  assumes "onlyExpiredReleased now ls ls'" "l \<in> set ls"
  obtains l' where "l' \<in> set ls'" "tlID l' = tlID l" "tlTaskID l' = tlTaskID l" "tlAttempt l' = tlAttempt l"
    "tlReleasedAt l' = tlReleasedAt l \<or> tlExpiresAt l \<le> now"
  using assms unfolding onlyExpiredReleased_def by (induction ls ls' rule: list_all2_induct) auto

lemma releaseExpired_leases:
  assumes "releaseExpiredTaskLeasesAndNextAttempt P now i o1 db = Inr (n, db')"
  shows "onlyExpiredReleased now (dbLeases db) (dbLeases db')"
proof -
  let ?hit = "\<lambda>l. (tlTaskID l = i \<and> tlOrganizationID l = o1) \<and> tlReleasedAt l = None \<and> tlExpiresAt l \<le> now"
  let ?rel = "\<lambda>l. l\<lparr>tlReleasedAt := coalesce (tlReleasedAt l) now, tlUpdatedAt := now\<rparr>"
  let ?db1 = "db\<lparr>dbLeases := updateWhere ?hit ?rel (dbLeases db)\<rparr>"
  obtain y es where "resetForExecutors P now i o1 es ?db1 = Inr (y, db')"
    using assms by (auto simp: releaseExpiredTaskLeasesAndNextAttempt_def Let_def bindT_def split: sum.splits)
  from resetForExecutors_Inr [OF this] have "dbLeases db' = updateWhere ?hit ?rel (dbLeases db)" by simp
  then show ?thesis
    using onlyExpiredReleased_updateWhere [of now "dbLeases db" "\<lambda>l. tlTaskID l = i \<and> tlOrganizationID l = o1"] by simp
qed

lemma tryAcquire_leases: "tryAcquire (acquireTaskResourceLocks P now i o1) db = Inr (b, db') \<Longrightarrow> dbLeases db' = dbLeases db"
  unfolding tryAcquire_def
  by (auto split: sum.splits error.splits dest!: acquire_Inr(1))

lemma startTask_leases: "updateTaskStatus now i o1 TaskStatusRunning db = Inr (u, db') \<Longrightarrow> dbLeases db' = dbLeases db"
  by (auto simp: updateTaskStatus_def taskStatusIsTerminal_def)

lemma bundlePublished_same: "lockTaskReleaseBundlePublishedForLease i o1 db = Inr (b, db') \<Longrightarrow> db' = db"
  by (simp add: lockTaskReleaseBundlePublishedForLease_def split: option.splits)

lemma return_None_Some: "returnT None db = Inr (Some x, db') \<longleftrightarrow> False"
  by simp

lemma leaseTaskCandidate_grants:
  assumes "leaseTaskCandidate P now bytes c ex db = Inr (Some lease, db')"
  obtains n dbg where "onlyExpiredReleased now (dbLeases db) (dbLeases dbg)"
    "grantLease P now bytes c ex n dbg = Inr (Some lease, db')"
proof -
  obtain attempt db1 db2 where pub: "lockTaskReleaseBundlePublishedForLease (tcTaskID c) (tcOrganizationID c) db = Inr (True, db1)"
    and att: "(if tcStatus c = TaskStatusRunning
       then releaseExpiredTaskLeasesAndNextAttempt P now (tcTaskID c) (tcOrganizationID c) else returnT 1) db1 = Inr (attempt, db2)"
    and rest: "(if tcStatus c = TaskStatusQueued then
          bindT (tryAcquire (acquireTaskResourceLocks P now (tcTaskID c) (tcOrganizationID c))) (\<lambda>acquired.
            if \<not> acquired then returnT None
            else
          bindT (updateTaskStatus now (tcTaskID c) (tcOrganizationID c) TaskStatusRunning) (\<lambda>_.
          bindT (releaseExpiredTaskLeasesAndNextAttempt P now (tcTaskID c) (tcOrganizationID c)) (\<lambda>attempt.
            grantLease P now bytes c ex attempt)))
        else grantLease P now bytes c ex attempt) db2 = Inr (Some lease, db')"
    using assms unfolding leaseTaskCandidate_def Let_def
    by (auto simp: bindT_Inr simp del: bindT_simps split: if_splits)
  have same: "db1 = db" using bundlePublished_same [OF pub] .
  show thesis
  proof (cases "tcStatus c = TaskStatusQueued")
    case False
    moreover have "onlyExpiredReleased now (dbLeases db) (dbLeases db2)"
      using att releaseExpired_leases by (auto simp: same onlyExpiredReleased_refl split: if_splits)
    ultimately show thesis using rest that by simp
  next
    case True
    with att have db2: "db2 = db" by (simp add: same)
    obtain db3 db4 dbg n u where a: "tryAcquire (acquireTaskResourceLocks P now (tcTaskID c) (tcOrganizationID c)) db = Inr (True, db3)"
      and s: "updateTaskStatus now (tcTaskID c) (tcOrganizationID c) TaskStatusRunning db3 = Inr (u, db4)"
      and r: "releaseExpiredTaskLeasesAndNextAttempt P now (tcTaskID c) (tcOrganizationID c) db4 = Inr (n, dbg)"
      and g: "grantLease P now bytes c ex n dbg = Inr (Some lease, db')"
      using rest True unfolding db2 by (auto simp: bindT_Inr simp del: bindT_simps split: if_splits)
    have "onlyExpiredReleased now (dbLeases db) (dbLeases dbg)"
      using releaseExpired_leases [OF r] tryAcquire_leases [OF a] startTask_leases [OF s] by simp
    then show thesis using g that by simp
  qed
qed

lemma grantLease_Inr:
  assumes "grantLease P now bytes c ex n db = Inr (Some lease, db')"
  shows "dbLeases db' = dbLeases db @ [TaskLeaseRow.truncate lease]
     \<and> (\<forall>l \<in> set (dbLeases db). tlTaskID l = tlTaskID lease \<longrightarrow> tlReleasedAt l \<noteq> None)
     \<and> tlReleasedAt lease = None \<and> tlExpiresAt lease = now + taskLeaseDuration
     \<and> tlExecutorType lease = ex \<and> tlTaskID lease = tcTaskID c
     \<and> tlLeaseTokenHash lease = hashTaskLeaseToken P (tlLeaseToken lease)"
proof -
  define token where "token = pfBase64 P bytes"
  define hash where "hash = hashTaskLeaseToken P token"
  define row where "row = newLease P now (tcOrganizationID c) (tcDeploymentTargetID c) (tcTaskID c) ex hash n db"
  obtain leaseID db1 where ins: "insertTaskLease P now (tcOrganizationID c) (tcDeploymentTargetID c)
        (tcTaskID c) ex hash n db = Inr (leaseID, db1)"
    and get: "getTaskLease P token leaseID (tcOrganizationID c) db1 = Inr (lease, db')"
    using assms unfolding grantLease_def newTaskLeaseToken_def Let_def token_def hash_def
    by (auto simp: bindT_Inr simp del: bindT_simps)
  note ins' = insertTaskLease_Inr [OF ins, folded row_def]
  have fresh: "leaseID = tlID row" "leaseID \<notin> tlID ` set (dbLeases db)"
    using ins by (auto simp: insertTaskLease_def randomUuid_def bindT_def row_def newLease_def split: if_splits)
  have "find (\<lambda>l. tlID l = leaseID \<and> tlOrganizationID l = tcOrganizationID c) (dbLeases db) = None"
    using fresh(2) by (auto simp: find_None_iff)
  then have "find (\<lambda>l. tlID l = leaseID \<and> tlOrganizationID l = tcOrganizationID c) (dbLeases db1) = Some row"
    using ins' fresh(1) by (simp add: find_append)
  then obtain task steps and dp :: DeploymentPlan where lease: "lease = TaskLeaseRow.extend row
        \<lparr>tlLeaseToken = token, tlPlanChecksum = dpCanonicalChecksum dp, tlTask = task, tlSteps = steps\<rparr>"
    using get unfolding getTaskLease_def bindT_Inr by (auto simp: bindT_Inr)
  have "db' = db1" using getTaskLease_same [OF get] .
  then show ?thesis
    using ins' by (simp add: lease row_def newLease_def TaskLeaseRow.extend_def TaskLeaseRow.truncate_def hash_def)
qed

lemma leaseNextTx_grants:
  assumes "leaseNextTx P now bytes next ex db = Inr (Some lease, db')"
  obtains ls where "onlyExpiredReleased now (dbLeases db) ls"
    "dbLeases db' = ls @ [TaskLeaseRow.truncate lease]"
    "\<forall>l \<in> set ls. tlTaskID l = tlTaskID lease \<longrightarrow> tlReleasedAt l \<noteq> None"
    "tlReleasedAt lease = None" "tlExpiresAt lease = now + taskLeaseDuration"
    "tlLeaseTokenHash lease = hashTaskLeaseToken P (tlLeaseToken lease)"
proof (cases "next db")
  case (Inl e)
  with assms show thesis by (cases e) (auto simp: leaseNextTx_def)
next
  case (Inr c)
  then have "leaseTaskCandidate P now bytes c ex db = Inr (Some lease, db')"
    using assms by (simp add: leaseNextTx_def)
  then obtain n dbg where "onlyExpiredReleased now (dbLeases db) (dbLeases dbg)"
    "grantLease P now bytes c ex n dbg = Inr (Some lease, db')"
    by (rule leaseTaskCandidate_grants)
  then show thesis using grantLease_Inr [of P now bytes c ex n dbg lease db'] that by blast
qed

text \<open>C2: a lease is never taken from a live executor. Whenever an agent or the hub gets a lease, every earlier
  lease of that task was released or had expired; the new one is the task's only unreleased lease,
  with an attempt above all earlier ones (so late messages under an old lease are told apart), two
  minutes to live, the hash of the token that was handed out, and a task that is running.\<close>

theorem leases_never_stolen:
  assumes "emptyQueue db0" and db: "db = runTasks P C es db0"
    and granted: "LeaseAgentTask P now bytes skipped request db = (Inr (Some lease), db')
       \<or> LeaseHubTask P now bytes skipped db = (Inr (Some lease), db')"
  shows "(\<forall>l \<in> set (dbLeases db). tlTaskID l = tlTaskID lease \<longrightarrow>
            (tlReleasedAt l \<noteq> None \<or> tlExpiresAt l \<le> now) \<and> tlAttempt l < tlAttempt lease)
     \<and> (\<forall>l \<in> set (dbLeases db'). tlTaskID l = tlTaskID lease \<and> tlReleasedAt l = None
            \<longrightarrow> l = TaskLeaseRow.truncate lease)
     \<and> TaskLeaseRow.truncate lease \<in> set (dbLeases db')
     \<and> tlReleasedAt lease = None \<and> tlExpiresAt lease = now + taskLeaseDuration
     \<and> tlLeaseTokenHash lease = hashTaskLeaseToken P (tlLeaseToken lease)
     \<and> (\<exists>t \<in> set (dbTasks db'). tkID t = tlTaskID lease \<and> tkStatus t = TaskStatusRunning)"
proof -
  define call where "call = (if LeaseHubTask P now bytes skipped db = (Inr (Some lease), db')
     then LeaseHub bytes skipped else LeaseAgent bytes skipped request)"
  have run: "db' = runTasks P C (es @ [(now, call)]) db0"
    using granted by (auto simp: db runTasks_def call_def)
  have "\<exists>next ex. leaseNextTx P now bytes next ex db = Inr (Some lease, db')"
    using granted by (auto simp: LeaseAgentTask_def LeaseHubTask_def RunTx_Inr split: sum.splits)
  then obtain ls where ls: "onlyExpiredReleased now (dbLeases db) ls"
    "dbLeases db' = ls @ [TaskLeaseRow.truncate lease]"
    "\<forall>l \<in> set ls. tlTaskID l = tlTaskID lease \<longrightarrow> tlReleasedAt l \<noteq> None"
    "tlReleasedAt lease = None" "tlExpiresAt lease = now + taskLeaseDuration"
    "tlLeaseTokenHash lease = hashTaskLeaseToken P (tlLeaseToken lease)"
    using leaseNextTx_grants by metis
  note inv = reachable_inv(1) [OF assms(1), of P C "es @ [(now, call)]", folded run]
  have row: "tlTaskID (TaskLeaseRow.truncate lease) = tlTaskID lease" "tlAttempt (TaskLeaseRow.truncate lease) = tlAttempt lease"
    "tlReleasedAt (TaskLeaseRow.truncate lease) = tlReleasedAt lease"
    by (simp_all add: TaskLeaseRow.truncate_def)
  have "tlAttempt l < tlAttempt lease" if "l \<in> set ls" "tlTaskID l = tlTaskID lease" for l
    using inv that unfolding queueInv_def attemptsIncrease_def ls(2)
    by (auto simp: sorted_wrt_append row dest!: spec [of _ "tlTaskID lease"])
  then have "(tlReleasedAt l \<noteq> None \<or> tlExpiresAt l \<le> now) \<and> tlAttempt l < tlAttempt lease"
    if "l \<in> set (dbLeases db)" "tlTaskID l = tlTaskID lease" for l
    using onlyExpiredReleased_in [OF ls(1) that(1)] ls(3) that(2) by metis
  moreover have "\<exists>t \<in> set (dbTasks db'). tkID t = tlTaskID lease \<and> tkStatus t = TaskStatusRunning"
    using inv ls(2,4) row unfolding queueInv_def leasesOwned_def leaseFits_def by auto
  ultimately show ?thesis using ls by auto
qed

theorem leases_never_stolen_witness:
  "\<exists>lease db'. LeaseAgentTask exPlatform 120000000005 ''new'' (\<lambda>_. False) \<lparr>laOrganizationID = 1, laAgentID = 30\<rparr> exLeased
       = (Inr (Some lease), db') \<and> tlAttempt lease = 2
     \<and> (\<forall>l \<in> set (dbLeases exLeased). tlTaskID l = tlTaskID lease \<longrightarrow> tlAttempt l < tlAttempt lease)"
proof -
  let ?r = "LeaseAgentTask exPlatform 120000000005 ''new'' (\<lambda>_. False) \<lparr>laOrganizationID = 1, laAgentID = 30\<rparr> exLeased"
  have "case fst ?r of Inr (Some lease) \<Rightarrow> tlAttempt lease = 2 | _ \<Rightarrow> False"
    by code_simp
  then obtain lease where r: "?r = (Inr (Some lease), snd ?r)" and a: "tlAttempt lease = 2"
    by (cases ?r) (auto split: sum.splits option.splits)
  have "\<forall>l \<in> set (dbLeases exLeased). tlTaskID l = tlTaskID lease \<longrightarrow> tlAttempt l < tlAttempt lease"
    using leases_never_stolen [OF exDatabase_empty exLeased_def disjI1 [OF r]] by blast
  with r a show ?thesis by blast
qed

end
