(* ===== verification/Variable_Resolution.thy ===== *)
theory Variable_Resolution
  imports Task_Types
begin

text \<open>
  internal/variablescope/scope.go, internal/variableresolution/resolver.go and the data of
  internal/types/variable.go: which of a variable's values holds in a given deployment. A
  \<open>json.RawMessage\<close> is \<open>None\<close> when nil; the text form of UUIDs is the argument \<open>ustr\<close>.
\<close>

unbundle bit_operations_syntax

section \<open>Types\<close>

datatype VariableType =
    VariableTypeString | VariableTypeNumber | VariableTypeBoolean | VariableTypeJSON
  | VariableTypeSecretReference | VariableTypeAccountReference | VariableTypeCertificateReference
  | VariableTypeOther string

type_synonym RawMessage = "string option"

record VariableScope =
  vsCustomerOrganizationID :: "uuid option"
  vsEnvironmentID :: "uuid option"
  vsChannelID :: "uuid option"
  vsDeploymentTargetID :: "uuid option"
  vsApplicationID :: "uuid option"
  vsTargetTag :: string
  vsProcessStepKey :: string

record VariableResolutionScope =
  rsCustomerOrganizationID :: "uuid option"
  rsEnvironmentID :: "uuid option"
  rsChannelID :: "uuid option"
  rsDeploymentTargetID :: "uuid option"
  rsApplicationID :: "uuid option"
  rsTargetTags :: "string list"
  rsProcessStepKey :: string

record VariableScopedValue =
  svID :: uuid
  svCreatedAt :: timestamp
  svUpdatedAt :: timestamp
  svOrganizationID :: uuid
  svVariableSetID :: uuid
  svVariableID :: uuid
  svScope :: VariableScope
  svSortOrder :: int
  svValue :: RawMessage
  svReferenceID :: string
  svReferenceName :: string

record Variable =
  vaID :: uuid
  vaCreatedAt :: timestamp
  vaUpdatedAt :: timestamp
  vaOrganizationID :: uuid
  vaVariableSetID :: uuid
  vaKey :: string
  vaDescription :: string
  vaType :: VariableType
  vaIsRequired :: bool
  vaDefaultValue :: RawMessage
  vaReferenceID :: string
  vaReferenceName :: string
  vaScopedValues :: "VariableScopedValue list"

record VariablePromptedValue =
  pvKey :: string
  pvValue :: RawMessage
  pvReferenceID :: string
  pvReferenceName :: string

datatype VariableResolutionStatus = VariableResolutionStatusResolved | VariableResolutionStatusUnresolved

datatype VariableResolutionSource =
    VariableResolutionSourcePrompted
  | VariableResolutionSourceExactTenantEnvironmentTargetChannelStep
  | VariableResolutionSourceExactTenantEnvironmentTarget
  | VariableResolutionSourceExactTenantEnvironmentChannel
  | VariableResolutionSourceExactTenantEnvironment
  | VariableResolutionSourceExactEnvironmentTargetTag
  | VariableResolutionSourceExactEnvironment
  | VariableResolutionSourceChannel
  | VariableResolutionSourceApplication
  | VariableResolutionSourceDefault
  | VariableResolutionSourceUnresolved

record VariableResolutionTraceEntry =
  vtSource :: VariableResolutionSource
  vtScope :: VariableScope
  vtSelected :: bool
  vtReason :: string

record ResolvedVariable =
  rvVariableSetID :: uuid
  rvVariableID :: uuid
  rvKey :: string
  rvType :: VariableType
  rvIsRequired :: bool
  rvStatus :: VariableResolutionStatus
  rvSource :: VariableResolutionSource
  rvValue :: RawMessage
  rvReferenceID :: string
  rvReferenceName :: string
  rvRedacted :: bool
  rvTrace :: "VariableResolutionTraceEntry list"

section \<open>Scopes\<close>

definition scopeTenant :: int where "scopeTenant = 1"
definition scopeEnvironment :: int where "scopeEnvironment = 2"
definition scopeChannel :: int where "scopeChannel = 4"
definition scopeTarget :: int where "scopeTarget = 8"
definition scopeApplication :: int where "scopeApplication = 16"
definition scopeTargetTag :: int where "scopeTargetTag = 32"
definition scopeStep :: int where "scopeStep = 64"

lemmas scope_bits = scopeTenant_def scopeEnvironment_def scopeChannel_def scopeTarget_def
  scopeApplication_def scopeTargetTag_def scopeStep_def

record shape =
  shMask :: int
  shSource :: VariableResolutionSource
  shRank :: int

definition shapes :: "shape list" where
  "shapes =
     [\<lparr>shMask = scopeTenant OR scopeEnvironment OR scopeTarget OR scopeChannel OR scopeStep,
       shSource = VariableResolutionSourceExactTenantEnvironmentTargetChannelStep, shRank = 2\<rparr>,
      \<lparr>shMask = scopeTenant OR scopeEnvironment OR scopeTarget,
       shSource = VariableResolutionSourceExactTenantEnvironmentTarget, shRank = 3\<rparr>,
      \<lparr>shMask = scopeTenant OR scopeEnvironment OR scopeChannel,
       shSource = VariableResolutionSourceExactTenantEnvironmentChannel, shRank = 4\<rparr>,
      \<lparr>shMask = scopeTenant OR scopeEnvironment,
       shSource = VariableResolutionSourceExactTenantEnvironment, shRank = 5\<rparr>,
      \<lparr>shMask = scopeEnvironment OR scopeTargetTag,
       shSource = VariableResolutionSourceExactEnvironmentTargetTag, shRank = 6\<rparr>,
      \<lparr>shMask = scopeEnvironment, shSource = VariableResolutionSourceExactEnvironment, shRank = 7\<rparr>,
      \<lparr>shMask = scopeChannel, shSource = VariableResolutionSourceChannel, shRank = 8\<rparr>,
      \<lparr>shMask = scopeApplication, shSource = VariableResolutionSourceApplication, shRank = 9\<rparr>]"

definition Mask :: "VariableScope \<Rightarrow> int" where
  "Mask scope =
     (let mask = 0;
          mask = (if vsCustomerOrganizationID scope \<noteq> None then mask OR scopeTenant else mask);
          mask = (if vsEnvironmentID scope \<noteq> None then mask OR scopeEnvironment else mask);
          mask = (if vsChannelID scope \<noteq> None then mask OR scopeChannel else mask);
          mask = (if vsDeploymentTargetID scope \<noteq> None then mask OR scopeTarget else mask);
          mask = (if vsApplicationID scope \<noteq> None then mask OR scopeApplication else mask);
          mask = (if TrimSpace (vsTargetTag scope) \<noteq> [] then mask OR scopeTargetTag else mask);
          mask = (if TrimSpace (vsProcessStepKey scope) \<noteq> [] then mask OR scopeStep else mask)
      in mask)"

definition Source :: "VariableScope \<Rightarrow> (VariableResolutionSource \<times> int) option" where
  "Source scope =
     (case find (\<lambda>candidate. shMask candidate = Mask scope) shapes of
        None \<Rightarrow> None | Some candidate \<Rightarrow> Some (shSource candidate, shRank candidate))"

definition SupportedScope :: "VariableScope \<Rightarrow> bool" where
  "SupportedScope scope \<longleftrightarrow> Source scope \<noteq> None"

definition uuidScopeKey :: "(uuid \<Rightarrow> string) \<Rightarrow> uuid option \<Rightarrow> string" where
  "uuidScopeKey ustr u = (case u of None \<Rightarrow> [] | Some u \<Rightarrow> ustr u)"

definition scopeKey :: "(uuid \<Rightarrow> string) \<Rightarrow> VariableScope \<Rightarrow> string" where
  "scopeKey ustr scope =
     Join [uuidScopeKey ustr (vsCustomerOrganizationID scope), uuidScopeKey ustr (vsEnvironmentID scope),
           uuidScopeKey ustr (vsDeploymentTargetID scope), uuidScopeKey ustr (vsChannelID scope),
           uuidScopeKey ustr (vsApplicationID scope), TrimSpace (vsTargetTag scope),
           TrimSpace (vsProcessStepKey scope)] ''|''"

section \<open>Resolution\<close>

record ResolveRequest =
  rqVariables :: "Variable list"
  rqScope :: VariableResolutionScope
  rqPromptedValues :: "VariablePromptedValue list"

record candidate =
  caSource :: VariableResolutionSource
  caRank :: int
  caSortOrder :: int
  caScope :: VariableScope
  caValue :: RawMessage
  caReferenceID :: string
  caReferenceName :: string

definition emptyScope :: VariableScope where
  "emptyScope = \<lparr>vsCustomerOrganizationID = None, vsEnvironmentID = None, vsChannelID = None,
     vsDeploymentTargetID = None, vsApplicationID = None, vsTargetTag = [], vsProcessStepKey = []\<rparr>"

definition isReferenceVariableType :: "VariableType \<Rightarrow> bool" where
  "isReferenceVariableType ty \<longleftrightarrow> ty = VariableTypeSecretReference \<or> ty = VariableTypeAccountReference
     \<or> ty = VariableTypeCertificateReference"

definition hasRawJSONValue :: "RawMessage \<Rightarrow> bool" where
  "hasRawJSONValue raw =
     (let trimmed = TrimSpace (case raw of None \<Rightarrow> [] | Some s \<Rightarrow> s) in
      trimmed \<noteq> [] \<and> trimmed \<noteq> ''null'')"

definition hasResolutionDefault :: "Variable \<Rightarrow> bool" where
  "hasResolutionDefault variable =
     (if isReferenceVariableType (vaType variable) then TrimSpace (vaReferenceID variable) \<noteq> []
      else hasRawJSONValue (vaDefaultValue variable))"

definition uuidPtrMatches :: "uuid option \<Rightarrow> uuid option \<Rightarrow> bool" where
  "uuidPtrMatches v request = (case v of None \<Rightarrow> True | Some u \<Rightarrow> request = Some u)"

definition containsString :: "string list \<Rightarrow> string \<Rightarrow> bool" where
  "containsString values expected = list_ex (\<lambda>v. TrimSpace v = expected) values"

definition scopeMatches :: "VariableScope \<Rightarrow> VariableResolutionScope \<Rightarrow> bool" where
  "scopeMatches valueScope requestScope =
     (if \<not> uuidPtrMatches (vsCustomerOrganizationID valueScope) (rsCustomerOrganizationID requestScope) then False
      else if \<not> uuidPtrMatches (vsEnvironmentID valueScope) (rsEnvironmentID requestScope) then False
      else if \<not> uuidPtrMatches (vsChannelID valueScope) (rsChannelID requestScope) then False
      else if \<not> uuidPtrMatches (vsDeploymentTargetID valueScope) (rsDeploymentTargetID requestScope) then False
      else if \<not> uuidPtrMatches (vsApplicationID valueScope) (rsApplicationID requestScope) then False
      else if TrimSpace (vsProcessStepKey valueScope) \<noteq> []
           \<and> TrimSpace (vsProcessStepKey valueScope) \<noteq> TrimSpace (rsProcessStepKey requestScope) then False
      else let tag = TrimSpace (vsTargetTag valueScope) in
        \<not> (tag \<noteq> [] \<and> \<not> containsString (rsTargetTags requestScope) tag))"

text \<open>The values of the map point into the request's slice, whose keys have been trimmed.\<close>

fun promptedFrom :: "(string \<rightharpoonup> VariablePromptedValue) \<Rightarrow> VariablePromptedValue list \<Rightarrow>
    (string \<rightharpoonup> VariablePromptedValue) result" where
  "promptedFrom m [] = Inr m"
| "promptedFrom m (v # vs) =
     (let v = v\<lparr>pvKey := TrimSpace (pvKey v)\<rparr> in
      if pvKey v = [] then Inl (Errorf ''prompted variable key is required'')
      else if m (pvKey v) \<noteq> None then Inl (Errorf ''prompted variable keys must be unique'')
      else promptedFrom (m(pvKey v \<mapsto> v)) vs)"

definition promptedValuesByKey :: "VariablePromptedValue list \<Rightarrow> (string \<rightharpoonup> VariablePromptedValue) result" where
  "promptedValuesByKey values = promptedFrom Map.empty values"

definition scopedCandidates :: "VariableResolutionScope \<Rightarrow> VariableScopedValue list \<Rightarrow> candidate list" where
  "scopedCandidates scope svs =
     concat (map (\<lambda>sv.
       case Source (svScope sv) of
         None \<Rightarrow> []
       | Some (source, rank) \<Rightarrow>
           if \<not> scopeMatches (svScope sv) scope then []
           else [\<lparr>caSource = source, caRank = rank, caSortOrder = svSortOrder sv, caScope = svScope sv,
                  caValue = svValue sv, caReferenceID = svReferenceID sv,
                  caReferenceName = svReferenceName sv\<rparr>]) svs)"

definition candidatesFor ::
    "Variable \<Rightarrow> VariableResolutionScope \<Rightarrow> VariablePromptedValue option \<Rightarrow> candidate list" where
  "candidatesFor variable scope promptedValue =
     (case promptedValue of
        None \<Rightarrow> []
      | Some p \<Rightarrow> [\<lparr>caSource = VariableResolutionSourcePrompted, caRank = 1, caSortOrder = 0, caScope = emptyScope,
                    caValue = pvValue p, caReferenceID = pvReferenceID p, caReferenceName = pvReferenceName p\<rparr>])
     @ scopedCandidates scope (vaScopedValues variable)
     @ (if hasResolutionDefault variable
        then [\<lparr>caSource = VariableResolutionSourceDefault, caRank = 10, caSortOrder = 0, caScope = emptyScope,
               caValue = vaDefaultValue variable, caReferenceID = vaReferenceID variable,
               caReferenceName = vaReferenceName variable\<rparr>]
        else [])"

definition candidateLess :: "(uuid \<Rightarrow> string) \<Rightarrow> candidate \<Rightarrow> candidate \<Rightarrow> bool" where
  "candidateLess ustr a b =
     (if caRank a \<noteq> caRank b then caRank a < caRank b
      else if caSortOrder a \<noteq> caSortOrder b then caSortOrder a < caSortOrder b
      else scopeKey ustr (caScope a) < scopeKey ustr (caScope b))"

definition traceFromCandidates :: "candidate list \<Rightarrow> VariableResolutionTraceEntry list" where
  "traceFromCandidates candidates =
     map (\<lambda>(i, c). \<lparr>vtSource = caSource c, vtScope = caScope c, vtSelected = (i = 0),
                    vtReason = ''matched resolution scope''\<rparr>) (enumerate 0 candidates)"

definition resolveVariable ::
    "(uuid \<Rightarrow> string) \<Rightarrow> Variable \<Rightarrow> VariableResolutionScope \<Rightarrow> VariablePromptedValue option \<Rightarrow> ResolvedVariable" where
  "resolveVariable ustr variable scope promptedValue =
     (let candidates = SortStable (candidateLess ustr) (candidatesFor variable scope promptedValue);
          resolved = \<lparr>rvVariableSetID = vaVariableSetID variable, rvVariableID = vaID variable,
            rvKey = TrimSpace (vaKey variable), rvType = vaType variable, rvIsRequired = vaIsRequired variable,
            rvStatus = VariableResolutionStatusUnresolved, rvSource = VariableResolutionSourceUnresolved,
            rvValue = None, rvReferenceID = [], rvReferenceName = [], rvRedacted = False, rvTrace = []\<rparr> in
      case candidates of
        [] \<Rightarrow> resolved\<lparr>rvTrace := [\<lparr>vtSource = VariableResolutionSourceUnresolved, vtScope = emptyScope,
                 vtSelected = True, vtReason = ''no prompted, scoped, or default value matched''\<rparr>]\<rparr>
      | selected # _ \<Rightarrow>
          (let resolved = resolved\<lparr>rvStatus := VariableResolutionStatusResolved, rvSource := caSource selected,
                 rvReferenceID := caReferenceID selected, rvReferenceName := caReferenceName selected\<rparr>;
               resolved = (if vaType variable = VariableTypeSecretReference then resolved\<lparr>rvRedacted := True\<rparr>
                  else if \<not> isReferenceVariableType (vaType variable) then resolved\<lparr>rvValue := caValue selected\<rparr>
                  else resolved)
           in resolved\<lparr>rvTrace := traceFromCandidates candidates\<rparr>))"

definition Resolve :: "(uuid \<Rightarrow> string) \<Rightarrow> ResolveRequest \<Rightarrow> ResolvedVariable list result" where
  "Resolve ustr request =
     bindR (promptedValuesByKey (rqPromptedValues request)) (\<lambda>prompted.
       Inr (map (\<lambda>variable. resolveVariable ustr variable (rqScope request) (prompted (TrimSpace (vaKey variable))))
              (rqVariables request)))"

end
