(* ===== verification/Variable_Sets.thy ===== *)
theory Variable_Sets
  imports Variable_Resolution
begin

text \<open>
  The validation of variable sets before they are stored (internal/db/variable_sets.go) and what it
  guarantees the resolution. The JSON decoder, the range check of numbers and \<open>uuid.Parse\<close> are
  arguments (\<open>jsonLib\<close>); \<open>jlDecode\<close> is one call of \<open>Decode\<close>: a value with the rest of the input, the
  end of the input, or another error.
\<close>

section \<open>Stored values\<close>

datatype decodeResult = Decoded json string | DecodeEOF | DecodeError

record jsonLib =
  jlDecode :: "string \<Rightarrow> decodeResult"
  jlFloat64 :: "string \<Rightarrow> bool"
  jlUuidParse :: "string \<Rightarrow> uuid option"

abbreviation badVariable :: error where
  "badVariable \<equiv> ErrBadRequest ''could not normalize Variable''"
abbreviation badScopedValue :: error where
  "badScopedValue \<equiv> ErrBadRequest ''could not normalize VariableScopedValue''"
abbreviation badValue :: error where
  "badValue \<equiv> ErrBadRequest ''could not normalize Variable value''"
abbreviation badSet :: error where
  "badSet \<equiv> ErrBadRequest ''could not normalize VariableSet''"

record VariableSet =
  vsetID :: uuid
  vsetCreatedAt :: timestamp
  vsetUpdatedAt :: timestamp
  vsetOrganizationID :: uuid
  vsetName :: string
  vsetDescription :: string
  vsetSortOrder :: int
  vsetApplicationIDs :: "uuid list"
  vsetVariables :: "Variable list"

definition hasVariableJSONValue :: "RawMessage \<Rightarrow> bool" where
  "hasVariableJSONValue raw =
     (let trimmed = TrimSpace (case raw of None \<Rightarrow> [] | Some s \<Rightarrow> s) in
      trimmed \<noteq> [] \<and> trimmed \<noteq> ''null'')"

definition decodeVariableJSONValue :: "jsonLib \<Rightarrow> RawMessage \<Rightarrow> json result" where
  "decodeVariableJSONValue J raw =
     (case jlDecode J (case raw of None \<Rightarrow> [] | Some s \<Rightarrow> s) of
        DecodeEOF \<Rightarrow> Inl (Errorf ''EOF'')
      | DecodeError \<Rightarrow> Inl (Errorf ''invalid JSON'')
      | Decoded v rest \<Rightarrow>
          (case jlDecode J rest of
             Decoded _ _ \<Rightarrow> Inl (Errorf ''defaultValue must contain one JSON value'')
           | DecodeError \<Rightarrow> Inl (Errorf ''invalid JSON'')
           | DecodeEOF \<Rightarrow> Inr v))"

definition isKnownVariableType :: "VariableType \<Rightarrow> bool" where
  "isKnownVariableType ty = (case ty of VariableTypeOther _ \<Rightarrow> False | _ \<Rightarrow> True)"

text \<open>The type switch that \<open>normalizeValueVariable\<close> and \<open>validateValueForVariableType\<close> share.\<close>

definition valueHasType :: "jsonLib \<Rightarrow> VariableType \<Rightarrow> json \<Rightarrow> bool" where
  "valueHasType J ty v =
     (case ty of
        VariableTypeString \<Rightarrow> (case v of JString _ \<Rightarrow> True | _ \<Rightarrow> False)
      | VariableTypeNumber \<Rightarrow> (case v of JNumber n \<Rightarrow> jlFloat64 J n | _ \<Rightarrow> False)
      | VariableTypeBoolean \<Rightarrow> (case v of JBool _ \<Rightarrow> True | _ \<Rightarrow> False)
      | VariableTypeJSON \<Rightarrow> v \<noteq> JNull
      | _ \<Rightarrow> True)"

definition validateValueForVariableType :: "jsonLib \<Rightarrow> VariableType \<Rightarrow> RawMessage \<Rightarrow> unit result" where
  "validateValueForVariableType J ty raw =
     (case decodeVariableJSONValue J raw of
        Inl _ \<Rightarrow> Inl badValue
      | Inr v \<Rightarrow> if valueHasType J ty v then Inr () else Inl badValue)"

definition normalizeValueVariable :: "jsonLib \<Rightarrow> Variable \<Rightarrow> Variable result" where
  "normalizeValueVariable J variable =
     (if vaReferenceID variable \<noteq> [] \<or> vaReferenceName variable \<noteq> [] then Inl badVariable
      else if \<not> hasVariableJSONValue (vaDefaultValue variable) then
        (if vaIsRequired variable then Inr (variable\<lparr>vaDefaultValue := None\<rparr>) else Inl badVariable)
      else case decodeVariableJSONValue J (vaDefaultValue variable) of
        Inl _ \<Rightarrow> Inl badVariable
      | Inr v \<Rightarrow> if valueHasType J (vaType variable) v then Inr variable else Inl badVariable)"

definition normalizeReferenceVariable :: "jsonLib \<Rightarrow> Variable \<Rightarrow> Variable result" where
  "normalizeReferenceVariable J variable =
     (let variable = variable\<lparr>vaDefaultValue := None\<rparr> in
      if vaReferenceID variable = [] then (if vaIsRequired variable then Inr variable else Inl badVariable)
      else case jlUuidParse J (vaReferenceID variable) of
        None \<Rightarrow> Inl badVariable
      | Some i \<Rightarrow>
          if i = uuid_Nil then Inl badVariable
          else if vaType variable \<noteq> VariableTypeSecretReference \<and> vaReferenceName variable = [] then Inl badVariable
          else Inr variable)"

definition normalizeScopedValue :: "jsonLib \<Rightarrow> VariableType \<Rightarrow> VariableScopedValue \<Rightarrow> VariableScopedValue result" where
  "normalizeScopedValue J ty sv =
     (let scope = svScope sv;
          sv = sv\<lparr>svScope := scope\<lparr>vsTargetTag := TrimSpace (vsTargetTag scope),
                                    vsProcessStepKey := TrimSpace (vsProcessStepKey scope)\<rparr>,
                  svReferenceID := TrimSpace (svReferenceID sv), svReferenceName := TrimSpace (svReferenceName sv)\<rparr>
      in if svSortOrder sv < 0 \<or> \<not> SupportedScope (svScope sv) then Inl badScopedValue
      else if isReferenceVariableType ty then
        (if hasVariableJSONValue (svValue sv) then Inl badScopedValue
         else let sv = sv\<lparr>svValue := None\<rparr> in
           if svReferenceID sv = [] then Inl badScopedValue
           else case jlUuidParse J (svReferenceID sv) of
             None \<Rightarrow> Inl badScopedValue
           | Some i \<Rightarrow>
               if i = uuid_Nil then Inl badScopedValue
               else if ty \<noteq> VariableTypeSecretReference \<and> svReferenceName sv = [] then Inl badScopedValue
               else Inr sv)
      else if svReferenceID sv \<noteq> [] \<or> svReferenceName sv \<noteq> [] then Inl badScopedValue
      else if \<not> hasVariableJSONValue (svValue sv) then Inl badScopedValue
      else bindR (validateValueForVariableType J ty (svValue sv)) (\<lambda>_. Inr sv))"

text \<open>\<open>seen\<close>: the keys of the scopes so far.\<close>

fun normalizeScopedValues ::
    "jsonLib \<Rightarrow> (uuid \<Rightarrow> string) \<Rightarrow> VariableType \<Rightarrow> string list \<Rightarrow> VariableScopedValue list \<Rightarrow> VariableScopedValue list result" where
  "normalizeScopedValues J ustr ty seen [] = Inr []"
| "normalizeScopedValues J ustr ty seen (sv # svs) =
     bindR (normalizeScopedValue J ty sv) (\<lambda>sv.
       let key = scopeKey ustr (svScope sv) in
       if key \<in> set seen then Inl badScopedValue
       else bindR (normalizeScopedValues J ustr ty (key # seen) svs) (\<lambda>svs. Inr (sv # svs)))"

definition normalizeVariable :: "jsonLib \<Rightarrow> (uuid \<Rightarrow> string) \<Rightarrow> Variable \<Rightarrow> Variable result" where
  "normalizeVariable J ustr variable =
     (let variable = variable\<lparr>vaKey := TrimSpace (vaKey variable), vaReferenceID := TrimSpace (vaReferenceID variable),
            vaReferenceName := TrimSpace (vaReferenceName variable)\<rparr> in
      if vaKey variable = [] \<or> \<not> isKnownVariableType (vaType variable) then Inl badVariable
      else bindR (if isReferenceVariableType (vaType variable) then normalizeReferenceVariable J variable
                  else normalizeValueVariable J variable) (\<lambda>variable.
        bindR (normalizeScopedValues J ustr (vaType variable) [] (vaScopedValues variable)) (\<lambda>svs.
          Inr (variable\<lparr>vaScopedValues := svs\<rparr>))))"

fun normalizeVariables :: "jsonLib \<Rightarrow> (uuid \<Rightarrow> string) \<Rightarrow> string list \<Rightarrow> Variable list \<Rightarrow> Variable list result" where
  "normalizeVariables J ustr seen [] = Inr []"
| "normalizeVariables J ustr seen (v # vs) =
     bindR (normalizeVariable J ustr v) (\<lambda>v.
       if vaKey v \<in> set seen then Inl badSet
       else bindR (normalizeVariables J ustr (vaKey v # seen) vs) (\<lambda>vs. Inr (v # vs)))"

fun checkApplicationIDs :: "uuid list \<Rightarrow> uuid list \<Rightarrow> bool" where
  "checkApplicationIDs seen [] = True"
| "checkApplicationIDs seen (a # as) =
     (if a = uuid_Nil then False else if a \<in> set seen then False else checkApplicationIDs (a # seen) as)"

definition normalizeVariableSet :: "jsonLib \<Rightarrow> (uuid \<Rightarrow> string) \<Rightarrow> VariableSet \<Rightarrow> VariableSet result" where
  "normalizeVariableSet J ustr vset =
     (let vset = vset\<lparr>vsetName := TrimSpace (vsetName vset)\<rparr> in
      if vsetName vset = [] then Inl badSet
      else if vsetSortOrder vset < 0 then Inl badSet
      else if \<not> checkApplicationIDs [] (vsetApplicationIDs vset) then Inl badSet
      else bindR (normalizeVariables J ustr [] (vsetVariables vset)) (\<lambda>vs. Inr (vset\<lparr>vsetVariables := vs\<rparr>)))"

section \<open>The order of candidates\<close>

interpretation candidates: weak_order "candidateLess ustr" for ustr
proof
  show "candidateLess ustr a b \<Longrightarrow> \<not> candidateLess ustr b a" for a b
    by (auto simp: candidateLess_def split: if_splits)
  show "\<not> candidateLess ustr a b \<Longrightarrow> \<not> candidateLess ustr b c \<Longrightarrow> \<not> candidateLess ustr a c" for a b c
    by (auto simp: candidateLess_def split: if_splits)
qed

lemma candidates_equiv:
  "candidates.equivG ustr a b \<longleftrightarrow> caRank a = caRank b \<and> caSortOrder a = caSortOrder b
     \<and> scopeKey ustr (caScope a) = scopeKey ustr (caScope b)"
  by (auto simp: candidates.equivG_def candidateLess_def split: if_splits)

lemma Source_rank:
  "Source scope = Some (source, rank) \<Longrightarrow> 2 \<le> rank \<and> rank \<le> 9 \<and> source \<noteq> VariableResolutionSourcePrompted
     \<and> source \<noteq> VariableResolutionSourceDefault \<and> source \<noteq> VariableResolutionSourceUnresolved"
  by (auto simp: Source_def shapes_def split: if_splits)

text \<open>The scoped values that a request can use.\<close>

definition applicable :: "VariableResolutionScope \<Rightarrow> VariableScopedValue \<Rightarrow> bool" where
  "applicable scope sv \<longleftrightarrow> SupportedScope (svScope sv) \<and> scopeMatches (svScope sv) scope"

definition candidateOf :: "VariableScopedValue \<Rightarrow> candidate" where
  "candidateOf sv = \<lparr>caSource = fst (the (Source (svScope sv))), caRank = snd (the (Source (svScope sv))),
     caSortOrder = svSortOrder sv, caScope = svScope sv, caValue = svValue sv,
     caReferenceID = svReferenceID sv, caReferenceName = svReferenceName sv\<rparr>"

lemma scopedCandidates_applicable:
  "scopedCandidates scope svs = map candidateOf (filter (applicable scope) svs)"
  by (induction svs)
    (auto simp: scopedCandidates_def applicable_def SupportedScope_def candidateOf_def split: option.splits)

definition promptedCandidate :: "VariablePromptedValue \<Rightarrow> candidate" where
  "promptedCandidate p = \<lparr>caSource = VariableResolutionSourcePrompted, caRank = 1, caSortOrder = 0, caScope = emptyScope,
     caValue = pvValue p, caReferenceID = pvReferenceID p, caReferenceName = pvReferenceName p\<rparr>"

definition defaultCandidate :: "Variable \<Rightarrow> candidate" where
  "defaultCandidate v = \<lparr>caSource = VariableResolutionSourceDefault, caRank = 10, caSortOrder = 0, caScope = emptyScope,
     caValue = vaDefaultValue v, caReferenceID = vaReferenceID v, caReferenceName = vaReferenceName v\<rparr>"

lemma candidatesFor_split:
  "candidatesFor v scope p = (case p of None \<Rightarrow> [] | Some q \<Rightarrow> [promptedCandidate q])
     @ map candidateOf (filter (applicable scope) (vaScopedValues v))
     @ (if hasResolutionDefault v then [defaultCandidate v] else [])"
  by (simp add: candidatesFor_def scopedCandidates_applicable promptedCandidate_def defaultCandidate_def
      split: option.split)

lemma candidateOf_rank:
  assumes "applicable scope sv"
  shows "2 \<le> caRank (candidateOf sv) \<and> caRank (candidateOf sv) \<le> 9"
    and "Source (svScope sv) = Some (caSource (candidateOf sv), caRank (candidateOf sv))"
proof -
  obtain source rank where "Source (svScope sv) = Some (source, rank)"
    using assms by (auto simp: applicable_def SupportedScope_def)
  with Source_rank [OF this] show "2 \<le> caRank (candidateOf sv) \<and> caRank (candidateOf sv) \<le> 9"
    and "Source (svScope sv) = Some (caSource (candidateOf sv), caRank (candidateOf sv))"
    by (simp_all add: candidateOf_def)
qed

text \<open>What the resolution shows of the candidate it selects.\<close>

definition resolvesTo :: "Variable \<Rightarrow> ResolvedVariable \<Rightarrow> candidate \<Rightarrow> bool" where
  "resolvesTo v r c \<longleftrightarrow> rvStatus r = VariableResolutionStatusResolved \<and> rvSource r = caSource c
     \<and> rvReferenceID r = caReferenceID c \<and> rvReferenceName r = caReferenceName c
     \<and> rvValue r = (if isReferenceVariableType (vaType v) then None else caValue c)
     \<and> rvRedacted r = (vaType v = VariableTypeSecretReference)"

lemma resolveVariable_selects:
  assumes "candidatesFor v scope p \<noteq> []"
  obtains c where "c \<in> set (candidatesFor v scope p)" "resolvesTo v (resolveVariable ustr v scope p) c"
    "\<And>d. d \<in> set (candidatesFor v scope p) \<Longrightarrow> \<not> candidateLess ustr d c"
proof -
  let ?cs = "candidatesFor v scope p"
  obtain c cs where cs: "SortStable (candidateLess ustr) ?cs = c # cs"
    using assms by (cases "SortStable (candidateLess ustr) ?cs") auto
  have "c \<in> set ?cs" using set_SortStable [of "candidateLess ustr" ?cs] cs by auto
  moreover have "resolvesTo v (resolveVariable ustr v scope p) c"
    by (auto simp: resolveVariable_def cs resolvesTo_def Let_def isReferenceVariableType_def)
  moreover have "\<not> candidateLess ustr d c" if "d \<in> set ?cs" for d
    using candidates.hd_SortStable_least [OF that, of ustr] cs by simp
  ultimately show thesis by (rule that)
qed

lemma resolveVariable_none:
  "candidatesFor v scope p = [] \<Longrightarrow>
     rvStatus (resolveVariable ustr v scope p) = VariableResolutionStatusUnresolved"
  by (simp add: resolveVariable_def)


text \<open>A variable with a default, a value for an environment and one for a customer in it.\<close>

definition exUuid :: "uuid \<Rightarrow> string" where
  "exUuid u = itoa (unat u)"

definition exScope :: "uuid option \<Rightarrow> uuid option \<Rightarrow> VariableScope" where
  "exScope customer environment = emptyScope\<lparr>vsCustomerOrganizationID := customer, vsEnvironmentID := environment\<rparr>"

definition exScopedValue :: "VariableScope \<Rightarrow> string \<Rightarrow> VariableScopedValue" where
  "exScopedValue scope v = \<lparr>svID = 1, svCreatedAt = 0, svUpdatedAt = 0, svOrganizationID = 1, svVariableSetID = 2,
     svVariableID = 3, svScope = scope, svSortOrder = 0, svValue = Some v, svReferenceID = [], svReferenceName = []\<rparr>"

definition exVariable :: Variable where
  "exVariable = \<lparr>vaID = 3, vaCreatedAt = 0, vaUpdatedAt = 0, vaOrganizationID = 1, vaVariableSetID = 2, vaKey = ''K'',
     vaDescription = [], vaType = VariableTypeJSON, vaIsRequired = False, vaDefaultValue = Some ''0'',
     vaReferenceID = [], vaReferenceName = [],
     vaScopedValues = [exScopedValue (exScope None (Some 6)) ''1'', exScopedValue (exScope (Some 9) (Some 6)) ''2'']\<rparr>"

definition exRequestScope :: VariableResolutionScope where
  "exRequestScope = \<lparr>rsCustomerOrganizationID = Some 9, rsEnvironmentID = Some 6, rsChannelID = None,
     rsDeploymentTargetID = None, rsApplicationID = None, rsTargetTags = [], rsProcessStepKey = []\<rparr>"


section \<open>Normalized variables\<close>

lemma normalizeScopedValue_supported:
  "normalizeScopedValue J ty sv = Inr sv' \<Longrightarrow> SupportedScope (svScope sv')"
  by (auto simp: normalizeScopedValue_def Let_def bindR_eq_Inr split: if_splits option.splits)

lemma normalizeScopedValues_distinct:
  assumes "normalizeScopedValues J ustr ty seen svs = Inr svs'"
  shows "distinct (map (\<lambda>sv. scopeKey ustr (svScope sv)) svs')
     \<and> (\<forall>sv \<in> set svs'. scopeKey ustr (svScope sv) \<notin> set seen \<and> SupportedScope (svScope sv))"
  using assms
proof (induction svs arbitrary: seen svs')
  case (Cons sv svs)
  then show ?case
    by (fastforce simp: bindR_eq_Inr Let_def split: if_splits dest: normalizeScopedValue_supported)
qed simp

lemma normalizeVariable_facts:
  assumes "normalizeVariable J ustr v = Inr v'"
  shows "distinct (map (\<lambda>sv. scopeKey ustr (svScope sv)) (vaScopedValues v'))"
    and "sv \<in> set (vaScopedValues v') \<Longrightarrow> SupportedScope (svScope sv)"
    and "vaIsRequired v' \<or> hasResolutionDefault v'"
proof -
  define v1 where "v1 = v\<lparr>vaKey := TrimSpace (vaKey v), vaReferenceID := TrimSpace (vaReferenceID v),
     vaReferenceName := TrimSpace (vaReferenceName v)\<rparr>"
  obtain v2 svs where v2: "(if isReferenceVariableType (vaType v1) then normalizeReferenceVariable J v1
        else normalizeValueVariable J v1) = Inr v2"
    and svs: "normalizeScopedValues J ustr (vaType v2) [] (vaScopedValues v2) = Inr svs"
    and v': "v' = v2\<lparr>vaScopedValues := svs\<rparr>"
    using assms unfolding normalizeVariable_def Let_def v1_def [symmetric]
    by (auto simp: bindR_eq_Inr split: if_splits)
  note d = normalizeScopedValues_distinct [OF svs]
  show "distinct (map (\<lambda>sv. scopeKey ustr (svScope sv)) (vaScopedValues v'))"
    and "sv \<in> set (vaScopedValues v') \<Longrightarrow> SupportedScope (svScope sv)"
    using d by (auto simp: v')
  have "TrimSpace (vaReferenceID v1) = vaReferenceID v1" by (simp add: v1_def)
  then have "vaIsRequired v2 \<or> hasResolutionDefault v2"
    using v2 by (auto simp: normalizeReferenceVariable_def normalizeValueVariable_def hasResolutionDefault_def
        hasVariableJSONValue_def hasRawJSONValue_def Let_def split: if_splits option.splits sum.splits)
  then show "vaIsRequired v' \<or> hasResolutionDefault v'"
    by (auto simp: v' hasResolutionDefault_def split: if_splits)
qed

lemma normalizeVariables_in:
  "normalizeVariables J ustr seen vs = Inr vs' \<Longrightarrow> v' \<in> set vs' \<Longrightarrow> \<exists>v. normalizeVariable J ustr v = Inr v'"
  by (induction vs arbitrary: seen vs') (auto simp: bindR_eq_Inr split: if_splits)

lemma resolveVariable_mset:
  assumes "distinct (map (\<lambda>sv. scopeKey ustr (svScope sv)) (vaScopedValues v))"
    and "mset svs = mset (vaScopedValues v)"
  shows "resolveVariable ustr (v\<lparr>vaScopedValues := svs\<rparr>) scope p = resolveVariable ustr v scope p"
proof -
  let ?v = "v\<lparr>vaScopedValues := svs\<rparr>"
  have "SortStable (candidateLess ustr) (candidatesFor v scope p)
      = SortStable (candidateLess ustr) (candidatesFor ?v scope p)"
  proof (rule candidates.SortStable_mset_cong)
    show "mset (candidatesFor v scope p) = mset (candidatesFor ?v scope p)"
      using assms(2) by (simp add: candidatesFor_split hasResolutionDefault_def defaultCandidate_def split: option.split)
    fix x y assume xy: "x \<in> set (candidatesFor v scope p)" "y \<in> set (candidatesFor v scope p)"
      and eq: "candidates.equivG ustr x y"
    have scoped: "sv = sv'" if "sv \<in> set (vaScopedValues v)" "sv' \<in> set (vaScopedValues v)"
        "scopeKey ustr (svScope sv) = scopeKey ustr (svScope sv')" for sv sv'
      using assms(1) that by (auto simp: distinct_map inj_on_def)
    have kinds: "c = defaultCandidate v \<and> caRank c = 10
         \<or> (\<exists>q. p = Some q \<and> c = promptedCandidate q) \<and> caRank c = 1
         \<or> (\<exists>sv \<in> set (vaScopedValues v). c = candidateOf sv \<and> caScope c = svScope sv) \<and> 2 \<le> caRank c \<and> caRank c \<le> 9"
      if "c \<in> set (candidatesFor v scope p)" for c
      using that candidateOf_rank(1) [of scope]
      by (auto simp: candidatesFor_split defaultCandidate_def promptedCandidate_def candidateOf_def
          split: option.splits if_splits)
    have "caRank x = caRank y" "scopeKey ustr (caScope x) = scopeKey ustr (caScope y)"
      using eq by (simp_all add: candidates_equiv)
    with kinds [OF xy(1)] kinds [OF xy(2)] show "x = y"
      by (elim disjE conjE exE bexE) (simp_all, metis scoped)
  qed
  then show ?thesis by (simp add: resolveVariable_def Let_def cong: if_cong split: list.split)
qed

text \<open>Once a variable set has passed the normalization that guards its storage, the resolution of its
  variables depends neither on the order in which the scoped values are stored or read, nor is
  any optional variable ever left unresolved, and no scoped value is silently skipped for an unknown shape
  of its scope.\<close>

theorem normalized_variables_resolve:
  assumes "normalizeVariableSet J ustr vset = Inr vset'" and v: "v \<in> set (vsetVariables vset')"
  shows "(\<forall>svs. mset svs = mset (vaScopedValues v) \<longrightarrow>
            resolveVariable ustr (v\<lparr>vaScopedValues := svs\<rparr>) scope p = resolveVariable ustr v scope p)
     \<and> (rvStatus (resolveVariable ustr v scope p) = VariableResolutionStatusUnresolved \<longrightarrow> vaIsRequired v)
     \<and> (\<forall>sv \<in> set (vaScopedValues v). Source (svScope sv) \<noteq> None)"
proof -
  have "normalizeVariables J ustr [] (vsetVariables vset) = Inr (vsetVariables vset')"
    using assms(1) by (auto simp: normalizeVariableSet_def Let_def bindR_eq_Inr split: if_splits)
  from normalizeVariables_in [OF this v] obtain v0 where v0: "normalizeVariable J ustr v0 = Inr v" by blast
  note facts = normalizeVariable_facts [OF v0]
  have "vaIsRequired v" if u: "rvStatus (resolveVariable ustr v scope p) = VariableResolutionStatusUnresolved"
  proof (rule ccontr)
    assume "\<not> vaIsRequired v"
    then have "candidatesFor v scope p \<noteq> []" using facts(3) by (simp add: candidatesFor_split)
    then obtain c where "resolvesTo v (resolveVariable ustr v scope p) c" by (rule resolveVariable_selects)
    then show False using u by (simp add: resolvesTo_def)
  qed
  then show ?thesis using resolveVariable_mset [OF facts(1)] facts(2) by (auto simp: SupportedScope_def)
qed

definition exJson :: jsonLib where
  "exJson = \<lparr>jlDecode = (\<lambda>s. if s = [] then DecodeEOF else Decoded (JNumber s) []), jlFloat64 = (\<lambda>_. True),
     jlUuidParse = (\<lambda>_. None)\<rparr>"

definition exSet :: VariableSet where
  "exSet = \<lparr>vsetID = 2, vsetCreatedAt = 0, vsetUpdatedAt = 0, vsetOrganizationID = 1, vsetName = '' S '',
     vsetDescription = [], vsetSortOrder = 0, vsetApplicationIDs = [4], vsetVariables = [exVariable]\<rparr>"

lemma exSet_normalized:
  "normalizeVariableSet exJson exUuid exSet = Inr (exSet\<lparr>vsetName := ''S''\<rparr>)"
  by code_simp

theorem normalized_variables_resolve_witness:
  "resolveVariable exUuid (exVariable\<lparr>vaScopedValues := rev (vaScopedValues exVariable)\<rparr>) exRequestScope None
     = resolveVariable exUuid exVariable exRequestScope None"
proof -
  have "exVariable \<in> set (vsetVariables (exSet\<lparr>vsetName := ''S''\<rparr>))" by (simp add: exSet_def)
  from normalized_variables_resolve [OF exSet_normalized this] show ?thesis by simp
qed

section \<open>Keys of scopes\<close>

lemma trimmed_scope:
  "Mask (s\<lparr>vsTargetTag := TrimSpace (vsTargetTag s), vsProcessStepKey := TrimSpace (vsProcessStepKey s)\<rparr>) = Mask s"
  by (simp add: Mask_def)

lemma SupportedScope_shapes:
  assumes "SupportedScope s"
  shows "(TrimSpace (vsProcessStepKey s) \<noteq> [] \<longleftrightarrow> vsCustomerOrganizationID s \<noteq> None \<and> vsEnvironmentID s \<noteq> None
            \<and> vsChannelID s \<noteq> None \<and> vsDeploymentTargetID s \<noteq> None)
     \<and> (TrimSpace (vsTargetTag s) \<noteq> [] \<longrightarrow> TrimSpace (vsProcessStepKey s) = [])"
  using assms
  by (cases "vsCustomerOrganizationID s = None"; cases "vsEnvironmentID s = None"; cases "vsChannelID s = None";
      cases "vsDeploymentTargetID s = None"; cases "vsApplicationID s = None";
      cases "TrimSpace (vsTargetTag s) = []"; cases "TrimSpace (vsProcessStepKey s) = []")
    (simp_all add: SupportedScope_def Source_def Mask_def shapes_def scope_bits Let_def)

lemma uuidScopeKey_inj:
  assumes "inj ustr" "\<And>u. ustr u \<noteq> []" "uuidScopeKey ustr a = uuidScopeKey ustr b"
  shows "a = b"
  using assms(1) assms(2) assms(2) [THEN not_sym] assms(3) by (cases a; cases b) (auto simp: uuidScopeKey_def dest: injD)

text \<open>The key of a scope identifies it. Two supported scopes have the same key only if they are the same
  up to white space around the tag and the step key, although the tag may itself contain the separator:
  the check for duplicates in a variable set rejects no set whose scopes differ.\<close>

theorem scope_key_identifies_scope:
  assumes ustr: "inj ustr" "\<forall>u. ustr u \<noteq> [] \<and> CHR ''|'' \<notin> set (ustr u)"
    and "SupportedScope a" "SupportedScope b" and key: "scopeKey ustr a = scopeKey ustr b"
  shows "a\<lparr>vsTargetTag := TrimSpace (vsTargetTag a), vsProcessStepKey := TrimSpace (vsProcessStepKey a)\<rparr>
       = b\<lparr>vsTargetTag := TrimSpace (vsTargetTag b), vsProcessStepKey := TrimSpace (vsProcessStepKey b)\<rparr>"
proof -
  let ?k = "uuidScopeKey ustr"
  have free: "CHR ''|'' \<notin> set (?k u)" for u using ustr(2) by (simp add: uuidScopeKey_def split: option.split)
  note inj = uuidScopeKey_inj [OF ustr(1), of a for a]
  have k: "scopeKey ustr s = ?k (vsCustomerOrganizationID s) @ CHR ''|'' # ?k (vsEnvironmentID s) @ CHR ''|'' #
      ?k (vsDeploymentTargetID s) @ CHR ''|'' # ?k (vsChannelID s) @ CHR ''|'' # ?k (vsApplicationID s) @ CHR ''|'' #
      TrimSpace (vsTargetTag s) @ CHR ''|'' # TrimSpace (vsProcessStepKey s)" for s
    by (simp add: scopeKey_def)
  note e1 = append_sep_eq [OF key [unfolded k] free free]
  note e2 = append_sep_eq [OF conjunct2 [OF e1] free free]
  note e3 = append_sep_eq [OF conjunct2 [OF e2] free free]
  note e4 = append_sep_eq [OF conjunct2 [OF e3] free free]
  note e5 = append_sep_eq [OF conjunct2 [OF e4] free free]
  have ids: "vsCustomerOrganizationID a = vsCustomerOrganizationID b" "vsEnvironmentID a = vsEnvironmentID b"
      "vsDeploymentTargetID a = vsDeploymentTargetID b" "vsChannelID a = vsChannelID b"
      "vsApplicationID a = vsApplicationID b"
    using uuidScopeKey_inj [OF ustr(1)] ustr(2) e1 e2 e3 e4 e5 by blast+
  have rest: "TrimSpace (vsTargetTag a) @ CHR ''|'' # TrimSpace (vsProcessStepKey a)
      = TrimSpace (vsTargetTag b) @ CHR ''|'' # TrimSpace (vsProcessStepKey b)"
    using conjunct2 [OF e5] .
  have "TrimSpace (vsTargetTag a) = TrimSpace (vsTargetTag b)
      \<and> TrimSpace (vsProcessStepKey a) = TrimSpace (vsProcessStepKey b)"
  proof (cases "TrimSpace (vsProcessStepKey a) = []")
    case True
    moreover have "TrimSpace (vsProcessStepKey b) = []"
    proof (rule ccontr)
      assume "TrimSpace (vsProcessStepKey b) \<noteq> []"
      with SupportedScope_shapes [OF assms(4)] have "TrimSpace (vsProcessStepKey a) \<noteq> []"
        using SupportedScope_shapes [OF assms(3)] ids by simp
      with True show False by simp
    qed
    ultimately show ?thesis using rest by simp
  next
    case False
    moreover have "TrimSpace (vsProcessStepKey b) \<noteq> []"
      using False SupportedScope_shapes [OF assms(3)] SupportedScope_shapes [OF assms(4)] ids by simp
    ultimately show ?thesis
      using rest SupportedScope_shapes [OF assms(3)] SupportedScope_shapes [OF assms(4)] by auto
  qed
  then show ?thesis using ids by simp
qed

theorem scope_key_identifies_scope_witness:
  "exScope (Some 9) (Some 6) = (exScope (Some 9) (Some 6))\<lparr>vsTargetTag := []\<rparr>
   \<and> TrimSpace (vsTargetTag ((exScope None (Some 6))\<lparr>vsTargetTag := '' a|b''\<rparr>)) = ''a|b''"
proof -
  let ?a = "(exScope None (Some 6))\<lparr>vsTargetTag := '' a|b''\<rparr>"
  let ?b = "(exScope None (Some 6))\<lparr>vsTargetTag := ''a|b''\<rparr>"
  have "inj exUuid"
    by (rule injI) (auto simp: exUuid_def dest!: itoa_inj simp: unsigned_word_eqI)
  moreover have "\<forall>u. exUuid u \<noteq> [] \<and> CHR ''|'' \<notin> set (exUuid u)"
  proof
    fix u
    have "itoa n \<noteq> []" for n by (subst itoa.simps) simp
    moreover have "CHR ''|'' \<notin> set (itoa n)" for n using itoa_digits [of "CHR ''|''" n] by auto
    ultimately show "exUuid u \<noteq> [] \<and> CHR ''|'' \<notin> set (exUuid u)" by (simp add: exUuid_def)
  qed
  moreover have "SupportedScope ?a" "SupportedScope ?b" "scopeKey exUuid ?a = scopeKey exUuid ?b" by code_simp+
  ultimately have "?a\<lparr>vsTargetTag := TrimSpace (vsTargetTag ?a), vsProcessStepKey := TrimSpace (vsProcessStepKey ?a)\<rparr>
       = ?b\<lparr>vsTargetTag := TrimSpace (vsTargetTag ?b), vsProcessStepKey := TrimSpace (vsProcessStepKey ?b)\<rparr>"
    by (rule scope_key_identifies_scope)
  then have "TrimSpace (vsTargetTag ?a) = TrimSpace ''a|b''" by (simp add: exScope_def emptyScope_def)
  moreover have "TrimSpace ''a|b'' = ''a|b''" by code_simp
  ultimately show ?thesis by (simp add: exScope_def emptyScope_def)
qed

section \<open>Normal forms\<close>

definition trimScopedValue :: "VariableScopedValue \<Rightarrow> VariableScopedValue" where
  "trimScopedValue sv = sv\<lparr>svScope := (svScope sv)\<lparr>vsTargetTag := TrimSpace (vsTargetTag (svScope sv)),
       vsProcessStepKey := TrimSpace (vsProcessStepKey (svScope sv))\<rparr>,
     svReferenceID := TrimSpace (svReferenceID sv), svReferenceName := TrimSpace (svReferenceName sv)\<rparr>"

lemma trimScopedValue_idem: "trimScopedValue (trimScopedValue sv) = trimScopedValue sv"
  by (simp add: trimScopedValue_def)

lemma trimScopedValue_value: "trimScopedValue (sv\<lparr>svValue := x\<rparr>) = (trimScopedValue sv)\<lparr>svValue := x\<rparr>"
  by (simp add: trimScopedValue_def)

lemma normalizeScopedValue_idem:
  assumes "normalizeScopedValue J ty sv = Inr sv'"
  shows "normalizeScopedValue J ty sv' = Inr sv'"
proof -
  define sv1 where "sv1 = trimScopedValue sv"
  have trim: "trimScopedValue sv1 = sv1" by (simp add: sv1_def trimScopedValue_idem)
  note unf = normalizeScopedValue_def [unfolded Let_def, folded trimScopedValue_def]
  have ok: "\<not> (svSortOrder sv1 < 0 \<or> \<not> SupportedScope (svScope sv1))"
    using assms unfolding unf sv1_def [symmetric] by (auto split: if_splits)
  show ?thesis
  proof (cases "isReferenceVariableType ty")
    case True
    then have "sv' = sv1\<lparr>svValue := None\<rparr>"
      using assms ok unfolding unf sv1_def [symmetric] by (auto split: if_splits option.splits)
    then show ?thesis
      using assms ok True trim unfolding unf sv1_def [symmetric]
      by (simp add: trimScopedValue_value hasVariableJSONValue_def split: if_splits option.splits)
  next
    case False
    then have "sv' = sv1"
      using assms ok unfolding unf sv1_def [symmetric] by (auto simp: bindR_eq_Inr split: if_splits)
    then show ?thesis using assms unfolding unf sv1_def [symmetric] trim by (simp only: trim)
  qed
qed

lemma normalizeScopedValues_idem:
  "normalizeScopedValues J ustr ty seen svs = Inr svs' \<Longrightarrow> normalizeScopedValues J ustr ty seen svs' = Inr svs'"
proof (induction svs arbitrary: seen svs')
  case (Cons sv svs)
  then show ?case
    by (auto simp: bindR_eq_Inr Let_def normalizeScopedValue_idem split: if_splits)
qed simp

lemma normalizeReferenceVariable_idem:
  "normalizeReferenceVariable J v = Inr v' \<Longrightarrow> normalizeReferenceVariable J v' = Inr v'
     \<and> vaType v' = vaType v \<and> vaKey v' = vaKey v \<and> vaReferenceID v' = vaReferenceID v
     \<and> vaReferenceName v' = vaReferenceName v \<and> vaScopedValues v' = vaScopedValues v"
  by (auto simp: normalizeReferenceVariable_def Let_def split: if_splits option.splits)

lemma normalizeValueVariable_idem:
  "normalizeValueVariable J v = Inr v' \<Longrightarrow> normalizeValueVariable J v' = Inr v'
     \<and> vaType v' = vaType v \<and> vaKey v' = vaKey v \<and> vaReferenceID v' = vaReferenceID v
     \<and> vaReferenceName v' = vaReferenceName v \<and> vaScopedValues v' = vaScopedValues v"
  by (auto simp: normalizeValueVariable_def hasVariableJSONValue_def split: if_splits sum.splits)

lemma vaScopedValues_indep:
  "normalizeReferenceVariable J (v\<lparr>vaScopedValues := svs\<rparr>)
     = bindR (normalizeReferenceVariable J v) (\<lambda>v. Inr (v\<lparr>vaScopedValues := svs\<rparr>))"
  "normalizeValueVariable J (v\<lparr>vaScopedValues := svs\<rparr>)
     = bindR (normalizeValueVariable J v) (\<lambda>v. Inr (v\<lparr>vaScopedValues := svs\<rparr>))"
  by (auto simp: normalizeReferenceVariable_def normalizeValueVariable_def Let_def split: option.splits sum.splits)

lemma normalizeVariable_idem:
  assumes "normalizeVariable J ustr v = Inr v'"
  shows "normalizeVariable J ustr v' = Inr v'"
proof -
  define v1 where "v1 = v\<lparr>vaKey := TrimSpace (vaKey v), vaReferenceID := TrimSpace (vaReferenceID v),
     vaReferenceName := TrimSpace (vaReferenceName v)\<rparr>"
  let ?norm = "\<lambda>v. if isReferenceVariableType (vaType v) then normalizeReferenceVariable J v
     else normalizeValueVariable J v"
  obtain v2 svs where v2: "?norm v1 = Inr v2"
    and svs: "normalizeScopedValues J ustr (vaType v2) [] (vaScopedValues v2) = Inr svs"
    and v': "v' = v2\<lparr>vaScopedValues := svs\<rparr>"
    and ok: "vaKey v1 \<noteq> []" "isKnownVariableType (vaType v1)"
    using assms unfolding normalizeVariable_def Let_def v1_def [symmetric]
    by (auto simp: bindR_eq_Inr split: if_splits)
  have same: "?norm v2 = Inr v2" "vaType v2 = vaType v1" "vaKey v2 = vaKey v1" "vaReferenceID v2 = vaReferenceID v1"
      "vaReferenceName v2 = vaReferenceName v1"
    using v2 normalizeReferenceVariable_idem [of J v1 v2] normalizeValueVariable_idem [of J v1 v2]
    by (simp_all split: if_splits)
  have trimmed: "v'\<lparr>vaKey := TrimSpace (vaKey v'), vaReferenceID := TrimSpace (vaReferenceID v'),
     vaReferenceName := TrimSpace (vaReferenceName v')\<rparr> = v'"
    using same by (simp add: v' v1_def)
  have "?norm v' = Inr v'"
    using same(1) by (auto simp: v' vaScopedValues_indep split: if_splits)
  then show ?thesis
    unfolding normalizeVariable_def trimmed Let_def
    using ok same normalizeScopedValues_idem [OF svs] by (simp add: v')
qed

lemma normalizeVariables_idem:
  "normalizeVariables J ustr seen vs = Inr vs' \<Longrightarrow> normalizeVariables J ustr seen vs' = Inr vs'"
proof (induction vs arbitrary: seen vs')
  case (Cons v vs)
  then show ?case
    by (auto simp: bindR_eq_Inr normalizeVariable_idem split: if_splits)
qed simp



end
