(* ===== verification/Process_Types.thy ===== *)
theory Process_Types
  imports Task_Types
begin

text \<open>
  Deployment processes and runbooks: internal/types/deployment_process.go, internal/types/runbook.go and the
  step requests of api/deployment_process.go and api/runbook.go. The four step types share most of their
  fields; each is the record of the shared fields with its own ones added.
\<close>

record stepFields =
  stKey :: string
  stName :: string
  stActionType :: string
  stStepTemplateVersionID :: "uuid option"
  stExecutionLocation :: string
  stInputBindings :: "object option"
  stCondition :: string
  stFailureMode :: string
  stTimeoutSeconds :: int
  stRetryMaxAttempts :: int
  stRetryIntervalSeconds :: int
  stRequiredPermissions :: "string list"
  stSortOrder :: int
  stDependencies :: "string list"

type_synonym RunbookStepRequest = stepFields

record RunbookStep = stepFields +
  rbsID :: uuid
  rbsRunbookRevisionID :: uuid

record DeploymentProcessStepRequest = stepFields +
  stChannelIDs :: "uuid list"
  stEnvironmentIDs :: "uuid list"
  stTargetTags :: "string list"

record DeploymentProcessStep = DeploymentProcessStepRequest +
  dpstID :: uuid
  dpstRevisionID :: uuid

record DeploymentProcess =
  dprID :: uuid
  dprCreatedAt :: timestamp
  dprUpdatedAt :: timestamp
  dprOrganizationID :: uuid
  dprApplicationID :: uuid
  dprName :: string
  dprDescription :: string
  dprSortOrder :: int

record DeploymentProcessRevision =
  drvID :: uuid
  drvCreatedAt :: timestamp
  drvUpdatedAt :: timestamp
  drvOrganizationID :: uuid
  drvDeploymentProcessID :: uuid
  drvRevisionNumber :: int
  drvDescription :: string
  drvSteps :: "DeploymentProcessStep list"

record Runbook =
  rbkID :: uuid
  rbkCreatedAt :: timestamp
  rbkUpdatedAt :: timestamp
  rbkOrganizationID :: uuid
  rbkApplicationID :: uuid
  rbkName :: string
  rbkDescription :: string
  rbkSortOrder :: int

record RunbookRevision =
  rrvID :: uuid
  rrvCreatedAt :: timestamp
  rrvUpdatedAt :: timestamp
  rrvOrganizationID :: uuid
  rrvRunbookID :: uuid
  rrvRevisionNumber :: int
  rrvDescription :: string
  rrvSteps :: "RunbookStep list"

end
