(* ===== verification/Action_Registry.thy ===== *)
theory Action_Registry
  imports Secret_Bindings Process_Types
begin

text \<open>
  internal/actionregistry/registry.go: the actions a step can name, the schemas of their input, and the
  validation of the input bindings. The checker of JSON schemas (github.com/santhosh-tekuri/jsonschema) is an
  argument: \<open>slValidate schema input\<close> is its message, or None where the input is valid. A schema that does
  not compile ends the program at its start; the model is of a program that has started. The copies that
  \<open>List\<close> and \<open>Get\<close> hand out are the values themselves.
\<close>

record schemaLib =
  slValidate :: "json \<Rightarrow> json \<Rightarrow> string option"
  slQuote :: "string \<Rightarrow> string"
  slLower :: "string \<Rightarrow> string"

record ActionDefinition =
  adType :: string
  adName :: string
  adDescription :: string
  adInputSchema :: json
  adOutputSchema :: json

record ActionRegistry =
  rgActions :: "ActionDefinition list"
  rgValidators :: "string \<rightharpoonup> json"

section \<open>The actions\<close>

definition webhookResponseBuiltInOutputCount :: nat where "webhookResponseBuiltInOutputCount = 7"
definition webhookCallbackBuiltInOutputCount :: nat where "webhookCallbackBuiltInOutputCount = 10"

definition objectSchema :: "object \<Rightarrow> json list \<Rightarrow> json" where
  "objectSchema properties required =
     (let schema = [(''$schema'', JString ''https://json-schema.org/draft/2020-12/schema''),
                    (''type'', JString ''object''), (''properties'', JObject properties),
                    (''additionalProperties'', JBool False)]
      in JObject (if required \<noteq> [] then schema @ [(''required'', JArray required)] else schema))"

definition webhookHeaderNameSchema :: json where
  "webhookHeaderNameSchema =
     JObject [(''type'', JString ''string''),
              (''pattern'', JString (''^[!#$%&'' @ [CHR 0x27] @ ''*+.^_`|~0-9A-Za-z-]+$''))]"

definition webhookSecretReferenceSchema :: json where
  "webhookSecretReferenceSchema =
     JObject [(''type'', JString ''string''), (''minLength'', JNumber ''1''), (''maxLength'', JNumber ''128''),
              (''pattern'', JString ''^[A-Za-z0-9_.:-]+$'')]"

definition preflightInputSchema :: json where
  "preflightInputSchema = objectSchema
    []
    []"

definition preflightOutputSchema :: json where
  "preflightOutputSchema = objectSchema
    [(''passed'', JObject [(''type'', JString ''boolean'')]),
    (''checks'', JObject [
      (''type'', JString ''array''),
      (''items'', JObject [
        (''type'', JString ''object''),
        (''properties'', JObject [
          (''name'', JObject [(''type'', JString ''string'')]),
          (''status'', JObject [
            (''type'', JString ''string''),
            (''enum'', JArray [JString ''passed'', JString ''failed'', JString ''skipped''])]),
          (''message'', JObject [(''type'', JString ''string'')])]),
        (''required'', JArray [JString ''name'', JString ''status'']),
        (''additionalProperties'', JBool False)])])]
    [JString ''passed'', JString ''checks'']"

definition preflightAction :: ActionDefinition where
  "preflightAction =
     \<lparr>adType = ''distr.preflight'', adName = ''Preflight checks'',
      adDescription = ''Runs built-in agent preflight checks and returns structured results.'',
      adInputSchema = preflightInputSchema, adOutputSchema = preflightOutputSchema\<rparr>"

definition httpCheckInputSchema :: json where
  "httpCheckInputSchema = objectSchema
    [(''url'', JObject [(''type'', JString ''string''), (''format'', JString ''uri'')]),
    (''method'', JObject [
      (''type'', JString ''string''),
      (''enum'', JArray [
        JString ''GET'', JString ''HEAD'', JString ''POST'', JString ''PUT'', JString ''PATCH'',
        JString ''DELETE''])]),
    (''expectedStatusCodes'', JObject [
      (''type'', JString ''array''),
      (''items'', JObject [
        (''type'', JString ''integer''), (''minimum'', JNumber ''100''),
        (''maximum'', JNumber ''599'')]),
      (''minItems'', JNumber ''1'')]),
    (''expectedHeaders'', JObject [
      (''type'', JString ''object''),
      (''additionalProperties'', JObject [(''type'', JString ''string'')])]),
    (''bodyContains'', JObject [(''type'', JString ''string'')]),
    (''bodyRegex'', JObject [(''type'', JString ''string'')]),
    (''maxLatencyMs'', JObject [(''type'', JString ''integer''), (''minimum'', JNumber ''0'')]),
    (''retry'', JObject [
      (''type'', JString ''object''),
      (''properties'', JObject [
        (''maxAttempts'', JObject [(''type'', JString ''integer''), (''minimum'', JNumber ''0'')]),
        (''intervalSeconds'', JObject [
          (''type'', JString ''integer''), (''minimum'', JNumber ''0'')])]),
      (''additionalProperties'', JBool False)])]
    [JString ''url'']"

definition httpCheckOutputSchema :: json where
  "httpCheckOutputSchema = objectSchema
    [(''passed'', JObject [(''type'', JString ''boolean'')]),
    (''statusCode'', JObject [(''type'', JString ''integer'')]),
    (''latencyMs'', JObject [(''type'', JString ''integer''), (''minimum'', JNumber ''0'')]),
    (''bodyMatched'', JObject [(''type'', JString ''boolean'')])]
    [JString ''passed'', JString ''statusCode'', JString ''latencyMs'']"

definition httpCheckAction :: ActionDefinition where
  "httpCheckAction =
     \<lparr>adType = ''distr.http.check'', adName = ''HTTP check'',
      adDescription = ''Calls an HTTP endpoint and validates status, headers, body matching, latency, and retry policy.'',
      adInputSchema = httpCheckInputSchema, adOutputSchema = httpCheckOutputSchema\<rparr>"

definition waitInputSchema :: json where
  "waitInputSchema = JObject
    [(''$schema'', JString ''https://json-schema.org/draft/2020-12/schema''),
    (''type'', JString ''object''), (''additionalProperties'', JBool False),
    (''properties'', JObject [
      (''durationSeconds'', JObject [
        (''type'', JString ''integer''), (''minimum'', JNumber ''1'')]),
      (''condition'', JObject [(''type'', JString ''string''), (''minLength'', JNumber ''1'')])]),
    (''oneOf'', JArray [
      JObject [(''required'', JArray [JString ''durationSeconds''])],
      JObject [(''required'', JArray [JString ''condition''])]])]"

definition waitOutputSchema :: json where
  "waitOutputSchema = objectSchema
    [(''completed'', JObject [(''type'', JString ''boolean'')]),
    (''elapsedSeconds'', JObject [(''type'', JString ''integer''), (''minimum'', JNumber ''0'')])]
    [JString ''completed'', JString ''elapsedSeconds'']"

definition waitAction :: ActionDefinition where
  "waitAction =
     \<lparr>adType = ''distr.wait'', adName = ''Wait'',
      adDescription = ''Waits for a duration or until a declared condition is met.'',
      adInputSchema = waitInputSchema, adOutputSchema = waitOutputSchema\<rparr>"

definition composeDeployInputSchema :: json where
  "composeDeployInputSchema = objectSchema
    [(''applicationVersion'', JObject [
      (''type'', JString ''object''),
      (''properties'', JObject [
        (''composeFile'', JObject [(''type'', JString ''string''), (''minLength'', JNumber ''1'')]),
        (''registryAuth'', JObject [
          (''type'', JString ''object''),
          (''additionalProperties'', JObject [
            (''type'', JString ''object''),
            (''properties'', JObject [
              (''username'', JObject [(''type'', JString ''string'')]),
              (''passwordSecretRef'', JObject [
                (''type'', JString ''string''), (''minLength'', JNumber ''1'')])]),
            (''required'', JArray [JString ''username'', JString ''passwordSecretRef'']),
            (''additionalProperties'', JBool False)])])]),
      (''required'', JArray [JString ''composeFile'']), (''additionalProperties'', JBool False)]),
    (''projectName'', JObject [
      (''type'', JString ''string''), (''minLength'', JNumber ''1''),
      (''pattern'', JString ''^[a-z0-9][a-z0-9_-]*$'')]),
    (''environmentFile'', JObject [(''type'', JString ''string'')]),
    (''pullPolicy'', JObject [
      (''type'', JString ''string''),
      (''enum'', JArray [
        JString ''always'', JString ''missing'', JString ''if_not_present'', JString ''never''])]),
    (''waitForHealthy'', JObject [(''type'', JString ''boolean'')]),
    (''timeoutSeconds'', JObject [(''type'', JString ''integer''), (''minimum'', JNumber ''1'')]),
    (''strategy'', JObject [
      (''type'', JString ''string''), (''enum'', JArray [JString ''compose'', JString ''swarm''])])]
    [JString ''applicationVersion'', JString ''projectName'']"

definition composeDeployOutputSchema :: json where
  "composeDeployOutputSchema = objectSchema
    [(''projectName'', JObject [(''type'', JString ''string'')]),
    (''strategy'', JObject [(''type'', JString ''string'')]),
    (''status'', JObject [(''type'', JString ''string'')]),
    (''state'', JObject [(''type'', JString ''string'')])]
    [JString ''projectName'', JString ''strategy'', JString ''status'']"

definition composeDeployAction :: ActionDefinition where
  "composeDeployAction =
     \<lparr>adType = ''distr.compose.deploy'', adName = ''Compose deploy'',
      adDescription = ''Runs the Docker Compose deployment adapter through the typed action protocol.'',
      adInputSchema = composeDeployInputSchema, adOutputSchema = composeDeployOutputSchema\<rparr>"

definition ociJobInputSchema :: json where
  "ociJobInputSchema = objectSchema
    [(''imageDigest'', JObject [
      (''type'', JString ''string''),
      (''pattern'', JString (''^'' @ [CHR 0x5C] @ ''S+@sha256:[A-Fa-f0-9]{64}$''))]),
    (''command'', JObject [
      (''type'', JString ''array''),
      (''items'', JObject [(''type'', JString ''string''), (''minLength'', JNumber ''1'')]),
      (''minItems'', JNumber ''1'')]),
    (''arguments'', JObject [
      (''type'', JString ''array''), (''items'', JObject [(''type'', JString ''string'')])]),
    (''environment'', JObject [
      (''type'', JString ''object''),
      (''additionalProperties'', JObject [(''type'', JString ''string'')])]),
    (''secretEnvironment'', JObject [
      (''type'', JString ''object''),
      (''additionalProperties'', JObject [
        (''type'', JString ''string''), (''minLength'', JNumber ''1'')])]),
    (''network'', JObject [(''type'', JString ''string''), (''minLength'', JNumber ''1'')]),
    (''volumes'', JObject [
      (''type'', JString ''array''),
      (''items'', JObject [
        (''type'', JString ''object''),
        (''properties'', JObject [
          (''source'', JObject [(''type'', JString ''string''), (''minLength'', JNumber ''1'')]),
          (''target'', JObject [(''type'', JString ''string''), (''minLength'', JNumber ''1'')]),
          (''readOnly'', JObject [(''type'', JString ''boolean'')])]),
        (''required'', JArray [JString ''source'', JString ''target'', JString ''readOnly'']),
        (''additionalProperties'', JBool False)])]),
    (''timeoutSeconds'', JObject [(''type'', JString ''integer''), (''minimum'', JNumber ''1'')]),
    (''expectedExitCodes'', JObject [
      (''type'', JString ''array''),
      (''items'', JObject [
        (''type'', JString ''integer''), (''minimum'', JNumber ''0''),
        (''maximum'', JNumber ''255'')]),
      (''minItems'', JNumber ''1''), (''uniqueItems'', JBool True)]),
    (''idempotencyKey'', JObject [
      (''type'', JString ''string''), (''minLength'', JNumber ''1''),
      (''maxLength'', JNumber ''128''), (''pattern'', JString ''^[A-Za-z0-9_.:-]+$'')]),
    (''runAsUser'', JObject [(''type'', JString ''string''), (''minLength'', JNumber ''1'')]),
    (''resources'', JObject [
      (''type'', JString ''object''),
      (''properties'', JObject [
        (''cpus'', JObject [(''type'', JString ''number''), (''exclusiveMinimum'', JNumber ''0'')]),
        (''memoryBytes'', JObject [(''type'', JString ''integer''), (''minimum'', JNumber ''1'')])]),
      (''additionalProperties'', JBool False)]),
    (''security'', JObject [
      (''type'', JString ''object''),
      (''properties'', JObject [
        (''privileged'', JObject [(''const'', JBool False)]),
        (''readOnlyRootFilesystem'', JObject [(''const'', JBool True)]),
        (''dropCapabilities'', JObject [
          (''type'', JString ''array''),
          (''items'', JObject [(''type'', JString ''string''), (''minLength'', JNumber ''1'')])]),
        (''noNewPrivilegesDisabled'', JObject [(''const'', JBool False)])]),
      (''additionalProperties'', JBool False)])]
    [JString ''imageDigest'', JString ''command'']"

definition ociJobOutputSchema :: json where
  "ociJobOutputSchema = objectSchema
    [(''containerName'', JObject [(''type'', JString ''string'')]),
    (''exitCode'', JObject [(''type'', JString ''integer'')]),
    (''status'', JObject [(''type'', JString ''string'')])]
    [JString ''containerName'', JString ''exitCode'', JString ''status'']"

definition ociJobAction :: ActionDefinition where
  "ociJobAction =
     \<lparr>adType = ''distr.oci.job'', adName = ''OCI one-shot job'',
      adDescription = ''Runs one immutable OCI image as a bounded, policy-constrained one-shot Docker job.'',
      adInputSchema = ociJobInputSchema, adOutputSchema = ociJobOutputSchema\<rparr>"

definition fileRenderInputSchema :: json where
  "fileRenderInputSchema = objectSchema
    [(''destinationPath'', JObject [
      (''type'', JString ''string''), (''minLength'', JNumber ''1''),
      (''pattern'', JString (''^[^/'' @ [CHR 0x5C] @ [CHR 0x5C] @ ''].*''))]),
    (''template'', JObject [(''type'', JString ''string'')]),
    (''variables'', JObject [
      (''type'', JString ''object''),
      (''additionalProperties'', JObject [(''type'', JString ''string'')])]),
    (''secretVariables'', JObject [
      (''type'', JString ''object''),
      (''additionalProperties'', JObject [
        (''type'', JString ''string''), (''minLength'', JNumber ''1'')])]),
    (''mode'', JObject [(''type'', JString ''string''), (''pattern'', JString ''^0?[0-7]{3}$'')]),
    (''owner'', JObject [(''type'', JString ''string''), (''pattern'', JString ''^[0-9]+$'')]),
    (''group'', JObject [(''type'', JString ''string''), (''pattern'', JString ''^[0-9]+$'')]),
    (''backup'', JObject [(''type'', JString ''boolean'')]),
    (''idempotencyKey'', JObject [
      (''type'', JString ''string''), (''minLength'', JNumber ''1''),
      (''maxLength'', JNumber ''128''), (''pattern'', JString ''^[A-Za-z0-9_.:-]+$'')]),
    (''timeoutSeconds'', JObject [(''type'', JString ''integer''), (''minimum'', JNumber ''1'')])]
    [JString ''destinationPath'', JString ''template'']"

definition fileRenderOutputSchema :: json where
  "fileRenderOutputSchema = objectSchema
    [(''destinationPath'', JObject [(''type'', JString ''string'')]),
    (''changed'', JObject [(''type'', JString ''boolean'')]),
    (''backupPath'', JObject [(''type'', JString ''string'')])]
    [JString ''destinationPath'', JString ''changed'']"

definition fileRenderAction :: ActionDefinition where
  "fileRenderAction =
     \<lparr>adType = ''distr.file.render'', adName = ''File render'',
      adDescription = (''Renders a text file from scoped variables using the target agent'' @ [CHR 0x27] @ ''s allowlisted destination roots.''),
      adInputSchema = fileRenderInputSchema, adOutputSchema = fileRenderOutputSchema\<rparr>"

definition webhookInputSchema :: json where
  "webhookInputSchema = objectSchema
    [(''url'', JObject [
      (''type'', JString ''string''), (''format'', JString ''uri''),
      (''pattern'', JString ''^https://'')]),
    (''method'', JObject [
      (''type'', JString ''string''),
      (''enum'', JArray [
        JString ''GET'', JString ''POST'', JString ''PUT'', JString ''PATCH'', JString ''DELETE''])]),
    (''headers'', JObject [
      (''type'', JString ''object''), (''propertyNames'', webhookHeaderNameSchema),
      (''additionalProperties'', JObject [(''type'', JString ''string'')])]),
    (''secretHeaders'', JObject [
      (''type'', JString ''object''), (''propertyNames'', webhookHeaderNameSchema),
      (''additionalProperties'', webhookSecretReferenceSchema)]),
    (''body'', JObject []), (''sensitiveBody'', JObject [(''type'', JString ''boolean'')]),
    (''signingSecret'', webhookSecretReferenceSchema),
    (''signingSecrets'', JObject [
      (''type'', JString ''array''), (''items'', webhookSecretReferenceSchema),
      (''minItems'', JNumber ''1''), (''maxItems'', JNumber ''8'')]),
    (''timeoutSeconds'', JObject [
      (''type'', JString ''integer''), (''minimum'', JNumber ''1''), (''maximum'', JNumber ''300'')]),
    (''retry'', JObject [
      (''type'', JString ''object''),
      (''properties'', JObject [
        (''maxAttempts'', JObject [
          (''type'', JString ''integer''), (''minimum'', JNumber ''1''),
          (''maximum'', JNumber ''5'')]),
        (''backoffSeconds'', JObject [
          (''type'', JString ''integer''), (''minimum'', JNumber ''0''),
          (''maximum'', JNumber ''60'')]),
        (''retryableStatusCodes'', JObject [
          (''type'', JString ''array''),
          (''items'', JObject [
            (''type'', JString ''integer''), (''minimum'', JNumber ''100''),
            (''maximum'', JNumber ''599'')]),
          (''minItems'', JNumber ''1''), (''uniqueItems'', JBool True)])]),
      (''additionalProperties'', JBool False)]),
    (''expectedStatusCodes'', JObject [
      (''type'', JString ''array''),
      (''items'', JObject [
        (''type'', JString ''integer''), (''minimum'', JNumber ''100''),
        (''maximum'', JNumber ''599'')]),
      (''minItems'', JNumber ''1''), (''uniqueItems'', JBool True)]),
    (''idempotencyKey'', JObject [
      (''type'', JString ''string''), (''minLength'', JNumber ''1''),
      (''maxLength'', JNumber ''128''), (''pattern'', JString ''^[A-Za-z0-9_.:-]+$'')]),
    (''corridor'', JObject [
      (''type'', JString ''string''), (''minLength'', JNumber ''1''),
      (''maxLength'', JNumber ''128''), (''pattern'', JString ''^[A-Za-z0-9_.:-]+$'')]),
    (''priority'', JObject [
      (''type'', JString ''string''),
      (''enum'', JArray [JString ''high'', JString ''normal'', JString ''low''])]),
    (''completionMode'', JObject [
      (''type'', JString ''string''),
      (''enum'', JArray [JString ''response'', JString ''callback''])]),
    (''component'', JObject [
      (''type'', JString ''string''), (''minLength'', JNumber ''1''),
      (''maxLength'', JNumber ''256'')]),
    (''callbackTimeoutSeconds'', JObject [
      (''type'', JString ''integer''), (''minimum'', JNumber ''1''),
      (''maximum'', JNumber ''86400'')]),
    (''outputs'', JObject [
      (''type'', JString ''array''),
      (''maxItems'', JNumber (itoa (MaxStepRunEventOutputItemCount - webhookResponseBuiltInOutputCount))),
      (''items'', JObject [
        (''type'', JString ''object''),
        (''properties'', JObject [
          (''name'', JObject [
            (''type'', JString ''string''), (''minLength'', JNumber ''1''),
            (''maxLength'', JNumber ''128''), (''pattern'', JString ''^[A-Za-z_][A-Za-z0-9_.-]*$'')]),
          (''pointer'', JObject [
            (''type'', JString ''string''), (''minLength'', JNumber ''1''),
            (''pattern'', JString ''^/'')]),
          (''type'', JObject [
            (''type'', JString ''string''),
            (''enum'', JArray [
              JString ''string'', JString ''number'', JString ''boolean'', JString ''object'',
              JString ''array''])]),
          (''required'', JObject [(''type'', JString ''boolean'')]),
          (''sensitive'', JObject [(''type'', JString ''boolean'')])]),
        (''required'', JArray [JString ''name'', JString ''pointer'', JString ''type'']),
        (''additionalProperties'', JBool False)])])]
    [JString ''url'']"

definition webhookOutputSchema :: json where
  "webhookOutputSchema = objectSchema
    [(''statusCode'', JObject [(''type'', JString ''integer'')]),
    (''attempts'', JObject [(''type'', JString ''integer''), (''minimum'', JNumber ''1'')]),
    (''signingKeyVersion'', JObject [
      (''type'', JString ''integer''), (''minimum'', JNumber ''1'')]),
    (''keyRotationApplied'', JObject [(''type'', JString ''boolean'')]),
    (''auditChainRoot'', JObject [
      (''type'', JString ''string''), (''pattern'', JString ''^sha256:[0-9a-f]{64}$'')]),
    (''auditEventHash'', JObject [
      (''type'', JString ''string''), (''pattern'', JString ''^sha256:[0-9a-f]{64}$'')]),
    (''auditTrail'', JObject [
      (''type'', JString ''object''),
      (''properties'', JObject [
        (''events'', JObject [
          (''type'', JString ''array''), (''items'', JObject [(''type'', JString ''object'')])])]),
      (''required'', JArray [JString ''events'']), (''additionalProperties'', JBool False)]),
    (''externalExecutionId'', JObject [
      (''type'', JString ''string''), (''format'', JString ''uuid'')]),
    (''providerReference'', JObject [(''type'', JString ''string'')]),
    (''providerUrl'', JObject [(''type'', JString ''string''), (''format'', JString ''uri'')]),
    (''actualVersion'', JObject [(''type'', JString ''string'')]),
    (''actualImage'', JObject [(''type'', JString ''string'')]),
    (''actualPlatform'', JObject [
      (''type'', JString ''string''),
      (''enum'', JArray [JString ''linux/amd64'', JString ''linux/arm64''])]),
    (''actualConfigReference'', JObject [(''type'', JString ''string'')]),
    (''actualConfigChecksum'', JObject [
      (''type'', JString ''string''), (''pattern'', JString ''^sha256:[0-9a-f]{64}$'')]),
    (''actualHealth'', JObject [
      (''type'', JString ''string''), (''enum'', JArray [JString ''HEALTHY''])]),
    (''observedStateChecksum'', JObject [
      (''type'', JString ''string''), (''pattern'', JString ''^sha256:[0-9a-f]{64}$'')])]
    []"

definition webhookAction :: ActionDefinition where
  "webhookAction =
     \<lparr>adType = ''distr.webhook'', adName = ''Webhook'',
      adDescription = ''Calls a trusted outbound HTTPS webhook with signed JSON, secret headers, retry policy, and declared response outputs.'',
      adInputSchema = webhookInputSchema, adOutputSchema = webhookOutputSchema\<rparr>"

definition defaultActions :: "ActionDefinition list" where
  "defaultActions =
     [preflightAction, httpCheckAction, waitAction, composeDeployAction, ociJobAction, fileRenderAction, webhookAction]"

definition mustBuildRegistry :: "ActionDefinition list \<Rightarrow> ActionRegistry" where
  "mustBuildRegistry actions =
     \<lparr>rgActions = actions,
      rgValidators = foldl (\<lambda>m action. m(adType action \<mapsto> adInputSchema action)) Map.empty actions\<rparr>"

definition DefaultRegistry :: ActionRegistry where
  "DefaultRegistry = mustBuildRegistry defaultActions"

definition RegistryList :: "ActionRegistry \<Rightarrow> ActionDefinition list" where
  "RegistryList r = rgActions r"

definition RegistryGet :: "ActionRegistry \<Rightarrow> string \<Rightarrow> ActionDefinition option" where
  "RegistryGet r actionType = find (\<lambda>action. adType action = TrimSpace actionType) (rgActions r)"

section \<open>Webhook input\<close>

definition isWebhookReservedOutputName :: "string \<Rightarrow> bool \<Rightarrow> bool" where
  "isWebhookReservedOutputName name callback \<longleftrightarrow>
     name \<in> set [''statusCode'', ''attempts'', ''signingKeyVersion'', ''keyRotationApplied'', ''auditChainRoot'',
                ''auditEventHash'', ''auditTrail'']
     \<or> callback \<and> name \<in> set [''externalExecutionId'', ''providerReference'', ''providerUrl'', ''actualVersion'',
                ''actualImage'', ''actualPlatform'', ''actualConfigReference'', ''actualConfigChecksum'', ''actualHealth'',
                ''observedStateChecksum'']"

definition isWebhookSensitiveHeaderName :: "schemaLib \<Rightarrow> string \<Rightarrow> bool" where
  "isWebhookSensitiveHeaderName S name \<longleftrightarrow>
     ToLower (slLower S) (TrimSpace name) \<in> set [''authorization'', ''proxy-authorization'', ''x-api-key'', ''cookie'']"

definition isWebhookReservedHeaderName :: "schemaLib \<Rightarrow> string \<Rightarrow> bool" where
  "isWebhookReservedHeaderName S name \<longleftrightarrow>
     ToLower (slLower S) (TrimSpace name) \<in> set [''idempotency-key'', ''x-distr-timestamp'', ''x-distr-body-digest'',
        ''x-distr-signature'', ''x-distr-key-version'', ''x-distr-tenant-id'', ''x-distr-external-execution-id'',
        ''x-distr-plan-checksum'', ''x-distr-expected-state-version'', ''x-distr-expected-state-checksum'',
        ''x-distr-callback-url'']"

text \<open>\<open>x, _ := v.(T)\<close>: the zero value where the assertion fails.\<close>

definition asString :: "json option \<Rightarrow> string" where
  "asString v = (case v of Some (JString s) \<Rightarrow> s | _ \<Rightarrow> [])"

definition asArray :: "json option \<Rightarrow> json list" where
  "asArray v = (case v of Some (JArray vs) \<Rightarrow> vs | _ \<Rightarrow> [])"

definition asObject :: "json option \<Rightarrow> object" where
  "asObject v = (case v of Some (JObject m) \<Rightarrow> m | _ \<Rightarrow> [])"

fun checkSigningSecrets :: "string list \<Rightarrow> json list \<Rightarrow> unit result" where
  "checkSigningSecrets seen [] = Inr ()"
| "checkSigningSecrets seen (rawSecret # rest) =
     (let secret = asString (Some rawSecret) in
      if TrimSpace secret = [] then Inl (ErrBadRequest ''webhook signingSecrets contains empty secret'')
      else if secret \<in> set seen then Inl (ErrBadRequest ''webhook signingSecrets contains duplicate secret'')
      else checkSigningSecrets (secret # seen) rest)"

fun checkHeaders :: "schemaLib \<Rightarrow> object \<Rightarrow> unit result" where
  "checkHeaders S [] = Inr ()"
| "checkHeaders S ((name, _) # rest) =
     (if isWebhookSensitiveHeaderName S name
        then Inl (ErrBadRequest (''webhook headers cannot include '' @ name @ ''; use secretHeaders''))
      else if isWebhookReservedHeaderName S name
        then Inl (ErrBadRequest (''webhook headers cannot include reserved header '' @ name))
      else checkHeaders S rest)"

fun checkSecretHeaders :: "schemaLib \<Rightarrow> object \<Rightarrow> unit result" where
  "checkSecretHeaders S [] = Inr ()"
| "checkSecretHeaders S ((name, _) # rest) =
     (if isWebhookReservedHeaderName S name
        then Inl (ErrBadRequest (''webhook secretHeaders cannot include reserved header '' @ name))
      else checkSecretHeaders S rest)"

fun checkOutputs :: "bool \<Rightarrow> string list \<Rightarrow> json list \<Rightarrow> unit result" where
  "checkOutputs callback seen [] = Inr ()"
| "checkOutputs callback seen (rawOutput # rest) =
     (let name = TrimSpace (asString (objGet (asObject (Some rawOutput)) ''name'')) in
      if name = [] then checkOutputs callback seen rest
      else if isWebhookReservedOutputName name callback
        then Inl (ErrBadRequest (''webhook outputs name '' @ name @ '' is reserved''))
      else if name \<in> set seen then Inl (ErrBadRequest ''webhook outputs contains duplicate name'')
      else checkOutputs callback (name # seen) rest)"

definition validateWebhookRegistryInput :: "schemaLib \<Rightarrow> object \<Rightarrow> unit result" where
  "validateWebhookRegistryInput S input =
     (let completionMode = asString (objGet input ''completionMode'');
          component = asString (objGet input ''component'');
          signingSecret = asString (objGet input ''signingSecret'');
          signingSecrets = asArray (objGet input ''signingSecrets'');
          callback = completionMode = ''callback'';
          outputs = asArray (objGet input ''outputs'')
      in if callback \<and> TrimSpace component = []
           then Inl (ErrBadRequest ''webhook component is required for callback completion mode'')
         else if TrimSpace signingSecret = [] \<and> signingSecrets = []
           then Inl (ErrBadRequest ''webhook signingSecret or signingSecrets is required'')
         else if TrimSpace signingSecret \<noteq> [] \<and> signingSecrets \<noteq> []
           then Inl (ErrBadRequest ''webhook signingSecret and signingSecrets cannot both be set'')
         else bindR (checkSigningSecrets [] signingSecrets) (\<lambda>_.
           bindR (checkHeaders S (asObject (objGet input ''headers''))) (\<lambda>_.
           bindR (checkSecretHeaders S (asObject (objGet input ''secretHeaders''))) (\<lambda>_.
             if callback \<and> outputs \<noteq> []
               then Inl (ErrBadRequest ''webhook outputs are not supported in callback completion mode; report durable values in the callback'')
             else if length outputs > MaxStepRunEventOutputItemCount -
                  (if callback then webhookCallbackBuiltInOutputCount else webhookResponseBuiltInOutputCount)
               then Inl (ErrBadRequest ''webhook outputs contains too many entries'')
             else checkOutputs callback [] outputs))))"

section \<open>Input of a step\<close>

definition ValidateInput :: "schemaLib \<Rightarrow> ActionRegistry \<Rightarrow> string \<Rightarrow> object option \<Rightarrow> unit result" where
  "ValidateInput S r actionType input =
     (let actionType = TrimSpace actionType in
      case rgValidators r actionType of
        None \<Rightarrow> Inl (ErrBadRequest (''unknown actionType '' @ Quote (slQuote S) actionType))
      | Some schema \<Rightarrow>
          let input = (case input of None \<Rightarrow> [] | Some m \<Rightarrow> m) in
          case slValidate S schema (JObject input) of
            Some msg \<Rightarrow> Inl (ErrBadRequest (''actionType '' @ Quote (slQuote S) actionType
                @ '' inputBindings do not match schema: '' @ msg))
          | None \<Rightarrow> if actionType = ''distr.webhook'' then validateWebhookRegistryInput S input else Inr ())"

definition badRequestMessage :: "error \<Rightarrow> string" where
  "badRequestMessage e = TrimPrefix (errorString e) (errorString (ErrBadRequest []))"

fun ValidateSteps :: "schemaLib \<Rightarrow> ActionRegistry \<Rightarrow> 'a stepFields_scheme list \<Rightarrow> unit result" where
  "ValidateSteps S r [] = Inr ()"
| "ValidateSteps S r (step # steps) =
     (case ValidateInput S r (stActionType step) (stInputBindings step) of
        Inl e \<Rightarrow> Inl (ErrBadRequest (''step '' @ Quote (slQuote S) (stKey step) @ '' '' @ badRequestMessage e))
      | Inr _ \<Rightarrow> ValidateSteps S r steps)"

text \<open>\<open>ValidateRunbookSteps\<close> is \<open>ValidateSteps\<close> over the other type of step.\<close>

definition ValidateRunbookSteps :: "schemaLib \<Rightarrow> ActionRegistry \<Rightarrow> RunbookStep list \<Rightarrow> unit result" where
  "ValidateRunbookSteps S r steps = ValidateSteps S r steps"

section \<open>Accepted webhook input and the lease\<close>

text \<open>What \<open>webhookInputSchema\<close> says of the parts of an input that hold secret references.\<close>

definition isSecretReference :: "string \<Rightarrow> bool" where
  "isSecretReference s \<longleftrightarrow> s \<noteq> [] \<and> list_all graphic s"

definition isReferenceValue :: "json \<Rightarrow> bool" where
  "isReferenceValue v = (case v of JString s \<Rightarrow> isSecretReference s | _ \<Rightarrow> False)"

definition webhookSchemaHolds :: "object \<Rightarrow> bool" where
  "webhookSchemaHolds input \<longleftrightarrow>
     (case objGet input ''headers'' of None \<Rightarrow> True | Some (JObject _) \<Rightarrow> True | _ \<Rightarrow> False)
     \<and> (case objGet input ''secretHeaders'' of
          None \<Rightarrow> True
        | Some (JObject m) \<Rightarrow> list_all (\<lambda>(name, v). isSecretReference name \<and> isReferenceValue v) m
        | _ \<Rightarrow> False)
     \<and> (case objGet input ''signingSecret'' of None \<Rightarrow> True | Some v \<Rightarrow> isReferenceValue v)
     \<and> (case objGet input ''signingSecrets'' of
          None \<Rightarrow> True | Some (JArray vs) \<Rightarrow> list_all isReferenceValue vs | _ \<Rightarrow> False)"

lemma TrimSpace_reference: "isSecretReference s \<Longrightarrow> TrimSpace s = s \<and> s \<noteq> []"
  by (auto simp: isSecretReference_def list_all_iff intro!: TrimSpace_graphic)

lemma isReferenceValueD: "isReferenceValue v \<Longrightarrow> \<exists>s. v = JString s \<and> isSecretReference s"
  by (cases v) (auto simp: isReferenceValue_def)

lemma resolveNamedSecrets_outcome:
  assumes "\<And>r. \<exists>v. sec r = Inr v"
    and "list_all (\<lambda>(name, v). isSecretReference name \<and> isReferenceValue v) m"
  shows "if \<exists>name \<in> fst ` set m. objGet plain name \<noteq> None
     then resolveNamedSecrets (nameMsg, conflictMsg, valueMsg) sec plain m resolved = Inl (ErrBadRequest conflictMsg)
     else \<exists>x. resolveNamedSecrets (nameMsg, conflictMsg, valueMsg) sec plain m resolved = Inr x"
  using assms(2)
proof (induction m arbitrary: resolved)
  case (Cons nv m)
  obtain name v where nv: "nv = (name, v)" by (cases nv)
  obtain r where r: "v = JString r" "isSecretReference r"
    using Cons.prems isReferenceValueD by (auto simp: nv)
  have name: "TrimSpace name = name" "name \<noteq> []" and ref: "TrimSpace r = r" "r \<noteq> []"
    using Cons.prems TrimSpace_reference r(2) by (auto simp: nv)
  obtain secret where secret: "sec r = Inr secret" using assms(1) by blast
  have step: "resolveNamedSecrets (nameMsg, conflictMsg, valueMsg) sec plain (nv # m) resolved =
      (if objGet plain name \<noteq> None then Inl (ErrBadRequest conflictMsg)
       else bindR (resolveNamedSecrets (nameMsg, conflictMsg, valueMsg) sec plain m (objSet resolved name (JString secret)))
              (\<lambda>(m, refs). Inr (m, (''secret:'' @ r) # refs)))"
    using name ref secret by (simp add: nv r(1) stringValue_def Let_def)
  note IH = Cons.IH [of "objSet resolved name (JString secret)"]
  show ?case
  proof (cases "objGet plain name = None")
    case False
    then show ?thesis using step by (simp add: nv)
  next
    case True
    show ?thesis
    proof (cases "\<exists>name \<in> fst ` set m. objGet plain name \<noteq> None")
      case c: True
      then have "resolveNamedSecrets (nameMsg, conflictMsg, valueMsg) sec plain (nv # m) resolved
          = Inl (ErrBadRequest conflictMsg)"
        using IH Cons.prems True by (simp add: step)
      moreover have "\<exists>name \<in> fst ` set (nv # m). objGet plain name \<noteq> None" using c by auto
      ultimately show ?thesis by simp
    next
      case c: False
      then obtain x where "resolveNamedSecrets (nameMsg, conflictMsg, valueMsg) sec plain m
          (objSet resolved name (JString secret)) = Inr x"
        using IH Cons.prems by auto
      then have "\<exists>y. resolveNamedSecrets (nameMsg, conflictMsg, valueMsg) sec plain (nv # m) resolved = Inr y"
        using True by (cases x) (simp add: step)
      moreover have "\<not> (\<exists>name \<in> fst ` set (nv # m). objGet plain name \<noteq> None)" using c True by (auto simp: nv)
      ultimately show ?thesis by simp
    qed
  qed
qed simp

lemma resolveSigningSecrets_ok:
  assumes "\<And>r. \<exists>v. sec r = Inr v" "list_all isReferenceValue vs" "checkSigningSecrets seen vs = Inr ()"
  shows "\<exists>rs. vs = map JString rs \<and> (\<exists>x. resolveSigningSecrets sec seen rs = Inr x)"
  using assms(2,3)
proof (induction vs arbitrary: seen)
  case Nil
  then show ?case by (intro exI [of _ "[]"]) simp
next
  case (Cons v vs)
  obtain r where r: "v = JString r" "isSecretReference r" using Cons.prems isReferenceValueD by auto
  have ref: "TrimSpace r = r" "r \<noteq> []" using TrimSpace_reference [OF r(2)] by auto
  have c: "r \<notin> set seen" "checkSigningSecrets (r # seen) vs = Inr ()"
    using Cons.prems(2) ref by (auto simp: r(1) asString_def Let_def split: if_splits)
  obtain rs x where rs: "vs = map JString rs" "resolveSigningSecrets sec (r # seen) rs = Inr x"
    using Cons.IH [OF _ c(2)] Cons.prems(1) by auto
  obtain secret where "sec r = Inr secret" using assms(1) by blast
  then have "\<exists>y. resolveSigningSecrets sec seen (r # rs) = Inr y"
    using rs(2) ref c(1) by (cases x) (simp add: Let_def)
  then show ?case using rs(1) by (intro exI [of _ "r # rs"]) (simp add: r(1))
qed

lemma validated_signing_resolves:
  assumes sec: "\<And>r. \<exists>v. sec r = Inr v" and shape: "webhookSchemaHolds input"
    and ok: "validateWebhookRegistryInput S input = Inr ()"
  shows "\<exists>x. resolveWebhookSigning sec input = Inr x"
proof -
  let ?s = "objGet input ''signingSecret''" and ?ss = "objGet input ''signingSecrets''"
  have one: "\<not> (TrimSpace (asString ?s) = [] \<and> asArray ?ss = [])" "\<not> (TrimSpace (asString ?s) \<noteq> [] \<and> asArray ?ss \<noteq> [])"
    and check: "checkSigningSecrets [] (asArray ?ss) = Inr ()"
    using ok by (auto simp: validateWebhookRegistryInput_def Let_def bindR_eq_Inr split: if_splits)
  have refs: "list_all isReferenceValue (asArray ?ss)"
    using shape by (auto simp: webhookSchemaHolds_def asArray_def split: option.splits json.splits)
  obtain rs x where rs: "asArray ?ss = map JString rs" "resolveSigningSecrets sec [] rs = Inr x"
    using resolveSigningSecrets_ok [where sec = sec, OF sec refs check] by blast
  have elements: "stringElements (map JString rs) = Some rs" for rs
    by (induction rs) (auto simp: stringValue_def)
  have slice: "?ss = None \<and> rs = [] \<or> stringSliceValue ?ss = Some rs"
    using shape rs(1) elements
    by (auto simp: webhookSchemaHolds_def asArray_def stringSliceValue_def split: option.splits json.splits)
  show ?thesis
  proof (cases "rs = []")
    case True
    then have t: "TrimSpace (asString ?s) \<noteq> []" using one(1) rs(1) by simp
    then obtain r where r: "?s = Some (JString r)" "TrimSpace r \<noteq> []"
      by (cases ?s) (auto simp: asString_def split: json.splits)
    obtain v where "sec (TrimSpace r) = Inr v" using sec by blast
    then show ?thesis
      using slice True r by (auto simp: resolveWebhookSigning_def Let_def stringValue_def stringSliceValue_def)
  next
    case False
    then have "TrimSpace (asString ?s) = []" using one(2) rs(1) by simp
    then have "TrimSpace (case stringValue ?s of None \<Rightarrow> [] | Some r \<Rightarrow> r) = []"
      by (auto simp: asString_def stringValue_def split: option.splits json.splits)
    then show ?thesis
      using slice False rs(2) by (cases x) (auto simp: resolveWebhookSigning_def Let_def)
  qed
qed


definition exSchemaLib :: schemaLib where
  "exSchemaLib = \<lparr>slValidate = (\<lambda>schema v. case v of JObject m \<Rightarrow> if webhookSchemaHolds m then None else Some ''invalid'' | _ \<Rightarrow> Some ''invalid''),
     slQuote = (\<lambda>s. s), slLower = (\<lambda>s. s)\<rparr>"

definition exConflictingInput :: object where
  "exConflictingInput = [(''url'', JString ''https://a.b''), (''signingSecret'', JString ''sign''),
     (''headers'', JObject [(''X-Team'', JString ''ops'')]), (''secretHeaders'', JObject [(''X-Team'', JString ''team'')])]"


end
