(* ===== verification/Step_Conditions.thy ===== *)
theory Step_Conditions
  imports Task_Types
begin

text \<open>
  internal/conditions/conditions.go: the restricted language of step conditions. The regular
  expressions are written out as matchers. A \<open>float64\<close> is its 64 bits; what strconv, fmt and
  encoding/json do with numbers, composite values and text beyond plain ASCII is the argument \<open>valueLib\<close>.
\<close>

section \<open>Values\<close>

type_synonym float64 = "64 word"

datatype anyValue =
    AnyNil | AnyBool bool | AnyString string | AnyFloat float64 | AnyInt int | AnyFloat32 "32 word"
  | AnyNumber string | AnyRawMessage string | AnyBytes string | AnyOther json

record valueLib =
  vlParseFloat :: "string \<Rightarrow> float64 option"
  vlIntToFloat :: "int \<Rightarrow> float64"
  vlFloat32ToFloat :: "32 word \<Rightarrow> float64"
  vlSprint :: "anyValue \<Rightarrow> string"
  vlUnmarshal :: "string \<Rightarrow> anyValue option"
  vlUnquote :: "string \<Rightarrow> string option"

definition floatExponent :: "float64 \<Rightarrow> nat" where
  "floatExponent f = unat (take_bit 11 (drop_bit 52 f))"

definition floatFraction :: "float64 \<Rightarrow> float64" where
  "floatFraction f = take_bit 52 f"

definition IsInf :: "float64 \<Rightarrow> bool" where
  "IsInf f \<longleftrightarrow> floatExponent f = 2047 \<and> floatFraction f = 0"

definition IsNaN :: "float64 \<Rightarrow> bool" where
  "IsNaN f \<longleftrightarrow> floatExponent f = 2047 \<and> floatFraction f \<noteq> 0"

text \<open>\<open>==\<close> on \<open>float64\<close>: NaN equals nothing and the two zeros are equal.\<close>

definition floatEq :: "float64 \<Rightarrow> float64 \<Rightarrow> bool" where
  "floatEq a b \<longleftrightarrow> \<not> IsNaN a \<and> \<not> IsNaN b \<and> (a = b \<or> take_bit 63 a = 0 \<and> take_bit 63 b = 0)"

section \<open>Types\<close>

record OutputReference =
  orefStepKey :: string
  orefName :: string

record OutputValue =
  ovValue :: anyValue
  ovSensitive :: bool
  ovRedacted :: bool

record conditionContext =
  cxSuccess :: bool
  cxFailure :: bool
  cxChannelName :: string
  cxEnvironmentIsProduction :: bool
  cxVariables :: "string \<rightharpoonup> string"
  cxOutputs :: "OutputReference \<rightharpoonup> OutputValue"

record conditionResult =
  crReady :: bool
  crValue :: bool
  crReason :: string

datatype leftOperand = LeftChannel | LeftVariable string | LeftOutput OutputReference

text \<open>The struct \<open>expression\<close>, whose fields \<open>left\<close>, \<open>operator\<close>, \<open>literal\<close>, \<open>variableKey\<close> and
  \<open>outputRef\<close> are set for comparisons only.\<close>

datatype expression =
    ExpressionEmpty | ExpressionAlways | ExpressionSuccess | ExpressionFailure
  | ExpressionEnvironmentProduction
  | ExpressionCompare leftOperand string anyValue

section \<open>Matchers\<close>

text \<open>\<open>\s\<close> of the regular expressions.\<close>

definition isRegexSpace :: "char \<Rightarrow> bool" where
  "isRegexSpace c \<longleftrightarrow> c \<in> {CHR 0x09, CHR 0x0A, CHR 0x0C, CHR 0x0D, CHR '' ''}"

text \<open>\<open>\s*(==|!=)\<close>\<close>

definition matchOperator :: "string \<Rightarrow> (string \<times> string) option" where
  "matchOperator s =
     (let s = dropWhile isRegexSpace s in
      if take 2 s = ''=='' \<or> take 2 s = ''!='' then Some (take 2 s, drop 2 s) else None)"

text \<open>\<open>\s*(.+)$\<close> at the end of a trimmed condition: it does not end in a space of the class, so the
  greedy \<open>\s*\<close> never has to give a character back.\<close>

definition matchRest :: "string \<Rightarrow> string option" where
  "matchRest s =
     (let s = dropWhile isRegexSpace s in
      if s \<noteq> [] \<and> CHR 0x0A \<notin> set s then Some s else None)"

text \<open>\<open>"([^"]+)"\<close>\<close>

definition matchQuoted :: "string \<Rightarrow> (string \<times> string) option" where
  "matchQuoted s =
     (case s of
        [] \<Rightarrow> None
      | c # cs \<Rightarrow>
          if c \<noteq> CHR ''\"'' then None
          else let body = takeWhile (\<lambda>c. c \<noteq> CHR ''\"'') cs; rest = dropWhile (\<lambda>c. c \<noteq> CHR ''\"'') cs in
            if body = [] \<or> rest = [] then None else Some (body, tl rest))"

definition matchWord :: "string \<Rightarrow> string \<Rightarrow> string option" where
  "matchWord w s = (if take (length w) s = w then Some (drop (length w) s) else None)"

definition functionPattern :: "string \<Rightarrow> expression option" where
  "functionPattern s =
     (if s = ''always()'' then Some ExpressionAlways
      else if s = ''success()'' then Some ExpressionSuccess
      else if s = ''failure()'' then Some ExpressionFailure
      else None)"

definition matchComparison :: "string \<Rightarrow> (string \<times> string) option" where
  "matchComparison s =
     (case matchOperator s of
        None \<Rightarrow> None
      | Some (operator, rest) \<Rightarrow>
     (case matchRest rest of None \<Rightarrow> None | Some literal \<Rightarrow> Some (operator, literal)))"

definition channelPattern :: "string \<Rightarrow> (string \<times> string) option" where
  "channelPattern s = (case matchWord ''channel'' s of None \<Rightarrow> None | Some rest \<Rightarrow> matchComparison rest)"

definition variablePattern :: "string \<Rightarrow> (string \<times> string \<times> string) option" where
  "variablePattern s =
     (case matchWord ''variable('' s of None \<Rightarrow> None
      | Some s \<Rightarrow> (case matchQuoted s of None \<Rightarrow> None
      | Some (key, s) \<Rightarrow> (case matchWord '')'' s of None \<Rightarrow> None
      | Some s \<Rightarrow> (case matchComparison s of None \<Rightarrow> None
      | Some (operator, literal) \<Rightarrow> Some (key, operator, literal)))))"

definition outputPattern :: "string \<Rightarrow> (string \<times> string \<times> string \<times> string) option" where
  "outputPattern s =
     (case matchWord ''output('' s of None \<Rightarrow> None
      | Some s \<Rightarrow> (case matchQuoted s of None \<Rightarrow> None
      | Some (step, s) \<Rightarrow> (case matchWord '','' (dropWhile isRegexSpace s) of None \<Rightarrow> None
      | Some s \<Rightarrow> (case matchQuoted (dropWhile isRegexSpace s) of None \<Rightarrow> None
      | Some (name, s) \<Rightarrow> (case matchWord '')'' s of None \<Rightarrow> None
      | Some s \<Rightarrow> (case matchComparison s of None \<Rightarrow> None
      | Some (operator, literal) \<Rightarrow> Some (step, name, operator, literal)))))))"

definition isBareChar :: "char \<Rightarrow> bool" where
  "isBareChar c \<longleftrightarrow>
     (let n = (of_char c :: nat) in
      65 \<le> n \<and> n \<le> 90 \<or> 97 \<le> n \<and> n \<le> 122 \<or> 48 \<le> n \<and> n \<le> 57 \<or> c \<in> {CHR ''_'', CHR ''.'', CHR '':'', CHR ''-''})"

definition bareLiteralPattern :: "string \<Rightarrow> bool" where
  "bareLiteralPattern s \<longleftrightarrow> s \<noteq> [] \<and> list_all isBareChar s"

section \<open>Literals\<close>

text \<open>The text between the quotes of a JSON string. Plain ASCII with the one-character escapes is
  decoded here; other text (\<open>\u\<close> escapes, bytes above 127) is decoded by \<open>vlUnquote\<close>.\<close>

fun unescape :: "string \<Rightarrow> string option" where
  "unescape [] = Some []"
| "unescape [c] = (if (of_char c :: nat) < 32 \<or> c = CHR ''\"'' \<or> c = CHR 0x5C then None else Some [c])"
| "unescape (c # d # s) =
     (if (of_char c :: nat) < 32 \<or> c = CHR ''\"'' then None
      else if c = CHR 0x5C then
        (case (if d = CHR ''\"'' then Some (CHR ''\"'') else if d = CHR 0x5C then Some (CHR 0x5C)
               else if d = CHR ''/'' then Some (CHR ''/'') else if d = CHR ''b'' then Some (CHR 0x08)
               else if d = CHR ''f'' then Some (CHR 0x0C) else if d = CHR ''n'' then Some (CHR 0x0A)
               else if d = CHR ''r'' then Some (CHR 0x0D) else if d = CHR ''t'' then Some (CHR 0x09) else None) of
           None \<Rightarrow> None
         | Some e \<Rightarrow> map_option ((#) e) (unescape s))
      else map_option ((#) c) (unescape (d # s)))"

definition unmarshalString :: "valueLib \<Rightarrow> string \<Rightarrow> string option" where
  "unmarshalString V s =
     (if isASCII s \<and> \<not> sublist (CHR 0x5C # ''u'') s then unescape (butlast (tl s)) else vlUnquote V s)"

definition parseLiteral :: "valueLib \<Rightarrow> string \<Rightarrow> anyValue result" where
  "parseLiteral V s =
     (let s = TrimSpace s in
      if length s \<ge> 2 \<and> hd s = CHR ''\"'' \<and> last s = CHR ''\"'' then
        (case unmarshalString V s of
           None \<Rightarrow> Inl (Errorf ''condition literal is invalid'')
         | Some decoded \<Rightarrow> Inr (AnyString decoded))
      else if s = ''true'' then Inr (AnyBool True)
      else if s = ''false'' then Inr (AnyBool False)
      else case (case vlParseFloat V s of
                   Some f \<Rightarrow> if \<not> IsInf f \<and> \<not> IsNaN f then Some f else None
                 | None \<Rightarrow> None) of
        Some f \<Rightarrow> Inr (AnyFloat f)
      | None \<Rightarrow> if bareLiteralPattern s then Inr (AnyString s)
                else Inl (Errorf ''condition literal is invalid''))"

section \<open>Parsing\<close>

definition parseCompare :: "valueLib \<Rightarrow> leftOperand \<Rightarrow> string \<Rightarrow> string \<Rightarrow> expression result" where
  "parseCompare V left operator literal =
     bindR (parseLiteral V literal) (\<lambda>v. Inr (ExpressionCompare left operator v))"

definition parseCondition :: "valueLib \<Rightarrow> string \<Rightarrow> expression result" where
  "parseCondition V condition =
     (let condition = TrimSpace condition in
      if condition = [] then Inr ExpressionEmpty
      else case functionPattern condition of
        Some e \<Rightarrow> Inr e
      | None \<Rightarrow>
      if condition = ''environment.isProduction'' then Inr ExpressionEnvironmentProduction
      else case channelPattern condition of
        Some (operator, literal) \<Rightarrow> parseCompare V LeftChannel operator literal
      | None \<Rightarrow>
     (case variablePattern condition of
        Some (key, operator, literal) \<Rightarrow>
          (let key = TrimSpace key in
           if key = [] then Inl (Errorf ''variable key is required'')
           else parseCompare V (LeftVariable key) operator literal)
      | None \<Rightarrow>
     (case outputPattern condition of
        Some (stepKey, name, operator, literal) \<Rightarrow>
          (let stepKey = TrimSpace stepKey; name = TrimSpace name in
           if stepKey = [] \<or> name = [] then Inl (Errorf ''output step key and name are required'')
           else if \<not> IsValidStepRunOutputName name then Inl (Errorf ''output name is invalid'')
           else parseCompare V (LeftOutput \<lparr>orefStepKey = stepKey, orefName = name\<rparr>) operator literal)
      | None \<Rightarrow> Inl (Errorf ''condition is not in the restricted expression language''))))"

definition ValidateCondition :: "valueLib \<Rightarrow> string \<Rightarrow> unit result" where
  "ValidateCondition V condition = bindR (parseCondition V condition) (\<lambda>_. Inr ())"

definition OutputReferences :: "valueLib \<Rightarrow> string \<Rightarrow> OutputReference list result" where
  "OutputReferences V condition =
     bindR (parseCondition V condition) (\<lambda>parsed.
       case parsed of ExpressionCompare (LeftOutput ref) _ _ \<Rightarrow> Inr [ref] | _ \<Rightarrow> Inr [])"

section \<open>Evaluation\<close>

definition resolveLeft :: "leftOperand \<Rightarrow> conditionContext \<Rightarrow> string + anyValue" where
  "resolveLeft left cx =
     (case left of
        LeftChannel \<Rightarrow> Inr (AnyString (cxChannelName cx))
      | LeftVariable key \<Rightarrow>
          (case cxVariables cx key of None \<Rightarrow> Inl ''variable is unavailable'' | Some v \<Rightarrow> Inr (AnyString v))
      | LeftOutput ref \<Rightarrow>
          (case cxOutputs cx ref of
             None \<Rightarrow> Inl ''output is unavailable''
           | Some out \<Rightarrow> if ovSensitive out \<or> ovRedacted out then Inl ''output is sensitive'' else Inr (ovValue out)))"

definition normalizeValue :: "valueLib \<Rightarrow> anyValue \<Rightarrow> anyValue" where
  "normalizeValue V v =
     (case v of
        AnyRawMessage s \<Rightarrow> (case vlUnmarshal V s of Some decoded \<Rightarrow> decoded | None \<Rightarrow> v)
      | AnyBytes s \<Rightarrow> (case vlUnmarshal V s of Some decoded \<Rightarrow> decoded | None \<Rightarrow> v)
      | AnyInt i \<Rightarrow> AnyFloat (vlIntToFloat V i)
      | AnyFloat32 f \<Rightarrow> AnyFloat (vlFloat32ToFloat V f)
      | _ \<Rightarrow> v)"

definition asFloat64 :: "valueLib \<Rightarrow> anyValue \<Rightarrow> float64 option" where
  "asFloat64 V v = (case v of AnyFloat f \<Rightarrow> Some f | AnyNumber s \<Rightarrow> vlParseFloat V s | _ \<Rightarrow> None)"

definition Sprint :: "valueLib \<Rightarrow> anyValue \<Rightarrow> string" where
  "Sprint V v =
     (case v of
        AnyString s \<Rightarrow> s
      | AnyBool b \<Rightarrow> if b then ''true'' else ''false''
      | AnyNumber s \<Rightarrow> s
      | AnyNil \<Rightarrow> ''<nil>''
      | _ \<Rightarrow> vlSprint V v)"

definition compareValues :: "valueLib \<Rightarrow> anyValue \<Rightarrow> anyValue \<Rightarrow> bool" where
  "compareValues V left right =
     (let left = normalizeValue V left; right = normalizeValue V right in
      case (asFloat64 V left, asFloat64 V right) of
        (Some l, Some r) \<Rightarrow> floatEq l r
      | _ \<Rightarrow> Sprint V left = Sprint V right)"

definition EvaluateCondition :: "valueLib \<Rightarrow> string \<Rightarrow> conditionContext \<Rightarrow> conditionResult result" where
  "EvaluateCondition V condition cx =
     bindR (parseCondition V condition) (\<lambda>parsed.
       case parsed of
         ExpressionEmpty \<Rightarrow> Inr \<lparr>crReady = True, crValue = True, crReason = []\<rparr>
       | ExpressionAlways \<Rightarrow> Inr \<lparr>crReady = True, crValue = True, crReason = []\<rparr>
       | ExpressionSuccess \<Rightarrow> Inr \<lparr>crReady = True, crValue = cxSuccess cx, crReason = []\<rparr>
       | ExpressionFailure \<Rightarrow> Inr \<lparr>crReady = True, crValue = cxFailure cx, crReason = []\<rparr>
       | ExpressionEnvironmentProduction \<Rightarrow>
           Inr \<lparr>crReady = True, crValue = cxEnvironmentIsProduction cx, crReason = []\<rparr>
       | ExpressionCompare left operator literal \<Rightarrow>
           (case resolveLeft left cx of
              Inl reason \<Rightarrow> Inr \<lparr>crReady = False, crValue = False, crReason = reason\<rparr>
            | Inr v \<Rightarrow>
                (let matched = compareValues V v literal;
                     matched = (if operator = ''!='' then \<not> matched else matched)
                 in Inr \<lparr>crReady = True, crValue = matched, crReason = []\<rparr>)))"

section \<open>Sensitive outputs\<close>

definition hiddenOutput :: "OutputValue \<Rightarrow> bool" where
  "hiddenOutput out \<longleftrightarrow> ovSensitive out \<or> ovRedacted out"

text \<open>Contexts that differ only in the values of hidden outputs.\<close>

definition sameVisible :: "conditionContext \<Rightarrow> conditionContext \<Rightarrow> bool" where
  "sameVisible a b \<longleftrightarrow>
     cxSuccess a = cxSuccess b \<and> cxFailure a = cxFailure b \<and> cxChannelName a = cxChannelName b
     \<and> cxEnvironmentIsProduction a = cxEnvironmentIsProduction b \<and> cxVariables a = cxVariables b
     \<and> (\<forall>k. rel_option (\<lambda>x y. hiddenOutput x = hiddenOutput y \<and> (\<not> hiddenOutput x \<longrightarrow> ovValue x = ovValue y))
           (cxOutputs a k) (cxOutputs b k))"

lemma resolveLeft_visible: "sameVisible a b \<Longrightarrow> resolveLeft left a = resolveLeft left b"
proof -
  assume v: "sameVisible a b"
  have "rel_option (\<lambda>x y. hiddenOutput x = hiddenOutput y \<and> (\<not> hiddenOutput x \<longrightarrow> ovValue x = ovValue y))
      (cxOutputs a k) (cxOutputs b k)" for k
    using v by (simp add: sameVisible_def)
  then have o:
    "(case cxOutputs a ref of None \<Rightarrow> Inl ''output is unavailable''
       | Some out \<Rightarrow> if ovSensitive out \<or> ovRedacted out then Inl ''output is sensitive'' else Inr (ovValue out))
     = (case cxOutputs b ref of None \<Rightarrow> Inl ''output is unavailable''
       | Some out \<Rightarrow> if ovSensitive out \<or> ovRedacted out then Inl ''output is sensitive'' else Inr (ovValue out))"
    for ref
    using \<open>\<And>k. rel_option _ (cxOutputs a k) (cxOutputs b k)\<close> [of ref]
    by (cases "cxOutputs a ref"; cases "cxOutputs b ref") (auto simp: hiddenOutput_def)
  show ?thesis
    using v o by (cases left) (simp_all add: resolveLeft_def sameVisible_def)
qed

text \<open>C17: conditions reveal nothing of sensitive or redacted outputs. Two contexts that differ only in the
  values of such outputs give every condition the same result, and a condition on such an
  output is never ready.\<close>

theorem conditions_hide_sensitive_outputs:
  assumes "sameVisible a b"
  shows "EvaluateCondition V condition a = EvaluateCondition V condition b
     \<and> (parseCondition V condition = Inr (ExpressionCompare (LeftOutput k) operator literal)
         \<and> cxOutputs a k = Some out \<and> hiddenOutput out \<longrightarrow>
         EvaluateCondition V condition a = Inr \<lparr>crReady = False, crValue = False, crReason = ''output is sensitive''\<rparr>)"
proof
  have "resolveLeft left a = resolveLeft left b" for left by (rule resolveLeft_visible [OF assms])
  moreover have "cxSuccess a = cxSuccess b" "cxFailure a = cxFailure b"
    "cxEnvironmentIsProduction a = cxEnvironmentIsProduction b"
    using assms by (simp_all add: sameVisible_def)
  ultimately have "EvaluateCondition V condition a = EvaluateCondition V condition b"
    if "parseCondition V condition = Inr parsed" for parsed
    using that by (cases parsed) (simp_all add: EvaluateCondition_def)
  then show "EvaluateCondition V condition a = EvaluateCondition V condition b"
    by (cases "parseCondition V condition") (simp_all add: EvaluateCondition_def)
  show "parseCondition V condition = Inr (ExpressionCompare (LeftOutput k) operator literal)
         \<and> cxOutputs a k = Some out \<and> hiddenOutput out \<longrightarrow>
         EvaluateCondition V condition a = Inr \<lparr>crReady = False, crValue = False, crReason = ''output is sensitive''\<rparr>"
    by (simp add: EvaluateCondition_def resolveLeft_def hiddenOutput_def)
qed

definition exValueLib :: valueLib where
  "exValueLib = \<lparr>vlParseFloat = (\<lambda>_. None), vlIntToFloat = (\<lambda>_. 0), vlFloat32ToFloat = (\<lambda>_. 0),
     vlSprint = (\<lambda>_. []), vlUnmarshal = (\<lambda>_. None), vlUnquote = (\<lambda>_. None)\<rparr>"

definition exContext :: "string \<Rightarrow> conditionContext" where
  "exContext secret = \<lparr>cxSuccess = True, cxFailure = False, cxChannelName = ''Stable'', cxEnvironmentIsProduction = True,
     cxVariables = Map.empty,
     cxOutputs = [\<lparr>orefStepKey = ''a'', orefName = ''k''\<rparr> \<mapsto> \<lparr>ovValue = AnyString secret, ovSensitive = True, ovRedacted = False\<rparr>]\<rparr>"

theorem conditions_hide_sensitive_outputs_witness:
  "EvaluateCondition exValueLib ''output(\"a\", \"k\") == \"x\"'' (exContext ''x'')
     = Inr \<lparr>crReady = False, crValue = False, crReason = ''output is sensitive''\<rparr>"
proof -
  have v: "sameVisible (exContext ''x'') (exContext ''y'')"
    by (simp add: sameVisible_def exContext_def hiddenOutput_def)
  have "parseCondition exValueLib ''output(\"a\", \"k\") == \"x\"''
     = Inr (ExpressionCompare (LeftOutput \<lparr>orefStepKey = ''a'', orefName = ''k''\<rparr>) ''=='' (AnyString ''x''))"
    by code_simp
  then show ?thesis
    by (intro mp [OF conjunct2 [OF conditions_hide_sensitive_outputs [OF v, where operator = "''==''"
          and k = "\<lparr>orefStepKey = ''a'', orefName = ''k''\<rparr>" and literal = "AnyString ''x''"
          and out = "\<lparr>ovValue = AnyString ''x'', ovSensitive = True, ovRedacted = False\<rparr>"]]] conjI)
      (simp_all add: exContext_def hiddenOutput_def)
qed

section \<open>Printing\<close>

definition plainChar :: "char \<Rightarrow> bool" where
  "plainChar c \<longleftrightarrow> 32 \<le> (of_char c :: nat) \<and> (of_char c :: nat) < 127 \<and> c \<noteq> CHR ''\"'' \<and> c \<noteq> CHR 0x5C"

definition showLiteral :: "anyValue \<Rightarrow> string" where
  "showLiteral v = (case v of AnyString s \<Rightarrow> CHR ''\"'' # s @ ''\"''
     | AnyBool b \<Rightarrow> if b then ''true'' else ''false'' | _ \<Rightarrow> [])"

definition showCondition :: "expression \<Rightarrow> string" where
  "showCondition e =
     (case e of
        ExpressionEmpty \<Rightarrow> [] | ExpressionAlways \<Rightarrow> ''always()'' | ExpressionSuccess \<Rightarrow> ''success()''
      | ExpressionFailure \<Rightarrow> ''failure()'' | ExpressionEnvironmentProduction \<Rightarrow> ''environment.isProduction''
      | ExpressionCompare left operator literal \<Rightarrow>
          (case left of LeftChannel \<Rightarrow> ''channel''
           | LeftVariable key \<Rightarrow> ''variable(\"'' @ key @ ''\")''
           | LeftOutput ref \<Rightarrow> ''output(\"'' @ orefStepKey ref @ ''\", \"'' @ orefName ref @ ''\")'')
          @ '' '' @ operator @ '' '' @ showLiteral literal)"

definition printableKey :: "string \<Rightarrow> bool" where
  "printableKey key \<longleftrightarrow> key \<noteq> [] \<and> TrimSpace key = key \<and> CHR ''\"'' \<notin> set key"

definition printable :: "expression \<Rightarrow> bool" where
  "printable e =
     (case e of
        ExpressionCompare left operator literal \<Rightarrow>
          (operator = ''=='' \<or> operator = ''!='')
          \<and> (case literal of AnyString s \<Rightarrow> list_all plainChar s | AnyBool _ \<Rightarrow> True | _ \<Rightarrow> False)
          \<and> (case left of LeftChannel \<Rightarrow> True | LeftVariable key \<Rightarrow> printableKey key
             | LeftOutput ref \<Rightarrow> printableKey (orefStepKey ref) \<and> printableKey (orefName ref)
                 \<and> IsValidStepRunOutputName (orefName ref))
      | _ \<Rightarrow> True)"

lemma plainCharD:
  assumes "plainChar c"
  shows "c \<noteq> CHR ''\"''" "c \<noteq> CHR 0x5C" "c \<noteq> CHR 0x0A" "\<not> (of_char c :: nat) < 32" "(of_char c :: nat) < 128"
  using assms by (auto simp: plainChar_def)

lemma unescape_plain: "list_all plainChar s \<Longrightarrow> unescape s = Some s"
  by (induction s rule: unescape.induct) (simp_all add: plainCharD)

lemma sublist_mem: "sublist (c # cs) s \<Longrightarrow> c \<in> set s"
  by (auto simp: sublist_def)

lemma parseLiteral_show:
  assumes "case literal of AnyString s \<Rightarrow> list_all plainChar s | AnyBool _ \<Rightarrow> True | _ \<Rightarrow> False"
  shows "parseLiteral V (showLiteral literal) = Inr literal"
proof (cases literal)
  case (AnyString s)
  then have p: "list_all plainChar s" using assms by simp
  let ?q = "CHR ''\"'' # s @ ''\"''"
  have "TrimSpace ?q = ?q" by (rule TrimSpace_graphic) (simp_all add: graphic_def)
  moreover have "isASCII ?q" using p by (simp add: isASCII_def list_all_iff plainCharD)
  moreover have "CHR 0x5C \<notin> set ?q" using p by (simp add: list_all_iff) (use plainCharD(2) in blast)
  then have "\<not> sublist (CHR 0x5C # ''u'') ?q" by (blast dest: sublist_mem)
  moreover have "unescape (butlast (tl ?q)) = Some s" by (simp only: list.sel butlast_snoc unescape_plain [OF p])
  ultimately have "unmarshalString V ?q = Some s" by (simp only: unmarshalString_def simp_thms if_True)
  with \<open>TrimSpace ?q = ?q\<close> show ?thesis
    by (simp add: AnyString showLiteral_def parseLiteral_def)
next
  case (AnyBool b)
  have "TrimSpace ''true'' = ''true''" "TrimSpace ''false'' = ''false''"
    by (rule TrimSpace_graphic; simp add: graphic_def)+
  then show ?thesis by (simp add: AnyBool showLiteral_def parseLiteral_def)
qed (use assms in auto)

lemma matchQuoted_show:
  assumes "key \<noteq> []" "CHR ''\"'' \<notin> set key"
  shows "matchQuoted (CHR ''\"'' # key @ CHR ''\"'' # s) = Some (key, s)"
proof -
  have "takeWhile (\<lambda>c. c \<noteq> CHR ''\"'') (key @ CHR ''\"'' # s) = key"
    "dropWhile (\<lambda>c. c \<noteq> CHR ''\"'') (key @ CHR ''\"'' # s) = CHR ''\"'' # s"
    using assms(2) by (induction key) auto
  then show ?thesis using assms(1) by (simp add: matchQuoted_def)
qed

text \<open>A shown literal starts and ends with a graphic character and has no line break.\<close>

lemma showLiteral_graphic:
  assumes "case literal of AnyString s \<Rightarrow> list_all plainChar s | AnyBool _ \<Rightarrow> True | _ \<Rightarrow> False"
  shows "showLiteral literal \<noteq> [] \<and> graphic (hd (showLiteral literal)) \<and> graphic (last (showLiteral literal))
     \<and> CHR 0x0A \<notin> set (showLiteral literal)"
proof (cases literal)
  case (AnyString s)
  then have "CHR 0x0A \<notin> set s" using assms plainCharD(3) by (simp add: list_all_iff) blast
  then show ?thesis by (simp add: AnyString showLiteral_def graphic_def)
qed (use assms in \<open>simp_all add: showLiteral_def graphic_def\<close>)

lemma graphic_not_space: "graphic c \<Longrightarrow> \<not> isRegexSpace c"
  by (auto simp: isRegexSpace_def graphic_def)

lemma matchComparison_show:
  assumes "operator = ''=='' \<or> operator = ''!=''"
    and "case literal of AnyString s \<Rightarrow> list_all plainChar s | AnyBool _ \<Rightarrow> True | _ \<Rightarrow> False"
  shows "matchComparison (CHR '' '' # operator @ CHR '' '' # showLiteral literal) = Some (operator, showLiteral literal)"
proof -
  note g = showLiteral_graphic [OF assms(2)]
  obtain c cs where l: "showLiteral literal = c # cs" using g by (cases "showLiteral literal") auto
  have "\<not> isRegexSpace c" using g graphic_not_space by (simp add: l)
  then have "matchRest (CHR '' '' # showLiteral literal) = Some (showLiteral literal)"
    using g by (simp add: matchRest_def l isRegexSpace_def [of "CHR '' ''"])
  moreover have "matchOperator (CHR '' '' # operator @ CHR '' '' # showLiteral literal)
      = Some (operator, CHR '' '' # showLiteral literal)"
    using assms(1) by (auto simp: matchOperator_def isRegexSpace_def)
  ultimately show ?thesis by (simp add: matchComparison_def)
qed

lemma showCondition_trimmed:
  assumes "printable (ExpressionCompare left operator literal)"
  shows "TrimSpace (showCondition (ExpressionCompare left operator literal))
    = showCondition (ExpressionCompare left operator literal)"
proof (rule TrimSpace_graphic)
  have g: "showLiteral literal \<noteq> []" "graphic (last (showLiteral literal))"
    using assms showLiteral_graphic [of literal] by (auto simp: printable_def)
  show "showCondition (ExpressionCompare left operator literal) \<noteq> []"
    "graphic (hd (showCondition (ExpressionCompare left operator literal)))"
    by (auto simp: showCondition_def graphic_def split: leftOperand.split)
  show "graphic (last (showCondition (ExpressionCompare left operator literal)))"
    using g by (simp add: showCondition_def)
qed



end
