(* ===== verification/Step_Graph.thy ===== *)
theory Step_Graph
  imports Task_Types
begin

text \<open>
  The cycle check of step dependencies, which internal/db/deployment_processes.go, internal/db/runbooks.go,
  api/deployment_process.go and api/runbook.go each contain: a depth first search with the sets \<open>visiting\<close> and
  \<open>visited\<close>. The map \<open>graph\<close> is an association list in the order in which Go iterates over it. The
  search is shown to end and to answer true exactly for graphs with a cycle, hence in every order.
  A call of \<open>visit\<close> that returns false leaves \<open>visiting\<close> as it found it, and after true nothing
  reads the sets, so \<open>visiting\<close> is passed down and only \<open>visited\<close> is handed on.
\<close>

type_synonym stepGraph = "(string \<times> string list) list"

definition graphGet :: "stepGraph \<Rightarrow> string \<Rightarrow> string list" where
  "graphGet graph key = (case map_of graph key of None \<Rightarrow> [] | Some deps \<Rightarrow> deps)"

lemma graphGet_empty: "key \<notin> fst ` set graph \<Longrightarrow> graphGet graph key = []"
  by (metis graphGet_def map_of_eq_None_iff option.simps(4))

lemma graphGet_key: "d \<in> set (graphGet graph key) \<Longrightarrow> key \<in> fst ` set graph"
  using graphGet_empty [of key graph] by fastforce

function visit :: "stepGraph \<Rightarrow> string list \<Rightarrow> string list \<Rightarrow> string \<Rightarrow> bool \<times> string list"
  and visitDependencies :: "stepGraph \<Rightarrow> string list \<Rightarrow> string list \<Rightarrow> string list \<Rightarrow> bool \<times> string list" where
  "visit graph visiting visited key =
     (if key \<in> set visited then (False, visited)
      else if key \<in> set visiting then (True, visited)
      else let (found, visited) = visitDependencies graph (key # visiting) visited (graphGet graph key) in
        if found then (True, visited) else (False, key # visited))"
| "visitDependencies graph visiting visited [] = (False, visited)"
| "visitDependencies graph visiting visited (dependency # deps) =
     (let (found, visited) = visit graph visiting visited dependency in
      if found then (True, visited) else visitDependencies graph visiting visited deps)"
  by pat_completeness auto

definition remaining :: "stepGraph \<Rightarrow> string list \<Rightarrow> nat" where
  "remaining graph visiting = card (fst ` set graph - set visiting)"

lemma remaining_Cons: "remaining graph (key # visiting) \<le> remaining graph visiting"
  by (auto simp: remaining_def intro: card_mono)

lemma remaining_visit:
  assumes "key \<notin> set visiting" "key \<in> fst ` set graph"
  shows "remaining graph (key # visiting) < remaining graph visiting"
  using assms unfolding remaining_def by (intro psubset_card_mono) auto

termination visit
proof (relation "measures
    [\<lambda>x. case x of Inl (graph, visiting, visited, key) \<Rightarrow> remaining graph visiting
            | Inr (graph, visiting, visited, deps) \<Rightarrow> remaining graph visiting,
     \<lambda>x. case x of Inl _ \<Rightarrow> 1 | Inr (graph, visiting, visited, deps) \<Rightarrow> 2 * length deps]", simp)
  fix graph :: stepGraph and visiting visited :: "string list" and key :: string
  assume "key \<notin> set visiting"
  then show "(Inr (graph, key # visiting, visited, graphGet graph key), Inl (graph, visiting, visited, key)) \<in> measures
    [\<lambda>x. case x of Inl (graph, visiting, visited, key) \<Rightarrow> remaining graph visiting
            | Inr (graph, visiting, visited, deps) \<Rightarrow> remaining graph visiting,
     \<lambda>x. case x of Inl _ \<Rightarrow> 1 | Inr (graph, visiting, visited, deps) \<Rightarrow> 2 * length deps]"
    using remaining_visit [of key visiting graph] graphGet_empty [of key graph] remaining_Cons [of graph key visiting]
    by (cases "key \<in> fst ` set graph") auto
qed auto

declare visit.simps [simp del]

text \<open>The loop over all keys; the first argument is the part of the map that is still to be iterated.\<close>

fun visitAll :: "stepGraph \<Rightarrow> string list \<Rightarrow> string list \<Rightarrow> bool" where
  "visitAll graph visited [] = False"
| "visitAll graph visited (key # keys) =
     (let (found, visited) = visit graph [] visited key in if found then True else visitAll graph visited keys)"

definition hasCycle :: "stepGraph \<Rightarrow> bool" where
  "hasCycle graph = visitAll graph [] (map fst graph)"

section \<open>The relation of a graph\<close>

definition dependsOn :: "stepGraph \<Rightarrow> (string \<times> string) set" where
  "dependsOn graph = {(key, dependency). dependency \<in> set (graphGet graph key)}"

text \<open>Nothing on a cycle is reachable from the step.\<close>

definition settled :: "stepGraph \<Rightarrow> string \<Rightarrow> bool" where
  "settled graph key \<longleftrightarrow> (\<forall>c. (key, c) \<in> (dependsOn graph)\<^sup>* \<longrightarrow> (c, c) \<notin> (dependsOn graph)\<^sup>+)"

lemma settled_step:
  assumes "\<And>d. d \<in> set (graphGet graph key) \<Longrightarrow> settled graph d"
  shows "settled graph key"
  unfolding settled_def
proof (intro allI impI notI)
  fix c assume c: "(key, c) \<in> (dependsOn graph)\<^sup>*" "(c, c) \<in> (dependsOn graph)\<^sup>+"
  then have "(key, c) \<in> (dependsOn graph)\<^sup>+" by (rule rtrancl_trancl_trancl)
  then obtain d where d: "(key, d) \<in> dependsOn graph" "(d, c) \<in> (dependsOn graph)\<^sup>*"
    using tranclD by metis
  then have "settled graph d" using assms by (simp add: dependsOn_def)
  then show False using d(2) c(2) by (simp add: settled_def)
qed

text \<open>The keys in \<open>visiting\<close> lead to the key at hand.\<close>

lemma visit_correct:
  "\<lbrakk>visit graph visiting visited key = (found, visited'); \<forall>k \<in> set visited. settled graph k;
    \<forall>k \<in> set visiting. (k, key) \<in> (dependsOn graph)\<^sup>+\<rbrakk> \<Longrightarrow>
     if found then \<exists>c. (c, c) \<in> (dependsOn graph)\<^sup>+
     else (\<forall>k \<in> set visited'. settled graph k) \<and> insert key (set visited) \<subseteq> set visited'"
  "\<lbrakk>visitDependencies graph visiting visited deps = (found, visited'); \<forall>k \<in> set visited. settled graph k;
    \<forall>k \<in> set visiting. \<forall>d \<in> set deps. (k, d) \<in> (dependsOn graph)\<^sup>+\<rbrakk> \<Longrightarrow>
     if found then \<exists>c. (c, c) \<in> (dependsOn graph)\<^sup>+
     else (\<forall>k \<in> set visited'. settled graph k) \<and> set deps \<union> set visited \<subseteq> set visited'"
proof (induction graph visiting visited key and graph visiting visited deps
    arbitrary: found visited' and found visited' rule: visit_visitDependencies.induct)
  case (1 graph visiting visited key)
  show ?case
  proof (cases "key \<in> set visited \<or> key \<in> set visiting")
    case True
    then show ?thesis using 1(2-4) by (auto simp: visit.simps split: if_splits)
  next
    case False
    obtain f vs where f: "visitDependencies graph (key # visiting) visited (graphGet graph key) = (f, vs)" by fastforce
    have path: "\<forall>k \<in> set (key # visiting). \<forall>d \<in> set (graphGet graph key). (k, d) \<in> (dependsOn graph)\<^sup>+"
    proof (intro ballI)
      fix k d assume k: "k \<in> set (key # visiting)" and "d \<in> set (graphGet graph key)"
      then have d: "(key, d) \<in> dependsOn graph" by (simp add: dependsOn_def)
      show "(k, d) \<in> (dependsOn graph)\<^sup>+"
      proof (cases "k = key")
        case True
        then show ?thesis using d by auto
      next
        case False
        then have "(k, key) \<in> (dependsOn graph)\<^sup>+" using k 1(4) by auto
        then show ?thesis using d by (rule trancl_into_trancl)
      qed
    qed
    have IH: "if f then \<exists>c. (c, c) \<in> (dependsOn graph)\<^sup>+
      else (\<forall>k \<in> set vs. settled graph k) \<and> set (graphGet graph key) \<union> set visited \<subseteq> set vs"
      using 1(1) [OF _ _ f 1(3) path] False by simp
    have r: "(found, visited') = (if f then (True, vs) else (False, key # vs))"
      using 1(2) False by (simp add: visit.simps f)
    show ?thesis
    proof (cases f)
      case True
      then show ?thesis using IH r by simp
    next
      case nf: False
      then have vs: "\<forall>k \<in> set vs. settled graph k" "set (graphGet graph key) \<union> set visited \<subseteq> set vs"
        using IH by simp_all
      have "settled graph key" by (rule settled_step) (use vs in blast)
      moreover have "\<not> found" "visited' = key # vs" using r nf by simp_all
      ultimately show ?thesis using vs by simp blast
    qed
  qed
next
  case (2 graph visiting visited)
  then show ?case by auto
next
  case (3 graph visiting visited dependency deps)
  obtain f vs where f: "visit graph visiting visited dependency = (f, vs)" by fastforce
  have IH: "if f then \<exists>c. (c, c) \<in> (dependsOn graph)\<^sup>+
    else (\<forall>k \<in> set vs. settled graph k) \<and> insert dependency (set visited) \<subseteq> set vs"
    using 3(1) [OF f 3(4)] 3(5) by auto
  show ?case
  proof (cases f)
    case True
    then show ?thesis using IH 3(3) by (simp add: f)
  next
    case False
    then have "visitDependencies graph visiting vs deps = (found, visited')" using 3(3) by (simp add: f)
    moreover have "\<forall>k \<in> set vs. settled graph k" using IH False by simp
    ultimately show ?thesis using 3(2) [OF f [symmetric] refl] False IH 3(5) by (auto split: if_splits)
  qed
qed

lemma visitAll_correct:
  assumes "\<forall>k \<in> set visited. settled graph k"
  shows "if visitAll graph visited keys then \<exists>c. (c, c) \<in> (dependsOn graph)\<^sup>+ else \<forall>k \<in> set keys. settled graph k"
  using assms
proof (induction keys arbitrary: visited)
  case (Cons key keys)
  obtain f vs where f: "visit graph [] visited key = (f, vs)" by fastforce
  have v: "if f then \<exists>c. (c, c) \<in> (dependsOn graph)\<^sup>+
    else (\<forall>k \<in> set vs. settled graph k) \<and> insert key (set visited) \<subseteq> set vs"
    using visit_correct(1) [OF f Cons.prems] by simp
  show ?case
  proof (cases f)
    case True
    then show ?thesis using v by (simp add: f)
  next
    case False
    then show ?thesis using v Cons.IH [of vs] by (auto simp: f split: if_splits)
  qed
qed simp

lemma hasCycle_iff: "hasCycle graph \<longleftrightarrow> \<not> acyclic (dependsOn graph)"
proof (cases "hasCycle graph")
  case True
  then show ?thesis using visitAll_correct [of "[]" graph "map fst graph"] by (auto simp: hasCycle_def acyclic_def)
next
  case False
  have "(c, c) \<notin> (dependsOn graph)\<^sup>+" for c
  proof
    assume c: "(c, c) \<in> (dependsOn graph)\<^sup>+"
    then obtain d where "(c, d) \<in> dependsOn graph" by (meson tranclD)
    then have "c \<in> fst ` set graph" using graphGet_key by (auto simp: dependsOn_def)
    then have "settled graph c" using False visitAll_correct [of "[]" graph "map fst graph"] by (auto simp: hasCycle_def)
    then show False using c by (simp add: settled_def)
  qed
  with False show ?thesis by (simp add: acyclic_def)
qed

text \<open>C21: the cycle check of step dependencies is exact. It ends for every graph, also for one with
  dependencies that are no steps, and answers true exactly when some step depends on itself through others; hence the
  answer is the same in every order in which Go iterates over the map.\<close>

theorem cycle_check_exact:
  "(hasCycle graph \<longleftrightarrow> (\<exists>key. (key, key) \<in> (dependsOn graph)\<^sup>+))
   \<and> (distinct (map fst graph) \<and> mset graph = mset graph' \<longrightarrow> hasCycle graph' = hasCycle graph)"
proof (intro conjI impI)
  show "hasCycle graph \<longleftrightarrow> (\<exists>key. (key, key) \<in> (dependsOn graph)\<^sup>+)" by (auto simp: hasCycle_iff acyclic_def)
  assume g: "distinct (map fst graph) \<and> mset graph = mset graph'"
  then have "map_of graph = map_of graph'"
    by (metis map_of_eqI mset_eq_setD mset_eq_imp_distinct_iff mset_map set_map weak_map_of_SomeI map_of_inject_set)
  then show "hasCycle graph' = hasCycle graph"
    by (simp add: hasCycle_iff dependsOn_def graphGet_def)
qed

theorem cycle_check_exact_witness:
  "hasCycle [(''a'', [''b'']), (''b'', [''c'', ''x'']), (''c'', [''a''])]
   \<and> \<not> hasCycle [(''b'', [''a'']), (''a'', [])]"
proof -
  have d: "hasCycle [(''b'', [''a'']), (''a'', [])] = hasCycle [(''a'', []), (''b'', [''a''])]"
    using cycle_check_exact [of "[(''a'', []), (''b'', [''a''])]" "[(''b'', [''a'']), (''a'', [])]"] by simp
  have "\<not> hasCycle [(''a'', []), (''b'', [''a''])]" "hasCycle [(''a'', [''b'']), (''b'', [''c'', ''x'']), (''c'', [''a''])]"
    by code_simp+
  with d show ?thesis by simp
qed

end
