(* ===== verification/Process_Revisions.thy ===== *)
theory Process_Revisions
  imports Action_Registry Step_Conditions Step_Graph Lease_Steps
begin

text \<open>
  The validation and normalization of deployment processes, runbooks and their revisions: in the requests
  (api/deployment_process.go, api/runbook.go) and in front of the writes (internal/db/deployment_processes.go,
  internal/db/runbooks.go). The four functions over the steps of a revision repeat each other; what they
  share is written once here, with the error constructor as an argument, and each is composed of it.
\<close>

type_synonym fail = "string \<Rightarrow> error"

section \<open>Steps\<close>

definition trimStep :: "'a stepFields_scheme \<Rightarrow> 'a stepFields_scheme" where
  "trimStep step = step\<lparr>stKey := TrimSpace (stKey step), stName := TrimSpace (stName step),
     stActionType := TrimSpace (stActionType step), stExecutionLocation := TrimSpace (stExecutionLocation step),
     stCondition := TrimSpace (stCondition step), stFailureMode := TrimSpace (stFailureMode step)\<rparr>"

definition trimDependencies :: "'a stepFields_scheme \<Rightarrow> 'a stepFields_scheme" where
  "trimDependencies step = step\<lparr>stDependencies := map TrimSpace (stDependencies step)\<rparr>"

text \<open>The checks of single fields; \<open>attempts\<close> and \<open>interval\<close> are the names of the retry fields.\<close>

definition requireFields :: "fail \<Rightarrow> string \<Rightarrow> string \<Rightarrow> 'a stepFields_scheme \<Rightarrow> unit result" where
  "requireFields bad attempts interval step =
     (if stKey step = [] then Inl (bad ''step key is required'')
      else if stName step = [] then Inl (bad ''step name is required'')
      else if stActionType step = [] then Inl (bad ''step actionType is required'')
      else if stExecutionLocation step = [] then Inl (bad ''step executionLocation is required'')
      else if stSortOrder step < 0 then Inl (bad ''step sortOrder must be non-negative'')
      else if stTimeoutSeconds step < 0 then Inl (bad ''step timeoutSeconds must be non-negative'')
      else if stRetryMaxAttempts step < 0 then Inl (bad (''step '' @ attempts @ '' must be non-negative''))
      else if stRetryIntervalSeconds step < 0 then Inl (bad (''step '' @ interval @ '' must be non-negative''))
      else Inr ())"

definition defaultFields :: "'a stepFields_scheme \<Rightarrow> 'a stepFields_scheme" where
  "defaultFields step = step\<lparr>stFailureMode := (if stFailureMode step = [] then ''fail'' else stFailureMode step),
     stInputBindings := (case stInputBindings step of None \<Rightarrow> Some [] | Some m \<Rightarrow> Some m)\<rparr>"

definition trimRequiredStringList :: "fail \<Rightarrow> string \<Rightarrow> string list \<Rightarrow> string list result" where
  "trimRequiredStringList bad field strings =
     mapR (\<lambda>s. if TrimSpace s = [] then Inl (bad (field @ '' must not contain empty values'')) else Inr (TrimSpace s)) strings"

definition normalizeDeploymentProcessStringList :: "string \<Rightarrow> string list \<Rightarrow> string list result" where
  "normalizeDeploymentProcessStringList field strings = trimRequiredStringList ErrBadRequest field strings"

definition normalizeRunbookStringList :: "string \<Rightarrow> string list \<Rightarrow> string list result" where
  "normalizeRunbookStringList field strings = trimRequiredStringList ErrBadRequest field strings"

fun uniqueUUIDs :: "string \<Rightarrow> uuid list \<Rightarrow> uuid list \<Rightarrow> unit result" where
  "uniqueUUIDs field seen [] = Inr ()"
| "uniqueUUIDs field seen (u # us) =
     (if u = uuid_Nil then Inl (ErrBadRequest (field @ '' must not contain empty IDs''))
      else if u \<in> set seen then Inl (ErrBadRequest (field @ '' must be unique''))
      else uniqueUUIDs field (u # seen) us)"

definition normalizeDeploymentProcessUUIDList :: "uuid list \<Rightarrow> string \<Rightarrow> unit result" where
  "normalizeDeploymentProcessUUIDList us field = uniqueUUIDs field [] us"

definition containsEmptyUUID :: "uuid list \<Rightarrow> bool" where
  "containsEmptyUUID us = list_ex (\<lambda>u. u = uuid_Nil) us"

text \<open>
  The loop over the steps: \<open>pre\<close> is what happens to a step before the checks of unique keys and sort orders,
  and \<open>post\<close> what happens after them; \<open>keys\<close> and \<open>sortOrders\<close> are the maps.
\<close>

fun normalizeSteps ::
    "fail \<Rightarrow> ('a stepFields_scheme \<Rightarrow> 'a stepFields_scheme result) \<Rightarrow>
     ('a stepFields_scheme \<Rightarrow> 'a stepFields_scheme result) \<Rightarrow> string list \<Rightarrow> int list \<Rightarrow>
     'a stepFields_scheme list \<Rightarrow> 'a stepFields_scheme list result" where
  "normalizeSteps bad pre post keys sortOrders [] = Inr []"
| "normalizeSteps bad pre post keys sortOrders (step # steps) =
     bindR (pre step) (\<lambda>step.
       if stKey step \<in> set keys then Inl (bad ''step keys must be unique'')
       else if stSortOrder step \<in> set sortOrders then Inl (bad ''step sortOrder values must be unique'')
       else bindR (post step) (\<lambda>step'.
         bindR (normalizeSteps bad pre post (stKey step # keys) (stSortOrder step # sortOrders) steps)
           (\<lambda>steps. Inr (step' # steps))))"

section \<open>Dependencies\<close>

fun checkDependencies :: "fail \<Rightarrow> (string \<Rightarrow> string) \<Rightarrow> string \<Rightarrow> string list \<Rightarrow> string list \<Rightarrow> string list \<Rightarrow> unit result" where
  "checkDependencies bad uq key keys seen [] = Inr ()"
| "checkDependencies bad uq key keys seen (dependency # deps) =
     (if dependency = [] then Inl (bad ''step dependency is required'')
      else if dependency = key then Inl (bad ''step cannot depend on itself'')
      else if dependency \<in> set seen then Inl (bad ''step dependencies must be unique'')
      else if dependency \<notin> set keys then Inl (bad (''step dependency '' @ Quote uq dependency @ '' does not exist''))
      else checkDependencies bad uq key keys (dependency # seen) deps)"

text \<open>The loop over the output references of the condition: it returns the dependencies with the steps
  referred to added.\<close>

fun addReferences :: "fail \<Rightarrow> (string \<Rightarrow> string) \<Rightarrow> string list \<Rightarrow> string list \<Rightarrow> OutputReference list \<Rightarrow> string list result" where
  "addReferences bad uq keys dependencies [] = Inr dependencies"
| "addReferences bad uq keys dependencies (ref # refs) =
     (if orefStepKey ref \<notin> set keys
        then Inl (bad (''step condition output reference '' @ Quote uq (orefStepKey ref) @ '' does not exist''))
      else if orefStepKey ref \<in> set dependencies then addReferences bad uq keys dependencies refs
      else addReferences bad uq keys (dependencies @ [orefStepKey ref]) refs)"

definition conditionInvalid :: "fail \<Rightarrow> (string \<Rightarrow> string) \<Rightarrow> 'a stepFields_scheme \<Rightarrow> error \<Rightarrow> error" where
  "conditionInvalid bad uq step e =
     bad (''step '' @ Quote uq (stKey step) @ '' condition is invalid: '' @ errorString e)"

text \<open>The entry of \<open>graph\<close> for a step, without and with the references of its condition.\<close>

definition plainEntry :: "fail \<Rightarrow> (string \<Rightarrow> string) \<Rightarrow> string list \<Rightarrow> 'a stepFields_scheme \<Rightarrow> (string \<times> string list) result" where
  "plainEntry bad uq keys step =
     bindR (checkDependencies bad uq (stKey step) keys [] (stDependencies step)) (\<lambda>_.
       Inr (stKey step, stDependencies step))"

definition conditionEntry ::
    "fail \<Rightarrow> (string \<Rightarrow> string) \<Rightarrow> valueLib \<Rightarrow> string list \<Rightarrow> 'a stepFields_scheme \<Rightarrow> (string \<times> string list) result" where
  "conditionEntry bad uq V keys step =
     bindR (checkDependencies bad uq (stKey step) keys [] (stDependencies step)) (\<lambda>_.
       case OutputReferences V (stCondition step) of
         Inl e \<Rightarrow> Inl (conditionInvalid bad uq step e)
       | Inr refs \<Rightarrow> bindR (addReferences bad uq keys (stDependencies step) refs) (\<lambda>deps. Inr (stKey step, deps)))"

definition refuseCycle :: "fail \<Rightarrow> stepGraph \<Rightarrow> unit result" where
  "refuseCycle bad graph = (if hasCycle graph then Inl (bad ''step dependencies must not contain cycles'') else Inr ())"

definition validateDeploymentProcessStepGraph ::
    "(string \<Rightarrow> string) \<Rightarrow> DeploymentProcessStep list \<Rightarrow> string list \<Rightarrow> unit result" where
  "validateDeploymentProcessStepGraph uq steps keys =
     bindR (mapR (plainEntry ErrBadRequest uq keys) steps) (refuseCycle ErrBadRequest)"

definition validateRunbookStepGraph ::
    "(string \<Rightarrow> string) \<Rightarrow> valueLib \<Rightarrow> RunbookStep list \<Rightarrow> string list \<Rightarrow> unit result" where
  "validateRunbookStepGraph uq V steps keys =
     bindR (mapR (conditionEntry ErrBadRequest uq V keys) steps) (refuseCycle ErrBadRequest)"

definition validateDeploymentProcessStepDependencies ::
    "(string \<Rightarrow> string) \<Rightarrow> valueLib \<Rightarrow> DeploymentProcessStepRequest list \<Rightarrow> string list \<Rightarrow> unit result" where
  "validateDeploymentProcessStepDependencies uq V steps keys =
     bindR (mapR (conditionEntry ErrValidationFailed uq V keys) steps) (refuseCycle ErrValidationFailed)"

definition validateRunbookStepDependencies ::
    "(string \<Rightarrow> string) \<Rightarrow> valueLib \<Rightarrow> RunbookStepRequest list \<Rightarrow> string list \<Rightarrow> unit result" where
  "validateRunbookStepDependencies uq V steps keys =
     bindR (mapR (conditionEntry ErrValidationFailed uq V keys) steps) (refuseCycle ErrValidationFailed)"

section \<open>Stored revisions\<close>

definition normalizeDeploymentProcess :: "DeploymentProcess \<Rightarrow> DeploymentProcess result" where
  "normalizeDeploymentProcess process =
     (let process = process\<lparr>dprName := TrimSpace (dprName process)\<rparr> in
      if dprName process = [] then Inl (ErrBadRequest ''name is required'')
      else if dprOrganizationID process = uuid_Nil then Inl (ErrBadRequest ''organizationId is required'')
      else if dprApplicationID process = uuid_Nil then Inl (ErrBadRequest ''applicationId is required'')
      else if dprSortOrder process < 0 then Inl (ErrBadRequest ''sortOrder must be non-negative'')
      else Inr process)"

definition normalizeRunbook :: "Runbook \<Rightarrow> Runbook result" where
  "normalizeRunbook runbook =
     (let runbook = runbook\<lparr>rbkName := TrimSpace (rbkName runbook), rbkDescription := TrimSpace (rbkDescription runbook)\<rparr> in
      if rbkName runbook = [] then Inl (ErrBadRequest ''name is required'')
      else if rbkOrganizationID runbook = uuid_Nil then Inl (ErrBadRequest ''organizationId is required'')
      else if rbkApplicationID runbook = uuid_Nil then Inl (ErrBadRequest ''applicationId is required'')
      else if rbkSortOrder runbook < 0 then Inl (ErrBadRequest ''sortOrder must be non-negative'')
      else Inr runbook)"

definition normalizeProcessStep :: "DeploymentProcessStep \<Rightarrow> DeploymentProcessStep result" where
  "normalizeProcessStep step =
     (let step = trimStep step in
      bindR (requireFields ErrBadRequest ''retry_max_attempts'' ''retry_interval_seconds'' step) (\<lambda>_.
        let step = defaultFields step in
        bindR (normalizeDeploymentProcessStringList ''step targetTags'' (stTargetTags step)) (\<lambda>tags.
        bindR (normalizeDeploymentProcessStringList ''step requiredPermissions'' (stRequiredPermissions step)) (\<lambda>permissions.
        bindR (normalizeDeploymentProcessUUIDList (stChannelIDs step) ''step channelIds'') (\<lambda>_.
        bindR (normalizeDeploymentProcessUUIDList (stEnvironmentIDs step) ''step environmentIds'') (\<lambda>_.
          Inr (trimDependencies (step\<lparr>stTargetTags := tags, stRequiredPermissions := permissions\<rparr>))))))))"

definition normalizeDeploymentProcessRevision ::
    "schemaLib \<Rightarrow> DeploymentProcessRevision \<Rightarrow> DeploymentProcessRevision result" where
  "normalizeDeploymentProcessRevision S revision =
     (let revision = revision\<lparr>drvDescription := TrimSpace (drvDescription revision)\<rparr> in
      if drvOrganizationID revision = uuid_Nil then Inl (ErrBadRequest ''organizationId is required'')
      else if drvDeploymentProcessID revision = uuid_Nil then Inl (ErrBadRequest ''deploymentProcessId is required'')
      else if drvSteps revision = [] then Inl (ErrBadRequest ''at least one step is required'')
      else bindR (normalizeSteps ErrBadRequest normalizeProcessStep Inr [] [] (drvSteps revision)) (\<lambda>steps.
        bindR (ValidateSteps S DefaultRegistry steps) (\<lambda>_.
        bindR (validateDeploymentProcessStepGraph (slQuote S) steps (map stKey steps)) (\<lambda>_.
          Inr (revision\<lparr>drvSteps := steps\<rparr>)))))"

definition normalizeRunbookStep :: "RunbookStep \<Rightarrow> RunbookStep result" where
  "normalizeRunbookStep step =
     (let step = trimStep step in
      bindR (requireFields ErrBadRequest ''retry_max_attempts'' ''retry_interval_seconds'' step) (\<lambda>_.
        let step = defaultFields step in
        bindR (normalizeRunbookStringList ''step requiredPermissions'' (stRequiredPermissions step)) (\<lambda>permissions.
          Inr (trimDependencies (step\<lparr>stRequiredPermissions := permissions\<rparr>)))))"

definition checkCondition :: "fail \<Rightarrow> (string \<Rightarrow> string) \<Rightarrow> valueLib \<Rightarrow> 'a stepFields_scheme \<Rightarrow> 'a stepFields_scheme result" where
  "checkCondition bad uq V step =
     (case ValidateCondition V (stCondition step) of Inl e \<Rightarrow> Inl (conditionInvalid bad uq step e) | Inr _ \<Rightarrow> Inr step)"

definition normalizeRunbookRevision :: "schemaLib \<Rightarrow> valueLib \<Rightarrow> RunbookRevision \<Rightarrow> RunbookRevision result" where
  "normalizeRunbookRevision S V revision =
     (let revision = revision\<lparr>rrvDescription := TrimSpace (rrvDescription revision)\<rparr> in
      if rrvOrganizationID revision = uuid_Nil then Inl (ErrBadRequest ''organizationId is required'')
      else if rrvRunbookID revision = uuid_Nil then Inl (ErrBadRequest ''runbookId is required'')
      else if rrvSteps revision = [] then Inl (ErrBadRequest ''at least one step is required'')
      else bindR (normalizeSteps ErrBadRequest normalizeRunbookStep (checkCondition ErrBadRequest (slQuote S) V) [] []
                    (rrvSteps revision)) (\<lambda>steps.
        bindR (ValidateRunbookSteps S DefaultRegistry steps) (\<lambda>_.
        bindR (validateRunbookStepGraph (slQuote S) V steps (map stKey steps)) (\<lambda>_.
          Inr (revision\<lparr>rrvSteps := steps\<rparr>)))))"

section \<open>Requests\<close>

record CreateUpdateDeploymentProcessRequest =
  cprApplicationID :: uuid
  cprName :: string
  cprDescription :: string
  cprSortOrder :: int

text \<open>\<open>CreateUpdateRunbookRequest\<close> has the same fields and the same \<open>Validate\<close>.\<close>

definition validateProcessRequest ::
    "CreateUpdateDeploymentProcessRequest \<Rightarrow> CreateUpdateDeploymentProcessRequest result" where
  "validateProcessRequest r =
     (let r = r\<lparr>cprName := TrimSpace (cprName r)\<rparr> in
      if cprName r = [] then Inl (ErrValidationFailed ''name is required'')
      else if cprApplicationID r = uuid_Nil then Inl (ErrValidationFailed ''applicationId is required'')
      else if cprSortOrder r < 0 then Inl (ErrValidationFailed ''sortOrder must be non-negative'')
      else Inr r)"

record CreateDeploymentProcessRevisionRequest =
  cdrDescription :: string
  cdrSteps :: "DeploymentProcessStepRequest list"

record CreateRunbookRevisionRequest =
  crrDescription :: string
  crrSteps :: "RunbookStepRequest list"

definition trimRequestStep :: "'a stepFields_scheme \<Rightarrow> 'a stepFields_scheme" where
  "trimRequestStep step = trimDependencies (trimStep step)"

definition validateStepInput :: "schemaLib \<Rightarrow> 'a stepFields_scheme \<Rightarrow> 'a stepFields_scheme result" where
  "validateStepInput S step =
     (case ValidateInput S DefaultRegistry (stActionType step) (stInputBindings step) of
        Inl e \<Rightarrow> Inl (ErrValidationFailed (''step '' @ Quote (slQuote S) (stKey step) @ '' ''
                   @ TrimPrefix (errorString e) ''bad request: ''))
      | Inr _ \<Rightarrow> Inr step)"

definition validateRequestInput :: "schemaLib \<Rightarrow> valueLib \<Rightarrow> 'a stepFields_scheme \<Rightarrow> 'a stepFields_scheme result" where
  "validateRequestInput S V step =
     bindR (validateStepInput S (defaultFields step)) (checkCondition ErrValidationFailed (slQuote S) V)"

definition validateProcessStepRequest :: "DeploymentProcessStepRequest \<Rightarrow> DeploymentProcessStepRequest result" where
  "validateProcessStepRequest step =
     (let step = trimRequestStep step in
      bindR (requireFields ErrValidationFailed ''retryPolicy.maxAttempts'' ''retryPolicy.intervalSeconds'' step) (\<lambda>_.
        if containsEmptyUUID (stChannelIDs step) then Inl (ErrValidationFailed ''step channelIds must not contain empty IDs'')
        else if containsEmptyUUID (stEnvironmentIDs step)
          then Inl (ErrValidationFailed ''step environmentIds must not contain empty IDs'')
        else bindR (trimRequiredStringList ErrValidationFailed ''step targetTags'' (stTargetTags step)) (\<lambda>tags.
          bindR (trimRequiredStringList ErrValidationFailed ''step requiredPermissions'' (stRequiredPermissions step)) (\<lambda>permissions.
            Inr (step\<lparr>stTargetTags := tags, stRequiredPermissions := permissions\<rparr>)))))"

definition validateProcessRevisionRequest ::
    "schemaLib \<Rightarrow> valueLib \<Rightarrow> CreateDeploymentProcessRevisionRequest \<Rightarrow> CreateDeploymentProcessRevisionRequest result" where
  "validateProcessRevisionRequest S V r =
     (let r = r\<lparr>cdrDescription := TrimSpace (cdrDescription r)\<rparr> in
      if cdrSteps r = [] then Inl (ErrValidationFailed ''at least one step is required'')
      else bindR (normalizeSteps ErrValidationFailed validateProcessStepRequest (validateRequestInput S V) [] [] (cdrSteps r))
        (\<lambda>steps. bindR (validateDeploymentProcessStepDependencies (slQuote S) V steps (map stKey steps)) (\<lambda>_.
           Inr (r\<lparr>cdrSteps := steps\<rparr>))))"

definition validateRunbookStepRequest :: "RunbookStepRequest \<Rightarrow> RunbookStepRequest result" where
  "validateRunbookStepRequest step =
     (let step = trimRequestStep step in
      bindR (requireFields ErrValidationFailed ''retryPolicy.maxAttempts'' ''retryPolicy.intervalSeconds'' step) (\<lambda>_.
        bindR (trimRequiredStringList ErrValidationFailed ''step requiredPermissions'' (stRequiredPermissions step)) (\<lambda>permissions.
          Inr (step\<lparr>stRequiredPermissions := permissions\<rparr>))))"

definition validateRunbookRevisionRequest ::
    "schemaLib \<Rightarrow> valueLib \<Rightarrow> CreateRunbookRevisionRequest \<Rightarrow> CreateRunbookRevisionRequest result" where
  "validateRunbookRevisionRequest S V r =
     (let r = r\<lparr>crrDescription := TrimSpace (crrDescription r)\<rparr> in
      if crrSteps r = [] then Inl (ErrValidationFailed ''at least one step is required'')
      else bindR (normalizeSteps ErrValidationFailed validateRunbookStepRequest (validateRequestInput S V) [] [] (crrSteps r))
        (\<lambda>steps. bindR (validateRunbookStepDependencies (slQuote S) V steps (map stKey steps)) (\<lambda>_.
           Inr (r\<lparr>crrSteps := steps\<rparr>))))"

section \<open>What acceptance means\<close>

definition stepRelation :: "'a stepFields_scheme list \<Rightarrow> (string \<times> string) set" where
  "stepRelation steps = {(stKey step, d) | step d. step \<in> set steps \<and> d \<in> set (stDependencies step)}"

definition wellFormedStep :: "'a stepFields_scheme \<Rightarrow> bool" where
  "wellFormedStep step \<longleftrightarrow>
     stKey step \<noteq> [] \<and> stName step \<noteq> [] \<and> stActionType step \<noteq> [] \<and> stExecutionLocation step \<noteq> []
     \<and> 0 \<le> stSortOrder step \<and> 0 \<le> stTimeoutSeconds step \<and> 0 \<le> stRetryMaxAttempts step \<and> 0 \<le> stRetryIntervalSeconds step
     \<and> stFailureMode step \<noteq> [] \<and> stInputBindings step \<noteq> None \<and> [] \<notin> set (stRequiredPermissions step)
     \<and> trimStep step = step \<and> trimDependencies step = step"

definition wellFormedSteps :: "'a stepFields_scheme list \<Rightarrow> bool" where
  "wellFormedSteps steps \<longleftrightarrow>
     steps \<noteq> [] \<and> list_all wellFormedStep steps
     \<and> distinct (map stKey steps) \<and> distinct (map stSortOrder steps)
     \<and> (\<forall>step \<in> set steps. distinct (stDependencies step) \<and> set (stDependencies step) \<subseteq> stKey ` set steps - {stKey step})
     \<and> acyclic (stepRelation steps)"

lemma mapR_Inr: "mapR f xs = Inr ys \<longleftrightarrow> list_all2 (\<lambda>x y. f x = Inr y) xs ys"
  by (induction xs arbitrary: ys) (auto simp: bindR_eq_Inr list_all2_Cons1)

lemma checkDependencies_ok:
  "checkDependencies bad uq key keys seen deps = Inr u \<longleftrightarrow>
     [] \<notin> set deps \<and> key \<notin> set deps \<and> set deps \<subseteq> set keys \<and> distinct deps \<and> set deps \<inter> set seen = {}"
  by (induction bad uq key keys seen deps rule: checkDependencies.induct) (auto split: if_splits)

lemma addReferences_grows:
  "addReferences bad uq keys dependencies refs = Inr deps \<Longrightarrow> set dependencies \<subseteq> set deps"
  by (induction bad uq keys dependencies refs rule: addReferences.induct) (auto split: if_splits)

lemma plainEntry_ok:
  "plainEntry bad uq keys step = Inr e \<longleftrightarrow>
     e = (stKey step, stDependencies step)
     \<and> [] \<notin> set (stDependencies step) \<and> distinct (stDependencies step)
     \<and> set (stDependencies step) \<subseteq> set keys - {stKey step}"
  by (auto simp: plainEntry_def bindR_eq_Inr checkDependencies_ok)

lemma conditionEntry_ok:
  "conditionEntry bad uq V keys step = Inr e \<Longrightarrow>
     fst e = stKey step \<and> set (stDependencies step) \<subseteq> set (snd e)
     \<and> distinct (stDependencies step) \<and> set (stDependencies step) \<subseteq> set keys - {stKey step}"
  using addReferences_grows
  by (fastforce simp: conditionEntry_def bindR_eq_Inr checkDependencies_ok split: sum.splits)

text \<open>A graph that has the step's dependencies among its own bounds the relation of the steps.\<close>

lemma stepRelation_acyclic:
  assumes "list_all2 (\<lambda>step e. fst e = stKey step \<and> set (stDependencies step) \<subseteq> set (snd e)) steps graph"
    and "distinct (map stKey steps)" and "\<not> hasCycle graph"
  shows "acyclic (stepRelation steps)"
proof (rule acyclic_subset)
  show "acyclic (dependsOn graph)" using assms(3) by (simp add: hasCycle_iff)
  have k: "map fst graph = map stKey steps" using assms(1) by (induction rule: list_all2_induct) auto
  show "stepRelation steps \<subseteq> dependsOn graph"
  proof
    fix x assume "x \<in> stepRelation steps"
    then obtain step d where x: "x = (stKey step, d)" "step \<in> set steps" "d \<in> set (stDependencies step)"
      by (auto simp: stepRelation_def)
    then obtain i where i: "i < length steps" "steps ! i = step" by (auto simp: in_set_conv_nth)
    define e where "e = graph ! i"
    have "fst e = stKey step" "set (stDependencies step) \<subseteq> set (snd e)" "e \<in> set graph"
      using list_all2_nthD [OF assms(1) i(1)] list_all2_lengthD [OF assms(1)] i by (simp_all add: e_def)
    then have e: "e \<in> set graph" "fst e = stKey step" "d \<in> set (snd e)" using x(3) by auto
    have "distinct (map fst graph)" using assms(2) k by simp
    then have "map_of graph (stKey step) = Some (snd e)" using e by (metis map_of_is_SomeI prod.collapse)
    then show "x \<in> dependsOn graph" using e(3) by (simp add: x(1) dependsOn_def graphGet_def)
  qed
qed

text \<open>The loop over the steps, for a \<open>pre\<close> that yields good steps and a \<open>post\<close> that keeps what counts.\<close>

lemma normalizeSteps_ok:
  assumes "normalizeSteps bad pre post keys orders steps = Inr steps'"
    and "\<And>s s'. pre s = Inr s' \<Longrightarrow> P s'" and "\<And>s s'. post s = Inr s' \<Longrightarrow> P s \<Longrightarrow> s' = s \<and> Q s"
  shows "length steps' = length steps \<and> list_all P steps' \<and> list_all Q steps'
     \<and> distinct (map stKey steps') \<and> distinct (map stSortOrder steps')
     \<and> stKey ` set steps' \<inter> set keys = {} \<and> stSortOrder ` set steps' \<inter> set orders = {}"
  using assms(1)
proof (induction steps arbitrary: keys orders steps')
  case (Cons step steps)
  then obtain s s' ss where s: "pre step = Inr s" "stKey s \<notin> set keys" "stSortOrder s \<notin> set orders" "post s = Inr s'"
    "normalizeSteps bad pre post (stKey s # keys) (stSortOrder s # orders) steps = Inr ss" "steps' = s' # ss"
    by (auto simp: bindR_eq_Inr split: if_splits)
  have "P s" by (rule assms(2) [OF s(1)])
  moreover from this have "s' = s" "Q s" using assms(3) [OF s(4)] by blast+
  ultimately show ?case using Cons.IH [OF s(5)] s(2,3) by (auto simp: s(6))
qed simp

text \<open>Steps that the loop has normalized are its fixed points.\<close>

lemma normalizeSteps_fixed:
  assumes "list_all (\<lambda>s. pre s = Inr s \<and> post s = Inr s) steps" "distinct (map stKey steps)" "distinct (map stSortOrder steps)"
    "stKey ` set steps \<inter> set keys = {}" "stSortOrder ` set steps \<inter> set orders = {}"
  shows "normalizeSteps bad pre post keys orders steps = Inr steps"
  using assms by (induction steps arbitrary: keys orders) auto

definition trimmedList :: "string list \<Rightarrow> bool" where
  "trimmedList ss \<longleftrightarrow> list_all (\<lambda>s. s \<noteq> [] \<and> TrimSpace s = s) ss"

lemma trimRequiredStringList_ok: "trimRequiredStringList bad field ss = Inr ts \<Longrightarrow> trimmedList ts"
  unfolding trimRequiredStringList_def mapR_Inr
  by (induction rule: list_all2_induct) (auto simp: trimmedList_def split: if_splits)

lemma trimRequiredStringList_fixed: "trimmedList ts \<Longrightarrow> trimRequiredStringList bad field ts = Inr ts"
  by (induction ts) (auto simp: trimmedList_def trimRequiredStringList_def)

lemma trimmedList_Nil: "trimmedList ss \<Longrightarrow> [] \<notin> set ss"
  by (auto simp: trimmedList_def list_all_iff)

lemma requireFields_ok:
  "requireFields bad attempts interval step = Inr u \<longleftrightarrow>
     stKey step \<noteq> [] \<and> stName step \<noteq> [] \<and> stActionType step \<noteq> [] \<and> stExecutionLocation step \<noteq> []
     \<and> 0 \<le> stSortOrder step \<and> 0 \<le> stTimeoutSeconds step \<and> 0 \<le> stRetryMaxAttempts step \<and> 0 \<le> stRetryIntervalSeconds step"
  by (auto simp: requireFields_def)

lemma TrimSpace_fail: "TrimSpace ''fail'' = ''fail''"
  by (rule TrimSpace_graphic) (simp_all add: graphic_def)

lemma trimStep_fields [simp]:
  "stKey (trimStep s) = TrimSpace (stKey s)" "stName (trimStep s) = TrimSpace (stName s)"
  "stActionType (trimStep s) = TrimSpace (stActionType s)"
  "stExecutionLocation (trimStep s) = TrimSpace (stExecutionLocation s)"
  "stCondition (trimStep s) = TrimSpace (stCondition s)" "stFailureMode (trimStep s) = TrimSpace (stFailureMode s)"
  "stSortOrder (trimStep s) = stSortOrder s" "stTimeoutSeconds (trimStep s) = stTimeoutSeconds s"
  "stRetryMaxAttempts (trimStep s) = stRetryMaxAttempts s" "stRetryIntervalSeconds (trimStep s) = stRetryIntervalSeconds s"
  "stRequiredPermissions (trimStep s) = stRequiredPermissions s" "stDependencies (trimStep s) = stDependencies s"
  "stInputBindings (trimStep s) = stInputBindings s"
  by (simp_all add: trimStep_def)

lemma trimStep_eq: "trimStep s = s \<longleftrightarrow>
    TrimSpace (stKey s) = stKey s \<and> TrimSpace (stName s) = stName s \<and> TrimSpace (stActionType s) = stActionType s
    \<and> TrimSpace (stExecutionLocation s) = stExecutionLocation s \<and> TrimSpace (stCondition s) = stCondition s
    \<and> TrimSpace (stFailureMode s) = stFailureMode s"
proof
  assume e: "trimStep s = s"
  show "TrimSpace (stKey s) = stKey s \<and> TrimSpace (stName s) = stName s \<and> TrimSpace (stActionType s) = stActionType s
    \<and> TrimSpace (stExecutionLocation s) = stExecutionLocation s \<and> TrimSpace (stCondition s) = stCondition s
    \<and> TrimSpace (stFailureMode s) = stFailureMode s"
    using trimStep_fields(1-6) [of s] unfolding e by simp
qed (simp add: trimStep_def)

lemma trimDependencies_eq: "trimDependencies s = s \<longleftrightarrow> map TrimSpace (stDependencies s) = stDependencies s"
  by (cases s) (simp add: trimDependencies_def)

text \<open>What the shared part of the four step functions yields.\<close>

lemma normalized_step_wellFormed:
  assumes "requireFields bad attempts interval (trimStep s) = Inr u" "trimmedList permissions"
    and "stKey t = TrimSpace (stKey s)" "stName t = TrimSpace (stName s)" "stActionType t = TrimSpace (stActionType s)"
    and "stExecutionLocation t = TrimSpace (stExecutionLocation s)" "stCondition t = TrimSpace (stCondition s)"
    and "stFailureMode t = (if TrimSpace (stFailureMode s) = [] then ''fail'' else TrimSpace (stFailureMode s))"
    and "stInputBindings t \<noteq> None" "stSortOrder t = stSortOrder s" "stTimeoutSeconds t = stTimeoutSeconds s"
    and "stRetryMaxAttempts t = stRetryMaxAttempts s" "stRetryIntervalSeconds t = stRetryIntervalSeconds s"
    and "stRequiredPermissions t = permissions" "stDependencies t = map TrimSpace (stDependencies s)"
  shows "wellFormedStep t"
  using assms(1) trimmedList_Nil [OF assms(2)]
  by (simp add: wellFormedStep_def requireFields_ok trimStep_eq trimDependencies_eq assms(3-15) TrimSpace_fail)

lemma wellFormedStep_fixed:
  assumes "wellFormedStep s"
  shows "trimStep s = s" "requireFields bad attempts interval s = Inr ()" "defaultFields s = s" "trimDependencies s = s"
  using assms by (simp_all add: wellFormedStep_def requireFields_ok) (cases s, auto simp: defaultFields_def)

lemma normalizeProcessStep_ok:
  assumes "normalizeProcessStep s = Inr t"
  shows "wellFormedStep t \<and> normalizeProcessStep t = Inr t"
proof -
  obtain tags permissions where r: "requireFields ErrBadRequest ''retry_max_attempts'' ''retry_interval_seconds'' (trimStep s) = Inr ()"
    and tags: "trimmedList tags" and permissions: "trimmedList permissions"
    and c: "normalizeDeploymentProcessUUIDList (stChannelIDs (trimStep s)) ''step channelIds'' = Inr ()"
    and e: "normalizeDeploymentProcessUUIDList (stEnvironmentIDs (trimStep s)) ''step environmentIds'' = Inr ()"
    and t: "t = trimDependencies ((defaultFields (trimStep s))\<lparr>stTargetTags := tags, stRequiredPermissions := permissions\<rparr>)"
    using assms
    by (auto simp: normalizeProcessStep_def Let_def bindR_eq_Inr normalizeDeploymentProcessStringList_def defaultFields_def
        dest!: trimRequiredStringList_ok)
  have w: "wellFormedStep t"
    by (rule normalized_step_wellFormed [OF r permissions])
      (simp_all add: t trimDependencies_def defaultFields_def split: option.split)
  have f: "stTargetTags t = tags" "stRequiredPermissions t = permissions" "stChannelIDs t = stChannelIDs (trimStep s)"
    "stEnvironmentIDs t = stEnvironmentIDs (trimStep s)"
    by (simp_all add: t trimDependencies_def defaultFields_def)
  have "t\<lparr>stTargetTags := stTargetTags t, stRequiredPermissions := stRequiredPermissions t\<rparr> = t" by simp
  then have u: "t\<lparr>stTargetTags := tags, stRequiredPermissions := permissions\<rparr> = t" by (simp only: f)
  have "normalizeProcessStep t = Inr t"
    using c e by (simp add: u normalizeProcessStep_def Let_def wellFormedStep_fixed [OF w] normalizeDeploymentProcessStringList_def f
        trimRequiredStringList_fixed [OF tags] trimRequiredStringList_fixed [OF permissions])
  with w show ?thesis by simp
qed

lemma normalizeRunbookStep_ok:
  assumes "normalizeRunbookStep s = Inr t"
  shows "wellFormedStep t \<and> normalizeRunbookStep t = Inr t"
proof -
  obtain permissions where r: "requireFields ErrBadRequest ''retry_max_attempts'' ''retry_interval_seconds'' (trimStep s) = Inr ()"
    and permissions: "trimmedList permissions"
    and t: "t = trimDependencies ((defaultFields (trimStep s))\<lparr>stRequiredPermissions := permissions\<rparr>)"
    using assms
    by (auto simp: normalizeRunbookStep_def Let_def bindR_eq_Inr normalizeRunbookStringList_def defaultFields_def
        dest!: trimRequiredStringList_ok)
  have w: "wellFormedStep t"
    by (rule normalized_step_wellFormed [OF r permissions])
      (simp_all add: t trimDependencies_def defaultFields_def split: option.split)
  have f: "stRequiredPermissions t = permissions" by (simp add: t trimDependencies_def defaultFields_def)
  have "t\<lparr>stRequiredPermissions := stRequiredPermissions t\<rparr> = t" by simp
  then have u: "t\<lparr>stRequiredPermissions := permissions\<rparr> = t" by (simp only: f)
  have "normalizeRunbookStep t = Inr t"
    by (simp add: u normalizeRunbookStep_def Let_def wellFormedStep_fixed [OF w] normalizeRunbookStringList_def f
        trimRequiredStringList_fixed [OF permissions])
  with w show ?thesis by simp
qed

lemma checkCondition_ok: "checkCondition bad uq V s = Inr t \<longleftrightarrow> t = s \<and> ValidateCondition V (stCondition s) = Inr ()"
  by (auto simp: checkCondition_def split: sum.splits)

lemma graph_wellFormed:
  assumes "length steps' = length steps" "steps \<noteq> []" "list_all wellFormedStep steps'"
    and "distinct (map stKey steps')" "distinct (map stSortOrder steps')"
    and "mapR entry steps' = Inr graph" "refuseCycle bad graph = Inr u"
    and "\<And>s e. entry s = Inr e \<Longrightarrow> fst e = stKey s \<and> set (stDependencies s) \<subseteq> set (snd e)
       \<and> distinct (stDependencies s) \<and> set (stDependencies s) \<subseteq> set (map stKey steps') - {stKey s}"
  shows "wellFormedSteps steps'"
proof -
  have e: "list_all2 (\<lambda>s e. entry s = Inr e) steps' graph" using assms(6) by (simp add: mapR_Inr)
  then have "list_all2 (\<lambda>s e. fst e = stKey s \<and> set (stDependencies s) \<subseteq> set (snd e)) steps' graph"
    by (rule list_all2_mono) (use assms(8) in blast)
  then have "acyclic (stepRelation steps')"
    using assms(4,7) by (intro stepRelation_acyclic) (auto simp: refuseCycle_def split: if_splits)
  moreover have "distinct (stDependencies s) \<and> set (stDependencies s) \<subseteq> stKey ` set steps' - {stKey s}" if s: "s \<in> set steps'" for s
  proof -
    obtain i where "i < length steps'" "steps' ! i = s" using s by (auto simp: in_set_conv_nth)
    then obtain x where "entry s = Inr x" using list_all2_nthD [OF e] by metis
    then show ?thesis using assms(8) by fastforce
  qed
  ultimately show ?thesis using assms(1-5) by (auto simp: wellFormedSteps_def)
qed

lemma process_revision_ok:
  assumes "normalizeDeploymentProcessRevision S p = Inr p'"
  shows "wellFormedSteps (drvSteps p') \<and> ValidateSteps S DefaultRegistry (drvSteps p') = Inr ()
     \<and> normalizeDeploymentProcessRevision S p' = Inr p'"
proof -
  obtain steps' where org: "drvOrganizationID p \<noteq> uuid_Nil" "drvDeploymentProcessID p \<noteq> uuid_Nil" "drvSteps p \<noteq> []"
    and n: "normalizeSteps ErrBadRequest normalizeProcessStep Inr [] [] (drvSteps p) = Inr steps'"
    and v: "ValidateSteps S DefaultRegistry steps' = Inr ()"
    and g: "validateDeploymentProcessStepGraph (slQuote S) steps' (map stKey steps') = Inr ()"
    and p': "p' = p\<lparr>drvDescription := TrimSpace (drvDescription p), drvSteps := steps'\<rparr>"
    using assms by (auto simp: normalizeDeploymentProcessRevision_def Let_def bindR_eq_Inr split: if_splits)
  have ok: "length steps' = length (drvSteps p)"
      "list_all (\<lambda>s. wellFormedStep s \<and> normalizeProcessStep s = Inr s) steps'"
      "distinct (map stKey steps')" "distinct (map stSortOrder steps')"
    using normalizeSteps_ok [OF n, of "\<lambda>s. wellFormedStep s \<and> normalizeProcessStep s = Inr s" "\<lambda>_. True"] normalizeProcessStep_ok
    by auto
  obtain graph where graph: "mapR (plainEntry ErrBadRequest (slQuote S) (map stKey steps')) steps' = Inr graph"
    "refuseCycle ErrBadRequest graph = Inr ()"
    using g by (auto simp: validateDeploymentProcessStepGraph_def bindR_eq_Inr)
  have "wellFormedSteps steps'"
  proof (rule graph_wellFormed [OF ok(1) org(3) _ ok(3,4) graph])
    show "list_all wellFormedStep steps'" using ok(2) by (auto simp: list_all_iff)
  qed (simp add: plainEntry_ok)
  moreover have "normalizeSteps ErrBadRequest normalizeProcessStep Inr [] [] steps' = Inr steps'"
    by (rule normalizeSteps_fixed) (use ok in \<open>auto simp: list_all_iff\<close>)
  moreover have "steps' \<noteq> []" using ok(1) org(3) by auto
  ultimately show ?thesis
    using org v g by (simp add: p' normalizeDeploymentProcessRevision_def Let_def)
qed

lemma runbook_revision_ok:
  assumes "normalizeRunbookRevision S V r = Inr r'"
  shows "wellFormedSteps (rrvSteps r') \<and> (\<forall>s \<in> set (rrvSteps r'). ValidateCondition V (stCondition s) = Inr ())
     \<and> normalizeRunbookRevision S V r' = Inr r'"
proof -
  let ?post = "checkCondition ErrBadRequest (slQuote S) V"
  obtain steps' where org: "rrvOrganizationID r \<noteq> uuid_Nil" "rrvRunbookID r \<noteq> uuid_Nil" "rrvSteps r \<noteq> []"
    and n: "normalizeSteps ErrBadRequest normalizeRunbookStep ?post [] [] (rrvSteps r) = Inr steps'"
    and v: "ValidateRunbookSteps S DefaultRegistry steps' = Inr ()"
    and g: "validateRunbookStepGraph (slQuote S) V steps' (map stKey steps') = Inr ()"
    and r': "r' = r\<lparr>rrvDescription := TrimSpace (rrvDescription r), rrvSteps := steps'\<rparr>"
    using assms by (auto simp: normalizeRunbookRevision_def Let_def bindR_eq_Inr split: if_splits)
  have ok: "length steps' = length (rrvSteps r)"
      "list_all (\<lambda>s. wellFormedStep s \<and> normalizeRunbookStep s = Inr s) steps'"
      "list_all (\<lambda>s. ValidateCondition V (stCondition s) = Inr ()) steps'"
      "distinct (map stKey steps')" "distinct (map stSortOrder steps')"
    using normalizeSteps_ok [OF n, of "\<lambda>s. wellFormedStep s \<and> normalizeRunbookStep s = Inr s"
        "\<lambda>s. ValidateCondition V (stCondition s) = Inr ()"] normalizeRunbookStep_ok
    by (auto simp: checkCondition_ok)
  obtain graph where graph: "mapR (conditionEntry ErrBadRequest (slQuote S) V (map stKey steps')) steps' = Inr graph"
    "refuseCycle ErrBadRequest graph = Inr ()"
    using g by (auto simp: validateRunbookStepGraph_def bindR_eq_Inr)
  have "wellFormedSteps steps'"
  proof (rule graph_wellFormed [OF ok(1) org(3) _ ok(4,5) graph])
    show "list_all wellFormedStep steps'" using ok(2) by (auto simp: list_all_iff)
  qed (rule conditionEntry_ok)
  moreover have "normalizeSteps ErrBadRequest normalizeRunbookStep ?post [] [] steps' = Inr steps'"
    by (rule normalizeSteps_fixed) (use ok in \<open>auto simp: list_all_iff checkCondition_ok\<close>)
  moreover have "steps' \<noteq> []" using ok(1) org(3) by auto
  ultimately show ?thesis
    using org v g ok(3) by (simp add: r' normalizeRunbookRevision_def Let_def list_all_iff)
qed


definition exStep :: "string \<Rightarrow> string list \<Rightarrow> int \<Rightarrow> DeploymentProcessStep" where
  "exStep key deps n = \<lparr>stKey = key, stName = '' n '', stActionType = ''distr.preflight'', stStepTemplateVersionID = None,
     stExecutionLocation = ''hub'', stInputBindings = None, stCondition = [], stFailureMode = [], stTimeoutSeconds = 0,
     stRetryMaxAttempts = 0, stRetryIntervalSeconds = 0, stRequiredPermissions = [], stSortOrder = n, stDependencies = deps,
     stChannelIDs = [], stEnvironmentIDs = [], stTargetTags = [], dpstID = 0, dpstRevisionID = 0\<rparr>"

definition exRevision :: DeploymentProcessRevision where
  "exRevision = \<lparr>drvID = 0, drvCreatedAt = 0, drvUpdatedAt = 0, drvOrganizationID = 1, drvDeploymentProcessID = 2,
     drvRevisionNumber = 0, drvDescription = [], drvSteps = [exStep ''b'' ['' a''] 1, exStep '' a '' [] 0]\<rparr>"

definition exSteps :: "DeploymentProcessStep list" where
  "exSteps = (case normalizeSteps ErrBadRequest normalizeProcessStep Inr [] [] (drvSteps exRevision) of Inr s \<Rightarrow> s | Inl _ \<Rightarrow> [])"

definition exNormalized :: DeploymentProcessRevision where
  "exNormalized = exRevision\<lparr>drvSteps := exSteps\<rparr>"

lemma exSteps:
  "normalizeSteps ErrBadRequest normalizeProcessStep Inr [] [] (drvSteps exRevision) = Inr exSteps"
  "map (\<lambda>s. (stKey s, stDependencies s, stActionType s, stInputBindings s)) exSteps
     = [(''b'', [''a''], ''distr.preflight'', Some []), (''a'', [], ''distr.preflight'', Some [])]"
proof -
  have c: "case normalizeSteps ErrBadRequest normalizeProcessStep Inr [] [] (drvSteps exRevision) of
      Inr s \<Rightarrow> map (\<lambda>s. (stKey s, stDependencies s, stActionType s, stInputBindings s)) s
        = [(''b'', [''a''], ''distr.preflight'', Some []), (''a'', [], ''distr.preflight'', Some [])]
    | Inl _ \<Rightarrow> False" by code_simp
  then obtain s where s: "normalizeSteps ErrBadRequest normalizeProcessStep Inr [] [] (drvSteps exRevision) = Inr s"
    by (auto split: sum.splits)
  then have "exSteps = s" by (simp add: exSteps_def)
  with c s show "normalizeSteps ErrBadRequest normalizeProcessStep Inr [] [] (drvSteps exRevision) = Inr exSteps"
    "map (\<lambda>s. (stKey s, stDependencies s, stActionType s, stInputBindings s)) exSteps
     = [(''b'', [''a''], ''distr.preflight'', Some []), (''a'', [], ''distr.preflight'', Some [])]" by simp_all
qed

lemma exNormalized: "normalizeDeploymentProcessRevision exSchemaLib exRevision = Inr exNormalized"
proof -
  obtain b a where ba: "exSteps = [b, a]" "stKey b = ''b''" "stDependencies b = [''a'']" "stKey a = ''a''" "stDependencies a = []"
    "stActionType b = ''distr.preflight''" "stActionType a = ''distr.preflight''"
    "stInputBindings b = Some []" "stInputBindings a = Some []"
    using exSteps(2) by (auto simp: map_eq_Cons_conv)
  have "TrimSpace ''distr.preflight'' = ''distr.preflight''" by (rule TrimSpace_graphic) (simp_all add: graphic_def)
  moreover have "rgValidators DefaultRegistry ''distr.preflight'' = Some preflightInputSchema"
    by (simp add: DefaultRegistry_def mustBuildRegistry_def defaultActions_def preflightAction_def httpCheckAction_def
        waitAction_def composeDeployAction_def ociJobAction_def fileRenderAction_def webhookAction_def)
  moreover have "slValidate exSchemaLib preflightInputSchema (JObject []) = None"
    by (simp add: exSchemaLib_def webhookSchemaHolds_def objGet_def)
  ultimately have "ValidateSteps exSchemaLib DefaultRegistry exSteps = Inr ()" by (simp add: ba ValidateInput_def)
  moreover have "hasCycle [(''b'', [''a'']), (''a'', [])] = False" by code_simp
  then have "validateDeploymentProcessStepGraph (slQuote exSchemaLib) exSteps (map stKey exSteps) = Inr ()"
    by (simp add: validateDeploymentProcessStepGraph_def ba plainEntry_def refuseCycle_def)
  ultimately show ?thesis
    using exSteps(1)
    by (simp add: normalizeDeploymentProcessRevision_def exNormalized_def exRevision_def)
qed


section \<open>Accepted dependencies never block a task\<close>

lemma acyclic_minimal:
  assumes "acyclic r" "finite r" "x \<in> A"
  obtains z where "z \<in> A" "\<And>y. (z, y) \<in> r \<Longrightarrow> y \<notin> A"
proof -
  have "wf (r\<inverse>)" using assms(1,2) by (simp add: finite_acyclic_wf_converse)
  then obtain z where "z \<in> A" "\<And>y. (y, z) \<in> r\<inverse> \<Longrightarrow> y \<notin> A" using assms(3) by (rule wfE_min) blast
  then show thesis by (intro that) auto
qed

lemma finite_stepRelation: "finite (stepRelation steps)"
proof (rule finite_subset)
  show "stepRelation steps \<subseteq> (stKey ` set steps) \<times> (\<Union>s \<in> set steps. set (stDependencies s))" by (auto simp: stepRelation_def)
qed simp

text \<open>The step runs of a task whose plan has these steps.\<close>

definition candidatesOf :: "'a stepFields_scheme list \<Rightarrow> taskLeaseStepCandidate list \<Rightarrow> bool" where
  "candidatesOf steps cs \<longleftrightarrow>
     mset (map (\<lambda>c. (scStepKey c, scDependencies c)) cs) = mset (map (\<lambda>s. (stKey s, stDependencies s)) steps)"

lemma candidatesOf_set:
  "candidatesOf steps cs \<Longrightarrow>
     (\<lambda>c. (scStepKey c, scDependencies c)) ` set cs = (\<lambda>s. (stKey s, stDependencies s)) ` set steps"
  unfolding candidatesOf_def by (drule mset_eq_setD) simp

lemma ready_nonempty:
  assumes "c \<in> set cs" "eligibleCandidate loc c" "set (scDependencies c) \<subseteq> set (initiallySatisfied cs)"
  shows "readyTaskLeaseStepCandidates cs loc \<noteq> []"
proof
  assume empty: "readyTaskLeaseStepCandidates cs loc = []"
  define st where "st = readyLoop cs loc
       \<lparr>rdReady = [], rdSelected = [], rdSatisfied = initiallySatisfied cs, rdProgressed = False\<rparr>"
  note r = readyInv_result [OF st_def]
  have "rdReady st = []" using r(3) empty by simp
  then have "rdSelected st = []" "set (rdSatisfied st) = set (initiallySatisfied cs)"
    using r(1) by (simp_all add: readyInv_def)
  then have "rdSelected (considerCandidate loc c st) \<noteq> rdSelected st"
    using assms(2,3) by (simp add: considerCandidate_def dependenciesSatisfied_iff)
  then show False using r(2) assms(1) by auto
qed

lemma wellFormed_progress:
  assumes w: "wellFormedSteps steps" and cs: "candidatesOf steps cs"
    and status: "\<forall>c \<in> set cs. scStatus c = StepRunStatusPending \<or> taskLeaseDependencyStatusSatisfied (scStatus c)"
    and p: "p \<in> set cs" "scStatus p = StepRunStatusPending"
  shows "\<exists>c \<in> set cs. scStatus c = StepRunStatusPending \<and> set (scDependencies c) \<subseteq> set (initiallySatisfied cs)"
proof -
  let ?A = "scStepKey ` {c \<in> set cs. scStatus c = StepRunStatusPending}"
  have "acyclic (stepRelation steps)" using w by (simp add: wellFormedSteps_def)
  then obtain k where k: "k \<in> ?A" "\<And>d. (k, d) \<in> stepRelation steps \<Longrightarrow> d \<notin> ?A"
    using acyclic_minimal [OF _ finite_stepRelation, of steps "scStepKey p" ?A] p by blast
  then obtain c where c: "c \<in> set cs" "scStatus c = StepRunStatusPending" "scStepKey c = k" by auto
  have "(scStepKey c, scDependencies c) \<in> (\<lambda>s. (stKey s, stDependencies s)) ` set steps"
    using candidatesOf_set [OF cs] c(1) by auto
  then obtain s where s: "s \<in> set steps" "stKey s = k" "stDependencies s = scDependencies c" using c(3) by auto
  have "d \<in> set (initiallySatisfied cs)" if d: "d \<in> set (scDependencies c)" for d
  proof -
    have "set (stDependencies s) \<subseteq> stKey ` set steps" using w s(1) unfolding wellFormedSteps_def by blast
    then have "d \<in> stKey ` set steps" using d by (auto simp: s(3))
    then obtain t where "t \<in> set steps" "stKey t = d" by auto
    then have "(d, stDependencies t) \<in> (\<lambda>c. (scStepKey c, scDependencies c)) ` set cs"
      unfolding candidatesOf_set [OF cs] by auto
    then obtain e where e: "e \<in> set cs" "scStepKey e = d" by auto
    have "(k, d) \<in> stepRelation steps" using s d by (auto simp: stepRelation_def)
    then have "scStatus e \<noteq> StepRunStatusPending" using k(2) e by auto
    then show ?thesis using status e by (auto simp: initiallySatisfied_set)
  qed
  then show ?thesis using c by blast
qed


definition exCandidate :: "string \<Rightarrow> string list \<Rightarrow> StepRunStatus \<Rightarrow> taskLeaseStepCandidate" where
  "exCandidate key deps status = \<lparr>scStepRunID = 1, scStepKey = key, scName = ''n'', scActionType = ''distr.preflight'',
     scInputBindings = None, scSortOrder = 0, scStatus = status, scExecutionLocation = ''hub'', scIncluded = True,
     scDependencies = deps\<rparr>"


end
