(* ===== verification/Release_Contracts.thy ===== *)
theory Release_Contracts
  imports Task_Types
begin

text \<open>
  internal/releasebundles (release_contract.go, validation.go, canonical.go, digest.go) with the data of
  internal/types/release_contract.go and internal/types/release_bundle.go: what a release consists of, the
  normal form of its contract, the checks of its content, and the canonical payload that is hashed. The
  argument \<open>releaseLib\<close> holds whether \<open>semver.StrictNewVersion\<close> of github.com/Masterminds/semver accepts a
  string and \<open>LessThan\<close> of the versions of two accepted strings, \<open>url.Parse\<close>, the JSON encoder, SHA-256,
  the text form of UUIDs and case mapping beyond ASCII. \<open>slices.SortFunc\<close> is the insertion sort of the
  library for short slices. A nil slice is the empty list.
\<close>

section \<open>Types\<close>

record ReleaseContractSource =
  rcRepository :: string
  rcBranch :: string
  rcSourceCommit :: string
  rcBuiltCommit :: string

record ReleaseContractBuild =
  rcExternalID :: string
  rcExternalURL :: string

record ReleaseContractComponent =
  rccName :: string
  rccVersion :: string
  rccImage :: string
  rccPlatform :: string
  rccContracts :: "string list"

record ReleaseContractRequirement =
  rrqComponent :: string
  rrqContract :: string
  rrqMinimumVersion :: string
  rrqReason :: string

record ReleaseContractCompatibility =
  rcRequires :: "ReleaseContractRequirement list"
  rcAffectedComponents :: "string list"

record ReleaseContractOperations =
  rcMigrationRequired :: bool
  rcConfigChangeRequired :: bool

record ReleaseContractConfigObject =
  rcoURI :: string
  rcoVersionID :: string
  rcoChecksum :: string

record ReleaseContractConfig =
  rcRepositoryCommit :: string
  rcComposePath :: string
  rcServiceConfigPath :: string
  rcComposeChecksum :: string
  rcServiceConfigChecksum :: string
  rcImmutableObjects :: "ReleaseContractConfigObject list"

record ReleaseContractChanges =
  rcSummary :: string
  rcCommits :: "string list"

record ReleaseContract =
  rcSchema :: string
  rcSource :: ReleaseContractSource
  rcBuild :: ReleaseContractBuild
  rcComponents :: "ReleaseContractComponent list"
  rcCompatibility :: ReleaseContractCompatibility
  rcOperations :: ReleaseContractOperations
  rcConfig :: ReleaseContractConfig
  rcChanges :: ReleaseContractChanges

definition ReleaseContractSchemaV1 :: string where
  "ReleaseContractSchemaV1 = ''distr.release-contract/v1''"

datatype BundleStatus =
    BundleStatusDraft | BundleStatusValidating | BundleStatusPublished | BundleStatusBlocked | BundleStatusArchived
  | BundleStatusOther string

datatype BundleComponentType =
    ComponentTypeApplicationVersion | ComponentTypeOCIImage | ComponentTypeOCIArtifact | ComponentTypeHelmChart
  | ComponentTypeChildReleaseBundle | ComponentTypeExternalArtifact | ComponentTypeOther string

fun componentTypeName :: "BundleComponentType \<Rightarrow> string" where
  "componentTypeName ComponentTypeApplicationVersion = ''application_version''"
| "componentTypeName ComponentTypeOCIImage = ''oci_image''"
| "componentTypeName ComponentTypeOCIArtifact = ''oci_artifact''"
| "componentTypeName ComponentTypeHelmChart = ''helm_chart''"
| "componentTypeName ComponentTypeChildReleaseBundle = ''child_release_bundle''"
| "componentTypeName ComponentTypeExternalArtifact = ''external_artifact''"
| "componentTypeName (ComponentTypeOther s) = s"

definition componentTypeIsValid :: "BundleComponentType \<Rightarrow> bool" where
  "componentTypeIsValid t \<longleftrightarrow> (case t of ComponentTypeOther _ \<Rightarrow> False | _ \<Rightarrow> True)"

record BundleComponent =
  bcID :: uuid
  bcReleaseBundleID :: uuid
  bcKey :: string
  bcName :: string
  bcType :: BundleComponentType
  bcVersion :: string
  bcApplicationVersionID :: "uuid option"
  bcPackageRef :: string
  bcDigest :: string
  bcChecksum :: string
  bcChildReleaseBundleID :: "uuid option"

record Bundle =
  rlbID :: uuid
  rlbCreatedAt :: timestamp
  rlbUpdatedAt :: timestamp
  rlbOrganizationID :: uuid
  rlbApplicationID :: uuid
  rlbChannelID :: uuid
  rlbProcessSnapshotID :: "uuid option"
  rlbVariableSnapshotID :: "uuid option"
  rlbDeploymentProcessRevisionID :: "uuid option"
  rlbReleaseNumber :: string
  rlbReleaseNotes :: string
  rlbSourceRevision :: string
  rlbSourceRepository :: string
  rlbSourceBranch :: string
  rlbSourceTag :: string
  rlbCIProvider :: string
  rlbCIRunID :: string
  rlbCIRunURL :: string
  rlbReleaseContract :: "ReleaseContract option"
  rlbStatus :: BundleStatus
  rlbPublishedByUserAccountID :: "uuid option"
  rlbPublishedAt :: "timestamp option"
  rlbCanonicalChecksum :: string
  rlbCanonicalPayload :: string
  rlbComponents :: "BundleComponent list"

record parsedURL =
  urlScheme :: string
  urlHost :: string
  urlUser :: bool
  urlRawQuery :: string
  urlFragment :: string
  urlOpaque :: string
  urlPath :: string

record canonicalComponent =
  ccKey :: string
  ccName :: string
  ccType :: string
  ccVersion :: string
  ccApplicationVersionID :: string
  ccPackageRef :: string
  ccDigest :: string
  ccChecksum :: string
  ccChildReleaseBundleID :: string

record canonicalSourceMetadata =
  csRepository :: string
  csBranch :: string
  csTag :: string
  csCIProvider :: string
  csCIRunID :: string
  csCIRunURL :: string

record canonicalBundle =
  cbApplicationID :: string
  cbChannelID :: string
  cbProcessSnapshotID :: string
  cbVariableSnapshotID :: string
  cbReleaseNumber :: string
  cbReleaseNotes :: string
  cbSourceRevision :: string
  cbSourceMetadata :: "canonicalSourceMetadata option"
  cbReleaseContract :: "ReleaseContract option"
  cbComponents :: "canonicalComponent list"

record releaseLib =
  rlStrictVersion :: "string \<Rightarrow> bool"
  rlVersionLess :: "string \<Rightarrow> string \<Rightarrow> bool"
  rlUrlParse :: "string \<Rightarrow> parsedURL option"
  rlMarshalBundle :: "canonicalBundle \<Rightarrow> string option"
  rlSha256 :: "string \<Rightarrow> string"
  rlUuidString :: "uuid \<Rightarrow> string"
  rlLower :: "string \<Rightarrow> string"
  rlFold :: "string \<Rightarrow> string \<Rightarrow> bool"

section \<open>The standard library\<close>

definition ContainsAny :: "string \<Rightarrow> string \<Rightarrow> bool" where
  "ContainsAny s chars = list_ex (\<lambda>c. c \<in> set chars) s"

text \<open>\<open>strings.Cut\<close> and \<open>strings.Split\<close> at one character.\<close>

definition cutAt :: "char \<Rightarrow> string \<Rightarrow> string \<times> string \<times> bool" where
  "cutAt c s = (if c \<in> set s then (takeWhile (\<lambda>d. d \<noteq> c) s, tl (dropWhile (\<lambda>d. d \<noteq> c) s), True) else (s, [], False))"

function splitAt :: "char \<Rightarrow> string \<Rightarrow> string list" where
  "splitAt c s = (if c \<in> set s then takeWhile (\<lambda>d. d \<noteq> c) s # splitAt c (tl (dropWhile (\<lambda>d. d \<noteq> c) s)) else [s])"
  by pat_completeness auto
termination
proof (relation "measure (\<lambda>(c, s). length s)", simp)
  fix c :: char and s :: string
  assume "c \<in> set s"
  then have "dropWhile (\<lambda>d. d \<noteq> c) s \<noteq> []" by auto
  moreover have "length (dropWhile (\<lambda>d. d \<noteq> c) s) \<le> length s" by (rule length_dropWhile_le)
  ultimately show "((c, tl (dropWhile (\<lambda>d. d \<noteq> c) s)), c, s) \<in> measure (\<lambda>(c, s). length s)"
    by (cases "dropWhile (\<lambda>d. d \<noteq> c) s") auto
qed

declare splitAt.simps [simp del]

text \<open>\<open>path.Clean\<close>: the elements on a stack, the innermost first.\<close>

fun cleanElements :: "bool \<Rightarrow> string list \<Rightarrow> string list \<Rightarrow> string list" where
  "cleanElements rooted st [] = st"
| "cleanElements rooted st (e # es) =
     (if e = [] \<or> e = ''.'' then cleanElements rooted st es
      else if e = ''..'' then
        (if st \<noteq> [] \<and> hd st \<noteq> ''..'' then cleanElements rooted (tl st) es
         else if rooted then cleanElements rooted st es
         else cleanElements rooted (e # st) es)
      else cleanElements rooted (e # st) es)"

definition pathClean :: "string \<Rightarrow> string" where
  "pathClean p =
     (let rooted = startsWith ''/'' p;
          body = Join (rev (cleanElements rooted [] (splitAt CHR ''/'' p))) ''/''
      in if rooted then CHR ''/'' # body else if body = [] then ''.'' else body)"

text \<open>\<open>hex.EncodeToString\<close>\<close>

definition hexDigit :: "nat \<Rightarrow> char" where
  "hexDigit d = (if d < 10 then char_of (48 + d) else char_of (87 + d))"

definition hexEncode :: "string \<Rightarrow> string" where
  "hexEncode s = concat (map (\<lambda>c. [hexDigit (of_char c div 16), hexDigit (of_char c mod 16)]) s)"

definition isHexDigit :: "char \<Rightarrow> bool" where
  "isHexDigit c \<longleftrightarrow> (let n = (of_char c :: nat) in 48 \<le> n \<and> n \<le> 57 \<or> 65 \<le> n \<and> n \<le> 70 \<or> 97 \<le> n \<and> n \<le> 102)"

section \<open>Normal form\<close>

definition IsSHA256Digest :: "string \<Rightarrow> bool" where
  "IsSHA256Digest digest \<longleftrightarrow>
     startsWith ''sha256:'' digest \<and> length digest = 71 \<and> list_all isHexDigit (drop 7 digest)"

definition commitPattern :: "string \<Rightarrow> bool" where
  "commitPattern s \<longleftrightarrow> 7 \<le> length s \<and> length s \<le> 64 \<and> list_all isHexDigit s"

fun stringSetFrom :: "string list \<Rightarrow> string list \<Rightarrow> string list" where
  "stringSetFrom seen [] = []"
| "stringSetFrom seen (s # ss) =
     (let s = TrimSpace s in
      if s = [] then stringSetFrom seen ss
      else if s \<in> set seen then stringSetFrom seen ss
      else s # stringSetFrom (s # seen) ss)"

definition normalizeStringSet :: "string list \<Rightarrow> string list" where
  "normalizeStringSet ss = SortStable (<) (stringSetFrom [] ss)"

definition sortByKey :: "('a \<Rightarrow> string) \<Rightarrow> 'a list \<Rightarrow> 'a list" where
  "sortByKey key xs = SortStable (\<lambda>a b. key a < key b) xs"

definition componentSortKey :: "ReleaseContractComponent \<Rightarrow> string" where
  "componentSortKey c = rccName c @ CHR 0x00 # rccVersion c @ CHR 0x00 # rccPlatform c @ CHR 0x00 # rccImage c"

definition requirementSortKey :: "ReleaseContractRequirement \<Rightarrow> string" where
  "requirementSortKey r =
     rrqComponent r @ CHR 0x00 # rrqContract r @ CHR 0x00 # rrqMinimumVersion r @ CHR 0x00 # rrqReason r"

definition objectSortKey :: "ReleaseContractConfigObject \<Rightarrow> string" where
  "objectSortKey o' = rcoURI o' @ CHR 0x00 # rcoVersionID o' @ CHR 0x00 # rcoChecksum o'"

definition normalizeComponent :: "releaseLib \<Rightarrow> ReleaseContractComponent \<Rightarrow> ReleaseContractComponent" where
  "normalizeComponent R c = \<lparr>rccName = TrimSpace (rccName c), rccVersion = TrimSpace (rccVersion c),
     rccImage = TrimSpace (rccImage c), rccPlatform = ToLower (rlLower R) (TrimSpace (rccPlatform c)),
     rccContracts = normalizeStringSet (rccContracts c)\<rparr>"

definition normalizeRequirement :: "ReleaseContractRequirement \<Rightarrow> ReleaseContractRequirement" where
  "normalizeRequirement r = \<lparr>rrqComponent = TrimSpace (rrqComponent r), rrqContract = TrimSpace (rrqContract r),
     rrqMinimumVersion = TrimSpace (rrqMinimumVersion r), rrqReason = TrimSpace (rrqReason r)\<rparr>"

definition normalizeObject :: "ReleaseContractConfigObject \<Rightarrow> ReleaseContractConfigObject" where
  "normalizeObject o' = \<lparr>rcoURI = TrimSpace (rcoURI o'), rcoVersionID = TrimSpace (rcoVersionID o'),
     rcoChecksum = TrimSpace (rcoChecksum o')\<rparr>"

definition NormalizeReleaseContract :: "releaseLib \<Rightarrow> ReleaseContract \<Rightarrow> ReleaseContract" where
  "NormalizeReleaseContract R contract =
     (let source = rcSource contract; build = rcBuild contract; compat = rcCompatibility contract;
          config = rcConfig contract; changes = rcChanges contract
      in contract\<lparr>
        rcSchema := TrimSpace (rcSchema contract),
        rcSource := \<lparr>rcRepository = TrimSpace (rcRepository source), rcBranch = TrimSpace (rcBranch source),
          rcSourceCommit = TrimSpace (rcSourceCommit source), rcBuiltCommit = TrimSpace (rcBuiltCommit source)\<rparr>,
        rcBuild := \<lparr>rcExternalID = TrimSpace (rcExternalID build), rcExternalURL = TrimSpace (rcExternalURL build)\<rparr>,
        rcComponents := sortByKey componentSortKey (map (normalizeComponent R) (rcComponents contract)),
        rcCompatibility := \<lparr>rcRequires = sortByKey requirementSortKey (map normalizeRequirement (rcRequires compat)),
          rcAffectedComponents = normalizeStringSet (rcAffectedComponents compat)\<rparr>,
        rcConfig := \<lparr>rcRepositoryCommit = TrimSpace (rcRepositoryCommit config),
          rcComposePath = TrimSpace (rcComposePath config), rcServiceConfigPath = TrimSpace (rcServiceConfigPath config),
          rcComposeChecksum = TrimSpace (rcComposeChecksum config),
          rcServiceConfigChecksum = TrimSpace (rcServiceConfigChecksum config),
          rcImmutableObjects = sortByKey objectSortKey (map normalizeObject (rcImmutableObjects config))\<rparr>,
        rcChanges := \<lparr>rcSummary = TrimSpace (rcSummary changes), rcCommits = normalizeStringSet (rcCommits changes)\<rparr>\<rparr>)"

definition NormalizedReleaseContract :: "releaseLib \<Rightarrow> ReleaseContract option \<Rightarrow> ReleaseContract option" where
  "NormalizedReleaseContract R contract = map_option (NormalizeReleaseContract R) contract"

section \<open>Validation\<close>

record ValidationIssue =
  viField :: string
  viRule :: string
  viMessage :: string

record ValidationResult =
  vrValid :: bool
  vrErrors :: "ValidationIssue list"
  vrWarnings :: "ValidationIssue list"

definition AddError :: "string \<Rightarrow> string \<Rightarrow> string \<Rightarrow> ValidationResult \<Rightarrow> ValidationResult" where
  "AddError field rule message result =
     result\<lparr>vrErrors := vrErrors result @ [\<lparr>viField = field, viRule = rule, viMessage = message\<rparr>], vrValid := False\<rparr>"

definition NewValidResult :: ValidationResult where
  "NewValidResult = \<lparr>vrValid = True, vrErrors = [], vrWarnings = []\<rparr>"

definition joinIssueField :: "string \<Rightarrow> string \<Rightarrow> string" where
  "joinIssueField pre field = (if pre = [] then field else if field = [] then pre else pre @ ''.'' @ field)"

definition MergeResult :: "string \<Rightarrow> ValidationResult \<Rightarrow> ValidationResult \<Rightarrow> ValidationResult" where
  "MergeResult pre other result =
     (let issues = map (\<lambda>issue. issue\<lparr>viField := joinIssueField pre (viField issue)\<rparr>);
          errors = vrErrors result @ issues (vrErrors other)
      in result\<lparr>vrErrors := errors, vrWarnings := vrWarnings result @ issues (vrWarnings other), vrValid := (errors = [])\<rparr>)"

definition addIf :: "bool \<Rightarrow> string \<Rightarrow> string \<Rightarrow> string \<Rightarrow> ValidationResult \<Rightarrow> ValidationResult" where
  "addIf c field rule message result = (if c then AddError field rule message result else result)"

definition maxReleaseContractItems :: nat where "maxReleaseContractItems = 256"

definition containsUnsafeContractValue :: "releaseLib \<Rightarrow> string \<Rightarrow> bool" where
  "containsUnsafeContractValue R v \<longleftrightarrow>
     ContainsAny v [CHR 0x0D, CHR 0x0A]
     \<or> list_ex (\<lambda>marker. sublist marker (ToLower (rlLower R) v))
         [''authorization:'', ''bearer '', ''accesstoken '', ''access_token='', ''api_key='', ''password='', ''secret='', ''token='']"

definition validateRequiredContractString ::
    "releaseLib \<Rightarrow> string \<Rightarrow> string \<Rightarrow> nat \<Rightarrow> ValidationResult \<Rightarrow> ValidationResult" where
  "validateRequiredContractString R field v limit result =
     (let fullField = ''releaseContract.'' @ field in
      if v = [] then AddError fullField ''required'' (field @ '' is required'') result
      else if length v > limit then AddError fullField ''limit'' (field @ '' is too long'') result
      else if containsUnsafeContractValue R v
        then AddError fullField ''safe'' (field @ '' must not contain secrets or authorization data'') result
      else result)"

definition validateOptionalContractString ::
    "releaseLib \<Rightarrow> string \<Rightarrow> string \<Rightarrow> nat \<Rightarrow> ValidationResult \<Rightarrow> ValidationResult" where
  "validateOptionalContractString R field v limit result =
     (if v = [] then result else validateRequiredContractString R field v limit result)"

definition validateCommit :: "string \<Rightarrow> string \<Rightarrow> ValidationResult \<Rightarrow> ValidationResult" where
  "validateCommit field v result =
     addIf (\<not> commitPattern v) (''releaseContract.'' @ field) ''commit'' (field @ '' must be a 7 to 64 character hexadecimal commit'') result"

definition validateDigest :: "string \<Rightarrow> string \<Rightarrow> ValidationResult \<Rightarrow> ValidationResult" where
  "validateDigest field v result =
     addIf (\<not> IsSHA256Digest v) (''releaseContract.'' @ field) ''sha256'' (field @ '' must be a sha256 digest'') result"

definition validateHTTPURL :: "releaseLib \<Rightarrow> string \<Rightarrow> string \<Rightarrow> ValidationResult \<Rightarrow> ValidationResult" where
  "validateHTTPURL R field v result =
     (if (case rlUrlParse R v of
            None \<Rightarrow> True
          | Some parsed \<Rightarrow> urlHost parsed = [] \<or> urlScheme parsed \<noteq> ''https'' \<and> urlScheme parsed \<noteq> ''http'')
      then AddError (''releaseContract.'' @ field) ''url'' (field @ '' must be an absolute HTTP(S) URL'') result
      else validateRequiredContractString R field v 2048 result)"

definition validateSafeRelativePath :: "releaseLib \<Rightarrow> string \<Rightarrow> string \<Rightarrow> ValidationResult \<Rightarrow> ValidationResult" where
  "validateSafeRelativePath R field v result =
     (if v = [] \<or> startsWith ''/'' v \<or> CHR 0x5C \<in> set v \<or> pathClean v \<noteq> v \<or> v = ''.'' \<or> startsWith ''../'' v
      then AddError (''releaseContract.'' @ field) ''safePath'' (field @ '' must be a normalized relative path'') result
      else validateRequiredContractString R field v 2048 result)"

definition splitImmutableImage :: "string \<Rightarrow> string \<times> string \<times> bool" where
  "splitImmutableImage img =
     (let (packageRef, digest, ok) = cutAt CHR ''@'' (TrimSpace img)
      in (packageRef, digest, ok \<and> packageRef \<noteq> [] \<and> IsSHA256Digest digest \<and> CHR ''@'' \<notin> set packageRef))"

definition validateContractComponent ::
    "releaseLib \<Rightarrow> (string \<rightharpoonup> BundleComponent) \<Rightarrow> ReleaseContractComponent \<Rightarrow>
     string list \<times> ValidationResult \<Rightarrow> string list \<times> ValidationResult" where
  "validateContractComponent R bundleByKey component st =
     (let (seen, result) = st; name = rccName component; version = rccVersion component;
          field = ''releaseContract.components.'' @ name;
          result = validateRequiredContractString R ''components.name'' name 256 result;
          result = validateRequiredContractString R ''components.version'' version 128 result;
          result = addIf (\<not> rlStrictVersion R version) (field @ ''.version'') ''semver'' ''component version must be strict semantic version'' result;
          result = addIf (name \<in> set seen) (field @ ''.name'') ''unique'' ''component names must be unique'' result;
          result = addIf (rccPlatform component \<noteq> ''linux/amd64'' \<and> rccPlatform component \<noteq> ''linux/arm64'') (field @ ''.platform'')
                     ''supported'' ''platform must be linux/amd64 or linux/arm64'' result;
          result = addIf (length (rccContracts component) > maxReleaseContractItems) (field @ ''.contracts'') ''limit'' ''too many provided contracts'' result;
          result = fold (\<lambda>c. validateRequiredContractString R ''components.contracts'' c 512) (rccContracts component) result;
          (packageRef, digest, ok) = splitImmutableImage (rccImage component)
      in (name # seen,
          if \<not> ok then AddError (field @ ''.image'') ''immutable'' ''component image must use an immutable image digest'' result
          else let result = addIf (case bundleByKey name of
                        None \<Rightarrow> True
                      | Some b \<Rightarrow> bcType b \<noteq> ComponentTypeOCIImage \<and> bcType b \<noteq> ComponentTypeOCIArtifact
                          \<or> TrimSpace (bcPackageRef b) \<noteq> packageRef \<or> \<not> EqualFold (rlFold R) (TrimSpace (bcDigest b)) digest)
                      (field @ ''.image'') ''matchesBundle'' ''component image must match the release bundle OCI component'' result
            in addIf (case bundleByKey name of None \<Rightarrow> False | Some b \<Rightarrow> TrimSpace (bcVersion b) \<noteq> version)
                 (field @ ''.version'') ''matchesBundle'' ''component version must match the release bundle component'' result))"

definition validateReleaseContractComponents ::
    "releaseLib \<Rightarrow> ReleaseContract \<Rightarrow> BundleComponent list \<Rightarrow> ValidationResult \<Rightarrow> ValidationResult" where
  "validateReleaseContractComponents R contract bundleComponents result =
     (if rcComponents contract = []
        then AddError ''releaseContract.components'' ''required'' ''at least one component is required'' result
      else let result = addIf (length (rcComponents contract) > maxReleaseContractItems) ''releaseContract.components'' ''limit''
                 ''too many components'' result;
               bundleByKey = foldl (\<lambda>m c. m(TrimSpace (bcKey c) \<mapsto> c)) Map.empty bundleComponents
      in snd (fold (validateContractComponent R bundleByKey) (rcComponents contract) ([], result)))"

definition validateRequirement :: "releaseLib \<Rightarrow> ReleaseContractRequirement \<Rightarrow> ValidationResult \<Rightarrow> ValidationResult" where
  "validateRequirement R requirement result =
     (let field = ''releaseContract.compatibility.requires.'' @ rrqComponent requirement;
          result = validateRequiredContractString R ''compatibility.requires.component'' (rrqComponent requirement) 256 result;
          result = addIf (rrqContract requirement = [] \<and> rrqMinimumVersion requirement = []) field ''required''
                     ''a contract or minimumVersion is required'' result;
          result = validateOptionalContractString R ''compatibility.requires.contract'' (rrqContract requirement) 512 result;
          result = validateOptionalContractString R ''compatibility.requires.minimumVersion'' (rrqMinimumVersion requirement) 128 result;
          result = addIf (rrqMinimumVersion requirement \<noteq> [] \<and> \<not> rlStrictVersion R (rrqMinimumVersion requirement))
                     (field @ ''.minimumVersion'') ''semver'' ''minimumVersion must be strict semantic version'' result
      in validateOptionalContractString R ''compatibility.requires.reason'' (rrqReason requirement) 2048 result)"

definition validateReleaseContractCompatibility :: "releaseLib \<Rightarrow> ReleaseContract \<Rightarrow> ValidationResult \<Rightarrow> ValidationResult" where
  "validateReleaseContractCompatibility R contract result =
     (let compat = rcCompatibility contract;
          result = addIf (length (rcRequires compat) > maxReleaseContractItems) ''releaseContract.compatibility.requires'' ''limit''
                     ''too many compatibility requirements'' result;
          result = fold (validateRequirement R) (rcRequires compat) result;
          result = addIf (rcAffectedComponents compat = []) ''releaseContract.compatibility.affectedComponents'' ''required''
                     ''at least one affected component is required'' result;
          componentNames = map rccName (rcComponents contract)
      in fold (\<lambda>affected. addIf (affected \<notin> set componentNames) ''releaseContract.compatibility.affectedComponents'' ''component''
                 ''affected components must reference release contract components'') (rcAffectedComponents compat) result)"

definition IsContentAddressedConfigObject :: "releaseLib \<Rightarrow> ReleaseContractConfigObject \<Rightarrow> bool" where
  "IsContentAddressedConfigObject R object =
     (if TrimSpace (rcoVersionID object) \<noteq> [] \<or> \<not> IsSHA256Digest (TrimSpace (rcoChecksum object)) then False
      else case rlUrlParse R (TrimSpace (rcoURI object)) of
        None \<Rightarrow> False
      | Some parsed \<Rightarrow>
          if \<not> EqualFold (rlFold R) (urlScheme parsed) ''s3'' \<or> urlHost parsed = [] \<or> urlUser parsed
             \<or> urlRawQuery parsed \<noteq> [] \<or> urlFragment parsed \<noteq> [] \<or> urlOpaque parsed \<noteq> []
             \<or> CHR 0x5C \<in> set (urlPath parsed) \<or> pathClean (urlPath parsed) \<noteq> urlPath parsed
          then False
          else let segments = splitAt CHR ''/'' (TrimPrefix (urlPath parsed) ''/'') in
            if length segments < 4 \<or> segments ! 0 \<noteq> ''_immutable'' \<or> segments ! 1 \<noteq> ''sha256'' \<or> last segments = []
               \<or> \<not> IsSHA256Digest (''sha256:'' @ segments ! 2)
            then False
            else EqualFold (rlFold R) (''sha256:'' @ segments ! 2) (TrimSpace (rcoChecksum object)))"

definition validateConfigObject :: "releaseLib \<Rightarrow> ReleaseContractConfigObject \<Rightarrow> ValidationResult \<Rightarrow> ValidationResult" where
  "validateConfigObject R object result =
     (let result = validateRequiredContractString R ''config.immutableObjects.uri'' (rcoURI object) 2048 result;
          result = validateDigest ''config.immutableObjects.checksum'' (rcoChecksum object) result
      in if rcoVersionID object \<noteq> []
           then validateRequiredContractString R ''config.immutableObjects.versionId'' (rcoVersionID object) 1024 result
         else addIf (\<not> IsContentAddressedConfigObject R object) ''releaseContract.config.immutableObjects'' ''immutable''
           ''config objects require a versionId or matching content-addressed S3 URI'' result)"

definition validateReleaseContractConfig :: "releaseLib \<Rightarrow> ReleaseContractConfig \<Rightarrow> ValidationResult \<Rightarrow> ValidationResult" where
  "validateReleaseContractConfig R config result =
     (let result = validateCommit ''config.repositoryCommit'' (rcRepositoryCommit config) result;
          result = validateSafeRelativePath R ''config.composePath'' (rcComposePath config) result;
          result = validateSafeRelativePath R ''config.serviceConfigPath'' (rcServiceConfigPath config) result;
          result = validateDigest ''config.composeChecksum'' (rcComposeChecksum config) result;
          result = validateDigest ''config.serviceConfigChecksum'' (rcServiceConfigChecksum config) result;
          result = addIf (length (rcImmutableObjects config) > maxReleaseContractItems) ''releaseContract.config.immutableObjects'' ''limit''
                     ''too many immutable config objects'' result
      in fold (validateConfigObject R) (rcImmutableObjects config) result)"

text \<open>The loop over the commit references, which stops at the first one of several lines.\<close>

fun validateCommits :: "releaseLib \<Rightarrow> string list \<Rightarrow> ValidationResult \<Rightarrow> ValidationResult" where
  "validateCommits R [] result = result"
| "validateCommits R (commit # commits) result =
     (let result = validateRequiredContractString R ''changes.commits'' commit 1024 result in
      if ContainsAny commit [CHR 0x0D, CHR 0x0A]
        then AddError ''releaseContract.changes.commits'' ''safe'' ''commit references must be single-line values'' result
      else validateCommits R commits result)"

definition ValidateReleaseContract :: "releaseLib \<Rightarrow> ReleaseContract \<Rightarrow> BundleComponent list \<Rightarrow> ValidationResult" where
  "ValidateReleaseContract R contract bundleComponents =
     (let contract = NormalizeReleaseContract R contract;
          result = NewValidResult;
          result = addIf (rcSchema contract \<noteq> ReleaseContractSchemaV1) ''releaseContract.schema'' ''supported''
                     ''schema must be distr.release-contract/v1'' result;
          result = validateRequiredContractString R ''source.repository'' (rcRepository (rcSource contract)) 512 result;
          result = validateRequiredContractString R ''source.branch'' (rcBranch (rcSource contract)) 512 result;
          result = validateCommit ''source.sourceCommit'' (rcSourceCommit (rcSource contract)) result;
          result = validateCommit ''source.builtCommit'' (rcBuiltCommit (rcSource contract)) result;
          result = validateRequiredContractString R ''build.externalId'' (rcExternalID (rcBuild contract)) 512 result;
          result = validateHTTPURL R ''build.externalUrl'' (rcExternalURL (rcBuild contract)) result;
          result = validateReleaseContractComponents R contract bundleComponents result;
          result = validateReleaseContractCompatibility R contract result;
          result = validateReleaseContractConfig R (rcConfig contract) result;
          result = validateRequiredContractString R ''changes.summary'' (rcSummary (rcChanges contract)) 4096 result;
          result = addIf (length (rcCommits (rcChanges contract)) > maxReleaseContractItems) ''releaseContract.changes.commits'' ''limit''
                     ''too many commit references'' result;
          result = validateCommits R (rcCommits (rcChanges contract)) result
      in result\<lparr>vrValid := (vrErrors result = [])\<rparr>)"

section \<open>The canonical payload\<close>

definition uuidPtrString :: "releaseLib \<Rightarrow> uuid option \<Rightarrow> string" where
  "uuidPtrString R u = (case u of None \<Rightarrow> [] | Some u \<Rightarrow> rlUuidString R u)"

definition canonicalizeComponent :: "releaseLib \<Rightarrow> BundleComponent \<Rightarrow> canonicalComponent" where
  "canonicalizeComponent R c = \<lparr>ccKey = bcKey c, ccName = bcName c, ccType = componentTypeName (bcType c),
     ccVersion = bcVersion c, ccApplicationVersionID = uuidPtrString R (bcApplicationVersionID c),
     ccPackageRef = bcPackageRef c, ccDigest = bcDigest c, ccChecksum = bcChecksum c,
     ccChildReleaseBundleID = uuidPtrString R (bcChildReleaseBundleID c)\<rparr>"

definition sourceMetadataIsZero :: "canonicalSourceMetadata \<Rightarrow> bool" where
  "sourceMetadataIsZero m \<longleftrightarrow> csRepository m = [] \<and> csBranch m = [] \<and> csTag m = [] \<and> csCIProvider m = []
     \<and> csCIRunID m = [] \<and> csCIRunURL m = []"

definition canonicalBundleOf :: "releaseLib \<Rightarrow> Bundle \<Rightarrow> canonicalBundle" where
  "canonicalBundleOf R bundle =
     (let components = sortByKey bcKey (rlbComponents bundle);
          sourceMetadata = \<lparr>csRepository = rlbSourceRepository bundle, csBranch = rlbSourceBranch bundle,
            csTag = rlbSourceTag bundle, csCIProvider = rlbCIProvider bundle, csCIRunID = rlbCIRunID bundle,
            csCIRunURL = rlbCIRunURL bundle\<rparr>
      in \<lparr>cbApplicationID = rlUuidString R (rlbApplicationID bundle), cbChannelID = rlUuidString R (rlbChannelID bundle),
          cbProcessSnapshotID = uuidPtrString R (rlbProcessSnapshotID bundle),
          cbVariableSnapshotID = uuidPtrString R (rlbVariableSnapshotID bundle), cbReleaseNumber = rlbReleaseNumber bundle,
          cbReleaseNotes = rlbReleaseNotes bundle, cbSourceRevision = rlbSourceRevision bundle,
          cbSourceMetadata = (if \<not> sourceMetadataIsZero sourceMetadata then Some sourceMetadata else None),
          cbReleaseContract = NormalizedReleaseContract R (rlbReleaseContract bundle),
          cbComponents = map (canonicalizeComponent R) components\<rparr>)"

definition Canonicalize :: "releaseLib \<Rightarrow> Bundle \<Rightarrow> (string \<times> string) result" where
  "Canonicalize R bundle =
     (case rlMarshalBundle R (canonicalBundleOf R bundle) of
        None \<Rightarrow> Inl (Errorf ''json: unsupported value'')
      | Some payload \<Rightarrow> Inr (payload, ''sha256:'' @ hexEncode (rlSha256 R payload)))"

section \<open>Content of a bundle\<close>

definition validateComponentContent :: "string \<Rightarrow> BundleComponent \<Rightarrow> ValidationResult \<Rightarrow> ValidationResult" where
  "validateComponentContent key component result =
     (let field = ''components.'' @ key;
          result = addIf (\<not> componentTypeIsValid (bcType component)) (field @ ''.type'') ''valid'' ''component type is invalid'' result;
          result = addIf (TrimSpace (bcVersion component) = []) (field @ ''.version'') ''required'' ''component version is required'' result;
          references = bcApplicationVersionID component \<noteq> None \<or> bcChildReleaseBundleID component \<noteq> None
      in case bcType component of
           ComponentTypeApplicationVersion \<Rightarrow>
             addIf (bcChildReleaseBundleID component \<noteq> None) (field @ ''.childReleaseBundleId'') ''forbidden''
               ''application version component cannot reference a child release bundle''
               (addIf (bcApplicationVersionID component = None) (field @ ''.applicationVersionId'') ''required''
                 ''application version component must reference an application version'' result)
         | ComponentTypeHelmChart \<Rightarrow>
             addIf references (field @ ''.references'') ''forbidden''
               ''helm chart component cannot reference application versions or child bundles''
               (addIf (TrimSpace (bcPackageRef component) = []) (field @ ''.packageRef'') ''required''
                 ''helm chart package reference is required'' result)
         | ComponentTypeChildReleaseBundle \<Rightarrow>
             addIf (bcApplicationVersionID component \<noteq> None) (field @ ''.applicationVersionId'') ''forbidden''
               ''child release bundle component cannot reference an application version''
               (addIf (bcChildReleaseBundleID component = None) (field @ ''.childReleaseBundleId'') ''required''
                 ''child release bundle component must reference a child release bundle'' result)
         | ComponentTypeExternalArtifact \<Rightarrow>
             addIf references (field @ ''.references'') ''forbidden''
               ''external artifact component cannot reference application versions or child bundles''
               (addIf (TrimSpace (bcChecksum component) = []) (field @ ''.checksum'') ''required''
                 ''external artifact checksum is required''
                 (addIf (TrimSpace (bcPackageRef component) = []) (field @ ''.packageRef'') ''required''
                   ''external artifact package reference is required'' result))
         | ComponentTypeOther _ \<Rightarrow> result
         | _ \<Rightarrow>
             addIf references (field @ ''.references'') ''forbidden''
               ''OCI component cannot reference application versions or child bundles''
               (addIf (\<not> IsSHA256Digest (TrimSpace (bcDigest component))) (field @ ''.digest'') ''sha256''
                 ''OCI component digest must be a sha256 digest''
                 (addIf (TrimSpace (bcPackageRef component) = []) (field @ ''.packageRef'') ''required''
                   ''OCI component package reference is required'' result)))"

fun validateBundleComponents :: "string list \<Rightarrow> BundleComponent list \<Rightarrow> ValidationResult \<Rightarrow> ValidationResult" where
  "validateBundleComponents seen [] result = result"
| "validateBundleComponents seen (component # components) result =
     (let key = TrimSpace (bcKey component) in
      if key = [] then validateBundleComponents seen components (AddError ''components'' ''key'' ''component key is required'' result)
      else let result = addIf (key \<in> set seen) (''components.'' @ key @ ''.key'') ''unique'' ''component key must be unique'' result
        in validateBundleComponents (key # seen) components (validateComponentContent key component result))"

definition ValidateBundleContent :: "releaseLib \<Rightarrow> Bundle \<Rightarrow> ValidationResult" where
  "ValidateBundleContent R bundle =
     (let result = NewValidResult;
          result = addIf (rlbComponents bundle = []) ''components'' ''required'' ''at least one component is required'' result;
          result = (if rlbCanonicalChecksum bundle \<noteq> [] \<or> rlbCanonicalPayload bundle \<noteq> [] then
              (case Canonicalize R bundle of
                 Inl _ \<Rightarrow> AddError ''canonicalPayload'' ''canonicalize'' ''canonical payload could not be computed'' result
               | Inr (_, checksum) \<Rightarrow> addIf (checksum \<noteq> rlbCanonicalChecksum bundle) ''canonicalChecksum'' ''sha256''
                   ''canonical payload does not match checksum'' result)
            else result);
          result = (case rlbReleaseContract bundle of
              None \<Rightarrow> result
            | Some contract \<Rightarrow> MergeResult [] (ValidateReleaseContract R contract (rlbComponents bundle)) result);
          result = validateBundleComponents [] (rlbComponents bundle) result
      in result\<lparr>vrValid := (vrErrors result = [])\<rparr>)"

section \<open>The payload does not depend on the order\<close>

interpretation keyOrder: weak_order "\<lambda>a b. key a < (key b :: string)" for key
  by unfold_locales auto

lemma sortByKey_cong:
  assumes "mset xs = mset ys" "\<And>x y. x \<in> set xs \<Longrightarrow> y \<in> set xs \<Longrightarrow> key x = key y \<Longrightarrow> x = y"
  shows "sortByKey key xs = sortByKey key ys"
  unfolding sortByKey_def
  by (rule keyOrder.SortStable_mset_cong [OF assms(1)]) (use assms(2) in \<open>auto simp: keyOrder.equivG_def\<close>)

lemma stringSetFrom_set: "set (stringSetFrom seen ss) = TrimSpace ` set ss - {[]} - set seen"
  by (induction seen ss rule: stringSetFrom.induct) (auto simp: Let_def)

lemma stringSetFrom_distinct: "distinct (stringSetFrom seen ss)"
  by (induction seen ss rule: stringSetFrom.induct) (auto simp: Let_def stringSetFrom_set)

lemma normalizeStringSet_cong:
  assumes "set ss = set ts"
  shows "normalizeStringSet ss = normalizeStringSet ts"
proof -
  have "mset (stringSetFrom [] ss) = mset (stringSetFrom [] ts)"
    using assms by (intro set_eq_iff_mset_eq_distinct [THEN iffD1]) (simp_all add: stringSetFrom_set stringSetFrom_distinct)
  then have "sortByKey (\<lambda>s. s) (stringSetFrom [] ss) = sortByKey (\<lambda>s. s) (stringSetFrom [] ts)"
    by (rule sortByKey_cong)
  then show ?thesis by (simp add: normalizeStringSet_def sortByKey_def)
qed

lemma set_TrimSpace: "set (TrimSpace s) \<subseteq> set s"
proof -
  have "set (TrimSpace s) \<subseteq> set (trimFront spaceRunes s)" using prefix_TrimSpace set_mono_prefix by metis
  also have "\<dots> \<subseteq> set s" using suffix_trimFront set_mono_suffix by metis
  finally show ?thesis .
qed

text \<open>No text of a contract that is part of a sort key contains NUL; a JSON document in the database cannot.\<close>

definition nulFree :: "string \<Rightarrow> bool" where
  "nulFree s \<longleftrightarrow> CHR 0x00 \<notin> set s"

lemma nulFree_TrimSpace: "nulFree s \<Longrightarrow> nulFree (TrimSpace s)"
  using set_TrimSpace by (auto simp: nulFree_def)

definition nulFreeContract :: "ReleaseContract \<Rightarrow> bool" where
  "nulFreeContract c \<longleftrightarrow>
     list_all (\<lambda>x. nulFree (rccName x)) (rcComponents c)
     \<and> list_all (\<lambda>r. nulFree (rrqComponent r) \<and> nulFree (rrqContract r) \<and> nulFree (rrqMinimumVersion r)) (rcRequires (rcCompatibility c))
     \<and> list_all (\<lambda>x. nulFree (rcoURI x) \<and> nulFree (rcoVersionID x)) (rcImmutableObjects (rcConfig c))"

text \<open>Contracts that differ only in the order of lists and in repetitions in the set-like ones.\<close>

definition componentView :: "ReleaseContractComponent \<Rightarrow> string \<times> string \<times> string \<times> string \<times> string set" where
  "componentView c = (rccName c, rccVersion c, rccImage c, rccPlatform c, set (rccContracts c))"

definition sameContract :: "ReleaseContract \<Rightarrow> ReleaseContract \<Rightarrow> bool" where
  "sameContract c d \<longleftrightarrow>
     rcSchema c = rcSchema d \<and> rcSource c = rcSource d \<and> rcBuild c = rcBuild d \<and> rcOperations c = rcOperations d
     \<and> mset (map componentView (rcComponents c)) = mset (map componentView (rcComponents d))
     \<and> mset (rcRequires (rcCompatibility c)) = mset (rcRequires (rcCompatibility d))
     \<and> set (rcAffectedComponents (rcCompatibility c)) = set (rcAffectedComponents (rcCompatibility d))
     \<and> mset (rcImmutableObjects (rcConfig c)) = mset (rcImmutableObjects (rcConfig d))
     \<and> (rcConfig c)\<lparr>rcImmutableObjects := []\<rparr> = (rcConfig d)\<lparr>rcImmutableObjects := []\<rparr>
     \<and> rcSummary (rcChanges c) = rcSummary (rcChanges d) \<and> set (rcCommits (rcChanges c)) = set (rcCommits (rcChanges d))"

lemma mset_map_factor:
  assumes "mset (map view xs) = mset (map view ys)" "\<And>x y. view x = view y \<Longrightarrow> f x = f y"
  shows "mset (map f xs) = mset (map f ys)"
proof -
  define h where "h v = f (SOME x. view x = v)" for v
  have "f x = h (view x)" for x using assms(2) [of x "SOME y. view y = view x"] someI [of "\<lambda>y. view y = view x" x]
    by (simp add: h_def)
  then have "f = (\<lambda>x. h (view x))" by (rule ext)
  then have "image_mset f (mset zs) = image_mset h (image_mset view (mset zs))" for zs
    by (simp add: multiset.map_comp comp_def)
  then show ?thesis using assms(1) by simp
qed

lemma normalizeComponent_view: "componentView c = componentView d \<Longrightarrow> normalizeComponent R c = normalizeComponent R d"
  using normalizeStringSet_cong [of "rccContracts c" "rccContracts d"] by (auto simp: componentView_def normalizeComponent_def)

lemma components_sorted:
  assumes "mset (map componentView cs) = mset (map componentView ds)"
    and "list_all (\<lambda>x. nulFree (rccName x)) cs" "distinct (map (\<lambda>x. TrimSpace (rccName x)) cs)"
  shows "sortByKey componentSortKey (map (normalizeComponent R) cs) = sortByKey componentSortKey (map (normalizeComponent R) ds)"
proof (rule sortByKey_cong)
  show "mset (map (normalizeComponent R) cs) = mset (map (normalizeComponent R) ds)"
    by (rule mset_map_factor [OF assms(1) normalizeComponent_view])
  fix x y assume x: "x \<in> set (map (normalizeComponent R) cs)" and y: "y \<in> set (map (normalizeComponent R) cs)"
    and key: "componentSortKey x = componentSortKey y"
  obtain a b where ab: "a \<in> set cs" "b \<in> set cs" "x = normalizeComponent R a" "y = normalizeComponent R b" using x y by auto
  have "nulFree (rccName x)" "nulFree (rccName y)"
    using assms(2) ab by (auto simp: list_all_iff normalizeComponent_def intro: nulFree_TrimSpace)
  then have "rccName x = rccName y"
    using key append_sep_eq [of "rccName x" "CHR 0x00" _ "rccName y"] by (simp add: componentSortKey_def nulFree_def)
  then have "TrimSpace (rccName a) = TrimSpace (rccName b)" by (simp add: ab normalizeComponent_def)
  then have "a = b" using assms(3) ab(1,2) by (meson distinct_map inj_onD)
  then show "x = y" by (simp add: ab)
qed

lemma requirementSortKey_inj:
  assumes "nulFree (rrqComponent r)" "nulFree (rrqContract r)" "nulFree (rrqMinimumVersion r)"
    and "nulFree (rrqComponent q)" "nulFree (rrqContract q)" "nulFree (rrqMinimumVersion q)"
    and "requirementSortKey r = requirementSortKey q"
  shows "r = q"
proof -
  have 1: "rrqComponent r = rrqComponent q \<and> rrqContract r @ CHR 0x00 # rrqMinimumVersion r @ CHR 0x00 # rrqReason r
      = rrqContract q @ CHR 0x00 # rrqMinimumVersion q @ CHR 0x00 # rrqReason q"
    using assms by (intro append_sep_eq [of _ "CHR 0x00"]) (simp_all add: requirementSortKey_def nulFree_def)
  then have 2: "rrqContract r = rrqContract q \<and> rrqMinimumVersion r @ CHR 0x00 # rrqReason r = rrqMinimumVersion q @ CHR 0x00 # rrqReason q"
    using assms by (intro append_sep_eq [of _ "CHR 0x00"]) (simp_all add: nulFree_def)
  then have "rrqMinimumVersion r = rrqMinimumVersion q \<and> rrqReason r = rrqReason q"
    using assms by (intro append_sep_eq [of _ "CHR 0x00"]) (simp_all add: nulFree_def)
  with 1 2 show ?thesis by simp
qed

lemma objectSortKey_inj:
  assumes "nulFree (rcoURI x)" "nulFree (rcoVersionID x)" "nulFree (rcoURI y)" "nulFree (rcoVersionID y)"
    and "objectSortKey x = objectSortKey y"
  shows "x = y"
proof -
  have 1: "rcoURI x = rcoURI y \<and> rcoVersionID x @ CHR 0x00 # rcoChecksum x = rcoVersionID y @ CHR 0x00 # rcoChecksum y"
    using assms by (intro append_sep_eq [of _ "CHR 0x00"]) (simp_all add: objectSortKey_def nulFree_def)
  then have "rcoVersionID x = rcoVersionID y \<and> rcoChecksum x = rcoChecksum y"
    using assms by (intro append_sep_eq [of _ "CHR 0x00"]) (simp_all add: nulFree_def)
  with 1 show ?thesis by simp
qed

lemma requires_sorted:
  assumes "mset rs = mset qs"
    and "list_all (\<lambda>r. nulFree (rrqComponent r) \<and> nulFree (rrqContract r) \<and> nulFree (rrqMinimumVersion r)) rs"
  shows "sortByKey requirementSortKey (map normalizeRequirement rs) = sortByKey requirementSortKey (map normalizeRequirement qs)"
proof (rule sortByKey_cong)
  show "mset (map normalizeRequirement rs) = mset (map normalizeRequirement qs)" using assms(1) by simp
  fix x y assume "x \<in> set (map normalizeRequirement rs)" "y \<in> set (map normalizeRequirement rs)"
    "requirementSortKey x = requirementSortKey y"
  then show "x = y" using assms(2)
    by (intro requirementSortKey_inj) (auto simp: list_all_iff normalizeRequirement_def intro!: nulFree_TrimSpace)
qed

lemma objects_sorted:
  assumes "mset xs = mset ys" "list_all (\<lambda>x. nulFree (rcoURI x) \<and> nulFree (rcoVersionID x)) xs"
  shows "sortByKey objectSortKey (map normalizeObject xs) = sortByKey objectSortKey (map normalizeObject ys)"
proof (rule sortByKey_cong)
  show "mset (map normalizeObject xs) = mset (map normalizeObject ys)" using assms(1) by simp
  fix x y assume "x \<in> set (map normalizeObject xs)" "y \<in> set (map normalizeObject xs)" "objectSortKey x = objectSortKey y"
  then show "x = y" using assms(2)
    by (intro objectSortKey_inj) (auto simp: list_all_iff normalizeObject_def intro!: nulFree_TrimSpace)
qed

lemma contract_normal_form:
  assumes "sameContract c d" "nulFreeContract c" "distinct (map (\<lambda>x. TrimSpace (rccName x)) (rcComponents c))"
  shows "NormalizeReleaseContract R c = NormalizeReleaseContract R d"
proof -
  have k: "sortByKey componentSortKey (map (normalizeComponent R) (rcComponents c))
      = sortByKey componentSortKey (map (normalizeComponent R) (rcComponents d))"
    "sortByKey requirementSortKey (map normalizeRequirement (rcRequires (rcCompatibility c)))
      = sortByKey requirementSortKey (map normalizeRequirement (rcRequires (rcCompatibility d)))"
    "sortByKey objectSortKey (map normalizeObject (rcImmutableObjects (rcConfig c)))
      = sortByKey objectSortKey (map normalizeObject (rcImmutableObjects (rcConfig d)))"
    using assms components_sorted requires_sorted objects_sorted by (simp_all add: sameContract_def nulFreeContract_def)
  have n: "normalizeStringSet (rcAffectedComponents (rcCompatibility c)) = normalizeStringSet (rcAffectedComponents (rcCompatibility d))"
    "normalizeStringSet (rcCommits (rcChanges c)) = normalizeStringSet (rcCommits (rcChanges d))"
    using assms(1) by (auto simp: sameContract_def intro!: normalizeStringSet_cong)
  have config: "(rcConfig c)\<lparr>rcImmutableObjects := []\<rparr> = (rcConfig d)\<lparr>rcImmutableObjects := []\<rparr>"
    using assms(1) by (simp add: sameContract_def)
  have f: "rcRepositoryCommit (rcConfig c) = rcRepositoryCommit (rcConfig d)" "rcComposePath (rcConfig c) = rcComposePath (rcConfig d)"
    "rcServiceConfigPath (rcConfig c) = rcServiceConfigPath (rcConfig d)" "rcComposeChecksum (rcConfig c) = rcComposeChecksum (rcConfig d)"
    "rcServiceConfigChecksum (rcConfig c) = rcServiceConfigChecksum (rcConfig d)"
    using arg_cong [OF config, of rcRepositoryCommit] arg_cong [OF config, of rcComposePath]
      arg_cong [OF config, of rcServiceConfigPath] arg_cong [OF config, of rcComposeChecksum]
      arg_cong [OF config, of rcServiceConfigChecksum] by simp_all
  show ?thesis
    using assms(1) by (intro ReleaseContract.equality) (simp_all add: NormalizeReleaseContract_def Let_def k n f sameContract_def)
qed

definition sameBundle :: "Bundle \<Rightarrow> Bundle \<Rightarrow> bool" where
  "sameBundle a b \<longleftrightarrow>
     rel_option sameContract (rlbReleaseContract a) (rlbReleaseContract b)
     \<and> mset (rlbComponents a) = mset (rlbComponents b)
     \<and> a\<lparr>rlbReleaseContract := None, rlbComponents := []\<rparr> = b\<lparr>rlbReleaseContract := None, rlbComponents := []\<rparr>"

text \<open>C23: the canonical payload of a release, and with it the checksum, does not depend on the order in which
  the components of the bundle, the parts of its contract and the entries of the set-like lists are
  given, nor on repetitions in the latter, if the keys of the components and the names in the contract are
  unique, as the validation demands.\<close>

theorem canonical_release_order_independent:
  assumes same: "sameBundle a b"
    and keys: "distinct (map bcKey (rlbComponents a))"
    and contract: "\<And>c. rlbReleaseContract a = Some c \<Longrightarrow>
       nulFreeContract c \<and> distinct (map (\<lambda>x. TrimSpace (rccName x)) (rcComponents c))"
  shows "Canonicalize R a = Canonicalize R b"
proof -
  have "sortByKey bcKey (rlbComponents a) = sortByKey bcKey (rlbComponents b)"
    using same keys by (intro sortByKey_cong) (auto simp: sameBundle_def distinct_map inj_on_def)
  moreover have "NormalizedReleaseContract R (rlbReleaseContract a) = NormalizedReleaseContract R (rlbReleaseContract b)"
    using same contract contract_normal_form
    by (cases "rlbReleaseContract a"; cases "rlbReleaseContract b") (auto simp: sameBundle_def NormalizedReleaseContract_def)
  moreover have rest: "f a = f b" if "\<And>x. f x = f (x\<lparr>rlbReleaseContract := None, rlbComponents := []\<rparr>)" for f :: "Bundle \<Rightarrow> 'b"
    using same that by (metis sameBundle_def)
  have "rlbApplicationID a = rlbApplicationID b" "rlbChannelID a = rlbChannelID b" "rlbProcessSnapshotID a = rlbProcessSnapshotID b"
    "rlbVariableSnapshotID a = rlbVariableSnapshotID b" "rlbReleaseNumber a = rlbReleaseNumber b"
    "rlbReleaseNotes a = rlbReleaseNotes b" "rlbSourceRevision a = rlbSourceRevision b"
    "rlbSourceRepository a = rlbSourceRepository b" "rlbSourceBranch a = rlbSourceBranch b" "rlbSourceTag a = rlbSourceTag b"
    "rlbCIProvider a = rlbCIProvider b" "rlbCIRunID a = rlbCIRunID b" "rlbCIRunURL a = rlbCIRunURL b"
    by (rule rest, simp)+
  ultimately have "canonicalBundleOf R a = canonicalBundleOf R b" by (simp add: canonicalBundleOf_def Let_def)
  then show ?thesis by (simp add: Canonicalize_def)
qed

definition exContract :: "ReleaseContractComponent list \<Rightarrow> string list \<Rightarrow> ReleaseContract" where
  "exContract components affected = \<lparr>rcSchema = ReleaseContractSchemaV1,
     rcSource = \<lparr>rcRepository = ''r'', rcBranch = ''main'', rcSourceCommit = ''abcdef0'', rcBuiltCommit = ''abcdef0''\<rparr>,
     rcBuild = \<lparr>rcExternalID = ''1'', rcExternalURL = ''https://ci''\<rparr>, rcComponents = components,
     rcCompatibility = \<lparr>rcRequires = [], rcAffectedComponents = affected\<rparr>,
     rcOperations = \<lparr>rcMigrationRequired = False, rcConfigChangeRequired = False\<rparr>,
     rcConfig = \<lparr>rcRepositoryCommit = ''abcdef0'', rcComposePath = ''c.yml'', rcServiceConfigPath = ''s.yml'',
       rcComposeChecksum = [], rcServiceConfigChecksum = [], rcImmutableObjects = []\<rparr>,
     rcChanges = \<lparr>rcSummary = ''s'', rcCommits = []\<rparr>\<rparr>"

definition exBundleComponent :: "string \<Rightarrow> BundleComponent" where
  "exBundleComponent key = \<lparr>bcID = 0, bcReleaseBundleID = 0, bcKey = key, bcName = key, bcType = ComponentTypeOCIImage,
     bcVersion = ''1.0.0'', bcApplicationVersionID = None, bcPackageRef = ''p'', bcDigest = [], bcChecksum = [],
     bcChildReleaseBundleID = None\<rparr>"

definition exContractComponent :: "string \<Rightarrow> ReleaseContractComponent" where
  "exContractComponent name = \<lparr>rccName = name, rccVersion = ''1.0.0'', rccImage = ''p'', rccPlatform = ''linux/amd64'', rccContracts = []\<rparr>"

definition exBundle :: "BundleComponent list \<Rightarrow> ReleaseContract \<Rightarrow> Bundle" where
  "exBundle components contract = \<lparr>rlbID = 1, rlbCreatedAt = 0, rlbUpdatedAt = 0, rlbOrganizationID = 1, rlbApplicationID = 1,
     rlbChannelID = 1, rlbProcessSnapshotID = None, rlbVariableSnapshotID = None, rlbDeploymentProcessRevisionID = None,
     rlbReleaseNumber = ''1'', rlbReleaseNotes = [], rlbSourceRevision = [], rlbSourceRepository = [], rlbSourceBranch = [],
     rlbSourceTag = [], rlbCIProvider = [], rlbCIRunID = [], rlbCIRunURL = [], rlbReleaseContract = Some contract,
     rlbStatus = BundleStatusPublished, rlbPublishedByUserAccountID = None, rlbPublishedAt = None, rlbCanonicalChecksum = [],
     rlbCanonicalPayload = [], rlbComponents = components\<rparr>"

definition exReleaseLib :: releaseLib where
  "exReleaseLib = \<lparr>rlStrictVersion = (\<lambda>_. True), rlVersionLess = (\<lambda>_ _. False), rlUrlParse = (\<lambda>_. None),
     rlMarshalBundle = (\<lambda>b. Some (concat (map ccKey (cbComponents b)))), rlSha256 = (\<lambda>s. s), rlUuidString = (\<lambda>_. ''u''),
     rlLower = (\<lambda>s. s), rlFold = (=)\<rparr>"

theorem canonical_release_order_independent_witness:
  "Canonicalize exReleaseLib (exBundle [exBundleComponent ''a'', exBundleComponent ''b'']
       (exContract [exContractComponent ''a'', exContractComponent ''b''] [''a'', ''b'']))
   = Canonicalize exReleaseLib (exBundle [exBundleComponent ''b'', exBundleComponent ''a'']
       (exContract [exContractComponent ''b'', exContractComponent ''a''] [''b'', ''a'', ''b'']))"
proof (rule canonical_release_order_independent)
  have "TrimSpace ''a'' = ''a''" "TrimSpace ''b'' = ''b''" by (rule TrimSpace_graphic; simp add: graphic_def)+
  then show "nulFreeContract c \<and> distinct (map (\<lambda>x. TrimSpace (rccName x)) (rcComponents c))"
    if "rlbReleaseContract (exBundle [exBundleComponent ''a'', exBundleComponent ''b'']
       (exContract [exContractComponent ''a'', exContractComponent ''b''] [''a'', ''b''])) = Some c" for c
    using that by (auto simp: exBundle_def exContract_def exContractComponent_def nulFreeContract_def nulFree_def)
qed (auto simp: exBundle_def exContract_def exContractComponent_def exBundleComponent_def sameBundle_def sameContract_def)

end
