(* ===== verification/Lifecycle_Eligibility.thy ===== *)
theory Lifecycle_Eligibility
  imports Release_Contracts
begin

text \<open>
  internal/lifecycle/eligibility.go with internal/types/lifecycle.go, the requests of api/lifecycle.go and
  their translation in internal/handlers/lifecycles.go: whether a release may be deployed to an
  environment, by the phases of the lifecycle of its channel. \<open>ustr\<close> is \<open>uuid.UUID.String\<close> and \<open>uq\<close> what
  \<open>%q\<close> prints for a string that is not printable ASCII. Values of type int are integers of the range of
  64 bits; the subtraction in the comparison wraps around.
\<close>

section \<open>Lifecycles\<close>

record LifecyclePhase =
  lpID :: uuid
  lpLifecycleID :: uuid
  lpName :: string
  lpDescription :: string
  lpSortOrder :: int
  lpEnvironmentIDs :: "uuid list"
  lpOptional :: bool
  lpAutomaticPromotion :: bool
  lpMinimumSuccessfulDeployments :: int
  lpApprovalPolicyID :: "uuid option"
  lpRetentionPolicyID :: "uuid option"

record ReleaseLifecycle =
  lcID :: uuid
  lcCreatedAt :: timestamp
  lcUpdatedAt :: timestamp
  lcOrganizationID :: uuid
  lcName :: string
  lcDescription :: string
  lcSortOrder :: int
  lcPhases :: "LifecyclePhase list"

record CreateUpdateLifecyclePhaseRequest =
  cpName :: string
  cpDescription :: string
  cpSortOrder :: int
  cpEnvironmentIDs :: "uuid list"
  cpOptional :: bool
  cpAutomaticPromotion :: bool
  cpMinimumSuccessfulDeployments :: int
  cpApprovalPolicyID :: "uuid option"
  cpRetentionPolicyID :: "uuid option"

record CreateUpdateLifecycleRequest =
  crName :: string
  crDescription :: string
  crSortOrder :: int
  crPhases :: "CreateUpdateLifecyclePhaseRequest list"

section \<open>Requests\<close>

fun uniqueEnvironmentIDs :: "uuid list \<Rightarrow> uuid list \<Rightarrow> unit result" where
  "uniqueEnvironmentIDs seen [] = Inr ()"
| "uniqueEnvironmentIDs seen (e # es) =
     (if e \<in> set seen then Inl (ErrValidationFailed ''phase environmentIds must be unique'')
      else uniqueEnvironmentIDs (e # seen) es)"

definition validateLifecyclePhaseRequest :: "CreateUpdateLifecyclePhaseRequest \<Rightarrow> unit result" where
  "validateLifecyclePhaseRequest r =
     (if TrimSpace (cpName r) = [] then Inl (ErrValidationFailed ''phase name is required'')
      else if cpSortOrder r < 0 then Inl (ErrValidationFailed ''phase sortOrder must be non-negative'')
      else if cpEnvironmentIDs r = [] then Inl (ErrValidationFailed ''phase must reference at least one environment'')
      else bindR (uniqueEnvironmentIDs [] (cpEnvironmentIDs r)) (\<lambda>_.
        if cpMinimumSuccessfulDeployments r < 0
          then Inl (ErrValidationFailed ''phase minimumSuccessfulDeployments must be non-negative'')
        else Inr ()))"

fun validatePhasesFrom ::
    "string list \<Rightarrow> int list \<Rightarrow> CreateUpdateLifecyclePhaseRequest list \<Rightarrow> unit result" where
  "validatePhasesFrom phaseNames phaseSortOrders [] = Inr ()"
| "validatePhasesFrom phaseNames phaseSortOrders (phase # phases) =
     bindR (validateLifecyclePhaseRequest phase) (\<lambda>_.
       let phaseName = TrimSpace (cpName phase) in
       if phaseName \<in> set phaseNames then Inl (ErrValidationFailed ''phase name must be unique'')
       else if cpSortOrder phase \<in> set phaseSortOrders then Inl (ErrValidationFailed ''phase sortOrder must be unique'')
       else validatePhasesFrom (phaseName # phaseNames) (cpSortOrder phase # phaseSortOrders) phases)"

definition validateLifecyclePhases :: "CreateUpdateLifecyclePhaseRequest list \<Rightarrow> unit result" where
  "validateLifecyclePhases phases = validatePhasesFrom [] [] phases"

definition validateLifecycleRequest :: "CreateUpdateLifecycleRequest \<Rightarrow> unit result" where
  "validateLifecycleRequest r =
     (if TrimSpace (crName r) = [] then Inl (ErrValidationFailed ''name is required'')
      else if crSortOrder r < 0 then Inl (ErrValidationFailed ''sortOrder must be non-negative'')
      else validateLifecyclePhases (crPhases r))"

definition phaseFromRequest :: "CreateUpdateLifecyclePhaseRequest \<Rightarrow> LifecyclePhase" where
  "phaseFromRequest r = \<lparr>lpID = uuid_Nil, lpLifecycleID = uuid_Nil, lpName = TrimSpace (cpName r),
     lpDescription = cpDescription r, lpSortOrder = cpSortOrder r, lpEnvironmentIDs = cpEnvironmentIDs r,
     lpOptional = cpOptional r, lpAutomaticPromotion = cpAutomaticPromotion r,
     lpMinimumSuccessfulDeployments = cpMinimumSuccessfulDeployments r,
     lpApprovalPolicyID = cpApprovalPolicyID r, lpRetentionPolicyID = cpRetentionPolicyID r\<rparr>"

definition lifecyclePhasesFromRequests :: "CreateUpdateLifecyclePhaseRequest list \<Rightarrow> LifecyclePhase list" where
  "lifecyclePhasesFromRequests requests = map phaseFromRequest requests"

definition lifecycleFromCreateUpdateRequest :: "uuid \<Rightarrow> CreateUpdateLifecycleRequest \<Rightarrow> ReleaseLifecycle" where
  "lifecycleFromCreateUpdateRequest orgID request = \<lparr>lcID = uuid_Nil, lcCreatedAt = 0, lcUpdatedAt = 0,
     lcOrganizationID = orgID, lcName = TrimSpace (crName request), lcDescription = crDescription request,
     lcSortOrder = crSortOrder request, lcPhases = lifecyclePhasesFromRequests (crPhases request)\<rparr>"

section \<open>Eligibility\<close>

datatype EligibilityReasonCode =
    EligibilityReasonReleaseNotPublished
  | EligibilityReasonReleaseBlocked
  | EligibilityReasonReleaseArchived
  | EligibilityReasonEnvironmentNotInLifecycle
  | EligibilityReasonRequiredPriorPhaseIncomplete
  | EligibilityReasonApprovalRequired
  | EligibilityReasonChannelLifecycleMismatch

fun reasonCodeName :: "EligibilityReasonCode \<Rightarrow> string" where
  "reasonCodeName EligibilityReasonReleaseNotPublished = ''release_not_published''"
| "reasonCodeName EligibilityReasonReleaseBlocked = ''release_blocked''"
| "reasonCodeName EligibilityReasonReleaseArchived = ''release_archived''"
| "reasonCodeName EligibilityReasonEnvironmentNotInLifecycle = ''environment_not_in_lifecycle''"
| "reasonCodeName EligibilityReasonRequiredPriorPhaseIncomplete = ''required_prior_phase_incomplete''"
| "reasonCodeName EligibilityReasonApprovalRequired = ''approval_required''"
| "reasonCodeName EligibilityReasonChannelLifecycleMismatch = ''channel_lifecycle_mismatch''"

record EligibilityReason =
  ercCode :: EligibilityReasonCode
  ercField :: string
  ercMessage :: string

record EligibilityPhase =
  epID :: uuid
  epName :: string
  epSortOrder :: int
  epEnvironmentIDs :: "uuid list"
  epOptional :: bool
  epAutomaticPromotion :: bool
  epMinimumSuccessfulDeployments :: int
  epApprovalPolicyID :: "uuid option"
  epRetentionPolicyID :: "uuid option"
  epMatchesEnvironment :: bool
  epRequiredBeforeTarget :: bool
  epBlocksEligibility :: bool

record EligibilityResult =
  erReleaseBundleID :: uuid
  erApplicationID :: uuid
  erChannelID :: uuid
  erLifecycleID :: uuid
  erEnvironmentID :: uuid
  erEngineReady :: bool
  erEligible :: bool
  erTargetPhase :: "EligibilityPhase option"
  erPhases :: "EligibilityPhase list"
  erReasons :: "EligibilityReason list"

record EligibilityRequest =
  eqReleaseBundle :: Bundle
  eqChannelLifecycleID :: uuid
  eqLifecycle :: ReleaseLifecycle
  eqEnvironmentID :: uuid

definition phaseLess :: "LifecyclePhase \<Rightarrow> LifecyclePhase \<Rightarrow> bool" where
  "phaseLess a b \<longleftrightarrow> wrap64 (lpSortOrder a - lpSortOrder b) < 0"

definition eligibilityPhase :: "uuid \<Rightarrow> LifecyclePhase \<Rightarrow> EligibilityPhase" where
  "eligibilityPhase env phase = \<lparr>epID = lpID phase, epName = lpName phase, epSortOrder = lpSortOrder phase,
     epEnvironmentIDs = lpEnvironmentIDs phase, epOptional = lpOptional phase,
     epAutomaticPromotion = lpAutomaticPromotion phase,
     epMinimumSuccessfulDeployments = lpMinimumSuccessfulDeployments phase,
     epApprovalPolicyID = lpApprovalPolicyID phase, epRetentionPolicyID = lpRetentionPolicyID phase,
     epMatchesEnvironment = (env \<in> set (lpEnvironmentIDs phase)), epRequiredBeforeTarget = False,
     epBlocksEligibility = False\<rparr>"

definition addReason :: "EligibilityReasonCode \<Rightarrow> string \<Rightarrow> string \<Rightarrow> EligibilityResult \<Rightarrow> EligibilityResult" where
  "addReason code field message r =
     r\<lparr>erReasons := erReasons r @ [\<lparr>ercCode = code, ercField = field, ercMessage = message\<rparr>]\<rparr>"

definition addChannelReason :: "EligibilityRequest \<Rightarrow> EligibilityResult \<Rightarrow> EligibilityResult" where
  "addChannelReason request result =
     (if eqChannelLifecycleID request \<noteq> uuid_Nil \<and> lcID (eqLifecycle request) \<noteq> uuid_Nil
         \<and> eqChannelLifecycleID request \<noteq> lcID (eqLifecycle request)
      then addReason EligibilityReasonChannelLifecycleMismatch ''channel.lifecycleId''
        ''channel lifecycle does not match the evaluated lifecycle'' result
      else result)"

definition addStatusReason :: "BundleStatus \<Rightarrow> EligibilityResult \<Rightarrow> EligibilityResult" where
  "addStatusReason status result =
     (case status of
        BundleStatusPublished \<Rightarrow> result
      | BundleStatusBlocked \<Rightarrow> addReason EligibilityReasonReleaseBlocked ''status''
          ''blocked release bundles cannot advance through lifecycle phases'' result
      | BundleStatusArchived \<Rightarrow> addReason EligibilityReasonReleaseArchived ''status''
          ''archived release bundles cannot advance through lifecycle phases'' result
      | _ \<Rightarrow> addReason EligibilityReasonReleaseNotPublished ''status''
          ''release bundle must be published before lifecycle eligibility can pass'' result)"

text \<open>The pass over the phases in front of the target phase, and the target phase itself.\<close>

definition markPriorPhase ::
    "(uuid \<Rightarrow> string) \<Rightarrow> (string \<Rightarrow> string) \<Rightarrow> nat \<Rightarrow> EligibilityResult \<Rightarrow> EligibilityResult" where
  "markPriorPhase ustr uq i result =
     (let phase = erPhases result ! i in
      if epOptional phase then result
      else addReason EligibilityReasonRequiredPriorPhaseIncomplete (''phases.'' @ ustr (epID phase))
        (''required lifecycle phase '' @ Quote uq (epName phase)
         @ '' has no successful deployment evidence for this release bundle'')
        (result\<lparr>erPhases := (erPhases result)[i := phase\<lparr>epRequiredBeforeTarget := True, epBlocksEligibility := True\<rparr>]\<rparr>))"

definition markTargetPhase ::
    "(uuid \<Rightarrow> string) \<Rightarrow> (string \<Rightarrow> string) \<Rightarrow> nat \<Rightarrow> EligibilityResult \<Rightarrow> EligibilityResult" where
  "markTargetPhase ustr uq i result =
     (let phase = erPhases result ! i in
      if epApprovalPolicyID phase = None then result
      else addReason EligibilityReasonApprovalRequired (''phases.'' @ ustr (epID phase) @ ''.approvalPolicyId'')
        (''lifecycle phase '' @ Quote uq (epName phase)
         @ '' requires approval; approval evaluation is not available yet'')
        (result\<lparr>erPhases := (erPhases result)[i := phase\<lparr>epBlocksEligibility := True\<rparr>]\<rparr>))"

fun targetPhaseIndexFrom :: "nat \<Rightarrow> EligibilityPhase list \<Rightarrow> nat option" where
  "targetPhaseIndexFrom i [] = None"
| "targetPhaseIndexFrom i (phase # phases) =
     (if epMatchesEnvironment phase then Some i else targetPhaseIndexFrom (Suc i) phases)"

definition Explain ::
    "(uuid \<Rightarrow> string) \<Rightarrow> (string \<Rightarrow> string) \<Rightarrow> EligibilityRequest \<Rightarrow> EligibilityResult" where
  "Explain ustr uq request =
     (let bundle = eqReleaseBundle request;
          phases = SortStable phaseLess (lcPhases (eqLifecycle request));
          result = \<lparr>erReleaseBundleID = rlbID bundle, erApplicationID = rlbApplicationID bundle,
            erChannelID = rlbChannelID bundle, erLifecycleID = lcID (eqLifecycle request),
            erEnvironmentID = eqEnvironmentID request, erEngineReady = True, erEligible = True,
            erTargetPhase = None, erPhases = map (eligibilityPhase (eqEnvironmentID request)) phases, erReasons = []\<rparr>;
          result = addChannelReason request result;
          result = addStatusReason (rlbStatus bundle) result
      in case targetPhaseIndexFrom 0 (erPhases result) of
           None \<Rightarrow>
             let result = addReason EligibilityReasonEnvironmentNotInLifecycle ''environmentId''
                   ''environment is not assigned to any phase in the channel lifecycle'' result
             in result\<lparr>erEligible := (erReasons result = [])\<rparr>
         | Some i \<Rightarrow>
             let result = fold (markPriorPhase ustr uq) [0..<i] result;
                 result = markTargetPhase ustr uq i result
             in result\<lparr>erEligible := (erReasons result = []), erTargetPhase := Some (erPhases result ! i)\<rparr>)"

section \<open>What the evaluation computes\<close>

lemma targetPhaseIndexFrom_Some:
  "targetPhaseIndexFrom k ps = Some i \<longleftrightarrow>
     k \<le> i \<and> i - k < length ps \<and> epMatchesEnvironment (ps ! (i - k)) \<and> (\<forall>j < i - k. \<not> epMatchesEnvironment (ps ! j))"
proof (induction ps arbitrary: k)
  case Nil
  then show ?case by simp
next
  case (Cons p ps)
  show ?case
  proof (cases "k < i")
    case True
    then have "i - k = Suc (i - Suc k)" by simp
    then show ?thesis using True by (auto simp: Cons.IH All_less_Suc2)
  next
    case False
    then show ?thesis by (auto simp: Cons.IH)
  qed
qed

lemma targetPhaseIndexFrom_None:
  "targetPhaseIndexFrom k ps = None \<longleftrightarrow> (\<forall>p \<in> set ps. \<not> epMatchesEnvironment p)"
  by (induction ps arbitrary: k) auto

definition blockPrior :: "EligibilityPhase \<Rightarrow> EligibilityPhase" where
  "blockPrior p = (if epOptional p then p else p\<lparr>epRequiredBeforeTarget := True, epBlocksEligibility := True\<rparr>)"

lemma markPriorPhase_effect:
  "erPhases (markPriorPhase ustr uq i r) = (erPhases r)[i := blockPrior (erPhases r ! i)]"
  "erReasons (markPriorPhase ustr uq i r) = [] \<longleftrightarrow> erReasons r = [] \<and> epOptional (erPhases r ! i)"
  by (auto simp: markPriorPhase_def addReason_def blockPrior_def Let_def)

lemma fold_markPriorPhase:
  assumes "i \<le> length (erPhases r)"
  shows "erPhases (fold (markPriorPhase ustr uq) [0..<i] r) = map blockPrior (take i (erPhases r)) @ drop i (erPhases r)
    \<and> (erReasons (fold (markPriorPhase ustr uq) [0..<i] r) = [] \<longleftrightarrow>
        erReasons r = [] \<and> (\<forall>p \<in> set (take i (erPhases r)). epOptional p))"
  using assms
proof (induction i)
  case 0
  then show ?case by simp
next
  case (Suc i)
  then have IH: "erPhases (fold (markPriorPhase ustr uq) [0..<i] r) = map blockPrior (take i (erPhases r)) @ drop i (erPhases r)"
    "erReasons (fold (markPriorPhase ustr uq) [0..<i] r) = [] \<longleftrightarrow>
       erReasons r = [] \<and> (\<forall>p \<in> set (take i (erPhases r)). epOptional p)"
    and i: "i < length (erPhases r)" by simp_all
  let ?p = "erPhases r ! i"
  have d: "drop i (erPhases r) = ?p # drop (Suc i) (erPhases r)" using i by (simp add: Cons_nth_drop_Suc)
  have t: "take (Suc i) (erPhases r) = take i (erPhases r) @ [?p]" using i by (rule take_Suc_conv_app_nth)
  have n: "(map blockPrior (take i (erPhases r)) @ drop i (erPhases r)) ! i = ?p"
    using i by (simp add: nth_append d)
  have u: "(map blockPrior (take i (erPhases r)) @ drop i (erPhases r))[i := x]
      = map blockPrior (take i (erPhases r)) @ x # drop (Suc i) (erPhases r)" for x
    using i by (simp add: list_update_append d)
  show ?case by (simp add: markPriorPhase_effect IH n u t) (auto simp: d)
qed

lemma markTargetPhase_reasons:
  "erReasons (markTargetPhase ustr uq i r) = [] \<longleftrightarrow> erReasons r = [] \<and> epApprovalPolicyID (erPhases r ! i) = None"
  by (simp add: markTargetPhase_def addReason_def Let_def)

lemma head_reasons:
  "erReasons (addStatusReason status (addChannelReason request r)) = [] \<longleftrightarrow>
     erReasons r = [] \<and> status = BundleStatusPublished
     \<and> (eqChannelLifecycleID request = uuid_Nil \<or> lcID (eqLifecycle request) = uuid_Nil
        \<or> eqChannelLifecycleID request = lcID (eqLifecycle request))"
  "erPhases (addStatusReason status (addChannelReason request r)) = erPhases r"
  by (auto simp: addStatusReason_def addChannelReason_def addReason_def split: BundleStatus.splits)

definition lifecycleMatches :: "EligibilityRequest \<Rightarrow> bool" where
  "lifecycleMatches request \<longleftrightarrow> eqChannelLifecycleID request = uuid_Nil \<or> lcID (eqLifecycle request) = uuid_Nil
     \<or> eqChannelLifecycleID request = lcID (eqLifecycle request)"

lemma Explain_eligible:
  assumes "ps = SortStable phaseLess (lcPhases (eqLifecycle request))"
  shows "erEligible (Explain ustr uq request) \<longleftrightarrow>
     rlbStatus (eqReleaseBundle request) = BundleStatusPublished \<and> lifecycleMatches request
     \<and> (\<exists>i < length ps. eqEnvironmentID request \<in> set (lpEnvironmentIDs (ps ! i)) \<and> lpApprovalPolicyID (ps ! i) = None
          \<and> (\<forall>j < i. eqEnvironmentID request \<notin> set (lpEnvironmentIDs (ps ! j)) \<and> lpOptional (ps ! j)))"
proof (cases "targetPhaseIndexFrom 0 (map (eligibilityPhase (eqEnvironmentID request)) ps)")
  case None
  then have "eqEnvironmentID request \<notin> set (lpEnvironmentIDs p)" if "p \<in> set ps" for p
    using that by (auto simp: targetPhaseIndexFrom_None eligibilityPhase_def)
  then show ?thesis
    using None by (auto simp: Explain_def Let_def head_reasons addReason_def simp flip: assms)
next
  case (Some i)
  then have i: "i < length ps" "eqEnvironmentID request \<in> set (lpEnvironmentIDs (ps ! i))"
    "\<And>j. j < i \<Longrightarrow> eqEnvironmentID request \<notin> set (lpEnvironmentIDs (ps ! j))"
    by (auto simp: targetPhaseIndexFrom_Some eligibilityPhase_def)
  have unique: "k = i" if "k < length ps" "eqEnvironmentID request \<in> set (lpEnvironmentIDs (ps ! k))"
    "\<forall>j < k. eqEnvironmentID request \<notin> set (lpEnvironmentIDs (ps ! j))" for k
    using that i by (metis linorder_neqE_nat)
  let ?phases = "map (eligibilityPhase (eqEnvironmentID request)) ps"
  have opt: "(\<forall>p \<in> set (take i ?phases). epOptional p) \<longleftrightarrow> (\<forall>j < i. lpOptional (ps ! j))"
    using i(1) by (simp add: set_conv_nth Ball_def) (auto simp: eligibilityPhase_def)
  have target: "(map blockPrior (take i ?phases) @ drop i ?phases) ! i = eligibilityPhase (eqEnvironmentID request) (ps ! i)"
    using i(1) by (simp add: nth_append)
  have "erEligible (Explain ustr uq request) \<longleftrightarrow>
     (rlbStatus (eqReleaseBundle request) = BundleStatusPublished \<and> lifecycleMatches request)
     \<and> (\<forall>j < i. lpOptional (ps ! j)) \<and> lpApprovalPolicyID (ps ! i) = None"
    using i(1) Some
    by (simp add: Explain_def Let_def head_reasons fold_markPriorPhase markTargetPhase_reasons target opt
        lifecycleMatches_def flip: assms) (simp add: eligibilityPhase_def)
  with i unique show ?thesis by metis
qed

section \<open>Accepted lifecycles\<close>

text \<open>The rows of the phases of an accepted request, in any order, with the identifiers the database gave.\<close>

definition storedPhases :: "CreateUpdateLifecyclePhaseRequest list \<Rightarrow> LifecyclePhase list \<Rightarrow> bool" where
  "storedPhases requests phases \<longleftrightarrow>
     mset (map (\<lambda>p. p\<lparr>lpID := uuid_Nil, lpLifecycleID := uuid_Nil\<rparr>) phases) = mset (lifecyclePhasesFromRequests requests)"

lemma validatePhasesFrom_orders:
  assumes "validatePhasesFrom ns os ps = Inr ()"
  shows "distinct (map cpSortOrder ps) \<and> set (map cpSortOrder ps) \<inter> set os = {} \<and> (\<forall>p \<in> set ps. 0 \<le> cpSortOrder p)"
  using assms
proof (induction ns os ps rule: validatePhasesFrom.induct)
  case (1 ns os)
  then show ?case by simp
next
  case (2 ns os p ps)
  then show ?case
    by (auto simp: bindR_eq_Inr validateLifecyclePhaseRequest_def Let_def split: if_splits)
qed

lemma storedPhases_orders:
  assumes "storedPhases requests phases" "validateLifecyclePhases requests = Inr ()"
  shows "distinct (map lpSortOrder phases)" "p \<in> set phases \<Longrightarrow> 0 \<le> lpSortOrder p"
    "(\<forall>r \<in> set requests. cpSortOrder r < b) \<Longrightarrow> p \<in> set phases \<Longrightarrow> lpSortOrder p < b"
proof -
  have "mset (map lpSortOrder phases)
      = image_mset lpSortOrder (mset (map (\<lambda>p. p\<lparr>lpID := uuid_Nil, lpLifecycleID := uuid_Nil\<rparr>) phases))"
    by (simp add: image_mset.compositionality comp_def)
  also have "\<dots> = mset (map cpSortOrder requests)"
    using assms(1) by (simp add: storedPhases_def lifecyclePhasesFromRequests_def image_mset.compositionality comp_def phaseFromRequest_def)
  finally have m: "mset (map lpSortOrder phases) = mset (map cpSortOrder requests)" .
  note v = validatePhasesFrom_orders [OF assms(2) [unfolded validateLifecyclePhases_def]]
  show "distinct (map lpSortOrder phases)" using v m mset_eq_imp_distinct_iff by blast
  have eq: "lpSortOrder ` set phases = cpSortOrder ` set requests" using mset_eq_setD [OF m] by simp
  show "0 \<le> lpSortOrder p" if "p \<in> set phases" using v eq that by (metis imageE imageI)
  show "lpSortOrder p < b" if "\<forall>r \<in> set requests. cpSortOrder r < b" "p \<in> set phases"
    using eq that by (metis imageE imageI)
qed

interpretation phaseOrder: weak_order "\<lambda>a b. lpSortOrder a < lpSortOrder b"
  by unfold_locales auto

text \<open>On orders that are not negative the subtraction does not wrap around.\<close>

lemma phaseLess_orders:
  assumes "0 \<le> lpSortOrder a" "lpSortOrder a < 2 ^ 63" "0 \<le> lpSortOrder b" "lpSortOrder b < 2 ^ 63"
  shows "phaseLess a b \<longleftrightarrow> lpSortOrder a < lpSortOrder b"
  using assms by (auto simp: phaseLess_def wrap64_id)

lemma sorted_phases:
  assumes "distinct (map lpSortOrder phases)" "\<And>p. p \<in> set phases \<Longrightarrow> 0 \<le> lpSortOrder p \<and> lpSortOrder p < 2 ^ 63"
  shows "sorted_wrt (\<lambda>a b. lpSortOrder a < lpSortOrder b) (SortStable phaseLess phases)"
    "mset phases = mset ps \<Longrightarrow> SortStable phaseLess phases = SortStable phaseLess ps"
proof -
  have same: "SortStable phaseLess qs = SortStable (\<lambda>a b. lpSortOrder a < lpSortOrder b) qs" if "set qs = set phases" for qs
    using assms(2) that by (intro SortStable_cong) (auto simp: phaseLess_orders)
  have "sorted (map lpSortOrder (SortStable phaseLess phases))"
    using phaseOrder.sorted_SortStable [of phases] by (simp add: same phaseOrder.sortedG_def sorted_map not_less)
  moreover have "distinct (map lpSortOrder (SortStable phaseLess phases))" using assms(1) by simp
  ultimately have "sorted_wrt (<) (map lpSortOrder (SortStable phaseLess phases))" by (simp only: strict_sorted_iff)
  then show "sorted_wrt (\<lambda>a b. lpSortOrder a < lpSortOrder b) (SortStable phaseLess phases)" by (simp add: sorted_wrt_map)
  show "SortStable phaseLess phases = SortStable phaseLess ps" if m: "mset phases = mset ps"
    using assms(1) phaseOrder.SortStable_mset_cong [OF m] mset_eq_setD [OF m]
    by (auto simp: same phaseOrder.equivG_def distinct_map inj_on_def)
qed

lemma sorted_positions:
  assumes sorted: "sorted_wrt (\<lambda>a b. lpSortOrder a < lpSortOrder b) ps"
  shows "(\<exists>i < length ps. P (ps ! i) \<and> (\<forall>j < i. Q (ps ! j))) \<longleftrightarrow>
    (\<exists>p \<in> set ps. P p \<and> (\<forall>q \<in> set ps. lpSortOrder q < lpSortOrder p \<longrightarrow> Q q))"
proof -
  have "lpSortOrder (ps ! j) < lpSortOrder (ps ! i) \<longleftrightarrow> j < i" if "i < length ps" "j < length ps" for i j
    using sorted that by (auto simp: sorted_wrt_iff_nth_less) (metis linorder_neqE_nat order_less_asym)
  then show ?thesis by (auto simp: in_set_conv_nth Bex_def Ball_def) (metis order.strict_trans)+
qed

text \<open>C24: a release is eligible for an environment exactly if it is published, the channel belongs to the
  lifecycle, and the environment is in a phase that needs no approval and is preceded only by
  optional phases without the environment; it is ineligible exactly if a reason is given, and the answer does
  not depend on the order in which the phases of the accepted lifecycle are stored.\<close>

theorem eligibility_exact:
  assumes accepted: "validateLifecycleRequest request = Inr ()"
    and stored: "storedPhases (crPhases request) (lcPhases (eqLifecycle r))"
    and fits: "\<forall>p \<in> set (crPhases request). cpSortOrder p < 2 ^ 63"
    and permuted: "mset phases = mset (lcPhases (eqLifecycle r))"
  shows "(erEligible (Explain ustr uq r) \<longleftrightarrow>
      rlbStatus (eqReleaseBundle r) = BundleStatusPublished \<and> lifecycleMatches r
      \<and> (\<exists>p \<in> set phases. eqEnvironmentID r \<in> set (lpEnvironmentIDs p) \<and> lpApprovalPolicyID p = None
           \<and> (\<forall>q \<in> set phases. lpSortOrder q < lpSortOrder p \<longrightarrow> eqEnvironmentID r \<notin> set (lpEnvironmentIDs q) \<and> lpOptional q)))
    \<and> (erEligible (Explain ustr uq r) \<longleftrightarrow> erReasons (Explain ustr uq r) = [])
    \<and> Explain ustr uq (r\<lparr>eqLifecycle := eqLifecycle r\<lparr>lcPhases := phases\<rparr>\<rparr>) = Explain ustr uq r"
proof (intro conjI)
  have valid: "validateLifecyclePhases (crPhases request) = Inr ()"
    using accepted by (simp add: validateLifecycleRequest_def split: if_splits)
  note orders = storedPhases_orders [OF stored valid]
  have range: "0 \<le> lpSortOrder p \<and> lpSortOrder p < 2 ^ 63" if "p \<in> set (lcPhases (eqLifecycle r))" for p
    using orders(2,3) that fits by blast
  have sorted: "sorted_wrt (\<lambda>a b. lpSortOrder a < lpSortOrder b) (SortStable phaseLess (lcPhases (eqLifecycle r)))"
    by (rule sorted_phases(1) [OF orders(1) range])
  have same: "SortStable phaseLess (lcPhases (eqLifecycle r)) = SortStable phaseLess phases"
    by (rule sorted_phases(2) [OF orders(1) range permuted [symmetric]])
  have phases: "set phases = set (SortStable phaseLess (lcPhases (eqLifecycle r)))"
    using mset_eq_setD [OF permuted] by simp
  show "erEligible (Explain ustr uq r) \<longleftrightarrow>
      rlbStatus (eqReleaseBundle r) = BundleStatusPublished \<and> lifecycleMatches r
      \<and> (\<exists>p \<in> set phases. eqEnvironmentID r \<in> set (lpEnvironmentIDs p) \<and> lpApprovalPolicyID p = None
           \<and> (\<forall>q \<in> set phases. lpSortOrder q < lpSortOrder p \<longrightarrow> eqEnvironmentID r \<notin> set (lpEnvironmentIDs q) \<and> lpOptional q))"
    unfolding Explain_eligible [OF refl] phases
    using sorted_positions [OF sorted,
      of "\<lambda>p. eqEnvironmentID r \<in> set (lpEnvironmentIDs p) \<and> lpApprovalPolicyID p = None"
         "\<lambda>q. eqEnvironmentID r \<notin> set (lpEnvironmentIDs q) \<and> lpOptional q"] by (simp add: conj_assoc)
  show "erEligible (Explain ustr uq r) \<longleftrightarrow> erReasons (Explain ustr uq r) = []"
    by (simp add: Explain_def Let_def split: option.split)
  have "SortStable phaseLess phases = SortStable phaseLess (lcPhases (eqLifecycle r))"
    using same by simp
  then show "Explain ustr uq (r\<lparr>eqLifecycle := eqLifecycle r\<lparr>lcPhases := phases\<rparr>\<rparr>) = Explain ustr uq r"
    by (simp add: Explain_def Let_def addChannelReason_def)
qed

definition exPhaseRequest :: "string \<Rightarrow> int \<Rightarrow> uuid \<Rightarrow> bool \<Rightarrow> CreateUpdateLifecyclePhaseRequest" where
  "exPhaseRequest name order env optional = \<lparr>cpName = name, cpDescription = [], cpSortOrder = order,
     cpEnvironmentIDs = [env], cpOptional = optional, cpAutomaticPromotion = False,
     cpMinimumSuccessfulDeployments = 0, cpApprovalPolicyID = None, cpRetentionPolicyID = None\<rparr>"

definition exLifecycleRequest :: CreateUpdateLifecycleRequest where
  "exLifecycleRequest = \<lparr>crName = ''l'', crDescription = [], crSortOrder = 0,
     crPhases = [exPhaseRequest ''test'' 10 1 True, exPhaseRequest ''prod'' 20 2 False]\<rparr>"

definition exEligibility :: EligibilityRequest where
  "exEligibility = \<lparr>eqReleaseBundle = exBundle [] (exContract [] []), eqChannelLifecycleID = 0,
     eqLifecycle = lifecycleFromCreateUpdateRequest 1 exLifecycleRequest, eqEnvironmentID = 2\<rparr>"

theorem eligibility_exact_witness:
  "erEligible (Explain (\<lambda>u. []) (\<lambda>s. s) exEligibility)"
proof -
  have "TrimSpace ''test'' = ''test''" "TrimSpace ''prod'' = ''prod''" "TrimSpace ''l'' = ''l''"
    by (rule TrimSpace_graphic; simp add: graphic_def)+
  then have "validateLifecycleRequest exLifecycleRequest = Inr ()"
    by (simp add: validateLifecycleRequest_def exLifecycleRequest_def validateLifecyclePhases_def
        validateLifecyclePhaseRequest_def exPhaseRequest_def)
  then show ?thesis
    by (subst conjunct1 [OF eligibility_exact [where request = exLifecycleRequest and phases = "lcPhases (eqLifecycle exEligibility)"]])
      (auto simp: exEligibility_def exLifecycleRequest_def exPhaseRequest_def storedPhases_def lifecyclePhasesFromRequests_def
        phaseFromRequest_def lifecycleFromCreateUpdateRequest_def exBundle_def lifecycleMatches_def)
qed

end
