(* ===== verification/Deployment_Plans.thy ===== *)
theory Deployment_Plans
  imports Lifecycle_Eligibility Variable_Resolution Action_Registry Step_Conditions
begin

text \<open>
  internal/db/deployment_plans.go with internal/types/deployment_plan.go, process_snapshot.go,
  variable_snapshot.go, target_component_state.go and agent_capabilities.go: how a release, an environment and
  targets become a deployment plan, which issues block it, and the canonical payload of the plan. The
  queries of the database are the fields of the record \<open>planWorld\<close>: what is stored when the transaction
  runs. \<open>uuid.New\<close> draws from \<open>pwNewUUID\<close>. The JSON encoders are fields of \<open>planLib\<close>; int fields are unbounded
  integers.
\<close>

section \<open>Types\<close>

datatype VariableSnapshotResolutionMode =
    VariableSnapshotResolutionModeLegacy | VariableSnapshotResolutionModeTarget | VariableSnapshotResolutionModeOther string

record VariableSnapshotValue =
  vsvID :: uuid
  vsvVariableSnapshotID :: uuid
  vsvOrganizationID :: uuid
  vsvVariableSetID :: uuid
  vsvVariableID :: uuid
  vsvKey :: string
  vsvType :: VariableType
  vsvIsRequired :: bool
  vsvStatus :: VariableResolutionStatus
  vsvSource :: VariableResolutionSource
  vsvValue :: RawMessage
  vsvReferenceID :: string
  vsvReferenceName :: string
  vsvRedacted :: bool
  vsvTrace :: "VariableResolutionTraceEntry list"

record VariableSnapshot =
  vssID :: uuid
  vssCreatedAt :: timestamp
  vssOrganizationID :: uuid
  vssReleaseBundleID :: uuid
  vssApplicationID :: uuid
  vssChannelID :: uuid
  vssCanonicalChecksum :: string
  vssCanonicalPayload :: string
  vssResolutionMode :: VariableSnapshotResolutionMode
  vssVariables :: "Variable list"
  vssValues :: "VariableSnapshotValue list"

record ProcessSnapshot =
  pssID :: uuid
  pssCreatedAt :: timestamp
  pssOrganizationID :: uuid
  pssApplicationID :: uuid
  pssDeploymentProcessID :: uuid
  pssDeploymentProcessRevisionID :: uuid
  pssRevisionNumber :: int
  pssCanonicalChecksum :: string
  pssCanonicalPayload :: string
  pssRevision :: DeploymentProcessRevision

datatype TargetComponentHealth =
    TargetComponentHealthUnknown | TargetComponentHealthHealthy | TargetComponentHealthUnhealthy
  | TargetComponentHealthOther string

definition healthIsValid :: "TargetComponentHealth \<Rightarrow> bool" where
  "healthIsValid h \<longleftrightarrow> h = TargetComponentHealthUnknown \<or> h = TargetComponentHealthHealthy \<or> h = TargetComponentHealthUnhealthy"

record TargetComponentState =
  tcsID :: uuid
  tcsCreatedAt :: timestamp
  tcsUpdatedAt :: timestamp
  tcsOrganizationID :: uuid
  tcsDeploymentTargetID :: uuid
  tcsApplicationID :: uuid
  tcsComponent :: string
  tcsStateVersion :: int
  tcsStateChecksum :: string
  tcsReleaseBundleID :: uuid
  tcsVersion :: string
  tcsImage :: string
  tcsPlatform :: string
  tcsContracts :: "string list"
  tcsConfigReference :: string
  tcsConfigChecksum :: string
  tcsHealth :: TargetComponentHealth
  tcsObservedAt :: timestamp

record AgentActionCapability =
  aacID :: uuid
  aacReportID :: uuid
  aacOrganizationID :: uuid
  aacDeploymentTargetID :: uuid
  aacActionType :: string
  aacVersions :: "string list"

record AgentCapabilityReport =
  acrID :: uuid
  acrCreatedAt :: timestamp
  acrUpdatedAt :: timestamp
  acrOrganizationID :: uuid
  acrDeploymentTargetID :: uuid
  acrProtocolVersion :: string
  acrAgentVersion :: string
  acrSupportedRuntimes :: "string list"
  acrOperatingSystem :: string
  acrArchitecture :: string
  acrAvailableTooling :: "string list"
  acrStrategyCapabilities :: "string list"
  acrCompatibilityWarnings :: "string list"
  acrSupportedActions :: "AgentActionCapability list"

definition AgentActionVersionV1 :: string where "AgentActionVersionV1 = ''1''"

definition agentCapabilitySupportsAction :: "AgentCapabilityReport \<Rightarrow> string \<Rightarrow> string \<Rightarrow> bool" where
  "agentCapabilitySupportsAction report actionType actionVersion =
     list_ex (\<lambda>action. aacActionType action = actionType \<and> list_ex (\<lambda>version. version = actionVersion) (aacVersions action))
       (acrSupportedActions report)"

datatype ReleasePlanStatus =
    PlanStatusDraft | PlanStatusValidating | PlanStatusBlocked | PlanStatusReady | PlanStatusExpired | PlanStatusExecuted
  | PlanStatusOther string

datatype PlanIssueSeverity = IssueSeverityBlocker | IssueSeverityWarning

fun severityName :: "PlanIssueSeverity \<Rightarrow> string" where
  "severityName IssueSeverityBlocker = ''blocker''"
| "severityName IssueSeverityWarning = ''warning''"

record CreatePlanRequest =
  cprOrganizationID :: uuid
  cprReleaseBundleID :: uuid
  cprEnvironmentID :: uuid
  cprTargetIDs :: "uuid list"

record PlanTarget =
  pntID :: uuid
  pntDeploymentPlanID :: uuid
  pntOrganizationID :: uuid
  pntDeploymentTargetID :: uuid
  pntName :: string
  pntType :: string
  pntPlatform :: string
  pntCustomerOrganizationID :: "uuid option"
  pntSortOrder :: int

record PlanTargetComponent =
  pncID :: uuid
  pncDeploymentPlanID :: uuid
  pncDeploymentPlanTargetID :: uuid
  pncOrganizationID :: uuid
  pncDeploymentTargetID :: uuid
  pncComponent :: string
  pncVersion :: string
  pncImage :: string
  pncPlatform :: string
  pncContracts :: "string list"
  pncConfigChecksum :: string
  pncExpectedStateVersion :: int
  pncExpectedStateChecksum :: string
  pncExpectedReleaseBundleID :: "uuid option"
  pncSortOrder :: int

record PlanStep =
  pnsID :: uuid
  pnsDeploymentPlanID :: uuid
  pnsOrganizationID :: uuid
  pnsStepKey :: string
  pnsName :: string
  pnsActionType :: string
  pnsActionName :: string
  pnsExecutionLocation :: string
  pnsInputBindings :: object
  pnsCondition :: string
  pnsTargetTags :: "string list"
  pnsFailureMode :: string
  pnsTimeoutSeconds :: int
  pnsRetryMaxAttempts :: int
  pnsRetryIntervalSeconds :: int
  pnsRequiredPermissions :: "string list"
  pnsSortOrder :: int
  pnsDependencies :: "string list"
  pnsIncluded :: bool
  pnsExcludedReason :: string

record PlanVariable =
  pnvID :: uuid
  pnvDeploymentPlanID :: uuid
  pnvOrganizationID :: uuid
  pnvVariableSetID :: uuid
  pnvVariableID :: uuid
  pnvKey :: string
  pnvType :: VariableType
  pnvIsRequired :: bool
  pnvStatus :: VariableResolutionStatus
  pnvSource :: VariableResolutionSource
  pnvValue :: RawMessage
  pnvReferenceID :: string
  pnvReferenceName :: string
  pnvRedacted :: bool
  pnvTrace :: "VariableResolutionTraceEntry list"

record PlanIssue =
  pniID :: uuid
  pniDeploymentPlanID :: uuid
  pniOrganizationID :: uuid
  pniSeverity :: PlanIssueSeverity
  pniCode :: string
  pniField :: string
  pniMessage :: string
  pniSortOrder :: int

record ReleasePlan =
  pnID :: uuid
  pnCreatedAt :: timestamp
  pnOrganizationID :: uuid
  pnApplicationID :: uuid
  pnReleaseBundleID :: uuid
  pnChannelID :: uuid
  pnEnvironmentID :: uuid
  pnProcessSnapshotID :: "uuid option"
  pnVariableSnapshotID :: "uuid option"
  pnReleaseContract :: "ReleaseContract option"
  pnStatus :: ReleasePlanStatus
  pnCanonicalChecksum :: string
  pnCanonicalPayload :: string
  pnTargets :: "PlanTarget list"
  pnTargetComponents :: "PlanTargetComponent list"
  pnSteps :: "PlanStep list"
  pnVariables :: "PlanVariable list"
  pnIssues :: "PlanIssue list"

record planTargetSource =
  ptsID :: uuid
  ptsName :: string
  ptsType :: string
  ptsPlatform :: string
  ptsCustomerOrganizationID :: "uuid option"

section \<open>The canonical form\<close>

record canonicalPlanTarget =
  cptDeploymentTargetID :: string
  cptName :: string
  cptType :: string
  cptPlatform :: string
  cptCustomerOrganizationID :: string
  cptSortOrder :: int

record canonicalPlanTargetComponent =
  cpcDeploymentPlanTargetID :: string
  cpcDeploymentTargetID :: string
  cpcComponent :: string
  cpcVersion :: string
  cpcImage :: string
  cpcPlatform :: string
  cpcContracts :: "string list"
  cpcConfigChecksum :: string
  cpcExpectedStateVersion :: int
  cpcExpectedStateChecksum :: string
  cpcExpectedReleaseBundleID :: string
  cpcSortOrder :: int

record canonicalPlanStep =
  cpsStepKey :: string
  cpsName :: string
  cpsActionType :: string
  cpsActionName :: string
  cpsExecutionLocation :: string
  cpsInputBindings :: object
  cpsCondition :: string
  cpsTargetTags :: "string list"
  cpsFailureMode :: string
  cpsTimeoutSeconds :: int
  cpsRetryMaxAttempts :: int
  cpsRetryIntervalSeconds :: int
  cpsRequiredPermissions :: "string list"
  cpsSortOrder :: int
  cpsDependencies :: "string list"
  cpsIncluded :: bool
  cpsExcludedReason :: string

text \<open>The types, states and sources of variables are encoded by their names; the model keeps the values.\<close>

record canonicalPlanVariable =
  cpvVariableSetID :: string
  cpvVariableID :: string
  cpvKey :: string
  cpvType :: VariableType
  cpvIsRequired :: bool
  cpvStatus :: VariableResolutionStatus
  cpvSource :: VariableResolutionSource
  cpvValue :: RawMessage
  cpvReferenceID :: string
  cpvReferenceName :: string
  cpvRedacted :: bool
  cpvTrace :: "VariableResolutionTraceEntry list"

record canonicalPlanIssue =
  cpiSeverity :: string
  cpiCode :: string
  cpiField :: string
  cpiMessage :: string
  cpiSortOrder :: int

record canonicalPlan =
  cplReleaseBundleID :: string
  cplApplicationID :: string
  cplChannelID :: string
  cplEnvironmentID :: string
  cplProcessSnapshotID :: string
  cplVariableSnapshotID :: string
  cplReleaseContract :: "ReleaseContract option"
  cplTargets :: "canonicalPlanTarget list"
  cplTargetComponents :: "canonicalPlanTargetComponent list"
  cplSteps :: "canonicalPlanStep list"
  cplVariables :: "canonicalPlanVariable list"
  cplIssues :: "canonicalPlanIssue list"

section \<open>The surroundings\<close>

record planLib =
  plSchema :: schemaLib
  plValue :: valueLib
  plRelease :: releaseLib
  plMarshalResolved :: "ResolvedVariable list \<Rightarrow> string option"
  plMarshalPlan :: "canonicalPlan \<Rightarrow> string option"

record planWorld =
  pwReleaseBundle :: "uuid \<Rightarrow> uuid \<Rightarrow> Bundle result"
  pwEnvironment :: "uuid \<Rightarrow> uuid \<Rightarrow> unit result"
  pwChannelLifecycleID :: "uuid \<Rightarrow> uuid \<Rightarrow> uuid result"
  pwLifecycle :: "uuid \<Rightarrow> uuid \<Rightarrow> ReleaseLifecycle result"
  pwTargets :: "uuid \<Rightarrow> uuid list \<Rightarrow> planTargetSource list result"
  pwTargetComponentState :: "uuid \<Rightarrow> uuid \<Rightarrow> uuid \<Rightarrow> string \<Rightarrow> TargetComponentState result"
  pwProcessSnapshot :: "uuid \<Rightarrow> uuid \<Rightarrow> ProcessSnapshot result"
  pwVariableSnapshot :: "uuid \<Rightarrow> uuid \<Rightarrow> VariableSnapshot result"
  pwCapabilityReports :: "uuid \<Rightarrow> uuid list \<Rightarrow> AgentCapabilityReport list result"
  pwNewUUID :: "nat \<Rightarrow> uuid"

abbreviation plUuid :: "planLib \<Rightarrow> uuid \<Rightarrow> string" where "plUuid L \<equiv> rlUuidString (plRelease L)"
abbreviation plQuote :: "planLib \<Rightarrow> string \<Rightarrow> string" where "plQuote L \<equiv> Quote (slQuote (plSchema L))"

section \<open>Issues\<close>

definition addPlanIssue :: "PlanIssueSeverity \<Rightarrow> string \<Rightarrow> string \<Rightarrow> string \<Rightarrow> ReleasePlan \<Rightarrow> ReleasePlan" where
  "addPlanIssue severity code field message plan =
     plan\<lparr>pnIssues := pnIssues plan @ [\<lparr>pniID = uuid_Nil, pniDeploymentPlanID = uuid_Nil,
       pniOrganizationID = pnOrganizationID plan, pniSeverity = severity, pniCode = code, pniField = field,
       pniMessage = message, pniSortOrder = (int (length (pnIssues plan)) + 1) * 10\<rparr>]\<rparr>"

abbreviation addBlocker :: "string \<Rightarrow> string \<Rightarrow> string \<Rightarrow> ReleasePlan \<Rightarrow> ReleasePlan" where
  "addBlocker \<equiv> addPlanIssue IssueSeverityBlocker"

definition planHasBlockers :: "PlanIssue list \<Rightarrow> bool" where
  "planHasBlockers issues = list_ex (\<lambda>issue. pniSeverity issue = IssueSeverityBlocker) issues"

section \<open>Request and targets\<close>

fun checkTargetIDs :: "uuid list \<Rightarrow> uuid list \<Rightarrow> unit result" where
  "checkTargetIDs seen [] = Inr ()"
| "checkTargetIDs seen (targetID # targetIDs) =
     (if targetID = uuid_Nil then Inl (ErrBadRequest ''targetIds must not contain empty IDs'')
      else if targetID \<in> set seen then Inl (ErrBadRequest ''targetIds must be unique'')
      else checkTargetIDs (targetID # seen) targetIDs)"

definition validatePlanRequest :: "CreatePlanRequest \<Rightarrow> unit result" where
  "validatePlanRequest request =
     (if cprOrganizationID request = uuid_Nil then Inl (ErrBadRequest ''organizationId is required'')
      else if cprReleaseBundleID request = uuid_Nil then Inl (ErrBadRequest ''releaseBundleId is required'')
      else if cprEnvironmentID request = uuid_Nil then Inl (ErrBadRequest ''environmentId is required'')
      else if cprTargetIDs request = [] then Inl (ErrBadRequest ''at least one targetId is required'')
      else checkTargetIDs [] (cprTargetIDs request))"

definition planTargetOf :: "planWorld \<Rightarrow> uuid \<Rightarrow> nat \<times> planTargetSource \<Rightarrow> PlanTarget" where
  "planTargetOf W orgID it =
     (let (i, target) = it in
      \<lparr>pntID = pwNewUUID W i, pntDeploymentPlanID = uuid_Nil, pntOrganizationID = orgID,
       pntDeploymentTargetID = ptsID target, pntName = ptsName target, pntType = ptsType target,
       pntPlatform = ptsPlatform target, pntCustomerOrganizationID = ptsCustomerOrganizationID target,
       pntSortOrder = (int i + 1) * 10\<rparr>)"

definition resolvePlanTargets :: "planWorld \<Rightarrow> uuid \<Rightarrow> uuid list \<Rightarrow> PlanTarget list result" where
  "resolvePlanTargets W orgID targetIDs =
     bindR (pwTargets W orgID targetIDs) (\<lambda>sources.
       if length sources \<noteq> length targetIDs then Inl ErrNotFound
       else Inr (map (planTargetOf W orgID) (enumerate 0 sources)))"

section \<open>Components of the targets\<close>

definition componentSnapshot ::
    "planWorld \<Rightarrow> ReleasePlan \<Rightarrow> PlanTarget \<Rightarrow> ReleaseContract \<Rightarrow> nat \<Rightarrow> nat \<Rightarrow> ReleaseContractComponent \<Rightarrow> PlanTargetComponent" where
  "componentSnapshot W plan target contract draw index component =
     \<lparr>pncID = pwNewUUID W draw, pncDeploymentPlanID = pnID plan, pncDeploymentPlanTargetID = pntID target,
      pncOrganizationID = pnOrganizationID plan, pncDeploymentTargetID = pntDeploymentTargetID target,
      pncComponent = rccName component, pncVersion = rccVersion component, pncImage = rccImage component,
      pncPlatform = rccPlatform component, pncContracts = rccContracts component,
      pncConfigChecksum = rcServiceConfigChecksum (rcConfig contract), pncExpectedStateVersion = 0,
      pncExpectedStateChecksum = [], pncExpectedReleaseBundleID = None, pncSortOrder = (int index + 1) * 10\<rparr>"

definition expectState :: "TargetComponentState \<Rightarrow> PlanTargetComponent \<Rightarrow> PlanTargetComponent" where
  "expectState state snapshot =
     snapshot\<lparr>pncExpectedStateVersion := tcsStateVersion state, pncExpectedStateChecksum := tcsStateChecksum state,
       pncExpectedReleaseBundleID := Some (tcsReleaseBundleID state)\<rparr>"

text \<open>The inner loop over the affected components of one target, and the loop over the targets.\<close>

fun resolveTargetComponents ::
    "planWorld \<Rightarrow> (string \<rightharpoonup> ReleaseContractComponent) \<Rightarrow> ReleaseContract \<Rightarrow> PlanTarget \<Rightarrow> nat \<Rightarrow> nat \<Rightarrow> string list \<Rightarrow>
     ReleasePlan \<Rightarrow> (nat \<times> ReleasePlan) result" where
  "resolveTargetComponents W components contract target draw index [] plan = Inr (draw, plan)"
| "resolveTargetComponents W components contract target draw index (componentName # names) plan =
     (case components componentName of
        None \<Rightarrow> resolveTargetComponents W components contract target draw (Suc index) names plan
      | Some component \<Rightarrow>
          let snapshot = componentSnapshot W plan target contract draw index component in
          case pwTargetComponentState W (pnOrganizationID plan) (pntDeploymentTargetID target) (pnApplicationID plan)
                 (rccName component) of
            Inr state \<Rightarrow> resolveTargetComponents W components contract target (Suc draw) (Suc index) names
              (plan\<lparr>pnTargetComponents := pnTargetComponents plan @ [expectState state snapshot]\<rparr>)
          | Inl e \<Rightarrow>
              if e \<noteq> ErrNotFound then Inl e
              else resolveTargetComponents W components contract target (Suc draw) (Suc index) names
                (plan\<lparr>pnTargetComponents := pnTargetComponents plan @ [snapshot]\<rparr>))"

fun resolveComponentsOfTargets ::
    "planWorld \<Rightarrow> (string \<rightharpoonup> ReleaseContractComponent) \<Rightarrow> ReleaseContract \<Rightarrow> nat \<Rightarrow> PlanTarget list \<Rightarrow> ReleasePlan \<Rightarrow>
     ReleasePlan result" where
  "resolveComponentsOfTargets W components contract draw [] plan = Inr plan"
| "resolveComponentsOfTargets W components contract draw (target # targets) plan =
     bindR (resolveTargetComponents W components contract target draw 0
              (rcAffectedComponents (rcCompatibility contract)) plan) (\<lambda>(draw, plan).
       resolveComponentsOfTargets W components contract draw targets plan)"

definition componentsByName :: "ReleaseContractComponent list \<Rightarrow> string \<rightharpoonup> ReleaseContractComponent" where
  "componentsByName components = foldl (\<lambda>m c. m(rccName c \<mapsto> c)) Map.empty components"

definition resolvePlanTargetComponents :: "planWorld \<Rightarrow> nat \<Rightarrow> ReleasePlan \<Rightarrow> ReleasePlan result" where
  "resolvePlanTargetComponents W draw plan =
     (case pnReleaseContract plan of
        None \<Rightarrow> Inr plan
      | Some contract \<Rightarrow>
          resolveComponentsOfTargets W (componentsByName (rcComponents contract)) contract draw (pnTargets plan) plan)"

text \<open>The loop runs over \<open>plan.TargetComponents\<close>; the plan target is looked up by its identifier.\<close>

definition targetByID :: "PlanTarget list \<Rightarrow> uuid \<Rightarrow> PlanTarget" where
  "targetByID targets u =
     mapGet \<lparr>pntID = uuid_Nil, pntDeploymentPlanID = uuid_Nil, pntOrganizationID = uuid_Nil, pntDeploymentTargetID = uuid_Nil,
       pntName = [], pntType = [], pntPlatform = [], pntCustomerOrganizationID = None, pntSortOrder = 0\<rparr>
       (foldl (\<lambda>m target. m(pntID target \<mapsto> target)) Map.empty targets) u"

definition addPlatformIssue :: "planLib \<Rightarrow> PlanTarget list \<Rightarrow> PlanTargetComponent \<Rightarrow> ReleasePlan \<Rightarrow> ReleasePlan" where
  "addPlatformIssue L targets component plan =
     (let target = targetByID targets (pncDeploymentPlanTargetID component) in
      if pntPlatform target \<noteq> pncPlatform component
        then addBlocker ''target_platform_mismatch'' (''targets.'' @ pntName target @ ''.platform'')
          (''target '' @ plQuote L (pntName target) @ '' is '' @ pntPlatform target @ '' but component ''
           @ plQuote L (pncComponent component) @ '' requires '' @ pncPlatform component) plan
      else plan)"

definition addPlanTargetPlatformIssues :: "planLib \<Rightarrow> ReleasePlan \<Rightarrow> ReleasePlan" where
  "addPlanTargetPlatformIssues L plan = fold (addPlatformIssue L (pnTargets plan)) (pnTargetComponents plan) plan"

section \<open>Eligibility\<close>

definition GetReleaseBundleEligibility :: "planLib \<Rightarrow> planWorld \<Rightarrow> uuid \<Rightarrow> uuid \<Rightarrow> uuid \<Rightarrow> EligibilityResult result" where
  "GetReleaseBundleEligibility L W releaseBundleID environmentID organizationID =
     bindR (pwReleaseBundle W releaseBundleID organizationID) (\<lambda>bundle.
     bindR (pwEnvironment W environmentID organizationID) (\<lambda>_.
     bindR (pwChannelLifecycleID W (rlbChannelID bundle) organizationID) (\<lambda>lifecycleID.
     bindR (pwLifecycle W lifecycleID organizationID) (\<lambda>lifecycle.
       Inr (Explain (plUuid L) (slQuote (plSchema L)) \<lparr>eqReleaseBundle = bundle, eqChannelLifecycleID = lifecycleID,
         eqLifecycle = lifecycle, eqEnvironmentID = environmentID\<rparr>)))))"

definition addPlanEligibilityBlockers :: "planLib \<Rightarrow> planWorld \<Rightarrow> ReleasePlan \<Rightarrow> ReleasePlan" where
  "addPlanEligibilityBlockers L W plan =
     (case GetReleaseBundleEligibility L W (pnReleaseBundleID plan) (pnEnvironmentID plan) (pnOrganizationID plan) of
        Inl _ \<Rightarrow> addBlocker ''eligibility_unavailable'' ''eligibility'' ''lifecycle eligibility could not be resolved'' plan
      | Inr result \<Rightarrow> fold (\<lambda>reason. addBlocker (reasonCodeName (ercCode reason)) (ercField reason) (ercMessage reason))
          (erReasons result) plan)"

section \<open>Steps\<close>

definition planStepLess :: "DeploymentProcessStep \<Rightarrow> DeploymentProcessStep \<Rightarrow> bool" where
  "planStepLess a b \<longleftrightarrow> (if stSortOrder a \<noteq> stSortOrder b then stSortOrder a < stSortOrder b else stKey a < stKey b)"

definition validatePlanStepCondition :: "planLib \<Rightarrow> DeploymentProcessStep \<Rightarrow> string set \<Rightarrow> unit result" where
  "validatePlanStepCondition L step stepKeys =
     (case ValidateCondition (plValue L) (stCondition step) of
        Inl e \<Rightarrow> Inl (Errorf (''condition is invalid: '' @ errorString e))
      | Inr _ \<Rightarrow>
          (case OutputReferences (plValue L) (stCondition step) of
             Inl e \<Rightarrow> Inl (Errorf (''condition is invalid: '' @ errorString e))
           | Inr refs \<Rightarrow>
               (case find (\<lambda>ref. orefStepKey ref \<notin> stepKeys) refs of
                  None \<Rightarrow> Inr ()
                | Some ref \<Rightarrow> Inl (Errorf (''condition references unknown output step '' @ plQuote L (orefStepKey ref))))))"

definition planStepExcludedReason :: "DeploymentProcessStep \<Rightarrow> uuid \<Rightarrow> uuid \<Rightarrow> string" where
  "planStepExcludedReason step channelID environmentID =
     (if stChannelIDs step \<noteq> [] \<and> channelID \<notin> set (stChannelIDs step) then ''channel_scope_mismatch''
      else if stEnvironmentIDs step \<noteq> [] \<and> environmentID \<notin> set (stEnvironmentIDs step) then ''environment_scope_mismatch''
      else [])"

definition snapshotPlanStep :: "ActionRegistry \<Rightarrow> ReleasePlan \<Rightarrow> DeploymentProcessStep \<Rightarrow> PlanStep" where
  "snapshotPlanStep r plan step =
     (let excludedReason = planStepExcludedReason step (pnChannelID plan) (pnEnvironmentID plan) in
      \<lparr>pnsID = uuid_Nil, pnsDeploymentPlanID = uuid_Nil, pnsOrganizationID = pnOrganizationID plan,
       pnsStepKey = stKey step, pnsName = stName step, pnsActionType = stActionType step,
       pnsActionName = (case RegistryGet r (stActionType step) of None \<Rightarrow> [] | Some action \<Rightarrow> adName action),
       pnsExecutionLocation = stExecutionLocation step,
       pnsInputBindings = (case stInputBindings step of None \<Rightarrow> [] | Some m \<Rightarrow> m), pnsCondition = stCondition step,
       pnsTargetTags = stTargetTags step, pnsFailureMode = stFailureMode step,
       pnsTimeoutSeconds = stTimeoutSeconds step, pnsRetryMaxAttempts = stRetryMaxAttempts step,
       pnsRetryIntervalSeconds = stRetryIntervalSeconds step, pnsRequiredPermissions = stRequiredPermissions step,
       pnsSortOrder = stSortOrder step, pnsDependencies = stDependencies step,
       pnsIncluded = (excludedReason = []), pnsExcludedReason = excludedReason\<rparr>)"

definition addPlanStep ::
    "planLib \<Rightarrow> ActionRegistry \<Rightarrow> string set \<Rightarrow> DeploymentProcessStep \<Rightarrow> ReleasePlan \<Rightarrow> ReleasePlan" where
  "addPlanStep L r stepKeys step plan =
     (let plan = (case RegistryGet r (stActionType step) of
            None \<Rightarrow> addBlocker ''unknown_action_type'' (''steps.'' @ stKey step @ ''.actionType'')
              (''action type '' @ plQuote L (stActionType step) @ '' is not registered'') plan
          | Some action \<Rightarrow>
              (case ValidateInput (plSchema L) r (stActionType step) (stInputBindings step) of
                 Inl e \<Rightarrow> addBlocker ''invalid_action_input'' (''steps.'' @ stKey step @ ''.inputBindings'') (errorString e) plan
               | Inr _ \<Rightarrow> plan));
          plan = (case validatePlanStepCondition L step stepKeys of
            Inl e \<Rightarrow> addBlocker ''invalid_step_condition'' (''steps.'' @ stKey step @ ''.condition'') (errorString e) plan
          | Inr _ \<Rightarrow> plan)
      in plan\<lparr>pnSteps := pnSteps plan @ [snapshotPlanStep r plan step]\<rparr>)"

text \<open>\<open>includedCount\<close> counts the steps of this snapshot; the plan has no steps before the loop.\<close>

definition addPlanSteps :: "planLib \<Rightarrow> ProcessSnapshot \<Rightarrow> ReleasePlan \<Rightarrow> ReleasePlan" where
  "addPlanSteps L snapshot plan =
     (let registry = DefaultRegistry;
          steps = SortStable planStepLess (drvSteps (pssRevision snapshot));
          stepKeys = set (map stKey steps);
          includedCount = length (filter (\<lambda>step. planStepExcludedReason step (pnChannelID plan) (pnEnvironmentID plan) = []) steps);
          plan = fold (addPlanStep L registry stepKeys) steps plan
      in if steps \<noteq> [] \<and> includedCount = 0
           then addBlocker ''no_applicable_steps'' ''steps''
             ''process snapshot has no steps applicable to the selected channel and environment'' plan
         else plan)"

section \<open>Variables\<close>

text \<open>The order of both kinds of values: key, set, variable.\<close>

definition planVariableLess :: "planLib \<Rightarrow> PlanVariable \<Rightarrow> PlanVariable \<Rightarrow> bool" where
  "planVariableLess L a b \<longleftrightarrow>
     (if pnvKey a \<noteq> pnvKey b then pnvKey a < pnvKey b
      else if pnvVariableSetID a \<noteq> pnvVariableSetID b then plUuid L (pnvVariableSetID a) < plUuid L (pnvVariableSetID b)
      else plUuid L (pnvVariableID a) < plUuid L (pnvVariableID b))"

definition cloneRawMessage :: "RawMessage \<Rightarrow> RawMessage" where
  "cloneRawMessage v = (case v of None \<Rightarrow> None | Some s \<Rightarrow> if s = [] then None else Some s)"

definition planVariableOfValue :: "uuid \<Rightarrow> VariableSnapshotValue \<Rightarrow> PlanVariable" where
  "planVariableOfValue orgID v = \<lparr>pnvID = uuid_Nil, pnvDeploymentPlanID = uuid_Nil, pnvOrganizationID = orgID,
     pnvVariableSetID = vsvVariableSetID v, pnvVariableID = vsvVariableID v, pnvKey = vsvKey v, pnvType = vsvType v,
     pnvIsRequired = vsvIsRequired v, pnvStatus = vsvStatus v, pnvSource = vsvSource v,
     pnvValue = cloneRawMessage (vsvValue v), pnvReferenceID = vsvReferenceID v, pnvReferenceName = vsvReferenceName v,
     pnvRedacted = vsvRedacted v, pnvTrace = vsvTrace v\<rparr>"

definition planVariableOfResolved :: "uuid \<Rightarrow> ResolvedVariable \<Rightarrow> PlanVariable" where
  "planVariableOfResolved orgID v = \<lparr>pnvID = uuid_Nil, pnvDeploymentPlanID = uuid_Nil, pnvOrganizationID = orgID,
     pnvVariableSetID = rvVariableSetID v, pnvVariableID = rvVariableID v, pnvKey = rvKey v, pnvType = rvType v,
     pnvIsRequired = rvIsRequired v, pnvStatus = rvStatus v, pnvSource = rvSource v,
     pnvValue = cloneRawMessage (rvValue v), pnvReferenceID = rvReferenceID v, pnvReferenceName = rvReferenceName v,
     pnvRedacted = rvRedacted v, pnvTrace = rvTrace v\<rparr>"

text \<open>The loop the two functions share: the variable is appended, and a required one must be resolved.\<close>

definition addPlanVariable :: "planLib \<Rightarrow> PlanVariable \<Rightarrow> ReleasePlan \<Rightarrow> ReleasePlan" where
  "addPlanVariable L v plan =
     (let plan = plan\<lparr>pnVariables := pnVariables plan @ [v]\<rparr> in
      if pnvIsRequired v \<and> pnvStatus v = VariableResolutionStatusUnresolved
        then addBlocker ''required_variable_unresolved'' (''variables.'' @ pnvKey v)
          (''required variable '' @ plQuote L (pnvKey v) @ '' is unresolved'') plan
      else plan)"

definition addPlanVariables :: "planLib \<Rightarrow> VariableSnapshot \<Rightarrow> ReleasePlan \<Rightarrow> ReleasePlan" where
  "addPlanVariables L snapshot plan =
     fold (addPlanVariable L)
       (SortStable (planVariableLess L) (map (planVariableOfValue (pnOrganizationID plan)) (vssValues snapshot))) plan"

definition addPlanResolvedVariables :: "planLib \<Rightarrow> ResolvedVariable list \<Rightarrow> ReleasePlan \<Rightarrow> ReleasePlan" where
  "addPlanResolvedVariables L values plan =
     fold (addPlanVariable L)
       (SortStable (planVariableLess L) (map (planVariableOfResolved (pnOrganizationID plan)) values)) plan"

definition planResolvedVariablesEqual :: "planLib \<Rightarrow> ResolvedVariable list \<Rightarrow> ResolvedVariable list \<Rightarrow> bool" where
  "planResolvedVariablesEqual L left right =
     (case (plMarshalResolved L left, plMarshalResolved L right) of
        (Some leftJSON, Some rightJSON) \<Rightarrow> leftJSON = rightJSON
      | _ \<Rightarrow> False)"

definition planTargetScope :: "ReleasePlan \<Rightarrow> PlanTarget \<Rightarrow> VariableResolutionScope" where
  "planTargetScope plan target = \<lparr>rsCustomerOrganizationID = pntCustomerOrganizationID target,
     rsEnvironmentID = Some (pnEnvironmentID plan), rsChannelID = Some (pnChannelID plan),
     rsDeploymentTargetID = Some (pntDeploymentTargetID target), rsApplicationID = Some (pnApplicationID plan),
     rsTargetTags = [], rsProcessStepKey = []\<rparr>"

text \<open>The loop over the targets: the values all of them resolve to, or the issue that ends it. \<open>Resolve\<close>
  never returns a nil slice, so that only the first target sets \<open>resolvedForPlan\<close>.\<close>

fun resolveForTargets ::
    "planLib \<Rightarrow> Variable list \<Rightarrow> ReleasePlan \<Rightarrow> ResolvedVariable list option \<Rightarrow> PlanTarget list \<Rightarrow>
     ReleasePlan + ResolvedVariable list" where
  "resolveForTargets L variables plan resolvedForPlan [] = Inr (case resolvedForPlan of None \<Rightarrow> [] | Some vs \<Rightarrow> vs)"
| "resolveForTargets L variables plan resolvedForPlan (target # targets) =
     (case Resolve (plUuid L) \<lparr>rqVariables = variables, rqScope = planTargetScope plan target, rqPromptedValues = []\<rparr> of
        Inl _ \<Rightarrow> Inl (addBlocker ''variable_snapshot_resolution_failed'' ''variables''
          ''immutable variable candidates could not be resolved for the selected target'' plan)
      | Inr resolved \<Rightarrow>
          (case resolvedForPlan of
             None \<Rightarrow> resolveForTargets L variables plan (Some resolved) targets
           | Some vs \<Rightarrow>
               if \<not> planResolvedVariablesEqual L vs resolved
                 then Inl (addBlocker ''target_scoped_variables_require_separate_plans'' ''targets''
                   ''selected targets resolve different variable values; create one immutable plan per target'' plan)
               else resolveForTargets L variables plan resolvedForPlan targets))"

definition addPlanTargetResolvedVariables :: "planLib \<Rightarrow> Variable list \<Rightarrow> ReleasePlan \<Rightarrow> ReleasePlan" where
  "addPlanTargetResolvedVariables L variables plan =
     (case resolveForTargets L variables plan None (pnTargets plan) of
        Inl plan' \<Rightarrow> plan'
      | Inr values \<Rightarrow> addPlanResolvedVariables L values plan)"

definition addPlanProcess :: "planLib \<Rightarrow> planWorld \<Rightarrow> ReleasePlan \<Rightarrow> ReleasePlan" where
  "addPlanProcess L W plan =
     (case pnProcessSnapshotID plan of
        None \<Rightarrow> addBlocker ''missing_process_snapshot'' ''processSnapshotId''
          ''release bundle has no immutable process snapshot'' plan
      | Some u \<Rightarrow>
          (case pwProcessSnapshot W u (pnOrganizationID plan) of
             Inl _ \<Rightarrow> addBlocker ''process_snapshot_unavailable'' ''processSnapshotId''
               ''process snapshot could not be resolved'' plan
           | Inr snapshot \<Rightarrow> addPlanSteps L snapshot plan))"

definition addPlanSnapshotVariables :: "planLib \<Rightarrow> planWorld \<Rightarrow> ReleasePlan \<Rightarrow> ReleasePlan" where
  "addPlanSnapshotVariables L W plan =
     (case pnVariableSnapshotID plan of
        None \<Rightarrow> addBlocker ''missing_variable_snapshot'' ''variableSnapshotId''
          ''release bundle has no immutable variable snapshot'' plan
      | Some u \<Rightarrow>
          (case pwVariableSnapshot W u (pnOrganizationID plan) of
             Inl _ \<Rightarrow> addBlocker ''variable_snapshot_unavailable'' ''variableSnapshotId''
               ''variable snapshot could not be resolved'' plan
           | Inr snapshot \<Rightarrow>
               if vssResolutionMode snapshot = VariableSnapshotResolutionModeTarget
                 then addPlanTargetResolvedVariables L (vssVariables snapshot) plan
               else addPlanVariables L snapshot plan))"

definition addPlanSnapshotData :: "planLib \<Rightarrow> planWorld \<Rightarrow> ReleasePlan \<Rightarrow> ReleasePlan" where
  "addPlanSnapshotData L W plan = addPlanSnapshotVariables L W (addPlanProcess L W plan)"

section \<open>Release contract and agents\<close>

definition isHubWebhook :: "planLib \<Rightarrow> PlanStep \<Rightarrow> bool" where
  "isHubWebhook L step \<longleftrightarrow> pnsIncluded step
     \<and> EqualFold (rlFold (plRelease L)) (TrimSpace (pnsExecutionLocation step)) ''hub'' \<and> pnsActionType step = ''distr.webhook''"

definition addPlanReleaseContractIssues :: "planLib \<Rightarrow> Bundle \<Rightarrow> ReleasePlan \<Rightarrow> ReleasePlan" where
  "addPlanReleaseContractIssues L bundle plan =
     (if list_ex (isHubWebhook L) (pnSteps plan) \<and> rlbReleaseContract bundle = None
      then addBlocker ''missing_release_contract'' ''releaseContract''
        ''Hub webhook deployment requires an immutable release contract'' plan
      else plan)"

definition planStepRunsOnTarget :: "planLib \<Rightarrow> PlanStep \<Rightarrow> bool" where
  "planStepRunsOnTarget L step = EqualFold (rlFold (plRelease L)) (TrimSpace (pnsExecutionLocation step)) ''target''"

definition addCapabilityIssue ::
    "planLib \<Rightarrow> AgentCapabilityReport \<Rightarrow> PlanTarget \<Rightarrow> PlanStep \<Rightarrow> ReleasePlan \<Rightarrow> ReleasePlan" where
  "addCapabilityIssue L report target step plan =
     (if agentCapabilitySupportsAction report (pnsActionType step) AgentActionVersionV1 then plan
      else addBlocker ''agent_action_unsupported''
        (''targets.'' @ plUuid L (pntDeploymentTargetID target) @ ''.steps.'' @ pnsStepKey step @ ''.actionType'')
        (''deployment target '' @ plQuote L (pntName target) @ '' does not support action ''
         @ plQuote L (pnsActionType step) @ '' version '' @ plQuote L AgentActionVersionV1) plan)"

definition addTargetCapabilityIssues ::
    "planLib \<Rightarrow> (uuid \<rightharpoonup> AgentCapabilityReport) \<Rightarrow> PlanStep list \<Rightarrow> PlanTarget \<Rightarrow> ReleasePlan \<Rightarrow> ReleasePlan" where
  "addTargetCapabilityIssues L reports includedSteps target plan =
     (case reports (pntDeploymentTargetID target) of
        None \<Rightarrow> plan
      | Some report \<Rightarrow> fold (addCapabilityIssue L report target) includedSteps plan)"

definition reportsByTarget :: "AgentCapabilityReport list \<Rightarrow> uuid \<rightharpoonup> AgentCapabilityReport" where
  "reportsByTarget items = foldl (\<lambda>m report. m(acrDeploymentTargetID report \<mapsto> report)) Map.empty items"

definition addPlanAgentCapabilityIssues :: "planLib \<Rightarrow> planWorld \<Rightarrow> ReleasePlan \<Rightarrow> ReleasePlan" where
  "addPlanAgentCapabilityIssues L W plan =
     (let includedSteps = filter (\<lambda>step. pnsIncluded step \<and> planStepRunsOnTarget L step) (pnSteps plan) in
      if includedSteps = [] \<or> pnTargets plan = [] then plan
      else case pwCapabilityReports W (pnOrganizationID plan) (map pntDeploymentTargetID (pnTargets plan)) of
        Inl _ \<Rightarrow> addBlocker ''agent_capabilities_unavailable'' ''agentCapabilities''
          ''agent capability reports could not be resolved'' plan
      | Inr items \<Rightarrow> fold (addTargetCapabilityIssues L (reportsByTarget items) includedSteps) (pnTargets plan) plan)"

section \<open>The plan\<close>

definition newPlan :: "planLib \<Rightarrow> CreatePlanRequest \<Rightarrow> Bundle \<Rightarrow> uuid \<Rightarrow> PlanTarget list \<Rightarrow> ReleasePlan" where
  "newPlan L request bundle planID targets = \<lparr>pnID = planID, pnCreatedAt = 0,
     pnOrganizationID = cprOrganizationID request, pnApplicationID = rlbApplicationID bundle,
     pnReleaseBundleID = rlbID bundle, pnChannelID = rlbChannelID bundle, pnEnvironmentID = cprEnvironmentID request,
     pnProcessSnapshotID = rlbProcessSnapshotID bundle, pnVariableSnapshotID = rlbVariableSnapshotID bundle,
     pnReleaseContract = NormalizedReleaseContract (plRelease L) (rlbReleaseContract bundle),
     pnStatus = PlanStatusOther [], pnCanonicalChecksum = [], pnCanonicalPayload = [], pnTargets = targets,
     pnTargetComponents = [], pnSteps = [], pnVariables = [], pnIssues = []\<rparr>"

definition resolvePlan :: "planLib \<Rightarrow> planWorld \<Rightarrow> CreatePlanRequest \<Rightarrow> ReleasePlan result" where
  "resolvePlan L W request =
     bindR (pwReleaseBundle W (cprReleaseBundleID request) (cprOrganizationID request)) (\<lambda>bundle.
     bindR (pwEnvironment W (cprEnvironmentID request) (cprOrganizationID request)) (\<lambda>_.
     bindR (resolvePlanTargets W (cprOrganizationID request) (cprTargetIDs request)) (\<lambda>targets.
     let draw = length targets;
         plan = newPlan L request bundle (pwNewUUID W draw) targets
     in bindR (resolvePlanTargetComponents W (Suc draw) plan) (\<lambda>plan.
        let plan = addPlanEligibilityBlockers L W plan;
            plan = addPlanSnapshotData L W plan;
            plan = addPlanReleaseContractIssues L bundle plan;
            plan = addPlanTargetPlatformIssues L plan;
            plan = addPlanAgentCapabilityIssues L W plan;
            plan = addPlanIssue IssueSeverityWarning ''dry_run_not_performed'' ''dryRun''
              ''read-only agent dry-run checks are not available in the deployment plan foundation'' plan
        in Inr (plan\<lparr>pnStatus := (if planHasBlockers (pnIssues plan) then PlanStatusBlocked else PlanStatusReady)\<rparr>)))))"

section \<open>Canonical payload\<close>

definition canonicalTargetOf :: "planLib \<Rightarrow> PlanTarget \<Rightarrow> canonicalPlanTarget" where
  "canonicalTargetOf L t = \<lparr>cptDeploymentTargetID = plUuid L (pntDeploymentTargetID t), cptName = pntName t,
     cptType = pntType t, cptPlatform = pntPlatform t,
     cptCustomerOrganizationID = uuidPtrString (plRelease L) (pntCustomerOrganizationID t), cptSortOrder = pntSortOrder t\<rparr>"

definition canonicalTargetComponentOf :: "planLib \<Rightarrow> PlanTargetComponent \<Rightarrow> canonicalPlanTargetComponent" where
  "canonicalTargetComponentOf L c = \<lparr>cpcDeploymentPlanTargetID = plUuid L (pncDeploymentPlanTargetID c),
     cpcDeploymentTargetID = plUuid L (pncDeploymentTargetID c), cpcComponent = pncComponent c,
     cpcVersion = pncVersion c, cpcImage = pncImage c, cpcPlatform = pncPlatform c, cpcContracts = pncContracts c,
     cpcConfigChecksum = pncConfigChecksum c, cpcExpectedStateVersion = pncExpectedStateVersion c,
     cpcExpectedStateChecksum = pncExpectedStateChecksum c,
     cpcExpectedReleaseBundleID = uuidPtrString (plRelease L) (pncExpectedReleaseBundleID c), cpcSortOrder = pncSortOrder c\<rparr>"

definition canonicalStepOf :: "PlanStep \<Rightarrow> canonicalPlanStep" where
  "canonicalStepOf s = \<lparr>cpsStepKey = pnsStepKey s, cpsName = pnsName s, cpsActionType = pnsActionType s,
     cpsActionName = pnsActionName s, cpsExecutionLocation = pnsExecutionLocation s,
     cpsInputBindings = pnsInputBindings s, cpsCondition = pnsCondition s, cpsTargetTags = pnsTargetTags s,
     cpsFailureMode = pnsFailureMode s, cpsTimeoutSeconds = pnsTimeoutSeconds s,
     cpsRetryMaxAttempts = pnsRetryMaxAttempts s, cpsRetryIntervalSeconds = pnsRetryIntervalSeconds s,
     cpsRequiredPermissions = pnsRequiredPermissions s, cpsSortOrder = pnsSortOrder s,
     cpsDependencies = pnsDependencies s, cpsIncluded = pnsIncluded s, cpsExcludedReason = pnsExcludedReason s\<rparr>"

definition canonicalVariableOf :: "planLib \<Rightarrow> PlanVariable \<Rightarrow> canonicalPlanVariable" where
  "canonicalVariableOf L v = \<lparr>cpvVariableSetID = plUuid L (pnvVariableSetID v), cpvVariableID = plUuid L (pnvVariableID v),
     cpvKey = pnvKey v, cpvType = pnvType v, cpvIsRequired = pnvIsRequired v, cpvStatus = pnvStatus v,
     cpvSource = pnvSource v, cpvValue = cloneRawMessage (pnvValue v), cpvReferenceID = pnvReferenceID v,
     cpvReferenceName = pnvReferenceName v, cpvRedacted = pnvRedacted v, cpvTrace = pnvTrace v\<rparr>"

definition canonicalIssueOf :: "PlanIssue \<Rightarrow> canonicalPlanIssue" where
  "canonicalIssueOf i = \<lparr>cpiSeverity = severityName (pniSeverity i), cpiCode = pniCode i, cpiField = pniField i,
     cpiMessage = pniMessage i, cpiSortOrder = pniSortOrder i\<rparr>"

definition canonicalPlanOf :: "planLib \<Rightarrow> ReleasePlan \<Rightarrow> canonicalPlan" where
  "canonicalPlanOf L plan = \<lparr>cplReleaseBundleID = plUuid L (pnReleaseBundleID plan),
     cplApplicationID = plUuid L (pnApplicationID plan), cplChannelID = plUuid L (pnChannelID plan),
     cplEnvironmentID = plUuid L (pnEnvironmentID plan),
     cplProcessSnapshotID = uuidPtrString (plRelease L) (pnProcessSnapshotID plan),
     cplVariableSnapshotID = uuidPtrString (plRelease L) (pnVariableSnapshotID plan),
     cplReleaseContract = NormalizedReleaseContract (plRelease L) (pnReleaseContract plan),
     cplTargets = map (canonicalTargetOf L) (pnTargets plan),
     cplTargetComponents = map (canonicalTargetComponentOf L) (pnTargetComponents plan),
     cplSteps = map canonicalStepOf (pnSteps plan), cplVariables = map (canonicalVariableOf L) (pnVariables plan),
     cplIssues = map canonicalIssueOf (pnIssues plan)\<rparr>"

definition canonicalizePlan :: "planLib \<Rightarrow> ReleasePlan \<Rightarrow> string result" where
  "canonicalizePlan L plan =
     (case plMarshalPlan L (canonicalPlanOf L plan) of
        None \<Rightarrow> Inl (Errorf ''json: unsupported value'')
      | Some payload \<Rightarrow> Inr payload)"

definition setPlanCanonicalFields :: "planLib \<Rightarrow> ReleasePlan \<Rightarrow> ReleasePlan result" where
  "setPlanCanonicalFields L plan =
     (case canonicalizePlan L plan of
        Inl e \<Rightarrow> Inl (Errorf (''could not canonicalize DeploymentPlan: '' @ errorString e))
      | Inr payload \<Rightarrow> Inr (plan\<lparr>pnCanonicalPayload := payload,
          pnCanonicalChecksum := ''sha256:'' @ hexEncode (rlSha256 (plRelease L) payload)\<rparr>))"

text \<open>\<open>CreateDeploymentPlan\<close> up to the statements that store the plan.\<close>

definition preparePlan :: "planLib \<Rightarrow> planWorld \<Rightarrow> CreatePlanRequest \<Rightarrow> ReleasePlan result" where
  "preparePlan L W request =
     bindR (validatePlanRequest request) (\<lambda>_.
     bindR (resolvePlan L W request) (\<lambda>plan. setPlanCanonicalFields L plan))"

section \<open>Which plans are ready\<close>

definition clean :: "ReleasePlan \<Rightarrow> bool" where
  "clean plan \<longleftrightarrow> \<not> planHasBlockers (pnIssues plan)"

text \<open>The fields of a plan that do not change once its targets and components are set.\<close>

definition planCore :: "ReleasePlan \<Rightarrow> ReleasePlan" where
  "planCore plan = plan\<lparr>pnStatus := PlanStatusDraft, pnCanonicalChecksum := [], pnCanonicalPayload := [],
     pnSteps := [], pnVariables := [], pnIssues := []\<rparr>"

lemma planCoreD:
  assumes "planCore p = planCore q"
  shows "pnID p = pnID q" "pnOrganizationID p = pnOrganizationID q" "pnApplicationID p = pnApplicationID q"
    "pnReleaseBundleID p = pnReleaseBundleID q" "pnChannelID p = pnChannelID q" "pnEnvironmentID p = pnEnvironmentID q"
    "pnProcessSnapshotID p = pnProcessSnapshotID q" "pnVariableSnapshotID p = pnVariableSnapshotID q"
    "pnReleaseContract p = pnReleaseContract q" "pnTargets p = pnTargets q" "pnTargetComponents p = pnTargetComponents q"
proof -
  have f: "f p = f q" if "\<And>x. f x = f (planCore x)" for f :: "ReleasePlan \<Rightarrow> 'b"
    using assms that by metis
  show "pnID p = pnID q" "pnOrganizationID p = pnOrganizationID q" "pnApplicationID p = pnApplicationID q"
    "pnReleaseBundleID p = pnReleaseBundleID q" "pnChannelID p = pnChannelID q" "pnEnvironmentID p = pnEnvironmentID q"
    "pnProcessSnapshotID p = pnProcessSnapshotID q" "pnVariableSnapshotID p = pnVariableSnapshotID q"
    "pnReleaseContract p = pnReleaseContract q" "pnTargets p = pnTargets q" "pnTargetComponents p = pnTargetComponents q"
    by (rule f, simp add: planCore_def)+
qed

lemma issue_simps [simp]:
  "clean (addPlanIssue severity code field message p) \<longleftrightarrow> clean p \<and> severity \<noteq> IssueSeverityBlocker"
  "planCore (addPlanIssue severity code field message p) = planCore p"
  "pnSteps (addPlanIssue severity code field message p) = pnSteps p"
  "pnVariables (addPlanIssue severity code field message p) = pnVariables p"
  by (auto simp: clean_def planHasBlockers_def addPlanIssue_def planCore_def)

lemma fold_clean:
  assumes "\<And>x p. x \<in> set xs \<Longrightarrow> clean (f x p) \<longleftrightarrow> clean p \<and> Q x"
  shows "clean (fold f xs p) \<longleftrightarrow> clean p \<and> (\<forall>x \<in> set xs. Q x)"
  using assms by (induction xs arbitrary: p) auto

lemma fold_planCore: "(\<And>x p. planCore (f x p) = planCore p) \<Longrightarrow> planCore (fold f xs p) = planCore p"
  by (induction xs arbitrary: p) auto

lemma fold_pnSteps: "(\<And>x p. pnSteps (f x p) = pnSteps p) \<Longrightarrow> pnSteps (fold f xs p) = pnSteps p"
  by (induction xs arbitrary: p) auto

lemma fold_pnVariables: "(\<And>x p. pnVariables (f x p) = pnVariables p) \<Longrightarrow> pnVariables (fold f xs p) = pnVariables p"
  by (induction xs arbitrary: p) auto

subsection \<open>Eligibility, platforms, contract and agents\<close>

definition planEligible :: "planLib \<Rightarrow> planWorld \<Rightarrow> ReleasePlan \<Rightarrow> bool" where
  "planEligible L W plan \<longleftrightarrow>
     (\<exists>result. GetReleaseBundleEligibility L W (pnReleaseBundleID plan) (pnEnvironmentID plan) (pnOrganizationID plan) = Inr result
        \<and> erReasons result = [])"

lemma addPlanEligibilityBlockers_effect:
  "clean (addPlanEligibilityBlockers L W p) \<longleftrightarrow> clean p \<and> planEligible L W p"
  "planCore (addPlanEligibilityBlockers L W p) = planCore p"
  "pnSteps (addPlanEligibilityBlockers L W p) = pnSteps p"
  "pnVariables (addPlanEligibilityBlockers L W p) = pnVariables p"
proof -
  have reasons: "clean (fold (\<lambda>reason. addBlocker (reasonCodeName (ercCode reason)) (ercField reason) (ercMessage reason)) rs p)
      \<longleftrightarrow> clean p \<and> rs = []" for rs
    by (induction rs arbitrary: p) auto
  show "clean (addPlanEligibilityBlockers L W p) \<longleftrightarrow> clean p \<and> planEligible L W p"
    by (auto simp: addPlanEligibilityBlockers_def planEligible_def reasons split: sum.split)
qed (auto simp: addPlanEligibilityBlockers_def fold_planCore fold_pnSteps fold_pnVariables split: sum.split)

lemma addPlanTargetPlatformIssues_effect:
  "clean (addPlanTargetPlatformIssues L p) \<longleftrightarrow> clean p \<and>
     (\<forall>c \<in> set (pnTargetComponents p). pntPlatform (targetByID (pnTargets p) (pncDeploymentPlanTargetID c)) = pncPlatform c)"
  "planCore (addPlanTargetPlatformIssues L p) = planCore p"
  "pnSteps (addPlanTargetPlatformIssues L p) = pnSteps p"
  "pnVariables (addPlanTargetPlatformIssues L p) = pnVariables p"
  unfolding addPlanTargetPlatformIssues_def
  by (rule fold_clean fold_planCore fold_pnSteps fold_pnVariables, auto simp: addPlatformIssue_def Let_def)+

lemma addPlanReleaseContractIssues_effect:
  "clean (addPlanReleaseContractIssues L bundle p) \<longleftrightarrow>
     clean p \<and> (list_ex (isHubWebhook L) (pnSteps p) \<longrightarrow> rlbReleaseContract bundle \<noteq> None)"
  "planCore (addPlanReleaseContractIssues L bundle p) = planCore p"
  "pnSteps (addPlanReleaseContractIssues L bundle p) = pnSteps p"
  "pnVariables (addPlanReleaseContractIssues L bundle p) = pnVariables p"
  by (auto simp: addPlanReleaseContractIssues_def)

definition agentsSupport :: "planLib \<Rightarrow> planWorld \<Rightarrow> ReleasePlan \<Rightarrow> bool" where
  "agentsSupport L W plan \<longleftrightarrow>
     (\<forall>step \<in> set (pnSteps plan). \<forall>target \<in> set (pnTargets plan). pnsIncluded step \<and> planStepRunsOnTarget L step \<longrightarrow>
        (\<exists>items. pwCapabilityReports W (pnOrganizationID plan) (map pntDeploymentTargetID (pnTargets plan)) = Inr items
          \<and> (\<forall>report. reportsByTarget items (pntDeploymentTargetID target) = Some report \<longrightarrow>
               agentCapabilitySupportsAction report (pnsActionType step) AgentActionVersionV1)))"

lemma addTargetCapabilityIssues_effect:
  "clean (addTargetCapabilityIssues L reports steps target p) \<longleftrightarrow> clean p \<and>
     (\<forall>step \<in> set steps. \<forall>report. reports (pntDeploymentTargetID target) = Some report \<longrightarrow>
        agentCapabilitySupportsAction report (pnsActionType step) AgentActionVersionV1)"
  "planCore (addTargetCapabilityIssues L reports steps target p) = planCore p"
  "pnSteps (addTargetCapabilityIssues L reports steps target p) = pnSteps p"
  "pnVariables (addTargetCapabilityIssues L reports steps target p) = pnVariables p"
proof -
  have 1: "clean (fold (addCapabilityIssue L report target) steps p) \<longleftrightarrow> clean p \<and>
      (\<forall>step \<in> set steps. agentCapabilitySupportsAction report (pnsActionType step) AgentActionVersionV1)" for report
    by (rule fold_clean) (simp add: addCapabilityIssue_def)
  then show "clean (addTargetCapabilityIssues L reports steps target p) \<longleftrightarrow> clean p \<and>
     (\<forall>step \<in> set steps. \<forall>report. reports (pntDeploymentTargetID target) = Some report \<longrightarrow>
        agentCapabilitySupportsAction report (pnsActionType step) AgentActionVersionV1)"
    by (auto simp: addTargetCapabilityIssues_def split: option.split)
qed (auto simp: addTargetCapabilityIssues_def addCapabilityIssue_def fold_planCore fold_pnSteps fold_pnVariables split: option.split)

lemma addPlanAgentCapabilityIssues_effect:
  "clean (addPlanAgentCapabilityIssues L W p) \<longleftrightarrow> clean p \<and> agentsSupport L W p"
  "planCore (addPlanAgentCapabilityIssues L W p) = planCore p"
  "pnSteps (addPlanAgentCapabilityIssues L W p) = pnSteps p"
  "pnVariables (addPlanAgentCapabilityIssues L W p) = pnVariables p"
proof -
  let ?steps = "filter (\<lambda>step. pnsIncluded step \<and> planStepRunsOnTarget L step) (pnSteps p)"
  have f: "clean (fold (addTargetCapabilityIssues L reports ?steps) (pnTargets p) p) \<longleftrightarrow> clean p \<and>
     (\<forall>target \<in> set (pnTargets p). \<forall>step \<in> set ?steps. \<forall>report. reports (pntDeploymentTargetID target) = Some report \<longrightarrow>
        agentCapabilitySupportsAction report (pnsActionType step) AgentActionVersionV1)" for reports
    by (rule fold_clean) (rule addTargetCapabilityIssues_effect)
  show "clean (addPlanAgentCapabilityIssues L W p) \<longleftrightarrow> clean p \<and> agentsSupport L W p"
  proof (cases "?steps = [] \<or> pnTargets p = []")
    case True
    then show ?thesis by (auto simp: addPlanAgentCapabilityIssues_def agentsSupport_def filter_empty_conv)
  next
    case False
    then obtain step target where "step \<in> set ?steps" "target \<in> set (pnTargets p)"
      by (metis list.set_intros(1) neq_Nil_conv)
    with False f show ?thesis
      by (cases "pwCapabilityReports W (pnOrganizationID p) (map pntDeploymentTargetID (pnTargets p))")
        (auto simp: addPlanAgentCapabilityIssues_def agentsSupport_def)
  qed
qed (auto simp: addPlanAgentCapabilityIssues_def Let_def fold_planCore fold_pnSteps fold_pnVariables addTargetCapabilityIssues_effect
    split: sum.split)

subsection \<open>Steps\<close>

definition stepAccepted :: "planLib \<Rightarrow> string set \<Rightarrow> DeploymentProcessStep \<Rightarrow> bool" where
  "stepAccepted L stepKeys step \<longleftrightarrow>
     RegistryGet DefaultRegistry (stActionType step) \<noteq> None
     \<and> ValidateInput (plSchema L) DefaultRegistry (stActionType step) (stInputBindings step) = Inr ()
     \<and> (\<exists>refs. OutputReferences (plValue L) (stCondition step) = Inr refs \<and> orefStepKey ` set refs \<subseteq> stepKeys)"

lemma validatePlanStepCondition_ok:
  "validatePlanStepCondition L step stepKeys = Inr () \<longleftrightarrow>
     (\<exists>refs. OutputReferences (plValue L) (stCondition step) = Inr refs \<and> orefStepKey ` set refs \<subseteq> stepKeys)"
proof (cases "parseCondition (plValue L) (stCondition step)")
  case (Inl e)
  then show ?thesis by (simp add: validatePlanStepCondition_def ValidateCondition_def OutputReferences_def)
next
  case (Inr parsed)
  then have "\<exists>refs. OutputReferences (plValue L) (stCondition step) = Inr refs"
    by (cases parsed) (auto simp: OutputReferences_def split: leftOperand.split)
  then obtain refs where refs: "OutputReferences (plValue L) (stCondition step) = Inr refs" by blast
  have "find (\<lambda>ref. orefStepKey ref \<notin> stepKeys) refs = None \<longleftrightarrow> orefStepKey ` set refs \<subseteq> stepKeys"
    by (auto simp: find_None_iff)
  with Inr refs show ?thesis
    by (auto simp: validatePlanStepCondition_def ValidateCondition_def split: option.split)
qed

lemma addPlanStep_effect:
  "clean (addPlanStep L DefaultRegistry keys step p) \<longleftrightarrow> clean p \<and> stepAccepted L keys step"
  "planCore (addPlanStep L r keys step p) = planCore p"
  "pnSteps (addPlanStep L r keys step p) = pnSteps p @ [snapshotPlanStep r p step]"
  "pnVariables (addPlanStep L r keys step p) = pnVariables p"
proof -
  have c: "clean (p\<lparr>pnSteps := x\<rparr>) = clean p" "planCore (p\<lparr>pnSteps := x\<rparr>) = planCore p" for p x
    by (simp_all add: clean_def planCore_def)
  have same: "snapshotPlanStep r (addPlanIssue severity code field message p) step = snapshotPlanStep r p step"
    for severity code field message p
    by (simp add: snapshotPlanStep_def addPlanIssue_def)
  show "clean (addPlanStep L DefaultRegistry keys step p) \<longleftrightarrow> clean p \<and> stepAccepted L keys step"
    using validatePlanStepCondition_ok [of L step keys]
    by (auto simp: addPlanStep_def Let_def c stepAccepted_def split: option.splits sum.splits)
  show "planCore (addPlanStep L r keys step p) = planCore p"
    by (simp add: addPlanStep_def Let_def c split: option.split sum.split)
  show "pnSteps (addPlanStep L r keys step p) = pnSteps p @ [snapshotPlanStep r p step]"
    by (simp add: addPlanStep_def Let_def same split: option.split sum.split)
  show "pnVariables (addPlanStep L r keys step p) = pnVariables p"
    by (simp add: addPlanStep_def Let_def split: option.split sum.split)
qed

lemma fold_addPlanStep_steps:
  "pnSteps (fold (addPlanStep L r keys) steps p) = pnSteps p @ map (snapshotPlanStep r p) steps"
proof (induction steps arbitrary: p)
  case Nil
  then show ?case by simp
next
  case (Cons step steps)
  have "snapshotPlanStep r (addPlanStep L r keys step p) = snapshotPlanStep r p"
    using planCoreD [OF addPlanStep_effect(2)] by (intro ext) (simp add: snapshotPlanStep_def)
  then show ?case by (simp add: Cons.IH addPlanStep_effect)
qed

definition applicable :: "ReleasePlan \<Rightarrow> DeploymentProcessStep \<Rightarrow> bool" where
  "applicable plan step \<longleftrightarrow> (stChannelIDs step = [] \<or> pnChannelID plan \<in> set (stChannelIDs step))
     \<and> (stEnvironmentIDs step = [] \<or> pnEnvironmentID plan \<in> set (stEnvironmentIDs step))"

lemma planStepExcludedReason_applicable:
  "planStepExcludedReason step (pnChannelID p) (pnEnvironmentID p) = [] \<longleftrightarrow> applicable p step"
  by (auto simp: planStepExcludedReason_def applicable_def)

lemma addPlanSteps_effect:
  defines "steps \<equiv> \<lambda>snapshot. drvSteps (pssRevision snapshot)"
  shows "clean (addPlanSteps L snapshot p) \<longleftrightarrow> clean p
      \<and> (\<forall>step \<in> set (steps snapshot). stepAccepted L (stKey ` set (steps snapshot)) step)
      \<and> (steps snapshot \<noteq> [] \<longrightarrow> (\<exists>step \<in> set (steps snapshot). applicable p step))"
    and "planCore (addPlanSteps L snapshot p) = planCore p"
    and "pnSteps (addPlanSteps L snapshot p) = pnSteps p @ map (snapshotPlanStep DefaultRegistry p) (SortStable planStepLess (steps snapshot))"
    and "pnVariables (addPlanSteps L snapshot p) = pnVariables p"
proof -
  have c: "clean (fold (addPlanStep L DefaultRegistry keys) xs p) \<longleftrightarrow> clean p \<and> (\<forall>x \<in> set xs. stepAccepted L keys x)" for keys xs
    by (rule fold_clean) (rule addPlanStep_effect)
  show "clean (addPlanSteps L snapshot p) \<longleftrightarrow> clean p
      \<and> (\<forall>step \<in> set (steps snapshot). stepAccepted L (stKey ` set (steps snapshot)) step)
      \<and> (steps snapshot \<noteq> [] \<longrightarrow> (\<exists>step \<in> set (steps snapshot). applicable p step))"
    by (auto simp: addPlanSteps_def Let_def c steps_def planStepExcludedReason_applicable filter_empty_conv)
  show "planCore (addPlanSteps L snapshot p) = planCore p"
    by (simp add: addPlanSteps_def Let_def fold_planCore addPlanStep_effect)
  show "pnSteps (addPlanSteps L snapshot p) = pnSteps p @ map (snapshotPlanStep DefaultRegistry p) (SortStable planStepLess (steps snapshot))"
    by (simp add: addPlanSteps_def Let_def fold_addPlanStep_steps steps_def)
  show "pnVariables (addPlanSteps L snapshot p) = pnVariables p"
    by (simp add: addPlanSteps_def Let_def fold_pnVariables addPlanStep_effect)
qed

definition processReady :: "planLib \<Rightarrow> planWorld \<Rightarrow> ReleasePlan \<Rightarrow> bool" where
  "processReady L W plan \<longleftrightarrow>
     (\<exists>u snapshot. pnProcessSnapshotID plan = Some u \<and> pwProcessSnapshot W u (pnOrganizationID plan) = Inr snapshot \<and>
       (let steps = drvSteps (pssRevision snapshot) in
          (\<forall>step \<in> set steps. stepAccepted L (stKey ` set steps) step)
          \<and> (steps \<noteq> [] \<longrightarrow> (\<exists>step \<in> set steps. applicable plan step))))"

definition processSteps :: "planWorld \<Rightarrow> ReleasePlan \<Rightarrow> DeploymentProcessStep list" where
  "processSteps W plan =
     (case pnProcessSnapshotID plan of
        None \<Rightarrow> []
      | Some u \<Rightarrow> (case pwProcessSnapshot W u (pnOrganizationID plan) of
          Inl _ \<Rightarrow> [] | Inr snapshot \<Rightarrow> SortStable planStepLess (drvSteps (pssRevision snapshot))))"

lemma addPlanProcess_effect:
  "clean (addPlanProcess L W p) \<longleftrightarrow> clean p \<and> processReady L W p"
  "planCore (addPlanProcess L W p) = planCore p"
  "pnSteps (addPlanProcess L W p) = pnSteps p @ map (snapshotPlanStep DefaultRegistry p) (processSteps W p)"
  "pnVariables (addPlanProcess L W p) = pnVariables p"
  by (auto simp: addPlanProcess_def processReady_def processSteps_def Let_def addPlanSteps_effect split: option.split sum.split)

subsection \<open>Variables\<close>

lemma addPlanVariable_effect:
  "clean (addPlanVariable L v p) \<longleftrightarrow> clean p \<and> (pnvIsRequired v \<longrightarrow> pnvStatus v = VariableResolutionStatusResolved)"
  "planCore (addPlanVariable L v p) = planCore p"
  "pnSteps (addPlanVariable L v p) = pnSteps p"
  "pnVariables (addPlanVariable L v p) = pnVariables p @ [v]"
proof -
  have c: "clean (p\<lparr>pnVariables := x\<rparr>) = clean p" "planCore (p\<lparr>pnVariables := x\<rparr>) = planCore p" for x
    by (simp_all add: clean_def planCore_def)
  show "clean (addPlanVariable L v p) \<longleftrightarrow> clean p \<and> (pnvIsRequired v \<longrightarrow> pnvStatus v = VariableResolutionStatusResolved)"
    by (cases "pnvStatus v") (auto simp: addPlanVariable_def Let_def c)
qed (auto simp: addPlanVariable_def Let_def planCore_def addPlanIssue_def)

lemma fold_addPlanVariable:
  "clean (fold (addPlanVariable L) vs p) \<longleftrightarrow>
     clean p \<and> (\<forall>v \<in> set vs. pnvIsRequired v \<longrightarrow> pnvStatus v = VariableResolutionStatusResolved)"
  "planCore (fold (addPlanVariable L) vs p) = planCore p"
  "pnSteps (fold (addPlanVariable L) vs p) = pnSteps p"
  "pnVariables (fold (addPlanVariable L) vs p) = pnVariables p @ vs"
  by (rule fold_clean fold_planCore fold_pnSteps, simp add: addPlanVariable_effect)+
    (induction vs arbitrary: p, auto simp: addPlanVariable_effect)

text \<open>What a target resolves the variables to; without prompted values the resolution cannot fail.\<close>

definition resolvedFor :: "planLib \<Rightarrow> Variable list \<Rightarrow> ReleasePlan \<Rightarrow> PlanTarget \<Rightarrow> ResolvedVariable list" where
  "resolvedFor L variables plan target =
     map (\<lambda>variable. resolveVariable (plUuid L) variable (planTargetScope plan target) None) variables"

lemma Resolve_target:
  "Resolve (plUuid L) \<lparr>rqVariables = variables, rqScope = planTargetScope plan target, rqPromptedValues = []\<rparr>
   = Inr (resolvedFor L variables plan target)"
  by (simp add: Resolve_def promptedValuesByKey_def resolvedFor_def)

lemma resolveForTargets_Some:
  "resolveForTargets L variables plan (Some vs) targets =
     (if \<forall>target \<in> set targets. planResolvedVariablesEqual L vs (resolvedFor L variables plan target) then Inr vs
      else Inl (addBlocker ''target_scoped_variables_require_separate_plans'' ''targets''
        ''selected targets resolve different variable values; create one immutable plan per target'' plan))"
  by (induction targets) (auto simp: Resolve_target)

definition targetsAgree :: "planLib \<Rightarrow> Variable list \<Rightarrow> ReleasePlan \<Rightarrow> bool" where
  "targetsAgree L variables plan \<longleftrightarrow>
     (\<forall>target \<in> set (tl (pnTargets plan)).
        planResolvedVariablesEqual L (resolvedFor L variables plan (hd (pnTargets plan))) (resolvedFor L variables plan target))"

lemma resolveForTargets_None:
  "resolveForTargets L variables plan None (pnTargets plan) =
     (if targetsAgree L variables plan
      then Inr (case pnTargets plan of [] \<Rightarrow> [] | target # _ \<Rightarrow> resolvedFor L variables plan target)
      else Inl (addBlocker ''target_scoped_variables_require_separate_plans'' ''targets''
        ''selected targets resolve different variable values; create one immutable plan per target'' plan))"
  by (cases "pnTargets plan") (auto simp: Resolve_target resolveForTargets_Some targetsAgree_def)

definition variablesReady :: "planLib \<Rightarrow> planWorld \<Rightarrow> ReleasePlan \<Rightarrow> bool" where
  "variablesReady L W plan \<longleftrightarrow>
     (\<exists>u snapshot. pnVariableSnapshotID plan = Some u \<and> pwVariableSnapshot W u (pnOrganizationID plan) = Inr snapshot
        \<and> (vssResolutionMode snapshot = VariableSnapshotResolutionModeTarget \<longrightarrow> targetsAgree L (vssVariables snapshot) plan))
     \<and> (\<forall>v \<in> set (pnVariables plan). pnvIsRequired v \<longrightarrow> pnvStatus v = VariableResolutionStatusResolved)"

lemma addPlanSnapshotVariables_effect:
  assumes "pnVariables p = []"
  shows "clean (addPlanSnapshotVariables L W p) \<longleftrightarrow> clean p \<and> variablesReady L W (addPlanSnapshotVariables L W p)"
    and "planCore (addPlanSnapshotVariables L W p) = planCore p"
    and "pnSteps (addPlanSnapshotVariables L W p) = pnSteps p"
proof -
  show core: "planCore (addPlanSnapshotVariables L W p) = planCore p"
    by (auto simp: addPlanSnapshotVariables_def addPlanTargetResolvedVariables_def resolveForTargets_None
        addPlanResolvedVariables_def addPlanVariables_def fold_addPlanVariable split: option.split sum.split)
  show "pnSteps (addPlanSnapshotVariables L W p) = pnSteps p"
    by (auto simp: addPlanSnapshotVariables_def addPlanTargetResolvedVariables_def resolveForTargets_None
        addPlanResolvedVariables_def addPlanVariables_def fold_addPlanVariable split: option.split sum.split)
  let ?q = "addPlanSnapshotVariables L W p"
  have agree: "targetsAgree L variables ?q = targetsAgree L variables p" for variables
    using planCoreD [OF core] by (simp add: targetsAgree_def resolvedFor_def planTargetScope_def)
  show "clean ?q \<longleftrightarrow> clean p \<and> variablesReady L W ?q"
    unfolding variablesReady_def agree planCoreD(2,8) [OF core]
    using assms
    by (auto simp: addPlanSnapshotVariables_def addPlanTargetResolvedVariables_def resolveForTargets_None
        addPlanResolvedVariables_def addPlanVariables_def fold_addPlanVariable split: option.split sum.split)
qed

lemma core_cong:
  assumes "planCore p = planCore q"
  shows "planEligible L W p = planEligible L W q" "processReady L W p = processReady L W q"
    "processSteps W p = processSteps W q" "snapshotPlanStep r p = snapshotPlanStep r q"
    "pnSteps p = pnSteps q \<Longrightarrow> agentsSupport L W p = agentsSupport L W q"
    "pnVariables p = pnVariables q \<Longrightarrow> variablesReady L W p = variablesReady L W q"
proof -
  note c = planCoreD [OF assms]
  have "applicable p = applicable q" using c by (intro ext) (simp add: applicable_def)
  then show "processReady L W p = processReady L W q" using c by (simp add: processReady_def)
  have "targetsAgree L vs p = targetsAgree L vs q" for vs
    using c by (simp add: targetsAgree_def resolvedFor_def planTargetScope_def)
  then show "variablesReady L W p = variablesReady L W q" if "pnVariables p = pnVariables q"
    using c that by (simp add: variablesReady_def)
  show "agentsSupport L W p = agentsSupport L W q" if "pnSteps p = pnSteps q"
    using c that by (simp add: agentsSupport_def)
  show "snapshotPlanStep r p = snapshotPlanStep r q" using c by (intro ext) (simp add: snapshotPlanStep_def)
  show "processSteps W p = processSteps W q" unfolding processSteps_def c(2,7) by (rule refl)
  show "planEligible L W p = planEligible L W q" using c by (simp add: planEligible_def)
qed

subsection \<open>Targets and components\<close>

lemma checkTargetIDs_distinct: "checkTargetIDs seen us = Inr () \<Longrightarrow> distinct us \<and> set us \<inter> set seen = {}"
  by (induction seen us rule: checkTargetIDs.induct) (auto split: if_splits)

text \<open>What the plan keeps of a component for a target: the component, and the state of the target at that time.\<close>

definition pinnedComponent ::
    "planWorld \<Rightarrow> ReleasePlan \<Rightarrow> PlanTarget \<Rightarrow> ReleaseContract \<Rightarrow> ReleaseContractComponent \<Rightarrow> PlanTargetComponent \<Rightarrow> bool" where
  "pinnedComponent W plan target contract component c \<longleftrightarrow>
     pncDeploymentPlanTargetID c = pntID target \<and> pncDeploymentTargetID c = pntDeploymentTargetID target
     \<and> pncComponent c = rccName component \<and> pncVersion c = rccVersion component \<and> pncImage c = rccImage component
     \<and> pncPlatform c = rccPlatform component \<and> pncContracts c = rccContracts component
     \<and> pncConfigChecksum c = rcServiceConfigChecksum (rcConfig contract)
     \<and> (case pwTargetComponentState W (pnOrganizationID plan) (pntDeploymentTargetID target) (pnApplicationID plan) (rccName component) of
          Inr state \<Rightarrow> pncExpectedStateVersion c = tcsStateVersion state \<and> pncExpectedStateChecksum c = tcsStateChecksum state
            \<and> pncExpectedReleaseBundleID c = Some (tcsReleaseBundleID state)
        | Inl _ \<Rightarrow> pncExpectedStateVersion c = 0 \<and> pncExpectedStateChecksum c = [] \<and> pncExpectedReleaseBundleID c = None)"

lemma pinnedComponent_update [simp]:
  "pinnedComponent W (plan\<lparr>pnTargetComponents := x\<rparr>) = pinnedComponent W plan"
  by (intro ext) (simp add: pinnedComponent_def)

lemma resolveTargetComponents_result:
  assumes "resolveTargetComponents W components contract target draw index names plan = Inr (draw', plan')"
  shows "\<exists>cs. plan' = plan\<lparr>pnTargetComponents := pnTargetComponents plan @ cs\<rparr>
    \<and> (\<forall>c \<in> set cs. \<exists>name \<in> set names. \<exists>component. components name = Some component \<and> pinnedComponent W plan target contract component c)
    \<and> (\<forall>name \<in> set names. \<forall>component. components name = Some component \<longrightarrow>
         (\<exists>c \<in> set cs. pinnedComponent W plan target contract component c))"
  using assms
proof (induction names arbitrary: draw index plan)
  case Nil
  then show ?case by (intro exI [of _ "[]"]) simp
next
  case (Cons name names)
  show ?case
  proof (cases "components name")
    case None
    with Cons show ?thesis by fastforce
  next
    case (Some component)
    let ?state = "pwTargetComponentState W (pnOrganizationID plan) (pntDeploymentTargetID target) (pnApplicationID plan) (rccName component)"
    let ?snapshot = "componentSnapshot W plan target contract draw index component"
    let ?c = "case ?state of Inr state \<Rightarrow> expectState state ?snapshot | Inl _ \<Rightarrow> ?snapshot"
    have c: "pinnedComponent W plan target contract component ?c"
      by (auto simp: pinnedComponent_def componentSnapshot_def expectState_def split: sum.split)
    have "resolveTargetComponents W components contract target (Suc draw) (Suc index) names
        (plan\<lparr>pnTargetComponents := pnTargetComponents plan @ [?c]\<rparr>) = Inr (draw', plan')"
      using Cons.prems Some by (auto simp: Let_def split: sum.splits if_splits)
    from Cons.IH [OF this] obtain cs where cs:
      "plan' = plan\<lparr>pnTargetComponents := pnTargetComponents plan @ ?c # cs\<rparr>"
      "\<forall>c \<in> set cs. \<exists>name \<in> set names. \<exists>component. components name = Some component \<and> pinnedComponent W plan target contract component c"
      "\<forall>name \<in> set names. \<forall>component. components name = Some component \<longrightarrow>
         (\<exists>c \<in> set cs. pinnedComponent W plan target contract component c)" by auto
    show ?thesis
    proof (intro exI conjI)
      show "plan' = plan\<lparr>pnTargetComponents := pnTargetComponents plan @ (?c # cs)\<rparr>" by (rule cs(1))
    qed (use cs(2,3) c Some in \<open>auto\<close>)
  qed
qed

lemma resolveComponentsOfTargets_result:
  assumes "resolveComponentsOfTargets W components contract draw targets plan = Inr plan'"
  shows "\<exists>cs. plan' = plan\<lparr>pnTargetComponents := pnTargetComponents plan @ cs\<rparr>
    \<and> (\<forall>c \<in> set cs. \<exists>target \<in> set targets. \<exists>name \<in> set (rcAffectedComponents (rcCompatibility contract)). \<exists>component.
         components name = Some component \<and> pinnedComponent W plan target contract component c)
    \<and> (\<forall>target \<in> set targets. \<forall>name \<in> set (rcAffectedComponents (rcCompatibility contract)). \<forall>component.
         components name = Some component \<longrightarrow> (\<exists>c \<in> set cs. pinnedComponent W plan target contract component c))"
  using assms
proof (induction targets arbitrary: draw plan)
  case Nil
  then show ?case by (intro exI [of _ "[]"]) simp
next
  case (Cons target targets)
  then obtain draw1 plan1 where 1:
    "resolveTargetComponents W components contract target draw 0 (rcAffectedComponents (rcCompatibility contract)) plan = Inr (draw1, plan1)"
    "resolveComponentsOfTargets W components contract draw1 targets plan1 = Inr plan'"
    by (auto simp: bindR_eq_Inr)
  from resolveTargetComponents_result [OF 1(1)] obtain cs1 where cs1:
    "plan1 = plan\<lparr>pnTargetComponents := pnTargetComponents plan @ cs1\<rparr>"
    "\<forall>c \<in> set cs1. \<exists>name \<in> set (rcAffectedComponents (rcCompatibility contract)). \<exists>component.
       components name = Some component \<and> pinnedComponent W plan target contract component c"
    "\<forall>name \<in> set (rcAffectedComponents (rcCompatibility contract)). \<forall>component. components name = Some component \<longrightarrow>
       (\<exists>c \<in> set cs1. pinnedComponent W plan target contract component c)" by blast
  from Cons.IH [OF 1(2)] obtain cs2 where cs2:
    "plan' = plan\<lparr>pnTargetComponents := pnTargetComponents plan @ cs1 @ cs2\<rparr>"
    "\<forall>c \<in> set cs2. \<exists>target \<in> set targets. \<exists>name \<in> set (rcAffectedComponents (rcCompatibility contract)). \<exists>component.
         components name = Some component \<and> pinnedComponent W plan target contract component c"
    "\<forall>target \<in> set targets. \<forall>name \<in> set (rcAffectedComponents (rcCompatibility contract)). \<forall>component.
         components name = Some component \<longrightarrow> (\<exists>c \<in> set cs2. pinnedComponent W plan target contract component c)"
    by (auto simp: cs1(1))
  show ?case
  proof (intro exI conjI)
    show "plan' = plan\<lparr>pnTargetComponents := pnTargetComponents plan @ (cs1 @ cs2)\<rparr>" using cs2(1) by simp
    show "\<forall>c \<in> set (cs1 @ cs2). \<exists>target \<in> set (target # targets). \<exists>name \<in> set (rcAffectedComponents (rcCompatibility contract)). \<exists>component.
         components name = Some component \<and> pinnedComponent W plan target contract component c"
      using cs1(2) cs2(2) by fastforce
    show "\<forall>t \<in> set (target # targets). \<forall>name \<in> set (rcAffectedComponents (rcCompatibility contract)). \<forall>component.
         components name = Some component \<longrightarrow> (\<exists>c \<in> set (cs1 @ cs2). pinnedComponent W plan t contract component c)"
      unfolding set_append bex_Un using cs1(3) cs2(3) by (metis set_ConsD)
  qed
qed

definition pinnedComponents ::
    "planWorld \<Rightarrow> ReleasePlan \<Rightarrow> PlanTarget list \<Rightarrow> ReleaseContract \<Rightarrow> PlanTargetComponent list \<Rightarrow> bool" where
  "pinnedComponents W plan targets contract cs \<longleftrightarrow>
     (\<forall>c \<in> set cs. \<exists>target \<in> set targets. \<exists>name \<in> set (rcAffectedComponents (rcCompatibility contract)). \<exists>component.
        componentsByName (rcComponents contract) name = Some component \<and> pinnedComponent W plan target contract component c)
     \<and> (\<forall>target \<in> set targets. \<forall>name \<in> set (rcAffectedComponents (rcCompatibility contract)). \<forall>component.
          componentsByName (rcComponents contract) name = Some component \<longrightarrow>
          (\<exists>c \<in> set cs. pinnedComponent W plan target contract component c))"

lemma resolvePlanTargetComponents_result:
  assumes "resolvePlanTargetComponents W draw plan = Inr plan'" "pnTargetComponents plan = []"
  shows "\<exists>cs. plan' = plan\<lparr>pnTargetComponents := cs\<rparr> \<and> (pnReleaseContract plan = None \<longrightarrow> cs = [])
    \<and> (\<forall>contract. pnReleaseContract plan = Some contract \<longrightarrow> pinnedComponents W plan (pnTargets plan) contract cs)"
proof (cases "pnReleaseContract plan")
  case None
  then have "plan' = plan" using assms(1) by (simp add: resolvePlanTargetComponents_def)
  then show ?thesis using None assms(2) by (intro exI [of _ "[]"]) simp
next
  case (Some contract)
  then have "resolveComponentsOfTargets W (componentsByName (rcComponents contract)) contract draw (pnTargets plan) plan = Inr plan'"
    using assms(1) by (simp add: resolvePlanTargetComponents_def)
  from resolveComponentsOfTargets_result [OF this] Some assms(2) show ?thesis by (auto simp: pinnedComponents_def)
qed

lemma foldl_upd_lookup:
  "distinct (map key xs) \<Longrightarrow> x \<in> set xs \<Longrightarrow> foldl (\<lambda>m x. m(key x \<mapsto> x)) m xs (key x) = Some x"
proof (induction xs rule: rev_induct)
  case Nil
  then show ?case by simp
next
  case (snoc y xs)
  then have "key y \<notin> key ` set xs" by simp
  with snoc show ?case by (auto simp del: image_iff) (metis imageI)+
qed

lemma targetByID_target: "distinct (map pntID targets) \<Longrightarrow> t \<in> set targets \<Longrightarrow> targetByID targets (pntID t) = t"
  by (simp add: targetByID_def mapGet_def foldl_upd_lookup)

lemma resolvePlanTargets_result:
  assumes "resolvePlanTargets W orgID targetIDs = Inr targets" "inj_on (pwNewUUID W) {..<length targetIDs}"
  shows "distinct (map pntID targets)"
    "\<exists>rows. pwTargets W orgID targetIDs = Inr rows \<and> length rows = length targetIDs \<and> map pntDeploymentTargetID targets = map ptsID rows"
proof -
  obtain rows where rows: "pwTargets W orgID targetIDs = Inr rows" "length rows = length targetIDs"
    "targets = map (planTargetOf W orgID) (enumerate 0 rows)"
    using assms(1) by (auto simp: resolvePlanTargets_def bindR_eq_Inr split: if_splits)
  have "map pntID targets = map (pwNewUUID W) (map fst (enumerate 0 rows))"
    unfolding rows map_map by (simp add: planTargetOf_def split_def comp_def)
  then show "distinct (map pntID targets)"
    using assms(2) rows(2) by (simp only: map_fst_enumerate) (simp add: distinct_map atLeast0LessThan)
  have "map pntDeploymentTargetID targets = map ptsID (map snd (enumerate 0 rows))"
    unfolding rows map_map by (simp add: planTargetOf_def split_def comp_def)
  with rows(1,2) show "\<exists>rows. pwTargets W orgID targetIDs = Inr rows \<and> length rows = length targetIDs
      \<and> map pntDeploymentTargetID targets = map ptsID rows" by (simp only: map_snd_enumerate) blast
qed

definition platformsMatch :: "ReleasePlan \<Rightarrow> bool" where
  "platformsMatch plan \<longleftrightarrow> (\<forall>target \<in> set (pnTargets plan). \<forall>c \<in> set (pnTargetComponents plan).
     pncDeploymentPlanTargetID c = pntID target \<longrightarrow> pntPlatform target = pncPlatform c)"

lemma setPlanCanonicalFields_result:
  "setPlanCanonicalFields L q = Inr plan \<Longrightarrow> \<exists>cp cs. plan = q\<lparr>pnCanonicalPayload := cp, pnCanonicalChecksum := cs\<rparr>"
  by (auto simp: setPlanCanonicalFields_def split: sum.splits)

lemma preparePlan_parts:
  assumes "preparePlan L W request = Inr plan"
  obtains rb targets p where "validatePlanRequest request = Inr ()"
    "resolvePlanTargets W (cprOrganizationID request) (cprTargetIDs request) = Inr targets"
    "resolvePlanTargetComponents W (Suc (length targets)) (newPlan L request rb (pwNewUUID W (length targets)) targets) = Inr p"
    "planCore plan = planCore (addPlanAgentCapabilityIssues L W (addPlanTargetPlatformIssues L (addPlanReleaseContractIssues L rb
       (addPlanSnapshotData L W (addPlanEligibilityBlockers L W p)))))"
    "pnStatus plan = (if clean (addPlanAgentCapabilityIssues L W (addPlanTargetPlatformIssues L (addPlanReleaseContractIssues L rb
       (addPlanSnapshotData L W (addPlanEligibilityBlockers L W p))))) then PlanStatusReady else PlanStatusBlocked)"
    "pnSteps plan = pnSteps (addPlanSnapshotData L W (addPlanEligibilityBlockers L W p))"
    "pnVariables plan = pnVariables (addPlanSnapshotData L W (addPlanEligibilityBlockers L W p))"
proof -
  obtain rb targets p where b: "validatePlanRequest request = Inr ()"
    "resolvePlanTargets W (cprOrganizationID request) (cprTargetIDs request) = Inr targets"
    "resolvePlanTargetComponents W (Suc (length targets)) (newPlan L request rb (pwNewUUID W (length targets)) targets) = Inr p"
    and f: "setPlanCanonicalFields L
      (let plan = addPlanIssue IssueSeverityWarning ''dry_run_not_performed'' ''dryRun''
              ''read-only agent dry-run checks are not available in the deployment plan foundation''
             (addPlanAgentCapabilityIssues L W (addPlanTargetPlatformIssues L (addPlanReleaseContractIssues L rb
                (addPlanSnapshotData L W (addPlanEligibilityBlockers L W p)))))
        in plan\<lparr>pnStatus := (if planHasBlockers (pnIssues plan) then PlanStatusBlocked else PlanStatusReady)\<rparr>) = Inr plan"
    using assms by (auto simp: preparePlan_def resolvePlan_def bindR_eq_Inr Let_def)
  have k: "planCore (x\<lparr>pnStatus := s\<rparr>) = planCore x" "planCore (x\<lparr>pnCanonicalPayload := cp, pnCanonicalChecksum := cs\<rparr>) = planCore x"
    for x s cp cs by (simp_all add: planCore_def)
  let ?q = "addPlanAgentCapabilityIssues L W (addPlanTargetPlatformIssues L (addPlanReleaseContractIssues L rb
                (addPlanSnapshotData L W (addPlanEligibilityBlockers L W p))))"
  let ?w = "addPlanIssue IssueSeverityWarning ''dry_run_not_performed'' ''dryRun''
              ''read-only agent dry-run checks are not available in the deployment plan foundation'' ?q"
  obtain cp cs where plan: "plan = ?w\<lparr>pnStatus := (if planHasBlockers (pnIssues ?w) then PlanStatusBlocked else PlanStatusReady),
      pnCanonicalPayload := cp, pnCanonicalChecksum := cs\<rparr>"
    using setPlanCanonicalFields_result [OF f] unfolding Let_def by blast
  have "planCore plan = planCore ?q" by (simp add: plan k)
  moreover have "pnStatus plan = (if clean ?q then PlanStatusReady else PlanStatusBlocked)"
    using issue_simps(1) [of IssueSeverityWarning _ _ _ ?q] by (auto simp: plan clean_def)
  moreover have "pnSteps plan = pnSteps (addPlanSnapshotData L W (addPlanEligibilityBlockers L W p))"
    by (simp add: plan addPlanAgentCapabilityIssues_effect addPlanTargetPlatformIssues_effect addPlanReleaseContractIssues_effect)
  moreover have "pnVariables plan = pnVariables (addPlanSnapshotData L W (addPlanEligibilityBlockers L W p))"
    by (simp add: plan addPlanAgentCapabilityIssues_effect addPlanTargetPlatformIssues_effect addPlanReleaseContractIssues_effect)
  ultimately show thesis using that b by blast
qed

lemma snapshotData_effect:
  fixes L W p
  defines "q \<equiv> addPlanSnapshotData L W (addPlanEligibilityBlockers L W p)"
  assumes "clean p" "pnSteps p = []" "pnVariables p = []"
  shows "planCore q = planCore p" "pnSteps q = map (snapshotPlanStep DefaultRegistry p) (processSteps W p)"
    "clean q \<longleftrightarrow> planEligible L W p \<and> processReady L W p \<and> variablesReady L W q"
proof -
  note e = addPlanEligibilityBlockers_effect addPlanProcess_effect
  have v: "pnVariables (addPlanProcess L W (addPlanEligibilityBlockers L W p)) = []" by (simp add: e assms)
  show "planCore q = planCore p" by (simp add: q_def addPlanSnapshotData_def addPlanSnapshotVariables_effect [OF v] e)
  show "pnSteps q = map (snapshotPlanStep DefaultRegistry p) (processSteps W p)"
    by (simp add: q_def addPlanSnapshotData_def addPlanSnapshotVariables_effect [OF v] e assms
        core_cong(3,4) [OF addPlanEligibilityBlockers_effect(2)])
  show "clean q \<longleftrightarrow> planEligible L W p \<and> processReady L W p \<and> variablesReady L W q"
    using addPlanSnapshotVariables_effect(1) [OF v, of L W] assms(2)
    by (simp add: q_def addPlanSnapshotData_def e core_cong(2) [OF addPlanEligibilityBlockers_effect(2)])
qed

lemma platforms_by_target:
  assumes "distinct (map pntID targets)" "\<And>c. c \<in> set cs \<Longrightarrow> \<exists>target \<in> set targets. pncDeploymentPlanTargetID c = pntID target"
  shows "(\<forall>c \<in> set cs. pntPlatform (targetByID targets (pncDeploymentPlanTargetID c)) = pncPlatform c) \<longleftrightarrow>
    (\<forall>target \<in> set targets. \<forall>c \<in> set cs. pncDeploymentPlanTargetID c = pntID target \<longrightarrow> pntPlatform target = pncPlatform c)"
  using assms(2) targetByID_target [OF assms(1)] by (metis (no_types, lifting))

lemma resolvePlanTargets_requested:
  assumes "validatePlanRequest request = Inr ()"
    and targets: "resolvePlanTargets W (cprOrganizationID request) (cprTargetIDs request) = Inr targets"
    and rows: "\<And>rows. pwTargets W (cprOrganizationID request) (cprTargetIDs request) = Inr rows \<Longrightarrow>
       distinct (map ptsID rows) \<and> ptsID ` set rows \<subseteq> set (cprTargetIDs request)"
    and fresh: "inj_on (pwNewUUID W) {..<length (cprTargetIDs request)}"
  shows "pntDeploymentTargetID ` set targets = set (cprTargetIDs request)"
proof -
  obtain rs where rs: "pwTargets W (cprOrganizationID request) (cprTargetIDs request) = Inr rs"
    "length rs = length (cprTargetIDs request)" "map pntDeploymentTargetID targets = map ptsID rs"
    using resolvePlanTargets_result(2) [OF targets fresh] by blast
  have "distinct (cprTargetIDs request)"
    using assms(1) checkTargetIDs_distinct by (auto simp: validatePlanRequest_def split: if_splits)
  then have "card (set (cprTargetIDs request)) = length rs" using rs(2) by (simp add: distinct_card)
  moreover have "card (set (map ptsID rs)) = length rs" using rows [OF rs(1)] distinct_card [of "map ptsID rs"] by simp
  moreover have "set (map ptsID rs) \<subseteq> set (cprTargetIDs request)" using rows [OF rs(1)] by simp
  ultimately have "set (map pntDeploymentTargetID targets) = set (cprTargetIDs request)"
    using card_subset_eq [OF finite_set] rs(3) by metis
  then show ?thesis by simp
qed

text \<open>The plan is the new plan with the pinned components, apart from what the checks add.\<close>

lemma preparePlan_core:
  assumes prepared: "preparePlan L W request = Inr plan"
  obtains rb targets p where "validatePlanRequest request = Inr ()"
    "resolvePlanTargets W (cprOrganizationID request) (cprTargetIDs request) = Inr targets"
    "clean p" "pnSteps p = []" "pnVariables p = []" "planCore plan = planCore p" "pnTargets plan = targets"
    "pnReleaseContract plan = NormalizedReleaseContract (plRelease L) (rlbReleaseContract rb)"
    "pnReleaseContract plan = None \<Longrightarrow> pnTargetComponents plan = []"
    "\<And>contract. pnReleaseContract plan = Some contract \<Longrightarrow> pinnedComponents W plan targets contract (pnTargetComponents plan)"
    "pnStatus plan = (if clean (addPlanAgentCapabilityIssues L W (addPlanTargetPlatformIssues L (addPlanReleaseContractIssues L rb
       (addPlanSnapshotData L W (addPlanEligibilityBlockers L W p))))) then PlanStatusReady else PlanStatusBlocked)"
    "pnSteps plan = pnSteps (addPlanSnapshotData L W (addPlanEligibilityBlockers L W p))"
    "pnVariables plan = pnVariables (addPlanSnapshotData L W (addPlanEligibilityBlockers L W p))"
proof -
  obtain rb targets p where valid: "validatePlanRequest request = Inr ()"
    and targets: "resolvePlanTargets W (cprOrganizationID request) (cprTargetIDs request) = Inr targets"
    and p: "resolvePlanTargetComponents W (Suc (length targets)) (newPlan L request rb (pwNewUUID W (length targets)) targets) = Inr p"
    and core: "planCore plan = planCore (addPlanAgentCapabilityIssues L W (addPlanTargetPlatformIssues L (addPlanReleaseContractIssues L rb
       (addPlanSnapshotData L W (addPlanEligibilityBlockers L W p)))))"
    and rest: "pnStatus plan = (if clean (addPlanAgentCapabilityIssues L W (addPlanTargetPlatformIssues L (addPlanReleaseContractIssues L rb
       (addPlanSnapshotData L W (addPlanEligibilityBlockers L W p))))) then PlanStatusReady else PlanStatusBlocked)"
      "pnSteps plan = pnSteps (addPlanSnapshotData L W (addPlanEligibilityBlockers L W p))"
      "pnVariables plan = pnVariables (addPlanSnapshotData L W (addPlanEligibilityBlockers L W p))"
    by (rule preparePlan_parts [OF prepared])
  let ?new = "newPlan L request rb (pwNewUUID W (length targets)) targets"
  obtain cs where cs: "p = ?new\<lparr>pnTargetComponents := cs\<rparr>"
    and none: "pnReleaseContract ?new = None \<longrightarrow> cs = []"
    and some: "\<forall>contract. pnReleaseContract ?new = Some contract \<longrightarrow> pinnedComponents W ?new targets contract cs"
    using resolvePlanTargetComponents_result [OF p] by (auto simp: newPlan_def)
  have p0: "clean p" "pnSteps p = []" "pnVariables p = []" "pnTargets p = targets" "pnTargetComponents p = cs"
    "pnReleaseContract p = pnReleaseContract ?new"
    "pnReleaseContract ?new = NormalizedReleaseContract (plRelease L) (rlbReleaseContract rb)"
    by (simp_all add: cs newPlan_def clean_def planHasBlockers_def)
  have corep: "planCore plan = planCore p"
    by (simp add: core addPlanAgentCapabilityIssues_effect addPlanTargetPlatformIssues_effect addPlanReleaseContractIssues_effect
        snapshotData_effect [OF p0(1-3)])
  note fields = planCoreD [OF corep]
  have "pinnedComponent W ?new = pinnedComponent W plan"
    unfolding fun_eq_iff pinnedComponent_def by (simp add: fields cs)
  then have "pinnedComponents W ?new = pinnedComponents W plan" by (intro ext) (simp add: pinnedComponents_def)
  then show thesis using that valid targets p0(1-3) corep rest none some by (simp add: fields p0(4-7))
qed

lemma preparePlan_targets:
  assumes "preparePlan L W request = Inr plan" "inj_on (pwNewUUID W) {..<length (cprTargetIDs request)}"
  shows "distinct (map pntID (pnTargets plan))" "pnTargets plan \<noteq> []"
    "\<exists>rows. pwTargets W (cprOrganizationID request) (cprTargetIDs request) = Inr rows
       \<and> map pntDeploymentTargetID (pnTargets plan) = map ptsID rows"
proof -
  obtain targets where targets: "validatePlanRequest request = Inr ()" "pnTargets plan = targets"
    "resolvePlanTargets W (cprOrganizationID request) (cprTargetIDs request) = Inr targets"
    using assms(1) by (rule preparePlan_core)
  note r = resolvePlanTargets_result [OF targets(3) assms(2)]
  show "distinct (map pntID (pnTargets plan))" using r(1) targets(2) by simp
  show "\<exists>rows. pwTargets W (cprOrganizationID request) (cprTargetIDs request) = Inr rows
       \<and> map pntDeploymentTargetID (pnTargets plan) = map ptsID rows" using r(2) targets(2) by blast
  have "length targets = length (cprTargetIDs request)" using r(2) by (metis length_map)
  then show "pnTargets plan \<noteq> []" using targets(1,2) by (auto simp: validatePlanRequest_def split: if_splits)
qed


definition exPlanLib :: planLib where
  "exPlanLib = \<lparr>plSchema = \<lparr>slValidate = (\<lambda>_ _. None), slQuote = (\<lambda>s. s), slLower = (\<lambda>s. s)\<rparr>, plValue = exValueLib,
     plRelease = \<lparr>rlStrictVersion = (\<lambda>_. True), rlVersionLess = (\<lambda>_ _. False), rlUrlParse = (\<lambda>_. None),
       rlMarshalBundle = (\<lambda>_. None), rlSha256 = (\<lambda>_. []), rlUuidString = (\<lambda>_. ''u''), rlLower = (\<lambda>s. s), rlFold = (=)\<rparr>,
     plMarshalResolved = (\<lambda>_. Some []), plMarshalPlan = (\<lambda>_. Some [])\<rparr>"

definition exPlanPhase :: LifecyclePhase where
  "exPlanPhase = \<lparr>lpID = 7, lpLifecycleID = 3, lpName = ''prod'', lpDescription = [], lpSortOrder = 10, lpEnvironmentIDs = [2],
     lpOptional = False, lpAutomaticPromotion = False, lpMinimumSuccessfulDeployments = 0, lpApprovalPolicyID = None,
     lpRetentionPolicyID = None\<rparr>"

definition exVariableSnapshot :: VariableSnapshot where
  "exVariableSnapshot = \<lparr>vssID = 9, vssCreatedAt = 0, vssOrganizationID = 1, vssReleaseBundleID = 1, vssApplicationID = 1,
     vssChannelID = 1, vssCanonicalChecksum = [], vssCanonicalPayload = [],
     vssResolutionMode = VariableSnapshotResolutionModeLegacy, vssVariables = [], vssValues = []\<rparr>"

definition exProcessSnapshot :: ProcessSnapshot where
  "exProcessSnapshot = \<lparr>pssID = 8, pssCreatedAt = 0, pssOrganizationID = 1, pssApplicationID = 1, pssDeploymentProcessID = 1,
     pssDeploymentProcessRevisionID = 1, pssRevisionNumber = 1, pssCanonicalChecksum = [], pssCanonicalPayload = [],
     pssRevision = \<lparr>drvID = 1, drvCreatedAt = 0, drvUpdatedAt = 0, drvOrganizationID = 1, drvDeploymentProcessID = 1,
       drvRevisionNumber = 1, drvDescription = [], drvSteps = []\<rparr>\<rparr>"

definition exPlanWorld :: planWorld where
  "exPlanWorld = \<lparr>
     pwReleaseBundle = (\<lambda>_ _. Inr ((exBundle [] (exContract [] []))\<lparr>rlbReleaseContract := None,
       rlbProcessSnapshotID := Some 8, rlbVariableSnapshotID := Some 9\<rparr>)),
     pwEnvironment = (\<lambda>_ _. Inr ()), pwChannelLifecycleID = (\<lambda>_ _. Inr 3),
     pwLifecycle = (\<lambda>_ _. Inr \<lparr>lcID = 3, lcCreatedAt = 0, lcUpdatedAt = 0, lcOrganizationID = 1, lcName = ''l'',
       lcDescription = [], lcSortOrder = 0, lcPhases = [exPlanPhase]\<rparr>),
     pwTargets = (\<lambda>_ _. Inr [\<lparr>ptsID = 5, ptsName = ''t'', ptsType = ''docker'', ptsPlatform = ''linux/amd64'',
       ptsCustomerOrganizationID = None\<rparr>]),
     pwTargetComponentState = (\<lambda>_ _ _ _. Inl ErrNotFound), pwProcessSnapshot = (\<lambda>_ _. Inr exProcessSnapshot),
     pwVariableSnapshot = (\<lambda>_ _. Inr exVariableSnapshot), pwCapabilityReports = (\<lambda>_ _. Inr []), pwNewUUID = of_nat\<rparr>"

definition exPlanRequest :: CreatePlanRequest where
  "exPlanRequest = \<lparr>cprOrganizationID = 1, cprReleaseBundleID = 1, cprEnvironmentID = 2, cprTargetIDs = [5]\<rparr>"

lemmas exPlan_defs = exPlanLib_def exPlanPhase_def exVariableSnapshot_def exProcessSnapshot_def exPlanWorld_def exPlanRequest_def
  exBundle_def

lemma exPlan_reasons:
  "\<exists>result. GetReleaseBundleEligibility exPlanLib exPlanWorld u 2 v = Inr result \<and> erReasons result = [] \<and> erEligible result"
  by (simp add: GetReleaseBundleEligibility_def Explain_def Let_def SortStable_def addChannelReason_def
      addStatusReason_def eligibilityPhase_def markTargetPhase_def exPlan_defs)

lemma exPlan_prepared:
  obtains plan where "preparePlan exPlanLib exPlanWorld exPlanRequest = Inr plan" "pnEnvironmentID plan = 2"
    "pnProcessSnapshotID plan = Some 8" "pnVariableSnapshotID plan = Some 9" "pnSteps plan = []" "pnVariables plan = []"
    "pnTargetComponents plan = []" "pnReleaseContract plan = None"
    "pnTargets plan = [planTargetOf exPlanWorld 1 (0, \<lparr>ptsID = 5, ptsName = ''t'', ptsType = ''docker'',
       ptsPlatform = ''linux/amd64'', ptsCustomerOrganizationID = None\<rparr>)]"
proof -
  have valid: "validatePlanRequest exPlanRequest = Inr ()" by (simp add: validatePlanRequest_def exPlanRequest_def)
  have env: "cprTargetIDs exPlanRequest = [5]" by (simp add: exPlanRequest_def)
  have chain: "addPlanEligibilityBlockers exPlanLib exPlanWorld p = p" "addPlanSnapshotData exPlanLib exPlanWorld p = p"
    "addPlanReleaseContractIssues exPlanLib rb p = p" "addPlanTargetPlatformIssues exPlanLib p = p"
    "addPlanAgentCapabilityIssues exPlanLib exPlanWorld p = p"
    if "pnEnvironmentID p = 2" "pnProcessSnapshotID p = Some 8" "pnVariableSnapshotID p = Some 9" "pnSteps p = []"
      "pnTargetComponents p = []" for p rb
    using exPlan_reasons [of "pnReleaseBundleID p" "pnOrganizationID p"] that
    by (auto simp: addPlanEligibilityBlockers_def addPlanSnapshotData_def addPlanProcess_def addPlanSteps_def
        addPlanSnapshotVariables_def addPlanVariables_def addPlanReleaseContractIssues_def Let_def
        addPlanTargetPlatformIssues_def addPlanAgentCapabilityIssues_def exProcessSnapshot_def exVariableSnapshot_def exPlanWorld_def)
  let ?target = "planTargetOf exPlanWorld 1 (0, \<lparr>ptsID = 5, ptsName = ''t'', ptsType = ''docker'', ptsPlatform = ''linux/amd64'',
       ptsCustomerOrganizationID = None\<rparr>)"
  have world: "pwReleaseBundle exPlanWorld u v = Inr ((exBundle [] (exContract [] []))\<lparr>rlbReleaseContract := None,
       rlbProcessSnapshotID := Some 8, rlbVariableSnapshotID := Some 9\<rparr>)" "pwEnvironment exPlanWorld u v = Inr ()"
    "pwTargets exPlanWorld u us = Inr [\<lparr>ptsID = 5, ptsName = ''t'', ptsType = ''docker'', ptsPlatform = ''linux/amd64'',
       ptsCustomerOrganizationID = None\<rparr>]" "pwNewUUID exPlanWorld (Suc 0) = 1" "cprOrganizationID exPlanRequest = 1"
    "cprTargetIDs exPlanRequest = [5]" for u v us
    by (simp_all add: exPlanWorld_def exPlanRequest_def)
  let ?p = "newPlan exPlanLib exPlanRequest ((exBundle [] (exContract [] []))\<lparr>rlbReleaseContract := None,
       rlbProcessSnapshotID := Some 8, rlbVariableSnapshotID := Some 9\<rparr>) 1 [?target]"
  have new: "pnEnvironmentID ?p = 2" "pnProcessSnapshotID ?p = Some 8" "pnVariableSnapshotID ?p = Some 9" "pnSteps ?p = []"
    "pnTargetComponents ?p = []" "pnReleaseContract ?p = None" "pnVariables ?p = []" "pnTargets ?p = [?target]"
    by (simp_all add: newPlan_def exPlanRequest_def exBundle_def NormalizedReleaseContract_def)
  have "resolvePlan exPlanLib exPlanWorld exPlanRequest = (let plan = addPlanIssue IssueSeverityWarning ''dry_run_not_performed'' ''dryRun''
      ''read-only agent dry-run checks are not available in the deployment plan foundation'' ?p
    in Inr (plan\<lparr>pnStatus := (if planHasBlockers (pnIssues plan) then PlanStatusBlocked else PlanStatusReady)\<rparr>))"
    using new by (simp add: resolvePlan_def resolvePlanTargets_def resolvePlanTargetComponents_def chain world)
  with new show thesis
    using that by (simp add: preparePlan_def valid setPlanCanonicalFields_def canonicalizePlan_def exPlanLib_def addPlanIssue_def Let_def)
qed


end
