(* ===== verification/Deployment_Preflight.thy ===== *)
theory Deployment_Preflight
  imports Deployment_Plans
begin

text \<open>
  internal/deploymentpreflight/evaluate.go, internal/types/deployment_preflight.go and
  internal/db/deployment_preflight.go: the checks that a stored plan passes before it is executed, as a whole
  or for one task. The queries are the fields of \<open>preflightWorld\<close>; \<open>pfUnmarshal\<close> is \<open>json.Unmarshal\<close> into a
  \<open>map[string]any\<close>, whose result has every key once. A nil slice is the empty list. The run is returned as
  it is stored; reading it back adds the times of the database.
\<close>

section \<open>Types\<close>

datatype PreflightStatus = PreflightStatusPassed | PreflightStatusFailed

datatype PreflightCheckStatus = CheckStatusPassed | CheckStatusFailed

record PreflightCheck =
  pfcID :: uuid
  pfcCreatedAt :: timestamp
  pfcOrganizationID :: uuid
  pfcDeploymentPreflightRunID :: uuid
  pfcDeploymentPlanID :: uuid
  pfcDeploymentPlanTargetID :: "uuid option"
  pfcDeploymentTargetID :: "uuid option"
  pfcTaskID :: "uuid option"
  pfcComponent :: string
  pfcCheckKey :: string
  pfcStatus :: PreflightCheckStatus
  pfcExpected :: object
  pfcActual :: object
  pfcMessage :: string
  pfcSortOrder :: int

record PreflightRun =
  pfrID :: uuid
  pfrCreatedAt :: timestamp
  pfrOrganizationID :: uuid
  pfrDeploymentPlanID :: uuid
  pfrPlanChecksum :: string
  pfrActorUserAccountID :: "uuid option"
  pfrStatus :: PreflightStatus
  pfrChecks :: "PreflightCheck list"

record StateKey =
  skDeploymentTargetID :: uuid
  skApplicationID :: uuid
  skComponent :: string

record liveTarget =
  ltID :: uuid
  ltType :: string
  ltPlatform :: string
  ltCustomerOrganizationID :: "uuid option"

record PreflightInput =
  piPlan :: ReleasePlan
  piPlanPayloadChecksumValid :: bool
  piReleaseEligible :: bool
  piReleaseEligibilityMessage :: string
  piReleaseContractValid :: bool
  piReleaseContractMessage :: string
  piCurrentTargets :: "uuid \<rightharpoonup> liveTarget"
  piCurrentStates :: "StateKey \<rightharpoonup> TargetComponentState"

section \<open>Checks\<close>

definition preflightCheck ::
    "PlanTarget \<Rightarrow> string \<Rightarrow> string \<Rightarrow> PreflightCheckStatus \<Rightarrow> object \<Rightarrow> object \<Rightarrow> string \<Rightarrow> PreflightCheck" where
  "preflightCheck target component key status expected actual message =
     \<lparr>pfcID = uuid_Nil, pfcCreatedAt = 0, pfcOrganizationID = uuid_Nil, pfcDeploymentPreflightRunID = uuid_Nil,
      pfcDeploymentPlanID = uuid_Nil, pfcDeploymentPlanTargetID = Some (pntID target),
      pfcDeploymentTargetID = Some (pntDeploymentTargetID target), pfcTaskID = None, pfcComponent = component,
      pfcCheckKey = key, pfcStatus = status, pfcExpected = expected, pfcActual = actual, pfcMessage = message,
      pfcSortOrder = 0\<rparr>"

definition componentCheck ::
    "PlanTarget \<Rightarrow> PlanTargetComponent \<Rightarrow> string \<Rightarrow> PreflightCheckStatus \<Rightarrow> object \<Rightarrow> object \<Rightarrow> string \<Rightarrow> PreflightCheck" where
  "componentCheck target component = preflightCheck target (pncComponent component)"

definition requirementCheck ::
    "PlanTarget \<Rightarrow> string \<Rightarrow> string \<Rightarrow> PreflightCheckStatus \<Rightarrow> object \<Rightarrow> object \<Rightarrow> string \<Rightarrow> PreflightCheck" where
  "requirementCheck = preflightCheck"

definition targetCheck ::
    "PlanTarget \<Rightarrow> string \<Rightarrow> PreflightCheckStatus \<Rightarrow> object \<Rightarrow> object \<Rightarrow> string \<Rightarrow> PreflightCheck" where
  "targetCheck target = preflightCheck target []"

definition statusFor :: "bool \<Rightarrow> PreflightCheckStatus" where
  "statusFor passed = (if passed then CheckStatusPassed else CheckStatusFailed)"

definition uuidPointersEqual :: "uuid option \<Rightarrow> uuid option \<Rightarrow> bool" where
  "uuidPointersEqual left right =
     (case (left, right) of (Some l, Some r) \<Rightarrow> l = r | _ \<Rightarrow> left = None \<and> right = None)"

definition versionAtLeast :: "releaseLib \<Rightarrow> string \<Rightarrow> string \<Rightarrow> bool" where
  "versionAtLeast R actual minimum \<longleftrightarrow>
     (if \<not> rlStrictVersion R actual then False
      else rlStrictVersion R minimum \<and> \<not> rlVersionLess R actual minimum)"

definition intString :: "int \<Rightarrow> string" where
  "intString i = (if i < 0 then CHR ''-'' # itoa (nat (- i)) else itoa (nat i))"

definition zeroLiveTarget :: liveTarget where
  "zeroLiveTarget = \<lparr>ltID = uuid_Nil, ltType = [], ltPlatform = [], ltCustomerOrganizationID = None\<rparr>"

text \<open>The checks of one target: payload, binding, eligibility, and those of the release contract.\<close>

definition targetChecks :: "planLib \<Rightarrow> PreflightInput \<Rightarrow> PlanTarget \<Rightarrow> PreflightCheck list" where
  "targetChecks L input target =
     (let plan = piPlan input; found = piCurrentTargets input (pntDeploymentTargetID target);
          live = (case found of None \<Rightarrow> zeroLiveTarget | Some t \<Rightarrow> t);
          bindingMatches = (found \<noteq> None \<and> ltType live = pntType target
            \<and> uuidPointersEqual (ltCustomerOrganizationID live) (pntCustomerOrganizationID target));
          customer = (\<lambda>u. JString (uuidPtrString (plRelease L) u))
      in [preflightCheck target [] ''plan_checksum'' (statusFor (piPlanPayloadChecksumValid input))
            [(''checksum'', JString (pnCanonicalChecksum plan))] [(''valid'', JBool (piPlanPayloadChecksumValid input))]
            (if piPlanPayloadChecksumValid input then ''plan canonical payload matches its checksum''
             else ''plan canonical payload no longer matches its checksum''),
          targetCheck target ''target_binding'' (statusFor bindingMatches)
            [(''type'', JString (pntType target)), (''customerOrganizationId'', customer (pntCustomerOrganizationID target))]
            [(''found'', JBool (found \<noteq> None)), (''type'', JString (ltType live)),
             (''customerOrganizationId'', customer (ltCustomerOrganizationID live))]
            (if bindingMatches then ''target type and customer binding match the frozen plan''
             else ''target type or customer binding changed after the plan was created''),
          targetCheck target ''release_eligibility'' (statusFor (piReleaseEligible input))
            [(''eligible'', JBool True)] [(''eligible'', JBool (piReleaseEligible input))]
            (if piReleaseEligibilityMessage input \<noteq> [] then piReleaseEligibilityMessage input
             else if piReleaseEligible input
               then ''release remains eligible for the selected environment and channel lifecycle''
             else ''release is not eligible for the selected environment and channel lifecycle'')]
         @ (case pnReleaseContract plan of
              None \<Rightarrow> []
            | Some contract \<Rightarrow>
                [targetCheck target ''release_contract'' (statusFor (piReleaseContractValid input))
                   [(''schema'', JString ReleaseContractSchemaV1), (''valid'', JBool True)]
                   [(''schema'', JString (rcSchema contract)), (''valid'', JBool (piReleaseContractValid input))]
                   (if piReleaseContractMessage input \<noteq> [] then piReleaseContractMessage input
                    else if piReleaseContractValid input
                      then ''release contract matches the published immutable components and config''
                    else ''release contract does not match the published immutable components and config''),
                 targetCheck target ''release_operations'' CheckStatusPassed [(''recorded'', JBool True)]
                   [(''migrationRequired'', JBool (rcMigrationRequired (rcOperations contract))),
                    (''configChangeRequired'', JBool (rcConfigChangeRequired (rcOperations contract)))]
                   ''migration and configuration-change flags are frozen in the plan'']))"

definition componentKey :: "ReleasePlan \<Rightarrow> PlanTargetComponent \<Rightarrow> StateKey" where
  "componentKey plan component = \<lparr>skDeploymentTargetID = pncDeploymentTargetID component,
     skApplicationID = pnApplicationID plan, skComponent = pncComponent component\<rparr>"

definition platformMatches :: "PreflightInput \<Rightarrow> PlanTargetComponent \<Rightarrow> bool" where
  "platformMatches input component =
     (let target = targetByID (pnTargets (piPlan input)) (pncDeploymentPlanTargetID component) in
      case piCurrentTargets input (pncDeploymentTargetID component) of
        None \<Rightarrow> False
      | Some live \<Rightarrow> ltPlatform live = pntPlatform target \<and> ltPlatform live = pncPlatform component)"

definition stateMatches :: "PreflightInput \<Rightarrow> PlanTargetComponent \<Rightarrow> bool" where
  "stateMatches input component =
     (let current = piCurrentStates input (componentKey (piPlan input) component) in
      if pncExpectedStateVersion component = 0 then current = None
      else case current of
          None \<Rightarrow> False
        | Some state \<Rightarrow> tcsStateVersion state = pncExpectedStateVersion component
            \<and> tcsStateChecksum state = pncExpectedStateChecksum component)"

definition componentChecks :: "PreflightInput \<Rightarrow> PlanTargetComponent \<Rightarrow> PreflightCheck list" where
  "componentChecks input component =
     (let target = targetByID (pnTargets (piPlan input)) (pncDeploymentPlanTargetID component);
          live = piCurrentTargets input (pncDeploymentTargetID component);
          current = piCurrentStates input (componentKey (piPlan input) component)
      in [componentCheck target component (''target_platform:'' @ pncComponent component) (statusFor (platformMatches input component))
            [(''platform'', JString (pncPlatform component))]
            [(''found'', JBool (live \<noteq> None)), (''platform'', JString (case live of None \<Rightarrow> [] | Some t \<Rightarrow> ltPlatform t))]
            (if platformMatches input component then ''target platform matches '' @ pncPlatform component
             else ''target platform changed or does not support '' @ pncPlatform component),
          componentCheck target component (''target_state:'' @ pncComponent component) (statusFor (stateMatches input component))
            [(''stateVersion'', JNumber (intString (pncExpectedStateVersion component))),
             (''stateChecksum'', JString (pncExpectedStateChecksum component))]
            [(''found'', JBool (current \<noteq> None)),
             (''stateVersion'', JNumber (intString (case current of None \<Rightarrow> 0 | Some s \<Rightarrow> tcsStateVersion s))),
             (''stateChecksum'', JString (case current of None \<Rightarrow> [] | Some s \<Rightarrow> tcsStateChecksum s))]
            (if stateMatches input component then ''target component state matches the frozen plan snapshot''
             else ''target component state changed after the plan was created'')])"

definition desiredComponents :: "ReleasePlan \<Rightarrow> StateKey \<rightharpoonup> PlanTargetComponent" where
  "desiredComponents plan = foldl (\<lambda>m c. m(componentKey plan c \<mapsto> c)) Map.empty (pnTargetComponents plan)"

text \<open>Version and contracts of a component at a target, by the plan or else as observed.\<close>

definition providedComponent ::
    "PreflightInput \<Rightarrow> PlanTarget \<Rightarrow> string \<Rightarrow> (string \<times> string list \<times> string) option" where
  "providedComponent input target component =
     (let key = \<lparr>skDeploymentTargetID = pntDeploymentTargetID target, skApplicationID = pnApplicationID (piPlan input),
                skComponent = component\<rparr>
      in case desiredComponents (piPlan input) key of
           Some desired \<Rightarrow> Some (pncVersion desired, pncContracts desired, ''candidate'')
         | None \<Rightarrow> (case piCurrentStates input key of
             Some current \<Rightarrow> Some (tcsVersion current, tcsContracts current, ''observed'') | None \<Rightarrow> None))"

definition versionSatisfied :: "planLib \<Rightarrow> (string \<times> string list \<times> string) option \<Rightarrow> string \<Rightarrow> bool" where
  "versionSatisfied L provided minimum =
     (case provided of None \<Rightarrow> False | Some (version, _, _) \<Rightarrow> versionAtLeast (plRelease L) version minimum)"

definition contractSatisfied :: "(string \<times> string list \<times> string) option \<Rightarrow> string \<Rightarrow> bool" where
  "contractSatisfied provided contract =
     (case provided of None \<Rightarrow> False | Some (_, contracts, _) \<Rightarrow> contract \<in> set contracts)"

definition requirementChecks ::
    "planLib \<Rightarrow> PreflightInput \<Rightarrow> PlanTarget \<Rightarrow> ReleaseContractRequirement \<Rightarrow> PreflightCheck list" where
  "requirementChecks L input target requirement =
     (let component = rrqComponent requirement; provided = providedComponent input target component;
          (version, contracts, source) = (case provided of None \<Rightarrow> ([], [], ''observed'') | Some p \<Rightarrow> p);
          minimum = rrqMinimumVersion requirement; contract = rrqContract requirement
      in (if minimum \<noteq> []
          then [requirementCheck target component (''dependency_version:'' @ component)
             (statusFor (versionSatisfied L provided minimum)) [(''minimumVersion'', JString minimum)]
             [(''found'', JBool (provided \<noteq> None)), (''version'', JString version), (''source'', JString source)]
             (if versionSatisfied L provided minimum then component @ '' version satisfies >= '' @ minimum
              else component @ '' version does not satisfy >= '' @ minimum)]
          else [])
        @ (if contract \<noteq> []
          then [requirementCheck target component (''dependency_contract:'' @ component)
             (statusFor (contractSatisfied provided contract)) [(''contract'', JString contract)]
             [(''found'', JBool (provided \<noteq> None)), (''contracts'', if provided = None then JNull else JArray (map JString contracts)), (''source'', JString source)]
             (if contractSatisfied provided contract then component @ '' provides contract '' @ contract
              else component @ '' does not provide contract '' @ contract)]
          else []))"

definition unnumberedChecks :: "planLib \<Rightarrow> PreflightInput \<Rightarrow> PreflightCheck list" where
  "unnumberedChecks L input =
     (let plan = piPlan input in
      concat (map (targetChecks L input) (pnTargets plan))
      @ concat (map (componentChecks input) (pnTargetComponents plan))
      @ (case pnReleaseContract plan of
           None \<Rightarrow> []
         | Some contract \<Rightarrow> concat (map (\<lambda>target. concat (map (requirementChecks L input target) (rcRequires (rcCompatibility contract))))
             (pnTargets plan))))"

definition EvaluatePreflight :: "planLib \<Rightarrow> PreflightInput \<Rightarrow> PreflightCheck list" where
  "EvaluatePreflight L input =
     map (\<lambda>(i, check). check\<lparr>pfcSortOrder := (int i + 1) * 10\<rparr>) (enumerate 0 (unnumberedChecks L input))"

section \<open>What is compared with the plan\<close>

record preflightWorld =
  fwPlan :: planWorld
  fwTargets :: "uuid \<Rightarrow> uuid list \<Rightarrow> liveTarget list result"
  fwStates :: "uuid \<Rightarrow> uuid \<Rightarrow> uuid list \<Rightarrow> TargetComponentState list result"
  fwUnmarshal :: "string \<Rightarrow> object option"
  fwNewUUID :: uuid

definition getPreflightTargets :: "preflightWorld \<Rightarrow> ReleasePlan \<Rightarrow> (uuid \<rightharpoonup> liveTarget) result" where
  "getPreflightTargets V plan =
     bindR (fwTargets V (pnOrganizationID plan) (map pntDeploymentTargetID (pnTargets plan))) (\<lambda>sources.
       Inr (foldl (\<lambda>m source. m(ltID source \<mapsto> source)) Map.empty sources))"

definition stateKeyOf :: "TargetComponentState \<Rightarrow> StateKey" where
  "stateKeyOf state = \<lparr>skDeploymentTargetID = tcsDeploymentTargetID state, skApplicationID = tcsApplicationID state,
     skComponent = tcsComponent state\<rparr>"

definition getPreflightStates :: "preflightWorld \<Rightarrow> ReleasePlan \<Rightarrow> (StateKey \<rightharpoonup> TargetComponentState) result" where
  "getPreflightStates V plan =
     bindR (fwStates V (pnOrganizationID plan) (pnApplicationID plan) (map pntDeploymentTargetID (pnTargets plan))) (\<lambda>states.
       Inr (foldl (\<lambda>m state. m(stateKeyOf state \<mapsto> state)) Map.empty states))"

fun projectJSONToStoredShape :: "json \<Rightarrow> json \<Rightarrow> json option"
  and projectFields :: "object \<Rightarrow> object \<Rightarrow> object option"
  and projectItems :: "json list \<Rightarrow> json list \<Rightarrow> json list option" where
  "projectJSONToStoredShape current (JObject storedValue) =
     (case current of JObject currentValue \<Rightarrow> map_option JObject (projectFields currentValue storedValue) | _ \<Rightarrow> None)"
| "projectJSONToStoredShape current (JArray storedValue) =
     (case current of
        JArray currentValue \<Rightarrow> if length currentValue \<noteq> length storedValue then None
          else map_option JArray (projectItems currentValue storedValue)
      | _ \<Rightarrow> None)"
| "projectJSONToStoredShape current stored = Some current"
| "projectFields currentValue [] = Some []"
| "projectFields currentValue ((key, storedChild) # rest) =
     (case objGet currentValue key of
        None \<Rightarrow> None
      | Some currentChild \<Rightarrow>
          (case projectJSONToStoredShape currentChild storedChild of
             None \<Rightarrow> None
           | Some child \<Rightarrow> map_option (Cons (key, child)) (projectFields currentValue rest)))"
| "projectItems (c # cs) (s # ss) =
     (case projectJSONToStoredShape c s of None \<Rightarrow> None | Some child \<Rightarrow> map_option (Cons child) (projectItems cs ss))"
| "projectItems cs ss = Some []"

definition planCanonicalStateValid :: "planLib \<Rightarrow> preflightWorld \<Rightarrow> ReleasePlan \<Rightarrow> bool result" where
  "planCanonicalStateValid L V plan =
     (if pnCanonicalChecksum plan \<noteq> ''sha256:'' @ hexEncode (rlSha256 (plRelease L) (pnCanonicalPayload plan)) then Inr False
      else case fwUnmarshal V (pnCanonicalPayload plan) of
        None \<Rightarrow> Inr False
      | Some stored \<Rightarrow>
          if objGet stored ''status'' \<noteq> None then
            (let stored = filter (\<lambda>(key, _). key \<noteq> ''status'') stored in
             case canonicalizePlan L plan of
               Inl e \<Rightarrow> Inl (Errorf (''could not canonicalize legacy deployment plan during preflight: '' @ errorString e))
             | Inr payload \<Rightarrow>
                 (case fwUnmarshal V payload of
                    None \<Rightarrow> Inl (Errorf ''could not decode current deployment plan during preflight'')
                  | Some current \<Rightarrow> Inr (projectJSONToStoredShape (JObject current) (JObject stored) = Some (JObject stored))))
          else (case canonicalizePlan L plan of
               Inl e \<Rightarrow> Inl (Errorf (''could not canonicalize deployment plan during preflight: '' @ errorString e))
             | Inr payload \<Rightarrow> Inr (pnCanonicalPayload plan = payload)))"

definition preflightReleaseFacts ::
    "planLib \<Rightarrow> preflightWorld \<Rightarrow> ReleasePlan \<Rightarrow> (bool \<times> string \<times> bool \<times> string) result" where
  "preflightReleaseFacts L V plan =
     bindR (pwReleaseBundle (fwPlan V) (pnReleaseBundleID plan) (pnOrganizationID plan)) (\<lambda>rb.
       let eligibility = GetReleaseBundleEligibility L (fwPlan V) (pnReleaseBundleID plan) (pnEnvironmentID plan) (pnOrganizationID plan);
           (releaseEligible, eligibilityMessage) =
             (case eligibility of
                Inl _ \<Rightarrow> (False, ''release eligibility could not be resolved at execution time'')
              | Inr result \<Rightarrow>
                  (erEligible result,
                   if erEligible result then ''release remains eligible for the selected environment and channel lifecycle''
                   else ''release is not eligible for execution''
                     @ (if erReasons result \<noteq> [] then '': '' @ Join (map ercMessage (erReasons result)) ''; '' else [])));
           (contractValid, contractMessage) =
             (case pnReleaseContract plan of
                None \<Rightarrow> (True, [])
              | Some contract \<Rightarrow>
                  let valid = vrValid (ValidateReleaseContract (plRelease L) contract (rlbComponents rb))
                        \<and> rlbReleaseContract rb \<noteq> None
                        \<and> NormalizedReleaseContract (plRelease L) (Some contract)
                          = NormalizedReleaseContract (plRelease L) (rlbReleaseContract rb)
                  in (valid, if valid then ''release contract matches the published immutable components and config''
                      else ''release contract no longer matches the published immutable components and config''))
       in Inr (releaseEligible, eligibilityMessage, contractValid, contractMessage))"

section \<open>The run\<close>

definition evaluatePreflightScope ::
    "planLib \<Rightarrow> preflightWorld \<Rightarrow> ReleasePlan \<Rightarrow> ReleasePlan \<Rightarrow> uuid \<Rightarrow> (PreflightRun \<times> bool) result" where
  "evaluatePreflightScope L V canonicalPlan evaluationPlan actor =
     bindR (getPreflightTargets V evaluationPlan) (\<lambda>currentTargets.
     bindR (getPreflightStates V evaluationPlan) (\<lambda>currentStates.
     bindR (planCanonicalStateValid L V canonicalPlan) (\<lambda>canonicalStateValid.
     bindR (preflightReleaseFacts L V canonicalPlan) (\<lambda>(releaseEligible, eligibilityMessage, contractValid, contractMessage).
     let checks = EvaluatePreflight L \<lparr>piPlan = evaluationPlan, piPlanPayloadChecksumValid = canonicalStateValid,
            piReleaseEligible = releaseEligible, piReleaseEligibilityMessage = eligibilityMessage,
            piReleaseContractValid = contractValid, piReleaseContractMessage = contractMessage,
            piCurrentTargets = currentTargets, piCurrentStates = currentStates\<rparr>;
         status = (if list_ex (\<lambda>check. pfcStatus check = CheckStatusFailed) checks then PreflightStatusFailed
            else PreflightStatusPassed)
     in Inr (\<lparr>pfrID = fwNewUUID V, pfrCreatedAt = 0, pfrOrganizationID = pnOrganizationID canonicalPlan,
          pfrDeploymentPlanID = pnID canonicalPlan, pfrPlanChecksum = pnCanonicalChecksum canonicalPlan,
          pfrActorUserAccountID = (if actor \<noteq> uuid_Nil then Some actor else None), pfrStatus = status,
          pfrChecks = checks\<rparr>, status = PreflightStatusPassed)))))"

definition evaluatePreflight :: "planLib \<Rightarrow> preflightWorld \<Rightarrow> ReleasePlan \<Rightarrow> uuid \<Rightarrow> (PreflightRun \<times> bool) result" where
  "evaluatePreflight L V plan actor = evaluatePreflightScope L V plan plan actor"

text \<open>The plan of one task: the identifiers of the task are those of its plan target and target.\<close>

definition evaluatePreflightForTask ::
    "planLib \<Rightarrow> preflightWorld \<Rightarrow> ReleasePlan \<Rightarrow> uuid \<Rightarrow> uuid \<Rightarrow> (PreflightRun \<times> bool) result" where
  "evaluatePreflightForTask L V plan planTargetID targetID =
     (case find (\<lambda>target. pntID target = planTargetID \<and> pntDeploymentTargetID target = targetID) (pnTargets plan) of
        None \<Rightarrow> Inl (Errorf ''deployment task target is not present in its frozen plan'')
      | Some target \<Rightarrow> evaluatePreflightScope L V plan
          (plan\<lparr>pnTargets := [target],
            pnTargetComponents := filter (\<lambda>c. pncDeploymentPlanTargetID c = planTargetID) (pnTargetComponents plan)\<rparr>)
          uuid_Nil)"

section \<open>When a plan passes\<close>

abbreviation checksPass :: "PreflightCheck list \<Rightarrow> bool" where
  "checksPass checks \<equiv> list_all (\<lambda>check. pfcStatus check = CheckStatusPassed) checks"

lemma statusFor_passed [simp]: "statusFor b = CheckStatusPassed \<longleftrightarrow> b"
  by (simp add: statusFor_def)

lemma check_status [simp]:
  "pfcStatus (preflightCheck target component key status expected actual message) = status"
  "pfcStatus (componentCheck target c key status expected actual message) = status"
  "pfcStatus (requirementCheck target component key status expected actual message) = status"
  "pfcStatus (targetCheck target key status expected actual message) = status"
  by (simp_all add: preflightCheck_def componentCheck_def requirementCheck_def targetCheck_def)

lemma list_all_concat: "list_all P (concat xss) \<longleftrightarrow> (\<forall>xs \<in> set xss. list_all P xs)"
  by (induction xss) auto

definition bindingMatches :: "PreflightInput \<Rightarrow> PlanTarget \<Rightarrow> bool" where
  "bindingMatches input target \<longleftrightarrow>
     (\<exists>live. piCurrentTargets input (pntDeploymentTargetID target) = Some live \<and> ltType live = pntType target
        \<and> ltCustomerOrganizationID live = pntCustomerOrganizationID target)"

lemma uuidPointersEqual_eq: "uuidPointersEqual a b \<longleftrightarrow> a = b"
  by (auto simp: uuidPointersEqual_def split: option.splits)

lemma targetChecks_pass:
  "checksPass (targetChecks L input target) \<longleftrightarrow> piPlanPayloadChecksumValid input \<and> bindingMatches input target
     \<and> piReleaseEligible input \<and> (pnReleaseContract (piPlan input) \<noteq> None \<longrightarrow> piReleaseContractValid input)"
  by (auto simp: targetChecks_def Let_def bindingMatches_def uuidPointersEqual_eq split: option.split)

lemma componentChecks_pass: "checksPass (componentChecks input c) \<longleftrightarrow> platformMatches input c \<and> stateMatches input c"
  by (simp add: componentChecks_def Let_def)

definition requirementSatisfied :: "planLib \<Rightarrow> (string \<times> string list \<times> string) option \<Rightarrow> ReleaseContractRequirement \<Rightarrow> bool" where
  "requirementSatisfied L provided requirement \<longleftrightarrow>
     (rrqMinimumVersion requirement \<noteq> [] \<longrightarrow> versionSatisfied L provided (rrqMinimumVersion requirement))
     \<and> (rrqContract requirement \<noteq> [] \<longrightarrow> contractSatisfied provided (rrqContract requirement))"

lemma requirementChecks_pass:
  "checksPass (requirementChecks L input target requirement) \<longleftrightarrow>
     requirementSatisfied L (providedComponent input target (rrqComponent requirement)) requirement"
  by (auto simp: requirementChecks_def Let_def requirementSatisfied_def split: prod.split)

lemma EvaluatePreflight_pass:
  "checksPass (EvaluatePreflight L input) \<longleftrightarrow>
     (\<forall>target \<in> set (pnTargets (piPlan input)). checksPass (targetChecks L input target))
     \<and> (\<forall>c \<in> set (pnTargetComponents (piPlan input)). checksPass (componentChecks input c))
     \<and> (\<forall>contract. pnReleaseContract (piPlan input) = Some contract \<longrightarrow>
          (\<forall>target \<in> set (pnTargets (piPlan input)). \<forall>requirement \<in> set (rcRequires (rcCompatibility contract)).
             checksPass (requirementChecks L input target requirement)))"
proof -
  have "checksPass (map (\<lambda>(i, check). check\<lparr>pfcSortOrder := (int i + 1) * 10\<rparr>) (enumerate n checks)) \<longleftrightarrow> checksPass checks"
    for n checks by (induction checks arbitrary: n) auto
  then show ?thesis
    by (auto simp: EvaluatePreflight_def unnumberedChecks_def Let_def list_all_concat split: option.split)
qed

section \<open>Drift\<close>

lemma foldl_upd_None: "foldl (\<lambda>m x. m(key x \<mapsto> x)) m xs k = None \<longleftrightarrow> m k = None \<and> k \<notin> key ` set xs"
  by (induction xs arbitrary: m) auto

lemma foldl_upd_Some:
  "foldl (\<lambda>m x. m(key x \<mapsto> x)) m xs k = Some x \<Longrightarrow> m k = Some x \<or> x \<in> set xs \<and> key x = k"
  by (induction xs arbitrary: m) (fastforce split: if_splits)+

text \<open>The abstract view: the state of a component at planning is the state now, a component of the
  contract is planned for a target, and what a target provides once the plan is executed.\<close>

definition sameState :: "TargetComponentState result \<Rightarrow> TargetComponentState option \<Rightarrow> bool" where
  "sameState planned current =
     (case (planned, current) of
        (Inr s, Some s') \<Rightarrow> tcsStateVersion s' = tcsStateVersion s \<and> tcsStateChecksum s' = tcsStateChecksum s
      | (Inl _, None) \<Rightarrow> True
      | _ \<Rightarrow> False)"

definition plannedComponent :: "ReleaseContract \<Rightarrow> string \<Rightarrow> ReleaseContractComponent option" where
  "plannedComponent contract name =
     (if name \<in> set (rcAffectedComponents (rcCompatibility contract)) then componentsByName (rcComponents contract) name else None)"

definition stateKey :: "ReleasePlan \<Rightarrow> PlanTarget \<Rightarrow> string \<Rightarrow> StateKey" where
  "stateKey plan target name = \<lparr>skDeploymentTargetID = pntDeploymentTargetID target,
     skApplicationID = pnApplicationID plan, skComponent = name\<rparr>"

definition provides ::
    "ReleaseContract \<Rightarrow> (StateKey \<rightharpoonup> TargetComponentState) \<Rightarrow> ReleasePlan \<Rightarrow> PlanTarget \<Rightarrow> string \<Rightarrow> (string \<times> string list \<times> string) option" where
  "provides contract states plan target name =
     (case plannedComponent contract name of
        Some component \<Rightarrow> Some (rccVersion component, rccContracts component, ''candidate'')
      | None \<Rightarrow> map_option (\<lambda>s. (tcsVersion s, tcsContracts s, ''observed'')) (states (stateKey plan target name)))"

definition componentFits ::
    "planWorld \<Rightarrow> (uuid \<rightharpoonup> liveTarget) \<Rightarrow> (StateKey \<rightharpoonup> TargetComponentState) \<Rightarrow> ReleasePlan \<Rightarrow> PlanTarget \<Rightarrow> ReleaseContractComponent \<Rightarrow> bool" where
  "componentFits W targets states plan target component \<longleftrightarrow>
     (\<exists>live. targets (pntDeploymentTargetID target) = Some live
        \<and> ltPlatform live = pntPlatform target \<and> ltPlatform live = rccPlatform component)
     \<and> sameState (pwTargetComponentState W (pnOrganizationID plan) (pntDeploymentTargetID target) (pnApplicationID plan) (rccName component))
         (states (stateKey plan target (rccName component)))"

definition planStillFits ::
    "planLib \<Rightarrow> planWorld \<Rightarrow> (uuid \<rightharpoonup> liveTarget) \<Rightarrow> (StateKey \<rightharpoonup> TargetComponentState) \<Rightarrow> ReleasePlan \<Rightarrow> bool" where
  "planStillFits L W targets states plan \<longleftrightarrow>
     (\<forall>target \<in> set (pnTargets plan).
        (\<exists>live. targets (pntDeploymentTargetID target) = Some live \<and> ltType live = pntType target
           \<and> ltCustomerOrganizationID live = pntCustomerOrganizationID target)
        \<and> (\<forall>contract. pnReleaseContract plan = Some contract \<longrightarrow>
             (\<forall>name component. plannedComponent contract name = Some component \<longrightarrow> componentFits W targets states plan target component)
             \<and> (\<forall>requirement \<in> set (rcRequires (rcCompatibility contract)).
                  requirementSatisfied L (provides contract states plan target (rrqComponent requirement)) requirement)))"

lemma componentsByName_name: "componentsByName components name = Some c \<Longrightarrow> rccName c = name"
  using foldl_upd_Some [of rccName Map.empty components name c] by (simp add: componentsByName_def)

lemma plannedComponent_name: "plannedComponent contract name = Some c \<Longrightarrow> rccName c = name"
  by (auto simp: plannedComponent_def componentsByName_name split: if_splits)

lemma pinned_target:
  assumes "pinnedComponents W plan (pnTargets plan) contract (pnTargetComponents plan)" "c \<in> set (pnTargetComponents plan)"
  obtains target name component where "target \<in> set (pnTargets plan)" "plannedComponent contract name = Some component"
    "pinnedComponent W plan target contract component c"
proof -
  from assms obtain target name component where "target \<in> set (pnTargets plan)"
    "name \<in> set (rcAffectedComponents (rcCompatibility contract))" "componentsByName (rcComponents contract) name = Some component"
    "pinnedComponent W plan target contract component c" unfolding pinnedComponents_def by blast
  moreover from this have "plannedComponent contract name = Some component" by (simp add: plannedComponent_def)
  ultimately show thesis using that by blast
qed

lemma pinned_component:
  assumes "pinnedComponents W plan (pnTargets plan) contract (pnTargetComponents plan)" "target \<in> set (pnTargets plan)"
    "plannedComponent contract name = Some component"
  obtains c where "c \<in> set (pnTargetComponents plan)" "pinnedComponent W plan target contract component c"
proof -
  have "name \<in> set (rcAffectedComponents (rcCompatibility contract))" "componentsByName (rcComponents contract) name = Some component"
    using assms(3) by (simp_all add: plannedComponent_def split: if_splits)
  with assms(1,2) show thesis using that unfolding pinnedComponents_def by blast
qed

text \<open>The check of a pinned component compares the live target and state with those of the plan.\<close>

lemma componentChecks_pinned:
  assumes pinned: "pinnedComponent W (piPlan input) target contract component c"
    and target: "target \<in> set (pnTargets (piPlan input))" "distinct (map pntID (pnTargets (piPlan input)))"
    and versions: "\<And>o' t a n s. pwTargetComponentState W o' t a n = Inr s \<Longrightarrow> tcsStateVersion s \<noteq> 0"
  shows "checksPass (componentChecks input c) \<longleftrightarrow>
     componentFits W (piCurrentTargets input) (piCurrentStates input) (piPlan input) target component"
proof -
  note t = targetByID_target [OF target(2,1)]
  have k: "componentKey (piPlan input) c = stateKey (piPlan input) target (rccName component)"
    using pinned by (simp add: pinnedComponent_def componentKey_def stateKey_def)
  have "platformMatches input c \<longleftrightarrow> (\<exists>live. piCurrentTargets input (pntDeploymentTargetID target) = Some live
        \<and> ltPlatform live = pntPlatform target \<and> ltPlatform live = rccPlatform component)"
    using pinned by (auto simp: platformMatches_def t pinnedComponent_def split: option.split)
  moreover have "stateMatches input c \<longleftrightarrow>
      sameState (pwTargetComponentState W (pnOrganizationID (piPlan input)) (pntDeploymentTargetID target)
           (pnApplicationID (piPlan input)) (rccName component))
         (piCurrentStates input (stateKey (piPlan input) target (rccName component)))"
    using pinned versions
    by (auto simp: stateMatches_def Let_def k sameState_def pinnedComponent_def split: option.splits sum.splits)
  ultimately show ?thesis by (simp add: componentChecks_pass componentFits_def)
qed

lemma providedComponent_provides:
  assumes pinned: "pinnedComponents W plan (pnTargets plan) contract (pnTargetComponents plan)"
    and input: "piPlan input = plan" "target \<in> set (pnTargets plan)"
    and distinct: "distinct (map pntDeploymentTargetID (pnTargets plan))"
  shows "providedComponent input target name = provides contract (piCurrentStates input) plan target name"
proof (cases "desiredComponents plan (stateKey plan target name)")
  case None
  have "plannedComponent contract name = None"
  proof (rule ccontr)
    assume "plannedComponent contract name \<noteq> None"
    then obtain component where component: "plannedComponent contract name = Some component" by blast
    obtain c where "c \<in> set (pnTargetComponents plan)" "pinnedComponent W plan target contract component c"
      by (rule pinned_component [OF pinned input(2) component])
    then have "stateKey plan target name \<in> componentKey plan ` set (pnTargetComponents plan)"
      using plannedComponent_name [OF component] by (auto simp: pinnedComponent_def componentKey_def stateKey_def intro!: rev_image_eqI)
    with None show False by (simp add: desiredComponents_def foldl_upd_None)
  qed
  with None input(1) show ?thesis by (simp add: providedComponent_def provides_def stateKey_def split: option.split)
next
  case (Some c)
  then have c: "c \<in> set (pnTargetComponents plan)" "componentKey plan c = stateKey plan target name"
    using foldl_upd_Some [of "componentKey plan" Map.empty "pnTargetComponents plan" "stateKey plan target name" c]
    by (simp_all add: desiredComponents_def)
  obtain t n component where p: "t \<in> set (pnTargets plan)" "plannedComponent contract n = Some component"
    "pinnedComponent W plan t contract component c"
    by (rule pinned_target [OF pinned c(1)])
  then have "n = name" using c(2) plannedComponent_name [OF p(2)]
    by (simp add: componentKey_def stateKey_def pinnedComponent_def)
  with Some p input(1) show ?thesis
    by (simp add: providedComponent_def provides_def stateKey_def pinnedComponent_def)
qed

lemma EvaluatePreflight_planned:
  assumes input: "piPlan input = plan"
    and targets: "pnTargets plan \<noteq> []" "distinct (map pntID (pnTargets plan))" "distinct (map pntDeploymentTargetID (pnTargets plan))"
    and none: "pnReleaseContract plan = None \<Longrightarrow> pnTargetComponents plan = []"
    and some: "\<And>contract. pnReleaseContract plan = Some contract \<Longrightarrow>
      pinnedComponents W plan (pnTargets plan) contract (pnTargetComponents plan)"
    and versions: "\<And>o' t a n s. pwTargetComponentState W o' t a n = Inr s \<Longrightarrow> tcsStateVersion s \<noteq> 0"
  shows "checksPass (EvaluatePreflight L input) \<longleftrightarrow> piPlanPayloadChecksumValid input \<and> piReleaseEligible input
     \<and> (pnReleaseContract plan \<noteq> None \<longrightarrow> piReleaseContractValid input)
     \<and> planStillFits L W (piCurrentTargets input) (piCurrentStates input) plan"
proof (cases "pnReleaseContract plan")
  case None
  then show ?thesis
    using none input targets(1) hd_in_set
    by (fastforce simp: EvaluatePreflight_pass targetChecks_pass planStillFits_def bindingMatches_def)
next
  case (Some contract)
  note pinned = some [OF Some]
  let ?fits = "componentFits W (piCurrentTargets input) (piCurrentStates input) plan"
  have check: "checksPass (componentChecks input c) \<longleftrightarrow> ?fits target component"
    if "pinnedComponent W plan target contract component c" "target \<in> set (pnTargets plan)" for target component c
    using componentChecks_pinned [of W input target contract component c] that targets(2) versions input by simp
  have components: "(\<forall>c \<in> set (pnTargetComponents plan). checksPass (componentChecks input c)) \<longleftrightarrow>
      (\<forall>target \<in> set (pnTargets plan). \<forall>name component. plannedComponent contract name = Some component \<longrightarrow> ?fits target component)"
  proof (intro iffI ballI allI impI)
    fix target name component
    assume all: "\<forall>c \<in> set (pnTargetComponents plan). checksPass (componentChecks input c)"
      and target: "target \<in> set (pnTargets plan)" and planned: "plannedComponent contract name = Some component"
    obtain c where "c \<in> set (pnTargetComponents plan)" "pinnedComponent W plan target contract component c"
      by (rule pinned_component [OF pinned target planned])
    with all check target show "?fits target component" by blast
  next
    fix c assume all: "\<forall>target \<in> set (pnTargets plan). \<forall>name component.
        plannedComponent contract name = Some component \<longrightarrow> ?fits target component"
      and c: "c \<in> set (pnTargetComponents plan)"
    obtain target name component where "target \<in> set (pnTargets plan)" "plannedComponent contract name = Some component"
      "pinnedComponent W plan target contract component c"
      by (rule pinned_target [OF pinned c])
    with all check show "checksPass (componentChecks input c)" by blast
  qed
  have requirements: "checksPass (requirementChecks L input target requirement) \<longleftrightarrow>
      requirementSatisfied L (provides contract (piCurrentStates input) plan target (rrqComponent requirement)) requirement"
    if "target \<in> set (pnTargets plan)" for target requirement
    by (simp add: requirementChecks_pass providedComponent_provides [OF pinned input that targets(3)])
  obtain t where t: "t \<in> set (pnTargets plan)" using targets(1) hd_in_set by blast
  have "checksPass (EvaluatePreflight L input) \<longleftrightarrow>
      (\<forall>target \<in> set (pnTargets plan). checksPass (targetChecks L input target))
      \<and> (\<forall>target \<in> set (pnTargets plan). \<forall>name component. plannedComponent contract name = Some component \<longrightarrow> ?fits target component)
      \<and> (\<forall>target \<in> set (pnTargets plan). \<forall>requirement \<in> set (rcRequires (rcCompatibility contract)).
           checksPass (requirementChecks L input target requirement))"
    using components Some by (simp add: EvaluatePreflight_pass input)
  with t show ?thesis
    by (auto simp: targetChecks_pass input Some requirements planStillFits_def bindingMatches_def)
qed

definition releaseStillValid :: "planLib \<Rightarrow> preflightWorld \<Rightarrow> ReleasePlan \<Rightarrow> bool" where
  "releaseStillValid L V plan \<longleftrightarrow>
     (\<exists>result. GetReleaseBundleEligibility L (fwPlan V) (pnReleaseBundleID plan) (pnEnvironmentID plan) (pnOrganizationID plan) = Inr result
        \<and> erEligible result)
     \<and> (\<forall>contract. pnReleaseContract plan = Some contract \<longrightarrow>
          (\<exists>rb. pwReleaseBundle (fwPlan V) (pnReleaseBundleID plan) (pnOrganizationID plan) = Inr rb
             \<and> vrValid (ValidateReleaseContract (plRelease L) contract (rlbComponents rb))
             \<and> rlbReleaseContract rb \<noteq> None
             \<and> NormalizedReleaseContract (plRelease L) (Some contract) = NormalizedReleaseContract (plRelease L) (rlbReleaseContract rb)))"

lemma preflightReleaseFacts_valid:
  assumes "preflightReleaseFacts L V plan = Inr (eligible, message, contractValid, contractMessage)"
  shows "eligible \<and> (pnReleaseContract plan \<noteq> None \<longrightarrow> contractValid) \<longleftrightarrow> releaseStillValid L V plan"
proof -
  obtain rb where rb: "pwReleaseBundle (fwPlan V) (pnReleaseBundleID plan) (pnOrganizationID plan) = Inr rb"
    using assms by (auto simp: preflightReleaseFacts_def bindR_eq_Inr)
  show ?thesis
    using assms unfolding releaseStillValid_def
    by (cases "GetReleaseBundleEligibility L (fwPlan V) (pnReleaseBundleID plan) (pnEnvironmentID plan) (pnOrganizationID plan)";
        cases "pnReleaseContract plan")
      (auto simp: preflightReleaseFacts_def rb Let_def)
qed

lemma evaluatePreflightScope_passed:
  assumes "evaluatePreflightScope L V canonicalPlan plan actor = Inr (run, passed)"
  obtains targets states valid eligible em contractValid cm where "getPreflightTargets V plan = Inr targets"
    "getPreflightStates V plan = Inr states" "planCanonicalStateValid L V canonicalPlan = Inr valid"
    "preflightReleaseFacts L V canonicalPlan = Inr (eligible, em, contractValid, cm)"
    "passed \<longleftrightarrow> checksPass (EvaluatePreflight L \<lparr>piPlan = plan, piPlanPayloadChecksumValid = valid, piReleaseEligible = eligible,
       piReleaseEligibilityMessage = em, piReleaseContractValid = contractValid, piReleaseContractMessage = cm,
       piCurrentTargets = targets, piCurrentStates = states\<rparr>)"
proof -
  have failed: "list_ex (\<lambda>check. pfcStatus check = CheckStatusFailed) checks \<longleftrightarrow> \<not> checksPass checks" for checks
    by (induction checks) (auto, (metis PreflightCheckStatus.exhaust)+)
  show thesis
    using assms that by (auto simp: evaluatePreflightScope_def bindR_eq_Inr Let_def failed split: if_splits)
qed

text \<open>The payload of a prepared plan is its canonical form, and later versions of the plan are compared with it.\<close>

lemma planCanonicalStateValid_stored:
  assumes prepared: "preparePlan L W request = Inr plan"
    and decodes: "\<And>c payload. plMarshalPlan L c = Some payload \<Longrightarrow> \<exists>m. fwUnmarshal V payload = Some m \<and> objGet m ''status'' = None"
    and stored: "pnCanonicalPayload stored = pnCanonicalPayload plan" "pnCanonicalChecksum stored = pnCanonicalChecksum plan"
    and valid: "planCanonicalStateValid L V stored = Inr valid"
  shows "valid \<longleftrightarrow> plMarshalPlan L (canonicalPlanOf L stored) = plMarshalPlan L (canonicalPlanOf L plan)"
proof -
  obtain q where q: "setPlanCanonicalFields L q = Inr plan" using prepared by (auto simp: preparePlan_def bindR_eq_Inr)
  then obtain payload where payload: "plMarshalPlan L (canonicalPlanOf L q) = Some payload"
    "plan = q\<lparr>pnCanonicalPayload := payload, pnCanonicalChecksum := ''sha256:'' @ hexEncode (rlSha256 (plRelease L) payload)\<rparr>"
    by (auto simp: setPlanCanonicalFields_def canonicalizePlan_def split: sum.splits option.splits)
  then have "plMarshalPlan L (canonicalPlanOf L plan) = Some payload" by (simp add: canonicalPlanOf_def)
  moreover obtain m where "fwUnmarshal V payload = Some m" "objGet m ''status'' = None" using decodes payload(1) by blast
  ultimately show ?thesis
    using valid payload(2) stored
    by (auto simp: planCanonicalStateValid_def canonicalizePlan_def split: option.splits)
qed


definition exPreflightWorld :: preflightWorld where
  "exPreflightWorld = \<lparr>fwPlan = exPlanWorld,
     fwTargets = (\<lambda>_ _. Inr [\<lparr>ltID = 5, ltType = ''docker'', ltPlatform = ''linux/amd64'', ltCustomerOrganizationID = None\<rparr>]),
     fwStates = (\<lambda>_ _ _. Inr []), fwUnmarshal = (\<lambda>_. Some []), fwNewUUID = 11\<rparr>"


end
