(* ===== verification/External_Executions.thy ===== *)
theory External_Executions
  imports Deployment_Preflight Step_Redaction Task_Db
begin

text \<open>
  internal/externalexecution/state.go, internal/types/external_execution.go and
  internal/db/external_executions.go: executions that an external system carries out and reports through
  callbacks, and the state of a target component that a successful one leaves behind.

  \<^item> \<open>externalDb\<close> is the database: the tables of the task queue (\<open>xdQueue\<close>), the stored plans, and the tables of
    this component. A transaction is a function to an error or a result with the new database; \<open>runExternal\<close>
    drops the changes of a failed one. The row locks (\<open>FOR UPDATE\<close>) make transactions on the same
    execution follow one another. Random identifiers are drawn from the stream of the queue.
  \<^item> \<open>externalLib\<close> holds what the code takes from elsewhere: the JSON encoders, \<open>url.ParseRequestURI\<close>, a URL with
    one query parameter set, and \<open>xlDeferred\<close>: whether the driver reports the failure of a statement
    with \<open>RETURNING\<close> when its rows are read instead of when it is sent.
  \<^item> The Go slice \<open>Contracts\<close> of an observation is \<open>None\<close> when it is nil, which the driver sends as NULL. Columns
    that end in \<open>_instant\<close> repeat the time beside them and are left out. Constraints of the tables that an
    operation can violate are checked where it writes; checksums of the code itself have their form.
\<close>

section \<open>Types\<close>

datatype ExternalExecutionStatus =
    ExternalQueued | ExternalRunning | ExternalSucceeded | ExternalFailed | ExternalCanceled | ExternalTimedOut
  | ExternalOther string

fun externalStatusIsValid :: "ExternalExecutionStatus \<Rightarrow> bool" where
  "externalStatusIsValid (ExternalOther _) = False"
| "externalStatusIsValid _ = True"

definition IsCallbackStatus :: "ExternalExecutionStatus \<Rightarrow> bool" where
  "IsCallbackStatus s \<longleftrightarrow> s = ExternalRunning \<or> s = ExternalSucceeded \<or> s = ExternalFailed \<or> s = ExternalCanceled"

definition externalIsTerminal :: "ExternalExecutionStatus \<Rightarrow> bool" where
  "externalIsTerminal s \<longleftrightarrow> s = ExternalSucceeded \<or> s = ExternalFailed \<or> s = ExternalCanceled \<or> s = ExternalTimedOut"

record ExternalExecution =
  xeID :: uuid
  xeCreatedAt :: timestamp
  xeUpdatedAt :: timestamp
  xeStartedAt :: "timestamp option"
  xeCompletedAt :: "timestamp option"
  xeCallbackDeadlineAt :: timestamp
  xeOrganizationID :: uuid
  xeStepRunID :: uuid
  xeTaskID :: uuid
  xeDeploymentPlanID :: uuid
  xeDeploymentPlanTargetID :: uuid
  xeDeploymentTargetID :: uuid
  xeApplicationID :: uuid
  xeReleaseBundleID :: uuid
  xeComponent :: string
  xePlanChecksum :: string
  xeIdempotencyKey :: string
  xeExpectedStateVersion :: int
  xeExpectedStateChecksum :: string
  xeExpectedVersion :: string
  xeExpectedImage :: string
  xeExpectedPlatform :: string
  xeExpectedContracts :: "string list"
  xeExpectedConfigReference :: string
  xeExpectedConfigChecksum :: string
  xeExpectedComposeReference :: string
  xeExpectedComposeChecksum :: string
  xeStatus :: ExternalExecutionStatus
  xeProviderReference :: string
  xeProviderURL :: string
  xeTriggerAttempts :: int
  xeLastCallbackSequence :: int
  xeLastMessage :: string
  xeErrorSummary :: string
  xeActualVersion :: string
  xeActualImage :: string
  xeActualPlatform :: "string option"
  xeActualContracts :: "string list"
  xeActualConfigReference :: string
  xeActualConfigChecksum :: string
  xeActualHealth :: "TargetComponentHealth option"
  xeObservedStateChecksum :: string

record ExternalExecutionExpectedState =
  xsVersion :: string
  xsImage :: string
  xsPlatform :: string
  xsContracts :: "string list"
  xsConfigReference :: string
  xsConfigChecksum :: string

record ExternalExecutionObservedState =
  xoVersion :: string
  xoImage :: string
  xoPlatform :: string
  xoContracts :: "string list option"
  xoConfigReference :: string
  xoConfigChecksum :: string
  xoHealth :: TargetComponentHealth

record ExternalExecutionEvent =
  xvID :: uuid
  xvCreatedAt :: timestamp
  xvOrganizationID :: uuid
  xvExternalExecutionID :: uuid
  xvSequence :: int
  xvStatus :: ExternalExecutionStatus
  xvProviderReference :: string
  xvProviderURL :: string
  xvMessage :: string
  xvObservedState :: "ExternalExecutionObservedState option"
  xvPayloadHash :: string

record PrepareExternalExecutionRequest =
  prqOrganizationID :: uuid
  prqStepRunID :: uuid
  prqComponent :: string
  prqCallbackTimeoutSeconds :: int

record MarkExternalExecutionTriggeredRequest =
  mrqOrganizationID :: uuid
  mrqExternalExecutionID :: uuid
  mrqTriggerAttempts :: int

record RecordExternalExecutionCallbackRequest =
  crqOrganizationID :: uuid
  crqExternalExecutionID :: uuid
  crqSequence :: int
  crqStatus :: ExternalExecutionStatus
  crqProviderReference :: string
  crqProviderURL :: string
  crqMessage :: string
  crqObservedState :: "ExternalExecutionObservedState option"

text \<open>\<open>TimeoutExternalExecutionRequest\<close> and \<open>FailExternalExecutionRequest\<close> have the same fields.\<close>

record EndExternalExecutionRequest =
  nrqOrganizationID :: uuid
  nrqExternalExecutionID :: uuid
  nrqMessage :: string

record TargetComponentObservation =
  tcoID :: uuid
  tcoCreatedAt :: timestamp
  tcoOrganizationID :: uuid
  tcoTargetComponentStateID :: uuid
  tcoDeploymentTargetID :: uuid
  tcoApplicationID :: uuid
  tcoComponent :: string
  tcoStateVersion :: int
  tcoStateChecksum :: string
  tcoReleaseBundleID :: uuid
  tcoVersion :: string
  tcoImage :: string
  tcoPlatform :: string
  tcoContracts :: "string list"
  tcoConfigReference :: string
  tcoConfigChecksum :: string
  tcoHealth :: TargetComponentHealth
  tcoObservedAt :: timestamp
  tcoExternalExecutionID :: "uuid option"

record externalExecutionSource =
  esOrganizationID :: uuid
  esStepRunID :: uuid
  esTaskID :: uuid
  esTaskStatus :: TaskStatus
  esDeploymentPlanID :: uuid
  esDeploymentPlanTargetID :: uuid
  esDeploymentTargetID :: uuid
  esApplicationID :: uuid
  esReleaseBundleID :: uuid
  esActionType :: string
  esComponent :: string
  esPlanChecksum :: string
  esExpectedStateVersion :: int
  esExpectedStateChecksum :: string
  esExpectedVersion :: string
  esExpectedImage :: string
  esExpectedPlatform :: string
  esExpectedContracts :: "string list"
  esExpectedConfigChecksum :: string

record callbackPayload =
  cpSequence :: int
  cpStatus :: ExternalExecutionStatus
  cpProviderReference :: string
  cpProviderURL :: string
  cpMessage :: string
  cpObservedState :: "ExternalExecutionObservedState option"

record externalLib =
  xlPlatform :: platform
  xlPlan :: planLib
  xlParseRequestURI :: "string \<Rightarrow> parsedURL option"
  xlSetQuery :: "string \<Rightarrow> string \<Rightarrow> string \<Rightarrow> string option"
  xlMarshalCallback :: "callbackPayload \<Rightarrow> string"
  xlMarshalObserved :: "ExternalExecutionObservedState \<Rightarrow> string"
  xlDeferred :: bool

record externalDb =
  xdQueue :: database
  xdPlans :: "ReleasePlan list"
  xdPreflightRuns :: "PreflightRun list"
  xdExecutions :: "ExternalExecution list"
  xdEvents :: "ExternalExecutionEvent list"
  xdStates :: "TargetComponentState list"
  xdObservations :: "TargetComponentObservation list"

section \<open>The standard library\<close>

text \<open>The conversion \<open>[]rune(s)\<close> as the list of encodings; an invalid byte becomes U+FFFD.\<close>

definition runeLength :: "nat list \<Rightarrow> nat" where
  "runeLength bs =
     (case bs of
        [] \<Rightarrow> 0
      | b # rest \<Rightarrow>
          (let continues = (\<lambda>lo hi k. k \<le> length rest \<and> lo \<le> rest ! 0 \<and> rest ! 0 \<le> hi
                 \<and> list_all (\<lambda>c. 0x80 \<le> c \<and> c \<le> 0xBF) (take (k - 1) (tl rest)))
           in if b < 0x80 then 1
              else if 0xC2 \<le> b \<and> b \<le> 0xDF \<and> continues 0x80 0xBF 1 then 2
              else if b = 0xE0 \<and> continues 0xA0 0xBF 2 then 3
              else if (0xE1 \<le> b \<and> b \<le> 0xEC \<or> b = 0xEE \<or> b = 0xEF) \<and> continues 0x80 0xBF 2 then 3
              else if b = 0xED \<and> continues 0x80 0x9F 2 then 3
              else if b = 0xF0 \<and> continues 0x90 0xBF 3 then 4
              else if 0xF1 \<le> b \<and> b \<le> 0xF3 \<and> continues 0x80 0xBF 3 then 4
              else if b = 0xF4 \<and> continues 0x80 0x8F 3 then 4
              else 0))"

function runes :: "string \<Rightarrow> string list" where
  "runes s =
     (if s = [] then []
      else let n = runeLength (map of_char (take 4 s)) in
        if n = 0 then [char_of (0xEF::nat), char_of (0xBF::nat), char_of (0xBD::nat)] # runes (tl s)
        else take n s # runes (drop n s))"
  by pat_completeness auto

termination runes
  by (relation "measure length") auto

declare runes.simps [simp del]

definition limitExternalExecutionMessage :: "string \<Rightarrow> string" where
  "limitExternalExecutionMessage message =
     (if length (runes message) > MaxStepRunEventMessageLength
      then concat (take MaxStepRunEventMessageLength (runes message)) else message)"

definition RedactString :: "string \<Rightarrow> string \<times> bool" where
  "RedactString s = RedactStringWithValues s []"

section \<open>Transitions and validation\<close>

definition MaxEventCount :: int where "MaxEventCount = 256"

definition CanCallbackTransition :: "ExternalExecutionStatus \<Rightarrow> ExternalExecutionStatus \<Rightarrow> bool" where
  "CanCallbackTransition from to =
     (if \<not> IsCallbackStatus to \<or> externalIsTerminal from then False
      else from = ExternalQueued \<or> from = ExternalRunning)"

definition ValidateCallbackSequence :: "int \<Rightarrow> ExternalExecutionStatus \<Rightarrow> unit result" where
  "ValidateCallbackSequence sequence status =
     (if sequence > MaxEventCount then Inl (Errorf ''external execution callback history limit exceeded'')
      else if sequence = MaxEventCount \<and> \<not> externalIsTerminal status
        then Inl (Errorf ''final external execution callback event must be terminal'')
      else Inr ())"

definition ValidateProviderURL :: "externalLib \<Rightarrow> string \<Rightarrow> unit result" where
  "ValidateProviderURL X url =
     (let url = TrimSpace url in
      if url = [] then Inr ()
      else if length url > 2048 \<or> ContainsAny url [CHR 0x0D, CHR 0x0A] then Inl (Errorf ''provider URL is invalid'')
      else case xlParseRequestURI X url of
          None \<Rightarrow> Inl (Errorf ''provider URL must be an HTTP or HTTPS URL'')
        | Some parsed \<Rightarrow>
            if urlHost parsed = [] \<or> (urlScheme parsed \<noteq> ''http'' \<and> urlScheme parsed \<noteq> ''https'')
              then Inl (Errorf ''provider URL must be an HTTP or HTTPS URL'')
            else if urlUser parsed then Inl (Errorf ''provider URL must not contain credentials'')
            else if urlRawQuery parsed \<noteq> [] then Inl (Errorf ''provider URL must not contain query parameters'')
            else Inr ())"

definition externalSha256 :: "externalLib \<Rightarrow> string \<Rightarrow> string" where
  "externalSha256 X payload = ''sha256:'' @ hexEncode (pfSha256 (xlPlatform X) payload)"

definition ObservedStateChecksum :: "externalLib \<Rightarrow> ExternalExecutionObservedState \<Rightarrow> string" where
  "ObservedStateChecksum X state =
     externalSha256 X (xlMarshalObserved X
       (state\<lparr>xoContracts := map_option (\<lambda>cs. sortStrings (map TrimSpace cs)) (xoContracts state)\<rparr>))"

definition CallbackPayloadHash :: "externalLib \<Rightarrow> RecordExternalExecutionCallbackRequest \<Rightarrow> string" where
  "CallbackPayloadHash X request =
     externalSha256 X (xlMarshalCallback X
       \<lparr>cpSequence = crqSequence request, cpStatus = crqStatus request,
        cpProviderReference = crqProviderReference request, cpProviderURL = crqProviderURL request,
        cpMessage = crqMessage request,
        cpObservedState = map_option (\<lambda>s. s\<lparr>xoContracts := map_option sortStrings (xoContracts s)\<rparr>) (crqObservedState request)\<rparr>)"

definition contractList :: "string list option \<Rightarrow> string list" where
  "contractList cs = (case cs of None \<Rightarrow> [] | Some cs \<Rightarrow> cs)"

definition ValidateObservedState ::
    "externalLib \<Rightarrow> ExternalExecutionExpectedState \<Rightarrow> ExternalExecutionObservedState \<Rightarrow> unit result" where
  "ValidateObservedState X expected actual =
     (if xoVersion actual \<noteq> xsVersion expected then Inl (Errorf ''observed version does not match frozen execution'')
      else if \<not> EqualFold (rlFold (plRelease (xlPlan X))) (xoImage actual) (xsImage expected)
        then Inl (Errorf ''observed image does not match frozen execution'')
      else if xoPlatform actual \<noteq> xsPlatform expected then Inl (Errorf ''observed platform does not match frozen execution'')
      else if sortStrings (xsContracts expected) \<noteq> sortStrings (contractList (xoContracts actual))
        then Inl (Errorf ''observed contracts do not match frozen execution'')
      else if xoConfigReference actual \<noteq> xsConfigReference expected
        then Inl (Errorf ''observed config reference does not match frozen execution'')
      else if xoConfigChecksum actual \<noteq> xsConfigChecksum expected
        then Inl (Errorf ''observed config checksum does not match frozen execution'')
      else if xoHealth actual \<noteq> TargetComponentHealthHealthy then Inl (Errorf ''observed health is not HEALTHY'')
      else Inr ())"

definition normalizeExternalExecutionCallback ::
    "externalLib \<Rightarrow> RecordExternalExecutionCallbackRequest \<Rightarrow> RecordExternalExecutionCallbackRequest result" where
  "normalizeExternalExecutionCallback X request =
     (if crqOrganizationID request = uuid_Nil \<or> crqExternalExecutionID request = uuid_Nil
        then Inl (ErrBadRequest ''organizationId and externalExecutionId are required'')
      else if crqSequence request \<le> 0 then Inl (ErrBadRequest ''sequence must be greater than 0'')
      else if \<not> IsCallbackStatus (crqStatus request) then Inl (ErrBadRequest ''status must be a callback state'')
      else let request = request\<lparr>crqProviderReference := fst (RedactString (TrimSpace (crqProviderReference request))),
               crqProviderURL := fst (RedactString (TrimSpace (crqProviderURL request))),
               crqMessage := limitExternalExecutionMessage (fst (RedactString (TrimSpace (crqMessage request))))\<rparr>
        in if length (crqProviderReference request) > 512 \<or> ContainsAny (crqProviderReference request) [CHR 0x0D, CHR 0x0A]
             then Inl (ErrBadRequest ''providerReference is invalid'')
           else case ValidateProviderURL X (crqProviderURL request) of
               Inl e \<Rightarrow> Inl (ErrBadRequest (errorString e))
             | Inr _ \<Rightarrow>
                 if (crqStatus request = ExternalFailed \<or> crqStatus request = ExternalCanceled) \<and> crqMessage request = []
                   then Inl (ErrBadRequest ''message is required for failed or canceled callbacks'')
                 else Inr (request\<lparr>crqObservedState :=
                   map_option (\<lambda>s. s\<lparr>xoContracts := map_option sortStrings (xoContracts s)\<rparr>) (crqObservedState request)\<rparr>))"

section \<open>Writes to the tables\<close>

datatype dbViolation = UniqueViolation | ForeignKeyViolation | CheckViolation | NotNullViolation

fun mapExternalExecutionWriteError :: "string \<Rightarrow> dbViolation \<Rightarrow> error" where
  "mapExternalExecutionWriteError operation UniqueViolation = ErrConflict ''external execution already exists''"
| "mapExternalExecutionWriteError operation ForeignKeyViolation = ErrNotFound"
| "mapExternalExecutionWriteError operation CheckViolation =
     ErrBadRequest ''external execution violates an immutable constraint''"
| "mapExternalExecutionWriteError operation _ = Errorf (''could not '' @ operation @ '' ExternalExecution'')"

fun mapExternalObservedStateWriteError :: "dbViolation \<Rightarrow> error" where
  "mapExternalObservedStateWriteError UniqueViolation =
     ErrConflict ''target component state changed after external execution started''"
| "mapExternalObservedStateWriteError _ = Errorf ''could not project external observed state''"

definition newUuid :: "externalLib \<Rightarrow> externalDb \<Rightarrow> uuid" where
  "newUuid X db = pfRandomUuid (xlPlatform X) (dbRandom (xdQueue db))"

definition nextUuid :: "externalDb \<Rightarrow> externalDb" where
  "nextUuid db = db\<lparr>xdQueue := (xdQueue db)\<lparr>dbRandom := dbRandom (xdQueue db) + 1\<rparr>\<rparr>"

definition runExternal :: "(externalDb \<Rightarrow> ('a \<times> externalDb) result) \<Rightarrow> externalDb \<Rightarrow> 'a result \<times> externalDb" where
  "runExternal m db = (case m db of Inl e \<Rightarrow> (Inl e, db) | Inr (x, db') \<Rightarrow> (Inr x, db'))"

definition sqlBlank :: "string \<Rightarrow> bool" where "sqlBlank s \<longleftrightarrow> sqlTrim s = []"

text \<open>The pattern of checksums in the tables: hexadecimal digits in lower case.\<close>

definition checksumPattern :: "string \<Rightarrow> bool" where
  "checksumPattern s \<longleftrightarrow> startsWith ''sha256:'' s \<and> length s = 71
     \<and> list_all (\<lambda>c. CHR ''0'' \<le> c \<and> c \<le> CHR ''9'' \<or> CHR ''a'' \<le> c \<and> c \<le> CHR ''f'') (drop 7 s)"

definition platformPattern :: "string \<Rightarrow> bool" where
  "platformPattern s \<longleftrightarrow> s = ''linux/amd64'' \<or> s = ''linux/arm64''"

text \<open>The constraints of the table \<open>ExternalExecution\<close> that an insert can violate.\<close>

definition executionViolation :: "ExternalExecution \<Rightarrow> externalDb \<Rightarrow> dbViolation option" where
  "executionViolation e db =
     (if sqlBlank (xeComponent e) \<or> \<not> checksumPattern (xePlanChecksum e) \<or> xeExpectedStateVersion e < 0
         \<or> \<not> (xeExpectedStateChecksum e = [] \<or> checksumPattern (xeExpectedStateChecksum e))
         \<or> sqlBlank (xeExpectedVersion e) \<or> sqlBlank (xeExpectedImage e) \<or> \<not> platformPattern (xeExpectedPlatform e)
         \<or> sqlBlank (xeExpectedConfigReference e) \<or> \<not> checksumPattern (xeExpectedConfigChecksum e)
         \<or> \<not> (xeExpectedComposeChecksum e = [] \<or> checksumPattern (xeExpectedComposeChecksum e))
         \<or> (xeExpectedComposeReference e = []) \<noteq> (xeExpectedComposeChecksum e = [])
      then Some CheckViolation
      else if list_ex (\<lambda>f. xeID f = xeID e \<or> xeStepRunID f = xeStepRunID e
           \<or> xeOrganizationID f = xeOrganizationID e \<and> xeIdempotencyKey f = xeIdempotencyKey e) (xdExecutions db)
        then Some UniqueViolation
      else None)"

text \<open>A statement with \<open>RETURNING\<close> fails when it is sent or when its rows are read.\<close>

definition statementError :: "externalLib \<Rightarrow> error \<Rightarrow> error \<Rightarrow> error" where
  "statementError X sent collected = (if xlDeferred X then collected else sent)"

definition insertExternalExecution ::
    "externalLib \<Rightarrow> timestamp \<Rightarrow> ExternalExecution \<Rightarrow> externalDb \<Rightarrow> (ExternalExecution \<times> externalDb) result" where
  "insertExternalExecution X now execution db =
     (case executionViolation execution db of
        Some v \<Rightarrow> Inl (statementError X (mapExternalExecutionWriteError ''insert'' v)
                    (Errorf ''could not collect ExternalExecution''))
      | None \<Rightarrow>
          let created = execution\<lparr>xeCreatedAt := now, xeUpdatedAt := now\<rparr>
          in Inr (created, db\<lparr>xdExecutions := xdExecutions db @ [created]\<rparr>))"

definition eventViolation :: "RecordExternalExecutionCallbackRequest \<Rightarrow> externalDb \<Rightarrow> dbViolation option" where
  "eventViolation request db =
     (if \<not> (1 \<le> crqSequence request \<and> crqSequence request \<le> 256)
         \<or> \<not> (externalStatusIsValid (crqStatus request) \<and> crqStatus request \<noteq> ExternalQueued)
         \<or> length (runes (crqProviderReference request)) > 512 \<or> length (runes (crqProviderURL request)) > 2048
         \<or> length (runes (crqMessage request)) > 2048
      then Some CheckViolation
      else if list_ex (\<lambda>v. xvExternalExecutionID v = crqExternalExecutionID request \<and> xvSequence v = crqSequence request)
          (xdEvents db)
        then Some UniqueViolation
      else if \<not> list_ex (\<lambda>e. xeID e = crqExternalExecutionID request \<and> xeOrganizationID e = crqOrganizationID request)
          (xdExecutions db)
        then Some ForeignKeyViolation
      else None)"

definition insertExternalExecutionEvent ::
    "externalLib \<Rightarrow> timestamp \<Rightarrow> RecordExternalExecutionCallbackRequest \<Rightarrow> ExternalExecutionObservedState option \<Rightarrow> string
      \<Rightarrow> externalDb \<Rightarrow> (unit \<times> externalDb) result" where
  "insertExternalExecutionEvent X now request observedState payloadHash db =
     (case eventViolation request db of
        Some v \<Rightarrow> Inl (mapExternalExecutionWriteError ''insert event for'' v)
      | None \<Rightarrow>
          Inr ((), nextUuid (db\<lparr>xdEvents := xdEvents db @
            [\<lparr>xvID = newUuid X db, xvCreatedAt = now, xvOrganizationID = crqOrganizationID request,
              xvExternalExecutionID = crqExternalExecutionID request, xvSequence = crqSequence request,
              xvStatus = crqStatus request, xvProviderReference = crqProviderReference request,
              xvProviderURL = crqProviderURL request, xvMessage = crqMessage request,
              xvObservedState = observedState, xvPayloadHash = payloadHash\<rparr>]\<rparr>)))"

section \<open>Queries\<close>

definition getExternalExecutionSource ::
    "PrepareExternalExecutionRequest \<Rightarrow> externalDb \<Rightarrow> externalExecutionSource result" where
  "getExternalExecutionSource request db =
     (let orgID = prqOrganizationID request in
      case findStepRun (prqStepRunID request) orgID (xdQueue db) of
        None \<Rightarrow> Inl ErrNotFound
      | Some sr \<Rightarrow>
      case findTask (srTaskID sr) orgID (xdQueue db) of
        None \<Rightarrow> Inl ErrNotFound
      | Some t \<Rightarrow>
      case find (\<lambda>p. pnID p = tkDeploymentPlanID t \<and> pnOrganizationID p = orgID) (xdPlans db) of
        None \<Rightarrow> Inl ErrNotFound
      | Some p \<Rightarrow>
      case find (\<lambda>c. pncDeploymentPlanTargetID c = tkDeploymentPlanTargetID t \<and> pncOrganizationID c = orgID
             \<and> pncComponent c = prqComponent request) (pnTargetComponents p) of
        None \<Rightarrow> Inl ErrNotFound
      | Some c \<Rightarrow>
          Inr \<lparr>esOrganizationID = orgID, esStepRunID = srID sr, esTaskID = tkID t, esTaskStatus = tkStatus t,
            esDeploymentPlanID = tkDeploymentPlanID t, esDeploymentPlanTargetID = tkDeploymentPlanTargetID t,
            esDeploymentTargetID = tkDeploymentTargetID t, esApplicationID = tkApplicationID t,
            esReleaseBundleID = tkReleaseBundleID t, esActionType = srActionType sr, esComponent = pncComponent c,
            esPlanChecksum = pnCanonicalChecksum p, esExpectedStateVersion = pncExpectedStateVersion c,
            esExpectedStateChecksum = pncExpectedStateChecksum c, esExpectedVersion = pncVersion c,
            esExpectedImage = pncImage c, esExpectedPlatform = pncPlatform c, esExpectedContracts = pncContracts c,
            esExpectedConfigChecksum = pncConfigChecksum c\<rparr>)"

definition getExternalExecutionByStepRun :: "uuid \<Rightarrow> uuid \<Rightarrow> externalDb \<Rightarrow> ExternalExecution result" where
  "getExternalExecutionByStepRun stepRunID orgID db =
     (case find (\<lambda>e. xeStepRunID e = stepRunID \<and> xeOrganizationID e = orgID) (xdExecutions db) of
        None \<Rightarrow> Inl ErrNotFound | Some e \<Rightarrow> Inr e)"

definition GetExternalExecution :: "uuid \<Rightarrow> uuid \<Rightarrow> externalDb \<Rightarrow> ExternalExecution result" where
  "GetExternalExecution executionID orgID db =
     (case find (\<lambda>e. xeID e = executionID \<and> xeOrganizationID e = orgID) (xdExecutions db) of
        None \<Rightarrow> Inl ErrNotFound | Some e \<Rightarrow> Inr e)"

definition getExternalExecutionForUpdate :: "uuid \<Rightarrow> uuid \<Rightarrow> externalDb \<Rightarrow> ExternalExecution result" where
  "getExternalExecutionForUpdate = GetExternalExecution"

definition eventLess :: "ExternalExecutionEvent \<Rightarrow> ExternalExecutionEvent \<Rightarrow> bool" where
  "eventLess a b \<longleftrightarrow> xvSequence a < xvSequence b \<or> xvSequence a = xvSequence b \<and> xvID a < xvID b"

definition GetExternalExecutionEvents :: "uuid \<Rightarrow> uuid \<Rightarrow> externalDb \<Rightarrow> ExternalExecutionEvent list result" where
  "GetExternalExecutionEvents executionID orgID db =
     bindR (GetExternalExecution executionID orgID db) (\<lambda>_.
       Inr (take 256 (SortStable eventLess
         (filter (\<lambda>v. xvExternalExecutionID v = executionID \<and> xvOrganizationID v = orgID) (xdEvents db)))))"

definition getExternalExecutionEventPayloadHash :: "uuid \<Rightarrow> uuid \<Rightarrow> int \<Rightarrow> externalDb \<Rightarrow> string result" where
  "getExternalExecutionEventPayloadHash executionID orgID sequence db =
     (case find (\<lambda>v. xvExternalExecutionID v = executionID \<and> xvOrganizationID v = orgID \<and> xvSequence v = sequence) (xdEvents db) of
        None \<Rightarrow> Inl ErrNotFound | Some v \<Rightarrow> Inr (xvPayloadHash v))"

definition requireExternalExecutionComponentLock ::
    "externalLib \<Rightarrow> uuid \<Rightarrow> uuid \<Rightarrow> uuid \<Rightarrow> string \<Rightarrow> externalDb \<Rightarrow> unit result" where
  "requireExternalExecutionComponentLock X orgID taskID targetID component db =
     (let key = pfUuidString (xlPlatform X) targetID @ '':'' @ component in
      if list_ex (\<lambda>l. tlkOrganizationID l = orgID \<and> tlkTaskID l = taskID
           \<and> tlkResourceType l = TaskLockResourceTargetComponent \<and> tlkResourceKey l = key
           \<and> tlkAcquiredAt l \<noteq> None \<and> tlkReleasedAt l = None) (dbLocks (xdQueue db))
      then Inr () else Inl (ErrConflict ''task does not own the active target-component lock''))"

definition updateExecution ::
    "uuid \<Rightarrow> uuid \<Rightarrow> (ExternalExecution \<Rightarrow> ExternalExecution) \<Rightarrow> externalDb \<Rightarrow> (ExternalExecution \<times> externalDb) result" where
  "updateExecution executionID orgID f db =
     (let db' = db\<lparr>xdExecutions :=
        updateWhere (\<lambda>e. xeID e = executionID \<and> xeOrganizationID e = orgID) f (xdExecutions db)\<rparr> in
      bindR (GetExternalExecution executionID orgID db') (\<lambda>e. Inr (e, db')))"

section \<open>Preparing and triggering an execution\<close>

definition externalExecutionIdempotencyKey :: "externalLib \<Rightarrow> externalExecutionSource \<Rightarrow> string" where
  "externalExecutionIdempotencyKey X source =
     (let str = pfUuidString (xlPlatform X) in
      ''ext:'' @ hexEncode (pfSha256 (xlPlatform X) (Join [esPlanChecksum source, str (esTaskID source), str (esStepRunID source),
        str (esDeploymentTargetID source), esComponent source] [CHR 0x0A])))"

fun objectReference :: "externalLib \<Rightarrow> string \<Rightarrow> ReleaseContractConfigObject list \<Rightarrow> string result" where
  "objectReference X configChecksum [] =
     Inl (ErrConflict ''release contract does not contain the required immutable config object'')"
| "objectReference X configChecksum (object # objects) =
     (let R = plRelease (xlPlan X) in
      if \<not> EqualFold (rlFold R) (rcoChecksum object) configChecksum \<or> rcoURI object = []
        then objectReference X configChecksum objects
      else if rcoVersionID object = [] then
        (if IsContentAddressedConfigObject R object then Inr (rcoURI object)
         else objectReference X configChecksum objects)
      else case xlSetQuery X (rcoURI object) ''versionId'' (rcoVersionID object) of
          None \<Rightarrow> Inl (ErrConflict ''release contract contains an invalid immutable config URI'')
        | Some url \<Rightarrow> Inr url)"

definition externalExecutionObjectReference ::
    "externalLib \<Rightarrow> ReleaseContract option \<Rightarrow> string \<Rightarrow> string result" where
  "externalExecutionObjectReference X contract configChecksum =
     (case NormalizedReleaseContract (plRelease (xlPlan X)) contract of
        None \<Rightarrow> Inl (ErrConflict ''external execution requires a frozen release contract'')
      | Some normalized \<Rightarrow> objectReference X configChecksum (rcImmutableObjects (rcConfig normalized)))"

text \<open>The states of target components come from the database; the other queries of the preflight are arguments.\<close>

definition preflightWorldOf :: "externalLib \<Rightarrow> preflightWorld \<Rightarrow> externalDb \<Rightarrow> preflightWorld" where
  "preflightWorldOf X V db =
     V\<lparr>fwStates := (\<lambda>orgID applicationID targets. Inr (filter (\<lambda>s. tcsOrganizationID s = orgID
          \<and> tcsApplicationID s = applicationID \<and> tcsDeploymentTargetID s \<in> set targets) (xdStates db))),
       fwNewUUID := newUuid X db\<rparr>"

definition attachDeploymentPreflightTasks :: "uuid \<Rightarrow> uuid \<Rightarrow> externalDb \<Rightarrow> externalDb" where
  "attachDeploymentPreflightTasks runID orgID db =
     db\<lparr>xdPreflightRuns := updateWhere (\<lambda>r. pfrID r = runID \<and> pfrOrganizationID r = orgID)
       (\<lambda>r. r\<lparr>pfrChecks := map (\<lambda>check.
          case find (\<lambda>t. tkOrganizationID t = pfcOrganizationID check \<and> tkDeploymentPlanID t = pfcDeploymentPlanID check
                 \<and> Some (tkDeploymentPlanTargetID t) = pfcDeploymentPlanTargetID check) (dbTasks (xdQueue db)) of
            None \<Rightarrow> check | Some t \<Rightarrow> check\<lparr>pfcTaskID := Some (tkID t)\<rparr>) (pfrChecks r)\<rparr>) (xdPreflightRuns db)\<rparr>"

text \<open>\<open>insertDeploymentPreflightRun\<close> and \<open>insertDeploymentPreflightChecks\<close>.\<close>

definition storePreflightRun :: "externalLib \<Rightarrow> timestamp \<Rightarrow> PreflightRun \<Rightarrow> externalDb \<Rightarrow> (PreflightRun \<times> externalDb) result" where
  "storePreflightRun X now run db =
     (if list_ex (\<lambda>r. pfrID r = pfrID run) (xdPreflightRuns db) \<or> \<not> checksumPattern (pfrPlanChecksum run)
        then Inl (Errorf ''could not insert DeploymentPreflightRun'')
      else let checks = map (\<lambda>(i, check). check\<lparr>pfcID := pfRandomUuid (xlPlatform X) (dbRandom (xdQueue db) + 1 + i),
               pfcCreatedAt := now, pfcOrganizationID := pfrOrganizationID run,
               pfcDeploymentPreflightRunID := pfrID run, pfcDeploymentPlanID := pfrDeploymentPlanID run\<rparr>)
             (enumerate 0 (pfrChecks run));
           created = run\<lparr>pfrCreatedAt := now, pfrChecks := checks\<rparr>
        in Inr (created, db\<lparr>xdPreflightRuns := xdPreflightRuns db @ [created],
             xdQueue := (xdQueue db)\<lparr>dbRandom := dbRandom (xdQueue db) + 1 + length checks\<rparr>\<rparr>))"

definition failedMessages :: "PreflightRun \<Rightarrow> string list" where
  "failedMessages run = take 3 (map pfcMessage (filter (\<lambda>c. pfcStatus c = CheckStatusFailed) (pfrChecks run)))"

definition deploymentPreflightFailureMessage :: "PreflightRun \<Rightarrow> string" where
  "deploymentPreflightFailureMessage run =
     (if failedMessages run = [] then ''deployment preflight failed''
      else ''deployment preflight failed: '' @ Join (failedMessages run) ''; '')"

definition newExecution ::
    "externalLib \<Rightarrow> timestamp \<Rightarrow> PrepareExternalExecutionRequest \<Rightarrow> externalExecutionSource \<Rightarrow> string \<Rightarrow> string \<Rightarrow> string \<Rightarrow> uuid
      \<Rightarrow> ExternalExecution" where
  "newExecution X now request source configReference composeReference composeChecksum executionID =
     \<lparr>xeID = executionID, xeCreatedAt = 0, xeUpdatedAt = 0, xeStartedAt = None, xeCompletedAt = None,
      xeCallbackDeadlineAt = now + prqCallbackTimeoutSeconds request * 1000000000,
      xeOrganizationID = prqOrganizationID request, xeStepRunID = esStepRunID source, xeTaskID = esTaskID source,
      xeDeploymentPlanID = esDeploymentPlanID source, xeDeploymentPlanTargetID = esDeploymentPlanTargetID source,
      xeDeploymentTargetID = esDeploymentTargetID source, xeApplicationID = esApplicationID source,
      xeReleaseBundleID = esReleaseBundleID source, xeComponent = esComponent source,
      xePlanChecksum = esPlanChecksum source, xeIdempotencyKey = externalExecutionIdempotencyKey X source,
      xeExpectedStateVersion = esExpectedStateVersion source, xeExpectedStateChecksum = esExpectedStateChecksum source,
      xeExpectedVersion = esExpectedVersion source, xeExpectedImage = esExpectedImage source,
      xeExpectedPlatform = esExpectedPlatform source, xeExpectedContracts = esExpectedContracts source,
      xeExpectedConfigReference = configReference, xeExpectedConfigChecksum = esExpectedConfigChecksum source,
      xeExpectedComposeReference = composeReference, xeExpectedComposeChecksum = composeChecksum,
      xeStatus = ExternalQueued, xeProviderReference = [], xeProviderURL = [], xeTriggerAttempts = 0,
      xeLastCallbackSequence = 0, xeLastMessage = [], xeErrorSummary = [], xeActualVersion = [], xeActualImage = [],
      xeActualPlatform = None, xeActualContracts = [], xeActualConfigReference = [], xeActualConfigChecksum = [],
      xeActualHealth = None, xeObservedStateChecksum = []\<rparr>"

definition validatePrepare :: "PrepareExternalExecutionRequest \<Rightarrow> PrepareExternalExecutionRequest result" where
  "validatePrepare request =
     (if prqOrganizationID request = uuid_Nil then Inl (ErrBadRequest ''organizationId is required'')
      else if prqStepRunID request = uuid_Nil then Inl (ErrBadRequest ''stepRunId is required'')
      else let request = request\<lparr>prqComponent := TrimSpace (prqComponent request)\<rparr> in
        if prqComponent request = [] then Inl (ErrBadRequest ''component is required'')
        else if prqCallbackTimeoutSeconds request < 1 \<or> prqCallbackTimeoutSeconds request > 86400
          then Inl (ErrBadRequest ''callbackTimeoutSeconds must be between 1 and 86400'')
        else Inr request)"

text \<open>The part of the transaction after the preflight passed.\<close>

definition createExecution ::
    "externalLib \<Rightarrow> timestamp \<Rightarrow> PrepareExternalExecutionRequest \<Rightarrow> externalExecutionSource \<Rightarrow> ReleasePlan \<Rightarrow> externalDb
      \<Rightarrow> (ExternalExecution \<times> externalDb) result" where
  "createExecution X now request source plan db =
     bindR (externalExecutionObjectReference X (pnReleaseContract plan) (esExpectedConfigChecksum source)) (\<lambda>configReference.
     let composeChecksum = (case pnReleaseContract plan of None \<Rightarrow> [] | Some c \<Rightarrow> TrimSpace (rcComposeChecksum (rcConfig c))) in
     bindR (externalExecutionObjectReference X (pnReleaseContract plan) composeChecksum) (\<lambda>composeReference.
       insertExternalExecution X now
         (newExecution X now request source configReference composeReference composeChecksum (newUuid X db)) (nextUuid db)))"

text \<open>\<open>Inl\<close> is a failed preflight, which is committed.\<close>

definition prepareTx ::
    "externalLib \<Rightarrow> preflightWorld \<Rightarrow> timestamp \<Rightarrow> PrepareExternalExecutionRequest \<Rightarrow> externalDb
      \<Rightarrow> ((PreflightRun + ExternalExecution) \<times> externalDb) result" where
  "prepareTx X V now request db =
     bindR (getExternalExecutionSource request db) (\<lambda>source.
     case getExternalExecutionByStepRun (prqStepRunID request) (prqOrganizationID request) db of
       Inr existing \<Rightarrow>
         if xeComponent existing \<noteq> prqComponent request
         then Inl (ErrConflict ''step run already belongs to a different external execution component'')
         else Inr (Inr existing, db)
     | Inl _ \<Rightarrow>
         if esActionType source \<noteq> ''distr.webhook''
           then Inl (ErrBadRequest ''external execution requires a distr.webhook step'')
         else if esTaskStatus source \<noteq> TaskStatusRunning
           then Inl (ErrConflict ''external execution task is not running'')
         else bindR (requireExternalExecutionComponentLock X (esOrganizationID source) (esTaskID source)
             (esDeploymentTargetID source) (esComponent source) db) (\<lambda>_.
           case find (\<lambda>p. pnID p = esDeploymentPlanID source \<and> pnOrganizationID p = prqOrganizationID request) (xdPlans db) of
             None \<Rightarrow> Inl ErrNotFound
           | Some plan \<Rightarrow>
           bindR (evaluatePreflightForTask (xlPlan X) (preflightWorldOf X V db) plan
               (esDeploymentPlanTargetID source) (esDeploymentTargetID source)) (\<lambda>(run, passed).
           bindR (storePreflightRun X now run db) (\<lambda>(preflight, db).
           let db = attachDeploymentPreflightTasks (pfrID preflight) (prqOrganizationID request) db in
           if \<not> passed then Inr (Inl preflight, db)
           else bindR (createExecution X now request source plan db) (\<lambda>(execution, db). Inr (Inr execution, db))))))"

definition PrepareExternalExecution ::
    "externalLib \<Rightarrow> preflightWorld \<Rightarrow> timestamp \<Rightarrow> PrepareExternalExecutionRequest \<Rightarrow> externalDb
      \<Rightarrow> ExternalExecution result \<times> externalDb" where
  "PrepareExternalExecution X V now request db =
     (case validatePrepare request of
        Inl e \<Rightarrow> (Inl e, db)
      | Inr request \<Rightarrow>
          (case runExternal (prepareTx X V now request) db of
             (Inl e, db) \<Rightarrow> (Inl e, db)
           | (Inr (Inl run), db) \<Rightarrow> (Inl (ErrConflict (deploymentPreflightFailureMessage run)), db)
           | (Inr (Inr execution), db) \<Rightarrow> (Inr execution, db)))"

definition markTx ::
    "timestamp \<Rightarrow> MarkExternalExecutionTriggeredRequest \<Rightarrow> externalDb \<Rightarrow> (ExternalExecution \<times> externalDb) result" where
  "markTx now request db =
     bindR (getExternalExecutionForUpdate (mrqExternalExecutionID request) (mrqOrganizationID request) db) (\<lambda>execution.
     if xeStatus execution \<noteq> ExternalQueued then Inl (ErrConflict ''external execution dispatch is already claimed'')
     else if mrqTriggerAttempts request > 2147483647 then Inl (Errorf ''could not mark ExternalExecution triggered'')
     else updateExecution (mrqExternalExecutionID request) (mrqOrganizationID request)
       (\<lambda>e. e\<lparr>xeStatus := ExternalRunning, xeStartedAt := coalesce (xeStartedAt e) now,
          xeTriggerAttempts := max (xeTriggerAttempts e) (mrqTriggerAttempts request), xeUpdatedAt := now\<rparr>) db)"

definition MarkExternalExecutionTriggered ::
    "timestamp \<Rightarrow> MarkExternalExecutionTriggeredRequest \<Rightarrow> externalDb \<Rightarrow> ExternalExecution result \<times> externalDb" where
  "MarkExternalExecutionTriggered now request db =
     (if mrqOrganizationID request = uuid_Nil \<or> mrqExternalExecutionID request = uuid_Nil
        then (Inl (ErrBadRequest ''organizationId and externalExecutionId are required''), db)
      else if mrqTriggerAttempts request < 1
        then (Inl (ErrBadRequest ''triggerAttempts must be greater than 0''), db)
      else runExternal (markTx now request) db)"

section \<open>Recording what the external system reports\<close>

definition stateViolation :: "ExternalExecution \<Rightarrow> ExternalExecutionObservedState \<Rightarrow> dbViolation option" where
  "stateViolation execution observed =
     (if xoContracts observed = None then Some NotNullViolation
      else if sqlBlank (xeComponent execution) \<or> wrap64 (xeExpectedStateVersion execution + 1) \<le> 0
         \<or> sqlBlank (xoVersion observed) \<or> sqlBlank (xoImage observed) \<or> \<not> platformPattern (xoPlatform observed)
         \<or> \<not> checksumPattern (xoConfigChecksum observed)
      then Some CheckViolation
      else None)"

definition sameComponent :: "ExternalExecution \<Rightarrow> TargetComponentState \<Rightarrow> bool" where
  "sameComponent execution s \<longleftrightarrow> tcsOrganizationID s = xeOrganizationID execution
     \<and> tcsDeploymentTargetID s = xeDeploymentTargetID execution \<and> tcsApplicationID s = xeApplicationID execution
     \<and> tcsComponent s = xeComponent execution"

definition observedStateRow ::
    "timestamp \<Rightarrow> ExternalExecution \<Rightarrow> ExternalExecutionObservedState \<Rightarrow> string \<Rightarrow> TargetComponentState \<Rightarrow> TargetComponentState" where
  "observedStateRow now execution observed checksum s =
     s\<lparr>tcsStateVersion := wrap64 (xeExpectedStateVersion execution + 1), tcsStateChecksum := checksum,
       tcsReleaseBundleID := xeReleaseBundleID execution, tcsVersion := xoVersion observed, tcsImage := xoImage observed,
       tcsPlatform := xoPlatform observed, tcsContracts := contractList (xoContracts observed),
       tcsConfigReference := xoConfigReference observed, tcsConfigChecksum := xoConfigChecksum observed,
       tcsHealth := xoHealth observed, tcsObservedAt := now, tcsUpdatedAt := now\<rparr>"

definition emptyStateRow :: "uuid \<Rightarrow> timestamp \<Rightarrow> ExternalExecution \<Rightarrow> TargetComponentState" where
  "emptyStateRow stateID now execution =
     \<lparr>tcsID = stateID, tcsCreatedAt = now, tcsUpdatedAt = now, tcsOrganizationID = xeOrganizationID execution,
      tcsDeploymentTargetID = xeDeploymentTargetID execution, tcsApplicationID = xeApplicationID execution,
      tcsComponent = xeComponent execution, tcsStateVersion = 1, tcsStateChecksum = [], tcsReleaseBundleID = uuid_Nil,
      tcsVersion = [], tcsImage = [], tcsPlatform = [], tcsContracts = [], tcsConfigReference = [],
      tcsConfigChecksum = [], tcsHealth = TargetComponentHealthUnknown, tcsObservedAt = now\<rparr>"

text \<open>The statement that writes the state of the component: an insert when the plan saw none, else an update of
  the version and checksum that the plan saw.\<close>

definition writeObservedState ::
    "externalLib \<Rightarrow> timestamp \<Rightarrow> ExternalExecution \<Rightarrow> ExternalExecutionObservedState \<Rightarrow> string \<Rightarrow> externalDb
      \<Rightarrow> (TargetComponentState \<times> externalDb) result" where
  "writeObservedState X now execution observed checksum db =
     (let failed = (\<lambda>v. Inl (statementError X (mapExternalObservedStateWriteError v)
            (Errorf ''could not collect external observed state''))) in
      if xeExpectedStateVersion execution = 0 then
        (case stateViolation execution observed of
           Some v \<Rightarrow> failed v
         | None \<Rightarrow>
             if list_ex (\<lambda>s. sameComponent execution s \<or> tcsID s = newUuid X db) (xdStates db)
               then failed UniqueViolation
             else let s = observedStateRow now execution observed checksum (emptyStateRow (newUuid X db) now execution)
               in Inr (s, nextUuid (db\<lparr>xdStates := xdStates db @ [s]\<rparr>)))
      else
        (let expected = (\<lambda>s. sameComponent execution s \<and> tcsStateVersion s = xeExpectedStateVersion execution
               \<and> tcsStateChecksum s = xeExpectedStateChecksum execution) in
         case find expected (xdStates db) of
           None \<Rightarrow> Inl (ErrConflict ''target component state changed after external execution started'')
         | Some s \<Rightarrow>
             (case stateViolation execution observed of
                Some v \<Rightarrow> failed v
              | None \<Rightarrow>
                  Inr (observedStateRow now execution observed checksum s,
                    db\<lparr>xdStates := updateWhere expected (observedStateRow now execution observed checksum) (xdStates db)\<rparr>))))"

definition insertTargetComponentObservation ::
    "externalLib \<Rightarrow> timestamp \<Rightarrow> TargetComponentState \<Rightarrow> uuid \<Rightarrow> externalDb \<Rightarrow> externalDb" where
  "insertTargetComponentObservation X now s executionID db =
     nextUuid (db\<lparr>xdObservations := xdObservations db @
       [\<lparr>tcoID = newUuid X db, tcoCreatedAt = now, tcoOrganizationID = tcsOrganizationID s,
         tcoTargetComponentStateID = tcsID s, tcoDeploymentTargetID = tcsDeploymentTargetID s,
         tcoApplicationID = tcsApplicationID s, tcoComponent = tcsComponent s, tcoStateVersion = tcsStateVersion s,
         tcoStateChecksum = tcsStateChecksum s, tcoReleaseBundleID = tcsReleaseBundleID s, tcoVersion = tcsVersion s,
         tcoImage = tcsImage s, tcoPlatform = tcsPlatform s, tcoContracts = tcsContracts s,
         tcoConfigReference = tcsConfigReference s, tcoConfigChecksum = tcsConfigChecksum s, tcoHealth = tcsHealth s,
         tcoObservedAt = tcsObservedAt s, tcoExternalExecutionID = Some executionID\<rparr>]\<rparr>)"

definition upsertExternalExecutionObservedState ::
    "externalLib \<Rightarrow> timestamp \<Rightarrow> ExternalExecution \<Rightarrow> ExternalExecutionObservedState \<Rightarrow> externalDb
      \<Rightarrow> (string \<times> externalDb) result" where
  "upsertExternalExecutionObservedState X now execution observed db =
     bindR (requireExternalExecutionComponentLock X (xeOrganizationID execution) (xeTaskID execution)
         (xeDeploymentTargetID execution) (xeComponent execution) db) (\<lambda>_.
     let checksum = ObservedStateChecksum X observed in
     bindR (writeObservedState X now execution observed checksum db) (\<lambda>(s, db).
       Inr (checksum, insertTargetComponentObservation X now s (xeID execution) db)))"

definition callbackUpdate ::
    "timestamp \<Rightarrow> RecordExternalExecutionCallbackRequest \<Rightarrow> ExternalExecution \<Rightarrow> string \<Rightarrow> ExternalExecution \<Rightarrow> ExternalExecution" where
  "callbackUpdate now request execution observedChecksum e =
     (let terminal = externalIsTerminal (crqStatus request); observed = crqObservedState request in
      e\<lparr>xeStatus := crqStatus request, xeStartedAt := coalesce (xeStartedAt e) now,
        xeCompletedAt := (if terminal then coalesce (xeCompletedAt e) now else xeCompletedAt e),
        xeProviderReference := (if crqProviderReference request \<noteq> [] then crqProviderReference request else xeProviderReference execution),
        xeProviderURL := (if crqProviderURL request \<noteq> [] then crqProviderURL request else xeProviderURL execution),
        xeLastCallbackSequence := crqSequence request, xeLastMessage := crqMessage request,
        xeErrorSummary := (if crqStatus request = ExternalFailed \<or> crqStatus request = ExternalCanceled then crqMessage request else []),
        xeActualVersion := (case observed of None \<Rightarrow> [] | Some s \<Rightarrow> xoVersion s),
        xeActualImage := (case observed of None \<Rightarrow> [] | Some s \<Rightarrow> xoImage s),
        xeActualPlatform := map_option xoPlatform observed,
        xeActualContracts := (case observed of None \<Rightarrow> [] | Some s \<Rightarrow> contractList (xoContracts s)),
        xeActualConfigReference := (case observed of None \<Rightarrow> [] | Some s \<Rightarrow> xoConfigReference s),
        xeActualConfigChecksum := (case observed of None \<Rightarrow> [] | Some s \<Rightarrow> xoConfigChecksum s),
        xeActualHealth := map_option xoHealth observed,
        xeObservedStateChecksum := observedChecksum, xeUpdatedAt := now\<rparr>)"

definition updateExternalExecutionFromCallback ::
    "timestamp \<Rightarrow> ExternalExecution \<Rightarrow> RecordExternalExecutionCallbackRequest \<Rightarrow> string \<Rightarrow> externalDb
      \<Rightarrow> (ExternalExecution \<times> externalDb) result" where
  "updateExternalExecutionFromCallback now execution request observedChecksum db =
     updateExecution (xeID execution) (xeOrganizationID execution) (callbackUpdate now request execution observedChecksum) db"

text \<open>The event and the update with which the hub itself ends an execution.\<close>

definition endRequest :: "ExternalExecution \<Rightarrow> ExternalExecutionStatus \<Rightarrow> string \<Rightarrow> RecordExternalExecutionCallbackRequest" where
  "endRequest execution status message =
     \<lparr>crqOrganizationID = xeOrganizationID execution, crqExternalExecutionID = xeID execution,
      crqSequence = wrap64 (xeLastCallbackSequence execution + 1), crqStatus = status, crqProviderReference = [],
      crqProviderURL = [], crqMessage = message, crqObservedState = None\<rparr>"

definition endUpdate ::
    "timestamp \<Rightarrow> ExternalExecutionStatus \<Rightarrow> int \<Rightarrow> string \<Rightarrow> ExternalExecution \<Rightarrow> ExternalExecution" where
  "endUpdate now status sequence message e =
     e\<lparr>xeStatus := status, xeCompletedAt := coalesce (xeCompletedAt e) now, xeLastCallbackSequence := sequence,
       xeLastMessage := message, xeErrorSummary := message, xeUpdatedAt := now\<rparr>"

definition endExecutionLocked ::
    "externalLib \<Rightarrow> timestamp \<Rightarrow> ExternalExecutionStatus \<Rightarrow> ExternalExecution \<Rightarrow> string \<Rightarrow> externalDb
      \<Rightarrow> (ExternalExecution \<times> externalDb) result" where
  "endExecutionLocked X now status execution message db =
     (let request = endRequest execution status message in
      case ValidateCallbackSequence (crqSequence request) status of
        Inl e \<Rightarrow> Inl (ErrConflict (errorString e))
      | Inr _ \<Rightarrow>
          bindR (insertExternalExecutionEvent X now request None (CallbackPayloadHash X request) db) (\<lambda>(_, db).
            updateExecution (xeID execution) (xeOrganizationID execution)
              (endUpdate now status (crqSequence request) message) db))"

definition timeoutExternalExecutionLocked ::
    "externalLib \<Rightarrow> timestamp \<Rightarrow> ExternalExecution \<Rightarrow> string \<Rightarrow> externalDb \<Rightarrow> (ExternalExecution \<times> externalDb) result" where
  "timeoutExternalExecutionLocked X now = endExecutionLocked X now ExternalTimedOut"

definition expectedState :: "ExternalExecution \<Rightarrow> ExternalExecutionExpectedState" where
  "expectedState execution =
     \<lparr>xsVersion = xeExpectedVersion execution, xsImage = xeExpectedImage execution,
      xsPlatform = xeExpectedPlatform execution, xsContracts = xeExpectedContracts execution,
      xsConfigReference = xeExpectedConfigReference execution, xsConfigChecksum = xeExpectedConfigChecksum execution\<rparr>"

definition projectObservedState ::
    "externalLib \<Rightarrow> timestamp \<Rightarrow> ExternalExecution \<Rightarrow> RecordExternalExecutionCallbackRequest \<Rightarrow> externalDb
      \<Rightarrow> (string \<times> externalDb) result" where
  "projectObservedState X now execution request db =
     (if crqStatus request = ExternalSucceeded then
        (case crqObservedState request of
           None \<Rightarrow> Inl (ErrBadRequest ''observedState is required for a succeeded callback'')
         | Some observed \<Rightarrow>
             (case ValidateObservedState X (expectedState execution) observed of
                Inl e \<Rightarrow> Inl (ErrConflict (errorString e))
              | Inr _ \<Rightarrow> upsertExternalExecutionObservedState X now execution observed db))
      else if crqObservedState request \<noteq> None
        then Inl (ErrBadRequest ''observedState is only allowed for a succeeded callback'')
      else Inr ([], db))"

text \<open>The flag of the result is \<open>expired\<close>.\<close>

definition callbackTx ::
    "externalLib \<Rightarrow> timestamp \<Rightarrow> RecordExternalExecutionCallbackRequest \<Rightarrow> externalDb
      \<Rightarrow> ((bool \<times> ExternalExecution) \<times> externalDb) result" where
  "callbackTx X now request db =
     bindR (getExternalExecutionForUpdate (crqExternalExecutionID request) (crqOrganizationID request) db) (\<lambda>execution.
     case getExternalExecutionEventPayloadHash (crqExternalExecutionID request) (crqOrganizationID request) (crqSequence request) db of
       Inr existingHash \<Rightarrow>
         if existingHash \<noteq> CallbackPayloadHash X request
         then Inl (ErrConflict ''external execution callback sequence already has a different payload'')
         else Inr ((False, execution), db)
     | Inl _ \<Rightarrow>
         if externalIsTerminal (xeStatus execution) then Inl (ErrConflict ''external execution is already terminal'')
         else if \<not> now < xeCallbackDeadlineAt execution then
           bindR (timeoutExternalExecutionLocked X now execution ''external execution callback timed out'' db)
             (\<lambda>(updated, db). Inr ((True, updated), db))
         else if crqSequence request \<noteq> wrap64 (xeLastCallbackSequence execution + 1)
           then Inl (ErrConflict ''external execution callback sequence is out of order'')
         else (case ValidateCallbackSequence (crqSequence request) (crqStatus request) of
             Inl e \<Rightarrow> Inl (ErrConflict (errorString e))
           | Inr _ \<Rightarrow>
               if \<not> CanCallbackTransition (xeStatus execution) (crqStatus request)
                 then Inl (ErrConflict ''external execution callback state transition is invalid'')
               else bindR (projectObservedState X now execution request db) (\<lambda>(observedChecksum, db).
                 bindR (insertExternalExecutionEvent X now request
                     (if crqStatus request = ExternalSucceeded then crqObservedState request else None)
                     (CallbackPayloadHash X request) db) (\<lambda>(_, db).
                 bindR (updateExternalExecutionFromCallback now execution request observedChecksum db) (\<lambda>(updated, db).
                   Inr ((False, updated), db))))))"

definition RecordExternalExecutionCallback ::
    "externalLib \<Rightarrow> timestamp \<Rightarrow> RecordExternalExecutionCallbackRequest \<Rightarrow> externalDb
      \<Rightarrow> ExternalExecution result \<times> externalDb" where
  "RecordExternalExecutionCallback X now request db =
     (case normalizeExternalExecutionCallback X request of
        Inl e \<Rightarrow> (Inl e, db)
      | Inr request \<Rightarrow>
          (case runExternal (callbackTx X now request) db of
             (Inl e, db) \<Rightarrow> (Inl e, db)
           | (Inr (True, _), db) \<Rightarrow> (Inl (ErrConflict ''external execution callback deadline has elapsed''), db)
           | (Inr (False, execution), db) \<Rightarrow> (Inr execution, db)))"

definition endMessage :: "string \<Rightarrow> string \<Rightarrow> string" where
  "endMessage message fallback =
     (let message = limitExternalExecutionMessage (fst (RedactString (TrimSpace message))) in
      if message = [] then fallback else message)"

definition timeoutTx ::
    "externalLib \<Rightarrow> timestamp \<Rightarrow> EndExternalExecutionRequest \<Rightarrow> externalDb \<Rightarrow> (ExternalExecution \<times> externalDb) result" where
  "timeoutTx X now request db =
     bindR (getExternalExecutionForUpdate (nrqExternalExecutionID request) (nrqOrganizationID request) db) (\<lambda>execution.
     if externalIsTerminal (xeStatus execution) then Inr (execution, db)
     else if now < xeCallbackDeadlineAt execution
       then Inl (ErrConflict ''external execution callback deadline has not elapsed'')
     else timeoutExternalExecutionLocked X now execution
       (endMessage (nrqMessage request) ''external execution callback timed out'') db)"

definition TimeoutExternalExecution ::
    "externalLib \<Rightarrow> timestamp \<Rightarrow> EndExternalExecutionRequest \<Rightarrow> externalDb \<Rightarrow> ExternalExecution result \<times> externalDb" where
  "TimeoutExternalExecution X now request db =
     (if nrqOrganizationID request = uuid_Nil \<or> nrqExternalExecutionID request = uuid_Nil
        then (Inl (ErrBadRequest ''organizationId and externalExecutionId are required''), db)
      else runExternal (timeoutTx X now request) db)"

definition failTx ::
    "externalLib \<Rightarrow> timestamp \<Rightarrow> EndExternalExecutionRequest \<Rightarrow> externalDb \<Rightarrow> (ExternalExecution \<times> externalDb) result" where
  "failTx X now request db =
     bindR (getExternalExecutionForUpdate (nrqExternalExecutionID request) (nrqOrganizationID request) db) (\<lambda>execution.
     if externalIsTerminal (xeStatus execution) then Inr (execution, db)
     else endExecutionLocked X now ExternalFailed execution (endMessage (nrqMessage request) ''external execution trigger failed'') db)"

definition FailExternalExecution ::
    "externalLib \<Rightarrow> timestamp \<Rightarrow> EndExternalExecutionRequest \<Rightarrow> externalDb \<Rightarrow> ExternalExecution result \<times> externalDb" where
  "FailExternalExecution X now request db =
     (if nrqOrganizationID request = uuid_Nil \<or> nrqExternalExecutionID request = uuid_Nil
        then (Inl (ErrBadRequest ''organizationId and externalExecutionId are required''), db)
      else runExternal (failTx X now request) db)"

text \<open>An observation whose contracts are nil is never stored, whatever was expected.\<close>

lemma nil_contracts_rejected:
  "xoContracts observed = None \<Longrightarrow> \<exists>err. upsertExternalExecutionObservedState X now execution observed db = Inl err"
  by (cases "requireExternalExecutionComponentLock X (xeOrganizationID execution) (xeTaskID execution)
      (xeDeploymentTargetID execution) (xeComponent execution) db")
    (auto simp: upsertExternalExecutionObservedState_def writeObservedState_def stateViolation_def Let_def split: option.split)

end
