(* ===== verification/External_History.thy ===== *)
theory External_History
  imports External_Executions
begin

text \<open>
  The history of external executions over every sequence of operations: how the stored events of an execution
  determine its status and sequence number (\<open>historyInv\<close>), how the states of the target components follow from
  the observations of successful executions (\<open>stateInv\<close>), and what stays as it is (\<open>externalLater\<close>). A run is a list of
  calls with their times; between them other components may write to their own tables.
\<close>

section \<open>Histories of events\<close>

abbreviation eventsOf :: "ExternalExecution \<Rightarrow> ExternalExecutionEvent list \<Rightarrow> ExternalExecutionEvent list" where
  "eventsOf e \<equiv> filter (\<lambda>v. xvExternalExecutionID v = xeID e)"

definition historyOk :: "ExternalExecution \<Rightarrow> ExternalExecutionEvent list \<Rightarrow> bool" where
  "historyOk e vs \<longleftrightarrow>
     map xvSequence vs = map int [1..<Suc (length vs)] \<and> xeLastCallbackSequence e = int (length vs)
     \<and> (\<forall>v \<in> set vs. xvOrganizationID v = xeOrganizationID e)
     \<and> (if externalIsTerminal (xeStatus e)
        then vs \<noteq> [] \<and> length vs \<le> 256 \<and> xvStatus (last vs) = xeStatus e \<and> (\<forall>v \<in> set (butlast vs). xvStatus v = ExternalRunning)
        else length vs < 256 \<and> (\<forall>v \<in> set vs. xvStatus v = ExternalRunning)
             \<and> (xeStatus e = ExternalQueued \<and> vs = [] \<or> xeStatus e = ExternalRunning))"

definition historyInv :: "ExternalExecution list \<Rightarrow> ExternalExecutionEvent list \<Rightarrow> bool" where
  "historyInv es vs \<longleftrightarrow> distinct (map xeID es) \<and> (\<forall>e \<in> set es. historyOk e (eventsOf e vs))
     \<and> (\<forall>v \<in> set vs. xvExternalExecutionID v \<in> xeID ` set es)"

lemma historyInvD:
  assumes "historyInv es vs" "e \<in> set es"
  shows "historyOk e (eventsOf e vs)"
  using assms by (simp add: historyInv_def)

text \<open>The statement that updates one execution, by identifier and organization.\<close>

abbreviation updateOne ::
    "ExternalExecution \<Rightarrow> (ExternalExecution \<Rightarrow> ExternalExecution) \<Rightarrow> ExternalExecution list \<Rightarrow> ExternalExecution list" where
  "updateOne e f \<equiv> updateWhere (\<lambda>x. xeID x = xeID e \<and> xeOrganizationID x = xeOrganizationID e) f"

lemma set_updateOne:
  assumes "distinct (map xeID es)" "e \<in> set es"
  shows "set (updateOne e f es) = insert (f e) (set es - {e})"
proof -
  have unique: "xeID x = xeID e \<and> xeOrganizationID x = xeOrganizationID e \<longleftrightarrow> x = e" if "x \<in> set es" for x
    using assms that by (auto simp: distinct_map inj_on_def)
  have "set (updateOne e f es) = (\<lambda>x. if x = e then f x else x) ` set es"
    unfolding set_updateWhere by (rule image_cong) (simp_all add: unique)
  also have "\<dots> = insert (f e) (set es - {e})" using assms(2) by auto
  finally show ?thesis .
qed

lemma historyInv_new:
  assumes "historyInv es vs" "xeID e \<notin> xeID ` set es" "xeStatus e = ExternalQueued" "xeLastCallbackSequence e = 0"
  shows "historyInv (es @ [e]) vs"
proof -
  have none: "eventsOf e vs = []" using assms(1,2) unfolding historyInv_def filter_empty_conv by metis
  have "historyOk e (eventsOf e vs)" unfolding none by (simp add: historyOk_def externalIsTerminal_def assms)
  then show ?thesis using assms(1,2) by (auto simp: historyInv_def)
qed

lemma historyInv_update:
  assumes inv: "historyInv es vs" and e: "e \<in> set es"
    and same: "\<And>x. xeID (f x) = xeID x"
    and ok: "historyOk (f e) (eventsOf e ws)"
    and others: "\<And>x. x \<in> set es \<Longrightarrow> xeID x \<noteq> xeID e \<Longrightarrow> eventsOf x ws = eventsOf x vs"
    and owned: "\<And>v. v \<in> set ws \<Longrightarrow> v \<in> set vs \<or> xvExternalExecutionID v = xeID e"
  shows "historyInv (updateOne e f es) ws"
proof -
  have distinct: "distinct (map xeID es)" using inv by (simp add: historyInv_def)
  have ids: "map xeID (updateOne e f es) = map xeID es" by (rule map_updateWhere) (rule same)
  have neq: "xeID x \<noteq> xeID e" if "x \<in> set es - {e}" for x
    using that e distinct by (auto simp: distinct_map inj_on_def)
  have "historyOk x (eventsOf x ws)" if "x \<in> set (updateOne e f es)" for x
  proof (cases "x = f e")
    case True
    then show ?thesis using ok by (simp add: same)
  next
    case False
    then have x: "x \<in> set es - {e}" using that set_updateOne [OF distinct e] by auto
    then have "x \<in> set es" by simp
    then show ?thesis by (simp only: others [OF _ neq [OF x]] historyInvD [OF inv])
  qed
  moreover have "xvExternalExecutionID v \<in> xeID ` set (updateOne e f es)" if "v \<in> set ws" for v
  proof -
    have "xeID ` set (updateOne e f es) = xeID ` set es" using arg_cong [OF ids, of set] by (simp only: set_map)
    moreover have "xvExternalExecutionID v \<in> xeID ` set es"
      using owned [OF that] inv e unfolding historyInv_def by auto
    ultimately show ?thesis by simp
  qed
  ultimately show ?thesis by (simp add: historyInv_def ids distinct)
qed

lemma historyInv_trigger:
  assumes "historyInv es vs" "e \<in> set es" "xeStatus e = ExternalQueued" "\<And>x. xeID (f x) = xeID x"
    "xeOrganizationID (f e) = xeOrganizationID e" "xeStatus (f e) = ExternalRunning"
    "xeLastCallbackSequence (f e) = xeLastCallbackSequence e"
  shows "historyInv (updateOne e f es) vs"
  by (rule historyInv_update [OF assms(1,2)])
    (use assms historyInvD [OF assms(1,2)] in \<open>auto simp: historyOk_def externalIsTerminal_def\<close>)

text \<open>One more event of an execution that has not ended, with the execution in the state of the event.\<close>

lemma historyInv_advance:
  assumes inv: "historyInv es vs" and e: "e \<in> set es" and running: "\<not> externalIsTerminal (xeStatus e)"
    and same: "\<And>x. xeID (f x) = xeID x" "xeOrganizationID (f e) = xeOrganizationID e"
    and v: "xvExternalExecutionID v = xeID e" "xvOrganizationID v = xeOrganizationID e"
      "xvSequence v = xeLastCallbackSequence e + 1" "xvStatus v = xeStatus (f e)"
    and last: "xeLastCallbackSequence (f e) = xeLastCallbackSequence e + 1"
    and status: "externalIsTerminal (xeStatus (f e)) \<or> xeStatus (f e) = ExternalRunning \<and> xeLastCallbackSequence (f e) < 256"
  shows "historyInv (updateOne e f es) (vs @ [v])"
proof (rule historyInv_update [OF inv e same(1)])
  have old: "historyOk e (eventsOf e vs)" by (rule historyInvD [OF inv e])
  have numbers: "map int [1..<Suc (Suc n)] = map int [1..<Suc n] @ [int n + 1]" for n by simp
  have "historyOk (f e) (eventsOf e vs @ [v])"
    using old running v last status same(2) unfolding historyOk_def length_append_singleton numbers
    by (auto simp del: upt_Suc)
  then show "historyOk (f e) (eventsOf e (vs @ [v]))" using v(1) by simp
  show "eventsOf x (vs @ [v]) = eventsOf x vs" if "xeID x \<noteq> xeID e" for x using that v(1) by simp
  show "w \<in> set vs \<or> xvExternalExecutionID w = xeID e" if "w \<in> set (vs @ [v])" for w using that v(1) by auto
qed

text \<open>The next number is free, and while an execution has not ended one more event fits.\<close>

lemma history_next:
  assumes "historyInv es vs" "e \<in> set es"
  shows "\<not> list_ex (\<lambda>v. xvExternalExecutionID v = xeID e \<and> xvSequence v = xeLastCallbackSequence e + 1) vs"
    and "0 \<le> xeLastCallbackSequence e" and "xeLastCallbackSequence e \<le> 256"
    and "\<not> externalIsTerminal (xeStatus e) \<Longrightarrow> xeLastCallbackSequence e < 256"
proof -
  note ok = historyInvD [OF assms]
  show "\<not> list_ex (\<lambda>v. xvExternalExecutionID v = xeID e \<and> xvSequence v = xeLastCallbackSequence e + 1) vs"
  proof
    assume "list_ex (\<lambda>v. xvExternalExecutionID v = xeID e \<and> xvSequence v = xeLastCallbackSequence e + 1) vs"
    then have "xeLastCallbackSequence e + 1 \<in> set (map xvSequence (eventsOf e vs))" by (force simp: list_ex_iff)
    then show False using ok unfolding historyOk_def by (auto simp del: upt_Suc)
  qed
qed (use historyInvD [OF assms] in \<open>auto simp: historyOk_def split: if_splits\<close>)

section \<open>Observations of target components\<close>

definition componentScope :: "TargetComponentState \<Rightarrow> uuid \<times> uuid \<times> uuid \<times> string" where
  "componentScope s = (tcsOrganizationID s, tcsDeploymentTargetID s, tcsApplicationID s, tcsComponent s)"

definition observationScope :: "TargetComponentObservation \<Rightarrow> uuid \<times> uuid \<times> uuid \<times> string" where
  "observationScope ob = (tcoOrganizationID ob, tcoDeploymentTargetID ob, tcoApplicationID ob, tcoComponent ob)"

definition executionScope :: "ExternalExecution \<Rightarrow> uuid \<times> uuid \<times> uuid \<times> string" where
  "executionScope e = (xeOrganizationID e, xeDeploymentTargetID e, xeApplicationID e, xeComponent e)"

text \<open>The row of a state is the observation, and an observation is what its execution was expected to leave, one
  version after the one that its plan saw.\<close>

definition showsState :: "TargetComponentState \<Rightarrow> TargetComponentObservation \<Rightarrow> bool" where
  "showsState s ob \<longleftrightarrow> tcoTargetComponentStateID ob = tcsID s \<and> observationScope ob = componentScope s \<and> tcoStateVersion ob = tcsStateVersion s
     \<and> tcoStateChecksum ob = tcsStateChecksum s \<and> tcoReleaseBundleID ob = tcsReleaseBundleID s
     \<and> tcoVersion ob = tcsVersion s \<and> tcoImage ob = tcsImage s \<and> tcoPlatform ob = tcsPlatform s
     \<and> tcoContracts ob = tcsContracts s \<and> tcoConfigReference ob = tcsConfigReference s
     \<and> tcoConfigChecksum ob = tcsConfigChecksum s \<and> tcoHealth ob = tcsHealth s"

definition reflects :: "externalLib \<Rightarrow> ExternalExecution \<Rightarrow> TargetComponentObservation \<Rightarrow> bool" where
  "reflects X e ob \<longleftrightarrow> tcoExternalExecutionID ob = Some (xeID e) \<and> xeStatus e = ExternalSucceeded
     \<and> tcoStateVersion ob = xeExpectedStateVersion e + 1
     \<and> observationScope ob = executionScope e
     \<and> tcoReleaseBundleID ob = xeReleaseBundleID e \<and> tcoVersion ob = xeExpectedVersion e
     \<and> EqualFold (rlFold (plRelease (xlPlan X))) (tcoImage ob) (xeExpectedImage e) \<and> tcoPlatform ob = xeExpectedPlatform e
     \<and> sortStrings (tcoContracts ob) = sortStrings (xeExpectedContracts e)
     \<and> tcoConfigReference ob = xeExpectedConfigReference e \<and> tcoConfigChecksum ob = xeExpectedConfigChecksum e
     \<and> tcoHealth ob = TargetComponentHealthHealthy"

abbreviation observationsOf :: "TargetComponentState \<Rightarrow> TargetComponentObservation list \<Rightarrow> TargetComponentObservation list" where
  "observationsOf s \<equiv> filter (\<lambda>ob. tcoTargetComponentStateID ob = tcsID s)"

definition chainOk :: "TargetComponentState \<Rightarrow> TargetComponentObservation list \<Rightarrow> bool" where
  "chainOk s obs \<longleftrightarrow> map tcoStateVersion obs = map int [1..<Suc (length obs)] \<and> tcsStateVersion s = int (length obs)
     \<and> tcsStateVersion s < 2 ^ 63 \<and> obs \<noteq> [] \<and> showsState s (last obs)"

definition succeeded :: "ExternalExecution list \<Rightarrow> ExternalExecution set" where
  "succeeded es = {e \<in> set es. xeStatus e = ExternalSucceeded}"

definition stateInv ::
    "externalLib \<Rightarrow> ExternalExecution set \<Rightarrow> TargetComponentState list \<Rightarrow> TargetComponentObservation list \<Rightarrow> bool" where
  "stateInv X ok ss obs \<longleftrightarrow> distinct (map tcsID ss) \<and> distinct (map componentScope ss)
     \<and> (\<forall>s \<in> set ss. chainOk s (observationsOf s obs))
     \<and> (\<forall>ob \<in> set obs. (tcoTargetComponentStateID ob, observationScope ob) \<in> (\<lambda>s. (tcsID s, componentScope s)) ` set ss)
     \<and> distinct (map tcoExternalExecutionID obs)
     \<and> (\<forall>ob \<in> set obs. \<exists>e \<in> ok. reflects X e ob)
     \<and> (\<forall>e \<in> ok. Some (xeID e) \<in> tcoExternalExecutionID ` set obs)"

lemma chainOk_snoc:
  assumes "chainOk s obs" "tcsStateVersion s' = tcsStateVersion s + 1" "tcsStateVersion s' < 2 ^ 63" "showsState s' ob"
  shows "chainOk s' (obs @ [ob])"
proof -
  have numbers: "map int [1..<Suc (Suc n)] = map int [1..<Suc n] @ [int n + 1]" for n by simp
  show ?thesis
    using assms unfolding chainOk_def length_append_singleton numbers by (auto simp: showsState_def simp del: upt_Suc)
qed

lemma chainOk_one: "tcsStateVersion s = 1 \<Longrightarrow> showsState s ob \<Longrightarrow> chainOk s [ob]"
  by (auto simp: chainOk_def showsState_def)

lemma stateInv_observation:
  assumes inv: "stateInv X ok ss obs" and new: "\<And>x. x \<in> ok \<Longrightarrow> xeID x \<noteq> xeID e" and reflects: "reflects X e ob"
  shows "distinct (map tcoExternalExecutionID (obs @ [ob]))" "\<forall>b \<in> set (obs @ [ob]). \<exists>x \<in> insert e ok. reflects X x b"
    "\<forall>x \<in> insert e ok. Some (xeID x) \<in> tcoExternalExecutionID ` set (obs @ [ob])"
proof -
  have "tcoExternalExecutionID ob \<noteq> tcoExternalExecutionID b" if b: "b \<in> set obs" for b
  proof -
    obtain x where "x \<in> ok" "reflects X x b" using inv b by (auto simp: stateInv_def)
    then show ?thesis using new [of x] reflects by (auto simp: reflects_def)
  qed
  then show "distinct (map tcoExternalExecutionID (obs @ [ob]))" using inv by (auto simp: stateInv_def)
  show "\<forall>b \<in> set (obs @ [ob]). \<exists>x \<in> insert e ok. reflects X x b" using inv reflects by (auto simp: stateInv_def)
  show "\<forall>x \<in> insert e ok. Some (xeID x) \<in> tcoExternalExecutionID ` set (obs @ [ob])"
    using inv reflects by (auto simp: stateInv_def reflects_def)
qed

lemma stateInv_first:
  assumes inv: "stateInv X ok ss obs" and new: "\<And>x. x \<in> ok \<Longrightarrow> xeID x \<noteq> xeID e" and reflects: "reflects X e ob"
    and fresh: "tcsID s \<notin> tcsID ` set ss" "componentScope s \<notin> componentScope ` set ss"
    and first: "tcsStateVersion s = 1" and row: "showsState s ob"
  shows "stateInv X (insert e ok) (ss @ [s]) (obs @ [ob])"
proof -
  have "tcoTargetComponentStateID b \<in> tcsID ` set ss" if "b \<in> set obs" for b
    using inv that unfolding stateInv_def by blast
  then have none: "observationsOf s obs = []" using fresh(1) unfolding filter_empty_conv by metis
  have ob: "tcoTargetComponentStateID ob = tcsID s" "observationScope ob = componentScope s" using row by (simp_all add: showsState_def)
  have "chainOk t (observationsOf t (obs @ [ob]))" if "t \<in> set (ss @ [s])" for t
  proof (cases "t = s")
    case True
    then show ?thesis using chainOk_one [OF first row] none ob by simp
  next
    case False
    then have "t \<in> set ss" using that by simp
    moreover from this have "tcsID t \<noteq> tcsID s" using fresh(1) by (metis imageI)
    ultimately show ?thesis using inv ob by (auto simp: stateInv_def)
  qed
  then show ?thesis
    using inv fresh ob stateInv_observation [OF inv new reflects] unfolding stateInv_def by auto
qed

lemma stateInv_next:
  assumes inv: "stateInv X ok ss obs" and new: "\<And>x. x \<in> ok \<Longrightarrow> xeID x \<noteq> xeID e" and reflects: "reflects X e ob"
    and s: "s \<in> set ss" and only: "\<And>t. t \<in> set ss \<Longrightarrow> P t \<longleftrightarrow> t = s"
    and same: "\<And>t. tcsID (g t) = tcsID t" "\<And>t. componentScope (g t) = componentScope t"
    and step: "tcsStateVersion (g s) = tcsStateVersion s + 1" "tcsStateVersion (g s) < 2 ^ 63" and row: "showsState (g s) ob"
  shows "stateInv X (insert e ok) (updateWhere P g ss) (obs @ [ob])"
proof -
  have ids: "map tcsID (updateWhere P g ss) = map tcsID ss" "map componentScope (updateWhere P g ss) = map componentScope ss"
    using same by (simp_all add: map_updateWhere)
  have ob: "tcoTargetComponentStateID ob = tcsID s" "observationScope ob = componentScope s"
    using row same by (simp_all add: showsState_def)
  have chain: "chainOk t (observationsOf t (obs @ [ob]))" if t: "t \<in> set (updateWhere P g ss)" for t
  proof -
    obtain u where u: "u \<in> set ss" "t = (if P u then g u else u)" using t unfolding updateWhere_iff by blast
    have old: "chainOk u (observationsOf u obs)" using inv u(1) by (simp add: stateInv_def)
    show ?thesis
    proof (cases "u = s")
      case True
      then have "t = g s" using u only by simp
      then show ?thesis using chainOk_snoc [OF old [unfolded True] step row] ob same by simp
    next
      case False
      then have "tcsID u \<noteq> tcsID s" using inv s u(1) by (auto simp: stateInv_def distinct_map inj_on_def)
      then show ?thesis using False u only old ob by simp
    qed
  qed
  have "map (\<lambda>s. (tcsID s, componentScope s)) (updateWhere P g ss) = map (\<lambda>s. (tcsID s, componentScope s)) ss"
    using same by (simp add: map_updateWhere)
  then have "(\<lambda>s. (tcsID s, componentScope s)) ` set (updateWhere P g ss) = (\<lambda>s. (tcsID s, componentScope s)) ` set ss"
    by (metis (no_types) set_map)
  then show ?thesis
    using inv s ob chain stateInv_observation [OF inv new reflects] unfolding stateInv_def ids by auto
qed

section \<open>What operations keep\<close>

definition externalInv :: "externalLib \<Rightarrow> externalDb \<Rightarrow> bool" where
  "externalInv X db \<longleftrightarrow> historyInv (xdExecutions db) (xdEvents db)
     \<and> stateInv X (succeeded (xdExecutions db)) (xdStates db) (xdObservations db)"

text \<open>The part of an execution that never changes.\<close>

definition frozen :: "ExternalExecution \<Rightarrow> ExternalExecution" where
  "frozen e = e\<lparr>xeUpdatedAt := 0, xeStartedAt := None, xeCompletedAt := None, xeStatus := ExternalQueued, xeProviderReference := [],
     xeProviderURL := [], xeTriggerAttempts := 0, xeLastCallbackSequence := 0, xeLastMessage := [], xeErrorSummary := [],
     xeActualVersion := [], xeActualImage := [], xeActualPlatform := None, xeActualContracts := [], xeActualConfigReference := [],
     xeActualConfigChecksum := [], xeActualHealth := None, xeObservedStateChecksum := []\<rparr>"

lemma frozenD:
  assumes "frozen x = frozen y"
  shows "xeID x = xeID y" "xeOrganizationID x = xeOrganizationID y" "xeDeploymentTargetID x = xeDeploymentTargetID y"
    "xeApplicationID x = xeApplicationID y" "xeComponent x = xeComponent y" "xeReleaseBundleID x = xeReleaseBundleID y"
    "xeExpectedStateVersion x = xeExpectedStateVersion y" "xeExpectedVersion x = xeExpectedVersion y"
    "xeExpectedImage x = xeExpectedImage y" "xeExpectedPlatform x = xeExpectedPlatform y"
    "xeExpectedContracts x = xeExpectedContracts y" "xeExpectedConfigReference x = xeExpectedConfigReference y"
    "xeExpectedConfigChecksum x = xeExpectedConfigChecksum y"
  using assms unfolding frozen_def by (cases x, cases y, simp)+

definition executionLater :: "ExternalExecution \<Rightarrow> ExternalExecution \<Rightarrow> bool" where
  "executionLater e e' \<longleftrightarrow> frozen e' = frozen e \<and> (if externalIsTerminal (xeStatus e) then e' = e else True)"

definition externalLater :: "externalDb \<Rightarrow> externalDb \<Rightarrow> bool" where
  "externalLater db db' \<longleftrightarrow> prefix (xdEvents db) (xdEvents db') \<and> prefix (xdObservations db) (xdObservations db')
     \<and> (\<forall>e \<in> set (xdExecutions db). \<exists>e' \<in> set (xdExecutions db'). executionLater e e')"

lemma executionLater_refl [simp]: "executionLater e e"
  by (simp add: executionLater_def)

lemma executionLater_trans: "executionLater a b \<Longrightarrow> executionLater b c \<Longrightarrow> executionLater a c"
  by (auto simp: executionLater_def split: if_splits)

lemma externalLater_refl: "externalLater db db"
  using executionLater_refl unfolding externalLater_def by blast

lemma externalLater_trans: "externalLater a b \<Longrightarrow> externalLater b c \<Longrightarrow> externalLater a c"
  unfolding externalLater_def by (meson executionLater_trans prefix_order.trans)

lemma find_execution:
  assumes "distinct (map xeID es)" "e \<in> set es"
  shows "find (\<lambda>x. xeID x = xeID e \<and> xeOrganizationID x = xeOrganizationID e) es = Some e"
proof -
  obtain y where y: "find (\<lambda>x. xeID x = xeID e \<and> xeOrganizationID x = xeOrganizationID e) es = Some y"
    using assms(2) by (cases "find (\<lambda>x. xeID x = xeID e \<and> xeOrganizationID x = xeOrganizationID e) es")
      (auto simp: find_None_iff)
  then have "y \<in> set es" "xeID y = xeID e" by (auto simp: find_Some_iff)
  then have "y = e" using assms by (auto simp: distinct_map inj_on_def)
  then show ?thesis using y by simp
qed

lemma GetExternalExecution_Inr:
  "GetExternalExecution u orgID db = Inr e \<Longrightarrow> e \<in> set (xdExecutions db) \<and> xeID e = u \<and> xeOrganizationID e = orgID"
  by (auto simp: GetExternalExecution_def find_Some_iff split: option.splits)

lemma GetExternalExecution_found:
  "distinct (map xeID (xdExecutions db)) \<Longrightarrow> e \<in> set (xdExecutions db) \<Longrightarrow>
     GetExternalExecution (xeID e) (xeOrganizationID e) db = Inr e"
  by (simp add: GetExternalExecution_def find_execution)

lemma updateExecution_Inr:
  assumes distinct: "distinct (map xeID (xdExecutions db))" and e: "e \<in> set (xdExecutions db)"
    and same: "\<And>x. frozen (f x) = frozen x"
  shows "updateExecution (xeID e) (xeOrganizationID e) f db
    = Inr (f e, db\<lparr>xdExecutions := updateOne e f (xdExecutions db)\<rparr>)"
proof -
  have ids: "map xeID (updateOne e f (xdExecutions db)) = map xeID (xdExecutions db)"
    by (rule map_updateWhere) (rule frozenD [OF same])
  have "find (\<lambda>x. xeID x = xeID (f e) \<and> xeOrganizationID x = xeOrganizationID (f e)) (updateOne e f (xdExecutions db)) = Some (f e)"
    by (rule find_execution) (simp_all add: ids distinct set_updateOne [OF distinct e])
  then show ?thesis by (simp add: updateExecution_def GetExternalExecution_def frozenD(1,2) [OF same] Let_def)
qed

lemma succeeded_updateOne:
  assumes "distinct (map xeID es)" "e \<in> set es" "\<not> externalIsTerminal (xeStatus e)"
  shows "succeeded (updateOne e f es) = (if xeStatus (f e) = ExternalSucceeded then insert (f e) (succeeded es) else succeeded es)"
  using assms(3) by (auto simp: succeeded_def set_updateOne [OF assms(1,2)] externalIsTerminal_def)

lemma externalLater_update:
  assumes "distinct (map xeID (xdExecutions db))" "e \<in> set (xdExecutions db)" "\<not> externalIsTerminal (xeStatus e)"
    and "frozen (f e) = frozen e" and "xdExecutions db' = updateOne e f (xdExecutions db)"
    and "prefix (xdEvents db) (xdEvents db')" "prefix (xdObservations db) (xdObservations db')"
  shows "externalLater db db'"
proof -
  have new: "set (xdExecutions db') = insert (f e) (set (xdExecutions db) - {e})"
    unfolding assms(5) by (rule set_updateOne [OF assms(1,2)])
  have "\<exists>y \<in> set (xdExecutions db'). executionLater x y" if "x \<in> set (xdExecutions db)" for x
  proof (cases "x = e")
    case True
    then have "executionLater x (f e)" using assms(3,4) by (simp add: executionLater_def)
    then show ?thesis unfolding new by blast
  next
    case False
    then have "x \<in> set (xdExecutions db')" using that new by simp
    then show ?thesis using executionLater_refl by blast
  qed
  then show ?thesis using assms(6,7) by (simp add: externalLater_def)
qed

text \<open>An event is stored and its execution updated: the common step of all operations that report.\<close>

lemma insertExternalEvent_Inr:
  assumes "insertExternalExecutionEvent X now request observed hash db = Inr (u, db')"
  shows "xdExecutions db' = xdExecutions db" "xdStates db' = xdStates db" "xdObservations db' = xdObservations db"
    "\<exists>v. xdEvents db' = xdEvents db @ [v] \<and> xvExternalExecutionID v = crqExternalExecutionID request
       \<and> xvOrganizationID v = crqOrganizationID request \<and> xvSequence v = crqSequence request \<and> xvStatus v = crqStatus request
       \<and> xvPayloadHash v = hash"
  using assms by (auto simp: insertExternalExecutionEvent_def nextUuid_def split: option.splits)

lemma report_good:
  assumes inv: "externalInv X db" and e: "e \<in> set (xdExecutions db)" and running: "\<not> externalIsTerminal (xeStatus e)"
    and kept: "xdExecutions db1 = xdExecutions db" "xdEvents db1 = xdEvents db" "prefix (xdObservations db) (xdObservations db1)"
    and states: "stateInv X (if xeStatus (f e) = ExternalSucceeded then insert (f e) (succeeded (xdExecutions db))
       else succeeded (xdExecutions db)) (xdStates db1) (xdObservations db1)"
    and event: "insertExternalExecutionEvent X now request observed hash db1 = Inr (u, db2)"
    and request: "crqExternalExecutionID request = xeID e" "crqOrganizationID request = xeOrganizationID e"
      "crqSequence request = xeLastCallbackSequence e + 1" "crqStatus request = xeStatus (f e)"
    and f: "\<And>x. frozen (f x) = frozen x" "xeLastCallbackSequence (f e) = crqSequence request"
    and status: "externalIsTerminal (xeStatus (f e)) \<or> xeStatus (f e) = ExternalRunning \<and> crqSequence request < 256"
    and update: "updateExecution (xeID e) (xeOrganizationID e) f db2 = Inr (r, db')"
  shows "externalInv X db' \<and> externalLater db db' \<and> r = f e"
proof -
  have history: "historyInv (xdExecutions db) (xdEvents db)" using inv by (simp add: externalInv_def)
  then have distinct: "distinct (map xeID (xdExecutions db))" by (simp add: historyInv_def)
  obtain v where v: "xdEvents db2 = xdEvents db @ [v]" "xvExternalExecutionID v = xeID e" "xvOrganizationID v = xeOrganizationID e"
    "xvSequence v = xeLastCallbackSequence e + 1" "xvStatus v = xeStatus (f e)"
    using insertExternalEvent_Inr(4) [OF event] request kept(2) by auto
  note rest = insertExternalEvent_Inr(1-3) [OF event, unfolded kept(1)]
  have r: "r = f e" and db': "db' = db2\<lparr>xdExecutions := updateOne e f (xdExecutions db)\<rparr>"
    using updateExecution_Inr [of db2 e f] update distinct e f(1) rest(1) by simp_all
  have "historyInv (updateOne e f (xdExecutions db)) (xdEvents db @ [v])"
    by (rule historyInv_advance [OF history e running]) (use frozenD [OF f(1)] v f(2) request(3) status in auto)
  moreover have "externalLater db db'"
    by (rule externalLater_update [where f = f, OF distinct e running f(1)]) (use db' v(1) kept(3) rest in auto)
  ultimately show ?thesis
    using states rest r by (simp add: externalInv_def db' v(1) succeeded_updateOne [OF distinct e running])
qed

lemma wrap64_next:
  assumes "externalInv X db" "e \<in> set (xdExecutions db)"
  shows "wrap64 (xeLastCallbackSequence e + 1) = xeLastCallbackSequence e + 1"
  using history_next(2,3) [of "xdExecutions db" "xdEvents db" e] assms by (intro wrap64_id) (auto simp: externalInv_def)

lemma ended_good:
  assumes inv: "externalInv X db" and e: "e \<in> set (xdExecutions db)" and running: "\<not> externalIsTerminal (xeStatus e)"
    and status: "status = ExternalFailed \<or> status = ExternalTimedOut"
    and tx: "endExecutionLocked X now status e message db = Inr (r, db')"
  shows "externalInv X db' \<and> externalLater db db' \<and> r = endUpdate now status (xeLastCallbackSequence e + 1) message e"
proof -
  let ?request = "endRequest e status message"
  let ?f = "endUpdate now status (crqSequence ?request) message"
  obtain u db2 where event: "insertExternalExecutionEvent X now ?request None (CallbackPayloadHash X ?request) db = Inr (u, db2)"
    and update: "updateExecution (xeID e) (xeOrganizationID e) ?f db2 = Inr (r, db')"
    using tx by (auto simp: endExecutionLocked_def Let_def bindR_eq_Inr split: sum.splits)
  have seq: "crqSequence ?request = xeLastCallbackSequence e + 1"
    by (simp add: endRequest_def wrap64_next [OF inv e])
  have "externalInv X db' \<and> externalLater db db' \<and> r = ?f e"
    by (rule report_good [OF inv e running _ _ _ _ event _ _ seq _ _ _ _ update])
      (use inv status in \<open>auto simp: endRequest_def endUpdate_def frozen_def externalInv_def externalIsTerminal_def\<close>)
  then show ?thesis by (simp add: seq)
qed

lemma ValidateObservedState_ok:
  assumes "ValidateObservedState X (expectedState e) observed = Inr ()"
  shows "xoVersion observed = xeExpectedVersion e" "EqualFold (rlFold (plRelease (xlPlan X))) (xoImage observed) (xeExpectedImage e)"
    "xoPlatform observed = xeExpectedPlatform e"
    "sortStrings (contractList (xoContracts observed)) = sortStrings (xeExpectedContracts e)"
    "xoConfigReference observed = xeExpectedConfigReference e" "xoConfigChecksum observed = xeExpectedConfigChecksum e"
    "xoHealth observed = TargetComponentHealthHealthy"
  using assms by (auto simp: ValidateObservedState_def expectedState_def split: if_splits)

lemma observedStateRow_simps [simp]:
  "tcsID (observedStateRow now e observed checksum s) = tcsID s"
  "componentScope (observedStateRow now e observed checksum s) = componentScope s"
  "tcsStateVersion (observedStateRow now e observed checksum s) = wrap64 (xeExpectedStateVersion e + 1)"
  by (simp_all add: observedStateRow_def componentScope_def)

lemma wrap64_positive: "0 < v \<Longrightarrow> v < 2 ^ 63 \<Longrightarrow> 0 < wrap64 (v + 1) \<Longrightarrow> wrap64 (v + 1) = v + 1 \<and> v + 1 < 2 ^ 63"
  by (cases "v = 2 ^ 63 - 1") (auto simp: wrap64_def)

text \<open>The state and the observation that a successful execution leaves behind.\<close>

lemma project_good:
  assumes inv: "stateInv X ok (xdStates db) (xdObservations db)" and new: "\<And>x. x \<in> ok \<Longrightarrow> xeID x \<noteq> xeID e"
    and valid: "ValidateObservedState X (expectedState e) observed = Inr ()"
    and upsert: "upsertExternalExecutionObservedState X now e observed db = Inr (checksum, db1)"
    and fe: "frozen fe = frozen e" "xeStatus fe = ExternalSucceeded"
  shows "stateInv X (insert fe ok) (xdStates db1) (xdObservations db1) \<and> xdExecutions db1 = xdExecutions db
     \<and> xdEvents db1 = xdEvents db \<and> prefix (xdObservations db) (xdObservations db1)"
proof -
  note fields = frozenD [OF fe(1)]
  have new': "\<And>x. x \<in> ok \<Longrightarrow> xeID x \<noteq> xeID fe" using new fields(1) by simp
  let ?checksum = "ObservedStateChecksum X observed"
  obtain s db0 where written: "writeObservedState X now e observed ?checksum db = Inr (s, db0)"
    and db1: "db1 = insertTargetComponentObservation X now s (xeID e) db0"
    using upsert by (auto simp: upsertExternalExecutionObservedState_def Let_def bindR_eq_Inr)
  define ob where "ob = last (xdObservations db1)"
  have obs: "xdObservations db1 = xdObservations db0 @ [ob]" and showing: "showsState s ob"
    and id: "tcoExternalExecutionID ob = Some (xeID e)" and scope: "observationScope ob = componentScope s"
    and tables: "xdStates db1 = xdStates db0" "xdExecutions db1 = xdExecutions db0" "xdEvents db1 = xdEvents db0"
    by (simp_all add: db1 insertTargetComponentObservation_def nextUuid_def ob_def showsState_def componentScope_def observationScope_def)
  have reflects: "reflects X fe ob"
    if "tcsStateVersion s = xeExpectedStateVersion e + 1" "componentScope s = executionScope e"
      and "s = observedStateRow now e observed ?checksum t" for t
    using that(1,2) showing id scope fe(2) ValidateObservedState_ok [OF valid]
    unfolding reflects_def executionScope_def fields showsState_def that(3) by (simp add: observedStateRow_def)
  show ?thesis
  proof (cases "xeExpectedStateVersion e = 0")
    case True
    define t where "t = emptyStateRow (newUuid X db) now e"
    have s: "s = observedStateRow now e observed ?checksum t" and db0: "db0 = nextUuid (db\<lparr>xdStates := xdStates db @ [s]\<rparr>)"
      and fresh: "\<not> list_ex (\<lambda>x. sameComponent e x \<or> tcsID x = newUuid X db) (xdStates db)"
      using written True by (auto simp: writeObservedState_def Let_def t_def split: option.splits if_splits)
    have scope_s: "componentScope s = executionScope e"
      by (simp add: s t_def) (simp add: componentScope_def executionScope_def emptyStateRow_def)
    have version: "tcsStateVersion s = 1" by (simp add: s True wrap64_def)
    have "tcsID s \<notin> tcsID ` set (xdStates db)" "componentScope s \<notin> componentScope ` set (xdStates db)"
      using fresh unfolding scope_s by (auto simp: list_ex_iff s t_def emptyStateRow_def componentScope_def executionScope_def sameComponent_def)
    then have "stateInv X (insert fe ok) (xdStates db @ [s]) (xdObservations db @ [ob])"
      by (intro stateInv_first [OF inv new' reflects [OF _ scope_s s]] version showing) (simp_all add: version True)
    then show ?thesis using obs tables by (simp add: db0 nextUuid_def)
  next
    case False
    define expected where "expected x \<longleftrightarrow> sameComponent e x \<and> tcsStateVersion x = xeExpectedStateVersion e
      \<and> tcsStateChecksum x = xeExpectedStateChecksum e" for x
    obtain t where t: "find expected (xdStates db) = Some t" and s: "s = observedStateRow now e observed ?checksum t"
      and db0: "db0 = db\<lparr>xdStates := updateWhere expected (observedStateRow now e observed ?checksum) (xdStates db)\<rparr>"
      and sane: "stateViolation e observed = None"
      using written False unfolding writeObservedState_def Let_def expected_def [abs_def, symmetric]
      by (auto split: option.splits)
    have in_: "t \<in> set (xdStates db)" and "expected t" using t by (auto simp: find_Some_iff)
    then have scope_t: "componentScope t = executionScope e"
      and version_t: "tcsStateVersion t = xeExpectedStateVersion e"
      by (auto simp: expected_def sameComponent_def componentScope_def executionScope_def)
    have only: "expected x \<longleftrightarrow> x = t" if "x \<in> set (xdStates db)" for x
    proof
      assume "expected x"
      then have "componentScope x = componentScope t"
        unfolding scope_t by (auto simp: expected_def sameComponent_def componentScope_def executionScope_def)
      then show "x = t" using inv in_ that by (auto simp: stateInv_def distinct_map inj_on_def)
    qed (use \<open>expected t\<close> in simp)
    have "chainOk t (observationsOf t (xdObservations db))" using inv in_ by (simp add: stateInv_def)
    then have bounds: "0 < tcsStateVersion t" "tcsStateVersion t < 2 ^ 63" by (auto simp: chainOk_def)
    have "0 < wrap64 (tcsStateVersion t + 1)" using sane version_t by (auto simp: stateViolation_def split: if_splits)
    with bounds have next_t: "wrap64 (tcsStateVersion t + 1) = tcsStateVersion t + 1" "tcsStateVersion t + 1 < 2 ^ 63"
      using wrap64_positive by blast+
    then have version: "tcsStateVersion s = xeExpectedStateVersion e + 1" by (simp add: s version_t)
    have scope_s: "componentScope s = executionScope e"
      by (simp add: s scope_t)
    have "stateInv X (insert fe ok) (updateWhere expected (observedStateRow now e observed ?checksum) (xdStates db)) (xdObservations db @ [ob])"
      by (rule stateInv_next [OF inv new' reflects [OF version scope_s s] in_ only])
        (use version version_t next_t showing s in auto)
    then show ?thesis using obs tables by (simp add: db0)
  qed
qed

lemma succeeded_other:
  assumes "externalInv X db" "e \<in> set (xdExecutions db)" "\<not> externalIsTerminal (xeStatus e)" "x \<in> succeeded (xdExecutions db)"
  shows "xeID x \<noteq> xeID e"
proof
  assume "xeID x = xeID e"
  then have "x = e" using assms(1,2,4) by (auto simp: externalInv_def historyInv_def succeeded_def distinct_map inj_on_def)
  then show False using assms(3,4) by (simp add: succeeded_def externalIsTerminal_def)
qed

lemma frozen_callbackUpdate [simp]: "frozen (callbackUpdate now request execution checksum e) = frozen e"
  by (simp add: frozen_def callbackUpdate_def Let_def)

lemma callbackUpdate_simps [simp]:
  "xeStatus (callbackUpdate now request execution checksum e) = crqStatus request"
  "xeLastCallbackSequence (callbackUpdate now request execution checksum e) = crqSequence request"
  by (simp_all add: callbackUpdate_def Let_def)

lemma callback_good:
  assumes inv: "externalInv X db" and tx: "callbackTx X now request db = Inr ((expired, r), db')"
  shows "externalInv X db' \<and> externalLater db db'"
proof -
  obtain e where get: "GetExternalExecution (crqExternalExecutionID request) (crqOrganizationID request) db = Inr e"
    using tx by (auto simp: callbackTx_def getExternalExecutionForUpdate_def bindR_eq_Inr)
  have e: "e \<in> set (xdExecutions db)" and ids: "crqExternalExecutionID request = xeID e" "crqOrganizationID request = xeOrganizationID e"
    using GetExternalExecution_Inr [OF get] by auto
  note tx = tx [unfolded callbackTx_def getExternalExecutionForUpdate_def get bindR_simps]
  show ?thesis
  proof (cases "getExternalExecutionEventPayloadHash (crqExternalExecutionID request) (crqOrganizationID request) (crqSequence request) db")
    case (Inr h)
    then show ?thesis using tx inv externalLater_refl by (simp split: if_splits)
  next
    case (Inl err)
    note tx = tx [unfolded Inl sum.case]
    have running: "\<not> externalIsTerminal (xeStatus e)" using tx by (auto split: if_splits)
    show ?thesis
    proof (cases "now < xeCallbackDeadlineAt e")
      case False
      then have "timeoutExternalExecutionLocked X now e ''external execution callback timed out'' db = Inr (r, db')"
        using tx running by (auto simp: bindR_eq_Inr)
      then show ?thesis using ended_good [OF inv e running, of ExternalTimedOut] unfolding timeoutExternalExecutionLocked_def by blast
    next
      case True
      have seq: "crqSequence request = xeLastCallbackSequence e + 1"
        and sequence: "ValidateCallbackSequence (crqSequence request) (crqStatus request) = Inr ()"
        and can: "CanCallbackTransition (xeStatus e) (crqStatus request)"
        using tx running True wrap64_next [OF inv e] by (auto split: if_splits sum.splits)
      obtain checksum db1 u db2 where project: "projectObservedState X now e request db = Inr (checksum, db1)"
        and event: "insertExternalExecutionEvent X now request
          (if crqStatus request = ExternalSucceeded then crqObservedState request else None) (CallbackPayloadHash X request) db1 = Inr (u, db2)"
        and update: "updateExternalExecutionFromCallback now e request checksum db2 = Inr (r, db')"
        using tx running True seq sequence can wrap64_next [OF inv e] by (auto simp: bindR_eq_Inr)
      let ?f = "callbackUpdate now request e checksum"
      let ?ok = "succeeded (xdExecutions db)"
      have old: "stateInv X ?ok (xdStates db) (xdObservations db)" using inv by (simp add: externalInv_def)
      have parts: "xdExecutions db1 = xdExecutions db \<and> xdEvents db1 = xdEvents db \<and> prefix (xdObservations db) (xdObservations db1)
        \<and> stateInv X (if xeStatus (?f e) = ExternalSucceeded then insert (?f e) ?ok else ?ok) (xdStates db1) (xdObservations db1)"
      proof (cases "crqStatus request = ExternalSucceeded")
        case True
        then obtain observed where valid: "ValidateObservedState X (expectedState e) observed = Inr ()"
          and upsert: "upsertExternalExecutionObservedState X now e observed db = Inr (checksum, db1)"
          using project by (auto simp: projectObservedState_def split: option.splits sum.splits)
        show ?thesis
          using project_good [OF old succeeded_other [OF inv e running] valid upsert, of "?f e"] True by simp
      qed (use project old in \<open>auto simp: projectObservedState_def split: if_splits\<close>)
      have status: "externalIsTerminal (xeStatus (?f e)) \<or> xeStatus (?f e) = ExternalRunning \<and> crqSequence request < 256"
        using can sequence
        by (auto simp: CanCallbackTransition_def IsCallbackStatus_def externalIsTerminal_def ValidateCallbackSequence_def
            MaxEventCount_def split: if_splits)
      have "externalInv X db' \<and> externalLater db db' \<and> r = ?f e"
        by (rule report_good [OF inv e running _ _ _ _ event ids seq _ _ _ status update [unfolded updateExternalExecutionFromCallback_def]])
          (use parts in simp_all)
      then show ?thesis by simp
    qed
  qed
qed

lemma mark_good:
  assumes inv: "externalInv X db" and tx: "markTx now request db = Inr (r, db')"
  shows "externalInv X db' \<and> externalLater db db'"
proof -
  obtain e where get: "GetExternalExecution (mrqExternalExecutionID request) (mrqOrganizationID request) db = Inr e"
    and queued: "xeStatus e = ExternalQueued"
    and update: "updateExecution (xeID e) (xeOrganizationID e)
       (\<lambda>e. e\<lparr>xeStatus := ExternalRunning, xeStartedAt := coalesce (xeStartedAt e) now,
          xeTriggerAttempts := max (xeTriggerAttempts e) (mrqTriggerAttempts request), xeUpdatedAt := now\<rparr>) db = Inr (r, db')"
      (is "updateExecution _ _ ?f _ = _")
    using tx GetExternalExecution_Inr by (fastforce simp: markTx_def getExternalExecutionForUpdate_def bindR_eq_Inr split: if_splits)
  have e: "e \<in> set (xdExecutions db)" using GetExternalExecution_Inr [OF get] by simp
  have history: "historyInv (xdExecutions db) (xdEvents db)" using inv by (simp add: externalInv_def)
  then have distinct: "distinct (map xeID (xdExecutions db))" by (simp add: historyInv_def)
  have running: "\<not> externalIsTerminal (xeStatus e)" using queued by (simp add: externalIsTerminal_def)
  have f: "frozen (?f x) = frozen x" for x by (simp add: frozen_def)
  have db': "db' = db\<lparr>xdExecutions := updateOne e ?f (xdExecutions db)\<rparr>"
    using updateExecution_Inr [OF distinct e f] update by simp
  have "historyInv (updateOne e ?f (xdExecutions db)) (xdEvents db)"
    by (rule historyInv_trigger [OF history e queued]) simp_all
  then have "externalInv X db'"
    using inv by (simp add: externalInv_def db' succeeded_updateOne [OF distinct e running])
  moreover have "externalLater db db'"
    by (rule externalLater_update [where f = ?f, OF distinct e running f]) (simp_all add: db')
  ultimately show ?thesis ..
qed

lemma timeout_good:
  assumes inv: "externalInv X db" and tx: "timeoutTx X now request db = Inr (r, db')"
  shows "externalInv X db' \<and> externalLater db db'"
proof -
  obtain e where get: "GetExternalExecution (nrqExternalExecutionID request) (nrqOrganizationID request) db = Inr e"
    using tx by (auto simp: timeoutTx_def getExternalExecutionForUpdate_def bindR_eq_Inr)
  have e: "e \<in> set (xdExecutions db)" using GetExternalExecution_Inr [OF get] by simp
  note tx = tx [unfolded timeoutTx_def getExternalExecutionForUpdate_def get bindR_simps timeoutExternalExecutionLocked_def]
  show ?thesis
  proof (cases "externalIsTerminal (xeStatus e)")
    case True
    then show ?thesis using tx inv externalLater_refl by simp
  next
    case False
    then obtain message where "endExecutionLocked X now ExternalTimedOut e message db = Inr (r, db')" using tx by (auto split: if_splits)
    then show ?thesis using ended_good [OF inv e False] by blast
  qed
qed

lemma fail_good:
  assumes inv: "externalInv X db" and tx: "failTx X now request db = Inr (r, db')"
  shows "externalInv X db' \<and> externalLater db db'"
proof -
  obtain e where get: "GetExternalExecution (nrqExternalExecutionID request) (nrqOrganizationID request) db = Inr e"
    using tx by (auto simp: failTx_def getExternalExecutionForUpdate_def bindR_eq_Inr)
  have e: "e \<in> set (xdExecutions db)" using GetExternalExecution_Inr [OF get] by simp
  note tx = tx [unfolded failTx_def getExternalExecutionForUpdate_def get bindR_simps timeoutExternalExecutionLocked_def]
  show ?thesis
  proof (cases "externalIsTerminal (xeStatus e)")
    case True
    then show ?thesis using tx inv externalLater_refl by simp
  next
    case False
    then obtain message where "endExecutionLocked X now ExternalFailed e message db = Inr (r, db')" using tx by (auto split: if_splits)
    then show ?thesis using ended_good [OF inv e False] by blast
  qed
qed

text \<open>Tables of this component other than the executions stay; an execution may be added.\<close>

lemma sameTables_good:
  assumes "externalInv X db" "xdExecutions db' = xdExecutions db" "xdEvents db' = xdEvents db" "xdStates db' = xdStates db"
    "xdObservations db' = xdObservations db"
  shows "externalInv X db' \<and> externalLater db db'"
  using assms externalLater_refl [of db] by (simp add: externalInv_def externalLater_def)

lemma insertExecution_Inr:
  assumes "insertExternalExecution X now e0 db = Inr (e, db')"
  shows "db' = db\<lparr>xdExecutions := xdExecutions db @ [e]\<rparr>" "xeStatus e = xeStatus e0"
    "xeLastCallbackSequence e = xeLastCallbackSequence e0" "xeID e \<notin> xeID ` set (xdExecutions db)"
proof -
  have none: "executionViolation e0 db = None" using assms by (auto simp: insertExternalExecution_def split: option.splits)
  then have "\<not> list_ex (\<lambda>f. xeID f = xeID e0 \<or> xeStepRunID f = xeStepRunID e0
           \<or> xeOrganizationID f = xeOrganizationID e0 \<and> xeIdempotencyKey f = xeIdempotencyKey e0) (xdExecutions db)"
    unfolding executionViolation_def by (simp only: option.distinct split: if_splits) simp
  moreover have e: "e = e0\<lparr>xeCreatedAt := now, xeUpdatedAt := now\<rparr> \<and> db' = db\<lparr>xdExecutions := xdExecutions db @ [e]\<rparr>"
    using assms none by (auto simp: insertExternalExecution_def Let_def)
  ultimately show "xeID e \<notin> xeID ` set (xdExecutions db)" by (auto simp: list_ex_iff)
  show "db' = db\<lparr>xdExecutions := xdExecutions db @ [e]\<rparr>" "xeStatus e = xeStatus e0"
    "xeLastCallbackSequence e = xeLastCallbackSequence e0" using e by simp_all
qed

lemma created_good:
  assumes inv: "externalInv X db"
    and kept: "xdExecutions db1 = xdExecutions db" "xdEvents db1 = xdEvents db" "xdStates db1 = xdStates db"
      "xdObservations db1 = xdObservations db"
    and tx: "createExecution X now request source plan db1 = Inr (r, db')"
  shows "externalInv X db' \<and> externalLater db db'"
proof -
  obtain c1 c2 c3 where tx': "insertExternalExecution X now (newExecution X now request source c1 c2 c3 (newUuid X db1)) (nextUuid db1) = Inr (r, db')"
    using tx by (auto simp: createExecution_def bindR_eq_Inr Let_def)
  have e: "db' = nextUuid db1 \<lparr>xdExecutions := xdExecutions db @ [r]\<rparr>" "xeStatus r = ExternalQueued"
      "xeLastCallbackSequence r = 0" "xeID r \<notin> xeID ` set (xdExecutions db)"
    using insertExecution_Inr [OF tx'] by (simp_all add: newExecution_def nextUuid_def kept)
  have "historyInv (xdExecutions db @ [r]) (xdEvents db)"
    using inv by (intro historyInv_new e(2-4)) (simp add: externalInv_def)
  moreover have "succeeded (xdExecutions db @ [r]) = succeeded (xdExecutions db)" using e(2) by (auto simp: succeeded_def)
  ultimately show ?thesis
    using inv kept externalLater_refl [of db] by (auto simp: externalInv_def externalLater_def e(1) nextUuid_def)
qed

lemma storePreflightRun_kept:
  assumes "storePreflightRun X now run db = Inr (r, db1)"
  shows "xdExecutions db1 = xdExecutions db" "xdEvents db1 = xdEvents db" "xdStates db1 = xdStates db"
    "xdObservations db1 = xdObservations db"
  using assms by (auto simp: storePreflightRun_def Let_def split: if_splits)

lemma attach_kept [simp]:
  "xdExecutions (attachDeploymentPreflightTasks runID orgID db) = xdExecutions db"
  "xdEvents (attachDeploymentPreflightTasks runID orgID db) = xdEvents db"
  "xdStates (attachDeploymentPreflightTasks runID orgID db) = xdStates db"
  "xdObservations (attachDeploymentPreflightTasks runID orgID db) = xdObservations db"
  by (simp_all add: attachDeploymentPreflightTasks_def)

lemma prepare_good:
  assumes inv: "externalInv X db" and tx: "prepareTx X V now request db = Inr (r, db')"
  shows "externalInv X db' \<and> externalLater db db'"
proof -
  obtain source where source: "getExternalExecutionSource request db = Inr source"
    using tx by (auto simp: prepareTx_def bindR_eq_Inr)
  note tx = tx [unfolded prepareTx_def source bindR_simps]
  show ?thesis
  proof (cases "getExternalExecutionByStepRun (prqStepRunID request) (prqOrganizationID request) db")
    case (Inr existing)
    then show ?thesis using tx inv externalLater_refl by (simp split: if_splits)
  next
    case (Inl err)
    then obtain plan run passed preflight db1 where stored: "storePreflightRun X now run db = Inr (preflight, db1)"
      and rest: "(let db = attachDeploymentPreflightTasks (pfrID preflight) (prqOrganizationID request) db1 in
           if \<not> passed then Inr (Inl preflight, db)
           else bindR (createExecution X now request source plan db) (\<lambda>(execution, db). Inr (Inr execution, db))) = Inr (r, db')"
      using tx by (auto simp: bindR_eq_Inr split: if_splits option.splits)
    let ?db = "attachDeploymentPreflightTasks (pfrID preflight) (prqOrganizationID request) db1"
    note kept = storePreflightRun_kept [OF stored]
    show ?thesis
    proof (cases passed)
      case True
      then obtain execution where "createExecution X now request source plan ?db = Inr (execution, db')"
        using rest by (auto simp: Let_def bindR_eq_Inr)
      then show ?thesis by (rule created_good [OF inv, rotated -1]) (simp_all add: kept)
    next
      case False
      then have "db' = ?db" using rest by (simp add: Let_def)
      then show ?thesis using sameTables_good [OF inv] kept by simp
    qed
  qed
qed

section \<open>Runs\<close>

datatype ExternalCall =
    PrepareCall preflightWorld PrepareExternalExecutionRequest
  | MarkCall MarkExternalExecutionTriggeredRequest
  | CallbackCall RecordExternalExecutionCallbackRequest
  | TimeoutCall EndExternalExecutionRequest
  | FailCall EndExternalExecutionRequest
  | OtherTables database "ReleasePlan list" "PreflightRun list"

fun externalStep :: "externalLib \<Rightarrow> externalDb \<Rightarrow> timestamp \<times> ExternalCall \<Rightarrow> externalDb" where
  "externalStep X db (now, PrepareCall V request) = snd (PrepareExternalExecution X V now request db)"
| "externalStep X db (now, MarkCall request) = snd (MarkExternalExecutionTriggered now request db)"
| "externalStep X db (now, CallbackCall request) = snd (RecordExternalExecutionCallback X now request db)"
| "externalStep X db (now, TimeoutCall request) = snd (TimeoutExternalExecution X now request db)"
| "externalStep X db (now, FailCall request) = snd (FailExternalExecution X now request db)"
| "externalStep X db (now, OtherTables queue plans runs) =
     db\<lparr>xdQueue := queue, xdPlans := plans, xdPreflightRuns := runs\<rparr>"

definition runExternalCalls :: "externalLib \<Rightarrow> (timestamp \<times> ExternalCall) list \<Rightarrow> externalDb \<Rightarrow> externalDb" where
  "runExternalCalls X calls db = foldl (externalStep X) db calls"

definition externalGood :: "externalLib \<Rightarrow> externalDb \<Rightarrow> externalDb \<Rightarrow> bool" where
  "externalGood X db0 db \<longleftrightarrow> externalInv X db \<and> externalLater db0 db"

lemma runExternal_good:
  assumes "externalGood X db0 db" "\<And>x db'. m db = Inr (x, db') \<Longrightarrow> externalInv X db' \<and> externalLater db db'"
  shows "externalGood X db0 (snd (runExternal m db))"
  using assms externalLater_trans by (auto simp: runExternal_def externalGood_def split: sum.split)

lemma externalStep_good:
  assumes good: "externalGood X db0 db"
  shows "externalGood X db0 (externalStep X db call)"
proof -
  have inv: "externalInv X db" using good by (simp add: externalGood_def)
  obtain now c where call: "call = (now, c)" by fastforce
  show ?thesis
  proof (cases c)
    case (PrepareCall V request)
    have "externalGood X db0 (snd (runExternal (prepareTx X V now r) db))" for r
      by (rule runExternal_good [OF good]) (rule prepare_good [OF inv])
    then show ?thesis using good
      by (auto simp: call PrepareCall PrepareExternalExecution_def split: sum.split prod.split) (metis snd_conv)+
  next
    case (MarkCall request)
    have "externalGood X db0 (snd (runExternal (markTx now request) db))"
      by (rule runExternal_good [OF good]) (rule mark_good [OF inv])
    then show ?thesis using good by (simp add: call MarkCall MarkExternalExecutionTriggered_def)
  next
    case (CallbackCall request)
    have "externalGood X db0 (snd (runExternal (callbackTx X now r) db))" for r
      by (rule runExternal_good [OF good]) (auto dest: callback_good [OF inv])
    then show ?thesis using good
      by (auto simp: call CallbackCall RecordExternalExecutionCallback_def split: sum.split prod.split bool.split) (metis snd_conv)+
  next
    case (TimeoutCall request)
    have "externalGood X db0 (snd (runExternal (timeoutTx X now request) db))"
      by (rule runExternal_good [OF good]) (rule timeout_good [OF inv])
    then show ?thesis using good by (simp add: call TimeoutCall TimeoutExternalExecution_def)
  next
    case (FailCall request)
    have "externalGood X db0 (snd (runExternal (failTx X now request) db))"
      by (rule runExternal_good [OF good]) (rule fail_good [OF inv])
    then show ?thesis using good by (simp add: call FailCall FailExternalExecution_def)
  next
    case (OtherTables queue plans runs)
    have "externalInv X (externalStep X db call) \<and> externalLater db (externalStep X db call)"
      by (rule sameTables_good [OF inv]) (simp_all add: call OtherTables)
    then show ?thesis using good externalLater_trans by (auto simp: externalGood_def)
  qed
qed

interpretation external: driven_machine "externalStep X" "\<lambda>_ _. True" "externalGood X db0" for X db0
  by unfold_locales (rule externalStep_good)

text \<open>A hub starts with empty tables of its own.\<close>

definition emptyExternal :: "externalDb \<Rightarrow> bool" where
  "emptyExternal db \<longleftrightarrow> xdExecutions db = [] \<and> xdEvents db = [] \<and> xdStates db = [] \<and> xdObservations db = []"

lemma emptyExternal_inv: "emptyExternal db \<Longrightarrow> externalInv X db"
  by (simp add: emptyExternal_def externalInv_def historyInv_def stateInv_def succeeded_def)

lemma runExternalCalls_good:
  assumes "externalInv X db"
  shows "externalInv X (runExternalCalls X calls db)" "externalLater db (runExternalCalls X calls db)"
  using external.inv_run_static [of X db db calls] assms externalLater_refl
  unfolding runExternalCalls_def externalGood_def by simp_all

lemma runExternalCalls_append: "runExternalCalls X (cs @ ds) db = runExternalCalls X ds (runExternalCalls X cs db)"
  by (simp add: runExternalCalls_def)

end
