(* ===== verification/External_Properties.thy ===== *)
theory External_Properties
  imports External_History
begin

text \<open>
  The properties of external executions: their event history, the states of the target components they leave
  behind, repeated callbacks, and that an execution can always be ended.
\<close>

section \<open>Where a run starts\<close>

text \<open>Executions may have been prepared, but nothing has been reported or observed.\<close>

definition freshExternal :: "externalDb \<Rightarrow> bool" where
  "freshExternal db \<longleftrightarrow> distinct (map xeID (xdExecutions db))
     \<and> list_all (\<lambda>e. xeStatus e = ExternalQueued \<and> xeLastCallbackSequence e = 0) (xdExecutions db)
     \<and> xdEvents db = [] \<and> xdStates db = [] \<and> xdObservations db = []"

lemma fresh_inv: "freshExternal db \<Longrightarrow> externalInv X db"
  by (auto simp: freshExternal_def externalInv_def historyInv_def historyOk_def stateInv_def succeeded_def
      externalIsTerminal_def list_all_iff)

lemma run_inv: "freshExternal db0 \<Longrightarrow> externalInv X (runExternalCalls X calls db0)"
  by (intro runExternalCalls_good fresh_inv)

section \<open>Histories\<close>

lemma history_terminal:
  assumes "historyOk e vs"
  shows "externalIsTerminal (xeStatus e) \<longleftrightarrow> (\<exists>v \<in> set vs. externalIsTerminal (xvStatus v))"
    "externalIsTerminal (xeStatus e) \<Longrightarrow> xvStatus (last vs) = xeStatus e \<and> vs \<noteq> []"
    "\<forall>v \<in> set (butlast vs). xvStatus v = ExternalRunning"
    "length vs \<le> 256"
proof -
  have running: "\<not> externalIsTerminal ExternalRunning" by (simp add: externalIsTerminal_def)
  show "externalIsTerminal (xeStatus e) \<longleftrightarrow> (\<exists>v \<in> set vs. externalIsTerminal (xvStatus v))"
    using assms running unfolding historyOk_def by (metis last_in_set)
  show "externalIsTerminal (xeStatus e) \<Longrightarrow> xvStatus (last vs) = xeStatus e \<and> vs \<noteq> []"
    using assms by (simp add: historyOk_def)
  show "\<forall>v \<in> set (butlast vs). xvStatus v = ExternalRunning"
    using assms in_set_butlastD unfolding historyOk_def by metis
  show "length vs \<le> 256" using assms unfolding historyOk_def by (metis nat_less_le)
qed

text \<open>A terminal execution and its events stay.\<close>

lemma terminal_stays:
  assumes inv: "externalInv X db" and e: "e \<in> set (xdExecutions db)" and terminal: "externalIsTerminal (xeStatus e)"
  shows "e \<in> set (xdExecutions (runExternalCalls X calls db))"
    "eventsOf e (xdEvents (runExternalCalls X calls db)) = eventsOf e (xdEvents db)"
proof -
  let ?db = "runExternalCalls X calls db"
  have inv': "externalInv X ?db" and later: "externalLater db ?db" by (rule runExternalCalls_good [OF inv])+
  then show e': "e \<in> set (xdExecutions ?db)"
    using e terminal by (fastforce simp: externalLater_def executionLater_def)
  obtain ws where "xdEvents ?db = xdEvents db @ ws" using later by (auto simp: externalLater_def prefix_def)
  then have events: "eventsOf e (xdEvents ?db) = eventsOf e (xdEvents db) @ eventsOf e ws" by simp
  have "int (length (eventsOf e (xdEvents ?db))) = int (length (eventsOf e (xdEvents db)))"
    using historyInvD [of "xdExecutions db" "xdEvents db" e] historyInvD [of "xdExecutions ?db" "xdEvents ?db" e] inv inv' e e'
    by (simp add: externalInv_def historyOk_def)
  then show "eventsOf e (xdEvents ?db) = eventsOf e (xdEvents db)" using events by simp
qed

text \<open>C28: in every reachable state the events of an external execution are numbered from 1 without gaps up to its last
  callback sequence, at most 256 of them; all but the last report RUNNING, the execution has ended exactly if one of
  them is terminal, and then it has the status of the last. An execution that has ended keeps its row and its
  events for ever.\<close>

theorem external_execution_history:
  assumes start: "freshExternal db0" and e: "e \<in> set (xdExecutions (runExternalCalls X calls db0))"
  shows "(let vs = eventsOf e (xdEvents (runExternalCalls X calls db0)) in
     map xvSequence vs = map int [1..<Suc (length vs)] \<and> xeLastCallbackSequence e = int (length vs) \<and> length vs \<le> 256
     \<and> (\<forall>v \<in> set (butlast vs). xvStatus v = ExternalRunning)
     \<and> (externalIsTerminal (xeStatus e) \<longleftrightarrow> (\<exists>v \<in> set vs. externalIsTerminal (xvStatus v)))
     \<and> (externalIsTerminal (xeStatus e) \<longrightarrow> xvStatus (last vs) = xeStatus e
          \<and> e \<in> set (xdExecutions (runExternalCalls X (calls @ later) db0))
          \<and> eventsOf e (xdEvents (runExternalCalls X (calls @ later) db0)) = vs))"
proof -
  let ?db = "runExternalCalls X calls db0"
  have inv: "externalInv X ?db" by (rule run_inv [OF start])
  then have ok: "historyOk e (eventsOf e (xdEvents ?db))" using historyInvD e by (auto simp: externalInv_def)
  show ?thesis
    using history_terminal [OF ok] ok terminal_stays [OF inv e] unfolding Let_def historyOk_def runExternalCalls_append by blast
qed

section \<open>States of target components\<close>

lemma observation_of:
  assumes inv: "stateInv X ok ss obs" and e: "e \<in> ok"
  obtains ob f s where "ob \<in> set obs" "f \<in> ok" "reflects X f ob" "xeID f = xeID e" "s \<in> set ss"
    "tcoTargetComponentStateID ob = tcsID s" "observationScope ob = componentScope s" "1 \<le> tcoStateVersion ob" "tcoStateVersion ob \<le> tcsStateVersion s"
proof -
  obtain ob where ob: "ob \<in> set obs" "tcoExternalExecutionID ob = Some (xeID e)" using inv e unfolding stateInv_def by force
  obtain f where f: "f \<in> ok" "reflects X f ob" using inv ob(1) unfolding stateInv_def by blast
  obtain s where s: "s \<in> set ss" "tcoTargetComponentStateID ob = tcsID s" "observationScope ob = componentScope s"
    using inv ob(1) unfolding stateInv_def by blast
  have "chainOk s (observationsOf s obs)" using inv s(1) by (simp add: stateInv_def)
  moreover have "tcoStateVersion ob \<in> set (map tcoStateVersion (observationsOf s obs))" using ob(1) s(2) by simp
  ultimately have "1 \<le> tcoStateVersion ob" "tcoStateVersion ob \<le> tcsStateVersion s"
    unfolding chainOk_def by (auto simp del: upt_Suc)
  moreover have "xeID f = xeID e" using f(2) ob(2) by (simp add: reflects_def)
  ultimately show ?thesis using that ob(1) f s by blast
qed

lemma versions_once:
  assumes inv: "stateInv X ok ss obs" and a: "a \<in> set obs" and b: "b \<in> set obs"
    and same: "tcoTargetComponentStateID a = tcoTargetComponentStateID b" "tcoStateVersion a = tcoStateVersion b"
  shows "a = b"
proof -
  obtain s where s: "s \<in> set ss" "tcoTargetComponentStateID a = tcsID s" using inv a unfolding stateInv_def by blast
  have "chainOk s (observationsOf s obs)" using inv s(1) by (simp add: stateInv_def)
  then have "distinct (map tcoStateVersion (observationsOf s obs))"
    unfolding chainOk_def by (simp add: distinct_map inj_on_def del: upt_Suc)
  then show ?thesis using a b s same by (auto simp: distinct_map inj_on_def)
qed

text \<open>C27: the state of a target component is the last of its observations, and these carry the versions 1, 2, ... without a
  gap, so no write of a state is lost; every observation is what a successful execution was expected to leave, one
  version after the one that its plan saw; and of all executions planned against the same state of a
  component at most one succeeds.\<close>

theorem target_states_follow_executions:
  assumes start: "freshExternal db0"
  shows "(let db = runExternalCalls X calls db0 in
     distinct (map componentScope (xdStates db))
     \<and> (\<forall>s \<in> set (xdStates db). let obs = observationsOf s (xdObservations db) in
          map tcoStateVersion obs = map int [1..<Suc (length obs)] \<and> obs \<noteq> [] \<and> showsState s (last obs))
     \<and> (\<forall>ob \<in> set (xdObservations db). \<exists>e \<in> set (xdExecutions db). reflects X e ob)
     \<and> (\<forall>e \<in> succeeded (xdExecutions db).
          (\<exists>s \<in> set (xdStates db). componentScope s = executionScope e \<and> xeExpectedStateVersion e < tcsStateVersion s)
          \<and> (\<forall>f \<in> succeeded (xdExecutions db). executionScope f = executionScope e \<longrightarrow>
               xeExpectedStateVersion f = xeExpectedStateVersion e \<longrightarrow> f = e)))"
proof -
  let ?db = "runExternalCalls X calls db0"
  let ?ok = "succeeded (xdExecutions ?db)"
  have "externalInv X ?db" by (rule run_inv [OF start])
  then have inv: "stateInv X ?ok (xdStates ?db) (xdObservations ?db)" and distinct: "distinct (map xeID (xdExecutions ?db))"
    by (simp_all add: externalInv_def historyInv_def)
  have unique: "x = y" if "x \<in> ?ok" "y \<in> ?ok" "xeID x = xeID y" for x y
    using that distinct by (auto simp: succeeded_def distinct_map inj_on_def)
  have observed: "\<exists>ob s. ob \<in> set (xdObservations ?db) \<and> reflects X e ob \<and> s \<in> set (xdStates ?db)
      \<and> tcoTargetComponentStateID ob = tcsID s \<and> observationScope ob = componentScope s \<and> tcoStateVersion ob \<le> tcsStateVersion s"
    if e: "e \<in> ?ok" for e
    by (rule observation_of [OF inv e]) (use unique e in blast)
  have first: "\<exists>s \<in> set (xdStates ?db). componentScope s = executionScope e \<and> xeExpectedStateVersion e < tcsStateVersion s"
    if "e \<in> ?ok" for e
    using observed [OF that] unfolding reflects_def by force
  have second: "f = e" if e: "e \<in> ?ok" and f: "f \<in> ?ok" and same: "executionScope f = executionScope e"
      "xeExpectedStateVersion f = xeExpectedStateVersion e" for e f
  proof -
    obtain a s where a: "a \<in> set (xdObservations ?db)" "reflects X e a" "s \<in> set (xdStates ?db)"
      "tcoTargetComponentStateID a = tcsID s" "observationScope a = componentScope s" using observed [OF e] by blast
    obtain b t where b: "b \<in> set (xdObservations ?db)" "reflects X f b" "t \<in> set (xdStates ?db)"
      "tcoTargetComponentStateID b = tcsID t" "observationScope b = componentScope t" using observed [OF f] by blast
    have "componentScope s = componentScope t" using a b same by (simp add: reflects_def)
    then have "s = t" using inv a(3) b(3) by (auto simp: stateInv_def distinct_map inj_on_def)
    then have "a = b" using versions_once [OF inv a(1) b(1)] a b same by (simp add: reflects_def)
    then have "xeID f = xeID e" using a(2) b(2) by (simp add: reflects_def)
    then show "f = e" by (rule unique [OF f e])
  qed
  show ?thesis
    unfolding Let_def
  proof (intro conjI ballI impI)
    show "distinct (map componentScope (xdStates ?db))" using inv by (simp add: stateInv_def)
    fix s assume "s \<in> set (xdStates ?db)"
    then have chain: "chainOk s (observationsOf s (xdObservations ?db))" using inv by (simp add: stateInv_def)
    show "map tcoStateVersion (observationsOf s (xdObservations ?db)) = map int [1..<Suc (length (observationsOf s (xdObservations ?db)))]"
      "observationsOf s (xdObservations ?db) \<noteq> []" "showsState s (last (observationsOf s (xdObservations ?db)))"
      using chain unfolding chainOk_def by blast+
  next
    fix ob assume "ob \<in> set (xdObservations ?db)"
    then obtain e where "e \<in> ?ok" "reflects X e ob" using inv unfolding stateInv_def by blast
    then show "\<exists>e \<in> set (xdExecutions ?db). reflects X e ob" by (auto simp: succeeded_def)
  qed (rule first second; assumption)+
qed

section \<open>Repeated callbacks\<close>

lemma find_in_append: "find P (xs @ ys) = (case find P xs of None \<Rightarrow> find P ys | Some x \<Rightarrow> Some x)"
  by (induction xs) auto

lemma callback_recorded:
  assumes tx: "callbackTx X now request db = Inr ((False, e), db')"
  shows "GetExternalExecution (crqExternalExecutionID request) (crqOrganizationID request) db' = Inr e"
    "getExternalExecutionEventPayloadHash (crqExternalExecutionID request) (crqOrganizationID request) (crqSequence request) db'
      = Inr (CallbackPayloadHash X request)"
proof -
  obtain e0 where get: "GetExternalExecution (crqExternalExecutionID request) (crqOrganizationID request) db = Inr e0"
    using tx by (auto simp: callbackTx_def getExternalExecutionForUpdate_def bindR_eq_Inr)
  have ids: "xeID e0 = crqExternalExecutionID request" "xeOrganizationID e0 = crqOrganizationID request"
    using GetExternalExecution_Inr [OF get] by simp_all
  let ?hash = "getExternalExecutionEventPayloadHash (crqExternalExecutionID request) (crqOrganizationID request) (crqSequence request)"
  note tx = tx [unfolded callbackTx_def getExternalExecutionForUpdate_def get bindR_simps]
  have "GetExternalExecution (crqExternalExecutionID request) (crqOrganizationID request) db' = Inr e
      \<and> ?hash db' = Inr (CallbackPayloadHash X request)"
  proof (cases "?hash db")
    case (Inr h)
    then show ?thesis using tx get by (auto split: if_splits)
  next
    case (Inl err)
    then obtain checksum db1 u db2 where event: "insertExternalExecutionEvent X now request
          (if crqStatus request = ExternalSucceeded then crqObservedState request else None) (CallbackPayloadHash X request) db1 = Inr (u, db2)"
      and update: "updateExternalExecutionFromCallback now e0 request checksum db2 = Inr (e, db')"
      and project: "projectObservedState X now e0 request db = Inr (checksum, db1)"
      using tx by (auto simp: bindR_eq_Inr split: if_splits sum.splits)
    have "xdEvents db1 = xdEvents db"
      using project by (auto simp: projectObservedState_def upsertExternalExecutionObservedState_def writeObservedState_def
          insertTargetComponentObservation_def nextUuid_def Let_def bindR_eq_Inr split: if_splits option.splits sum.splits)
    moreover have "xdEvents db' = xdEvents db2" and e: "GetExternalExecution (xeID e0) (xeOrganizationID e0) db' = Inr e"
      using update by (auto simp: updateExternalExecutionFromCallback_def updateExecution_def Let_def bindR_eq_Inr)
    ultimately obtain v where "xdEvents db' = xdEvents db @ [v]" "xvExternalExecutionID v = crqExternalExecutionID request"
      "xvOrganizationID v = crqOrganizationID request" "xvSequence v = crqSequence request" "xvPayloadHash v = CallbackPayloadHash X request"
      using insertExternalEvent_Inr(4) [OF event] by auto
    then show ?thesis
      using e Inl ids by (auto simp: getExternalExecutionEventPayloadHash_def find_in_append split: option.splits)
  qed
  then show "GetExternalExecution (crqExternalExecutionID request) (crqOrganizationID request) db' = Inr e"
    "?hash db' = Inr (CallbackPayloadHash X request)" by simp_all
qed

lemma hash_later:
  "externalLater db db' \<Longrightarrow> getExternalExecutionEventPayloadHash u orgID n db = Inr h \<Longrightarrow>
     getExternalExecutionEventPayloadHash u orgID n db' = Inr h"
  by (auto simp: externalLater_def prefix_def getExternalExecutionEventPayloadHash_def find_in_append split: option.splits)

text \<open>C29: when a callback has been recorded, the external system can deliver it again at any later time: it gets the
  execution as it is then, and nothing changes.\<close>

theorem external_callback_replay:
  assumes start: "freshExternal db0"
    and recorded: "RecordExternalExecutionCallback X now request (runExternalCalls X calls db0) = (Inr e, db1)"
  shows "\<exists>e'. RecordExternalExecutionCallback X now' request (runExternalCalls X later db1) = (Inr e', runExternalCalls X later db1)
     \<and> e' \<in> set (xdExecutions (runExternalCalls X later db1)) \<and> executionLater e e'"
proof -
  let ?db = "runExternalCalls X calls db0" and ?later = "runExternalCalls X later db1"
  obtain r where r: "normalizeExternalExecutionCallback X request = Inr r" and tx: "callbackTx X now r ?db = Inr ((False, e), db1)"
    using recorded by (auto simp: RecordExternalExecutionCallback_def runExternal_def split: sum.splits bool.splits)
  note stored = callback_recorded [OF tx]
  have inv1: "externalInv X db1" using callback_good [OF run_inv [OF start] tx] by simp
  note good = runExternalCalls_good [OF inv1, of later]
  have e: "e \<in> set (xdExecutions db1)" "xeID e = crqExternalExecutionID r" "xeOrganizationID e = crqOrganizationID r"
    using GetExternalExecution_Inr [OF stored(1)] by simp_all
  then obtain e' where e': "e' \<in> set (xdExecutions ?later)" "executionLater e e'"
    using good(2) unfolding externalLater_def by blast
  have same: "frozen e' = frozen e" using e'(2) by (simp add: executionLater_def)
  have "GetExternalExecution (crqExternalExecutionID r) (crqOrganizationID r) ?later = Inr e'"
    using GetExternalExecution_found [of ?later e'] good(1) e'(1) e(2,3)
    by (simp add: externalInv_def historyInv_def frozenD(1,2) [OF same])
  then have "callbackTx X now' r ?later = Inr ((False, e'), ?later)"
    using hash_later [OF good(2) stored(2)] by (simp add: callbackTx_def getExternalExecutionForUpdate_def)
  then show ?thesis using r e' by (simp add: RecordExternalExecutionCallback_def runExternal_def)
qed

section \<open>Messages\<close>

lemma runeLength_prefix:
  assumes "runeLength (a # bs) = n" "n \<noteq> 0"
  shows "n \<le> length (a # bs) \<and> n \<le> 4 \<and> runeLength (take 4 (take n (a # bs) @ rest)) = n"
proof -
  consider "bs = []" | b where "bs = [b]" | b c where "bs = [b, c]" | b c d cs where "bs = b # c # d # cs"
    by (metis list.exhaust)
  then show ?thesis
    using assms by cases (auto simp: runeLength_def Let_def numeral_2_eq_2 numeral_3_eq_3 numeral_eq_Suc split: if_splits)
qed

definition validRune :: "string \<Rightarrow> bool" where
  "validRune r \<longleftrightarrow> r \<noteq> [] \<and> (\<forall>rest. runeLength (map of_char (take 4 (r @ rest))) = length r)"

lemma validRune_prefix:
  assumes "s \<noteq> []" "runeLength (map of_char (take 4 s)) = n" "n \<noteq> 0"
  shows "validRune (take n s)"
proof -
  obtain c cs where s: "s = c # cs" using assms(1) by (cases s) auto
  have take4: "map of_char (take 4 s) = of_char c # map of_char (take 3 cs)" by (simp add: s numeral_eq_Suc)
  note prefix = runeLength_prefix [OF assms(2) [unfolded take4] assms(3)]
  have n: "n \<le> length s" "n \<le> 4" using prefix [of "[]"] by (simp_all add: s min_le_iff_disj del: min.bounded_iff) linarith+
  have "runeLength (map of_char (take 4 (take n s @ rest))) = n" for rest
    using conjunct2 [OF conjunct2 [OF prefix [of "map of_char rest"]]] n(2) unfolding take4 [symmetric]
    by (simp add: take_map min_def)
  then show ?thesis using n assms(1,3) by (simp add: validRune_def)
qed

lemma replacement_valid: "validRune [char_of (0xEF::nat), char_of (0xBF::nat), char_of (0xBD::nat)]"
proof -
  have "runeLength (0xEF # 0xBF # 0xBD # rest) = 3" for rest by (simp add: runeLength_def numeral_eq_Suc)
  then show ?thesis by (simp add: validRune_def take_Cons' of_char_of)
qed

lemma runes_valid: "r \<in> set (runes s) \<Longrightarrow> validRune r"
proof (induction s rule: runes.induct)
  case (1 s)
  let ?n = "runeLength (map of_char (take 4 s))"
  consider "s \<noteq> []" "?n = 0" | "s \<noteq> []" "?n \<noteq> 0" using 1(3) by (cases "s = []") (auto simp: runes.simps)
  then show ?case
  proof cases
    case 1
    then show ?thesis using "1.prems" "1.IH"(1) [OF _ refl] replacement_valid by (simp add: runes.simps [of s] Let_def) blast
  next
    case 2
    then show ?thesis using "1.prems" "1.IH"(2) [OF _ refl] validRune_prefix [of s] by (simp add: runes.simps [of s] Let_def) blast
  qed
qed

lemma runes_concat: "(\<And>r. r \<in> set rs \<Longrightarrow> validRune r) \<Longrightarrow> runes (concat rs) = rs"
proof (induction rs)
  case Nil
  then show ?case by (simp add: runes.simps)
next
  case (Cons r rs)
  then have "r \<noteq> []" "runeLength (map of_char (take 4 (r @ concat rs))) = length r" by (auto simp: validRune_def)
  then show ?case using Cons by (subst runes.simps) (auto simp: Let_def)
qed

lemma length_runes: "length (runes s) \<le> length s"
proof (induction s rule: runes.induct)
  case (1 s)
  then show ?case
    by (subst runes.simps) (auto simp: Let_def Suc_le_eq intro: order.strict_trans1)
qed

lemma limited_message: "length (runes (limitExternalExecutionMessage message)) \<le> 2048"
proof -
  have "runes (concat (take 2048 (runes message))) = take 2048 (runes message)"
    using runes_valid by (intro runes_concat) (metis in_set_takeD)
  then show ?thesis by (simp add: limitExternalExecutionMessage_def MaxStepRunEventMessageLength_def)
qed

section \<open>Ending an execution\<close>

lemma runes_Nil [simp]: "runes [] = []"
  by (simp add: runes.simps)

lemma endMessage_short: "length fallback \<le> 2048 \<Longrightarrow> length (runes (endMessage message fallback)) \<le> 2048"
  using limited_message length_runes [of fallback] by (simp add: endMessage_def Let_def)

lemma end_possible:
  assumes inv: "externalInv X db" and e: "e \<in> set (xdExecutions db)" and running: "\<not> externalIsTerminal (xeStatus e)"
    and status: "status = ExternalFailed \<or> status = ExternalTimedOut" and message: "length (runes message) \<le> 2048"
  shows "\<exists>db'. endExecutionLocked X now status e message db = Inr (endUpdate now status (xeLastCallbackSequence e + 1) message e, db')"
proof -
  let ?r = "endRequest e status message"
  have history: "historyInv (xdExecutions db) (xdEvents db)" using inv by (simp add: externalInv_def)
  note next_ = history_next [OF history e]
  have seq: "crqSequence ?r = xeLastCallbackSequence e + 1" by (simp add: endRequest_def wrap64_next [OF inv e])
  have "ValidateCallbackSequence (crqSequence ?r) status = Inr ()"
    using next_(4) [OF running] status by (auto simp: seq ValidateCallbackSequence_def MaxEventCount_def externalIsTerminal_def)
  moreover have "eventViolation ?r db = None"
    unfolding eventViolation_def seq using next_ running status message e
    by (auto simp: endRequest_def list_ex_iff)
  ultimately show ?thesis
    using updateExecution_Inr [of _ e "endUpdate now status (crqSequence ?r) message"] history e
    by (simp add: endExecutionLocked_def Let_def insertExternalExecutionEvent_def nextUuid_def historyInv_def seq [symmetric]
        frozen_def endUpdate_def)
qed

text \<open>C30: an execution that has not ended can always be ended by the hub, whatever was reported before: the last of
  the 256 events is reserved for it. A failed trigger ends it as FAILED, and from the callback deadline on,
  and not before, a timeout ends it as TIMED_OUT.\<close>

theorem external_execution_can_end:
  assumes start: "freshExternal db0" and e: "e \<in> set (xdExecutions (runExternalCalls X calls db0))"
    and running: "\<not> externalIsTerminal (xeStatus e)" and ids: "xeID e \<noteq> uuid_Nil" "xeOrganizationID e \<noteq> uuid_Nil"
  shows "(let db = runExternalCalls X calls db0;
       request = \<lparr>nrqOrganizationID = xeOrganizationID e, nrqExternalExecutionID = xeID e, nrqMessage = message\<rparr> in
     (\<exists>e' db'. FailExternalExecution X now request db = (Inr e', db') \<and> executionLater e e' \<and> xeStatus e' = ExternalFailed)
     \<and> (if now < xeCallbackDeadlineAt e
        then TimeoutExternalExecution X now request db = (Inl (ErrConflict ''external execution callback deadline has not elapsed''), db)
        else \<exists>e' db'. TimeoutExternalExecution X now request db = (Inr e', db') \<and> executionLater e e'
          \<and> xeStatus e' = ExternalTimedOut))"
proof -
  let ?db = "runExternalCalls X calls db0"
  have inv: "externalInv X ?db" by (rule run_inv [OF start])
  have get: "GetExternalExecution (xeID e) (xeOrganizationID e) ?db = Inr e"
    using GetExternalExecution_found [OF _ e] inv by (simp add: externalInv_def historyInv_def)
  have ended: "\<exists>db'. endExecutionLocked X now status e (endMessage message fallback) ?db
      = Inr (endUpdate now status (xeLastCallbackSequence e + 1) (endMessage message fallback) e, db')"
    if "status = ExternalFailed \<or> status = ExternalTimedOut" "length fallback \<le> 2048" for status fallback
    by (rule end_possible [OF inv e running that(1) endMessage_short [OF that(2)]])
  have later: "executionLater e (endUpdate now status n m e)" "xeStatus (endUpdate now status n m e) = status" for status n m
    using running by (simp_all add: executionLater_def endUpdate_def frozen_def)
  show ?thesis
    using ended [of ExternalFailed "''external execution trigger failed''"]
      ended [of ExternalTimedOut "''external execution callback timed out''"] ids running get later
    by (auto simp: Let_def FailExternalExecution_def TimeoutExternalExecution_def failTx_def timeoutTx_def runExternal_def
        getExternalExecutionForUpdate_def timeoutExternalExecutionLocked_def)
qed

section \<open>An example\<close>

definition exExternalLib :: externalLib where
  "exExternalLib = \<lparr>xlPlatform = \<lparr>pfUuidString = (\<lambda>_. ''u''), pfSha256 = (\<lambda>_. []), pfBase64 = (\<lambda>s. s), pfCollate = (\<lambda>_ _. False),
       pfLower = (\<lambda>s. s), pfRandomUuid = of_nat\<rparr>,
     xlPlan = exPlanLib, xlParseRequestURI = (\<lambda>_. None), xlSetQuery = (\<lambda>_ _ _. None), xlMarshalCallback = (\<lambda>_. ''c''),
     xlMarshalObserved = (\<lambda>_. ''o''), xlDeferred = True\<rparr>"

definition exChecksum :: string where
  "exChecksum = ''sha256:'' @ replicate 64 CHR ''a''"

definition exExecution :: ExternalExecution where
  "exExecution = \<lparr>xeID = 1, xeCreatedAt = 0, xeUpdatedAt = 0, xeStartedAt = None, xeCompletedAt = None, xeCallbackDeadlineAt = 60,
     xeOrganizationID = 2, xeStepRunID = 3, xeTaskID = 4, xeDeploymentPlanID = 5, xeDeploymentPlanTargetID = 6,
     xeDeploymentTargetID = 7, xeApplicationID = 8, xeReleaseBundleID = 9, xeComponent = ''api'', xePlanChecksum = exChecksum,
     xeIdempotencyKey = ''k'', xeExpectedStateVersion = 0, xeExpectedStateChecksum = [], xeExpectedVersion = ''1'',
     xeExpectedImage = ''i'', xeExpectedPlatform = ''linux/amd64'', xeExpectedContracts = [], xeExpectedConfigReference = ''r'',
     xeExpectedConfigChecksum = exChecksum, xeExpectedComposeReference = [], xeExpectedComposeChecksum = [],
     xeStatus = ExternalQueued, xeProviderReference = [], xeProviderURL = [], xeTriggerAttempts = 0, xeLastCallbackSequence = 0,
     xeLastMessage = [], xeErrorSummary = [], xeActualVersion = [], xeActualImage = [], xeActualPlatform = None,
     xeActualContracts = [], xeActualConfigReference = [], xeActualConfigChecksum = [], xeActualHealth = None,
     xeObservedStateChecksum = []\<rparr>"

text \<open>The task of the execution holds the lock of the component.\<close>

definition exExternalDb :: externalDb where
  "exExternalDb = \<lparr>xdQueue = \<lparr>dbTasks = [], dbLocks = [\<lparr>tlkID = 1, tlkCreatedAt = 0, tlkUpdatedAt = 0, tlkAcquiredAt = Some 0,
         tlkReleasedAt = None, tlkOrganizationID = 2, tlkTaskID = 4, tlkResourceType = TaskLockResourceTargetComponent,
         tlkResourceKey = ''u:api'', tlkConcurrencyPolicy = TaskConcurrencyPolicyQueue\<rparr>],
       dbStepRuns = [], dbLeases = [], dbEvents = [], dbLogChunks = [], dbOutputs = [], dbPlans = [], dbPlanTargets = [],
       dbPlanTargetComponents = [], dbPlanSteps = [], dbBundles = [], dbSecrets = [], dbTaskQueueOrder = 0, dbRandom = 0\<rparr>,
     xdPlans = [], xdPreflightRuns = [], xdExecutions = [exExecution], xdEvents = [], xdStates = [], xdObservations = []\<rparr>"

definition exCallback :: RecordExternalExecutionCallbackRequest where
  "exCallback = \<lparr>crqOrganizationID = 2, crqExternalExecutionID = 1, crqSequence = 1, crqStatus = ExternalSucceeded,
     crqProviderReference = [], crqProviderURL = [], crqMessage = [],
     crqObservedState = Some \<lparr>xoVersion = ''1'', xoImage = ''i'', xoPlatform = ''linux/amd64'', xoContracts = Some [],
       xoConfigReference = ''r'', xoConfigChecksum = exChecksum, xoHealth = TargetComponentHealthHealthy\<rparr>\<rparr>"

lemma exExternalDb_fresh: "freshExternal exExternalDb"
  by (simp add: freshExternal_def exExternalDb_def exExecution_def)

lemma exTexts: "TrimSpace [] = []" "RedactString [] = ([], False)" "limitExternalExecutionMessage [] = []" "sortStrings [] = []"
  by (simp_all add: limitExternalExecutionMessage_def sortStrings_def RedactString_def RedactStringWithValues_def Let_def
      secretPatterns_def normalizedSecretValues_def)

lemma exCallback_normal: "normalizeExternalExecutionCallback exExternalLib exCallback = Inr exCallback"
  by (simp add: normalizeExternalExecutionCallback_def exCallback_def exTexts IsCallbackStatus_def Let_def ContainsAny_def
      ValidateProviderURL_def)

lemma exChecksum_pattern: "checksumPattern exChecksum"
  by (simp add: checksumPattern_def exChecksum_def list_all_iff less_eq_char_def)

lemma exCallback_valid: "ValidateObservedState exExternalLib (expectedState exExecution) (the (crqObservedState exCallback)) = Inr ()"
  by (simp add: ValidateObservedState_def expectedState_def exExecution_def exCallback_def exExternalLib_def exPlanLib_def
      EqualFold_def exTexts contractList_def)

lemma exCallback_recorded:
  "\<exists>db. RecordExternalExecutionCallback exExternalLib 0 exCallback exExternalDb
     = (Inr (callbackUpdate 0 exCallback exExecution (ObservedStateChecksum exExternalLib (the (crqObservedState exCallback))) exExecution), db)
     \<and> length (xdStates db) = 1 \<and> length (xdObservations db) = 1"
proof -
  have get: "GetExternalExecution 1 2 exExternalDb = Inr exExecution"
    by (simp add: GetExternalExecution_def exExternalDb_def exExecution_def)
  have lock: "requireExternalExecutionComponentLock exExternalLib 2 4 7 ''api'' exExternalDb = Inr ()"
    by (simp add: requireExternalExecutionComponentLock_def exExternalDb_def exExternalLib_def)
  let ?checksum = "ObservedStateChecksum exExternalLib (the (crqObservedState exCallback))"
  let ?row = "observedStateRow 0 exExecution (the (crqObservedState exCallback)) ?checksum (emptyStateRow 0 0 exExecution)"
  have sane: "stateViolation exExecution (the (crqObservedState exCallback)) = None"
    by (simp add: stateViolation_def exExecution_def exCallback_def exChecksum_pattern platformPattern_def sqlBlank_def sqlTrim_def wrap64_def)
  obtain db0 where "writeObservedState exExternalLib 0 exExecution (the (crqObservedState exCallback)) ?checksum exExternalDb = Inr (?row, db0)"
    and db0: "xdStates db0 = [?row]" "xdObservations db0 = []" "xdEvents db0 = []" "xdExecutions db0 = [exExecution]"
    using sane by (auto simp: writeObservedState_def Let_def newUuid_def nextUuid_def exExternalLib_def exExternalDb_def exExecution_def)
  then obtain db1 where project: "projectObservedState exExternalLib 0 exExecution exCallback exExternalDb = Inr (?checksum, db1)"
    and db1: "length (xdStates db1) = 1" "length (xdObservations db1) = 1" "xdEvents db1 = []" "xdExecutions db1 = [exExecution]"
    using exCallback_valid lock
    by (auto simp: projectObservedState_def upsertExternalExecutionObservedState_def insertTargetComponentObservation_def nextUuid_def
        exCallback_def exExecution_def Let_def)
  have "eventViolation exCallback db1 = None"
    by (simp add: eventViolation_def exCallback_def db1 exExecution_def)
  then obtain db2 where event: "insertExternalExecutionEvent exExternalLib 0 exCallback (crqObservedState exCallback)
      (CallbackPayloadHash exExternalLib exCallback) db1 = Inr ((), db2)"
    and db2: "length (xdStates db2) = 1" "length (xdObservations db2) = 1" "xdExecutions db2 = [exExecution]"
    using db1 by (simp add: insertExternalExecutionEvent_def nextUuid_def)
  have update: "updateExternalExecutionFromCallback 0 exExecution exCallback ?checksum db2
      = Inr (callbackUpdate 0 exCallback exExecution ?checksum exExecution,
          db2\<lparr>xdExecutions := updateOne exExecution (callbackUpdate 0 exCallback exExecution ?checksum) (xdExecutions db2)\<rparr>)"
    unfolding updateExternalExecutionFromCallback_def by (rule updateExecution_Inr) (simp_all add: db2)
  have none: "getExternalExecutionEventPayloadHash 1 2 1 exExternalDb = Inl ErrNotFound"
    by (simp add: getExternalExecutionEventPayloadHash_def exExternalDb_def)
  have facts: "crqExternalExecutionID exCallback = 1" "crqOrganizationID exCallback = 2" "crqSequence exCallback = 1"
    "crqStatus exCallback = ExternalSucceeded" "xeStatus exExecution = ExternalQueued" "xeCallbackDeadlineAt exExecution = 60"
    "xeLastCallbackSequence exExecution = 0"
    by (simp_all add: exCallback_def exExecution_def)
  show ?thesis
    using project event update db2
    by (simp add: RecordExternalExecutionCallback_def exCallback_normal runExternal_def callbackTx_def getExternalExecutionForUpdate_def
        get none facts externalIsTerminal_def wrap64_def ValidateCallbackSequence_def MaxEventCount_def CanCallbackTransition_def
        IsCallbackStatus_def)
qed

theorem external_execution_history_witness:
  "\<exists>db e. db = runExternalCalls exExternalLib [(0, CallbackCall exCallback)] exExternalDb \<and> e \<in> set (xdExecutions db)
     \<and> xeStatus e = ExternalSucceeded \<and> xvStatus (last (eventsOf e (xdEvents db))) = ExternalSucceeded"
proof -
  define db where "db = runExternalCalls exExternalLib [(0, CallbackCall exCallback)] exExternalDb"
  obtain e where e: "RecordExternalExecutionCallback exExternalLib 0 exCallback exExternalDb = (Inr e, db)"
    and status: "xeStatus e = ExternalSucceeded"
    using exCallback_recorded by (auto simp: db_def runExternalCalls_def exCallback_def)
  have "callbackTx exExternalLib 0 exCallback exExternalDb = Inr ((False, e), db)"
    using e by (auto simp: RecordExternalExecutionCallback_def exCallback_normal runExternal_def split: sum.splits bool.splits)
  then have "e \<in> set (xdExecutions db)" using GetExternalExecution_Inr [OF callback_recorded(1)] by blast
  then show ?thesis
    using external_execution_history [OF exExternalDb_fresh, of e exExternalLib "[(0, CallbackCall exCallback)]" "[]"] status
    by (auto simp: db_def [symmetric] Let_def externalIsTerminal_def)
qed

theorem target_states_follow_executions_witness:
  "\<exists>s. xdStates (runExternalCalls exExternalLib [(0, CallbackCall exCallback)] exExternalDb) = [s]
     \<and> showsState s (last (xdObservations (runExternalCalls exExternalLib [(0, CallbackCall exCallback)] exExternalDb)))"
proof -
  define db where "db = runExternalCalls exExternalLib [(0, CallbackCall exCallback)] exExternalDb"
  have one: "length (xdStates db) = 1" "length (xdObservations db) = 1"
    using exCallback_recorded by (auto simp: db_def runExternalCalls_def)
  then obtain s ob where lists: "xdStates db = [s]" "xdObservations db = [ob]" by (auto simp: length_Suc_conv)
  have "showsState s (last (observationsOf s (xdObservations db)))" "observationsOf s (xdObservations db) \<noteq> []"
    using target_states_follow_executions [OF exExternalDb_fresh, of exExternalLib "[(0, CallbackCall exCallback)]"] lists(1)
    by (simp_all add: db_def [symmetric] Let_def)
  then show ?thesis using lists by (auto simp: db_def [symmetric] split: if_splits)
qed

theorem external_callback_replay_witness:
  "\<exists>db e. RecordExternalExecutionCallback exExternalLib 0 exCallback exExternalDb = (Inr e, db)
     \<and> RecordExternalExecutionCallback exExternalLib 100 exCallback db = (Inr e, db)"
proof -
  obtain e db where e: "RecordExternalExecutionCallback exExternalLib 0 exCallback exExternalDb = (Inr e, db)"
    and status: "xeStatus e = ExternalSucceeded"
    using exCallback_recorded by (auto simp: exCallback_def)
  then show ?thesis
    using external_callback_replay [OF exExternalDb_fresh, of exExternalLib 0 exCallback "[]" e db 100 "[]"]
    by (auto simp: runExternalCalls_def executionLater_def externalIsTerminal_def)
qed

theorem external_execution_can_end_witness:
  "\<exists>e db. TimeoutExternalExecution exExternalLib 60 \<lparr>nrqOrganizationID = 2, nrqExternalExecutionID = 1, nrqMessage = []\<rparr> exExternalDb = (Inr e, db)
     \<and> xeStatus e = ExternalTimedOut"
proof -
  have e: "exExecution \<in> set (xdExecutions (runExternalCalls exExternalLib [] exExternalDb))"
    by (simp add: runExternalCalls_def exExternalDb_def)
  have "\<not> externalIsTerminal (xeStatus exExecution)" "xeID exExecution \<noteq> uuid_Nil" "xeOrganizationID exExecution \<noteq> uuid_Nil"
    by (simp_all add: exExecution_def externalIsTerminal_def)
  from external_execution_can_end [OF exExternalDb_fresh e this, of "[]" 60]
  show ?thesis by (auto simp: runExternalCalls_def Let_def exExecution_def)
qed

end
