(* ===== verification/Spec2Isabelle.thy ===== *)
theory Spec2Isabelle
  imports Rolling Blue_Green Webhook_Policy Lease_Grants Variable_Sets Process_Revisions External_Properties
begin

text \<open>
  Distr is a hub that customers' agents connect to. Users publish release bundles of applications
  and plan their deployment to targets; the hub turns a plan into tasks with step runs, hands
  the tasks out to executors (agents at the targets, or its own worker) under leases, and takes the
  executors' events in. Steps may be carried out by external systems, which report through callbacks.
  This development models the parts of the hub that decide: what may be released, planned and
  run, who may run it, what is recorded, and what is kept back.

  \<^bold>\<open>Theories and the code they model.\<close>

  \<^item> \<open>Go_Prelude\<close>: what the Go standard library does where the code uses it (strings, stable
    sort, maps as association lists, integer formatting), the error values of internal/apierrors and
    the generic machine with invariants (locale \<open>driven_machine\<close>) the components interpret.
  \<^item> \<open>Rolling\<close> (internal/deployments/rolling.go), \<open>Traffic_Provider\<close> (internal/traffic/provider) and
    \<open>Blue_Green\<close> (internal/deployments/bluegreen): the rollout strategies, pure state machines.
  \<^item> \<open>Webhook_Policy\<close> (internal/policy): rate limits, circuits, concurrency and failure limits in front of
    outgoing webhooks.
  \<^item> \<open>Variable_Resolution\<close> (internal/variablescope, internal/variableresolution) and \<open>Variable_Sets\<close> (the validation in
    internal/db/variable_sets.go): scopes, precedence, and the normal form of variable sets.
  \<^item> \<open>Process_Types\<close>, \<open>Action_Registry\<close> (internal/actionregistry), \<open>Step_Conditions\<close> (internal/conditions), \<open>Step_Graph\<close> and
    \<open>Process_Revisions\<close> (the validation in internal/db/deployment_processes.go, runbooks.go and api): the steps of
    processes and runbooks, their inputs, conditions and dependencies.
  \<^item> \<open>Release_Contracts\<close> (internal/releasebundles), \<open>Lifecycle_Eligibility\<close> (internal/lifecycle), \<open>Deployment_Plans\<close>
    (internal/db/deployment_plans.go) and \<open>Deployment_Preflight\<close> (internal/deploymentpreflight,
    internal/db/deployment_preflight.go): from the content of a release to a plan for an environment and its targets, the
    issues that block it, and the checks before it is executed.
  \<^item> \<open>Task_Types\<close> (internal/types), \<open>Task_Db\<close>, \<open>Task_Queue\<close> (internal/db/task_queue.go): the database as a
    record of tables, SQL statements as functions on it, a transaction as a function to an error or a
    result with the new database (\<open>RunTx\<close> drops the database of a failed one), and the creation, state
    transitions, resource locks and concurrency policies of tasks.
  \<^item> \<open>Lease_Steps\<close>, \<open>Secret_Bindings\<close>, \<open>Task_Leases\<close> (internal/db/task_leases.go): which steps a lease holds, the
    secrets bound into them, candidates, expiry, heartbeats.
  \<^item> \<open>Step_Redaction\<close> (internal/stepredaction), \<open>Step_Events\<close> (internal/db/step_events.go): validation,
    redaction, sequence numbers, transitions and storage of the executors' events.
  \<^item> \<open>External_Executions\<close> (internal/externalexecution, internal/db/external_executions.go): executions that external
    systems report, and the states of target components they leave behind. They build on the plans, the
    preflight and the locks of the task queue.
  \<^item> \<open>Task_Invariants\<close>, \<open>Task_System\<close>, \<open>Task_Properties\<close>, \<open>Task_Operations\<close>, \<open>Event_Replay\<close>, \<open>Lease_Grants\<close>,
    \<open>External_History\<close> and \<open>External_Properties\<close> hold no model of further code: the invariants of the tables, the proof that every
    transaction keeps them, and the properties of runs and of single operations.

  \<^bold>\<open>What is shown.\<close> For the queue as a whole, over every sequence of calls of all its operations and of
  writes by other components to their own tables: running tasks exclude each other on
  resources, a task has one live lease and it is never taken from a live executor, a terminal task is
  final, events are numbered without gaps. For external executions, likewise over every run: the events determine
  the status, the states of components are never overwritten unseen, callbacks can be repeated, and an execution can
  always be ended. For single operations: creating tasks and recording
  events can be repeated, expired leases put exactly the interrupted steps back, the leased steps are
  the ready ones in dependency order, every secret that a lease hands out is redacted in what comes
  back. For what is released and planned: the canonical release does not depend on the order of its parts, a release is
  eligible and a plan is ready exactly when the stated facts hold, and the preflight passes exactly when nothing has changed since.
  For what users enter: variables resolve by precedence and never show secrets, conditions are parsed back as
  printed, accepted processes are acyclic and make progress. For the rollouts: bounded unavailability, thresholds that halt,
  health before traffic, and that
  a rollout ends. For the policy engine: its limits hold in every history.

  \<^bold>\<open>Arguments of the model.\<close> The record \<open>platform\<close> holds what the code takes from outside: random UUIDs, the
  text form of UUIDs, SHA-256, base64, the collation of the database, lower-casing of letters beyond ASCII; \<open>eventCodec\<close> the JSON
  encoder and the digest of a canonical payload; \<open>valueLib\<close>, \<open>schemaLib\<close>, \<open>releaseLib\<close>, \<open>planLib\<close> and \<open>externalLib\<close> the JSON
  encoders, number parsing, JSON schemas, semantic versions and URLs of the other components. \<open>planWorld\<close> and
  \<open>preflightWorld\<close> hold the queries of the planning: the stored rows when a transaction runs. Time is an argument of each call. SKIP LOCKED
  is an argument that names the rows other transactions hold. The preflight evaluation of a plan is
  an argument of the creation of tasks; for external executions it is the modelled one. A transaction is one step: the code takes row and
  advisory locks so that transactions on the same rows follow one another.

  \<^bold>\<open>Loops.\<close> Recursion is structural, but for the selection of ready steps (\<open>readyLoop\<close>, which ends because each
  pass takes a candidate or stops), the cycle check (\<open>visit\<close>, which ends because each call either moves on in a list of
  dependencies or visits a further key), and the functions that consume their text (\<open>splitAt\<close>, \<open>runes\<close>, \<open>itoa\<close>, the matchers of the
  redaction). No definition has fuel.

  \<^bold>\<open>Not modelled.\<close> HTTP handlers, the agents' drivers for Docker and Kubernetes, migrations, mail, the registry, licences, billing
  and other code whose work is input and output; statements that only read or write single rows; listings; metrics and tracing; lost
  connections. The repair of stored timestamps (internal/externalexecutiontimestamp) is a one-time migration whose content is SQL over the
  catalog. Rows of the queue's tables and of external executions are deleted only by the purge of an organization
  (internal/db/organization.go), which the runs leave out.
\<close>

end
